(* ===== verification/Prelude.thy ===== *)
theory Prelude
  imports Main "HOL-Library.Word"
begin

text \<open>
  Shared types and lemmas of the development.

  \<^item> Machine types: \<open>u8\<close>, \<open>u16\<close>, \<open>u32\<close> (\<open>unsigned int\<close>) and \<open>u64\<close> (\<open>unsigned long\<close>
    on the 64-bit hosts the program is built for).
  \<^item> The computations of the program: a function from the state to \<open>None\<close> (the code never
    returns) or to the outcome and the state reached. The outcome is \<open>Inr x\<close> (normal return of
    \<open>x\<close>) or \<open>Inl e\<close>: \<open>Thrown msg\<close> is the C++ exception that \<open>check\<close> and \<open>unixCheck\<close> of
    \<^verbatim>\<open>utils.cc\<close> throw, \<open>Exited n\<close> a call of \<open>exit(n)\<close>, and \<open>Undef\<close> the point where the
    C++ has no defined behaviour (an access outside an array, a NULL dereference). State changes
    made before an exception are kept, as in the program.
  \<^item> \<open>preserves I m\<close>: \<open>m\<close> keeps the invariant \<open>I\<close> on normal and on exceptional return;
    its rules are collected in \<open>preserve\<close>, so that a handler is proved operation by operation.
\<close>

unbundle bit_operations_syntax

type_synonym u8 = "8 word"
type_synonym u16 = "16 word"
type_synonym u32 = "32 word"
type_synonym u64 = "64 word"

named_theorems preserve "rules that a computation keeps an invariant"
named_theorems io_simps "evaluation of the computation combinators"

section \<open>Computations\<close>

datatype err = Thrown string | Exited int | Undef

type_synonym ('s, 'a) io = "'s \<Rightarrow> ((err + 'a) \<times> 's) option"

definition io_ret :: "'a \<Rightarrow> ('s, 'a) io" where
  "io_ret x = (\<lambda>s. Some (Inr x, s))"

definition io_throw :: "err \<Rightarrow> ('s, 'a) io" where
  "io_throw e = (\<lambda>s. Some (Inl e, s))"

definition io_bind :: "('s, 'a) io \<Rightarrow> ('a \<Rightarrow> ('s, 'b) io) \<Rightarrow> ('s, 'b) io" where
  "io_bind m f = (\<lambda>s. case m s of None \<Rightarrow> None
     | Some (Inl e, s') \<Rightarrow> Some (Inl e, s')
     | Some (Inr x, s') \<Rightarrow> f x s')"

definition io_then :: "('s, 'a) io \<Rightarrow> ('s, 'b) io \<Rightarrow> ('s, 'b) io" where
  "io_then m k = io_bind m (\<lambda>_. k)"

definition io_get :: "('s \<Rightarrow> 'a) \<Rightarrow> ('s, 'a) io" where
  "io_get f = (\<lambda>s. Some (Inr (f s), s))"

definition io_put :: "('s \<Rightarrow> 's) \<Rightarrow> ('s, unit) io" where
  "io_put f = (\<lambda>s. Some (Inr (), f s))"

text \<open>An access the C++ gives no meaning to when \<open>x\<close> is \<open>None\<close>.\<close>

definition io_defined :: "'a option \<Rightarrow> ('s, 'a) io" where
  "io_defined x = (case x of None \<Rightarrow> io_throw Undef | Some y \<Rightarrow> io_ret y)"

lemma io_ret_apply [io_simps]: "io_ret x s = Some (Inr x, s)"
  by (simp add: io_ret_def)

lemma io_throw_apply [io_simps]: "io_throw e s = Some (Inl e, s)"
  by (simp add: io_throw_def)

lemma io_get_apply [io_simps]: "io_get f s = Some (Inr (f s), s)"
  by (simp add: io_get_def)

lemma io_put_apply [io_simps]: "io_put f s = Some (Inr (), f s)"
  by (simp add: io_put_def)

lemma io_bind_apply:
  "io_bind m f s = (case m s of None \<Rightarrow> None
     | Some (Inl e, s') \<Rightarrow> Some (Inl e, s') | Some (Inr x, s') \<Rightarrow> f x s')"
  by (simp add: io_bind_def)

lemma io_bind_Inr [io_simps]: "m s = Some (Inr x, s') \<Longrightarrow> io_bind m f s = f x s'"
  by (simp add: io_bind_def)

lemma io_bind_Inl [io_simps]: "m s = Some (Inl e, s') \<Longrightarrow> io_bind m f s = Some (Inl e, s')"
  by (simp add: io_bind_def)

lemma io_bind_None [io_simps]: "m s = None \<Longrightarrow> io_bind m f s = None"
  by (simp add: io_bind_def)

lemma io_then_Inr [io_simps]: "m s = Some (Inr x, s') \<Longrightarrow> io_then m k s = k s'"
  by (simp add: io_then_def io_simps)

lemma io_then_Inl [io_simps]: "m s = Some (Inl e, s') \<Longrightarrow> io_then m k s = Some (Inl e, s')"
  by (simp add: io_then_def io_simps)

lemma io_then_None [io_simps]: "m s = None \<Longrightarrow> io_then m k s = None"
  by (simp add: io_then_def io_simps)

lemma io_defined_Some [io_simps]: "io_defined (Some x) = io_ret x"
  by (simp add: io_defined_def)

lemma io_defined_None [io_simps]: "io_defined None = io_throw Undef"
  by (simp add: io_defined_def)

lemma io_bind_SomeE:
  assumes "io_bind m f s = Some (r, s')"
  obtains (err) e where "m s = Some (Inl e, s')" "r = Inl e"
    | (ok) x t where "m s = Some (Inr x, t)" "f x t = Some (r, s')"
  using assms by (auto simp: io_bind_def split: option.splits sum.splits prod.splits)

lemma io_bind_InrE:
  assumes "io_bind m f s = Some (Inr y, s')"
  obtains x t where "m s = Some (Inr x, t)" "f x t = Some (Inr y, s')"
  using assms by (auto elim: io_bind_SomeE)

lemma io_then_InrE:
  assumes "io_then m k s = Some (Inr y, s')"
  obtains x t where "m s = Some (Inr x, t)" "k t = Some (Inr y, s')"
  using assms by (auto simp: io_then_def elim: io_bind_InrE)

text \<open>A function that calls itself in the continuation of a bind: the continuation is run only in a
  state that the first computation left.\<close>

lemma io_bind_cong [fundef_cong]:
  assumes "m s = m' s'" and "\<And>x t. m' s' = Some (Inr x, t) \<Longrightarrow> f x t = f' x t"
  shows "io_bind m f s = io_bind m' f' s'"
  using assms by (auto simp: io_bind_def split: option.splits sum.splits)

text \<open>The same for loops that may not end (\<open>partial_function\<close>).\<close>

lemma io_bind_mono [partial_function_mono]:
  assumes "mono_option (\<lambda>f. m f s)" and "\<And>x t. mono_option (\<lambda>f. k f x t)"
  shows "mono_option (\<lambda>f. io_bind (m f) (k f) s)"
proof -
  have eq: "io_bind a b s = Option.bind (a s) (\<lambda>p. case fst p of Inl e \<Rightarrow> Some (Inl e, snd p) | Inr x \<Rightarrow> b x (snd p))"
    for a b
    by (auto simp: io_bind_def split: option.split sum.split)
  show ?thesis
    unfolding eq
  proof (rule bind_mono [OF assms(1)])
    fix p
    show "mono_option (\<lambda>f. case fst p of Inl e \<Rightarrow> Some (Inl e, snd p) | Inr x \<Rightarrow> k f x (snd p))"
      using assms(2) by (cases "fst p") (simp_all add: monotone_def flat_ord_def)
  qed
qed

lemma io_then_mono [partial_function_mono]:
  assumes "mono_option (\<lambda>f. m f s)" and "\<And>t. mono_option (\<lambda>f. k f t)"
  shows "mono_option (\<lambda>f. io_then (m f) (k f) s)"
  unfolding io_then_def by (intro io_bind_mono assms)

text \<open>The monad laws.\<close>

lemma io_bind_ret_left: "io_bind (io_ret x) f = f x"
  by (simp add: fun_eq_iff io_bind_def io_ret_def)

lemma io_bind_ret_right: "io_bind m io_ret = m"
  by (auto simp: fun_eq_iff io_bind_def io_ret_def split: option.splits sum.splits)

lemma io_bind_assoc: "io_bind (io_bind m f) g = io_bind m (\<lambda>x. io_bind (f x) g)"
  by (auto simp: fun_eq_iff io_bind_def split: option.splits sum.splits)

section \<open>Invariants of computations\<close>

definition preserves :: "('s \<Rightarrow> bool) \<Rightarrow> ('s, 'a) io \<Rightarrow> bool" where
  "preserves I m \<longleftrightarrow> (\<forall>s r s'. I s \<longrightarrow> m s = Some (r, s') \<longrightarrow> I s')"

lemma preservesI [intro?]: "(\<And>s r s'. I s \<Longrightarrow> m s = Some (r, s') \<Longrightarrow> I s') \<Longrightarrow> preserves I m"
  unfolding preserves_def by blast

lemma preservesD: "preserves I m \<Longrightarrow> m s = Some (r, s') \<Longrightarrow> I s \<Longrightarrow> I s'"
  unfolding preserves_def by blast

lemma preserves_ret [preserve]: "preserves I (io_ret x)"
  by (auto simp: preserves_def io_ret_def)

lemma preserves_throw [preserve]: "preserves I (io_throw e)"
  by (auto simp: preserves_def io_throw_def)

lemma preserves_get [preserve]: "preserves I (io_get f)"
  by (auto simp: preserves_def io_get_def)

lemma preserves_put: "(\<And>s. I s \<Longrightarrow> I (f s)) \<Longrightarrow> preserves I (io_put f)"
  by (auto simp: preserves_def io_put_def)

lemma preserves_defined [preserve]: "preserves I (io_defined x)"
  by (auto simp: io_defined_def preserve split: option.splits)

lemma preserves_bind [preserve]:
  "preserves I m \<Longrightarrow> (\<And>x. preserves I (f x)) \<Longrightarrow> preserves I (io_bind m f)"
  unfolding preserves_def by (metis io_bind_SomeE)

lemma preserves_then [preserve]: "preserves I m \<Longrightarrow> preserves I k \<Longrightarrow> preserves I (io_then m k)"
  unfolding io_then_def by (rule preserves_bind)

lemma preserves_if [preserve]:
  "(b \<Longrightarrow> preserves I m) \<Longrightarrow> (\<not> b \<Longrightarrow> preserves I k) \<Longrightarrow> preserves I (if b then m else k)"
  by simp

lemma preserves_option [preserve]:
  "(x = None \<Longrightarrow> preserves I m) \<Longrightarrow> (\<And>y. x = Some y \<Longrightarrow> preserves I (f y))
   \<Longrightarrow> preserves I (case x of None \<Rightarrow> m | Some y \<Rightarrow> f y)"
  by (cases x) auto

lemma preserves_prod [preserve]:
  "(\<And>x y. p = (x, y) \<Longrightarrow> preserves I (f x y)) \<Longrightarrow> preserves I (case p of (x, y) \<Rightarrow> f x y)"
  by (cases p) auto

lemma preserves_Let [preserve]: "(\<And>x. preserves I (f x)) \<Longrightarrow> preserves I (Let v f)"
  by (simp add: Let_def)

section \<open>Words\<close>

text \<open>Halving and doubling clears the lowest bit.\<close>

lemma halve_double: "w div 2 * 2 = w AND NOT (1 :: u64)"
proof -
  have "push_bit n (drop_bit n w) = w AND NOT (mask n)" for n
    by (rule bit_eqI) (auto simp: bit_simps)
  from this [of 1] show ?thesis
    by (simp add: drop_bit_Suc mask_eq_exp_minus_1 mult.commute)
qed

section \<open>Arrays and buffers\<close>

text \<open>
  A C array is the list of its cells. Reading or writing a cell outside it has no meaning:
  \<open>cell\<close> and \<open>store\<close> return \<open>None\<close>. \<open>store_many\<close> is \<open>memcpy\<close> of a list of bytes.
\<close>

definition cell :: "'a list \<Rightarrow> nat \<Rightarrow> 'a option" where
  "cell xs i = (if i < length xs then Some (xs ! i) else None)"

definition store :: "'a list \<Rightarrow> nat \<Rightarrow> 'a \<Rightarrow> 'a list option" where
  "store xs i v = (if i < length xs then Some (xs[i := v]) else None)"

definition store_many :: "'a list \<Rightarrow> nat \<Rightarrow> 'a list \<Rightarrow> 'a list option" where
  "store_many xs i ys =
     (if i + length ys \<le> length xs then Some (take i xs @ ys @ drop (i + length ys) xs) else None)"

definition load_many :: "'a list \<Rightarrow> nat \<Rightarrow> nat \<Rightarrow> 'a list option" where
  "load_many xs i n = (if i + n \<le> length xs then Some (take n (drop i xs)) else None)"

lemma length_store_many: "store_many xs i ys = Some zs \<Longrightarrow> length zs = length xs"
  by (auto simp: store_many_def split: if_splits)

lemma load_store_many:
  "store_many xs i ys = Some zs \<Longrightarrow> load_many zs i (length ys) = Some ys"
  by (auto simp: store_many_def load_many_def min_absorb2 split: if_splits)

lemma length_load_many: "load_many xs i n = Some ys \<Longrightarrow> length ys = n"
  by (auto simp: load_many_def split: if_splits)

lemma take_Suc_snoc: "i < length xs \<Longrightarrow> take i (xs[i := v]) @ [v] = take (Suc i) (xs[i := v])"
  by (simp add: take_Suc_conv_app_nth)

section \<open>Words\<close>

lemma unat_u8_less: "unat (x :: u8) < 256"
  using unsigned_less [of x] by simp

lemma u8_exhaust_nat: "\<exists>n<256. (x :: u8) = of_nat n"
  by (rule exI [of _ "unat x"]) (simp add: unat_u8_less)

text \<open>Equality of words is equality of their bits, for the byte-splitting lemmas below.\<close>

lemma bit_ucast_u8: "bit (ucast (x :: 'a::len word) :: u8) n \<longleftrightarrow> n < 8 \<and> bit x n"
  by (auto simp: bit_ucast_iff)

end
