(* ===== verification/Utils.thy ===== *)
theory Utils
  imports Prelude
begin

text \<open>
  \<^verbatim>\<open>src/src/utils.cc\<close>: the little-endian conversions \<open>b4_to_u32\<close>, \<open>u32_to_b4\<close>, \<open>b2_to_u16\<close>,
  \<open>u16_to_b2\<close>; the hexadecimal and escaped-binary conversions of the GDB protocol; \<open>check\<close> and
  \<open>unixCheck\<close>.

  A \<open>char\<close> is a byte. A pointer argument is the list of the bytes it points to, up to the end of
  the object; reading beyond gives \<open>None\<close>. A C string is the list of its characters, its NUL is
  the end of the list (or a byte 0). \<open>int\<close> values built by shifts are 32-bit words.
\<close>

section \<open>Little-endian numbers\<close>

fun b4_to_u32 :: "u8 list \<Rightarrow> u64 option" where
  "b4_to_u32 (b0 # b1 # b2 # b3 # _) =
     Some (ucast (ucast b0 :: u32) + ucast (push_bit 8 (ucast b1 :: u32)) +
           ucast (push_bit 16 (ucast b2 :: u32)) + ucast (push_bit 24 (ucast b3 :: u32)))"
| "b4_to_u32 _ = None"

definition u32_to_b4 :: "u64 \<Rightarrow> u8 list" where
  "u32_to_b4 l =
     [ucast (l AND 0xff), ucast (drop_bit 8 l AND 0xff),
      ucast (drop_bit 16 l AND 0xff), ucast (drop_bit 24 l AND 0xff)]"

fun b2_to_u16 :: "u8 list \<Rightarrow> u16 option" where
  "b2_to_u16 (b0 # b1 # _) = Some (ucast b0 + ucast (push_bit 8 (ucast b1 :: u32)))"
| "b2_to_u16 _ = None"

definition u16_to_b2 :: "u16 \<Rightarrow> u8 list" where
  "u16_to_b2 l = [ucast (l AND 0xff), ucast (drop_bit 8 l AND 0xff)]"

section \<open>Hexadecimal\<close>

text \<open>\<open>hexchars\<close> is the array of the characters \<^verbatim>\<open>0123456789abcdef\<close>.\<close>

definition hexchars :: "u8 list" where
  "hexchars = [0x30, 0x31, 0x32, 0x33, 0x34, 0x35, 0x36, 0x37, 0x38, 0x39,
               0x61, 0x62, 0x63, 0x64, 0x65, 0x66]"

definition byteToHex :: "u8 \<Rightarrow> u8 list" where
  "byteToHex x = [hexchars ! unat (drop_bit 4 x), hexchars ! unat (x AND 0xf)]"

definition hex :: "u8 \<Rightarrow> int" where
  "hex ch =
     (if 0x61 \<le> ch \<and> ch \<le> 0x66 then uint ch - 0x61 + 10
      else if 0x30 \<le> ch \<and> ch \<le> 0x39 then uint ch - 0x30
      else if 0x41 \<le> ch \<and> ch \<le> 0x46 then uint ch - 0x41 + 10
      else -1)"

text \<open>\<open>hexToInt(&ptr, &intValue)\<close>: the digits read so far and their value are \<open>numChars\<close> and \<open>v\<close>;
  the result is the count, the value and the string \<open>ptr\<close> is left at.\<close>

fun hexToInt_loop :: "u8 list \<Rightarrow> nat \<Rightarrow> u32 \<Rightarrow> nat \<times> u32 \<times> u8 list" where
  "hexToInt_loop [] numChars v = (numChars, v, [])"
| "hexToInt_loop (c # cs) numChars v =
     (if c = 0 then (numChars, v, c # cs)
      else if 0 \<le> hex c
      then hexToInt_loop cs (numChars + 1) (push_bit 4 v OR word_of_int (hex c))
      else (numChars, v, c # cs))"

definition hexToInt :: "u8 list \<Rightarrow> nat \<times> u32 \<times> u8 list" where
  "hexToInt p = hexToInt_loop p 0 0"

fun mem2hex :: "u8 list \<Rightarrow> nat \<Rightarrow> u8 list option" where
  "mem2hex mem 0 = Some []"
| "mem2hex [] (Suc n) = None"
| "mem2hex (b # mem) (Suc n) = map_option (\<lambda>r. byteToHex b @ r) (mem2hex mem n)"

fun hex2mem :: "u8 list \<Rightarrow> nat \<Rightarrow> u8 list option" where
  "hex2mem buf 0 = Some []"
| "hex2mem (h # l # buf) (Suc n) =
     map_option (\<lambda>r. (word_of_int (hex h * 16) + word_of_int (hex l)) # r) (hex2mem buf n)"
| "hex2mem _ (Suc n) = None"

section \<open>Escaped binary\<close>

text \<open>The character 0x7d is dropped only before 0x03, 0x04 and 0x5d; what follows it then has bit
  5 set.\<close>

fun bin2mem :: "u8 list \<Rightarrow> nat \<Rightarrow> u8 list option" where
  "bin2mem buf 0 = Some []"
| "bin2mem [] (Suc n) = None"
| "bin2mem (c # buf) (Suc n) =
     (if c = 0x7d then
        (case buf of [] \<Rightarrow> None
         | d # buf' \<Rightarrow>
             if d = 0x03 \<or> d = 0x04 \<or> d = 0x5d
             then map_option (Cons (d OR 0x20)) (bin2mem buf' n)
             else map_option (Cons c) (bin2mem buf n))
      else map_option (Cons c) (bin2mem buf n))"

section \<open>Checks\<close>

text \<open>\<open>check(ok, fmt, ...)\<close> and \<open>unixCheck(status, fmt, ...)\<close> throw the formatted message; the
  model keeps the format string. What is printed on the console is not modelled.\<close>

definition check :: "bool \<Rightarrow> string \<Rightarrow> ('s, unit) io" where
  "check ok fmt = (if \<not> ok then io_throw (Thrown fmt) else io_ret ())"

definition unixCheck :: "int \<Rightarrow> string \<Rightarrow> ('s, unit) io" where
  "unixCheck status fmt = (if status < 0 then io_throw (Thrown fmt) else io_ret ())"

lemma check_simps [io_simps]:
  "check True m = io_ret ()" "check False m = io_throw (Thrown m)"
  by (simp_all add: check_def)

lemma preserves_check [preserve]: "preserves I (check b m)"
  by (simp add: check_def preserve)

lemma unixCheck_ok [io_simps]: "0 \<le> n \<Longrightarrow> unixCheck n m = io_ret ()"
  by (simp add: unixCheck_def)

lemma preserves_unixCheck [preserve]: "preserves I (unixCheck n m)"
  by (simp add: unixCheck_def preserve)

section \<open>Fixed-width codes\<close>

text \<open>What the callers rely on: a value is written in \<open>width\<close> bytes, and reading at the place it
  was written gives it back, whatever follows. A \<open>faithful_codec\<close> moreover has no two encodings.\<close>

locale codec =
  fixes enc :: "'a \<Rightarrow> u8 list" and dec :: "u8 list \<Rightarrow> 'a option" and width :: nat
    and ok :: "'a \<Rightarrow> bool"
  assumes length_enc: "length (enc x) = width"
    and dec_enc: "ok x \<Longrightarrow> dec (enc x @ rest) = Some x"
begin

lemma dec_enc_exact: "ok x \<Longrightarrow> dec (enc x) = Some x"
  using dec_enc [of x "[]"] by simp

lemma dec_field: "ok x \<Longrightarrow> length pre = n \<Longrightarrow> dec (drop n (pre @ enc x @ rest)) = Some x"
  by (simp add: dec_enc)

lemma enc_inj: "ok x \<Longrightarrow> ok y \<Longrightarrow> enc x @ r = enc y @ r' \<Longrightarrow> x = y \<and> r = r'"
  by (metis append_eq_append_conv dec_enc length_enc option.inject)

end

locale faithful_codec = codec +
  assumes enc_dec: "length bs = width \<Longrightarrow> \<exists>x. ok x \<and> dec bs = Some x \<and> enc x = bs"
    and dec_short: "length bs < width \<Longrightarrow> dec bs = None"
begin

lemma dec_total: "width \<le> length bs \<Longrightarrow> \<exists>x. ok x \<and> dec bs = Some x \<and> enc x = take width bs"
proof -
  assume "width \<le> length bs"
  then obtain x where "ok x" "enc x = take width bs"
    using enc_dec [of "take width bs"] by auto
  then show ?thesis
    using dec_enc [of x "drop width bs"] by (metis append_take_drop_id)
qed

lemma dec_iff: "dec bs = Some x \<longleftrightarrow> ok x \<and> take width bs = enc x"
proof (cases "width \<le> length bs")
  case True
  then obtain y where y: "ok y" "dec bs = Some y" "enc y = take width bs"
    using dec_total by blast
  then show ?thesis
    using dec_enc [of x "drop width bs"] by (metis append_take_drop_id option.inject)
next
  case False
  then show ?thesis
    using dec_short [of bs] arg_cong [of "take width bs" "enc x" length] length_enc [of x] by auto
qed

end

section \<open>The codes of the program\<close>

lemma add_disjoint: "(\<And>n. \<not> (bit a n \<and> bit b n)) \<Longrightarrow> (a :: 'a::len word) + b = a OR b"
  by (rule disjunctive_add_eq_or) (auto intro!: bit_eqI simp: bit_simps)

lemma ucast_push_u32:
  "k + 8 \<le> 32 \<Longrightarrow> ucast (push_bit k (ucast (b :: u8)) :: u32) = push_bit k (ucast b :: u64)"
  by (rule bit_eqI) (use bit_imp_le_length [of b] in \<open>fastforce simp: bit_simps\<close>)

lemma b4_to_u32_or:
  "b4_to_u32 (b0 # b1 # b2 # b3 # bs) =
     Some (ucast b0 OR push_bit 8 (ucast b1) OR push_bit 16 (ucast b2) OR push_bit 24 (ucast b3))"
proof -
  have "ucast b0 + push_bit 8 (ucast b1) = (ucast b0 OR push_bit 8 (ucast b1) :: u64)"
    by (rule add_disjoint) (use bit_imp_le_length [of b0] in \<open>fastforce simp: bit_simps\<close>)
  moreover have "(ucast b0 OR push_bit 8 (ucast b1)) + push_bit 16 (ucast b2) =
      (ucast b0 OR push_bit 8 (ucast b1) OR push_bit 16 (ucast b2) :: u64)"
    by (subst add_disjoint) (use bit_imp_le_length [of b0] bit_imp_le_length [of b1] in
        \<open>fastforce simp: bit_simps\<close>, simp add: ac_simps)
  moreover have "(ucast b0 OR push_bit 8 (ucast b1) OR push_bit 16 (ucast b2)) + push_bit 24 (ucast b3) =
      (ucast b0 OR push_bit 8 (ucast b1) OR push_bit 16 (ucast b2) OR push_bit 24 (ucast b3) :: u64)"
    by (subst add_disjoint) (use bit_imp_le_length [of b0] bit_imp_le_length [of b1]
        bit_imp_le_length [of b2] in \<open>fastforce simp: bit_simps\<close>, simp add: ac_simps)
  moreover have "ucast (ucast b0 :: u32) = (ucast b0 :: u64)"
    using ucast_push_u32 [of 0 b0] by simp
  ultimately show ?thesis
    by (simp add: ucast_push_u32)
qed

lemma b2_to_u16_or: "b2_to_u16 (b0 # b1 # bs) = Some (ucast b0 OR push_bit 8 (ucast b1))"
proof -
  have "ucast (push_bit 8 (ucast b1) :: u32) = (push_bit 8 (ucast b1) :: u16)"
    by (rule bit_eqI) (use bit_imp_le_length [of b1] in \<open>fastforce simp: bit_simps\<close>)
  moreover have "ucast b0 + push_bit 8 (ucast b1) = (ucast b0 OR push_bit 8 (ucast b1) :: u16)"
    by (rule add_disjoint) (use bit_imp_le_length [of b0] in \<open>fastforce simp: bit_simps\<close>)
  ultimately show ?thesis by simp
qed

lemma u32_bytes_or:
  fixes a b c e :: u8
  shows "(ucast a + push_bit 8 (ucast b) + push_bit 16 (ucast c) + push_bit 24 (ucast e) :: u32) =
     ucast a OR push_bit 8 (ucast b) OR push_bit 16 (ucast c) OR push_bit 24 (ucast e)"
proof -
  have lt: "bit x n \<Longrightarrow> n < 8" for x :: u8 and n
    by (auto dest: bit_imp_le_length)
  have "ucast a + push_bit 8 (ucast b :: u32) = ucast a OR push_bit 8 (ucast b)"
    by (intro disjunctive_add_eq_or bit_eqI) (auto simp: bit_simps dest: lt)
  moreover have "(ucast a OR push_bit 8 (ucast b :: u32)) + push_bit 16 (ucast c) =
      (ucast a OR push_bit 8 (ucast b)) OR push_bit 16 (ucast c)"
    by (intro disjunctive_add_eq_or bit_eqI) (auto simp: bit_simps dest: lt)
  moreover have "((ucast a OR push_bit 8 (ucast b :: u32)) OR push_bit 16 (ucast c)) + push_bit 24 (ucast e) =
      ((ucast a OR push_bit 8 (ucast b)) OR push_bit 16 (ucast c)) OR push_bit 24 (ucast e)"
    by (intro disjunctive_add_eq_or bit_eqI) (auto simp: bit_simps dest: lt)
  ultimately show ?thesis
    by (simp add: or.assoc)
qed

lemma mask8: "(0xff :: u64) = mask 8" "(0xff :: u16) = mask 8"
  by (simp_all add: mask_eq_exp_minus_1)

lemma u64_less_iff: "(l :: u64) < 2 ^ 32 \<longleftrightarrow> (\<forall>n. bit l n \<longrightarrow> n < 32)"
proof
  assume "l < 2 ^ 32"
  then have "uint l < 2 ^ 32"
    by (simp add: word_less_def)
  then have "take_bit 32 (uint l) = uint l"
    by (simp add: take_bit_int_eq_self)
  then show "\<forall>n. bit l n \<longrightarrow> n < 32"
    by (metis bit_take_bit_iff bit_uint_iff bit_imp_le_length)
next
  assume "\<forall>n. bit l n \<longrightarrow> n < 32"
  then have "take_bit 32 l = l"
    by (intro bit_eqI) (auto simp: bit_simps)
  then have "uint l = take_bit 32 (uint l)"
    by (metis unsigned_take_bit_eq)
  then have "uint l < 2 ^ 32"
    by (metis take_bit_int_less_exp)
  then show "l < 2 ^ 32"
    by (simp add: word_less_def)
qed

lemma b4_dec_enc: "l < 2 ^ 32 \<Longrightarrow> b4_to_u32 (u32_to_b4 l @ rest) = Some l"
  unfolding u32_to_b4_def append_Cons b4_to_u32_or mask8
proof (rule arg_cong [where f = Some], rule bit_eqI)
  fix n
  assume "l < 2 ^ 32"
  then have hi: "bit l n \<Longrightarrow> n < 32"
    using u64_less_iff by blast
  show "bit ((ucast (ucast (l AND mask 8) :: u8) :: u64) OR push_bit 8 (ucast (ucast (drop_bit 8 l AND mask 8) :: u8)) OR
      push_bit 16 (ucast (ucast (drop_bit 16 l AND mask 8) :: u8)) OR
      push_bit 24 (ucast (ucast (drop_bit 24 l AND mask 8) :: u8))) n = bit l n"
  proof (cases "n < 32")
    case True
    then consider "n < 8" | "8 \<le> n" "n < 16" | "16 \<le> n" "n < 24" | "24 \<le> n" "n < 32"
      by linarith
    then show ?thesis
      by cases (auto simp: bit_simps)
  next
    case False
    with hi show ?thesis
      by (auto simp: bit_simps)
  qed
qed

lemma b4_enc_dec:
  assumes "length bs = 4"
  shows "\<exists>x. x < 2 ^ 32 \<and> b4_to_u32 bs = Some x \<and> u32_to_b4 x = bs"
proof -
  obtain a b c d where bs: "bs = [a, b, c, d]"
    using assms by (auto simp: length_Suc_conv eval_nat_numeral)
  define x :: u64 where
    "x = ucast a OR push_bit 8 (ucast b) OR push_bit 16 (ucast c) OR push_bit 24 (ucast d)"
  note len = bit_imp_le_length [of a] bit_imp_le_length [of b] bit_imp_le_length [of c]
    bit_imp_le_length [of d]
  have "x < 2 ^ 32"
    unfolding u64_less_iff x_def using len by (fastforce simp: bit_simps)
  moreover have "ucast (x AND mask 8) = a" "ucast (drop_bit 8 x AND mask 8) = b"
      "ucast (drop_bit 16 x AND mask 8) = c" "ucast (drop_bit 24 x AND mask 8) = d"
    unfolding x_def by (rule bit_eqI, use len in \<open>fastforce simp: bit_simps\<close>)+
  ultimately show ?thesis
    by (auto simp: bs b4_to_u32_or u32_to_b4_def mask8 x_def simp del: b4_to_u32.simps)
qed

lemma b4_short: "length bs < 4 \<Longrightarrow> b4_to_u32 bs = None"
  by (induction bs rule: b4_to_u32.induct) simp_all

interpretation b4: faithful_codec u32_to_b4 b4_to_u32 4 "\<lambda>l. l < 2 ^ 32"
  by unfold_locales
    (simp add: u32_to_b4_def, rule b4_dec_enc, assumption, rule b4_enc_dec, assumption, rule b4_short)

lemma b2_dec_enc: "b2_to_u16 (u16_to_b2 l @ rest) = Some l"
  unfolding u16_to_b2_def append_Cons b2_to_u16_or mask8
  by (rule arg_cong [where f = Some], rule bit_eqI) (fastforce simp: bit_simps not_less)

lemma b2_enc_dec:
  assumes "length bs = 2"
  shows "\<exists>x. True \<and> b2_to_u16 bs = Some x \<and> u16_to_b2 x = bs"
proof -
  obtain a b where bs: "bs = [a, b]"
    using assms by (auto simp: length_Suc_conv eval_nat_numeral)
  define x :: u16 where "x = ucast a OR push_bit 8 (ucast b)"
  note len = bit_imp_le_length [of a] bit_imp_le_length [of b]
  have "ucast (x AND mask 8) = a" "ucast (drop_bit 8 x AND mask 8) = b"
    unfolding x_def by (rule bit_eqI, use len in \<open>fastforce simp: bit_simps\<close>)+
  then show ?thesis
    by (auto simp: bs b2_to_u16_or u16_to_b2_def mask8 x_def simp del: b2_to_u16.simps)
qed

lemma b2_short: "length bs < 2 \<Longrightarrow> b2_to_u16 bs = None"
  by (induction bs rule: b2_to_u16.induct) simp_all

interpretation b2: faithful_codec u16_to_b2 b2_to_u16 2 "\<lambda>_. True"
  by unfold_locales
    (simp add: u16_to_b2_def, rule b2_dec_enc, rule b2_enc_dec, assumption, rule b2_short)

section \<open>Hexadecimal round trips\<close>

lemma u8_uint_less: "uint (x :: u8) < 256"
  using unsigned_less [of x, where 'a = int] by simp

lemma uint_high: "uint (drop_bit 4 (x :: u8)) = uint x div 16"
  using u8_uint_less [of x]
  by (simp only: unsigned_drop_bit_eq) (simp add: drop_bit_eq_div take_bit_int_eq_self)

lemma uint_low: "uint ((x :: u8) AND 0xf) = uint x mod 16"
proof -
  have "(0xf :: int) = mask 4"
    by (simp add: mask_eq_exp_minus_1)
  then have "uint x AND 0xf = uint x mod 16"
    by (simp only:) (simp only: take_bit_eq_mask [symmetric] take_bit_eq_mod, simp)
  then show ?thesis
    by (simp add: unsigned_and_eq)
qed

lemma u8_nibbles: "(x :: u8) = word_of_int (uint (drop_bit 4 x) * 16) + word_of_int (uint (x AND 0xf))"
proof -
  have "uint x = uint x div 16 * 16 + uint x mod 16"
    by simp
  then show ?thesis
    by (metis uint_high uint_low word_of_int_uint wi_hom_add)
qed

lemma hex_hexchars: "n < 16 \<Longrightarrow> hex (hexchars ! n) = int n"
proof -
  have "map (\<lambda>n. hex (hexchars ! n)) [0..<16] = map int [0..<16]"
    by (simp add: upt_rec_numeral upt_conv_Cons hex_def hexchars_def)
  then show "n < 16 \<Longrightarrow> ?thesis" by (metis (lifting) add_0 length_upt nth_map nth_upt diff_zero)
qed

lemma hex_byteToHex:
  "hex (byteToHex x ! 0) = uint (drop_bit 4 x)" "hex (byteToHex x ! 1) = uint (x AND 0xf)"
proof -
  have "uint (drop_bit 4 x) < 16" "uint (x AND 0xf) < 16"
    using u8_uint_less [of x] by (simp_all only: uint_high uint_low)
  then have "unat (drop_bit 4 x) < 16" "unat (x AND 0xf) < 16"
    by (simp_all only: unat_eq_nat_uint)
  then show "hex (byteToHex x ! 0) = uint (drop_bit 4 x)" "hex (byteToHex x ! 1) = uint (x AND 0xf)"
    by (simp_all add: byteToHex_def hex_hexchars del: drop_bit_eq_div)
qed

lemma hex2mem_byteToHex: "hex2mem (byteToHex x @ r) (Suc n) = map_option (Cons x) (hex2mem r n)"
  using hex_byteToHex [of x] u8_nibbles [of x] by (simp add: byteToHex_def)

interpretation hexbyte: codec byteToHex "\<lambda>b. map_option hd (hex2mem b 1)" 2 "\<lambda>_. True"
proof unfold_locales
  show "length (byteToHex x) = 2" for x
    by (simp add: byteToHex_def)
  show "map_option hd (hex2mem (byteToHex x @ r) 1) = Some x" for x r
    using hex2mem_byteToHex [of x r 0] by simp
qed

lemma mem2hex_append: "mem2hex (bs @ r) (length bs) = Some (concat (map byteToHex bs))"
  by (induction bs) simp_all

section \<open>Properties\<close>

text \<open>The 4-byte and 2-byte little-endian codes are bijective codes of the values below
  2 to the 32 and of all 16-bit values.\<close>

lemma little_endian_codes:
  "(b4_to_u32 bs = Some l \<longleftrightarrow> l < 2 ^ 32 \<and> take 4 bs = u32_to_b4 l) \<and>
   (b2_to_u16 cs = Some k \<longleftrightarrow> take 2 cs = u16_to_b2 k)"
  using b4.dec_iff b2.dec_iff by simp

text \<open>What \<open>mem2hex\<close> prints \<open>hex2mem\<close> reads back.\<close>

lemma hex2mem_mem2hex:
  "\<exists>h. mem2hex (bs @ r) (length bs) = Some h \<and> length h = 2 * length bs \<and>
     hex2mem (h @ r') (length bs) = Some bs"
proof -
  have "hex2mem (concat (map byteToHex bs) @ r') (length bs) = Some bs"
    by (induction bs) (simp_all add: hex2mem_byteToHex)
  moreover have "length (concat (map byteToHex bs)) = 2 * length bs"
    by (induction bs) (simp_all add: hexbyte.length_enc)
  ultimately show ?thesis
    by (simp add: mem2hex_append)
qed

text \<open>The value of a string of hexadecimal digits.\<close>

definition hex_value :: "u8 list \<Rightarrow> int" where
  "hex_value ds = foldl (\<lambda>v c. v * 16 + hex c) 0 ds"

lemma hexToInt_step:
  assumes "0 \<le> hex c"
  shows "push_bit 4 (word_of_int v) OR word_of_int (hex c) = (word_of_int (v * 16 + hex c) :: u32)"
proof -
  have lt: "hex c < 16"
    by (auto simp: hex_def word_le_def word_less_def)
  have b: "bit (hex c) n \<Longrightarrow> n < 4" for n
  proof -
    have "take_bit 4 (hex c) = hex c"
      using lt assms by (simp add: take_bit_int_eq_self)
    then show "bit (hex c) n \<Longrightarrow> n < 4" by (metis bit_take_bit_iff)
  qed
  have "push_bit 4 (word_of_int v) OR word_of_int (hex c)
      = (push_bit 4 (word_of_int v) + word_of_int (hex c) :: u32)"
    by (rule add_disjoint [symmetric]) (use b in \<open>force simp: bit_simps\<close>)
  then show ?thesis
    by (simp add: push_bit_eq_mult ac_simps)
qed

lemma hexToInt_loop_spec:
  "hexToInt_loop p n (word_of_int v) =
     (let ds = takeWhile (\<lambda>c. 0 \<le> hex c) p in
      (n + length ds, word_of_int (foldl (\<lambda>v c. v * 16 + hex c) v ds), drop (length ds) p))"
proof (induction p arbitrary: n v)
  case (Cons c p)
  show ?case
  proof (cases "0 \<le> hex c")
    case True
    then have "c \<noteq> 0" by (auto simp: hex_def)
    with True show ?thesis
      using Cons [of "Suc n" "v * 16 + hex c"] by (simp add: hexToInt_step Let_def)
  qed simp
qed simp

text \<open>\<open>hexToInt\<close> consumes exactly the leading digits (either case) and returns their number
  and their value modulo 2 to the 32.\<close>

lemma hexToInt_spec:
  "hexToInt p =
     (let ds = takeWhile (\<lambda>c. 0 \<le> hex c) p
      in (length ds, word_of_int (hex_value ds), drop (length ds) p))"
  using hexToInt_loop_spec [of p 0 0] by (simp add: hexToInt_def hex_value_def)

text \<open>The escaping of the GDB protocol: the characters \<open>#\<close>, \<open>$\<close> and \<open>}\<close> are sent as \<open>}\<close> and
  the character with bit 5 flipped.\<close>

definition gdb_escape :: "u8 \<Rightarrow> u8 list" where
  "gdb_escape b = (if b = 0x23 \<or> b = 0x24 \<or> b = 0x7d then [0x7d, b XOR 0x20] else [b])"

text \<open>\<open>bin2mem\<close> undoes the escaping of any memory contents.\<close>

lemma bin2mem_escape: "bin2mem (concat (map gdb_escape bs) @ r) (length bs) = Some bs"
  by (induction bs) (auto simp: gdb_escape_def)

end
