(* ===== verification/Constants.thy ===== *)
theory Constants
  imports Utils
begin

text \<open>
  \<^verbatim>\<open>src/src/jtag_constants.h\<close> and \<^verbatim>\<open>src/src/jtag_constants.cc\<close>: the numbers of the two protocols
  (collected in \<open>code_defs\<close>), the breakpoint and memory types, and the tables that name commands and
  responses.
\<close>

named_theorems code_defs "the values of the protocol constants"

text \<open>Address spaces (the high bits of an address), limits and time-outs in microseconds.\<close>

definition FLASH_SPACE_ADDR_OFFSET :: u64 where [code_defs]: "FLASH_SPACE_ADDR_OFFSET = 0x000000"
definition DATA_SPACE_ADDR_OFFSET :: u64 where [code_defs]: "DATA_SPACE_ADDR_OFFSET = 0x800000"
definition EEPROM_SPACE_ADDR_OFFSET :: u64 where [code_defs]: "EEPROM_SPACE_ADDR_OFFSET = 0x810000"
definition FUSE_SPACE_ADDR_OFFSET :: u64 where [code_defs]: "FUSE_SPACE_ADDR_OFFSET = 0x820000"
definition LOCK_SPACE_ADDR_OFFSET :: u64 where [code_defs]: "LOCK_SPACE_ADDR_OFFSET = 0x830000"
definition SIG_SPACE_ADDR_OFFSET :: u64 where [code_defs]: "SIG_SPACE_ADDR_OFFSET = 0x840000"
definition BREAKPOINT_SPACE_ADDR_OFFSET :: u64 where [code_defs]: "BREAKPOINT_SPACE_ADDR_OFFSET = 0x900000"
definition ADDR_SPACE_MASK :: u64 where [code_defs]: "ADDR_SPACE_MASK = DATA_SPACE_ADDR_OFFSET OR EEPROM_SPACE_ADDR_OFFSET OR FUSE_SPACE_ADDR_OFFSET OR LOCK_SPACE_ADDR_OFFSET OR SIG_SPACE_ADDR_OFFSET OR BREAKPOINT_SPACE_ADDR_OFFSET"
definition MAX_JTAG_COMM_ATTEMPS :: nat where [code_defs]: "MAX_JTAG_COMM_ATTEMPS = 10"
definition MAX_JTAG_SYNC_ATTEMPS :: nat where [code_defs]: "MAX_JTAG_SYNC_ATTEMPS = 3"
definition JTAG_RESPONSE_TIMEOUT :: nat where [code_defs]: "JTAG_RESPONSE_TIMEOUT = 1000000"
definition JTAG_COMM_TIMEOUT :: nat where [code_defs]: "JTAG_COMM_TIMEOUT = 100000"
definition LOCK_BITS_ALL_UNLOCKED :: u8 where [code_defs]: "LOCK_BITS_ALL_UNLOCKED = 0xff"
definition FUSE_M103C :: u8 where [code_defs]: "FUSE_M103C = 0x02"
definition FUSE_WDTON :: u8 where [code_defs]: "FUSE_WDTON = 0x01"
definition FUSE_OCDEN :: u8 where [code_defs]: "FUSE_OCDEN = 0x80"
definition FUSE_JTAGEN :: u8 where [code_defs]: "FUSE_JTAGEN = 0x40"
definition FUSE_SPIEN :: u8 where [code_defs]: "FUSE_SPIEN = 0x20"
definition FUSE_CKOPT :: u8 where [code_defs]: "FUSE_CKOPT = 0x10"
definition FUSE_EESAVE :: u8 where [code_defs]: "FUSE_EESAVE = 0x08"
definition FUSE_BOOTSZ1 :: u8 where [code_defs]: "FUSE_BOOTSZ1 = 0x04"
definition FUSE_BOOTSZ0 :: u8 where [code_defs]: "FUSE_BOOTSZ0 = 0x02"
definition FUSE_BOOTRST :: u8 where [code_defs]: "FUSE_BOOTRST = 0x01"
definition FUSE_BODLEVEL :: u8 where [code_defs]: "FUSE_BODLEVEL = 0x80"
definition FUSE_BODEN :: u8 where [code_defs]: "FUSE_BODEN = 0x40"
definition FUSE_SUT1 :: u8 where [code_defs]: "FUSE_SUT1 = 0x20"
definition FUSE_SUT0 :: u8 where [code_defs]: "FUSE_SUT0 = 0x10"
definition FUSE_CKSEL3 :: u8 where [code_defs]: "FUSE_CKSEL3 = 0x08"
definition FUSE_CKSEL2 :: u8 where [code_defs]: "FUSE_CKSEL2 = 0x04"
definition FUSE_CKSEL1 :: u8 where [code_defs]: "FUSE_CKSEL1 = 0x02"
definition FUSE_CKSEL0 :: u8 where [code_defs]: "FUSE_CKSEL0 = 0x01"
definition MAX_FLASH_PAGE_SIZE :: nat where [code_defs]: "MAX_FLASH_PAGE_SIZE = 256"
definition MAX_EEPROM_PAGE_SIZE :: nat where [code_defs]: "MAX_EEPROM_PAGE_SIZE = 16"

text \<open>The mkI protocol.\<close>

definition ADDR_PROG_SPACE_PROG_ENABLED :: u8 where [code_defs]: "ADDR_PROG_SPACE_PROG_ENABLED = 0xB0"
definition ADDR_PROG_SPACE_PROG_DISABLED :: u8 where [code_defs]: "ADDR_PROG_SPACE_PROG_DISABLED = 0xA0"
definition ADDR_DATA_SPACE :: u8 where [code_defs]: "ADDR_DATA_SPACE = 0x20"
definition ADDR_EEPROM_SPACE :: u8 where [code_defs]: "ADDR_EEPROM_SPACE = 0xB1"
definition ADDR_FUSE_SPACE :: u8 where [code_defs]: "ADDR_FUSE_SPACE = 0xB2"
definition ADDR_LOCK_SPACE :: u8 where [code_defs]: "ADDR_LOCK_SPACE = 0xB3"
definition ADDR_SIG_SPACE :: u8 where [code_defs]: "ADDR_SIG_SPACE = 0xB4"
definition ADDR_BREAKPOINT_SPACE :: u8 where [code_defs]: "ADDR_BREAKPOINT_SPACE = 0x60"
definition BIT_RATE_9600 :: u8 where [code_defs]: "BIT_RATE_9600 = 0xf4"
definition BIT_RATE_14400 :: u8 where [code_defs]: "BIT_RATE_14400 = 0xf8"
definition BIT_RATE_19200 :: u8 where [code_defs]: "BIT_RATE_19200 = 0xfa"
definition BIT_RATE_38400 :: u8 where [code_defs]: "BIT_RATE_38400 = 0xfd"
definition BIT_RATE_57600 :: u8 where [code_defs]: "BIT_RATE_57600 = 0xfe"
definition BIT_RATE_115200 :: u8 where [code_defs]: "BIT_RATE_115200 = 0xff"
definition BREAKPOINT_NONE :: u8 where [code_defs]: "BREAKPOINT_NONE = 0x00"
definition BREAKPOINT_X :: u8 where [code_defs]: "BREAKPOINT_X = 0x04"
definition BREAKPOINT_Y :: u8 where [code_defs]: "BREAKPOINT_Y = 0x08"
definition BREAKPOINT_Z :: u8 where [code_defs]: "BREAKPOINT_Z = 0x10"
definition JTAG_R_OK :: u8 where [code_defs]: "JTAG_R_OK = 0x41"
definition JTAG_R_BREAK :: u8 where [code_defs]: "JTAG_R_BREAK = 0x42"
definition JTAG_R_INFO :: u8 where [code_defs]: "JTAG_R_INFO = 0x47"
definition JTAG_R_FAILED :: u8 where [code_defs]: "JTAG_R_FAILED = 0x46"
definition JTAG_R_SYNC_ERROR :: u8 where [code_defs]: "JTAG_R_SYNC_ERROR = 0x45"
definition JTAG_R_SLEEP :: u8 where [code_defs]: "JTAG_R_SLEEP = 0x48"
definition JTAG_R_POWER :: u8 where [code_defs]: "JTAG_R_POWER = 0x49"
definition JTAG_P_BITRATE :: u8 where [code_defs]: "JTAG_P_BITRATE = 0x62"
definition JTAG_P_SW_VERSION :: u8 where [code_defs]: "JTAG_P_SW_VERSION = 0x7b"
definition JTAG_P_HW_VERSION :: u8 where [code_defs]: "JTAG_P_HW_VERSION = 0x7a"
definition JTAG_P_IREG_HIGH :: u8 where [code_defs]: "JTAG_P_IREG_HIGH = 0x81"
definition JTAG_P_IREG_LOW :: u8 where [code_defs]: "JTAG_P_IREG_LOW = 0x82"
definition JTAG_P_OCD_VTARGET :: u8 where [code_defs]: "JTAG_P_OCD_VTARGET = 0x84"
definition JTAG_P_OCD_BREAK_CAUSE :: u8 where [code_defs]: "JTAG_P_OCD_BREAK_CAUSE = 0x85"
definition JTAG_P_CLOCK :: u8 where [code_defs]: "JTAG_P_CLOCK = 0x86"
definition JTAG_P_EXTERNAL_RESET :: u8 where [code_defs]: "JTAG_P_EXTERNAL_RESET = 0x8b"
definition JTAG_P_FLASH_PAGESIZE_LOW :: u8 where [code_defs]: "JTAG_P_FLASH_PAGESIZE_LOW = 0x88"
definition JTAG_P_FLASH_PAGESIZE_HIGH :: u8 where [code_defs]: "JTAG_P_FLASH_PAGESIZE_HIGH = 0x89"
definition JTAG_P_EEPROM_PAGESIZE :: u8 where [code_defs]: "JTAG_P_EEPROM_PAGESIZE = 0x8a"
definition JTAG_P_TIMERS_RUNNING :: u8 where [code_defs]: "JTAG_P_TIMERS_RUNNING = 0xa0"
definition JTAG_P_BP_FLOW :: u8 where [code_defs]: "JTAG_P_BP_FLOW = 0xa1"
definition JTAG_P_BP_X_HIGH :: u8 where [code_defs]: "JTAG_P_BP_X_HIGH = 0xa2"
definition JTAG_P_BP_X_LOW :: u8 where [code_defs]: "JTAG_P_BP_X_LOW = 0xa3"
definition JTAG_P_BP_Y_HIGH :: u8 where [code_defs]: "JTAG_P_BP_Y_HIGH = 0xa4"
definition JTAG_P_BP_Y_LOW :: u8 where [code_defs]: "JTAG_P_BP_Y_LOW = 0xa5"
definition JTAG_P_BP_MODE :: u8 where [code_defs]: "JTAG_P_BP_MODE = 0xa6"
definition JTAG_P_JTAGID_BYTE0 :: u8 where [code_defs]: "JTAG_P_JTAGID_BYTE0 = 0xa7"
definition JTAG_P_JTAGID_BYTE1 :: u8 where [code_defs]: "JTAG_P_JTAGID_BYTE1 = 0xa8"
definition JTAG_P_JTAGID_BYTE2 :: u8 where [code_defs]: "JTAG_P_JTAGID_BYTE2 = 0xa9"
definition JTAG_P_JTAGID_BYTE3 :: u8 where [code_defs]: "JTAG_P_JTAGID_BYTE3 = 0xaa"
definition JTAG_P_UNITS_BEFORE :: u8 where [code_defs]: "JTAG_P_UNITS_BEFORE = 0xab"
definition JTAG_P_UNITS_AFTER :: u8 where [code_defs]: "JTAG_P_UNITS_AFTER = 0xac"
definition JTAG_P_BIT_BEFORE :: u8 where [code_defs]: "JTAG_P_BIT_BEFORE = 0xad"
definition JTAG_P_BIT_AFTER :: u8 where [code_defs]: "JTAG_P_BIT_AFTER = 0xae"
definition JTAG_P_PSB0_LOW :: u8 where [code_defs]: "JTAG_P_PSB0_LOW = 0xaf"
definition JTAG_P_PSBO_HIGH :: u8 where [code_defs]: "JTAG_P_PSBO_HIGH = 0xb0"
definition JTAG_P_PSB1_LOW :: u8 where [code_defs]: "JTAG_P_PSB1_LOW = 0xb1"
definition JTAG_P_PSB1_HIGH :: u8 where [code_defs]: "JTAG_P_PSB1_HIGH = 0xb2"
definition JTAG_P_MCU_MODE :: u8 where [code_defs]: "JTAG_P_MCU_MODE = 0xb3"
definition JTAG_C_SET_DEVICE_DESCRIPTOR :: u8 where [code_defs]: "JTAG_C_SET_DEVICE_DESCRIPTOR = 0xA0"
definition JTAG_BITRATE_1_MHz :: u8 where [code_defs]: "JTAG_BITRATE_1_MHz = 0xff"
definition JTAG_BITRATE_500_KHz :: u8 where [code_defs]: "JTAG_BITRATE_500_KHz = 0xfe"
definition JTAG_BITRATE_250_KHz :: u8 where [code_defs]: "JTAG_BITRATE_250_KHz = 0xfd"
definition JTAG_BITRATE_125_KHz :: u8 where [code_defs]: "JTAG_BITRATE_125_KHz = 0xfb"

text \<open>The mkII protocol: framing, commands, responses, events, memory types, parameters.\<close>

definition MESSAGE_START :: u8 where [code_defs]: "MESSAGE_START = 0x1b"
definition TOKEN :: u8 where [code_defs]: "TOKEN = 0x0e"
definition MAX_MESSAGE :: nat where [code_defs]: "MAX_MESSAGE = 100000"
definition CMND_CHIP_ERASE :: u8 where [code_defs]: "CMND_CHIP_ERASE = 0x13"
definition CMND_CLEAR_EVENTS :: u8 where [code_defs]: "CMND_CLEAR_EVENTS = 0x22"
definition CMND_CLR_BREAK :: u8 where [code_defs]: "CMND_CLR_BREAK = 0x1A"
definition CMND_ENTER_PROGMODE :: u8 where [code_defs]: "CMND_ENTER_PROGMODE = 0x14"
definition CMND_ERASEPAGE_SPM :: u8 where [code_defs]: "CMND_ERASEPAGE_SPM = 0x0D"
definition CMND_FORCED_STOP :: u8 where [code_defs]: "CMND_FORCED_STOP = 0x0A"
definition CMND_GET_BREAK :: u8 where [code_defs]: "CMND_GET_BREAK = 0x12"
definition CMND_GET_PARAMETER :: u8 where [code_defs]: "CMND_GET_PARAMETER = 0x03"
definition CMND_GET_SIGN_ON :: u8 where [code_defs]: "CMND_GET_SIGN_ON = 0x01"
definition CMND_GET_SYNC :: u8 where [code_defs]: "CMND_GET_SYNC = 0x0f"
definition CMND_GO :: u8 where [code_defs]: "CMND_GO = 0x08"
definition CMND_LEAVE_PROGMODE :: u8 where [code_defs]: "CMND_LEAVE_PROGMODE = 0x15"
definition CMND_READ_MEMORY :: u8 where [code_defs]: "CMND_READ_MEMORY = 0x05"
definition CMND_READ_PC :: u8 where [code_defs]: "CMND_READ_PC = 0x07"
definition CMND_RESET :: u8 where [code_defs]: "CMND_RESET = 0x0B"
definition CMND_RESTORE_TARGET :: u8 where [code_defs]: "CMND_RESTORE_TARGET = 0x23"
definition CMND_RUN_TO_ADDR :: u8 where [code_defs]: "CMND_RUN_TO_ADDR = 0x1C"
definition CMND_SELFTEST :: u8 where [code_defs]: "CMND_SELFTEST = 0x10"
definition CMND_SET_BREAK :: u8 where [code_defs]: "CMND_SET_BREAK = 0x11"
definition CMND_SET_DEVICE_DESCRIPTOR :: u8 where [code_defs]: "CMND_SET_DEVICE_DESCRIPTOR = 0x0C"
definition CMND_SET_N_PARAMETERS :: u8 where [code_defs]: "CMND_SET_N_PARAMETERS = 0x16"
definition CMND_SET_PARAMETER :: u8 where [code_defs]: "CMND_SET_PARAMETER = 0x02"
definition CMND_SIGN_OFF :: u8 where [code_defs]: "CMND_SIGN_OFF = 0x00"
definition CMND_SINGLE_STEP :: u8 where [code_defs]: "CMND_SINGLE_STEP = 0x09"
definition CMND_SPI_CMD :: u8 where [code_defs]: "CMND_SPI_CMD = 0x1D"
definition CMND_WRITE_MEMORY :: u8 where [code_defs]: "CMND_WRITE_MEMORY = 0x04"
definition CMND_WRITE_PC :: u8 where [code_defs]: "CMND_WRITE_PC = 0x06"
definition RSP_DEBUGWIRE_SYNC_FAILED :: u8 where [code_defs]: "RSP_DEBUGWIRE_SYNC_FAILED = 0xAC"
definition RSP_FAILED :: u8 where [code_defs]: "RSP_FAILED = 0xA0"
definition RSP_GET_BREAK :: u8 where [code_defs]: "RSP_GET_BREAK = 0x83"
definition RSP_ILLEGAL_BREAKPOINT :: u8 where [code_defs]: "RSP_ILLEGAL_BREAKPOINT = 0xA8"
definition RSP_ILLEGAL_COMMAND :: u8 where [code_defs]: "RSP_ILLEGAL_COMMAND = 0xAA"
definition RSP_ILLEGAL_EMULATOR_MODE :: u8 where [code_defs]: "RSP_ILLEGAL_EMULATOR_MODE = 0xA4"
definition RSP_ILLEGAL_JTAG_ID :: u8 where [code_defs]: "RSP_ILLEGAL_JTAG_ID = 0xA9"
definition RSP_ILLEGAL_MCU_STATE :: u8 where [code_defs]: "RSP_ILLEGAL_MCU_STATE = 0xA5"
definition RSP_ILLEGAL_MEMORY_TYPE :: u8 where [code_defs]: "RSP_ILLEGAL_MEMORY_TYPE = 0xA2"
definition RSP_ILLEGAL_MEMORY_RANGE :: u8 where [code_defs]: "RSP_ILLEGAL_MEMORY_RANGE = 0xA3"
definition RSP_ILLEGAL_PARAMETER :: u8 where [code_defs]: "RSP_ILLEGAL_PARAMETER = 0xA1"
definition RSP_ILLEGAL_POWER_STATE :: u8 where [code_defs]: "RSP_ILLEGAL_POWER_STATE = 0xAD"
definition RSP_ILLEGAL_VALUE :: u8 where [code_defs]: "RSP_ILLEGAL_VALUE = 0xA6"
definition RSP_MEMORY :: u8 where [code_defs]: "RSP_MEMORY = 0x82"
definition RSP_NO_TARGET_POWER :: u8 where [code_defs]: "RSP_NO_TARGET_POWER = 0xAB"
definition RSP_OK :: u8 where [code_defs]: "RSP_OK = 0x80"
definition RSP_PARAMETER :: u8 where [code_defs]: "RSP_PARAMETER = 0x81"
definition RSP_PC :: u8 where [code_defs]: "RSP_PC = 0x84"
definition RSP_SELFTEST :: u8 where [code_defs]: "RSP_SELFTEST = 0x85"
definition RSP_SET_N_PARAMETERS :: u8 where [code_defs]: "RSP_SET_N_PARAMETERS = 0xA7"
definition RSP_SIGN_ON :: u8 where [code_defs]: "RSP_SIGN_ON = 0x86"
definition RSP_SPI_DATA :: u8 where [code_defs]: "RSP_SPI_DATA = 0x88"
definition EVT_BREAK :: u8 where [code_defs]: "EVT_BREAK = 0xE0"
definition EVT_DEBUG :: u8 where [code_defs]: "EVT_DEBUG = 0xE6"
definition EVT_ERROR_PHY_FORCE_BREAK_TIMEOUT :: u8 where [code_defs]: "EVT_ERROR_PHY_FORCE_BREAK_TIMEOUT = 0xE2"
definition EVT_ERROR_PHY_MAX_BIT_LENGTH_DIFF :: u8 where [code_defs]: "EVT_ERROR_PHY_MAX_BIT_LENGTH_DIFF = 0xED"
definition EVT_ERROR_PHY_OPT_RECEIVE_TIMEOUT :: u8 where [code_defs]: "EVT_ERROR_PHY_OPT_RECEIVE_TIMEOUT = 0xF9"
definition EVT_ERROR_PHY_OPT_RECEIVED_BREAK :: u8 where [code_defs]: "EVT_ERROR_PHY_OPT_RECEIVED_BREAK = 0xFA"
definition EVT_ERROR_PHY_RECEIVED_BREAK :: u8 where [code_defs]: "EVT_ERROR_PHY_RECEIVED_BREAK = 0xF8"
definition EVT_ERROR_PHY_RECEIVE_TIMEOUT :: u8 where [code_defs]: "EVT_ERROR_PHY_RECEIVE_TIMEOUT = 0xF7"
definition EVT_ERROR_PHY_RELEASE_BREAK_TIMEOUT :: u8 where [code_defs]: "EVT_ERROR_PHY_RELEASE_BREAK_TIMEOUT = 0xE3"
definition EVT_ERROR_PHY_SYNC_OUT_OF_RANGE :: u8 where [code_defs]: "EVT_ERROR_PHY_SYNC_OUT_OF_RANGE = 0xF5"
definition EVT_ERROR_PHY_SYNC_TIMEOUT :: u8 where [code_defs]: "EVT_ERROR_PHY_SYNC_TIMEOUT = 0xF0"
definition EVT_ERROR_PHY_SYNC_TIMEOUT_BAUD :: u8 where [code_defs]: "EVT_ERROR_PHY_SYNC_TIMEOUT_BAUD = 0xF4"
definition EVT_ERROR_PHY_SYNC_WAIT_TIMEOUT :: u8 where [code_defs]: "EVT_ERROR_PHY_SYNC_WAIT_TIMEOUT = 0xF6"
definition EVT_RESULT_PHY_NO_ACTIVITY :: u8 where [code_defs]: "EVT_RESULT_PHY_NO_ACTIVITY = 0xFB"
definition EVT_EXT_RESET :: u8 where [code_defs]: "EVT_EXT_RESET = 0xE7"
definition EVT_ICE_POWER_ERROR_STATE :: u8 where [code_defs]: "EVT_ICE_POWER_ERROR_STATE = 0xEA"
definition EVT_ICE_POWER_OK :: u8 where [code_defs]: "EVT_ICE_POWER_OK = 0xEB"
definition EVT_IDR_DIRTY :: u8 where [code_defs]: "EVT_IDR_DIRTY = 0xEC"
definition EVT_NONE :: u8 where [code_defs]: "EVT_NONE = 0xEF"
definition EVT_PDSB_BREAK :: u8 where [code_defs]: "EVT_PDSB_BREAK = 0xF2"
definition EVT_PDSMB_BREAK :: u8 where [code_defs]: "EVT_PDSMB_BREAK = 0xF3"
definition EVT_PROGRAM_BREAK :: u8 where [code_defs]: "EVT_PROGRAM_BREAK = 0xF1"
definition EVT_RUN :: u8 where [code_defs]: "EVT_RUN = 0xE1"
definition EVT_TARGET_POWER_OFF :: u8 where [code_defs]: "EVT_TARGET_POWER_OFF = 0xE5"
definition EVT_TARGET_POWER_ON :: u8 where [code_defs]: "EVT_TARGET_POWER_ON = 0xE4"
definition EVT_TARGET_SLEEP :: u8 where [code_defs]: "EVT_TARGET_SLEEP = 0xE8"
definition EVT_TARGET_WAKEUP :: u8 where [code_defs]: "EVT_TARGET_WAKEUP = 0xE9"
definition EVT_MAX :: u8 where [code_defs]: "EVT_MAX = 0xFF"
definition MTYPE_IO_SHADOW :: u8 where [code_defs]: "MTYPE_IO_SHADOW = 0x30"
definition MTYPE_SRAM :: u8 where [code_defs]: "MTYPE_SRAM = 0x20"
definition MTYPE_EEPROM :: u8 where [code_defs]: "MTYPE_EEPROM = 0x22"
definition MTYPE_EVENT :: u8 where [code_defs]: "MTYPE_EVENT = 0x60"
definition MTYPE_EVENT_COMPRESSED :: u8 where [code_defs]: "MTYPE_EVENT_COMPRESSED = 0x61"
definition MTYPE_SPM :: u8 where [code_defs]: "MTYPE_SPM = 0xA0"
definition MTYPE_FLASH_PAGE :: u8 where [code_defs]: "MTYPE_FLASH_PAGE = 0xB0"
definition MTYPE_EEPROM_PAGE :: u8 where [code_defs]: "MTYPE_EEPROM_PAGE = 0xB1"
definition MTYPE_FUSE_BITS :: u8 where [code_defs]: "MTYPE_FUSE_BITS = 0xB2"
definition MTYPE_LOCK_BITS :: u8 where [code_defs]: "MTYPE_LOCK_BITS = 0xB3"
definition MTYPE_SIGN_JTAG :: u8 where [code_defs]: "MTYPE_SIGN_JTAG = 0xB4"
definition MTYPE_OSCCAL_BYTE :: u8 where [code_defs]: "MTYPE_OSCCAL_BYTE = 0xB5"
definition MTYPE_CAN :: u8 where [code_defs]: "MTYPE_CAN = 0xB6"
definition PAR_HW_VERSION :: u8 where [code_defs]: "PAR_HW_VERSION = 0x01"
definition PAR_FW_VERSION :: u8 where [code_defs]: "PAR_FW_VERSION = 0x02"
definition PAR_EMULATOR_MODE :: u8 where [code_defs]: "PAR_EMULATOR_MODE = 0x03"
definition EMULATOR_MODE_DEBUGWIRE :: u8 where [code_defs]: "EMULATOR_MODE_DEBUGWIRE = 0x00"
definition EMULATOR_MODE_JTAG :: u8 where [code_defs]: "EMULATOR_MODE_JTAG = 0x01"
definition EMULATOR_MODE_UNKNOWN :: u8 where [code_defs]: "EMULATOR_MODE_UNKNOWN = 0x02"
definition EMULATOR_MODE_SPI :: u8 where [code_defs]: "EMULATOR_MODE_SPI = 0x03"
definition EMULATOR_MODE_JTAG_XMEGA :: u8 where [code_defs]: "EMULATOR_MODE_JTAG_XMEGA = 0x05"
definition PAR_IREG :: u8 where [code_defs]: "PAR_IREG = 0x04"
definition PAR_BAUD_RATE :: u8 where [code_defs]: "PAR_BAUD_RATE = 0x05"
definition PAR_BAUD_2400 :: u8 where [code_defs]: "PAR_BAUD_2400 = 0x01"
definition PAR_BAUD_4800 :: u8 where [code_defs]: "PAR_BAUD_4800 = 0x02"
definition PAR_BAUD_9600 :: u8 where [code_defs]: "PAR_BAUD_9600 = 0x03"
definition PAR_BAUD_19200 :: u8 where [code_defs]: "PAR_BAUD_19200 = 0x04"
definition PAR_BAUD_38400 :: u8 where [code_defs]: "PAR_BAUD_38400 = 0x05"
definition PAR_BAUD_57600 :: u8 where [code_defs]: "PAR_BAUD_57600 = 0x06"
definition PAR_BAUD_115200 :: u8 where [code_defs]: "PAR_BAUD_115200 = 0x07"
definition PAR_BAUD_14400 :: u8 where [code_defs]: "PAR_BAUD_14400 = 0x08"
definition PAR_OCD_VTARGET :: u8 where [code_defs]: "PAR_OCD_VTARGET = 0x06"
definition PAR_OCD_JTAG_CLK :: u8 where [code_defs]: "PAR_OCD_JTAG_CLK = 0x07"
definition PAR_OCD_BREAK_CAUSE :: u8 where [code_defs]: "PAR_OCD_BREAK_CAUSE = 0x08"
definition PAR_TIMERS_RUNNING :: u8 where [code_defs]: "PAR_TIMERS_RUNNING = 0x09"
definition PAR_BREAK_ON_CHANGE_FLOW :: u8 where [code_defs]: "PAR_BREAK_ON_CHANGE_FLOW = 0x0A"
definition PAR_BREAK_ADDR1 :: u8 where [code_defs]: "PAR_BREAK_ADDR1 = 0x0B"
definition PAR_BREAK_ADDR2 :: u8 where [code_defs]: "PAR_BREAK_ADDR2 = 0x0C"
definition PAR_COMBBREAKCTRL :: u8 where [code_defs]: "PAR_COMBBREAKCTRL = 0x0D"
definition PAR_JTAGID :: u8 where [code_defs]: "PAR_JTAGID = 0x0E"
definition PAR_UNITS_BEFORE :: u8 where [code_defs]: "PAR_UNITS_BEFORE = 0x0F"
definition PAR_UNITS_AFTER :: u8 where [code_defs]: "PAR_UNITS_AFTER = 0x10"
definition PAR_BIT_BEFORE :: u8 where [code_defs]: "PAR_BIT_BEFORE = 0x11"
definition PAR_BIT_ATER :: u8 where [code_defs]: "PAR_BIT_ATER = 0x12"
definition PAR_EXTERNAL_RESET :: u8 where [code_defs]: "PAR_EXTERNAL_RESET = 0x13"
definition PAR_FLASH_PAGE_SIZE :: u8 where [code_defs]: "PAR_FLASH_PAGE_SIZE = 0x14"
definition PAR_EEPROM_PAGE_SIZE :: u8 where [code_defs]: "PAR_EEPROM_PAGE_SIZE = 0x15"
definition PAR_UNUSED1 :: u8 where [code_defs]: "PAR_UNUSED1 = 0x16"
definition PAR_PSB0 :: u8 where [code_defs]: "PAR_PSB0 = 0x17"
definition PAR_PSB1 :: u8 where [code_defs]: "PAR_PSB1 = 0x18"
definition PAR_PROTOCOL_DEBUG_EVENT :: u8 where [code_defs]: "PAR_PROTOCOL_DEBUG_EVENT = 0x19"
definition PAR_MCU_STATE :: u8 where [code_defs]: "PAR_MCU_STATE = 0x1A"
definition STOPPED :: u8 where [code_defs]: "STOPPED = 0x00"
definition RUNNING :: u8 where [code_defs]: "RUNNING = 0x01"
definition PROGRAMMING :: u8 where [code_defs]: "PROGRAMMING = 0x02"
definition PAR_DAISY_CHAIN_INFO :: u8 where [code_defs]: "PAR_DAISY_CHAIN_INFO = 0x1B"
definition PAR_BOOT_ADDRESS :: u8 where [code_defs]: "PAR_BOOT_ADDRESS = 0x1C"
definition PAR_TARGET_SIGNATURE :: u8 where [code_defs]: "PAR_TARGET_SIGNATURE = 0x1D"
definition PAR_DEBUGWIRE_BAUDRATE :: u8 where [code_defs]: "PAR_DEBUGWIRE_BAUDRATE = 0x1E"
definition PAR_PROGRAM_ENTRY_POINT :: u8 where [code_defs]: "PAR_PROGRAM_ENTRY_POINT = 0x1F"
definition PAR_PACKET_PARSING_ERRORS :: u8 where [code_defs]: "PAR_PACKET_PARSING_ERRORS = 0x40"
definition PAR_VALID_PACKETS_RECEIVED :: u8 where [code_defs]: "PAR_VALID_PACKETS_RECEIVED = 0x41"
definition PAR_INTERCOMMUNICATION_TX_FAILURES :: u8 where [code_defs]: "PAR_INTERCOMMUNICATION_TX_FAILURES = 0x42"
definition PAR_INTERCOMMUNICATION_RX_FAILURES :: u8 where [code_defs]: "PAR_INTERCOMMUNICATION_RX_FAILURES = 0x43"
definition PAR_CRC_ERRORS :: u8 where [code_defs]: "PAR_CRC_ERRORS = 0x44"
definition PAR_POWER_SOURCE :: u8 where [code_defs]: "PAR_POWER_SOURCE = 0x45"
definition POWER_EXTERNAL :: u8 where [code_defs]: "POWER_EXTERNAL = 0x00"
definition POWER_USB :: u8 where [code_defs]: "POWER_USB = 0x01"
definition PAR_CAN_FLAG :: u8 where [code_defs]: "PAR_CAN_FLAG = 0x22"
definition DONT_READ_CAN_MAILBOX :: u8 where [code_defs]: "DONT_READ_CAN_MAILBOX = 0x00"
definition READ_CAN_MAILBOX :: u8 where [code_defs]: "READ_CAN_MAILBOX = 0x01"
definition PAR_ENABLE_IDR_IN_RUN_MODE :: u8 where [code_defs]: "PAR_ENABLE_IDR_IN_RUN_MODE = 0x23"
definition ACCESS_OSCCAL :: u8 where [code_defs]: "ACCESS_OSCCAL = 0x00"
definition ACCESS_IDR :: u8 where [code_defs]: "ACCESS_IDR = 0x01"
definition PAR_ALLOW_PAGEPROGRAMMING_IN_SCANCHAIN :: u8 where [code_defs]: "PAR_ALLOW_PAGEPROGRAMMING_IN_SCANCHAIN = 0x24"
definition PAGEPROG_NOT_ALLOWED :: u8 where [code_defs]: "PAGEPROG_NOT_ALLOWED = 0x00"
definition PAGEPROG_ALLOWED :: u8 where [code_defs]: "PAGEPROG_ALLOWED = 0x01"

text \<open>\<open>bpType\<close> is an \<open>enum\<close> into which the flag \<open>HAS_MASK\<close> is or-ed, so it is kept as a word.\<close>

type_synonym bpType = u32

definition NONE :: bpType where [code_defs]: "NONE = 0"
definition CODE :: bpType where [code_defs]: "CODE = 1"
definition SOFTCODE :: bpType where [code_defs]: "SOFTCODE = 2"
definition WRITE_DATA :: bpType where [code_defs]: "WRITE_DATA = 3"
definition READ_DATA :: bpType where [code_defs]: "READ_DATA = 4"
definition ACCESS_DATA :: bpType where [code_defs]: "ACCESS_DATA = 5"
definition DATA_MASK :: bpType where [code_defs]: "DATA_MASK = 6"
definition HAS_MASK :: bpType where [code_defs]: "HAS_MASK = 0x80000000"

text \<open>A \<open>PC_INVALID\<close> program counter, and the memory types of an image.\<close>

definition PC_INVALID :: u64 where [code_defs]: "PC_INVALID = 0xffffffff"

datatype BFDmemoryType = MEM_FLASH | MEM_EEPROM | MEM_RAM

definition BFDmemoryTypeString :: "BFDmemoryType \<Rightarrow> string" where
  "BFDmemoryTypeString t =
     (case t of MEM_FLASH \<Rightarrow> ''FLASH'' | MEM_EEPROM \<Rightarrow> ''EEPROM'' | MEM_RAM \<Rightarrow> ''RAM'')"

definition BFDmemorySpaceOffset :: "BFDmemoryType \<Rightarrow> u64" where
  "BFDmemorySpaceOffset t =
     (case t of MEM_FLASH \<Rightarrow> FLASH_SPACE_ADDR_OFFSET
      | MEM_EEPROM \<Rightarrow> EEPROM_SPACE_ADDR_OFFSET
      | MEM_RAM \<Rightarrow> DATA_SPACE_ADDR_OFFSET)"

section \<open>Names of codes\<close>

type_synonym codeToString_t = "(u8 \<times> string) list"

definition jtagCmd2String :: codeToString_t where
  "jtagCmd2String = [
     (CMND_ENTER_PROGMODE, ''CMND_ENTER_PROGMODE''),
     (CMND_CHIP_ERASE, ''CMND_CHIP_ERASE''),
     (CMND_CLEAR_EVENTS, ''CMND_CLEAR_EVENTS''),
     (CMND_CLR_BREAK, ''CMND_CLR_BREAK''),
     (CMND_ENTER_PROGMODE, ''CMND_ENTER_PROGMODE''),
     (CMND_ERASEPAGE_SPM, ''CMND_ERASEPAGE_SPM''),
     (CMND_FORCED_STOP, ''CMND_FORCED_STOP''),
     (CMND_GET_BREAK, ''CMND_GET_BREAK''),
     (CMND_GET_PARAMETER, ''CMND_GET_PARAMETER''),
     (CMND_GET_SIGN_ON, ''CMND_GET_SIGN_ON''),
     (CMND_GET_SYNC, ''CMND_GET_SYNC''),
     (CMND_GO, ''CMND_GO''),
     (CMND_LEAVE_PROGMODE, ''CMND_LEAVE_PROGMODE''),
     (CMND_READ_MEMORY, ''CMND_READ_MEMORY''),
     (CMND_READ_PC, ''CMND_READ_PC''),
     (CMND_RESET, ''CMND_RESET''),
     (CMND_RESTORE_TARGET, ''CMND_RESTORE_TARGET''),
     (CMND_RUN_TO_ADDR, ''CMND_RUN_TO_ADDR''),
     (CMND_SELFTEST, ''CMND_SELFTEST''),
     (CMND_SET_BREAK, ''CMND_SET_BREAK''),
     (CMND_SET_DEVICE_DESCRIPTOR, ''CMND_SET_DEVICE_DESCRIPTOR''),
     (CMND_SET_N_PARAMETERS, ''CMND_SET_N_PARAMETERS''),
     (CMND_SET_PARAMETER, ''CMND_SET_PARAMETER''),
     (CMND_SIGN_OFF, ''CMND_SIGN_OFF''),
     (CMND_SINGLE_STEP, ''CMND_SINGLE_STEP''),
     (CMND_SPI_CMD, ''CMND_SPI_CMD''),
     (CMND_WRITE_MEMORY, ''CMND_WRITE_MEMORY''),
     (CMND_WRITE_PC, ''CMND_WRITE_PC'')]"

definition jtagRsp2String :: codeToString_t where
  "jtagRsp2String = [
     (RSP_DEBUGWIRE_SYNC_FAILED, ''RSP_DEBUGWIRE_SYNC_FAILED''),
     (RSP_FAILED, ''RSP_FAILED''),
     (RSP_GET_BREAK, ''RSP_GET_BREAK''),
     (RSP_ILLEGAL_BREAKPOINT, ''RSP_ILLEGAL_BREAKPOINT''),
     (RSP_ILLEGAL_COMMAND, ''RSP_ILLEGAL_COMMAND''),
     (RSP_ILLEGAL_EMULATOR_MODE, ''RSP_ILLEGAL_EMULATOR_MODE''),
     (RSP_ILLEGAL_JTAG_ID, ''RSP_ILLEGAL_JTAG_ID''),
     (RSP_ILLEGAL_MCU_STATE, ''RSP_ILLEGAL_MCU_STATE''),
     (RSP_ILLEGAL_MEMORY_TYPE, ''RSP_ILLEGAL_MEMORY_TYPE''),
     (RSP_ILLEGAL_MEMORY_RANGE, ''RSP_ILLEGAL_MEMORY_RANGE''),
     (RSP_ILLEGAL_PARAMETER, ''RSP_ILLEGAL_PARAMETER''),
     (RSP_ILLEGAL_POWER_STATE, ''RSP_ILLEGAL_POWER_STATE''),
     (RSP_ILLEGAL_VALUE, ''RSP_ILLEGAL_VALUE''),
     (RSP_MEMORY, ''RSP_MEMORY''),
     (RSP_NO_TARGET_POWER, ''RSP_NO_TARGET_POWER''),
     (RSP_OK, ''RSP_OK''),
     (RSP_PARAMETER, ''RSP_PARAMETER''),
     (RSP_PC, ''RSP_PC''),
     (RSP_SELFTEST, ''RSP_SELFTEST''),
     (RSP_SET_N_PARAMETERS, ''RSP_SET_N_PARAMETERS''),
     (RSP_SIGN_ON, ''RSP_SIGN_ON''),
     (RSP_SPI_DATA, ''RSP_SPI_DATA'')]"

text \<open>The loop returns the name of the first entry with the code.\<close>

fun codeToString :: "u8 \<Rightarrow> codeToString_t \<Rightarrow> string \<Rightarrow> string" where
  "codeToString code [] defaultName = defaultName"
| "codeToString code ((c, name) # arr) defaultName =
     (if c = code then name else codeToString code arr defaultName)"

definition jtagCmdToString :: "u8 \<Rightarrow> string" where
  "jtagCmdToString command = codeToString command jtagCmd2String ''CMND_UNKNOWN''"

definition jtagRspToString :: "u8 \<Rightarrow> string" where
  "jtagRspToString rsp = codeToString rsp jtagRsp2String ''RSP_UNKNOWN''"

lemma codeToString_map_of:
  "codeToString code arr d = (case map_of arr code of None \<Rightarrow> d | Some n \<Rightarrow> n)"
  by (induction code arr d rule: codeToString.induct) auto

lemma jtagRspToString_known:
  assumes "(c, n) \<in> set jtagRsp2String"
  shows "jtagRspToString c = n"
proof -
  have "distinct (map fst jtagRsp2String)"
    by (simp add: jtagRsp2String_def code_defs)
  with assms show ?thesis
    by (simp add: jtagRspToString_def codeToString_map_of)
qed

lemma jtagCmdToString_known:
  assumes "(c, n) \<in> set jtagCmd2String"
  shows "jtagCmdToString c = n"
proof -
  have "distinct (map fst (tl jtagCmd2String))" "hd jtagCmd2String \<in> set (tl jtagCmd2String)"
    and "jtagCmd2String = hd jtagCmd2String # tl jtagCmd2String"
    by (simp_all add: jtagCmd2String_def code_defs)
  moreover define h t where "h = hd jtagCmd2String" and "t = tl jtagCmd2String"
  ultimately have d: "distinct (map fst t)" and h: "h \<in> set t" and T: "jtagCmd2String = h # t"
    by simp_all
  then have "(c, n) \<in> set t"
    using assms by (metis set_ConsD)
  with d h have "map_of t c = Some n" "map_of t (fst h) = Some (snd h)"
    by simp_all
  then have "map_of jtagCmd2String c = Some n"
    unfolding T by (cases h) auto
  then show ?thesis
    by (simp add: jtagCmdToString_def codeToString_map_of)
qed

end
