(* ===== verification/Io_Registers.thy ===== *)
theory Io_Registers
  imports Constants
begin

text \<open>
  \<^verbatim>\<open>src/src/ioreg.h\<close> and \<^verbatim>\<open>src/src/ioreg.cc\<close>: the I/O registers that the GDB command
  \<^verbatim>\<open>info io_registers\<close> shows, one table per device family. An entry without a name ends a table.
\<close>

definition IO_REG_RSE :: u8 where [code_defs]: "IO_REG_RSE = 0x01"

record gdb_io_reg_def =
  reg_name :: "string option"
  reg_addr :: u8
  reg_flags :: u8

definition io_reg :: "string option \<Rightarrow> u8 \<Rightarrow> u8 \<Rightarrow> gdb_io_reg_def" where
  "io_reg n a f = \<lparr>reg_name = n, reg_addr = a, reg_flags = f\<rparr>"

definition atmega16_io_registers :: "gdb_io_reg_def list" where
  "atmega16_io_registers = [
     io_reg (Some ''TWBR'') 0x20 0x00, io_reg (Some ''TWSR'') 0x21 0x00,
     io_reg (Some ''TWAR'') 0x22 0x00, io_reg (Some ''TWDR'') 0x23 0x00,
     io_reg (Some ''ADCL'') 0x24 IO_REG_RSE, io_reg (Some ''ADCH'') 0x25 IO_REG_RSE,
     io_reg (Some ''ADCSRA'') 0x26 0x00, io_reg (Some ''ADMUX'') 0x27 0x00,
     io_reg (Some ''ACSR'') 0x28 0x00, io_reg (Some ''UBRRL'') 0x29 0x00,
     io_reg (Some ''UCSRB'') 0x2A 0x00, io_reg (Some ''UCSRA'') 0x2B 0x00,
     io_reg (Some ''UDR'') 0x2C IO_REG_RSE, io_reg (Some ''SPCR'') 0x2D 0x00,
     io_reg (Some ''SPSR'') 0x2E 0x00, io_reg (Some ''SPDR'') 0x2F 0x00,
     io_reg (Some ''PIND'') 0x30 0x00, io_reg (Some ''DDRD'') 0x31 0x00,
     io_reg (Some ''PORTD'') 0x32 0x00, io_reg (Some ''PINC'') 0x33 0x00,
     io_reg (Some ''DDRC'') 0x34 0x00, io_reg (Some ''PORTC'') 0x35 0x00,
     io_reg (Some ''PINB'') 0x36 0x00, io_reg (Some ''DDRB'') 0x37 0x00,
     io_reg (Some ''PORTB'') 0x38 0x00, io_reg (Some ''PINA'') 0x39 0x00,
     io_reg (Some ''DDRA'') 0x3A 0x00, io_reg (Some ''PORTA'') 0x3B 0x00,
     io_reg (Some ''EECR'') 0x3C 0x00, io_reg (Some ''EEDR'') 0x3D 0x00,
     io_reg (Some ''EEARL'') 0x3E 0x00, io_reg (Some ''EEARH'') 0x3F 0x00,
     io_reg (Some ''UCSRC -- UBRRH'') 0x40 0x00, io_reg (Some ''WDTCR'') 0x41 0x00,
     io_reg (Some ''ASSR'') 0x42 0x00, io_reg (Some ''OCR2'') 0x43 0x00,
     io_reg (Some ''TCNT2'') 0x44 0x00, io_reg (Some ''TCCR2'') 0x45 0x00,
     io_reg (Some ''ICR1L'') 0x46 0x00, io_reg (Some ''ICR1H'') 0x47 0x00,
     io_reg (Some ''OCR1BL'') 0x48 0x00, io_reg (Some ''OCR1BH'') 0x49 0x00,
     io_reg (Some ''OCR1AL'') 0x4A 0x00, io_reg (Some ''OCR1AH'') 0x4B 0x00,
     io_reg (Some ''TCNT1L'') 0x4C 0x00, io_reg (Some ''TCNT1H'') 0x4D 0x00,
     io_reg (Some ''TCCR1B'') 0x4E 0x00, io_reg (Some ''TCCR1A'') 0x4F 0x00,
     io_reg (Some ''SFIOR'') 0x50 0x00, io_reg (Some ''OCDR -- OSCCAL'') 0x51 0x00,
     io_reg (Some ''TCNT0'') 0x52 0x00, io_reg (Some ''TCCR0'') 0x53 0x00,
     io_reg (Some ''MCUCSR'') 0x54 0x00, io_reg (Some ''MCUCR'') 0x55 0x00,
     io_reg (Some ''TWCR'') 0x56 0x00, io_reg (Some ''SPMCR'') 0x57 0x00,
     io_reg (Some ''TIFR'') 0x58 0x00, io_reg (Some ''TIMSK'') 0x59 0x00,
     io_reg (Some ''GIFR'') 0x5A 0x00, io_reg (Some ''GICR'') 0x5B 0x00,
     io_reg (Some ''OCR0'') 0x5C 0x00, io_reg (Some ''SPL'') 0x5D 0x00,
     io_reg (Some ''SPH'') 0x5E 0x00, io_reg (Some ''SREG'') 0x5F 0x00, io_reg None 0 0]"

definition atmega162_io_registers :: "gdb_io_reg_def list" where
  "atmega162_io_registers = [
     io_reg (Some ''UBRR1L'') 0x20 0x00, io_reg (Some ''UCSR1B'') 0x21 0x00,
     io_reg (Some ''UCSR1A'') 0x22 0x00, io_reg (Some ''UDR1'') 0x23 IO_REG_RSE,
     io_reg (Some ''OCDR -- OSCCAL'') 0x24 0x00, io_reg (Some ''PINE'') 0x25 0x00,
     io_reg (Some ''DDRE'') 0x26 0x00, io_reg (Some ''PORTE'') 0x27 0x00,
     io_reg (Some ''ACSR'') 0x28 0x00, io_reg (Some ''UBRR0L'') 0x29 0x00,
     io_reg (Some ''UCSR0B'') 0x2A 0x00, io_reg (Some ''UCSR0A'') 0x2B 0x00,
     io_reg (Some ''UDR0'') 0x2C IO_REG_RSE, io_reg (Some ''SPCR'') 0x2D 0x00,
     io_reg (Some ''SPSR'') 0x2E 0x00, io_reg (Some ''SPDR'') 0x2F 0x00,
     io_reg (Some ''PIND'') 0x30 0x00, io_reg (Some ''DDRD'') 0x31 0x00,
     io_reg (Some ''PORTD'') 0x32 0x00, io_reg (Some ''PINC'') 0x33 0x00,
     io_reg (Some ''DDRC'') 0x34 0x00, io_reg (Some ''PORTC'') 0x35 0x00,
     io_reg (Some ''PINB'') 0x36 0x00, io_reg (Some ''DDRB'') 0x37 0x00,
     io_reg (Some ''PORTB'') 0x38 0x00, io_reg (Some ''PINA'') 0x39 0x00,
     io_reg (Some ''DDRA'') 0x3A 0x00, io_reg (Some ''PORTA'') 0x3B 0x00,
     io_reg (Some ''EECR'') 0x3C 0x00, io_reg (Some ''EEDR'') 0x3D 0x00,
     io_reg (Some ''EEARL'') 0x3E 0x00, io_reg (Some ''EEARH'') 0x3F 0x00,
     io_reg (Some ''UBRR0H -- UCSR0C'') 0x40 0x00, io_reg (Some ''WDTCR'') 0x41 0x00,
     io_reg (Some ''OCR2'') 0x42 0x00, io_reg (Some ''TCNT2'') 0x43 0x00,
     io_reg (Some ''ICR1L'') 0x44 0x00, io_reg (Some ''ICR1H'') 0x45 0x00,
     io_reg (Some ''ASSR'') 0x46 0x00, io_reg (Some ''TCCR2'') 0x47 0x00,
     io_reg (Some ''OCR1BL'') 0x48 0x00, io_reg (Some ''OCR1BH'') 0x49 0x00,
     io_reg (Some ''OCR1AL'') 0x4A 0x00, io_reg (Some ''OCR1AH'') 0x4B 0x00,
     io_reg (Some ''TCNT1L'') 0x4C 0x00, io_reg (Some ''TCNT1H'') 0x4D 0x00,
     io_reg (Some ''TCCR1B'') 0x4E 0x00, io_reg (Some ''TCCR1A'') 0x4F 0x00,
     io_reg (Some ''SFIOR'') 0x50 0x00, io_reg (Some ''OCR0'') 0x51 0x00,
     io_reg (Some ''TCNT0'') 0x52 0x00, io_reg (Some ''TCCR0'') 0x53 0x00,
     io_reg (Some ''MCUCSR'') 0x54 0x00, io_reg (Some ''MCUCR'') 0x55 0x00,
     io_reg (Some ''EMCUCR'') 0x56 0x00, io_reg (Some ''SPMCR'') 0x57 0x00,
     io_reg (Some ''TIFR'') 0x58 0x00, io_reg (Some ''TIMSK'') 0x59 0x00,
     io_reg (Some ''GIFR'') 0x5A 0x00, io_reg (Some ''GICR'') 0x5B 0x00,
     io_reg (Some ''UCSR1C -- UBRR1H'') 0x5C 0x00, io_reg (Some ''SPL'') 0x5D 0x00,
     io_reg (Some ''SPH'') 0x5E 0x00, io_reg (Some ''SREG'') 0x5F 0x00,
     io_reg (Some ''CLKPR'') 0x61 0x00, io_reg (Some ''PCMSK0'') 0x6B 0x00,
     io_reg (Some ''PCMSK1'') 0x6C 0x00, io_reg (Some ''ETIFR'') 0x7C 0x00,
     io_reg (Some ''ETIMSK'') 0x7D 0x00, io_reg (Some ''ICR3L'') 0x80 0x00,
     io_reg (Some ''ICR3H'') 0x81 0x00, io_reg (Some ''OCR3BL'') 0x84 0x00,
     io_reg (Some ''OCR3BH'') 0x85 0x00, io_reg (Some ''OCR3AL'') 0x86 0x00,
     io_reg (Some ''OCR3AH'') 0x87 0x00, io_reg (Some ''TCNT3L'') 0x88 0x00,
     io_reg (Some ''TCNT3H'') 0x89 0x00, io_reg (Some ''TCCR3B'') 0x8A 0x00,
     io_reg (Some ''TCCR3A'') 0x8B 0x00, io_reg None 0 0]"

definition atmega169_io_registers :: "gdb_io_reg_def list" where
  "atmega169_io_registers = [
     io_reg (Some ''PINA'') 0x20 0x00, io_reg (Some ''DDRA'') 0x21 0x00,
     io_reg (Some ''PORTA'') 0x22 0x00, io_reg (Some ''PINB'') 0x23 0x00,
     io_reg (Some ''DDRB'') 0x24 0x00, io_reg (Some ''PORTB'') 0x25 0x00,
     io_reg (Some ''PINC'') 0x26 0x00, io_reg (Some ''DDRC'') 0x27 0x00,
     io_reg (Some ''PORTC'') 0x28 0x00, io_reg (Some ''PIND'') 0x29 0x00,
     io_reg (Some ''DDRD'') 0x2A 0x00, io_reg (Some ''PORTD'') 0x2B 0x00,
     io_reg (Some ''PINE'') 0x2C 0x00, io_reg (Some ''DDRE'') 0x2D 0x00,
     io_reg (Some ''PORTE'') 0x2E 0x00, io_reg (Some ''PINF'') 0x2F 0x00,
     io_reg (Some ''DDRF'') 0x30 0x00, io_reg (Some ''PORTF'') 0x31 0x00,
     io_reg (Some ''PING'') 0x32 0x00, io_reg (Some ''DDRG'') 0x33 0x00,
     io_reg (Some ''PORTG'') 0x34 0x00, io_reg (Some ''TIFR0'') 0x35 0x00,
     io_reg (Some ''TIFR1'') 0x36 0x00, io_reg (Some ''TIFR2'') 0x37 0x00,
     io_reg (Some ''EIFR'') 0x3C 0x00, io_reg (Some ''EIMSK'') 0x3D 0x00,
     io_reg (Some ''GPIOR0'') 0x3E 0x00, io_reg (Some ''EECR'') 0x3F 0x00,
     io_reg (Some ''EEDR'') 0x40 0x00, io_reg (Some ''EEARL'') 0x41 0x00,
     io_reg (Some ''EEARH'') 0x42 0x00, io_reg (Some ''GTCCR'') 0x43 0x00,
     io_reg (Some ''TCCR0A'') 0x44 0x00, io_reg (Some ''TCNT0'') 0x46 0x00,
     io_reg (Some ''OCR0A'') 0x47 0x00, io_reg (Some ''GPIOR1'') 0x4A 0x00,
     io_reg (Some ''GPIOR2'') 0x4B 0x00, io_reg (Some ''SPCR'') 0x4C 0x00,
     io_reg (Some ''SPSR'') 0x4D 0x00, io_reg (Some ''SPDR'') 0x4E 0x00,
     io_reg (Some ''ACSR'') 0x50 0x00, io_reg (Some ''OCDR'') 0x51 0x00,
     io_reg (Some ''SMCR'') 0x53 0x00, io_reg (Some ''MCUCSR'') 0x54 0x00,
     io_reg (Some ''MCUCR'') 0x55 0x00, io_reg (Some ''SPMCSR'') 0x57 0x00,
     io_reg (Some ''SPL'') 0x5D 0x00, io_reg (Some ''SPH'') 0x5E 0x00,
     io_reg (Some ''SREG'') 0x5F 0x00, io_reg (Some ''WDTCR'') 0x60 0x00,
     io_reg (Some ''CLKPR'') 0x61 0x00, io_reg (Some ''OSCCAL'') 0x66 0x00,
     io_reg (Some ''EICRA'') 0x69 0x00, io_reg (Some ''PCMSK0'') 0x6B 0x00,
     io_reg (Some ''PCMSK1'') 0x6C 0x00, io_reg (Some ''TIMSK0'') 0x6E 0x00,
     io_reg (Some ''TIMSK1'') 0x6F 0x00, io_reg (Some ''TIMSK2'') 0x70 0x00,
     io_reg (Some ''ADCL'') 0x78 IO_REG_RSE, io_reg (Some ''ADCH'') 0x79 IO_REG_RSE,
     io_reg (Some ''ADCSRA'') 0x7A 0x00, io_reg (Some ''ADCSRB'') 0x7B 0x00,
     io_reg (Some ''ADMUX'') 0x7C 0x00, io_reg (Some ''DIDR0'') 0x7E 0x00,
     io_reg (Some ''DIDR1'') 0x7F 0x00, io_reg (Some ''TCCR1A'') 0x80 0x00,
     io_reg (Some ''TCCR1B'') 0x81 0x00, io_reg (Some ''TCCR1C'') 0x82 0x00,
     io_reg (Some ''TCNT1L'') 0x84 0x00, io_reg (Some ''TCNT1H'') 0x85 0x00,
     io_reg (Some ''ICR1L'') 0x86 0x00, io_reg (Some ''ICR1H'') 0x87 0x00,
     io_reg (Some ''OCR1AL'') 0x88 0x00, io_reg (Some ''OCR1AH'') 0x89 0x00,
     io_reg (Some ''OCR1BL'') 0x8A 0x00, io_reg (Some ''OCR1BH'') 0x8B 0x00,
     io_reg (Some ''TCCR2A'') 0xB0 0x00, io_reg (Some ''TCNT2'') 0xB2 0x00,
     io_reg (Some ''OCR2A'') 0xB3 0x00, io_reg (Some ''ASSR'') 0xB6 0x00,
     io_reg (Some ''USICR'') 0xB8 0x00, io_reg (Some ''USISR'') 0xB9 0x00,
     io_reg (Some ''USIDR'') 0xBA 0x00, io_reg (Some ''UCSRA'') 0xC0 0x00,
     io_reg (Some ''UCSRB'') 0xC1 0x00, io_reg (Some ''UCSRC'') 0xC2 0x00,
     io_reg (Some ''UBRRL'') 0xC4 0x00, io_reg (Some ''UBRRH'') 0xC5 0x00,
     io_reg (Some ''UDR'') 0xC6 IO_REG_RSE, io_reg (Some ''LCDCRA'') 0xE4 0x00,
     io_reg (Some ''LCDCRB'') 0xE5 0x00, io_reg (Some ''LCDFRR'') 0xE6 0x00,
     io_reg (Some ''LCDCCR'') 0xE7 0x00, io_reg (Some ''LCDDR0'') 0xEC 0x00,
     io_reg (Some ''LCDDR1'') 0xED 0x00, io_reg (Some ''LCDDR2'') 0xEE 0x00,
     io_reg (Some ''LCDDR3'') 0xEF 0x00, io_reg (Some ''LCDDR5'') 0xF1 0x00,
     io_reg (Some ''LCDDR6'') 0xF2 0x00, io_reg (Some ''LCDDR7'') 0xF3 0x00,
     io_reg (Some ''LCDDR8'') 0xF4 0x00, io_reg (Some ''LCDDR10'') 0xF6 0x00,
     io_reg (Some ''LCDDR11'') 0xF7 0x00, io_reg (Some ''LCDDR12'') 0xF8 0x00,
     io_reg (Some ''LCDDR13'') 0xF9 0x00, io_reg (Some ''LCDDR15'') 0xFB 0x00,
     io_reg (Some ''LCDDR16'') 0xFC 0x00, io_reg (Some ''LCDDR17'') 0xFD 0x00,
     io_reg (Some ''LCDDR18'') 0xFE 0x00, io_reg None 0 0]"

definition atmega32_io_registers :: "gdb_io_reg_def list" where
  "atmega32_io_registers = [
     io_reg (Some ''TWBR'') 0x20 0x00, io_reg (Some ''TWSR'') 0x21 0x00,
     io_reg (Some ''TWAR'') 0x22 0x00, io_reg (Some ''TWDR'') 0x23 0x00,
     io_reg (Some ''ADCL'') 0x24 IO_REG_RSE, io_reg (Some ''ADCH'') 0x25 IO_REG_RSE,
     io_reg (Some ''ADCSRA'') 0x26 0x00, io_reg (Some ''ADMUX'') 0x27 0x00,
     io_reg (Some ''ACSR'') 0x28 0x00, io_reg (Some ''UBRRL'') 0x29 0x00,
     io_reg (Some ''UCSRB'') 0x2A 0x00, io_reg (Some ''UCSRA'') 0x2B 0x00,
     io_reg (Some ''UDR'') 0x2C IO_REG_RSE, io_reg (Some ''SPCR'') 0x2D 0x00,
     io_reg (Some ''SPSR'') 0x2E 0x00, io_reg (Some ''SPDR'') 0x2F 0x00,
     io_reg (Some ''PIND'') 0x30 0x00, io_reg (Some ''DDRD'') 0x31 0x00,
     io_reg (Some ''PORTD'') 0x32 0x00, io_reg (Some ''PINC'') 0x33 0x00,
     io_reg (Some ''DDRC'') 0x34 0x00, io_reg (Some ''PORTC'') 0x35 0x00,
     io_reg (Some ''PINB'') 0x36 0x00, io_reg (Some ''DDRB'') 0x37 0x00,
     io_reg (Some ''PORTB'') 0x38 0x00, io_reg (Some ''PINA'') 0x39 0x00,
     io_reg (Some ''DDRA'') 0x3A 0x00, io_reg (Some ''PORTA'') 0x3B 0x00,
     io_reg (Some ''EECR'') 0x3C 0x00, io_reg (Some ''EEDR'') 0x3D 0x00,
     io_reg (Some ''EEARL'') 0x3E 0x00, io_reg (Some ''EEARH'') 0x3F 0x00,
     io_reg (Some ''UBRR0H -- UCSR0C'') 0x40 0x00, io_reg (Some ''WDTCR'') 0x41 0x00,
     io_reg (Some ''ASSR'') 0x42 0x00, io_reg (Some ''OCR2'') 0x43 0x00,
     io_reg (Some ''TCNT2'') 0x44 0x00, io_reg (Some ''TCCR2'') 0x45 0x00,
     io_reg (Some ''ICR1L'') 0x46 0x00, io_reg (Some ''ICR1H'') 0x47 0x00,
     io_reg (Some ''OCR1BL'') 0x48 0x00, io_reg (Some ''OCR1BH'') 0x49 0x00,
     io_reg (Some ''OCR1AL'') 0x4A 0x00, io_reg (Some ''OCR1AH'') 0x4B 0x00,
     io_reg (Some ''TCNT1L'') 0x4C 0x00, io_reg (Some ''TCNT1H'') 0x4D 0x00,
     io_reg (Some ''TCCR1B'') 0x4E 0x00, io_reg (Some ''TCCR1A'') 0x4F 0x00,
     io_reg (Some ''SFIOR'') 0x50 0x00, io_reg (Some ''OSCCAL'') 0x51 0x00,
     io_reg (Some ''TCNT0'') 0x52 0x00, io_reg (Some ''TCCR0'') 0x53 0x00,
     io_reg (Some ''MCUCSR'') 0x54 0x00, io_reg (Some ''MCUCR'') 0x55 0x00,
     io_reg (Some ''TWCR'') 0x56 0x00, io_reg (Some ''SPMCR'') 0x57 0x00,
     io_reg (Some ''TIFR'') 0x58 0x00, io_reg (Some ''TIMSK'') 0x59 0x00,
     io_reg (Some ''GIFR'') 0x5A 0x00, io_reg (Some ''GIMSK'') 0x5B 0x00,
     io_reg (Some ''OCR0'') 0x5C 0x00, io_reg (Some ''SPL'') 0x5D 0x00,
     io_reg (Some ''SPH'') 0x5E 0x00, io_reg (Some ''SREG'') 0x5F 0x00, io_reg None 0 0]"

definition atmega128_io_registers :: "gdb_io_reg_def list" where
  "atmega128_io_registers = [
     io_reg (Some ''PINF'') 0x20 0x00, io_reg (Some ''PINE'') 0x21 0x00,
     io_reg (Some ''DDRE'') 0x22 0x00, io_reg (Some ''PORTE'') 0x23 0x00,
     io_reg (Some ''ADCL'') 0x24 IO_REG_RSE, io_reg (Some ''ADCH'') 0x25 IO_REG_RSE,
     io_reg (Some ''ADCSRA'') 0x26 0x00, io_reg (Some ''ADMUX'') 0x27 0x00,
     io_reg (Some ''ACSR'') 0x28 0x00, io_reg (Some ''UBRR0L'') 0x29 0x00,
     io_reg (Some ''UCSR0B'') 0x2A 0x00, io_reg (Some ''UCSR0A'') 0x2B 0x00,
     io_reg (Some ''UDR0'') 0x2C IO_REG_RSE, io_reg (Some ''SPCR'') 0x2D 0x00,
     io_reg (Some ''SPSR'') 0x2E 0x00, io_reg (Some ''SPDR'') 0x2F 0x00,
     io_reg (Some ''PIND'') 0x30 0x00, io_reg (Some ''DDRD'') 0x31 0x00,
     io_reg (Some ''PORTD'') 0x32 0x00, io_reg (Some ''PINC'') 0x33 0x00,
     io_reg (Some ''DDRC'') 0x34 0x00, io_reg (Some ''PORTC'') 0x35 0x00,
     io_reg (Some ''PINB'') 0x36 0x00, io_reg (Some ''DDRB'') 0x37 0x00,
     io_reg (Some ''PORTB'') 0x38 0x00, io_reg (Some ''PINA'') 0x39 0x00,
     io_reg (Some ''DDRA'') 0x3A 0x00, io_reg (Some ''PORTA'') 0x3B 0x00,
     io_reg (Some ''EECR'') 0x3C 0x00, io_reg (Some ''EEDR'') 0x3D 0x00,
     io_reg (Some ''EEARL'') 0x3E 0x00, io_reg (Some ''EEARH'') 0x3F 0x00,
     io_reg (Some ''SFIOR'') 0x40 0x00, io_reg (Some ''WDTCR'') 0x41 0x00,
     io_reg (Some ''OCDR'') 0x42 0x00, io_reg (Some ''OCR2'') 0x43 0x00,
     io_reg (Some ''TCNT2'') 0x44 0x00, io_reg (Some ''TCCR2'') 0x45 0x00,
     io_reg (Some ''ICR1L'') 0x46 0x00, io_reg (Some ''ICR1H'') 0x47 0x00,
     io_reg (Some ''OCR1BL'') 0x48 0x00, io_reg (Some ''OCR1BH'') 0x49 0x00,
     io_reg (Some ''OCR1AL'') 0x4A 0x00, io_reg (Some ''OCR1AH'') 0x4B 0x00,
     io_reg (Some ''TCNT1L'') 0x4C 0x00, io_reg (Some ''TCNT1H'') 0x4D 0x00,
     io_reg (Some ''TCCR1B'') 0x4E 0x00, io_reg (Some ''TCCR1A'') 0x4F 0x00,
     io_reg (Some ''ASSR'') 0x50 0x00, io_reg (Some ''OCR0'') 0x51 0x00,
     io_reg (Some ''TCNT0'') 0x52 0x00, io_reg (Some ''TCCR0'') 0x53 0x00,
     io_reg (Some ''MCUCSR'') 0x54 0x00, io_reg (Some ''MCUCR'') 0x55 0x00,
     io_reg (Some ''TIFR'') 0x56 0x00, io_reg (Some ''TIMSK'') 0x57 0x00,
     io_reg (Some ''EIFR'') 0x58 0x00, io_reg (Some ''EIMSK'') 0x59 0x00,
     io_reg (Some ''EICRB'') 0x5A 0x00, io_reg (Some ''RAMPZ'') 0x5B 0x00,
     io_reg (Some ''XDIV'') 0x5C 0x00, io_reg (Some ''SPL'') 0x5D 0x00,
     io_reg (Some ''SPH'') 0x5E 0x00, io_reg (Some ''SREG'') 0x5F 0x00,
     io_reg (Some ''DDRF'') 0x61 0x00, io_reg (Some ''PORTF'') 0x62 0x00,
     io_reg (Some ''PING'') 0x63 0x00, io_reg (Some ''DDRG'') 0x64 0x00,
     io_reg (Some ''PORTG'') 0x65 0x00, io_reg (Some ''SPMCSR'') 0x68 0x00,
     io_reg (Some ''EICRA'') 0x6A 0x00, io_reg (Some ''XMCRB'') 0x6C 0x00,
     io_reg (Some ''XMCRA'') 0x6D 0x00, io_reg (Some ''OSCCAL'') 0x6F 0x00,
     io_reg (Some ''TWBR'') 0x70 0x00, io_reg (Some ''TWSR'') 0x71 0x00,
     io_reg (Some ''TWAR'') 0x72 0x00, io_reg (Some ''TWDR'') 0x73 0x00,
     io_reg (Some ''TWCR'') 0x74 0x00, io_reg (Some ''OCR1CL'') 0x78 0x00,
     io_reg (Some ''OCR1CH'') 0x79 0x00, io_reg (Some ''TCCR1C'') 0x7A 0x00,
     io_reg (Some ''ETIFR'') 0x7C 0x00, io_reg (Some ''ETIMSK'') 0x7D 0x00,
     io_reg (Some ''ICR3L'') 0x80 0x00, io_reg (Some ''ICR3H'') 0x81 0x00,
     io_reg (Some ''OCR3CL'') 0x82 0x00, io_reg (Some ''OCR3CH'') 0x83 0x00,
     io_reg (Some ''OCR3BL'') 0x84 0x00, io_reg (Some ''OCR3BH'') 0x85 0x00,
     io_reg (Some ''OCR3AL'') 0x86 0x00, io_reg (Some ''OCR3AH'') 0x87 0x00,
     io_reg (Some ''TCNT3L'') 0x88 0x00, io_reg (Some ''TCNT3H'') 0x89 0x00,
     io_reg (Some ''TCCR3B'') 0x8A 0x00, io_reg (Some ''TCCR3A'') 0x8B 0x00,
     io_reg (Some ''TCCR3C'') 0x8C 0x00, io_reg (Some ''UBRR0H'') 0x90 0x00,
     io_reg (Some ''UCSR0C'') 0x95 0x00, io_reg (Some ''UBRR1H'') 0x98 0x00,
     io_reg (Some ''UBRR1L'') 0x99 0x00, io_reg (Some ''UCSR1B'') 0x9A 0x00,
     io_reg (Some ''UCSR1A'') 0x9B 0x00, io_reg (Some ''UDR1'') 0x9C IO_REG_RSE,
     io_reg (Some ''UCSR1C'') 0x9D 0x00, io_reg None 0 0]"

definition iocan128_io_registers :: "gdb_io_reg_def list" where
  "iocan128_io_registers = [
     io_reg (Some ''PINA'') 0x20 0x00, io_reg (Some ''DDRA'') 0x21 0x00,
     io_reg (Some ''PORTA'') 0x22 0x00, io_reg (Some ''PINB'') 0x23 0x00,
     io_reg (Some ''DDRB'') 0x24 0x00, io_reg (Some ''PORTB'') 0x25 0x00,
     io_reg (Some ''PINC'') 0x26 0x00, io_reg (Some ''DDRC'') 0x27 0x00,
     io_reg (Some ''PORTC'') 0x28 0x00, io_reg (Some ''PIND'') 0x29 0x00,
     io_reg (Some ''DDRD'') 0x2A 0x00, io_reg (Some ''PORTD'') 0x2B 0x00,
     io_reg (Some ''PINE'') 0x2C 0x00, io_reg (Some ''DDRE'') 0x2D 0x00,
     io_reg (Some ''PORTE'') 0x2E 0x00, io_reg (Some ''PINF'') 0x2F 0x00,
     io_reg (Some ''DDRF'') 0x30 0x00, io_reg (Some ''PORTF'') 0x31 0x00,
     io_reg (Some ''PING'') 0x32 0x00, io_reg (Some ''DDRG'') 0x33 0x00,
     io_reg (Some ''PORTG'') 0x34 0x00, io_reg (Some ''TIFR0'') 0x35 0x00,
     io_reg (Some ''TIFR1'') 0x36 0x00, io_reg (Some ''TIFR2'') 0x37 0x00,
     io_reg (Some ''TIFR3'') 0x38 0x00, io_reg (Some ''EIFR'') 0x3C 0x00,
     io_reg (Some ''EIMSK'') 0x3D 0x00, io_reg (Some ''GPIOR0'') 0x3E 0x00,
     io_reg (Some ''EECR'') 0x3F 0x00, io_reg (Some ''EEDR'') 0x40 0x00,
     io_reg (Some ''EEARL'') 0x41 0x00, io_reg (Some ''EEARH'') 0x42 0x00,
     io_reg (Some ''GTCCR'') 0x43 0x00, io_reg (Some ''TCCR0A'') 0x44 0x00,
     io_reg (Some ''TCNT0'') 0x46 0x00, io_reg (Some ''OCR0A'') 0x47 0x00,
     io_reg (Some ''GPIOR1'') 0x4A 0x00, io_reg (Some ''GPIOR2'') 0x4B 0x00,
     io_reg (Some ''SPCR'') 0x4C 0x00, io_reg (Some ''SPSR'') 0x4D 0x00,
     io_reg (Some ''SPDR'') 0x4E 0x00, io_reg (Some ''ACSR'') 0x50 0x00,
     io_reg (Some ''OCDR'') 0x51 0x00, io_reg (Some ''SMCR'') 0x53 0x00,
     io_reg (Some ''MCUSR'') 0x54 0x00, io_reg (Some ''MCUCR'') 0x55 0x00,
     io_reg (Some ''SPMCSR'') 0x57 0x00, io_reg (Some ''RAMPZ'') 0x5B 0x00,
     io_reg (Some ''SPL'') 0x5D 0x00, io_reg (Some ''SPH'') 0x5E 0x00,
     io_reg (Some ''SREG'') 0x5F 0x00, io_reg (Some ''WDTCR'') 0x60 0x00,
     io_reg (Some ''CLKPR'') 0x61 0x00, io_reg (Some ''OSCCAL'') 0x66 0x00,
     io_reg (Some ''EICRA'') 0x69 0x00, io_reg (Some ''EICRB'') 0x6A 0x00,
     io_reg (Some ''TIMSK0'') 0x6E 0x00, io_reg (Some ''TIMSK1'') 0x6F 0x00,
     io_reg (Some ''TIMSK2'') 0x70 0x00, io_reg (Some ''TIMSK3'') 0x71 0x00,
     io_reg (Some ''XMCRA'') 0x74 0x00, io_reg (Some ''XMCRB'') 0x75 0x00,
     io_reg (Some ''ADCL'') 0x78 IO_REG_RSE, io_reg (Some ''ADCH'') 0x79 IO_REG_RSE,
     io_reg (Some ''ADCSRA'') 0x7A 0x00, io_reg (Some ''ADCSRB'') 0x7B 0x00,
     io_reg (Some ''ADMUX'') 0x7C 0x00, io_reg (Some ''DIDR0'') 0x7E 0x00,
     io_reg (Some ''DIDR1'') 0x7F 0x00, io_reg (Some ''TCCR1A'') 0x80 0x00,
     io_reg (Some ''TCCR1B'') 0x81 0x00, io_reg (Some ''TCCR1C'') 0x82 0x00,
     io_reg (Some ''TCNT1L'') 0x84 0x00, io_reg (Some ''TCNT1H'') 0x85 0x00,
     io_reg (Some ''ICR1L'') 0x86 0x00, io_reg (Some ''ICR1H'') 0x87 0x00,
     io_reg (Some ''OCR1AL'') 0x88 0x00, io_reg (Some ''OCR1AH'') 0x89 0x00,
     io_reg (Some ''OCR1BL'') 0x8A 0x00, io_reg (Some ''OCR1BH'') 0x8B 0x00,
     io_reg (Some ''OCR1CL'') 0x8C 0x00, io_reg (Some ''OCR1CH'') 0x8D 0x00,
     io_reg (Some ''TCCR3A'') 0x90 0x00, io_reg (Some ''TCCR3B'') 0x91 0x00,
     io_reg (Some ''TCCR3C'') 0x92 0x00, io_reg (Some ''TCNT3L'') 0x94 0x00,
     io_reg (Some ''TCNT3H'') 0x95 0x00, io_reg (Some ''ICR3L'') 0x96 0x00,
     io_reg (Some ''ICR3H'') 0x97 0x00, io_reg (Some ''OCR3AL'') 0x98 0x00,
     io_reg (Some ''OCR3AH'') 0x99 0x00, io_reg (Some ''OCR3BL'') 0x9A 0x00,
     io_reg (Some ''OCR3BH'') 0x9B 0x00, io_reg (Some ''OCR3CL'') 0x9C 0x00,
     io_reg (Some ''OCR3CH'') 0x9D 0x00, io_reg (Some ''TCCR2A'') 0xB0 0x00,
     io_reg (Some ''TCNT2'') 0xB2 0x00, io_reg (Some ''OCR2A'') 0xB3 0x00,
     io_reg (Some ''ASSR'') 0xB6 0x00, io_reg (Some ''TWBR'') 0xB8 0x00,
     io_reg (Some ''TWSR'') 0xB9 0x00, io_reg (Some ''TWAR'') 0xBA 0x00,
     io_reg (Some ''TWDR'') 0xBB 0x00, io_reg (Some ''TWCR'') 0xBC 0x00,
     io_reg (Some ''UCSR0A'') 0xC0 0x00, io_reg (Some ''UCSR0B'') 0xC1 0x00,
     io_reg (Some ''UCSR0C'') 0xC2 0x00, io_reg (Some ''UBRR0L'') 0xC4 0x00,
     io_reg (Some ''UBRR0H'') 0xC5 0x00, io_reg (Some ''UDR0'') 0xC6 IO_REG_RSE,
     io_reg (Some ''UCSR1A'') 0xC8 0x00, io_reg (Some ''UCSR1B'') 0xC9 0x00,
     io_reg (Some ''UCSR1C'') 0xCA 0x00, io_reg (Some ''UBRR1L'') 0xCC 0x00,
     io_reg (Some ''UBRR1H'') 0xCD 0x00, io_reg (Some ''UDR1'') 0xCE IO_REG_RSE,
     io_reg (Some ''CANGCON'') 0xD8 0x00, io_reg (Some ''CANGSTA'') 0xD9 0x00,
     io_reg (Some ''CANGIT'') 0xDA 0x00, io_reg (Some ''CANGIE'') 0xDB 0x00,
     io_reg (Some ''CANEN2'') 0xDC 0x00, io_reg (Some ''CANEN1'') 0xDD 0x00,
     io_reg (Some ''CANIE2'') 0xDE 0x00, io_reg (Some ''CANIE1'') 0xDF 0x00,
     io_reg (Some ''CANSIT2'') 0xE0 0x00, io_reg (Some ''CANSIT1'') 0xE1 0x00,
     io_reg (Some ''CANBT1'') 0xE2 0x00, io_reg (Some ''CANBT2'') 0xE3 0x00,
     io_reg (Some ''CANBT3'') 0xE4 0x00, io_reg (Some ''CANTCON'') 0xE5 0x00,
     io_reg (Some ''CANTIML'') 0xE6 0x00, io_reg (Some ''CANTIMH'') 0xE7 0x00,
     io_reg (Some ''CANTTCL'') 0xE8 0x00, io_reg (Some ''CANTTCH'') 0xE9 0x00,
     io_reg (Some ''CANTEC'') 0xEA 0x00, io_reg (Some ''CANREC'') 0xEB 0x00,
     io_reg (Some ''CANHPMOB'') 0xEC 0x00, io_reg (Some ''CANPAGE'') 0xED 0x00,
     io_reg (Some ''CANSTMOB'') 0xEE 0x00, io_reg (Some ''CANCDMOB'') 0xEF 0x00,
     io_reg (Some ''CANIDT4'') 0xF0 0x00, io_reg (Some ''CANIDT3'') 0xF1 0x00,
     io_reg (Some ''CANIDT2'') 0xF2 0x00, io_reg (Some ''CANIDT1'') 0xF3 0x00,
     io_reg (Some ''CANIDM4'') 0xF4 0x00, io_reg (Some ''CANIDM3'') 0xF5 0x00,
     io_reg (Some ''CANIDM2'') 0xF6 0x00, io_reg (Some ''CANIDM1'') 0xF7 0x00,
     io_reg (Some ''CANSTML'') 0xF8 0x00, io_reg (Some ''CANSTMH'') 0xF9 0x00,
     io_reg (Some ''CANMSG'') 0xFA 0x00, io_reg None 0 0]"

end
