(* ===== verification/Device_Desc.thy ===== *)
theory Device_Desc
  imports Io_Registers
begin

text \<open>
  \<^verbatim>\<open>src/src/jtag_device_desc.h\<close>: the device descriptors. The two descriptor structures are sent
  to the box as they lie in memory; \<open>desc1_bytes\<close> and \<open>desc2_bytes\<close> are their images. \<open>fill_b2\<close>
  and \<open>fill_b4\<close> are the macros of \<^verbatim>\<open>src/src/utils.hh\<close>; \<open>arr n xs\<close> is an array of \<open>n\<close> bytes
  whose initialiser lists only \<open>xs\<close> (C fills with zeros).
\<close>

definition fill_b4 :: "u64 \<Rightarrow> u8 list" where
  "fill_b4 u = [ucast (u AND 0xff), ucast (drop_bit 8 (u AND 0xff00)),
     ucast (drop_bit 16 (u AND 0xff0000)), ucast (drop_bit 24 (u AND 0xff000000))]"

definition fill_b2 :: "u32 \<Rightarrow> u8 list" where
  "fill_b2 u = [ucast (u AND 0xff), ucast (drop_bit 8 (u AND 0xff00))]"

definition arr :: "nat \<Rightarrow> u8 list \<Rightarrow> u8 list" where
  "arr n xs = xs @ replicate (n - length xs) 0"

section \<open>The mkI descriptor\<close>

record jtag1_device_desc =
  desc_cmd :: u8
  rd :: "u8 list"
  wr :: "u8 list"
  sh_rd :: "u8 list"
  sh_wr :: "u8 list"
  ext_rd :: "u8 list"
  ext_wr :: "u8 list"
  ext_sh_rd :: "u8 list"
  ext_sh_wr :: "u8 list"
  idr_addr :: u8
  spmcr_addr :: u8
  rampz_addr :: u8
  flash_pg_sz :: "u8 list"
  eeprom_pg_sz :: u8
  boot_addr :: "u8 list"
  last_ext_io_addr :: u8
  eom :: "u8 list"

definition desc1_bytes :: "jtag1_device_desc \<Rightarrow> u8 list" where
  "desc1_bytes d =
     [desc_cmd d] @ rd d @ wr d @ sh_rd d @ sh_wr d @ ext_rd d @ ext_wr d @ ext_sh_rd d @
     ext_sh_wr d @ [idr_addr d] @ [spmcr_addr d] @ [rampz_addr d] @ flash_pg_sz d @
     [eeprom_pg_sz d] @ boot_addr d @ [last_ext_io_addr d] @ eom d"

text \<open>The array members have the declared sizes.\<close>

definition desc1_ok :: "jtag1_device_desc \<Rightarrow> bool" where
  "desc1_ok d \<longleftrightarrow>
     length (rd d) = 8 \<and> length (wr d) = 8 \<and> length (sh_rd d) = 8 \<and>
     length (sh_wr d) = 8 \<and> length (ext_rd d) = 20 \<and> length (ext_wr d) = 20 \<and>
     length (ext_sh_rd d) = 20 \<and> length (ext_sh_wr d) = 20 \<and>
     length (flash_pg_sz d) = 2 \<and> length (boot_addr d) = 4 \<and> length (eom d) = 2"

section \<open>The mkII descriptor\<close>

record jtag2_device_desc =
  desc_cmd2 :: u8
  ucReadIO :: "u8 list"
  ucReadIOShadow :: "u8 list"
  ucWriteIO :: "u8 list"
  ucWriteIOShadow :: "u8 list"
  ucReadExtIO :: "u8 list"
  ucReadIOExtShadow :: "u8 list"
  ucWriteExtIO :: "u8 list"
  ucWriteIOExtShadow :: "u8 list"
  ucIDRAddress :: u8
  ucSPMCRAddress :: u8
  ucRAMPZAddress :: u8
  uiFlashPageSize :: "u8 list"
  ucEepromPageSize :: u8
  ulBootAddress :: "u8 list"
  uiUpperExtIOLoc :: "u8 list"
  ulFlashSize :: "u8 list"
  ucEepromInst :: "u8 list"
  ucFlashInst :: "u8 list"
  ucSPHaddr :: u8
  ucSPLaddr :: u8
  uiFlashpages :: "u8 list"
  ucDWDRAddress :: u8
  ucDWBasePC :: u8
  ucAllowFullPageBitstream :: u8
  uiStartSmallestBootLoaderSection :: "u8 list"
  EnablePageProgramming :: u8
  ucCacheType :: u8
  uiSramStartAddr :: "u8 list"
  ucResetType :: u8
  ucPCMaskExtended :: u8
  ucPCMaskHigh :: u8
  ucEindAddress :: u8
  EECRAddress :: "u8 list"

definition desc2_bytes :: "jtag2_device_desc \<Rightarrow> u8 list" where
  "desc2_bytes d =
     [desc_cmd2 d] @ ucReadIO d @ ucReadIOShadow d @ ucWriteIO d @ ucWriteIOShadow d @
     ucReadExtIO d @ ucReadIOExtShadow d @ ucWriteExtIO d @ ucWriteIOExtShadow d @
     [ucIDRAddress d] @ [ucSPMCRAddress d] @ [ucRAMPZAddress d] @ uiFlashPageSize d @
     [ucEepromPageSize d] @ ulBootAddress d @ uiUpperExtIOLoc d @ ulFlashSize d @
     ucEepromInst d @ ucFlashInst d @ [ucSPHaddr d] @ [ucSPLaddr d] @ uiFlashpages d @
     [ucDWDRAddress d] @ [ucDWBasePC d] @ [ucAllowFullPageBitstream d] @
     uiStartSmallestBootLoaderSection d @ [EnablePageProgramming d] @ [ucCacheType d] @
     uiSramStartAddr d @ [ucResetType d] @ [ucPCMaskExtended d] @ [ucPCMaskHigh d] @
     [ucEindAddress d] @ EECRAddress d"

definition desc2_ok :: "jtag2_device_desc \<Rightarrow> bool" where
  "desc2_ok d \<longleftrightarrow>
     length (ucReadIO d) = 8 \<and> length (ucReadIOShadow d) = 8 \<and>
     length (ucWriteIO d) = 8 \<and> length (ucWriteIOShadow d) = 8 \<and>
     length (ucReadExtIO d) = 52 \<and> length (ucReadIOExtShadow d) = 52 \<and>
     length (ucWriteExtIO d) = 52 \<and> length (ucWriteIOExtShadow d) = 52 \<and>
     length (uiFlashPageSize d) = 2 \<and> length (ulBootAddress d) = 4 \<and>
     length (uiUpperExtIOLoc d) = 2 \<and> length (ulFlashSize d) = 4 \<and>
     length (ucEepromInst d) = 20 \<and> length (ucFlashInst d) = 3 \<and>
     length (uiFlashpages d) = 2 \<and> length (uiStartSmallestBootLoaderSection d) = 2 \<and>
     length (uiSramStartAddr d) = 2 \<and> length (EECRAddress d) = 2"

section \<open>Devices\<close>

text \<open>\<open>enum dev_flags\<close> has three values.\<close>

datatype dev_flags = DEVFL_NONE | DEVFL_NO_SOFTBP | DEVFL_MKII_ONLY

record jtag_device_def =
  dev_name :: "string option"
  device_id :: u32
  flash_page_size :: u32
  flash_page_count :: u32
  eeprom_page_size :: u8
  eeprom_page_count :: u32
  vectors_end :: u32
  device_flags :: dev_flags
  io_reg_defs :: "gdb_io_reg_def list option"
  dev_is_xmega :: bool
  dev_desc1 :: jtag1_device_desc
  dev_desc2 :: jtag2_device_desc

definition sizeof_desc1 :: nat where
  "sizeof_desc1 = 126"

definition sizeof_desc2 :: nat where
  "sizeof_desc2 = 299"

lemma length_desc1: "desc1_ok d \<Longrightarrow> length (desc1_bytes d) = sizeof_desc1"
  by (simp add: desc1_ok_def desc1_bytes_def sizeof_desc1_def)

lemma length_desc2: "desc2_ok d \<Longrightarrow> length (desc2_bytes d) = sizeof_desc2"
  by (simp add: desc2_ok_def desc2_bytes_def sizeof_desc2_def)

end
