(* ===== verification/Device_Table.thy ===== *)
theory Device_Table
  imports Device_Desc
begin

text \<open>
  \<^verbatim>\<open>src/src/devdescr.cc\<close>: the table of the supported devices, in the order of the file. The search
  of \<open>deviceAutoConfig\<close> and \<open>initJtagBox\<close> runs up to the entry without a name.
\<close>

definition no_mkI :: jtag1_device_desc where
  "no_mkI = \<lparr>
     desc_cmd = 0, rd = arr 8 [], wr = arr 8 [], sh_rd = arr 8 [], sh_wr = arr 8 [],
     ext_rd = arr 20 [], ext_wr = arr 20 [], ext_sh_rd = arr 20 [], ext_sh_wr = arr 20 [],
     idr_addr = 0, spmcr_addr = 0, rampz_addr = 0, flash_pg_sz = arr 2 [], eeprom_pg_sz = 0,
     boot_addr = arr 4 [], last_ext_io_addr = 0, eom = arr 2 []\<rparr>"

definition no_mkII :: jtag2_device_desc where
  "no_mkII = \<lparr>
     desc_cmd2 = 0, ucReadIO = arr 8 [], ucReadIOShadow = arr 8 [], ucWriteIO = arr 8 [],
     ucWriteIOShadow = arr 8 [], ucReadExtIO = arr 52 [], ucReadIOExtShadow = arr 52 [],
     ucWriteExtIO = arr 52 [], ucWriteIOExtShadow = arr 52 [], ucIDRAddress = 0,
     ucSPMCRAddress = 0, ucRAMPZAddress = 0, uiFlashPageSize = arr 2 [], ucEepromPageSize = 0,
     ulBootAddress = arr 4 [], uiUpperExtIOLoc = arr 2 [], ulFlashSize = arr 4 [],
     ucEepromInst = arr 20 [], ucFlashInst = arr 3 [], ucSPHaddr = 0, ucSPLaddr = 0,
     uiFlashpages = arr 2 [], ucDWDRAddress = 0, ucDWBasePC = 0, ucAllowFullPageBitstream = 0,
     uiStartSmallestBootLoaderSection = arr 2 [], EnablePageProgramming = 0, ucCacheType = 0,
     uiSramStartAddr = arr 2 [], ucResetType = 0, ucPCMaskExtended = 0, ucPCMaskHigh = 0,
     ucEindAddress = 0, EECRAddress = arr 2 []\<rparr>"

definition dev_atmega16 :: jtag_device_def where
  "dev_atmega16 = \<lparr>
     dev_name = Some ''atmega16'', device_id = 0x9403,
     flash_page_size = 128, flash_page_count = 128,
     eeprom_page_size = 4, eeprom_page_count = 128,
     vectors_end = 0x54, device_flags = DEVFL_NONE,
     io_reg_defs = Some atmega16_io_registers, dev_is_xmega = False,
     dev_desc1 = \<lparr>
       desc_cmd = JTAG_C_SET_DEVICE_DESCRIPTOR,
       rd = [0xCF, 0xAF, 0xFF, 0xFF, 0xFE, 0xFF, 0xFF, 0xFF],
       wr = [0x87, 0x26, 0xFF, 0xEF, 0xFE, 0xFF, 0x3F, 0xFA],
       sh_rd = [0x00, 0x00, 0x00, 0x00, 0x00, 0x2F, 0x00, 0x00],
       sh_wr = [0x00, 0x00, 0x00, 0x00, 0x00, 0x2F, 0x00, 0x00],
       ext_rd = [0x00, 0x00, 0x00, 0x00, 0x00, 0x00, 0x00, 0x00, 0x00, 0x00, 0x00, 0x00, 0x00,
       0x00, 0x00, 0x00, 0x00, 0x00, 0x00, 0x00],
       ext_wr = [0x00, 0x00, 0x00, 0x00, 0x00, 0x00, 0x00, 0x00, 0x00, 0x00, 0x00, 0x00, 0x00,
       0x00, 0x00, 0x00, 0x00, 0x00, 0x00, 0x00],
       ext_sh_rd = [0x00, 0x00, 0x00, 0x00, 0x00, 0x00, 0x00, 0x00, 0x00, 0x00, 0x00, 0x00, 0x00,
       0x00, 0x00, 0x00, 0x00, 0x00, 0x00, 0x00],
       ext_sh_wr = [0x00, 0x00, 0x00, 0x00, 0x00, 0x00, 0x00, 0x00, 0x00, 0x00, 0x00, 0x00, 0x00,
       0x00, 0x00, 0x00, 0x00, 0x00, 0x00, 0x00], idr_addr = 0x31, spmcr_addr = 0x57,
       rampz_addr = 0x00, flash_pg_sz = [128, 0], eeprom_pg_sz = 0,
       boot_addr = [0x80, 0x1F, 0x00, 0x00], last_ext_io_addr = 0, eom = [0x20, 0x20]\<rparr>,
     dev_desc2 = \<lparr>
       desc_cmd2 = CMND_SET_DEVICE_DESCRIPTOR,
       ucReadIO = [0xFF, 0x6F, 0xFF, 0xFF, 0xFE, 0xFF, 0xFD, 0xFF],
       ucReadIOShadow = [0x00, 0x00, 0x00, 0x00, 0x01, 0x00, 0x00, 0x00],
       ucWriteIO = [0x8F, 0x26, 0xB6, 0xFD, 0xFE, 0xFF, 0xBD, 0xFA],
       ucWriteIOShadow = [0x00, 0x00, 0x00, 0x00, 0x01, 0x00, 0x00, 0x00],
       ucReadExtIO = arr 52 [0], ucReadIOExtShadow = arr 52 [0], ucWriteExtIO = arr 52 [0],
       ucWriteIOExtShadow = arr 52 [0], ucIDRAddress = 0x31, ucSPMCRAddress = 0x57,
       ucRAMPZAddress = 0, uiFlashPageSize = fill_b2 (128), ucEepromPageSize = 4,
       ulBootAddress = fill_b4 (0x1F80), uiUpperExtIOLoc = fill_b2 (0),
       ulFlashSize = fill_b4 (0x4000), ucEepromInst = arr 20 [0], ucFlashInst = arr 3 [0],
       ucSPHaddr = 0x3e, ucSPLaddr = 0x3d, uiFlashpages = fill_b2 (0x4000 div 128),
       ucDWDRAddress = 0, ucDWBasePC = 0, ucAllowFullPageBitstream = 1,
       uiStartSmallestBootLoaderSection = fill_b2 (0), EnablePageProgramming = 1,
       ucCacheType = 0, uiSramStartAddr = fill_b2 (0x60), ucResetType = 0, ucPCMaskExtended = 0,
       ucPCMaskHigh = 0, ucEindAddress = 0, EECRAddress = fill_b2 (0x1c)\<rparr>\<rparr>"

definition dev_atmega162 :: jtag_device_def where
  "dev_atmega162 = \<lparr>
     dev_name = Some ''atmega162'', device_id = 0x9404,
     flash_page_size = 128, flash_page_count = 128,
     eeprom_page_size = 4, eeprom_page_count = 128,
     vectors_end = 0x70, device_flags = DEVFL_NONE,
     io_reg_defs = Some atmega162_io_registers, dev_is_xmega = False,
     dev_desc1 = \<lparr>
       desc_cmd = JTAG_C_SET_DEVICE_DESCRIPTOR,
       rd = [0xF7, 0x6F, 0xFF, 0xFF, 0xFF, 0xFF, 0xFF, 0xFF],
       wr = [0xF3, 0x66, 0xFF, 0xFF, 0xFF, 0xFF, 0xFF, 0xFA],
       sh_rd = [0x00, 0x00, 0x00, 0x00, 0x00, 0x00, 0x00, 0x00],
       sh_wr = [0x00, 0x00, 0x00, 0x00, 0x00, 0x00, 0x00, 0x00],
       ext_rd = [0x02, 0x18, 0x00, 0x30, 0xF3, 0x0F, 0x00, 0x00, 0x00, 0x00, 0x00, 0x00, 0x00,
       0x00, 0x00, 0x00, 0x00, 0x00, 0x00, 0x00],
       ext_wr = [0x02, 0x18, 0x00, 0x20, 0xF3, 0x0F, 0x00, 0x00, 0x00, 0x00, 0x00, 0x00, 0x00,
       0x00, 0x00, 0x00, 0x00, 0x00, 0x00, 0x00],
       ext_sh_rd = [0x00, 0x00, 0x00, 0x00, 0x00, 0x00, 0x00, 0x00, 0x00, 0x00, 0x00, 0x00, 0x00,
       0x00, 0x00, 0x00, 0x00, 0x00, 0x00, 0x00],
       ext_sh_wr = [0x00, 0x00, 0x00, 0x00, 0x00, 0x00, 0x00, 0x00, 0x00, 0x00, 0x00, 0x00, 0x00,
       0x00, 0x00, 0x00, 0x00, 0x00, 0x00, 0x00], idr_addr = 0x04, spmcr_addr = 0x57,
       rampz_addr = 0x00, flash_pg_sz = [128, 0], eeprom_pg_sz = 4,
       boot_addr = [0x80, 0x1F, 0x00, 0x00], last_ext_io_addr = 0x8B, eom = [0x20, 0x20]\<rparr>,
     dev_desc2 = \<lparr>
       desc_cmd2 = CMND_SET_DEVICE_DESCRIPTOR,
       ucReadIO = [0xE7, 0x6F, 0xFF, 0xFF, 0xFE, 0xFF, 0xFF, 0xEF],
       ucReadIOShadow = [0xC3, 0x26, 0xB6, 0xFD, 0xFE, 0xFF, 0xFF, 0xEA],
       ucWriteIO = [0x00, 0x00, 0x00, 0x00, 0x01, 0x00, 0x00, 0x10],
       ucWriteIOShadow = [0x00, 0x00, 0x00, 0x00, 0x01, 0x00, 0x00, 0x10],
       ucReadExtIO = arr 52 [0], ucReadIOExtShadow = arr 52 [0], ucWriteExtIO = arr 52 [0],
       ucWriteIOExtShadow = arr 52 [0], ucIDRAddress = 0x04, ucSPMCRAddress = 0x57,
       ucRAMPZAddress = 0, uiFlashPageSize = fill_b2 (128), ucEepromPageSize = 4,
       ulBootAddress = fill_b4 (0x1F80), uiUpperExtIOLoc = fill_b2 (0xBB),
       ulFlashSize = fill_b4 (0x4000), ucEepromInst = arr 20 [0], ucFlashInst = arr 3 [0],
       ucSPHaddr = 0x3e, ucSPLaddr = 0x3d, uiFlashpages = fill_b2 (0x4000 div 128),
       ucDWDRAddress = 0, ucDWBasePC = 0, ucAllowFullPageBitstream = 1,
       uiStartSmallestBootLoaderSection = fill_b2 (0), EnablePageProgramming = 1,
       ucCacheType = 0, uiSramStartAddr = fill_b2 (0x100), ucResetType = 0, ucPCMaskExtended = 0,
       ucPCMaskHigh = 0, ucEindAddress = 0, EECRAddress = fill_b2 (0x1c)\<rparr>\<rparr>"

definition dev_atmega169 :: jtag_device_def where
  "dev_atmega169 = \<lparr>
     dev_name = Some ''atmega169'', device_id = 0x9405,
     flash_page_size = 128, flash_page_count = 128,
     eeprom_page_size = 4, eeprom_page_count = 128,
     vectors_end = 0x5c, device_flags = DEVFL_NONE,
     io_reg_defs = Some atmega169_io_registers, dev_is_xmega = False,
     dev_desc1 = \<lparr>
       desc_cmd = JTAG_C_SET_DEVICE_DESCRIPTOR,
       rd = [0xFF, 0xFF, 0xFF, 0xF0, 0xDF, 0x3C, 0xBB, 0xE0],
       wr = [0xB6, 0x6D, 0x1B, 0xE0, 0xDF, 0x3C, 0xBA, 0xE0],
       sh_rd = [0x00, 0x00, 0x00, 0x00, 0x00, 0x00, 0x00, 0x00],
       sh_wr = [0x00, 0x00, 0x00, 0x00, 0x00, 0x00, 0x00, 0x00],
       ext_rd = [0x43, 0xDA, 0x00, 0xFF, 0xF7, 0x0F, 0x00, 0x00, 0x00, 0x00, 0x4D, 0x07, 0x37,
       0x00, 0x00, 0x00, 0xF0, 0xF0, 0xDE, 0x7B],
       ext_wr = [0x43, 0xDA, 0x00, 0xFF, 0xF7, 0x0F, 0x00, 0x00, 0x00, 0x00, 0x4D, 0x05, 0x36,
       0x00, 0x00, 0x00, 0xE0, 0xF0, 0xDE, 0x7B],
       ext_sh_rd = [0x00, 0x00, 0x00, 0x00, 0x00, 0x00, 0x00, 0x00, 0x00, 0x00, 0x00, 0x00, 0x00,
       0x00, 0x00, 0x00, 0x00, 0x00, 0x00, 0x00],
       ext_sh_wr = [0x00, 0x00, 0x00, 0x00, 0x00, 0x00, 0x00, 0x00, 0x00, 0x00, 0x00, 0x00, 0x00,
       0x00, 0x00, 0x00, 0x00, 0x00, 0x00, 0x00], idr_addr = 0x31, spmcr_addr = 0x57,
       rampz_addr = 0x00, flash_pg_sz = [128, 0], eeprom_pg_sz = 4,
       boot_addr = [0x80, 0x1F, 0x00, 0x00], last_ext_io_addr = 0xFE, eom = [0x20, 0x20]\<rparr>,
     dev_desc2 = \<lparr>
       desc_cmd2 = CMND_SET_DEVICE_DESCRIPTOR,
       ucReadIO = [0xFF, 0xFF, 0xFF, 0xF0, 0xDF, 0x3C, 0xB9, 0xE0], ucReadIOShadow = arr 8 [0],
       ucWriteIO = [0xB6, 0x6D, 0x1B, 0xE0, 0xDF, 0x1C, 0xB8, 0xE0], ucWriteIOShadow = arr 8 [0],
       ucReadExtIO = arr 52 [0x53, 0xDA, 0x01, 0xDF, 0xF7, 0x0F, 0x00, 0x00, 0x00, 0x00, 0x4D,
       0x07, 0x37, 0x00, 0x00, 0x00, 0xF0, 0xF0, 0xDE, 0x7B], ucReadIOExtShadow = arr 52 [0],
       ucWriteExtIO = arr 52 [0x53, 0xDA, 0x01, 0xD8, 0xF7, 0x0F, 0x00, 0x00, 0x00, 0x00, 0x4D,
       0x05, 0x36, 0x00, 0x00, 0x00, 0xE0, 0xF0, 0xDE, 0x7B], ucWriteIOExtShadow = arr 52 [0],
       ucIDRAddress = 0x31, ucSPMCRAddress = 0x57, ucRAMPZAddress = 0,
       uiFlashPageSize = fill_b2 (128), ucEepromPageSize = 4, ulBootAddress = fill_b4 (0x1F80),
       uiUpperExtIOLoc = fill_b2 (0xFE), ulFlashSize = fill_b4 (0x4000),
       ucEepromInst = arr 20 [0], ucFlashInst = arr 3 [0], ucSPHaddr = 0x3e, ucSPLaddr = 0x3d,
       uiFlashpages = fill_b2 (0x4000 div 128), ucDWDRAddress = 0, ucDWBasePC = 0,
       ucAllowFullPageBitstream = 1, uiStartSmallestBootLoaderSection = fill_b2 (0),
       EnablePageProgramming = 1, ucCacheType = 0, uiSramStartAddr = fill_b2 (0x100),
       ucResetType = 0, ucPCMaskExtended = 0, ucPCMaskHigh = 0, ucEindAddress = 0,
       EECRAddress = fill_b2 (0x1f)\<rparr>\<rparr>"

definition dev_atmega323 :: jtag_device_def where
  "dev_atmega323 = \<lparr>
     dev_name = Some ''atmega323'', device_id = 0x9501,
     flash_page_size = 128, flash_page_count = 256,
     eeprom_page_size = 4, eeprom_page_count = 256,
     vectors_end = 0x50, device_flags = DEVFL_NONE,
     io_reg_defs = None, dev_is_xmega = False,
     dev_desc1 = \<lparr>
       desc_cmd = JTAG_C_SET_DEVICE_DESCRIPTOR,
       rd = [0xCF, 0xAF, 0xFF, 0xFF, 0xFE, 0xFF, 0xFF, 0xFF],
       wr = [0x87, 0x26, 0xFF, 0xEF, 0xFE, 0xFF, 0x3F, 0xFA],
       sh_rd = [0x00, 0x00, 0x00, 0x00, 0x00, 0x2F, 0x00, 0x00],
       sh_wr = [0x00, 0x00, 0x00, 0x00, 0x00, 0x2F, 0x00, 0x00],
       ext_rd = [0x00, 0x00, 0x00, 0x00, 0x00, 0x00, 0x00, 0x00, 0x00, 0x00, 0x00, 0x00, 0x00,
       0x00, 0x00, 0x00, 0x00, 0x00, 0x00, 0x00],
       ext_wr = [0x00, 0x00, 0x00, 0x00, 0x00, 0x00, 0x00, 0x00, 0x00, 0x00, 0x00, 0x00, 0x00,
       0x00, 0x00, 0x00, 0x00, 0x00, 0x00, 0x00],
       ext_sh_rd = [0x00, 0x00, 0x00, 0x00, 0x00, 0x00, 0x00, 0x00, 0x00, 0x00, 0x00, 0x00, 0x00,
       0x00, 0x00, 0x00, 0x00, 0x00, 0x00, 0x00],
       ext_sh_wr = [0x00, 0x00, 0x00, 0x00, 0x00, 0x00, 0x00, 0x00, 0x00, 0x00, 0x00, 0x00, 0x00,
       0x00, 0x00, 0x00, 0x00, 0x00, 0x00, 0x00], idr_addr = 0x31, spmcr_addr = 0x57,
       rampz_addr = 0x00, flash_pg_sz = [128, 0], eeprom_pg_sz = 0,
       boot_addr = [0x00, 0x3F, 0x00, 0x00], last_ext_io_addr = 0, eom = [0x20, 0x20]\<rparr>,
     dev_desc2 = \<lparr>
       desc_cmd2 = CMND_SET_DEVICE_DESCRIPTOR,
       ucReadIO = [0xFF, 0x6F, 0xFF, 0xFF, 0xFE, 0xFF, 0xFD, 0xFF],
       ucReadIOShadow = [0x00, 0x00, 0x00, 0x00, 0x01, 0x00, 0x00, 0x00],
       ucWriteIO = [0x8F, 0x26, 0xB6, 0xFD, 0xFE, 0xFF, 0xBD, 0xFA],
       ucWriteIOShadow = [0x00, 0x00, 0x00, 0x00, 0x01, 0x00, 0x00, 0x00],
       ucReadExtIO = arr 52 [0], ucReadIOExtShadow = arr 52 [0], ucWriteExtIO = arr 52 [0],
       ucWriteIOExtShadow = arr 52 [0], ucIDRAddress = 0x31, ucSPMCRAddress = 0x57,
       ucRAMPZAddress = 0, uiFlashPageSize = fill_b2 (128), ucEepromPageSize = 4,
       ulBootAddress = fill_b4 (0x3F00), uiUpperExtIOLoc = fill_b2 (0),
       ulFlashSize = fill_b4 (0x8000), ucEepromInst = arr 20 [0], ucFlashInst = arr 3 [0],
       ucSPHaddr = 0x3e, ucSPLaddr = 0x3d, uiFlashpages = fill_b2 (0x8000 div 128),
       ucDWDRAddress = 0, ucDWBasePC = 0, ucAllowFullPageBitstream = 1,
       uiStartSmallestBootLoaderSection = fill_b2 (0), EnablePageProgramming = 1,
       ucCacheType = 0, uiSramStartAddr = fill_b2 (0x60), ucResetType = 0, ucPCMaskExtended = 0,
       ucPCMaskHigh = 0, ucEindAddress = 0, EECRAddress = fill_b2 (0x1c)\<rparr>\<rparr>"

definition dev_atmega32 :: jtag_device_def where
  "dev_atmega32 = \<lparr>
     dev_name = Some ''atmega32'', device_id = 0x9502,
     flash_page_size = 128, flash_page_count = 256,
     eeprom_page_size = 4, eeprom_page_count = 256,
     vectors_end = 0x54, device_flags = DEVFL_NONE,
     io_reg_defs = Some atmega32_io_registers, dev_is_xmega = False,
     dev_desc1 = \<lparr>
       desc_cmd = JTAG_C_SET_DEVICE_DESCRIPTOR,
       rd = [0xFF, 0x6F, 0xFF, 0xFF, 0xFF, 0xFF, 0xFF, 0xFF],
       wr = [0xFF, 0x66, 0xFF, 0xFF, 0xFF, 0xFF, 0xBF, 0xFA],
       sh_rd = [0x00, 0x00, 0x00, 0x00, 0x00, 0x00, 0x00, 0x00],
       sh_wr = [0x00, 0x00, 0x00, 0x00, 0x00, 0x00, 0x00, 0x00],
       ext_rd = [0x00, 0x00, 0x00, 0x00, 0x00, 0x00, 0x00, 0x00, 0x00, 0x00, 0x00, 0x00, 0x00,
       0x00, 0x00, 0x00, 0x00, 0x00, 0x00, 0x00],
       ext_wr = [0x00, 0x00, 0x00, 0x00, 0x00, 0x00, 0x00, 0x00, 0x00, 0x00, 0x00, 0x00, 0x00,
       0x00, 0x00, 0x00, 0x00, 0x00, 0x00, 0x00],
       ext_sh_rd = [0x00, 0x00, 0x00, 0x00, 0x00, 0x00, 0x00, 0x00, 0x00, 0x00, 0x00, 0x00, 0x00,
       0x00, 0x00, 0x00, 0x00, 0x00, 0x00, 0x00],
       ext_sh_wr = [0x00, 0x00, 0x00, 0x00, 0x00, 0x00, 0x00, 0x00, 0x00, 0x00, 0x00, 0x00, 0x00,
       0x00, 0x00, 0x00, 0x00, 0x00, 0x00, 0x00], idr_addr = 0x31, spmcr_addr = 0x57,
       rampz_addr = 0x00, flash_pg_sz = [128, 0], eeprom_pg_sz = 4,
       boot_addr = [0x00, 0x3F, 0x00, 0x00], last_ext_io_addr = 0, eom = [0x20, 0x20]\<rparr>,
     dev_desc2 = \<lparr>
       desc_cmd2 = CMND_SET_DEVICE_DESCRIPTOR,
       ucReadIO = [0xFF, 0x6F, 0xFF, 0xFF, 0xFE, 0xFF, 0xFD, 0xFF],
       ucReadIOShadow = [0x00, 0x00, 0x00, 0x00, 0x01, 0x00, 0x00, 0x00],
       ucWriteIO = [0x8F, 0x26, 0xB6, 0xFD, 0xFE, 0xFF, 0xBD, 0xFA],
       ucWriteIOShadow = [0x00, 0x00, 0x00, 0x00, 0x01, 0x00, 0x00, 0x00],
       ucReadExtIO = arr 52 [0], ucReadIOExtShadow = arr 52 [0], ucWriteExtIO = arr 52 [0],
       ucWriteIOExtShadow = arr 52 [0], ucIDRAddress = 0x31, ucSPMCRAddress = 0x57,
       ucRAMPZAddress = 0, uiFlashPageSize = fill_b2 (128), ucEepromPageSize = 4,
       ulBootAddress = fill_b4 (0x3F00), uiUpperExtIOLoc = fill_b2 (0),
       ulFlashSize = fill_b4 (0x8000), ucEepromInst = arr 20 [0], ucFlashInst = arr 3 [0],
       ucSPHaddr = 0x3e, ucSPLaddr = 0x3d, uiFlashpages = fill_b2 (0x8000 div 128),
       ucDWDRAddress = 0, ucDWBasePC = 0, ucAllowFullPageBitstream = 1,
       uiStartSmallestBootLoaderSection = fill_b2 (0), EnablePageProgramming = 1,
       ucCacheType = 0, uiSramStartAddr = fill_b2 (0x60), ucResetType = 0, ucPCMaskExtended = 0,
       ucPCMaskHigh = 0, ucEindAddress = 0, EECRAddress = fill_b2 (0x1c)\<rparr>\<rparr>"

definition dev_atmega64 :: jtag_device_def where
  "dev_atmega64 = \<lparr>
     dev_name = Some ''atmega64'', device_id = 0x9602,
     flash_page_size = 256, flash_page_count = 256,
     eeprom_page_size = 8, eeprom_page_count = 256,
     vectors_end = 0x8c, device_flags = DEVFL_NONE,
     io_reg_defs = Some atmega128_io_registers, dev_is_xmega = False,
     dev_desc1 = \<lparr>
       desc_cmd = JTAG_C_SET_DEVICE_DESCRIPTOR,
       rd = [0xCF, 0x2F, 0xFF, 0xFF, 0xFF, 0xFF, 0xFF, 0xFF],
       wr = [0xCF, 0x27, 0xFF, 0xFF, 0xFF, 0xFF, 0xFF, 0xFE],
       sh_rd = [0x00, 0x00, 0x00, 0x00, 0x00, 0x00, 0x00, 0x00],
       sh_wr = [0x00, 0x00, 0x00, 0x00, 0x00, 0x00, 0x00, 0x00],
       ext_rd = [0x3E, 0xB5, 0x1F, 0x37, 0xFF, 0x1F, 0x21, 0x2F, 0x00, 0x00, 0x00, 0x00, 0x00,
       0x00, 0x00, 0x00, 0x00, 0x00, 0x00, 0x00],
       ext_wr = [0x3E, 0xB5, 0x0F, 0x27, 0xFF, 0x1F, 0x21, 0x27, 0x00, 0x00, 0x00, 0x00, 0x00,
       0x00, 0x00, 0x00, 0x00, 0x00, 0x00, 0x00],
       ext_sh_rd = [0x00, 0x00, 0x00, 0x00, 0x00, 0x00, 0x00, 0x00, 0x00, 0x00, 0x00, 0x00, 0x00,
       0x00, 0x00, 0x00, 0x00, 0x00, 0x00, 0x00],
       ext_sh_wr = [0x00, 0x00, 0x00, 0x00, 0x00, 0x00, 0x00, 0x00, 0x00, 0x00, 0x00, 0x00, 0x00,
       0x00, 0x00, 0x00, 0x00, 0x00, 0x00, 0x00], idr_addr = 0x22, spmcr_addr = 0x68,
       rampz_addr = 0x00, flash_pg_sz = [0, 1], eeprom_pg_sz = 8,
       boot_addr = [0x00, 0x7E, 0x00, 0x00], last_ext_io_addr = 0x9D, eom = [0x20, 0x20]\<rparr>,
     dev_desc2 = \<lparr>
       desc_cmd2 = CMND_SET_DEVICE_DESCRIPTOR,
       ucReadIO = [0xFF, 0x6F, 0xFF, 0xFF, 0xFB, 0xFF, 0xFF, 0xF7], ucReadIOShadow = arr 8 [0],
       ucWriteIO = [0x8C, 0x26, 0xB6, 0xFD, 0xFB, 0xFF, 0xBF, 0xF6], ucWriteIOShadow = arr 8 [0],
       ucReadExtIO = arr 52 [0x3E, 0xB5, 0x1F, 0x37, 0xFF, 0x5F, 0x21, 0x2F],
       ucReadIOExtShadow = arr 52 [0],
       ucWriteExtIO = arr 52 [0x36, 0xB5, 0x0F, 0x27, 0xFF, 0x5F, 0x21, 0x27],
       ucWriteIOExtShadow = arr 52 [0], ucIDRAddress = 0x22, ucSPMCRAddress = 0x68,
       ucRAMPZAddress = 0, uiFlashPageSize = fill_b2 (256), ucEepromPageSize = 8,
       ulBootAddress = fill_b4 (0x7E00), uiUpperExtIOLoc = fill_b2 (0x9D),
       ulFlashSize = fill_b4 (0x10000), ucEepromInst = arr 20 [0], ucFlashInst = arr 3 [0],
       ucSPHaddr = 0x3e, ucSPLaddr = 0x3d, uiFlashpages = fill_b2 (0x10000 div 256),
       ucDWDRAddress = 0, ucDWBasePC = 0, ucAllowFullPageBitstream = 1,
       uiStartSmallestBootLoaderSection = fill_b2 (0), EnablePageProgramming = 1,
       ucCacheType = 0, uiSramStartAddr = fill_b2 (0x100), ucResetType = 0, ucPCMaskExtended = 0,
       ucPCMaskHigh = 0, ucEindAddress = 0, EECRAddress = fill_b2 (0x1c)\<rparr>\<rparr>"

definition dev_atmega128 :: jtag_device_def where
  "dev_atmega128 = \<lparr>
     dev_name = Some ''atmega128'', device_id = 0x9702,
     flash_page_size = 256, flash_page_count = 512,
     eeprom_page_size = 8, eeprom_page_count = 512,
     vectors_end = 0x8c, device_flags = DEVFL_NO_SOFTBP,
     io_reg_defs = Some atmega128_io_registers, dev_is_xmega = False,
     dev_desc1 = \<lparr>
       desc_cmd = JTAG_C_SET_DEVICE_DESCRIPTOR,
       rd = [0xCF, 0x2F, 0xFF, 0xFF, 0xFF, 0xFF, 0xFF, 0xFF],
       wr = [0xCF, 0x27, 0xFF, 0xFF, 0xFF, 0xFF, 0xFF, 0xFE],
       sh_rd = [0x00, 0x00, 0x00, 0x00, 0x00, 0x00, 0x00, 0x00],
       sh_wr = [0x00, 0x00, 0x00, 0x00, 0x00, 0x00, 0x00, 0x00],
       ext_rd = [0x3E, 0xB5, 0x1F, 0x37, 0xFF, 0x1F, 0x21, 0x2F, 0x00, 0x00, 0x00, 0x00, 0x00,
       0x00, 0x00, 0x00, 0x00, 0x00, 0x00, 0x00],
       ext_wr = [0x3E, 0xB5, 0x0F, 0x27, 0xFF, 0x1F, 0x21, 0x27, 0x00, 0x00, 0x00, 0x00, 0x00,
       0x00, 0x00, 0x00, 0x00, 0x00, 0x00, 0x00],
       ext_sh_rd = [0x00, 0x00, 0x00, 0x00, 0x00, 0x00, 0x00, 0x00, 0x00, 0x00, 0x00, 0x00, 0x00,
       0x00, 0x00, 0x00, 0x00, 0x00, 0x00, 0x00],
       ext_sh_wr = [0x00, 0x00, 0x00, 0x00, 0x00, 0x00, 0x00, 0x00, 0x00, 0x00, 0x00, 0x00, 0x00,
       0x00, 0x00, 0x00, 0x00, 0x00, 0x00, 0x00], idr_addr = 0x22, spmcr_addr = 0x68,
       rampz_addr = 0x3B, flash_pg_sz = [0, 1], eeprom_pg_sz = 8,
       boot_addr = [0x00, 0xFE, 0x00, 0x00], last_ext_io_addr = 0x9D, eom = [0x20, 0x20]\<rparr>,
     dev_desc2 = \<lparr>
       desc_cmd2 = CMND_SET_DEVICE_DESCRIPTOR,
       ucReadIO = [0xFF, 0x6F, 0xFF, 0xFF, 0xFB, 0xFF, 0xFF, 0xFF], ucReadIOShadow = arr 8 [0],
       ucWriteIO = [0x8C, 0x26, 0xB6, 0xFD, 0xFB, 0xFF, 0xBF, 0xFE], ucWriteIOShadow = arr 8 [0],
       ucReadExtIO = arr 52 [0x3E, 0xB5, 0x1F, 0x37, 0xFF, 0x1F, 0x21, 0x2F],
       ucReadIOExtShadow = arr 52 [0],
       ucWriteExtIO = arr 52 [0x36, 0xB5, 0x0F, 0x27, 0xFF, 0x1F, 0x21, 0x27],
       ucWriteIOExtShadow = arr 52 [0], ucIDRAddress = 0x22, ucSPMCRAddress = 0x68,
       ucRAMPZAddress = 0x3B, uiFlashPageSize = fill_b2 (256), ucEepromPageSize = 8,
       ulBootAddress = fill_b4 (0xFE00), uiUpperExtIOLoc = fill_b2 (0x9D),
       ulFlashSize = fill_b4 (0x20000), ucEepromInst = arr 20 [0], ucFlashInst = arr 3 [0],
       ucSPHaddr = 0x3e, ucSPLaddr = 0x3d, uiFlashpages = fill_b2 (0x20000 div 256),
       ucDWDRAddress = 0, ucDWBasePC = 0, ucAllowFullPageBitstream = 1,
       uiStartSmallestBootLoaderSection = fill_b2 (0), EnablePageProgramming = 1,
       ucCacheType = 0, uiSramStartAddr = fill_b2 (0x100), ucResetType = 0, ucPCMaskExtended = 0,
       ucPCMaskHigh = 0, ucEindAddress = 0, EECRAddress = fill_b2 (0x1c)\<rparr>\<rparr>"

definition dev_at90can128 :: jtag_device_def where
  "dev_at90can128 = \<lparr>
     dev_name = Some ''at90can128'', device_id = 0x9781,
     flash_page_size = 256, flash_page_count = 512,
     eeprom_page_size = 8, eeprom_page_count = 512,
     vectors_end = 0x94, device_flags = DEVFL_NONE,
     io_reg_defs = Some iocan128_io_registers, dev_is_xmega = False,
     dev_desc1 = \<lparr>
       desc_cmd = JTAG_C_SET_DEVICE_DESCRIPTOR,
       rd = [0xFF, 0xFF, 0xFF, 0xF1, 0xDF, 0x7C, 0xBB, 0xE8],
       wr = [0xFF, 0xFF, 0xFF, 0xF1, 0xDF, 0x7C, 0xBB, 0xE8],
       sh_rd = [0x00, 0x00, 0x00, 0x00, 0x00, 0x00, 0x00, 0x00],
       sh_wr = [0x00, 0x00, 0x00, 0x00, 0x00, 0x00, 0x00, 0x00],
       ext_rd = [0x43, 0xC3, 0x33, 0xBF, 0xF7, 0x3F, 0xF7, 0x3F, 0x00, 0x00, 0x4D, 0x1F, 0x77,
       0x77, 0x00, 0xFF, 0xFF, 0xFF, 0xFF, 0x07],
       ext_wr = [0x43, 0xC3, 0x33, 0xBC, 0x77, 0x77, 0xF7, 0x3F, 0x00, 0x00, 0x4D, 0x1F, 0x00,
       0x00, 0x00, 0xCD, 0x3C, 0xF0, 0xFF, 0x04],
       ext_sh_rd = [0x00, 0x00, 0x00, 0x00, 0x00, 0x00, 0x00, 0x00, 0x00, 0x00, 0x00, 0x00, 0x00,
       0x00, 0x00, 0x00, 0x00, 0x00, 0x00, 0x00],
       ext_sh_wr = [0x00, 0x00, 0x00, 0x00, 0x00, 0x00, 0x00, 0x00, 0x00, 0x00, 0x00, 0x00, 0x00,
       0x00, 0x00, 0x00, 0x00, 0x00, 0x00, 0x00], idr_addr = 0x22, spmcr_addr = 0x57,
       rampz_addr = 0x3B, flash_pg_sz = [0, 1], eeprom_pg_sz = 8,
       boot_addr = [0x00, 0xFE, 0x00, 0x00], last_ext_io_addr = 0xFA, eom = [0x20, 0x20]\<rparr>,
     dev_desc2 = \<lparr>
       desc_cmd2 = CMND_SET_DEVICE_DESCRIPTOR,
       ucReadIO = [0xFF, 0xFF, 0xFF, 0xF1, 0xDF, 0x3C, 0xB9, 0xE8], ucReadIOShadow = arr 8 [0],
       ucWriteIO = [0xB6, 0x6D, 0x1B, 0xE0, 0xDF, 0x1C, 0xB8, 0xE8], ucWriteIOShadow = arr 8 [0],
       ucReadExtIO = arr 52 [0x43, 0xC6, 0x33, 0xDF, 0xF7, 0x3F, 0xF7, 0x3F, 0x00, 0x00, 0x4D,
       0x1F, 0x37, 0x37, 0x00, 0xFF, 0xFF, 0xFF, 0xFF, 0x07], ucReadIOExtShadow = arr 52 [0],
       ucWriteExtIO = arr 52 [0x43, 0xC6, 0x33, 0xD8, 0xF7, 0x3F, 0xF7, 0x3F, 0x00, 0x00, 0x4D,
       0x0F, 0x36, 0x36, 0x00, 0xC9, 0x3C, 0xF0, 0xFF, 0x04], ucWriteIOExtShadow = arr 52 [0],
       ucIDRAddress = 0x31, ucSPMCRAddress = 0x57, ucRAMPZAddress = 0x3B,
       uiFlashPageSize = fill_b2 (256), ucEepromPageSize = 8, ulBootAddress = fill_b4 (0xFE00),
       uiUpperExtIOLoc = fill_b2 (0xFA), ulFlashSize = fill_b4 (0x20000),
       ucEepromInst = arr 20 [0], ucFlashInst = arr 3 [0], ucSPHaddr = 0x3e, ucSPLaddr = 0x3d,
       uiFlashpages = fill_b2 (0x20000 div 256), ucDWDRAddress = 0, ucDWBasePC = 0,
       ucAllowFullPageBitstream = 0, uiStartSmallestBootLoaderSection = fill_b2 (0),
       EnablePageProgramming = 1, ucCacheType = 0, uiSramStartAddr = fill_b2 (0x100),
       ucResetType = 0, ucPCMaskExtended = 0, ucPCMaskHigh = 0, ucEindAddress = 0,
       EECRAddress = fill_b2 (0x1f)\<rparr>\<rparr>"

definition dev_atmega164p :: jtag_device_def where
  "dev_atmega164p = \<lparr>
     dev_name = Some ''atmega164p'', device_id = 0x940a,
     flash_page_size = 128, flash_page_count = 128,
     eeprom_page_size = 4, eeprom_page_count = 128,
     vectors_end = 31 * 4, device_flags = DEVFL_MKII_ONLY,
     io_reg_defs = None, dev_is_xmega = False,
     dev_desc1 = no_mkI,
     dev_desc2 = \<lparr>
       desc_cmd2 = CMND_SET_DEVICE_DESCRIPTOR,
       ucReadIO = [0xFF, 0x0F, 0xE0, 0xF8, 0xFF, 0x3D, 0xB9, 0xE8],
       ucReadIOShadow = [0x00, 0x00, 0x00, 0x00, 0x01, 0x00, 0x00, 0x00],
       ucWriteIO = [0xB6, 0x0D, 0x00, 0xE0, 0xFF, 0x1D, 0xB8, 0xE8],
       ucWriteIOShadow = [0x00, 0x00, 0x00, 0x00, 0x01, 0x00, 0x00, 0x00],
       ucReadExtIO = arr 52 [0x53, 0xFB, 0x09, 0xDF, 0xF3, 0x0F, 0x00, 0x00, 0x00, 0x00, 0x5F,
       0x3F, 0x37, 0x00, 0x00, 0x00, 0x00, 0x00, 0x00, 0x00],
       ucReadIOExtShadow = arr 52 [0x00, 0x00, 0x00, 0x00, 0x00, 0x00, 0x00, 0x00, 0x00, 0x00,
       0x00, 0x00, 0x00, 0x00, 0x00, 0x00, 0x00, 0x00, 0x00, 0x00],
       ucWriteExtIO = arr 52 [0x51, 0xFB, 0x09, 0xD8, 0xF3, 0x0F, 0x00, 0x00, 0x00, 0x00, 0x5F,
       0x2F, 0x36, 0x00, 0x00, 0x00, 0x00, 0x00, 0x00, 0x00],
       ucWriteIOExtShadow = arr 52 [0x00, 0x00, 0x00, 0x00, 0x00, 0x00, 0x00, 0x00, 0x00, 0x00,
       0x00, 0x00, 0x00, 0x00, 0x00, 0x00, 0x00, 0x00, 0x00, 0x00], ucIDRAddress = 0x31,
       ucSPMCRAddress = 0x57, ucRAMPZAddress = 0x3B, uiFlashPageSize = fill_b2 (128),
       ucEepromPageSize = 4, ulBootAddress = fill_b4 (0x1f80),
       uiUpperExtIOLoc = fill_b2 (0x00C6), ulFlashSize = fill_b4 (16384),
       ucEepromInst = arr 20 [0x00], ucFlashInst = arr 3 [0x00], ucSPHaddr = 0x3E,
       ucSPLaddr = 0x3D, uiFlashpages = fill_b2 (16384 div 128), ucDWDRAddress = 0x00,
       ucDWBasePC = 0x00, ucAllowFullPageBitstream = 0x00,
       uiStartSmallestBootLoaderSection = fill_b2 (0x00), EnablePageProgramming = 1,
       ucCacheType = 0, uiSramStartAddr = fill_b2 (0x100), ucResetType = 0, ucPCMaskExtended = 0,
       ucPCMaskHigh = 0, ucEindAddress = 0, EECRAddress = arr 2 [0x1F]\<rparr>\<rparr>"

definition dev_atmega324p :: jtag_device_def where
  "dev_atmega324p = \<lparr>
     dev_name = Some ''atmega324p'', device_id = 0x9508,
     flash_page_size = 128, flash_page_count = 256,
     eeprom_page_size = 4, eeprom_page_count = 256,
     vectors_end = 31 * 4, device_flags = DEVFL_MKII_ONLY,
     io_reg_defs = None, dev_is_xmega = False,
     dev_desc1 = no_mkI,
     dev_desc2 = \<lparr>
       desc_cmd2 = CMND_SET_DEVICE_DESCRIPTOR,
       ucReadIO = [0xFF, 0x0F, 0xE0, 0xF8, 0xFF, 0x3D, 0xB9, 0xE8],
       ucReadIOShadow = [0x00, 0x00, 0x00, 0x00, 0x01, 0x00, 0x00, 0x00],
       ucWriteIO = [0xB6, 0x0D, 0x00, 0xE0, 0xFF, 0x1D, 0xB8, 0xE8],
       ucWriteIOShadow = [0x00, 0x00, 0x00, 0x00, 0x01, 0x00, 0x00, 0x00],
       ucReadExtIO = arr 52 [0x53, 0xFB, 0x09, 0xDF, 0xF3, 0x0F, 0x00, 0x00, 0x00, 0x00, 0x5F,
       0x3F, 0x37, 0x00, 0x00, 0x00, 0x00, 0x00, 0x00, 0x00],
       ucReadIOExtShadow = arr 52 [0x00, 0x00, 0x00, 0x00, 0x00, 0x00, 0x00, 0x00, 0x00, 0x00,
       0x00, 0x00, 0x00, 0x00, 0x00, 0x00, 0x00, 0x00, 0x00, 0x00],
       ucWriteExtIO = arr 52 [0x51, 0xFB, 0x09, 0xD8, 0xF3, 0x0F, 0x00, 0x00, 0x00, 0x00, 0x5F,
       0x2F, 0x36, 0x00, 0x00, 0x00, 0x00, 0x00, 0x00, 0x00],
       ucWriteIOExtShadow = arr 52 [0x00, 0x00, 0x00, 0x00, 0x00, 0x00, 0x00, 0x00, 0x00, 0x00,
       0x00, 0x00, 0x00, 0x00, 0x00, 0x00, 0x00, 0x00, 0x00, 0x00], ucIDRAddress = 0x31,
       ucSPMCRAddress = 0x57, ucRAMPZAddress = 0x3B, uiFlashPageSize = fill_b2 (128),
       ucEepromPageSize = 4, ulBootAddress = fill_b4 (0x3f00),
       uiUpperExtIOLoc = fill_b2 (0x00C6), ulFlashSize = fill_b4 (32768),
       ucEepromInst = arr 20 [0x00], ucFlashInst = arr 3 [0x00], ucSPHaddr = 0x3E,
       ucSPLaddr = 0x3D, uiFlashpages = fill_b2 (32768 div 128), ucDWDRAddress = 0x00,
       ucDWBasePC = 0x00, ucAllowFullPageBitstream = 0x00,
       uiStartSmallestBootLoaderSection = fill_b2 (0x00), EnablePageProgramming = 1,
       ucCacheType = 0, uiSramStartAddr = fill_b2 (0x100), ucResetType = 0, ucPCMaskExtended = 0,
       ucPCMaskHigh = 0, ucEindAddress = 0, EECRAddress = arr 2 [0x1F]\<rparr>\<rparr>"

definition dev_atmega644 :: jtag_device_def where
  "dev_atmega644 = \<lparr>
     dev_name = Some ''atmega644'', device_id = 0x9609,
     flash_page_size = 256, flash_page_count = 256,
     eeprom_page_size = 8, eeprom_page_count = 256,
     vectors_end = 28 * 4, device_flags = DEVFL_MKII_ONLY,
     io_reg_defs = None, dev_is_xmega = False,
     dev_desc1 = no_mkI,
     dev_desc2 = \<lparr>
       desc_cmd2 = CMND_SET_DEVICE_DESCRIPTOR,
       ucReadIO = [0xFF, 0x0F, 0xE0, 0xF8, 0xFF, 0x3D, 0xB9, 0xE8], ucReadIOShadow = arr 8 [0],
       ucWriteIO = [0xB6, 0x0D, 0x00, 0xE0, 0xFF, 0x1D, 0xB8, 0xE8], ucWriteIOShadow = arr 8 [0],
       ucReadExtIO = arr 52 [0x53, 0xFB, 0x9, 0xDF, 0xF7, 0xF, 0x0, 0x0, 0x0, 0x0, 0x5F, 0x3F,
       0x37], ucReadIOExtShadow = arr 52 [0],
       ucWriteExtIO = arr 52 [0x53, 0xFB, 0x9, 0xD8, 0xF7, 0xF, 0x0, 0x0, 0x0, 0x0, 0x5F, 0x2F,
       0x36], ucWriteIOExtShadow = arr 52 [0], ucIDRAddress = 0x31, ucSPMCRAddress = 0x57,
       ucRAMPZAddress = 0, uiFlashPageSize = fill_b2 (256), ucEepromPageSize = 8,
       ulBootAddress = fill_b4 (0x7E00), uiUpperExtIOLoc = fill_b2 (0xC6),
       ulFlashSize = fill_b4 (0x10000), ucEepromInst = arr 20 [0], ucFlashInst = arr 3 [0],
       ucSPHaddr = 0x3e, ucSPLaddr = 0x3d, uiFlashpages = fill_b2 (0x10000 div 256),
       ucDWDRAddress = 0, ucDWBasePC = 0, ucAllowFullPageBitstream = 0,
       uiStartSmallestBootLoaderSection = fill_b2 (0), EnablePageProgramming = 1,
       ucCacheType = 0, uiSramStartAddr = fill_b2 (0x100), ucResetType = 0, ucPCMaskExtended = 0,
       ucPCMaskHigh = 0, ucEindAddress = 0, EECRAddress = fill_b2 (0x1f)\<rparr>\<rparr>"

definition dev_atmega325 :: jtag_device_def where
  "dev_atmega325 = \<lparr>
     dev_name = Some ''atmega325'', device_id = 0x9505,
     flash_page_size = 128, flash_page_count = 256,
     eeprom_page_size = 4, eeprom_page_count = 256,
     vectors_end = 22 * 4, device_flags = DEVFL_MKII_ONLY,
     io_reg_defs = None, dev_is_xmega = False,
     dev_desc1 = no_mkI,
     dev_desc2 = \<lparr>
       desc_cmd2 = CMND_SET_DEVICE_DESCRIPTOR,
       ucReadIO = [0xFF, 0xFF, 0xFF, 0xF0, 0xDF, 0x3C, 0xB9, 0xE0],
       ucReadIOShadow = [0x00, 0x00, 0x00, 0x00, 0x00, 0x00, 0x00, 0x00],
       ucWriteIO = [0xB6, 0x6D, 0x1B, 0xE0, 0xDF, 0x1C, 0xB8, 0xE0],
       ucWriteIOShadow = [0x00, 0x00, 0x00, 0x00, 0x00, 0x00, 0x00, 0x00],
       ucReadExtIO = arr 52 [0x53, 0xDA, 0x01, 0xDF, 0xF7, 0x0F, 0x00, 0x00, 0x00, 0x00, 0x4D,
       0x07, 0x37, 0x00, 0x00, 0x00, 0x00, 0x00, 0x00, 0x00],
       ucReadIOExtShadow = arr 52 [0x00, 0x00, 0x00, 0x00, 0x00, 0x00, 0x00, 0x00, 0x00, 0x00,
       0x00, 0x00, 0x00, 0x00, 0x00, 0x00, 0x00, 0x00, 0x00, 0x00],
       ucWriteExtIO = arr 52 [0x53, 0xDA, 0x01, 0xD8, 0xF7, 0x0F, 0x00, 0x00, 0x00, 0x00, 0x4D,
       0x05, 0x36, 0x00, 0x00, 0x00, 0x00, 0x00, 0x00, 0x00],
       ucWriteIOExtShadow = arr 52 [0x00, 0x00, 0x00, 0x00, 0x00, 0x00, 0x00, 0x00, 0x00, 0x00,
       0x00, 0x00, 0x00, 0x00, 0x00, 0x00, 0x00, 0x00, 0x00, 0x00], ucIDRAddress = 0x31,
       ucSPMCRAddress = 0x57, ucRAMPZAddress = 0, uiFlashPageSize = fill_b2 (128),
       ucEepromPageSize = 4, ulBootAddress = fill_b4 (0x3F00), uiUpperExtIOLoc = fill_b2 (0xC6),
       ulFlashSize = fill_b4 (32768), ucEepromInst = arr 20 [0x00], ucFlashInst = arr 3 [0x00],
       ucSPHaddr = 0x3E, ucSPLaddr = 0x3D, uiFlashpages = fill_b2 (32768 div 128),
       ucDWDRAddress = 0x00, ucDWBasePC = 0x40, ucAllowFullPageBitstream = 0x00,
       uiStartSmallestBootLoaderSection = fill_b2 (0x00), EnablePageProgramming = 1,
       ucCacheType = 0, uiSramStartAddr = fill_b2 (0x100), ucResetType = 0, ucPCMaskExtended = 0,
       ucPCMaskHigh = 0x40, ucEindAddress = 0, EECRAddress = arr 2 [0x1F]\<rparr>\<rparr>"

definition dev_atmega3250 :: jtag_device_def where
  "dev_atmega3250 = \<lparr>
     dev_name = Some ''atmega3250'', device_id = 0x9506,
     flash_page_size = 128, flash_page_count = 256,
     eeprom_page_size = 4, eeprom_page_count = 256,
     vectors_end = 25 * 4, device_flags = DEVFL_MKII_ONLY,
     io_reg_defs = None, dev_is_xmega = False,
     dev_desc1 = no_mkI,
     dev_desc2 = \<lparr>
       desc_cmd2 = CMND_SET_DEVICE_DESCRIPTOR,
       ucReadIO = [0xFF, 0xFF, 0xFF, 0xF0, 0xDF, 0x3C, 0xB9, 0xE0],
       ucReadIOShadow = [0x00, 0x00, 0x00, 0x00, 0x00, 0x00, 0x00, 0x00],
       ucWriteIO = [0xB6, 0x6D, 0x1B, 0xE0, 0xDF, 0x1C, 0xB8, 0xE0],
       ucWriteIOShadow = [0x00, 0x00, 0x00, 0x00, 0x00, 0x00, 0x00, 0x00],
       ucReadExtIO = arr 52 [0x53, 0xFA, 0x09, 0xDF, 0xF7, 0x0F, 0x00, 0x00, 0x00, 0x00, 0x4D,
       0x07, 0x37, 0x00, 0x00, 0x3F, 0x00, 0x00, 0x00, 0x00],
       ucReadIOExtShadow = arr 52 [0x00, 0x00, 0x00, 0x00, 0x00, 0x00, 0x00, 0x00, 0x00, 0x00,
       0x00, 0x00, 0x00, 0x00, 0x00, 0x00, 0x00, 0x00, 0x00, 0x00],
       ucWriteExtIO = arr 52 [0x53, 0xFA, 0x09, 0xD8, 0xF7, 0x0F, 0x00, 0x00, 0x00, 0x00, 0x4D,
       0x05, 0x36, 0x00, 0x00, 0x3F, 0x00, 0x00, 0x00, 0x00],
       ucWriteIOExtShadow = arr 52 [0x00, 0x00, 0x00, 0x00, 0x00, 0x00, 0x00, 0x00, 0x00, 0x00,
       0x00, 0x00, 0x00, 0x00, 0x00, 0x00, 0x00, 0x00, 0x00, 0x00], ucIDRAddress = 0x31,
       ucSPMCRAddress = 0x57, ucRAMPZAddress = 0, uiFlashPageSize = fill_b2 (128),
       ucEepromPageSize = 4, ulBootAddress = fill_b4 (0x3F00), uiUpperExtIOLoc = fill_b2 (0xDD),
       ulFlashSize = fill_b4 (32768), ucEepromInst = arr 20 [0x00], ucFlashInst = arr 3 [0x00],
       ucSPHaddr = 0x3E, ucSPLaddr = 0x3D, uiFlashpages = fill_b2 (32768 div 128),
       ucDWDRAddress = 0x00, ucDWBasePC = 0x40, ucAllowFullPageBitstream = 0x00,
       uiStartSmallestBootLoaderSection = fill_b2 (0x00), EnablePageProgramming = 1,
       ucCacheType = 0, uiSramStartAddr = fill_b2 (0x100), ucResetType = 0, ucPCMaskExtended = 0,
       ucPCMaskHigh = 0x40, ucEindAddress = 0, EECRAddress = arr 2 [0x1F]\<rparr>\<rparr>"

definition dev_atmega645 :: jtag_device_def where
  "dev_atmega645 = \<lparr>
     dev_name = Some ''atmega645'', device_id = 0x9605,
     flash_page_size = 256, flash_page_count = 256,
     eeprom_page_size = 8, eeprom_page_count = 256,
     vectors_end = 22 * 4, device_flags = DEVFL_MKII_ONLY,
     io_reg_defs = None, dev_is_xmega = False,
     dev_desc1 = no_mkI,
     dev_desc2 = \<lparr>
       desc_cmd2 = CMND_SET_DEVICE_DESCRIPTOR,
       ucReadIO = [0xFF, 0xFF, 0xFF, 0xF0, 0xDF, 0x3C, 0xB9, 0xE0],
       ucReadIOShadow = [0x00, 0x00, 0x00, 0x00, 0x00, 0x00, 0x00, 0x00],
       ucWriteIO = [0xB6, 0x6D, 0x1B, 0xE0, 0xDF, 0x1C, 0xB8, 0xE0],
       ucWriteIOShadow = [0x00, 0x00, 0x00, 0x00, 0x00, 0x00, 0x00, 0x00],
       ucReadExtIO = arr 52 [0x53, 0xDA, 0x01, 0xDF, 0xF7, 0x0F, 0x00, 0x00, 0x00, 0x00, 0x4D,
       0x07, 0x37, 0x00, 0x00, 0x00, 0x00, 0x00, 0x00, 0x00],
       ucReadIOExtShadow = arr 52 [0x00, 0x00, 0x00, 0x00, 0x00, 0x00, 0x00, 0x00, 0x00, 0x00,
       0x00, 0x00, 0x00, 0x00, 0x00, 0x00, 0x00, 0x00, 0x00, 0x00],
       ucWriteExtIO = arr 52 [0x53, 0xDA, 0x01, 0xD8, 0xF7, 0x0F, 0x00, 0x00, 0x00, 0x00, 0x4D,
       0x05, 0x36, 0x00, 0x00, 0x00, 0x00, 0x00, 0x00, 0x00],
       ucWriteIOExtShadow = arr 52 [0x00, 0x00, 0x00, 0x00, 0x00, 0x00, 0x00, 0x00, 0x00, 0x00,
       0x00, 0x00, 0x00, 0x00, 0x00, 0x00, 0x00, 0x00, 0x00, 0x00], ucIDRAddress = 0x31,
       ucSPMCRAddress = 0x57, ucRAMPZAddress = 0, uiFlashPageSize = fill_b2 (256),
       ucEepromPageSize = 8, ulBootAddress = fill_b4 (0x7E00), uiUpperExtIOLoc = fill_b2 (0xC6),
       ulFlashSize = fill_b4 (65536), ucEepromInst = arr 20 [0x00], ucFlashInst = arr 3 [0x00],
       ucSPHaddr = 0x3E, ucSPLaddr = 0x3D, uiFlashpages = fill_b2 (65536 div 256),
       ucDWDRAddress = 0x00, ucDWBasePC = 0x40, ucAllowFullPageBitstream = 0x00,
       uiStartSmallestBootLoaderSection = fill_b2 (0x00), EnablePageProgramming = 1,
       ucCacheType = 0, uiSramStartAddr = fill_b2 (0x100), ucResetType = 0, ucPCMaskExtended = 0,
       ucPCMaskHigh = 0x00, ucEindAddress = 0, EECRAddress = arr 2 [0x1F]\<rparr>\<rparr>"

definition dev_atmega6450 :: jtag_device_def where
  "dev_atmega6450 = \<lparr>
     dev_name = Some ''atmega6450'', device_id = 0x9606,
     flash_page_size = 256, flash_page_count = 256,
     eeprom_page_size = 8, eeprom_page_count = 256,
     vectors_end = 25 * 4, device_flags = DEVFL_MKII_ONLY,
     io_reg_defs = None, dev_is_xmega = False,
     dev_desc1 = no_mkI,
     dev_desc2 = \<lparr>
       desc_cmd2 = CMND_SET_DEVICE_DESCRIPTOR,
       ucReadIO = [0xFF, 0xFF, 0xFF, 0xF0, 0xDF, 0x3C, 0xB9, 0xE0],
       ucReadIOShadow = [0x00, 0x00, 0x00, 0x00, 0x00, 0x00, 0x00, 0x00],
       ucWriteIO = [0xB6, 0x6D, 0x1B, 0xE0, 0xDF, 0x1C, 0xB8, 0xE0],
       ucWriteIOShadow = [0x00, 0x00, 0x00, 0x00, 0x00, 0x00, 0x00, 0x00],
       ucReadExtIO = arr 52 [0x53, 0xFA, 0x09, 0xDF, 0xF7, 0x0F, 0x00, 0x00, 0x00, 0x00, 0x4D,
       0x07, 0x37, 0x00, 0x00, 0x3F, 0x00, 0x00, 0x00, 0x00],
       ucReadIOExtShadow = arr 52 [0x00, 0x00, 0x00, 0x00, 0x00, 0x00, 0x00, 0x00, 0x00, 0x00,
       0x00, 0x00, 0x00, 0x00, 0x00, 0x00, 0x00, 0x00, 0x00, 0x00],
       ucWriteExtIO = arr 52 [0x53, 0xFA, 0x09, 0xD8, 0xF7, 0x0F, 0x00, 0x00, 0x00, 0x00, 0x4D,
       0x05, 0x36, 0x00, 0x00, 0x3F, 0x00, 0x00, 0x00, 0x00],
       ucWriteIOExtShadow = arr 52 [0x00, 0x00, 0x00, 0x00, 0x00, 0x00, 0x00, 0x00, 0x00, 0x00,
       0x00, 0x00, 0x00, 0x00, 0x00, 0x00, 0x00, 0x00, 0x00, 0x00], ucIDRAddress = 0x31,
       ucSPMCRAddress = 0x57, ucRAMPZAddress = 0, uiFlashPageSize = fill_b2 (256),
       ucEepromPageSize = 8, ulBootAddress = fill_b4 (0x7E00), uiUpperExtIOLoc = fill_b2 (0xDD),
       ulFlashSize = fill_b4 (65536), ucEepromInst = arr 20 [0x00], ucFlashInst = arr 3 [0x00],
       ucSPHaddr = 0x3E, ucSPLaddr = 0x3D, uiFlashpages = fill_b2 (65536 div 256),
       ucDWDRAddress = 0x00, ucDWBasePC = 0x40, ucAllowFullPageBitstream = 0x00,
       uiStartSmallestBootLoaderSection = fill_b2 (0x00), EnablePageProgramming = 1,
       ucCacheType = 0, uiSramStartAddr = fill_b2 (0x100), ucResetType = 0, ucPCMaskExtended = 0,
       ucPCMaskHigh = 0x00, ucEindAddress = 0, EECRAddress = arr 2 [0x1F]\<rparr>\<rparr>"

definition dev_atmega329 :: jtag_device_def where
  "dev_atmega329 = \<lparr>
     dev_name = Some ''atmega329'', device_id = 0x9503,
     flash_page_size = 128, flash_page_count = 256,
     eeprom_page_size = 4, eeprom_page_count = 256,
     vectors_end = 23 * 4, device_flags = DEVFL_MKII_ONLY,
     io_reg_defs = None, dev_is_xmega = False,
     dev_desc1 = no_mkI,
     dev_desc2 = \<lparr>
       desc_cmd2 = CMND_SET_DEVICE_DESCRIPTOR,
       ucReadIO = [0xFF, 0xFF, 0xFF, 0xF0, 0xDF, 0x3C, 0xB9, 0xE0], ucReadIOShadow = arr 8 [0],
       ucWriteIO = [0xB6, 0x6D, 0x1B, 0xE0, 0xDF, 0x1C, 0xB8, 0xE0], ucWriteIOShadow = arr 8 [0],
       ucReadExtIO = arr 52 [0x53, 0xDA, 0x01, 0xDF, 0xF7, 0x0F, 0x00, 0x00, 0x00, 0x00, 0x4D,
       0x07, 0x37, 0x00, 0x00, 0x00, 0xF0, 0xF0, 0xDE, 0x7B], ucReadIOExtShadow = arr 52 [0],
       ucWriteExtIO = arr 52 [0x53, 0xDA, 0x01, 0xD8, 0xF7, 0x0F, 0x00, 0x00, 0x00, 0x00, 0x4D,
       0x05, 0x36, 0x00, 0x00, 0x00, 0xE0, 0xF0, 0xDE, 0x7B], ucWriteIOExtShadow = arr 52 [0],
       ucIDRAddress = 0x31, ucSPMCRAddress = 0x57, ucRAMPZAddress = 0,
       uiFlashPageSize = fill_b2 (128), ucEepromPageSize = 4, ulBootAddress = fill_b4 (0x3F00),
       uiUpperExtIOLoc = fill_b2 (0xFE), ulFlashSize = fill_b4 (0x8000),
       ucEepromInst = arr 20 [0], ucFlashInst = arr 3 [0], ucSPHaddr = 0x3e, ucSPLaddr = 0x3d,
       uiFlashpages = fill_b2 (0x8000 div 128), ucDWDRAddress = 0, ucDWBasePC = 0x40,
       ucAllowFullPageBitstream = 0, uiStartSmallestBootLoaderSection = fill_b2 (0),
       EnablePageProgramming = 1, ucCacheType = 0, uiSramStartAddr = fill_b2 (0x100),
       ucResetType = 0, ucPCMaskExtended = 0, ucPCMaskHigh = 0x0, ucEindAddress = 0,
       EECRAddress = fill_b2 (0x1f)\<rparr>\<rparr>"

definition dev_atmega3290 :: jtag_device_def where
  "dev_atmega3290 = \<lparr>
     dev_name = Some ''atmega3290'', device_id = 0x9504,
     flash_page_size = 128, flash_page_count = 256,
     eeprom_page_size = 4, eeprom_page_count = 256,
     vectors_end = 25 * 4, device_flags = DEVFL_MKII_ONLY,
     io_reg_defs = None, dev_is_xmega = False,
     dev_desc1 = no_mkI,
     dev_desc2 = \<lparr>
       desc_cmd2 = CMND_SET_DEVICE_DESCRIPTOR,
       ucReadIO = [0xFF, 0xFF, 0xFF, 0xF0, 0xDF, 0x3C, 0xB9, 0xE0], ucReadIOShadow = arr 8 [0],
       ucWriteIO = [0xB6, 0x6D, 0x1B, 0xE0, 0xDF, 0x1C, 0xB8, 0xE0], ucWriteIOShadow = arr 8 [0],
       ucReadExtIO = arr 52 [0x53, 0xFA, 0x09, 0xDF, 0xF7, 0x0F, 0x00, 0x00, 0x00, 0x00, 0x4D,
       0x07, 0x37, 0x00, 0x00, 0x3F, 0xF0, 0xF0, 0xFF, 0xFF], ucReadIOExtShadow = arr 52 [0],
       ucWriteExtIO = arr 52 [0x53, 0xFA, 0x09, 0xD8, 0xF7, 0x0F, 0x00, 0x00, 0x00, 0x00, 0x4D,
       0x05, 0x36, 0x00, 0x00, 0x3F, 0xE0, 0xF0, 0xFF, 0xFF], ucWriteIOExtShadow = arr 52 [0],
       ucIDRAddress = 0x31, ucSPMCRAddress = 0x57, ucRAMPZAddress = 0,
       uiFlashPageSize = fill_b2 (128), ucEepromPageSize = 4, ulBootAddress = fill_b4 (0x3F00),
       uiUpperExtIOLoc = fill_b2 (0xFE), ulFlashSize = fill_b4 (0x8000),
       ucEepromInst = arr 20 [0], ucFlashInst = arr 3 [0], ucSPHaddr = 0x3e, ucSPLaddr = 0x3d,
       uiFlashpages = fill_b2 (0x8000 div 128), ucDWDRAddress = 0, ucDWBasePC = 0x40,
       ucAllowFullPageBitstream = 0, uiStartSmallestBootLoaderSection = fill_b2 (0),
       EnablePageProgramming = 1, ucCacheType = 0, uiSramStartAddr = fill_b2 (0x100),
       ucResetType = 0, ucPCMaskExtended = 0, ucPCMaskHigh = 0x0, ucEindAddress = 0,
       EECRAddress = fill_b2 (0x1f)\<rparr>\<rparr>"

definition dev_atmega649 :: jtag_device_def where
  "dev_atmega649 = \<lparr>
     dev_name = Some ''atmega649'', device_id = 0x9603,
     flash_page_size = 256, flash_page_count = 256,
     eeprom_page_size = 8, eeprom_page_count = 256,
     vectors_end = 23 * 4, device_flags = DEVFL_MKII_ONLY,
     io_reg_defs = None, dev_is_xmega = False,
     dev_desc1 = no_mkI,
     dev_desc2 = \<lparr>
       desc_cmd2 = CMND_SET_DEVICE_DESCRIPTOR,
       ucReadIO = [0xFF, 0xFF, 0xFF, 0xF0, 0xDF, 0x3C, 0xB9, 0xE0], ucReadIOShadow = arr 8 [0],
       ucWriteIO = [0xB6, 0x6D, 0x1B, 0xE0, 0xDF, 0x1C, 0xB8, 0xE0], ucWriteIOShadow = arr 8 [0],
       ucReadExtIO = arr 52 [0x53, 0xDA, 0x01, 0xDF, 0xF7, 0x0F, 0x00, 0x00, 0x00, 0x00, 0x4D,
       0x07, 0x37, 0x00, 0x00, 0x00, 0xF0, 0xF0, 0xDE, 0x7B], ucReadIOExtShadow = arr 52 [0],
       ucWriteExtIO = arr 52 [0x53, 0xDA, 0x01, 0xD8, 0xF7, 0x0F, 0x00, 0x00, 0x00, 0x00, 0x4D,
       0x05, 0x36, 0x00, 0x00, 0x00, 0xE0, 0xF0, 0xDE, 0x7B], ucWriteIOExtShadow = arr 52 [0],
       ucIDRAddress = 0x31, ucSPMCRAddress = 0x57, ucRAMPZAddress = 0,
       uiFlashPageSize = fill_b2 (256), ucEepromPageSize = 8, ulBootAddress = fill_b4 (0x7E00),
       uiUpperExtIOLoc = fill_b2 (0xFE), ulFlashSize = fill_b4 (0x10000),
       ucEepromInst = arr 20 [0], ucFlashInst = arr 3 [0], ucSPHaddr = 0x3e, ucSPLaddr = 0x3d,
       uiFlashpages = fill_b2 (0x10000 div 256), ucDWDRAddress = 0, ucDWBasePC = 0x40,
       ucAllowFullPageBitstream = 0, uiStartSmallestBootLoaderSection = fill_b2 (0),
       EnablePageProgramming = 1, ucCacheType = 0, uiSramStartAddr = fill_b2 (0x100),
       ucResetType = 0, ucPCMaskExtended = 0, ucPCMaskHigh = 0x0, ucEindAddress = 0,
       EECRAddress = fill_b2 (0x1f)\<rparr>\<rparr>"

definition dev_atmega6490 :: jtag_device_def where
  "dev_atmega6490 = \<lparr>
     dev_name = Some ''atmega6490'', device_id = 0x9604,
     flash_page_size = 256, flash_page_count = 256,
     eeprom_page_size = 8, eeprom_page_count = 256,
     vectors_end = 25 * 4, device_flags = DEVFL_MKII_ONLY,
     io_reg_defs = None, dev_is_xmega = False,
     dev_desc1 = no_mkI,
     dev_desc2 = \<lparr>
       desc_cmd2 = CMND_SET_DEVICE_DESCRIPTOR,
       ucReadIO = [0xFF, 0xFF, 0xFF, 0xF0, 0xDF, 0x3C, 0xB9, 0xE0], ucReadIOShadow = arr 8 [0],
       ucWriteIO = [0xB6, 0x6D, 0x1B, 0xE0, 0xDF, 0x1C, 0xB8, 0xE0], ucWriteIOShadow = arr 8 [0],
       ucReadExtIO = arr 52 [0x53, 0xFA, 0x09, 0xDF, 0xF7, 0x0F, 0x00, 0x00, 0x00, 0x00, 0x4D,
       0x07, 0x37, 0x00, 0x00, 0x3F, 0xF0, 0xF0, 0xFF, 0xFF], ucReadIOExtShadow = arr 52 [0],
       ucWriteExtIO = arr 52 [0x53, 0xFA, 0x09, 0xD8, 0xF7, 0x0F, 0x00, 0x00, 0x00, 0x00, 0x4D,
       0x05, 0x36, 0x00, 0x00, 0x3F, 0xE0, 0xF0, 0xFF, 0xFF], ucWriteIOExtShadow = arr 52 [0],
       ucIDRAddress = 0x31, ucSPMCRAddress = 0x57, ucRAMPZAddress = 0,
       uiFlashPageSize = fill_b2 (256), ucEepromPageSize = 8, ulBootAddress = fill_b4 (0x7E00),
       uiUpperExtIOLoc = fill_b2 (0xFF), ulFlashSize = fill_b4 (0x10000),
       ucEepromInst = arr 20 [0], ucFlashInst = arr 3 [0], ucSPHaddr = 0x3e, ucSPLaddr = 0x3d,
       uiFlashpages = fill_b2 (0x10000 div 256), ucDWDRAddress = 0, ucDWBasePC = 0x40,
       ucAllowFullPageBitstream = 0, uiStartSmallestBootLoaderSection = fill_b2 (0),
       EnablePageProgramming = 1, ucCacheType = 0, uiSramStartAddr = fill_b2 (0x100),
       ucResetType = 0, ucPCMaskExtended = 0, ucPCMaskHigh = 0x0, ucEindAddress = 0,
       EECRAddress = fill_b2 (0x1f)\<rparr>\<rparr>"

definition dev_atmega640 :: jtag_device_def where
  "dev_atmega640 = \<lparr>
     dev_name = Some ''atmega640'', device_id = 0x9608,
     flash_page_size = 256, flash_page_count = 256,
     eeprom_page_size = 8, eeprom_page_count = 512,
     vectors_end = 0xe4, device_flags = DEVFL_MKII_ONLY,
     io_reg_defs = Some atmega128_io_registers, dev_is_xmega = False,
     dev_desc1 = no_mkI,
     dev_desc2 = \<lparr>
       desc_cmd2 = CMND_SET_DEVICE_DESCRIPTOR,
       ucReadIO = [0xFF, 0xFF, 0xFF, 0xFF, 0xFF, 0x3D, 0xB9, 0xF8], ucReadIOShadow = arr 8 [0],
       ucWriteIO = [0xFF, 0xFF, 0x1F, 0xE0, 0xFF, 0x1D, 0xA9, 0xF8], ucWriteIOShadow = arr 8 [0],
       ucReadExtIO = arr 52 [0x73, 0xFF, 0x3F, 0xFF, 0xF7, 0x3F, 0xF7, 0x3F, 0xF7, 0x3F, 0x5F,
       0x3F, 0x37, 0x37, 0x36, 0x00, 0x00, 0x00, 0x00, 0x00, 0xFF, 0x0F, 0x00, 0x00, 0xF7, 0x3F,
       0x36, 0x00], ucReadIOExtShadow = arr 52 [0],
       ucWriteExtIO = arr 52 [0x73, 0xFF, 0x3F, 0xF8, 0xF7, 0x3F, 0xF7, 0x3F, 0xF7, 0x3F, 0x5F,
       0x2F, 0x36, 0x36, 0x36, 0x00, 0x00, 0x00, 0x00, 0x00, 0xFF, 0x0F, 0x00, 0x00, 0xF7, 0x3F,
       0x36, 0x00], ucWriteIOExtShadow = arr 52 [0], ucIDRAddress = 0x31, ucSPMCRAddress = 0x57,
       ucRAMPZAddress = 0x3B, uiFlashPageSize = fill_b2 (256), ucEepromPageSize = 8,
       ulBootAddress = fill_b4 (0x7E00), uiUpperExtIOLoc = fill_b2 (0x0136),
       ulFlashSize = fill_b4 (0x20000), ucEepromInst = arr 20 [0], ucFlashInst = arr 3 [0],
       ucSPHaddr = 0x3e, ucSPLaddr = 0x3d, uiFlashpages = fill_b2 (0x10000 div 256),
       ucDWDRAddress = 0, ucDWBasePC = 0, ucAllowFullPageBitstream = 0,
       uiStartSmallestBootLoaderSection = fill_b2 (0), EnablePageProgramming = 1,
       ucCacheType = 0, uiSramStartAddr = fill_b2 (0x200), ucResetType = 0, ucPCMaskExtended = 0,
       ucPCMaskHigh = 0, ucEindAddress = 0x3c, EECRAddress = fill_b2 (0x1F)\<rparr>\<rparr>"

definition dev_atmega1280 :: jtag_device_def where
  "dev_atmega1280 = \<lparr>
     dev_name = Some ''atmega1280'', device_id = 0x9703,
     flash_page_size = 256, flash_page_count = 512,
     eeprom_page_size = 8, eeprom_page_count = 512,
     vectors_end = 0xe4, device_flags = DEVFL_MKII_ONLY,
     io_reg_defs = Some atmega128_io_registers, dev_is_xmega = False,
     dev_desc1 = no_mkI,
     dev_desc2 = \<lparr>
       desc_cmd2 = CMND_SET_DEVICE_DESCRIPTOR,
       ucReadIO = [0xFF, 0xFF, 0xFF, 0xFF, 0xFF, 0x3D, 0xB9, 0xF8], ucReadIOShadow = arr 8 [0],
       ucWriteIO = [0xFF, 0xFF, 0x1F, 0xE0, 0xFF, 0x1D, 0xA9, 0xF8], ucWriteIOShadow = arr 8 [0],
       ucReadExtIO = arr 52 [0x73, 0xFF, 0x3F, 0xFF, 0xF7, 0x3F, 0xF7, 0x3F, 0xF7, 0x3F, 0x5F,
       0x3F, 0x37, 0x37, 0x36, 0x00, 0x00, 0x00, 0x00, 0x00, 0xFF, 0x0F, 0x00, 0x00, 0xF7, 0x3F,
       0x36, 0x00], ucReadIOExtShadow = arr 52 [0],
       ucWriteExtIO = arr 52 [0x73, 0xFF, 0x3F, 0xF8, 0xF7, 0x3F, 0xF7, 0x3F, 0xF7, 0x3F, 0x5F,
       0x2F, 0x36, 0x36, 0x36, 0x00, 0x00, 0x00, 0x00, 0x00, 0xFF, 0x0F, 0x00, 0x00, 0xF7, 0x3F,
       0x36, 0x00], ucWriteIOExtShadow = arr 52 [0], ucIDRAddress = 0x31, ucSPMCRAddress = 0x57,
       ucRAMPZAddress = 0x3B, uiFlashPageSize = fill_b2 (256), ucEepromPageSize = 8,
       ulBootAddress = fill_b4 (0xFE00), uiUpperExtIOLoc = fill_b2 (0x0136),
       ulFlashSize = fill_b4 (0x20000), ucEepromInst = arr 20 [0], ucFlashInst = arr 3 [0],
       ucSPHaddr = 0x3e, ucSPLaddr = 0x3d, uiFlashpages = fill_b2 (0x20000 div 256),
       ucDWDRAddress = 0, ucDWBasePC = 0, ucAllowFullPageBitstream = 0,
       uiStartSmallestBootLoaderSection = fill_b2 (0), EnablePageProgramming = 1,
       ucCacheType = 0, uiSramStartAddr = fill_b2 (0x200), ucResetType = 0, ucPCMaskExtended = 0,
       ucPCMaskHigh = 0, ucEindAddress = 0x3c, EECRAddress = fill_b2 (0x1F)\<rparr>\<rparr>"

definition dev_atmega1281 :: jtag_device_def where
  "dev_atmega1281 = \<lparr>
     dev_name = Some ''atmega1281'', device_id = 0x9704,
     flash_page_size = 256, flash_page_count = 512,
     eeprom_page_size = 8, eeprom_page_count = 512,
     vectors_end = 0xe4, device_flags = DEVFL_MKII_ONLY,
     io_reg_defs = Some atmega128_io_registers, dev_is_xmega = False,
     dev_desc1 = no_mkI,
     dev_desc2 = \<lparr>
       desc_cmd2 = CMND_SET_DEVICE_DESCRIPTOR,
       ucReadIO = [0xFF, 0xFF, 0xFF, 0xF9, 0xFF, 0x3D, 0xB9, 0xF8], ucReadIOShadow = arr 8 [0],
       ucWriteIO = [0xFF, 0xFF, 0x1F, 0xE0, 0xFF, 0x1D, 0xA9, 0xF8], ucWriteIOShadow = arr 8 [0],
       ucReadExtIO = arr 52 [0x73, 0xFF, 0x3F, 0xFF, 0xF7, 0x3F, 0xF7, 0x3F, 0xF7, 0x3F, 0x5F,
       0x3F, 0x37, 0x37, 0x36, 0x00, 0x00, 0x00, 0x00, 0x00, 0xFF, 0x0F, 0x00, 0x00, 0xF7, 0x3F,
       0x36, 0x00], ucReadIOExtShadow = arr 52 [0],
       ucWriteExtIO = arr 52 [0x73, 0xFF, 0x3F, 0xF8, 0xF7, 0x3F, 0xF7, 0x3F, 0xF7, 0x3F, 0x5F,
       0x2F, 0x36, 0x36, 0x36, 0x00, 0x00, 0x00, 0x00, 0x00, 0xFF, 0x0F, 0x00, 0x00, 0xF7, 0x3F,
       0x36, 0x00], ucWriteIOExtShadow = arr 52 [0], ucIDRAddress = 0x31, ucSPMCRAddress = 0x57,
       ucRAMPZAddress = 0x3B, uiFlashPageSize = fill_b2 (256), ucEepromPageSize = 8,
       ulBootAddress = fill_b4 (0xFE00), uiUpperExtIOLoc = fill_b2 (0x0136),
       ulFlashSize = fill_b4 (0x20000), ucEepromInst = arr 20 [0], ucFlashInst = arr 3 [0],
       ucSPHaddr = 0x3e, ucSPLaddr = 0x3d, uiFlashpages = fill_b2 (0x20000 div 256),
       ucDWDRAddress = 0, ucDWBasePC = 0, ucAllowFullPageBitstream = 0,
       uiStartSmallestBootLoaderSection = fill_b2 (0), EnablePageProgramming = 1,
       ucCacheType = 0, uiSramStartAddr = fill_b2 (0x200), ucResetType = 0, ucPCMaskExtended = 0,
       ucPCMaskHigh = 0, ucEindAddress = 0x3c, EECRAddress = fill_b2 (0x1F)\<rparr>\<rparr>"

definition dev_atmega2560 :: jtag_device_def where
  "dev_atmega2560 = \<lparr>
     dev_name = Some ''atmega2560'', device_id = 0x9801,
     flash_page_size = 256, flash_page_count = 1024,
     eeprom_page_size = 8, eeprom_page_count = 512,
     vectors_end = 0xe4, device_flags = DEVFL_MKII_ONLY,
     io_reg_defs = Some atmega128_io_registers, dev_is_xmega = False,
     dev_desc1 = no_mkI,
     dev_desc2 = \<lparr>
       desc_cmd2 = CMND_SET_DEVICE_DESCRIPTOR,
       ucReadIO = [0xFF, 0xFF, 0xFF, 0xFF, 0xFF, 0x3D, 0xB9, 0xF8], ucReadIOShadow = arr 8 [0],
       ucWriteIO = [0xFF, 0xFF, 0x1F, 0xE0, 0xFF, 0x1D, 0xA9, 0xF8], ucWriteIOShadow = arr 8 [0],
       ucReadExtIO = arr 52 [0x73, 0xFF, 0x3F, 0xFF, 0xF7, 0x3F, 0xF7, 0x3F, 0xF7, 0x3F, 0x5F,
       0x3F, 0x37, 0x37, 0x37, 0x00, 0x00, 0x00, 0x00, 0x00, 0xFF, 0x0F, 0x00, 0x00, 0xF7, 0x3F,
       0x37], ucReadIOExtShadow = arr 52 [0],
       ucWriteExtIO = arr 52 [0x73, 0xFF, 0x3F, 0xF8, 0xF7, 0x3F, 0xF7, 0x3F, 0xF7, 0x3F, 0x5F,
       0x2F, 0x36, 0x36, 0x36, 0x00, 0x00, 0x00, 0x00, 0x00, 0xFF, 0x0F, 0x00, 0x00, 0xF7, 0x3F,
       0x36], ucWriteIOExtShadow = arr 52 [0], ucIDRAddress = 0x31, ucSPMCRAddress = 0x57,
       ucRAMPZAddress = 0x3B, uiFlashPageSize = fill_b2 (256), ucEepromPageSize = 8,
       ulBootAddress = fill_b4 (0x1FE00), uiUpperExtIOLoc = fill_b2 (0x0136),
       ulFlashSize = fill_b4 (0x40000), ucEepromInst = arr 20 [0], ucFlashInst = arr 3 [0],
       ucSPHaddr = 0x3e, ucSPLaddr = 0x3d, uiFlashpages = fill_b2 (0x40000 div 256),
       ucDWDRAddress = 0, ucDWBasePC = 0, ucAllowFullPageBitstream = 0,
       uiStartSmallestBootLoaderSection = fill_b2 (0), EnablePageProgramming = 1,
       ucCacheType = 0, uiSramStartAddr = fill_b2 (0x200), ucResetType = 0, ucPCMaskExtended = 0,
       ucPCMaskHigh = 0, ucEindAddress = 0x3c, EECRAddress = fill_b2 (0x1F)\<rparr>\<rparr>"

definition dev_atmega2561 :: jtag_device_def where
  "dev_atmega2561 = \<lparr>
     dev_name = Some ''atmega2561'', device_id = 0x9802,
     flash_page_size = 256, flash_page_count = 1024,
     eeprom_page_size = 8, eeprom_page_count = 512,
     vectors_end = 0xe4, device_flags = DEVFL_MKII_ONLY,
     io_reg_defs = Some atmega128_io_registers, dev_is_xmega = False,
     dev_desc1 = no_mkI,
     dev_desc2 = \<lparr>
       desc_cmd2 = CMND_SET_DEVICE_DESCRIPTOR,
       ucReadIO = [0xFF, 0xFF, 0xFF, 0xFF, 0xFF, 0x3D, 0xB9, 0xF8], ucReadIOShadow = arr 8 [0],
       ucWriteIO = [0xFF, 0xFF, 0x1F, 0xE0, 0xFF, 0x1D, 0xA9, 0xF8], ucWriteIOShadow = arr 8 [0],
       ucReadExtIO = arr 52 [0x73, 0xFF, 0x3F, 0xFF, 0xF7, 0x3F, 0xF7, 0x3F, 0xF7, 0x3F, 0x5F,
       0x3F, 0x37, 0x37, 0x37, 0x00, 0x00, 0x00, 0x00, 0x00, 0xFF, 0x0F, 0x00, 0x00, 0xF7, 0x3F,
       0x37], ucReadIOExtShadow = arr 52 [0],
       ucWriteExtIO = arr 52 [0x73, 0xFF, 0x3F, 0xF8, 0xF7, 0x3F, 0xF7, 0x3F, 0xF7, 0x3F, 0x5F,
       0x2F, 0x36, 0x36, 0x36, 0x00, 0x00, 0x00, 0x00, 0x00, 0xFF, 0x0F, 0x00, 0x00, 0xF7, 0x3F,
       0x36], ucWriteIOExtShadow = arr 52 [0], ucIDRAddress = 0x31, ucSPMCRAddress = 0x57,
       ucRAMPZAddress = 0x3B, uiFlashPageSize = fill_b2 (256), ucEepromPageSize = 8,
       ulBootAddress = fill_b4 (0x1FE00), uiUpperExtIOLoc = fill_b2 (0x0136),
       ulFlashSize = fill_b4 (0x40000), ucEepromInst = arr 20 [0], ucFlashInst = arr 3 [0],
       ucSPHaddr = 0x3e, ucSPLaddr = 0x3d, uiFlashpages = fill_b2 (0x40000 div 256),
       ucDWDRAddress = 0, ucDWBasePC = 0, ucAllowFullPageBitstream = 0,
       uiStartSmallestBootLoaderSection = fill_b2 (0), EnablePageProgramming = 1,
       ucCacheType = 0, uiSramStartAddr = fill_b2 (0x200), ucResetType = 0, ucPCMaskExtended = 0,
       ucPCMaskHigh = 0, ucEindAddress = 0x3c, EECRAddress = fill_b2 (0x1F)\<rparr>\<rparr>"

definition dev_atmega48 :: jtag_device_def where
  "dev_atmega48 = \<lparr>
     dev_name = Some ''atmega48'', device_id = 0x9205,
     flash_page_size = 64, flash_page_count = 64,
     eeprom_page_size = 4, eeprom_page_count = 64,
     vectors_end = 26 * 2, device_flags = DEVFL_MKII_ONLY,
     io_reg_defs = None, dev_is_xmega = False,
     dev_desc1 = no_mkI,
     dev_desc2 = \<lparr>
       desc_cmd2 = CMND_SET_DEVICE_DESCRIPTOR,
       ucReadIO = [0xF8, 0x0F, 0xE0, 0xF8, 0xFB, 0x3D, 0xB9, 0xE0], ucReadIOShadow = arr 8 [0],
       ucWriteIO = [0xB0, 0x0D, 0x00, 0xE0, 0xFB, 0x1D, 0xB8, 0xE0], ucWriteIOShadow = arr 8 [0],
       ucReadExtIO = arr 52 [0x53, 0xFB, 0x01, 0xDF, 0xF3, 0x0F, 0x00, 0x00, 0x00, 0x00, 0x5F,
       0x3F, 0x37, 0x00, 0x00, 0x00, 0x00, 0x00, 0x00, 0x00], ucReadIOExtShadow = arr 52 [0],
       ucWriteExtIO = arr 52 [0x10, 0xFB, 0x01, 0xD8, 0xF3, 0x0F, 0x00, 0x00, 0x00, 0x00, 0x5F,
       0x2F, 0x36, 0x00, 0x00, 0x00, 0x00, 0x00, 0x00, 0x00], ucWriteIOExtShadow = arr 52 [0],
       ucIDRAddress = 0, ucSPMCRAddress = 0, ucRAMPZAddress = 0, uiFlashPageSize = fill_b2 (64),
       ucEepromPageSize = 4, ulBootAddress = fill_b4 (0), uiUpperExtIOLoc = fill_b2 (0xC6),
       ulFlashSize = fill_b4 (0x1000),
       ucEepromInst = [0xBD, 0xF2, 0xBD, 0xE1, 0xBB, 0xCF, 0xB4, 0x00, 0xBE, 0x01, 0xB6, 0x01,
       0xBC, 0x00, 0xBB, 0xBF, 0x99, 0xF9, 0xBB, 0xAF], ucFlashInst = [0xB6, 0x01, 0x11],
       ucSPHaddr = 0x3e, ucSPLaddr = 0x3d, uiFlashpages = fill_b2 (0x1000 div 64),
       ucDWDRAddress = 0x31, ucDWBasePC = 0x18, ucAllowFullPageBitstream = 0,
       uiStartSmallestBootLoaderSection = fill_b2 (0), EnablePageProgramming = 1,
       ucCacheType = 0, uiSramStartAddr = fill_b2 (0x100), ucResetType = 0, ucPCMaskExtended = 0,
       ucPCMaskHigh = 0, ucEindAddress = 0, EECRAddress = fill_b2 (0x1F)\<rparr>\<rparr>"

definition dev_atmega88 :: jtag_device_def where
  "dev_atmega88 = \<lparr>
     dev_name = Some ''atmega88'', device_id = 0x930A,
     flash_page_size = 64, flash_page_count = 128,
     eeprom_page_size = 4, eeprom_page_count = 128,
     vectors_end = 26 * 2, device_flags = DEVFL_MKII_ONLY,
     io_reg_defs = None, dev_is_xmega = False,
     dev_desc1 = no_mkI,
     dev_desc2 = \<lparr>
       desc_cmd2 = CMND_SET_DEVICE_DESCRIPTOR,
       ucReadIO = [0xF8, 0x0F, 0xE0, 0xF8, 0xFF, 0x3D, 0xB9, 0xE0],
       ucReadIOShadow = [0x00, 0x00, 0x00, 0x00, 0x00, 0x00, 0x00, 0x00],
       ucWriteIO = [0xB0, 0x0D, 0x00, 0xE0, 0xFF, 0x1D, 0xB8, 0xE0],
       ucWriteIOShadow = [0x00, 0x00, 0x00, 0x00, 0x00, 0x00, 0x00, 0x00],
       ucReadExtIO = arr 52 [0x53, 0xFB, 0x01, 0xDF, 0xF7, 0x0F, 0x00, 0x00, 0x00, 0x00, 0x5F,
       0x3F, 0x37, 0x00, 0x00, 0x00, 0x00, 0x00, 0x00, 0x00],
       ucReadIOExtShadow = arr 52 [0x00, 0x00, 0x00, 0x00, 0x00, 0x00, 0x00, 0x00, 0x00, 0x00,
       0x00, 0x00, 0x00, 0x00, 0x00, 0x00, 0x00, 0x00, 0x00, 0x00],
       ucWriteExtIO = arr 52 [0x10, 0xFB, 0x01, 0xD8, 0xF7, 0x0F, 0x00, 0x00, 0x00, 0x00, 0x5F,
       0x2F, 0x36, 0x00, 0x00, 0x00, 0x00, 0x00, 0x00, 0x00],
       ucWriteIOExtShadow = arr 52 [0x00, 0x00, 0x00, 0x00, 0x00, 0x00, 0x00, 0x00, 0x00, 0x00,
       0x00, 0x00, 0x00, 0x00, 0x00, 0x00, 0x00, 0x00, 0x00, 0x00], ucIDRAddress = 0x00,
       ucSPMCRAddress = 0x00, ucRAMPZAddress = 0, uiFlashPageSize = fill_b2 (64),
       ucEepromPageSize = 4, ulBootAddress = fill_b4 (0x0F80), uiUpperExtIOLoc = fill_b2 (0xC6),
       ulFlashSize = fill_b4 (8192),
       ucEepromInst = [0xBD, 0xF2, 0xBD, 0xE1, 0xBB, 0xCF, 0xB4, 0x00, 0xBE, 0x01, 0xB6, 0x01,
       0xBC, 0x00, 0xBB, 0xBF, 0x99, 0xF9, 0xBB, 0xAF], ucFlashInst = [0xB6, 0x01, 0x11],
       ucSPHaddr = 0x3E, ucSPLaddr = 0x3D, uiFlashpages = fill_b2 (8192 div 64),
       ucDWDRAddress = 0x31, ucDWBasePC = 0x10, ucAllowFullPageBitstream = 0x00,
       uiStartSmallestBootLoaderSection = fill_b2 (0xF80), EnablePageProgramming = 1,
       ucCacheType = 0, uiSramStartAddr = fill_b2 (0x100), ucResetType = 0, ucPCMaskExtended = 0,
       ucPCMaskHigh = 0, ucEindAddress = 0, EECRAddress = fill_b2 (0x1F)\<rparr>\<rparr>"

definition dev_atmega168 :: jtag_device_def where
  "dev_atmega168 = \<lparr>
     dev_name = Some ''atmega168'', device_id = 0x9406,
     flash_page_size = 128, flash_page_count = 128,
     eeprom_page_size = 4, eeprom_page_count = 128,
     vectors_end = 26 * 4, device_flags = DEVFL_MKII_ONLY,
     io_reg_defs = None, dev_is_xmega = False,
     dev_desc1 = no_mkI,
     dev_desc2 = \<lparr>
       desc_cmd2 = CMND_SET_DEVICE_DESCRIPTOR,
       ucReadIO = [0xF8, 0x0F, 0xE0, 0xF8, 0xFF, 0x3D, 0xB9, 0xE0],
       ucReadIOShadow = [0x00, 0x00, 0x00, 0x00, 0x00, 0x00, 0x00, 0x00],
       ucWriteIO = [0xB0, 0x0D, 0x00, 0xE0, 0xFF, 0x1D, 0xB8, 0xE0],
       ucWriteIOShadow = [0x00, 0x00, 0x00, 0x00, 0x00, 0x00, 0x00, 0x00],
       ucReadExtIO = arr 52 [0x53, 0xFB, 0x01, 0xDF, 0xF7, 0x0F, 0x00, 0x00, 0x00, 0x00, 0x5F,
       0x3F, 0x37, 0x00, 0x00, 0x00, 0x00, 0x00, 0x00, 0x00],
       ucReadIOExtShadow = arr 52 [0x00, 0x00, 0x00, 0x00, 0x00, 0x00, 0x00, 0x00, 0x00, 0x00,
       0x00, 0x00, 0x00, 0x00, 0x00, 0x00, 0x00, 0x00, 0x00, 0x00],
       ucWriteExtIO = arr 52 [0x10, 0xFB, 0x01, 0xD8, 0xF7, 0x0F, 0x00, 0x00, 0x00, 0x00, 0x5F,
       0x2F, 0x36, 0x00, 0x00, 0x00, 0x00, 0x00, 0x00, 0x00],
       ucWriteIOExtShadow = arr 52 [0x00, 0x00, 0x00, 0x00, 0x00, 0x00, 0x00, 0x00, 0x00, 0x00,
       0x00, 0x00, 0x00, 0x00, 0x00, 0x00, 0x00, 0x00, 0x00, 0x00], ucIDRAddress = 0x00,
       ucSPMCRAddress = 0x00, ucRAMPZAddress = 0, uiFlashPageSize = fill_b2 (128),
       ucEepromPageSize = 4, ulBootAddress = fill_b4 (0x1F80), uiUpperExtIOLoc = fill_b2 (0xC6),
       ulFlashSize = fill_b4 (16384),
       ucEepromInst = [0xBD, 0xF2, 0xBD, 0xE1, 0xBB, 0xCF, 0xB4, 0x00, 0xBE, 0x01, 0xB6, 0x01,
       0xBC, 0x00, 0xBB, 0xBF, 0x99, 0xF9, 0xBB, 0xAF], ucFlashInst = [0xB6, 0x01, 0x11],
       ucSPHaddr = 0x3E, ucSPLaddr = 0x3D, uiFlashpages = fill_b2 (16384 div 128),
       ucDWDRAddress = 0x31, ucDWBasePC = 0x00, ucAllowFullPageBitstream = 0x00,
       uiStartSmallestBootLoaderSection = fill_b2 (0x1F80), EnablePageProgramming = 1,
       ucCacheType = 0, uiSramStartAddr = fill_b2 (0x100), ucResetType = 0, ucPCMaskExtended = 0,
       ucPCMaskHigh = 0, ucEindAddress = 0, EECRAddress = fill_b2 (0x1F)\<rparr>\<rparr>"

definition dev_attiny13 :: jtag_device_def where
  "dev_attiny13 = \<lparr>
     dev_name = Some ''attiny13'', device_id = 0x9007,
     flash_page_size = 32, flash_page_count = 32,
     eeprom_page_size = 1, eeprom_page_count = 64,
     vectors_end = 10 * 2, device_flags = DEVFL_MKII_ONLY,
     io_reg_defs = None, dev_is_xmega = False,
     dev_desc1 = no_mkI,
     dev_desc2 = \<lparr>
       desc_cmd2 = CMND_SET_DEVICE_DESCRIPTOR,
       ucReadIO = [0xF8, 0x01, 0xF0, 0x71, 0x42, 0x83, 0xFE, 0xAF],
       ucReadIOShadow = [0x00, 0x00, 0x00, 0x00, 0x00, 0x00, 0x00, 0x00],
       ucWriteIO = [0x88, 0x00, 0xB0, 0x71, 0x00, 0x83, 0x7C, 0xAA],
       ucWriteIOShadow = [0x00, 0x00, 0x00, 0x00, 0x00, 0x00, 0x00, 0x00],
       ucReadExtIO = arr 52 [0x00, 0x00, 0x00, 0x00, 0x00, 0x00, 0x00, 0x00, 0x00, 0x00, 0x00,
       0x00, 0x00, 0x00, 0x00, 0x00, 0x00, 0x00, 0x00, 0x00],
       ucReadIOExtShadow = arr 52 [0x00, 0x00, 0x00, 0x00, 0x00, 0x00, 0x00, 0x00, 0x00, 0x00,
       0x00, 0x00, 0x00, 0x00, 0x00, 0x00, 0x00, 0x00, 0x00, 0x00],
       ucWriteExtIO = arr 52 [0x00, 0x00, 0x00, 0x00, 0x00, 0x00, 0x00, 0x00, 0x00, 0x00, 0x00,
       0x00, 0x00, 0x00, 0x00, 0x00, 0x00, 0x00, 0x00, 0x00],
       ucWriteIOExtShadow = arr 52 [0x00, 0x00, 0x00, 0x00, 0x00, 0x00, 0x00, 0x00, 0x00, 0x00,
       0x00, 0x00, 0x00, 0x00, 0x00, 0x00, 0x00, 0x00, 0x00, 0x00], ucIDRAddress = 0x00,
       ucSPMCRAddress = 0x00, ucRAMPZAddress = 0, uiFlashPageSize = fill_b2 (32),
       ucEepromPageSize = 1, ulBootAddress = fill_b4 (0x0000), uiUpperExtIOLoc = fill_b2 (0x00),
       ulFlashSize = fill_b4 (1024),
       ucEepromInst = [0xBB, 0xFE, 0xBB, 0xEE, 0xBB, 0xCC, 0xB2, 0x0D, 0xBC, 0x0E, 0xB4, 0x0E,
       0xBA, 0x0D, 0xBB, 0xBC, 0x99, 0xE1, 0xBB, 0xAC], ucFlashInst = [0xB4, 0x0E, 0x1E],
       ucSPHaddr = 0, ucSPLaddr = 0x3D, uiFlashpages = fill_b2 (1024 div 32),
       ucDWDRAddress = 0x2E, ucDWBasePC = 0x00, ucAllowFullPageBitstream = 0x00,
       uiStartSmallestBootLoaderSection = fill_b2 (0x00), EnablePageProgramming = 1,
       ucCacheType = 0, uiSramStartAddr = fill_b2 (0x60), ucResetType = 0, ucPCMaskExtended = 0,
       ucPCMaskHigh = 0, ucEindAddress = 0, EECRAddress = fill_b2 (0x1C)\<rparr>\<rparr>"

definition dev_attiny2313 :: jtag_device_def where
  "dev_attiny2313 = \<lparr>
     dev_name = Some ''attiny2313'', device_id = 0x910A,
     flash_page_size = 32, flash_page_count = 64,
     eeprom_page_size = 4, eeprom_page_count = 32,
     vectors_end = 19 * 2, device_flags = DEVFL_MKII_ONLY,
     io_reg_defs = None, dev_is_xmega = False,
     dev_desc1 = no_mkI,
     dev_desc2 = \<lparr>
       desc_cmd2 = CMND_SET_DEVICE_DESCRIPTOR,
       ucReadIO = [0x0E, 0xEF, 0xFF, 0x7F, 0x3F, 0xFF, 0x7F, 0xBF],
       ucReadIOShadow = [0x00, 0x00, 0x00, 0x00, 0x00, 0x00, 0x00, 0x00],
       ucWriteIO = [0x0E, 0xA6, 0xBE, 0x7D, 0x39, 0xFF, 0x7D, 0xBA],
       ucWriteIOShadow = [0x00, 0x00, 0x00, 0x00, 0x00, 0x00, 0x00, 0x00],
       ucReadExtIO = arr 52 [0x00, 0x00, 0x00, 0x00, 0x00, 0x00, 0x00, 0x00, 0x00, 0x00, 0x00,
       0x00, 0x00, 0x00, 0x00, 0x00, 0x00, 0x00, 0x00, 0x00],
       ucReadIOExtShadow = arr 52 [0x00, 0x00, 0x00, 0x00, 0x00, 0x00, 0x00, 0x00, 0x00, 0x00,
       0x00, 0x00, 0x00, 0x00, 0x00, 0x00, 0x00, 0x00, 0x00, 0x00],
       ucWriteExtIO = arr 52 [0x00, 0x00, 0x00, 0x00, 0x00, 0x00, 0x00, 0x00, 0x00, 0x00, 0x00,
       0x00, 0x00, 0x00, 0x00, 0x00, 0x00, 0x00, 0x00, 0x00],
       ucWriteIOExtShadow = arr 52 [0x00, 0x00, 0x00, 0x00, 0x00, 0x00, 0x00, 0x00, 0x00, 0x00,
       0x00, 0x00, 0x00, 0x00, 0x00, 0x00, 0x00, 0x00, 0x00, 0x00], ucIDRAddress = 0x00,
       ucSPMCRAddress = 0x00, ucRAMPZAddress = 0, uiFlashPageSize = fill_b2 (32),
       ucEepromPageSize = 4, ulBootAddress = fill_b4 (0x0000), uiUpperExtIOLoc = fill_b2 (0x00),
       ulFlashSize = fill_b4 (2048),
       ucEepromInst = [0xBB, 0xFE, 0xBB, 0xEE, 0xBB, 0xCC, 0xB2, 0x0D, 0xBA, 0x0F, 0xB2, 0x0F,
       0xBA, 0x0D, 0xBB, 0xBC, 0x99, 0xE1, 0xBB, 0xAC], ucFlashInst = [0xB2, 0x0F, 0x1F],
       ucSPHaddr = 0, ucSPLaddr = 0x3D, uiFlashpages = fill_b2 (2048 div 32),
       ucDWDRAddress = 0x1F, ucDWBasePC = 0x00, ucAllowFullPageBitstream = 0x00,
       uiStartSmallestBootLoaderSection = fill_b2 (0x00), EnablePageProgramming = 1,
       ucCacheType = 0, uiSramStartAddr = fill_b2 (0x60), ucResetType = 0, ucPCMaskExtended = 0,
       ucPCMaskHigh = 0, ucEindAddress = 0, EECRAddress = fill_b2 (0x1C)\<rparr>\<rparr>"

definition dev_at90pwm2 :: jtag_device_def where
  "dev_at90pwm2 = \<lparr>
     dev_name = Some ''at90pwm2'', device_id = 0x9381,
     flash_page_size = 64, flash_page_count = 128,
     eeprom_page_size = 4, eeprom_page_count = 128,
     vectors_end = 32 * 2, device_flags = DEVFL_MKII_ONLY,
     io_reg_defs = None, dev_is_xmega = False,
     dev_desc1 = no_mkI,
     dev_desc2 = \<lparr>
       desc_cmd2 = CMND_SET_DEVICE_DESCRIPTOR,
       ucReadIO = [0xF8, 0x7F, 0x60, 0xFE, 0xFF, 0x33, 0xBD, 0xE0],
       ucReadIOShadow = [0x00, 0x00, 0x00, 0x00, 0x00, 0x00, 0x00, 0x00],
       ucWriteIO = [0xF8, 0x7F, 0x40, 0xEE, 0xFF, 0x33, 0xBC, 0xE0],
       ucWriteIOShadow = [0x00, 0x00, 0x00, 0x00, 0x00, 0x00, 0x00, 0x00],
       ucReadExtIO = arr 52 [0x53, 0xC2, 0xC0, 0xDF, 0xF7, 0x0F, 0x00, 0x00, 0x3F, 0xE4, 0x00,
       0x00, 0x36, 0x37, 0x01, 0xFC, 0x05, 0xFC, 0x07, 0xFC],
       ucReadIOExtShadow = arr 52 [0x00, 0x00, 0x00, 0x00, 0x00, 0x00, 0x00, 0x00, 0x00, 0x00,
       0x00, 0x00, 0x00, 0x00, 0x00, 0x00, 0x00, 0x00, 0x00, 0x00],
       ucWriteExtIO = arr 52 [0x11, 0xC2, 0xC0, 0xD8, 0xF7, 0x0F, 0x00, 0x00, 0x3F, 0xE4, 0x00,
       0x00, 0x36, 0x33, 0x01, 0xFC, 0x05, 0xFC, 0x07, 0xFC],
       ucWriteIOExtShadow = arr 52 [0x00, 0x00, 0x00, 0x00, 0x00, 0x00, 0x00, 0x00, 0x00, 0x00,
       0x00, 0x00, 0x00, 0x00, 0x00, 0x00, 0x00, 0x00, 0x00, 0x00], ucIDRAddress = 0x00,
       ucSPMCRAddress = 0x00, ucRAMPZAddress = 0, uiFlashPageSize = fill_b2 (64),
       ucEepromPageSize = 4, ulBootAddress = fill_b4 (0x0F80), uiUpperExtIOLoc = fill_b2 (0xFF),
       ulFlashSize = fill_b4 (8192),
       ucEepromInst = [0xBD, 0xF2, 0xBD, 0xE1, 0xBB, 0xCF, 0xB4, 0x00, 0xBE, 0x01, 0xB6, 0x01,
       0xBC, 0x00, 0xBB, 0xBF, 0x99, 0xF9, 0xBB, 0xAF], ucFlashInst = [0xB6, 0x01, 0x11],
       ucSPHaddr = 0x3E, ucSPLaddr = 0x3D, uiFlashpages = fill_b2 (8192 div 64),
       ucDWDRAddress = 0x31, ucDWBasePC = 0x00, ucAllowFullPageBitstream = 0x00,
       uiStartSmallestBootLoaderSection = fill_b2 (0xF80), EnablePageProgramming = 1,
       ucCacheType = 0, uiSramStartAddr = fill_b2 (0x0100), ucResetType = 0,
       ucPCMaskExtended = 0, ucPCMaskHigh = 0, ucEindAddress = 0, EECRAddress = fill_b2 (0x1F)\<rparr>\<rparr>"

definition dev_at90pwm3 :: jtag_device_def where
  "dev_at90pwm3 = \<lparr>
     dev_name = Some ''at90pwm3'', device_id = 0x9381,
     flash_page_size = 64, flash_page_count = 128,
     eeprom_page_size = 4, eeprom_page_count = 128,
     vectors_end = 32 * 2, device_flags = DEVFL_MKII_ONLY,
     io_reg_defs = None, dev_is_xmega = False,
     dev_desc1 = no_mkI,
     dev_desc2 = \<lparr>
       desc_cmd2 = CMND_SET_DEVICE_DESCRIPTOR,
       ucReadIO = [0xF8, 0x7F, 0x60, 0xFE, 0xFF, 0x33, 0xBD, 0xE0],
       ucReadIOShadow = [0x00, 0x00, 0x00, 0x00, 0x00, 0x00, 0x00, 0x00],
       ucWriteIO = [0xF8, 0x7F, 0x40, 0xEE, 0xFF, 0x33, 0xBC, 0xE0],
       ucWriteIOShadow = [0x00, 0x00, 0x00, 0x00, 0x00, 0x00, 0x00, 0x00],
       ucReadExtIO = arr 52 [0x53, 0xC2, 0xC0, 0xDF, 0xF7, 0x0F, 0x00, 0x00, 0x3F, 0xE4, 0x00,
       0x00, 0x36, 0x37, 0x01, 0xFC, 0x05, 0xFC, 0x07, 0xFC],
       ucReadIOExtShadow = arr 52 [0x00, 0x00, 0x00, 0x00, 0x00, 0x00, 0x00, 0x00, 0x00, 0x00,
       0x00, 0x00, 0x00, 0x00, 0x00, 0x00, 0x00, 0x00, 0x00, 0x00],
       ucWriteExtIO = arr 52 [0x11, 0xC2, 0xC0, 0xD8, 0xF7, 0x0F, 0x00, 0x00, 0x3F, 0xE4, 0x00,
       0x00, 0x36, 0x33, 0x01, 0xFC, 0x05, 0xFC, 0x07, 0xFC],
       ucWriteIOExtShadow = arr 52 [0x00, 0x00, 0x00, 0x00, 0x00, 0x00, 0x00, 0x00, 0x00, 0x00,
       0x00, 0x00, 0x00, 0x00, 0x00, 0x00, 0x00, 0x00, 0x00, 0x00], ucIDRAddress = 0x00,
       ucSPMCRAddress = 0x00, ucRAMPZAddress = 0, uiFlashPageSize = fill_b2 (64),
       ucEepromPageSize = 4, ulBootAddress = fill_b4 (0x0F80), uiUpperExtIOLoc = fill_b2 (0xFF),
       ulFlashSize = fill_b4 (8192),
       ucEepromInst = [0xBD, 0xF2, 0xBD, 0xE1, 0xBB, 0xCF, 0xB4, 0x00, 0xBE, 0x01, 0xB6, 0x01,
       0xBC, 0x00, 0xBB, 0xBF, 0x99, 0xF9, 0xBB, 0xAF], ucFlashInst = [0xB6, 0x01, 0x11],
       ucSPHaddr = 0x3E, ucSPLaddr = 0x3D, uiFlashpages = fill_b2 (8192 div 64),
       ucDWDRAddress = 0x31, ucDWBasePC = 0x00, ucAllowFullPageBitstream = 0x00,
       uiStartSmallestBootLoaderSection = fill_b2 (0xF80), EnablePageProgramming = 1,
       ucCacheType = 0, uiSramStartAddr = fill_b2 (0x0100), ucResetType = 0,
       ucPCMaskExtended = 0, ucPCMaskHigh = 0, ucEindAddress = 0, EECRAddress = fill_b2 (0x1F)\<rparr>\<rparr>"

definition dev_at90pwm2b :: jtag_device_def where
  "dev_at90pwm2b = \<lparr>
     dev_name = Some ''at90pwm2b'', device_id = 0x9383,
     flash_page_size = 64, flash_page_count = 128,
     eeprom_page_size = 4, eeprom_page_count = 128,
     vectors_end = 32 * 2, device_flags = DEVFL_MKII_ONLY,
     io_reg_defs = None, dev_is_xmega = False,
     dev_desc1 = no_mkI,
     dev_desc2 = \<lparr>
       desc_cmd2 = CMND_SET_DEVICE_DESCRIPTOR,
       ucReadIO = [0xF8, 0x7F, 0x60, 0xFE, 0xFF, 0x33, 0xBD, 0xE0],
       ucReadIOShadow = [0x00, 0x00, 0x00, 0x00, 0x00, 0x00, 0x00, 0x00],
       ucWriteIO = [0xF8, 0x7F, 0x40, 0xEE, 0xFF, 0x33, 0xBC, 0xE0],
       ucWriteIOShadow = [0x00, 0x00, 0x00, 0x00, 0x00, 0x00, 0x00, 0x00],
       ucReadExtIO = arr 52 [0x53, 0xC2, 0xC0, 0xDF, 0xF7, 0x0F, 0x00, 0x00, 0x3F, 0xE4, 0x00,
       0x00, 0x36, 0x37, 0x01, 0xFC, 0x05, 0xFC, 0x07, 0xFC],
       ucReadIOExtShadow = arr 52 [0x00, 0x00, 0x00, 0x00, 0x00, 0x00, 0x00, 0x00, 0x00, 0x00,
       0x00, 0x00, 0x00, 0x00, 0x00, 0x00, 0x00, 0x00, 0x00, 0x00],
       ucWriteExtIO = arr 52 [0x11, 0xC2, 0xC0, 0xD8, 0xF7, 0x0F, 0x00, 0x00, 0x3F, 0xE4, 0x00,
       0x00, 0x36, 0x33, 0x01, 0xFC, 0x05, 0xFC, 0x07, 0xFC],
       ucWriteIOExtShadow = arr 52 [0x00, 0x00, 0x00, 0x00, 0x00, 0x00, 0x00, 0x00, 0x00, 0x00,
       0x00, 0x00, 0x00, 0x00, 0x00, 0x00, 0x00, 0x00, 0x00, 0x00], ucIDRAddress = 0x00,
       ucSPMCRAddress = 0x00, ucRAMPZAddress = 0, uiFlashPageSize = fill_b2 (64),
       ucEepromPageSize = 4, ulBootAddress = fill_b4 (0x0F80), uiUpperExtIOLoc = fill_b2 (0xFF),
       ulFlashSize = fill_b4 (8192),
       ucEepromInst = [0xBD, 0xF2, 0xBD, 0xE1, 0xBB, 0xCF, 0xB4, 0x00, 0xBE, 0x01, 0xB6, 0x01,
       0xBC, 0x00, 0xBB, 0xBF, 0x99, 0xF9, 0xBB, 0xAF], ucFlashInst = [0xB6, 0x01, 0x11],
       ucSPHaddr = 0x3E, ucSPLaddr = 0x3D, uiFlashpages = fill_b2 (8192 div 64),
       ucDWDRAddress = 0x31, ucDWBasePC = 0x00, ucAllowFullPageBitstream = 0x00,
       uiStartSmallestBootLoaderSection = fill_b2 (0xF80), EnablePageProgramming = 1,
       ucCacheType = 0, uiSramStartAddr = fill_b2 (0x0100), ucResetType = 0,
       ucPCMaskExtended = 0, ucPCMaskHigh = 0, ucEindAddress = 0, EECRAddress = fill_b2 (0x1F)\<rparr>\<rparr>"

definition dev_at90pwm3b :: jtag_device_def where
  "dev_at90pwm3b = \<lparr>
     dev_name = Some ''at90pwm3b'', device_id = 0x9383,
     flash_page_size = 64, flash_page_count = 128,
     eeprom_page_size = 4, eeprom_page_count = 128,
     vectors_end = 32 * 2, device_flags = DEVFL_MKII_ONLY,
     io_reg_defs = None, dev_is_xmega = False,
     dev_desc1 = no_mkI,
     dev_desc2 = \<lparr>
       desc_cmd2 = CMND_SET_DEVICE_DESCRIPTOR,
       ucReadIO = [0xF8, 0x7F, 0x60, 0xFE, 0xFF, 0x33, 0xBD, 0xE0],
       ucReadIOShadow = [0x00, 0x00, 0x00, 0x00, 0x00, 0x00, 0x00, 0x00],
       ucWriteIO = [0xF8, 0x7F, 0x40, 0xEE, 0xFF, 0x33, 0xBC, 0xE0],
       ucWriteIOShadow = [0x00, 0x00, 0x00, 0x00, 0x00, 0x00, 0x00, 0x00],
       ucReadExtIO = arr 52 [0x53, 0xC2, 0xC0, 0xDF, 0xF7, 0x0F, 0x00, 0x00, 0x3F, 0xE4, 0x00,
       0x00, 0x36, 0x37, 0x01, 0xFC, 0x05, 0xFC, 0x07, 0xFC],
       ucReadIOExtShadow = arr 52 [0x00, 0x00, 0x00, 0x00, 0x00, 0x00, 0x00, 0x00, 0x00, 0x00,
       0x00, 0x00, 0x00, 0x00, 0x00, 0x00, 0x00, 0x00, 0x00, 0x00],
       ucWriteExtIO = arr 52 [0x11, 0xC2, 0xC0, 0xD8, 0xF7, 0x0F, 0x00, 0x00, 0x3F, 0xE4, 0x00,
       0x00, 0x36, 0x33, 0x01, 0xFC, 0x05, 0xFC, 0x07, 0xFC],
       ucWriteIOExtShadow = arr 52 [0x00, 0x00, 0x00, 0x00, 0x00, 0x00, 0x00, 0x00, 0x00, 0x00,
       0x00, 0x00, 0x00, 0x00, 0x00, 0x00, 0x00, 0x00, 0x00, 0x00], ucIDRAddress = 0x00,
       ucSPMCRAddress = 0x00, ucRAMPZAddress = 0, uiFlashPageSize = fill_b2 (64),
       ucEepromPageSize = 4, ulBootAddress = fill_b4 (0x0F80), uiUpperExtIOLoc = fill_b2 (0xFF),
       ulFlashSize = fill_b4 (8192),
       ucEepromInst = [0xBD, 0xF2, 0xBD, 0xE1, 0xBB, 0xCF, 0xB4, 0x00, 0xBE, 0x01, 0xB6, 0x01,
       0xBC, 0x00, 0xBB, 0xBF, 0x99, 0xF9, 0xBB, 0xAF], ucFlashInst = [0xB6, 0x01, 0x11],
       ucSPHaddr = 0x3E, ucSPLaddr = 0x3D, uiFlashpages = fill_b2 (8192 div 64),
       ucDWDRAddress = 0x31, ucDWBasePC = 0x00, ucAllowFullPageBitstream = 0x00,
       uiStartSmallestBootLoaderSection = fill_b2 (0xF80), EnablePageProgramming = 1,
       ucCacheType = 0, uiSramStartAddr = fill_b2 (0x0100), ucResetType = 0,
       ucPCMaskExtended = 0, ucPCMaskHigh = 0, ucEindAddress = 0, EECRAddress = fill_b2 (0x1F)\<rparr>\<rparr>"

definition dev_attiny24 :: jtag_device_def where
  "dev_attiny24 = \<lparr>
     dev_name = Some ''attiny24'', device_id = 0x910B,
     flash_page_size = 32, flash_page_count = 64,
     eeprom_page_size = 4, eeprom_page_count = 32,
     vectors_end = 17 * 2, device_flags = DEVFL_MKII_ONLY,
     io_reg_defs = None, dev_is_xmega = False,
     dev_desc1 = no_mkI,
     dev_desc2 = \<lparr>
       desc_cmd2 = CMND_SET_DEVICE_DESCRIPTOR,
       ucReadIO = [0xFB, 0xF9, 0xFD, 0xFF, 0x7F, 0xFF, 0xFF, 0xFF],
       ucReadIOShadow = [0x00, 0x00, 0x00, 0x00, 0x00, 0x00, 0x00, 0x00],
       ucWriteIO = [0x8B, 0xB0, 0xFC, 0xFF, 0x7D, 0xFF, 0xFD, 0xFA],
       ucWriteIOShadow = [0x00, 0x00, 0x00, 0x00, 0x00, 0x00, 0x00, 0x00],
       ucReadExtIO = arr 52 [0x00, 0x00, 0x00, 0x00, 0x00, 0x00, 0x00, 0x00, 0x00, 0x00, 0x00,
       0x00, 0x00, 0x00, 0x00, 0x00, 0x00, 0x00, 0x00, 0x00],
       ucReadIOExtShadow = arr 52 [0x00, 0x00, 0x00, 0x00, 0x00, 0x00, 0x00, 0x00, 0x00, 0x00,
       0x00, 0x00, 0x00, 0x00, 0x00, 0x00, 0x00, 0x00, 0x00, 0x00],
       ucWriteExtIO = arr 52 [0x00, 0x00, 0x00, 0x00, 0x00, 0x00, 0x00, 0x00, 0x00, 0x00, 0x00,
       0x00, 0x00, 0x00, 0x00, 0x00, 0x00, 0x00, 0x00, 0x00],
       ucWriteIOExtShadow = arr 52 [0x00, 0x00, 0x00, 0x00, 0x00, 0x00, 0x00, 0x00, 0x00, 0x00,
       0x00, 0x00, 0x00, 0x00, 0x00, 0x00, 0x00, 0x00, 0x00, 0x00], ucIDRAddress = 0x00,
       ucSPMCRAddress = 0x00, ucRAMPZAddress = 0, uiFlashPageSize = fill_b2 (32),
       ucEepromPageSize = 4, ulBootAddress = fill_b4 (0x0000), uiUpperExtIOLoc = fill_b2 (0x00),
       ulFlashSize = fill_b4 (2048),
       ucEepromInst = [0xBB, 0xFF, 0xBB, 0xEE, 0xBB, 0xCC, 0xB2, 0x0D, 0xBC, 0x07, 0xB4, 0x07,
       0xBA, 0x0D, 0xBB, 0xBC, 0x99, 0xE1, 0xBB, 0xAC], ucFlashInst = [0xB4, 0x07, 0x17],
       ucSPHaddr = 0x3E, ucSPLaddr = 0x3D, uiFlashpages = fill_b2 (2048 div 32),
       ucDWDRAddress = 0x27, ucDWBasePC = 0x00, ucAllowFullPageBitstream = 0x00,
       uiStartSmallestBootLoaderSection = fill_b2 (0x00), EnablePageProgramming = 1,
       ucCacheType = 0, uiSramStartAddr = fill_b2 (0x60), ucResetType = 0, ucPCMaskExtended = 0,
       ucPCMaskHigh = 0, ucEindAddress = 0, EECRAddress = fill_b2 (0x1C)\<rparr>\<rparr>"

definition dev_attiny44 :: jtag_device_def where
  "dev_attiny44 = \<lparr>
     dev_name = Some ''attiny44'', device_id = 0x9207,
     flash_page_size = 64, flash_page_count = 64,
     eeprom_page_size = 4, eeprom_page_count = 64,
     vectors_end = 17 * 2, device_flags = DEVFL_MKII_ONLY,
     io_reg_defs = None, dev_is_xmega = False,
     dev_desc1 = no_mkI,
     dev_desc2 = \<lparr>
       desc_cmd2 = CMND_SET_DEVICE_DESCRIPTOR,
       ucReadIO = [0xFB, 0xF9, 0xFD, 0xFF, 0x7F, 0xFF, 0xFF, 0xFF],
       ucReadIOShadow = [0x00, 0x00, 0x00, 0x00, 0x00, 0x00, 0x00, 0x00],
       ucWriteIO = [0x8B, 0xB0, 0xFC, 0xFF, 0x7D, 0xFF, 0xFD, 0xFA],
       ucWriteIOShadow = [0x00, 0x00, 0x00, 0x00, 0x00, 0x00, 0x00, 0x00],
       ucReadExtIO = arr 52 [0x00, 0x00, 0x00, 0x00, 0x00, 0x00, 0x00, 0x00, 0x00, 0x00, 0x00,
       0x00, 0x00, 0x00, 0x00, 0x00, 0x00, 0x00, 0x00, 0x00],
       ucReadIOExtShadow = arr 52 [0x00, 0x00, 0x00, 0x00, 0x00, 0x00, 0x00, 0x00, 0x00, 0x00,
       0x00, 0x00, 0x00, 0x00, 0x00, 0x00, 0x00, 0x00, 0x00, 0x00],
       ucWriteExtIO = arr 52 [0x00, 0x00, 0x00, 0x00, 0x00, 0x00, 0x00, 0x00, 0x00, 0x00, 0x00,
       0x00, 0x00, 0x00, 0x00, 0x00, 0x00, 0x00, 0x00, 0x00],
       ucWriteIOExtShadow = arr 52 [0x00, 0x00, 0x00, 0x00, 0x00, 0x00, 0x00, 0x00, 0x00, 0x00,
       0x00, 0x00, 0x00, 0x00, 0x00, 0x00, 0x00, 0x00, 0x00, 0x00], ucIDRAddress = 0x00,
       ucSPMCRAddress = 0x00, ucRAMPZAddress = 0, uiFlashPageSize = fill_b2 (64),
       ucEepromPageSize = 4, ulBootAddress = fill_b4 (0x0000), uiUpperExtIOLoc = fill_b2 (0x00),
       ulFlashSize = fill_b4 (4096),
       ucEepromInst = [0xBB, 0xFF, 0xBB, 0xEE, 0xBB, 0xCC, 0xB2, 0x0D, 0xBC, 0x07, 0xB4, 0x07,
       0xBA, 0x0D, 0xBB, 0xBC, 0x99, 0xE1, 0xBB, 0xAC], ucFlashInst = [0xB4, 0x07, 0x17],
       ucSPHaddr = 0x3E, ucSPLaddr = 0x3D, uiFlashpages = fill_b2 (4096 div 64),
       ucDWDRAddress = 0x27, ucDWBasePC = 0x00, ucAllowFullPageBitstream = 0x00,
       uiStartSmallestBootLoaderSection = fill_b2 (0x00), EnablePageProgramming = 1,
       ucCacheType = 0, uiSramStartAddr = fill_b2 (0x60), ucResetType = 0, ucPCMaskExtended = 0,
       ucPCMaskHigh = 0, ucEindAddress = 0, EECRAddress = fill_b2 (0x1C)\<rparr>\<rparr>"

definition dev_attiny84 :: jtag_device_def where
  "dev_attiny84 = \<lparr>
     dev_name = Some ''attiny84'', device_id = 0x930C,
     flash_page_size = 64, flash_page_count = 128,
     eeprom_page_size = 4, eeprom_page_count = 128,
     vectors_end = 17 * 2, device_flags = DEVFL_MKII_ONLY,
     io_reg_defs = None, dev_is_xmega = False,
     dev_desc1 = no_mkI,
     dev_desc2 = \<lparr>
       desc_cmd2 = CMND_SET_DEVICE_DESCRIPTOR,
       ucReadIO = [0xFB, 0xF9, 0xFD, 0xFF, 0x7F, 0xFF, 0xFF, 0xFF],
       ucReadIOShadow = [0x00, 0x00, 0x00, 0x00, 0x00, 0x00, 0x00, 0x00],
       ucWriteIO = [0x8B, 0xB0, 0xFC, 0xFF, 0x7D, 0xFF, 0xFD, 0xFA],
       ucWriteIOShadow = [0x00, 0x00, 0x00, 0x00, 0x00, 0x00, 0x00, 0x00],
       ucReadExtIO = arr 52 [0x00, 0x00, 0x00, 0x00, 0x00, 0x00, 0x00, 0x00, 0x00, 0x00, 0x00,
       0x00, 0x00, 0x00, 0x00, 0x00, 0x00, 0x00, 0x00, 0x00],
       ucReadIOExtShadow = arr 52 [0x00, 0x00, 0x00, 0x00, 0x00, 0x00, 0x00, 0x00, 0x00, 0x00,
       0x00, 0x00, 0x00, 0x00, 0x00, 0x00, 0x00, 0x00, 0x00, 0x00],
       ucWriteExtIO = arr 52 [0x00, 0x00, 0x00, 0x00, 0x00, 0x00, 0x00, 0x00, 0x00, 0x00, 0x00,
       0x00, 0x00, 0x00, 0x00, 0x00, 0x00, 0x00, 0x00, 0x00],
       ucWriteIOExtShadow = arr 52 [0x00, 0x00, 0x00, 0x00, 0x00, 0x00, 0x00, 0x00, 0x00, 0x00,
       0x00, 0x00, 0x00, 0x00, 0x00, 0x00, 0x00, 0x00, 0x00, 0x00], ucIDRAddress = 0x00,
       ucSPMCRAddress = 0x00, ucRAMPZAddress = 0, uiFlashPageSize = fill_b2 (64),
       ucEepromPageSize = 4, ulBootAddress = fill_b4 (0x0000), uiUpperExtIOLoc = fill_b2 (0x00),
       ulFlashSize = fill_b4 (8192),
       ucEepromInst = [0xBB, 0xFF, 0xBB, 0xEE, 0xBB, 0xCC, 0xB2, 0x0D, 0xBC, 0x07, 0xB4, 0x07,
       0xBA, 0x0D, 0xBB, 0xBC, 0x99, 0xE1, 0xBB, 0xAC], ucFlashInst = [0xB4, 0x07, 0x17],
       ucSPHaddr = 0x3E, ucSPLaddr = 0x3D, uiFlashpages = fill_b2 (8192 div 64),
       ucDWDRAddress = 0x27, ucDWBasePC = 0x00, ucAllowFullPageBitstream = 0x00,
       uiStartSmallestBootLoaderSection = fill_b2 (0x00), EnablePageProgramming = 1,
       ucCacheType = 0, uiSramStartAddr = fill_b2 (0x60), ucResetType = 0, ucPCMaskExtended = 0,
       ucPCMaskHigh = 0, ucEindAddress = 0, EECRAddress = fill_b2 (0x1C)\<rparr>\<rparr>"

definition dev_attiny25 :: jtag_device_def where
  "dev_attiny25 = \<lparr>
     dev_name = Some ''attiny25'', device_id = 0x9108,
     flash_page_size = 32, flash_page_count = 64,
     eeprom_page_size = 4, eeprom_page_count = 32,
     vectors_end = 15 * 2, device_flags = DEVFL_MKII_ONLY,
     io_reg_defs = None, dev_is_xmega = False,
     dev_desc1 = no_mkI,
     dev_desc2 = \<lparr>
       desc_cmd2 = CMND_SET_DEVICE_DESCRIPTOR,
       ucReadIO = [0xF8, 0xE1, 0xFF, 0xF1, 0xFB, 0xFF, 0xBF, 0xAF],
       ucReadIOShadow = [0x00, 0x00, 0x00, 0x00, 0x00, 0x00, 0x00, 0x00],
       ucWriteIO = [0xC8, 0xE1, 0xFF, 0x71, 0xBB, 0x7F, 0xAD, 0xAB],
       ucWriteIOShadow = [0x00, 0x00, 0x00, 0x00, 0x00, 0x00, 0x00, 0x00],
       ucReadExtIO = arr 52 [0x00, 0x00, 0x00, 0x00, 0x00, 0x00, 0x00, 0x00, 0x00, 0x00, 0x00,
       0x00, 0x00, 0x00, 0x00, 0x00, 0x00, 0x00, 0x00, 0x00],
       ucReadIOExtShadow = arr 52 [0x00, 0x00, 0x00, 0x00, 0x00, 0x00, 0x00, 0x00, 0x00, 0x00,
       0x00, 0x00, 0x00, 0x00, 0x00, 0x00, 0x00, 0x00, 0x00, 0x00],
       ucWriteExtIO = arr 52 [0x00, 0x00, 0x00, 0x00, 0x00, 0x00, 0x00, 0x00, 0x00, 0x00, 0x00,
       0x00, 0x00, 0x00, 0x00, 0x00, 0x00, 0x00, 0x00, 0x00],
       ucWriteIOExtShadow = arr 52 [0x00, 0x00, 0x00, 0x00, 0x00, 0x00, 0x00, 0x00, 0x00, 0x00,
       0x00, 0x00, 0x00, 0x00, 0x00, 0x00, 0x00, 0x00, 0x00, 0x00], ucIDRAddress = 0x00,
       ucSPMCRAddress = 0x00, ucRAMPZAddress = 0, uiFlashPageSize = fill_b2 (32),
       ucEepromPageSize = 4, ulBootAddress = fill_b4 (0x0000), uiUpperExtIOLoc = fill_b2 (0x00),
       ulFlashSize = fill_b4 (2048),
       ucEepromInst = [0xBB, 0xFF, 0xBB, 0xEE, 0xBB, 0xCC, 0xB2, 0x0D, 0xBC, 0x02, 0xB4, 0x02,
       0xBA, 0x0D, 0xBB, 0xBC, 0x99, 0xE1, 0xBB, 0xAC], ucFlashInst = [0xB4, 0x02, 0x12],
       ucSPHaddr = 0x3E, ucSPLaddr = 0x3D, uiFlashpages = fill_b2 (2048 div 32),
       ucDWDRAddress = 0x22, ucDWBasePC = 0x00, ucAllowFullPageBitstream = 0x00,
       uiStartSmallestBootLoaderSection = fill_b2 (0x00), EnablePageProgramming = 1,
       ucCacheType = 0, uiSramStartAddr = fill_b2 (0x60), ucResetType = 0, ucPCMaskExtended = 0,
       ucPCMaskHigh = 0, ucEindAddress = 0, EECRAddress = fill_b2 (0x1C)\<rparr>\<rparr>"

definition dev_attiny45 :: jtag_device_def where
  "dev_attiny45 = \<lparr>
     dev_name = Some ''attiny45'', device_id = 0x9206,
     flash_page_size = 64, flash_page_count = 64,
     eeprom_page_size = 4, eeprom_page_count = 64,
     vectors_end = 15 * 2, device_flags = DEVFL_MKII_ONLY,
     io_reg_defs = None, dev_is_xmega = False,
     dev_desc1 = no_mkI,
     dev_desc2 = \<lparr>
       desc_cmd2 = CMND_SET_DEVICE_DESCRIPTOR,
       ucReadIO = [0xF8, 0xE1, 0xFF, 0xF1, 0xFB, 0xFF, 0xBF, 0xEF],
       ucReadIOShadow = [0x00, 0x00, 0x00, 0x00, 0x00, 0x00, 0x00, 0x00],
       ucWriteIO = [0xC8, 0xE1, 0xFF, 0x71, 0xBB, 0x7F, 0xAD, 0xEB],
       ucWriteIOShadow = [0x00, 0x00, 0x00, 0x00, 0x00, 0x00, 0x00, 0x00],
       ucReadExtIO = arr 52 [0x00, 0x00, 0x00, 0x00, 0x00, 0x00, 0x00, 0x00, 0x00, 0x00, 0x00,
       0x00, 0x00, 0x00, 0x00, 0x00, 0x00, 0x00, 0x00, 0x00],
       ucReadIOExtShadow = arr 52 [0x00, 0x00, 0x00, 0x00, 0x00, 0x00, 0x00, 0x00, 0x00, 0x00,
       0x00, 0x00, 0x00, 0x00, 0x00, 0x00, 0x00, 0x00, 0x00, 0x00],
       ucWriteExtIO = arr 52 [0x00, 0x00, 0x00, 0x00, 0x00, 0x00, 0x00, 0x00, 0x00, 0x00, 0x00,
       0x00, 0x00, 0x00, 0x00, 0x00, 0x00, 0x00, 0x00, 0x00],
       ucWriteIOExtShadow = arr 52 [0x00, 0x00, 0x00, 0x00, 0x00, 0x00, 0x00, 0x00, 0x00, 0x00,
       0x00, 0x00, 0x00, 0x00, 0x00, 0x00, 0x00, 0x00, 0x00, 0x00], ucIDRAddress = 0x00,
       ucSPMCRAddress = 0x00, ucRAMPZAddress = 0, uiFlashPageSize = fill_b2 (64),
       ucEepromPageSize = 4, ulBootAddress = fill_b4 (0x0000), uiUpperExtIOLoc = fill_b2 (0x00),
       ulFlashSize = fill_b4 (4096),
       ucEepromInst = [0xBB, 0xFF, 0xBB, 0xEE, 0xBB, 0xCC, 0xB2, 0x0D, 0xBC, 0x02, 0xB4, 0x02,
       0xBA, 0x0D, 0xBB, 0xBC, 0x99, 0xE1, 0xBB, 0xAC], ucFlashInst = [0xB4, 0x02, 0x12],
       ucSPHaddr = 0x3E, ucSPLaddr = 0x3D, uiFlashpages = fill_b2 (4096 div 64),
       ucDWDRAddress = 0x22, ucDWBasePC = 0x00, ucAllowFullPageBitstream = 0x00,
       uiStartSmallestBootLoaderSection = fill_b2 (0x00), EnablePageProgramming = 1,
       ucCacheType = 0, uiSramStartAddr = fill_b2 (0x60), ucResetType = 0, ucPCMaskExtended = 0,
       ucPCMaskHigh = 0, ucEindAddress = 0, EECRAddress = fill_b2 (0x1C)\<rparr>\<rparr>"

definition dev_attiny85 :: jtag_device_def where
  "dev_attiny85 = \<lparr>
     dev_name = Some ''attiny85'', device_id = 0x930B,
     flash_page_size = 64, flash_page_count = 128,
     eeprom_page_size = 4, eeprom_page_count = 128,
     vectors_end = 15 * 2, device_flags = DEVFL_MKII_ONLY,
     io_reg_defs = None, dev_is_xmega = False,
     dev_desc1 = no_mkI,
     dev_desc2 = \<lparr>
       desc_cmd2 = CMND_SET_DEVICE_DESCRIPTOR,
       ucReadIO = [0xF8, 0xE1, 0xFF, 0xF1, 0xFB, 0xFF, 0xBF, 0xEF],
       ucReadIOShadow = [0x00, 0x00, 0x00, 0x00, 0x00, 0x00, 0x00, 0x00],
       ucWriteIO = [0xC8, 0xE1, 0xFF, 0x71, 0xBB, 0x7F, 0xAD, 0xEB],
       ucWriteIOShadow = [0x00, 0x00, 0x00, 0x00, 0x00, 0x00, 0x00, 0x00],
       ucReadExtIO = arr 52 [0x00, 0x00, 0x00, 0x00, 0x00, 0x00, 0x00, 0x00, 0x00, 0x00, 0x00,
       0x00, 0x00, 0x00, 0x00, 0x00, 0x00, 0x00, 0x00, 0x00],
       ucReadIOExtShadow = arr 52 [0x00, 0x00, 0x00, 0x00, 0x00, 0x00, 0x00, 0x00, 0x00, 0x00,
       0x00, 0x00, 0x00, 0x00, 0x00, 0x00, 0x00, 0x00, 0x00, 0x00],
       ucWriteExtIO = arr 52 [0x00, 0x00, 0x00, 0x00, 0x00, 0x00, 0x00, 0x00, 0x00, 0x00, 0x00,
       0x00, 0x00, 0x00, 0x00, 0x00, 0x00, 0x00, 0x00, 0x00],
       ucWriteIOExtShadow = arr 52 [0x00, 0x00, 0x00, 0x00, 0x00, 0x00, 0x00, 0x00, 0x00, 0x00,
       0x00, 0x00, 0x00, 0x00, 0x00, 0x00, 0x00, 0x00, 0x00, 0x00], ucIDRAddress = 0x00,
       ucSPMCRAddress = 0x00, ucRAMPZAddress = 0, uiFlashPageSize = fill_b2 (64),
       ucEepromPageSize = 4, ulBootAddress = fill_b4 (0x0000), uiUpperExtIOLoc = fill_b2 (0x00),
       ulFlashSize = fill_b4 (8192),
       ucEepromInst = [0xBB, 0xFF, 0xBB, 0xEE, 0xBB, 0xCC, 0xB2, 0x0D, 0xBC, 0x02, 0xB4, 0x02,
       0xBA, 0x0D, 0xBB, 0xBC, 0x99, 0xE1, 0xBB, 0xAC], ucFlashInst = [0xB4, 0x02, 0x12],
       ucSPHaddr = 0x3E, ucSPLaddr = 0x3D, uiFlashpages = fill_b2 (8192 div 64),
       ucDWDRAddress = 0x22, ucDWBasePC = 0x00, ucAllowFullPageBitstream = 0x00,
       uiStartSmallestBootLoaderSection = fill_b2 (0x00), EnablePageProgramming = 1,
       ucCacheType = 0, uiSramStartAddr = fill_b2 (0x60), ucResetType = 0, ucPCMaskExtended = 0,
       ucPCMaskHigh = 0, ucEindAddress = 0, EECRAddress = fill_b2 (0x1C)\<rparr>\<rparr>"

definition dev_attiny261 :: jtag_device_def where
  "dev_attiny261 = \<lparr>
     dev_name = Some ''attiny261'', device_id = 0x910C,
     flash_page_size = 32, flash_page_count = 64,
     eeprom_page_size = 4, eeprom_page_count = 32,
     vectors_end = 19 * 2, device_flags = DEVFL_MKII_ONLY,
     io_reg_defs = None, dev_is_xmega = False,
     dev_desc1 = no_mkI,
     dev_desc2 = \<lparr>
       desc_cmd2 = CMND_SET_DEVICE_DESCRIPTOR,
       ucReadIO = [0xFF, 0xFF, 0xFF, 0xFF, 0xFE, 0xFB, 0xFF, 0xEF],
       ucReadIOShadow = [0x00, 0x00, 0x00, 0x00, 0x00, 0x00, 0x00, 0x00],
       ucWriteIO = [0x8F, 0xBF, 0xBE, 0xFD, 0xFC, 0xBA, 0xFD, 0xEA],
       ucWriteIOShadow = [0x00, 0x00, 0x00, 0x00, 0x00, 0x00, 0x00, 0x00],
       ucReadExtIO = arr 52 [0x00, 0x00, 0x00, 0x00, 0x00, 0x00, 0x00, 0x00, 0x00, 0x00, 0x00,
       0x00, 0x00, 0x00, 0x00, 0x00, 0x00, 0x00, 0x00, 0x00],
       ucReadIOExtShadow = arr 52 [0x00, 0x00, 0x00, 0x00, 0x00, 0x00, 0x00, 0x00, 0x00, 0x00,
       0x00, 0x00, 0x00, 0x00, 0x00, 0x00, 0x00, 0x00, 0x00, 0x00],
       ucWriteExtIO = arr 52 [0x00, 0x00, 0x00, 0x00, 0x00, 0x00, 0x00, 0x00, 0x00, 0x00, 0x00,
       0x00, 0x00, 0x00, 0x00, 0x00, 0x00, 0x00, 0x00, 0x00],
       ucWriteIOExtShadow = arr 52 [0x00, 0x00, 0x00, 0x00, 0x00, 0x00, 0x00, 0x00, 0x00, 0x00,
       0x00, 0x00, 0x00, 0x00, 0x00, 0x00, 0x00, 0x00, 0x00, 0x00], ucIDRAddress = 0x00,
       ucSPMCRAddress = 0x57, ucRAMPZAddress = 0, uiFlashPageSize = fill_b2 (32),
       ucEepromPageSize = 4, ulBootAddress = fill_b4 (0), uiUpperExtIOLoc = fill_b2 (0x0000),
       ulFlashSize = fill_b4 (2048),
       ucEepromInst = [0xBB, 0xFF, 0xBB, 0xEE, 0xBB, 0xCC, 0xB2, 0x0D, 0xBC, 0x00, 0xB4, 0x00,
       0xBA, 0x0D, 0xBB, 0xBC, 0x99, 0xE1, 0xBB, 0xAC], ucFlashInst = [0xB4, 0x00, 0x10],
       ucSPHaddr = 0x3E, ucSPLaddr = 0x3D, uiFlashpages = fill_b2 (2048 div 32),
       ucDWDRAddress = 0x20, ucDWBasePC = 0x00, ucAllowFullPageBitstream = 0x00,
       uiStartSmallestBootLoaderSection = fill_b2 (0x00), EnablePageProgramming = 1,
       ucCacheType = 0, uiSramStartAddr = fill_b2 (0x60), ucResetType = 0, ucPCMaskExtended = 0,
       ucPCMaskHigh = 0, ucEindAddress = 0, EECRAddress = fill_b2 (0x1C)\<rparr>\<rparr>"

definition dev_attiny461 :: jtag_device_def where
  "dev_attiny461 = \<lparr>
     dev_name = Some ''attiny461'', device_id = 0x9208,
     flash_page_size = 64, flash_page_count = 64,
     eeprom_page_size = 4, eeprom_page_count = 64,
     vectors_end = 19 * 2, device_flags = DEVFL_MKII_ONLY,
     io_reg_defs = None, dev_is_xmega = False,
     dev_desc1 = no_mkI,
     dev_desc2 = \<lparr>
       desc_cmd2 = CMND_SET_DEVICE_DESCRIPTOR,
       ucReadIO = [0xFF, 0xFF, 0xFF, 0xFF, 0xFE, 0xFB, 0xFF, 0xEF],
       ucReadIOShadow = [0x00, 0x00, 0x00, 0x00, 0x00, 0x00, 0x00, 0x00],
       ucWriteIO = [0x8F, 0xBF, 0xBE, 0xFD, 0xFC, 0xBA, 0xFD, 0xEA],
       ucWriteIOShadow = [0x00, 0x00, 0x00, 0x00, 0x00, 0x00, 0x00, 0x00],
       ucReadExtIO = arr 52 [0x00, 0x00, 0x00, 0x00, 0x00, 0x00, 0x00, 0x00, 0x00, 0x00, 0x00,
       0x00, 0x00, 0x00, 0x00, 0x00, 0x00, 0x00, 0x00, 0x00],
       ucReadIOExtShadow = arr 52 [0x00, 0x00, 0x00, 0x00, 0x00, 0x00, 0x00, 0x00, 0x00, 0x00,
       0x00, 0x00, 0x00, 0x00, 0x00, 0x00, 0x00, 0x00, 0x00, 0x00],
       ucWriteExtIO = arr 52 [0x00, 0x00, 0x00, 0x00, 0x00, 0x00, 0x00, 0x00, 0x00, 0x00, 0x00,
       0x00, 0x00, 0x00, 0x00, 0x00, 0x00, 0x00, 0x00, 0x00],
       ucWriteIOExtShadow = arr 52 [0x00, 0x00, 0x00, 0x00, 0x00, 0x00, 0x00, 0x00, 0x00, 0x00,
       0x00, 0x00, 0x00, 0x00, 0x00, 0x00, 0x00, 0x00, 0x00, 0x00], ucIDRAddress = 0x00,
       ucSPMCRAddress = 0x57, ucRAMPZAddress = 0, uiFlashPageSize = fill_b2 (64),
       ucEepromPageSize = 4, ulBootAddress = fill_b4 (0), uiUpperExtIOLoc = fill_b2 (0x0000),
       ulFlashSize = fill_b4 (4096),
       ucEepromInst = [0xBB, 0xFF, 0xBB, 0xEE, 0xBB, 0xCC, 0xB2, 0x0D, 0xBC, 0x00, 0xB4, 0x00,
       0xBA, 0x0D, 0xBB, 0xBC, 0x99, 0xE1, 0xBB, 0xAC], ucFlashInst = [0xB4, 0x00, 0x10],
       ucSPHaddr = 0x3E, ucSPLaddr = 0x3D, uiFlashpages = fill_b2 (4096 div 64),
       ucDWDRAddress = 0x20, ucDWBasePC = 0x00, ucAllowFullPageBitstream = 0x00,
       uiStartSmallestBootLoaderSection = fill_b2 (0x00), EnablePageProgramming = 1,
       ucCacheType = 0, uiSramStartAddr = fill_b2 (0x60), ucResetType = 0, ucPCMaskExtended = 0,
       ucPCMaskHigh = 0, ucEindAddress = 0, EECRAddress = fill_b2 (0x1C)\<rparr>\<rparr>"

definition dev_attiny861 :: jtag_device_def where
  "dev_attiny861 = \<lparr>
     dev_name = Some ''attiny861'', device_id = 0x930D,
     flash_page_size = 64, flash_page_count = 128,
     eeprom_page_size = 4, eeprom_page_count = 128,
     vectors_end = 19 * 2, device_flags = DEVFL_MKII_ONLY,
     io_reg_defs = None, dev_is_xmega = False,
     dev_desc1 = no_mkI,
     dev_desc2 = \<lparr>
       desc_cmd2 = CMND_SET_DEVICE_DESCRIPTOR,
       ucReadIO = [0xFF, 0xFF, 0xFF, 0xFF, 0xFE, 0xFB, 0xFF, 0xEF],
       ucReadIOShadow = [0x00, 0x00, 0x00, 0x00, 0x00, 0x00, 0x00, 0x00],
       ucWriteIO = [0x8F, 0xBF, 0xBE, 0xFD, 0xFC, 0xBA, 0xFD, 0xEA],
       ucWriteIOShadow = [0x00, 0x00, 0x00, 0x00, 0x00, 0x00, 0x00, 0x00],
       ucReadExtIO = arr 52 [0x00, 0x00, 0x00, 0x00, 0x00, 0x00, 0x00, 0x00, 0x00, 0x00, 0x00,
       0x00, 0x00, 0x00, 0x00, 0x00, 0x00, 0x00, 0x00, 0x00],
       ucReadIOExtShadow = arr 52 [0x00, 0x00, 0x00, 0x00, 0x00, 0x00, 0x00, 0x00, 0x00, 0x00,
       0x00, 0x00, 0x00, 0x00, 0x00, 0x00, 0x00, 0x00, 0x00, 0x00],
       ucWriteExtIO = arr 52 [0x00, 0x00, 0x00, 0x00, 0x00, 0x00, 0x00, 0x00, 0x00, 0x00, 0x00,
       0x00, 0x00, 0x00, 0x00, 0x00, 0x00, 0x00, 0x00, 0x00],
       ucWriteIOExtShadow = arr 52 [0x00, 0x00, 0x00, 0x00, 0x00, 0x00, 0x00, 0x00, 0x00, 0x00,
       0x00, 0x00, 0x00, 0x00, 0x00, 0x00, 0x00, 0x00, 0x00, 0x00], ucIDRAddress = 0x00,
       ucSPMCRAddress = 0x57, ucRAMPZAddress = 0, uiFlashPageSize = fill_b2 (64),
       ucEepromPageSize = 4, ulBootAddress = fill_b4 (0), uiUpperExtIOLoc = fill_b2 (0x0000),
       ulFlashSize = fill_b4 (8192),
       ucEepromInst = [0xBB, 0xFF, 0xBB, 0xEE, 0xBB, 0xCC, 0xB2, 0x0D, 0xBC, 0x00, 0xB4, 0x00,
       0xBA, 0x0D, 0xBB, 0xBC, 0x99, 0xE1, 0xBB, 0xAC], ucFlashInst = [0xB4, 0x00, 0x10],
       ucSPHaddr = 0x3E, ucSPLaddr = 0x3D, uiFlashpages = fill_b2 (8192 div 64),
       ucDWDRAddress = 0x20, ucDWBasePC = 0x00, ucAllowFullPageBitstream = 0x00,
       uiStartSmallestBootLoaderSection = fill_b2 (0x00), EnablePageProgramming = 1,
       ucCacheType = 0, uiSramStartAddr = fill_b2 (0x60), ucResetType = 0, ucPCMaskExtended = 0,
       ucPCMaskHigh = 0, ucEindAddress = 0, EECRAddress = fill_b2 (0x1C)\<rparr>\<rparr>"

definition dev_atmega32c1 :: jtag_device_def where
  "dev_atmega32c1 = \<lparr>
     dev_name = Some ''atmega32c1'', device_id = 0x9586,
     flash_page_size = 128, flash_page_count = 256,
     eeprom_page_size = 4, eeprom_page_count = 256,
     vectors_end = 31 * 4, device_flags = DEVFL_MKII_ONLY,
     io_reg_defs = None, dev_is_xmega = False,
     dev_desc1 = no_mkI,
     dev_desc2 = \<lparr>
       desc_cmd2 = CMND_SET_DEVICE_DESCRIPTOR,
       ucReadIO = [0xF8, 0x7F, 0x60, 0xF6, 0xFF, 0x33, 0xB9, 0xE0],
       ucReadIOShadow = [0x00, 0x00, 0x00, 0x00, 0x00, 0x00, 0x00, 0x00],
       ucWriteIO = [0xB0, 0x6D, 0x00, 0xE6, 0xFF, 0x13, 0xB8, 0xE0],
       ucWriteIOShadow = [0x00, 0x00, 0x00, 0x00, 0x00, 0x00, 0x00, 0x00],
       ucReadExtIO = arr 52 [0x53, 0xC2, 0xE0, 0xDF, 0xF7, 0x0F, 0xF7, 0x00, 0xFF, 0xFF, 0xFF,
       0x1F, 0x00, 0xFF, 0x07, 0x5F, 0x1D, 0xF0, 0xFF],
       ucReadIOExtShadow = arr 52 [0x00, 0x00, 0x00, 0x00, 0x00, 0x00, 0x00, 0x00, 0x00, 0x00,
       0x00, 0x00, 0x00, 0x00, 0x00, 0x00, 0x00, 0x00, 0x00, 0x00],
       ucWriteExtIO = arr 52 [0x10, 0xC2, 0xE0, 0xD8, 0xF7, 0x0F, 0xF7, 0x00, 0xFF, 0xFF, 0xFF,
       0x1F, 0x00, 0xF7, 0x07, 0x4D, 0x1C, 0xF0, 0xFF],
       ucWriteIOExtShadow = arr 52 [0x00, 0x00, 0x00, 0x00, 0x00, 0x00, 0x00, 0x00, 0x00, 0x00,
       0x00, 0x00, 0x00, 0x00, 0x00, 0x00, 0x00, 0x00, 0x00, 0x00], ucIDRAddress = 0x00,
       ucSPMCRAddress = 0x57, ucRAMPZAddress = 0, uiFlashPageSize = fill_b2 (128),
       ucEepromPageSize = 4, ulBootAddress = fill_b4 (0x3F00),
       uiUpperExtIOLoc = fill_b2 (0x00FA), ulFlashSize = fill_b4 (32768),
       ucEepromInst = [0xBD, 0xF2, 0xBD, 0xE1, 0xBB, 0xCF, 0xB4, 0x00, 0xBE, 0x01, 0xB6, 0x01,
       0xBC, 0x00, 0xBB, 0xBF, 0x99, 0xF9, 0xBB, 0xAF], ucFlashInst = [0xB6, 0x01, 0x11],
       ucSPHaddr = 0x3E, ucSPLaddr = 0x3D, uiFlashpages = fill_b2 (32768 div 128),
       ucDWDRAddress = 0x31, ucDWBasePC = 0x00, ucAllowFullPageBitstream = 0x00,
       uiStartSmallestBootLoaderSection = fill_b2 (0x3F00), EnablePageProgramming = 1,
       ucCacheType = 0, uiSramStartAddr = fill_b2 (0x0100), ucResetType = 0,
       ucPCMaskExtended = 0, ucPCMaskHigh = 0, ucEindAddress = 0, EECRAddress = fill_b2 (0x1F)\<rparr>\<rparr>"

definition dev_atmega32m1 :: jtag_device_def where
  "dev_atmega32m1 = \<lparr>
     dev_name = Some ''atmega32m1'', device_id = 0x9584,
     flash_page_size = 128, flash_page_count = 256,
     eeprom_page_size = 4, eeprom_page_count = 256,
     vectors_end = 31 * 4, device_flags = DEVFL_MKII_ONLY,
     io_reg_defs = None, dev_is_xmega = False,
     dev_desc1 = no_mkI,
     dev_desc2 = \<lparr>
       desc_cmd2 = CMND_SET_DEVICE_DESCRIPTOR,
       ucReadIO = [0xF8, 0x7F, 0x60, 0xF6, 0xFF, 0x33, 0xB9, 0xE0],
       ucReadIOShadow = [0x00, 0x00, 0x00, 0x00, 0x00, 0x00, 0x00, 0x00],
       ucWriteIO = [0xB0, 0x6D, 0x00, 0xE6, 0xFF, 0x13, 0xB8, 0xE0],
       ucWriteIOShadow = [0x00, 0x00, 0x00, 0x00, 0x00, 0x00, 0x00, 0x00],
       ucReadExtIO = arr 52 [0x53, 0xC2, 0xE0, 0xDF, 0xF7, 0x0F, 0xF7, 0x00, 0xFF, 0xFF, 0xFF,
       0x1F, 0x00, 0xFF, 0x07, 0x5F, 0x1D, 0xF0, 0xFF],
       ucReadIOExtShadow = arr 52 [0x00, 0x00, 0x00, 0x00, 0x00, 0x00, 0x00, 0x00, 0x00, 0x00,
       0x00, 0x00, 0x00, 0x00, 0x00, 0x00, 0x00, 0x00, 0x00, 0x00],
       ucWriteExtIO = arr 52 [0x10, 0xC2, 0xE0, 0xD8, 0xF7, 0x0F, 0xF7, 0x00, 0xFF, 0xFF, 0xFF,
       0x1F, 0x00, 0xF7, 0x07, 0x4D, 0x1C, 0xF0, 0xFF],
       ucWriteIOExtShadow = arr 52 [0x00, 0x00, 0x00, 0x00, 0x00, 0x00, 0x00, 0x00, 0x00, 0x00,
       0x00, 0x00, 0x00, 0x00, 0x00, 0x00, 0x00, 0x00, 0x00, 0x00], ucIDRAddress = 0x00,
       ucSPMCRAddress = 0x57, ucRAMPZAddress = 0, uiFlashPageSize = fill_b2 (128),
       ucEepromPageSize = 4, ulBootAddress = fill_b4 (0x3F00),
       uiUpperExtIOLoc = fill_b2 (0x00FA), ulFlashSize = fill_b4 (32768),
       ucEepromInst = [0xBD, 0xF2, 0xBD, 0xE1, 0xBB, 0xCF, 0xB4, 0x00, 0xBE, 0x01, 0xB6, 0x01,
       0xBC, 0x00, 0xBB, 0xBF, 0x99, 0xF9, 0xBB, 0xAF], ucFlashInst = [0xB6, 0x01, 0x11],
       ucSPHaddr = 0x3E, ucSPLaddr = 0x3D, uiFlashpages = fill_b2 (32768 div 128),
       ucDWDRAddress = 0x31, ucDWBasePC = 0x00, ucAllowFullPageBitstream = 0x00,
       uiStartSmallestBootLoaderSection = fill_b2 (0x3F00), EnablePageProgramming = 1,
       ucCacheType = 0, uiSramStartAddr = fill_b2 (0x0100), ucResetType = 0,
       ucPCMaskExtended = 0, ucPCMaskHigh = 0, ucEindAddress = 0, EECRAddress = fill_b2 (0x1F)\<rparr>\<rparr>"

definition dev_at90can32 :: jtag_device_def where
  "dev_at90can32 = \<lparr>
     dev_name = Some ''at90can32'', device_id = 0x9581,
     flash_page_size = 256, flash_page_count = 128,
     eeprom_page_size = 8, eeprom_page_count = 128,
     vectors_end = 37 * 4, device_flags = DEVFL_MKII_ONLY,
     io_reg_defs = None, dev_is_xmega = False,
     dev_desc1 = no_mkI,
     dev_desc2 = \<lparr>
       desc_cmd2 = CMND_SET_DEVICE_DESCRIPTOR,
       ucReadIO = [0xFF, 0xFF, 0xFF, 0xF1, 0xDF, 0x3C, 0xB9, 0xE8],
       ucReadIOShadow = [0x00, 0x00, 0x00, 0x00, 0x00, 0x00, 0x00, 0x00],
       ucWriteIO = [0xB6, 0x6D, 0x1B, 0xE0, 0xDF, 0x1C, 0xB8, 0xE8],
       ucWriteIOShadow = [0x00, 0x00, 0x00, 0x00, 0x00, 0x00, 0x00, 0x00],
       ucReadExtIO = arr 52 [0x43, 0xC6, 0x33, 0xDF, 0xF7, 0x3F, 0xF7, 0x3F, 0x00, 0x00, 0x4D,
       0x1F, 0x37, 0x37, 0x00, 0xFF, 0xFF, 0xFF, 0xFF, 0x07],
       ucReadIOExtShadow = arr 52 [0x00, 0x00, 0x00, 0x00, 0x00, 0x00, 0x00, 0x00, 0x00, 0x00,
       0x00, 0x00, 0x00, 0x00, 0x00, 0x00, 0x00, 0x00, 0x00, 0x00],
       ucWriteExtIO = arr 52 [0x43, 0xC6, 0x33, 0xD8, 0xF7, 0x3F, 0xF7, 0x3F, 0x00, 0x00, 0x4D,
       0x0F, 0x36, 0x36, 0x00, 0xC9, 0x3C, 0xF0, 0xFF, 0x04],
       ucWriteIOExtShadow = arr 52 [0x00, 0x00, 0x00, 0x00, 0x00, 0x00, 0x00, 0x00, 0x00, 0x00,
       0x00, 0x00, 0x00, 0x00, 0x00, 0x00, 0x00, 0x00, 0x00, 0x00], ucIDRAddress = 0x31,
       ucSPMCRAddress = 0x57, ucRAMPZAddress = 0x3B, uiFlashPageSize = fill_b2 (256),
       ucEepromPageSize = 8, ulBootAddress = fill_b4 (0x3E00), uiUpperExtIOLoc = fill_b2 (0xFA),
       ulFlashSize = fill_b4 (32768), ucEepromInst = arr 20 [0x00], ucFlashInst = arr 3 [0x00],
       ucSPHaddr = 0x3E, ucSPLaddr = 0x3D, uiFlashpages = fill_b2 (32768 div 256),
       ucDWDRAddress = 0x00, ucDWBasePC = 0x00, ucAllowFullPageBitstream = 0x00,
       uiStartSmallestBootLoaderSection = fill_b2 (0x00), EnablePageProgramming = 1,
       ucCacheType = 0x01, uiSramStartAddr = fill_b2 (0x0100), ucResetType = 0,
       ucPCMaskExtended = 0, ucPCMaskHigh = 0, ucEindAddress = 0, EECRAddress = fill_b2 (0x1F)\<rparr>\<rparr>"

definition dev_at90can64 :: jtag_device_def where
  "dev_at90can64 = \<lparr>
     dev_name = Some ''at90can64'', device_id = 0x9681,
     flash_page_size = 256, flash_page_count = 256,
     eeprom_page_size = 8, eeprom_page_count = 256,
     vectors_end = 37 * 4, device_flags = DEVFL_MKII_ONLY,
     io_reg_defs = None, dev_is_xmega = False,
     dev_desc1 = no_mkI,
     dev_desc2 = \<lparr>
       desc_cmd2 = CMND_SET_DEVICE_DESCRIPTOR,
       ucReadIO = [0xFF, 0xFF, 0xFF, 0xF1, 0xDF, 0x3C, 0xB9, 0xE8],
       ucReadIOShadow = [0x00, 0x00, 0x00, 0x00, 0x00, 0x00, 0x00, 0x00],
       ucWriteIO = [0xB6, 0x6D, 0x1B, 0xE0, 0xDF, 0x1C, 0xB8, 0xE8],
       ucWriteIOShadow = [0x00, 0x00, 0x00, 0x00, 0x00, 0x00, 0x00, 0x00],
       ucReadExtIO = arr 52 [0x43, 0xC6, 0x33, 0xDF, 0xF7, 0x3F, 0xF7, 0x3F, 0x00, 0x00, 0x4D,
       0x1F, 0x37, 0x37, 0x00, 0xFF, 0xFF, 0xFF, 0xFF, 0x07],
       ucReadIOExtShadow = arr 52 [0x00, 0x00, 0x00, 0x00, 0x00, 0x00, 0x00, 0x00, 0x00, 0x00,
       0x00, 0x00, 0x00, 0x00, 0x00, 0x00, 0x00, 0x00, 0x00, 0x00],
       ucWriteExtIO = arr 52 [0x43, 0xC6, 0x33, 0xD8, 0xF7, 0x3F, 0xF7, 0x3F, 0x00, 0x00, 0x4D,
       0x0F, 0x36, 0x36, 0x00, 0xC9, 0x3C, 0xF0, 0xFF, 0x04],
       ucWriteIOExtShadow = arr 52 [0x00, 0x00, 0x00, 0x00, 0x00, 0x00, 0x00, 0x00, 0x00, 0x00,
       0x00, 0x00, 0x00, 0x00, 0x00, 0x00, 0x00, 0x00, 0x00, 0x00], ucIDRAddress = 0x31,
       ucSPMCRAddress = 0x57, ucRAMPZAddress = 0x3B, uiFlashPageSize = fill_b2 (256),
       ucEepromPageSize = 8, ulBootAddress = fill_b4 (0x7E00), uiUpperExtIOLoc = fill_b2 (0xFA),
       ulFlashSize = fill_b4 (65536), ucEepromInst = arr 20 [0x00], ucFlashInst = arr 3 [0x00],
       ucSPHaddr = 0x3E, ucSPLaddr = 0x3D, uiFlashpages = fill_b2 (65536 div 256),
       ucDWDRAddress = 0x00, ucDWBasePC = 0x00, ucAllowFullPageBitstream = 0x00,
       uiStartSmallestBootLoaderSection = fill_b2 (0x00), EnablePageProgramming = 1,
       ucCacheType = 0x01, uiSramStartAddr = fill_b2 (0x0100), ucResetType = 0,
       ucPCMaskExtended = 0, ucPCMaskHigh = 0, ucEindAddress = 0, EECRAddress = fill_b2 (0x1F)\<rparr>\<rparr>"

definition dev_at90pwm216 :: jtag_device_def where
  "dev_at90pwm216 = \<lparr>
     dev_name = Some ''at90pwm216'', device_id = 0x9483,
     flash_page_size = 64, flash_page_count = 256,
     eeprom_page_size = 4, eeprom_page_count = 128,
     vectors_end = 32 * 4, device_flags = DEVFL_MKII_ONLY,
     io_reg_defs = None, dev_is_xmega = False,
     dev_desc1 = no_mkI,
     dev_desc2 = \<lparr>
       desc_cmd2 = CMND_SET_DEVICE_DESCRIPTOR,
       ucReadIO = [0xF8, 0x7F, 0x60, 0xFE, 0xFF, 0x33, 0xB9, 0xE0],
       ucReadIOShadow = [0x00, 0x00, 0x00, 0x00, 0x00, 0x00, 0x00, 0x00],
       ucWriteIO = [0xF8, 0x7F, 0x40, 0xEE, 0xFF, 0x33, 0xBC, 0xE0],
       ucWriteIOShadow = [0x00, 0x00, 0x00, 0x00, 0x00, 0x00, 0x00, 0x00],
       ucReadExtIO = arr 52 [0x53, 0xC2, 0xC0, 0xDF, 0xF7, 0x0F, 0x00, 0x00, 0x3F, 0xE4, 0x00,
       0x00, 0x37, 0x37, 0xFD, 0xFF, 0x00, 0x00, 0xFF, 0xFF],
       ucReadIOExtShadow = arr 52 [0x00, 0x00, 0x00, 0x00, 0x00, 0x00, 0x00, 0x00, 0x00, 0x00,
       0x00, 0x00, 0x00, 0x00, 0x00, 0x00, 0x00, 0x00, 0x00, 0x00],
       ucWriteExtIO = arr 52 [0x11, 0xC2, 0xC0, 0xD8, 0xF7, 0x0F, 0x00, 0x00, 0x3F, 0xE4, 0x00,
       0x00, 0x36, 0x33, 0x01, 0xFC, 0x05, 0xFC, 0x07, 0xFC],
       ucWriteIOExtShadow = arr 52 [0x00, 0x00, 0x00, 0x00, 0x00, 0x00, 0x00, 0x00, 0x00, 0x00,
       0x00, 0x00, 0x00, 0x00, 0x00, 0x00, 0x00, 0x00, 0x00, 0x00], ucIDRAddress = 0x00,
       ucSPMCRAddress = 0x00, ucRAMPZAddress = 0, uiFlashPageSize = fill_b2 (64),
       ucEepromPageSize = 4, ulBootAddress = fill_b4 (0x1F00), uiUpperExtIOLoc = fill_b2 (0xFF),
       ulFlashSize = fill_b4 (16384),
       ucEepromInst = [0xBD, 0xF2, 0xBD, 0xE1, 0xBB, 0xCF, 0xB4, 0x00, 0xBE, 0x01, 0xB6, 0x01,
       0xBC, 0x00, 0xBB, 0xBF, 0x99, 0xF9, 0xBB, 0xAF], ucFlashInst = [0xB6, 0x01, 0x11],
       ucSPHaddr = 0x3E, ucSPLaddr = 0x3D, uiFlashpages = fill_b2 (16384 div 64),
       ucDWDRAddress = 0x31, ucDWBasePC = 0x00, ucAllowFullPageBitstream = 0x00,
       uiStartSmallestBootLoaderSection = fill_b2 (0x1F00), EnablePageProgramming = 1,
       ucCacheType = 0, uiSramStartAddr = fill_b2 (0x0100), ucResetType = 0,
       ucPCMaskExtended = 0, ucPCMaskHigh = 0, ucEindAddress = 0, EECRAddress = fill_b2 (0x1F)\<rparr>\<rparr>"

definition dev_at90pwm316 :: jtag_device_def where
  "dev_at90pwm316 = \<lparr>
     dev_name = Some ''at90pwm316'', device_id = 0x9483,
     flash_page_size = 64, flash_page_count = 256,
     eeprom_page_size = 4, eeprom_page_count = 128,
     vectors_end = 32 * 4, device_flags = DEVFL_MKII_ONLY,
     io_reg_defs = None, dev_is_xmega = False,
     dev_desc1 = no_mkI,
     dev_desc2 = \<lparr>
       desc_cmd2 = CMND_SET_DEVICE_DESCRIPTOR,
       ucReadIO = [0xF8, 0x7F, 0x60, 0xFE, 0xFF, 0x33, 0xB9, 0xE0],
       ucReadIOShadow = [0x00, 0x00, 0x00, 0x00, 0x00, 0x00, 0x00, 0x00],
       ucWriteIO = [0xF8, 0x7F, 0x40, 0xEE, 0xFF, 0x33, 0xBC, 0xE0],
       ucWriteIOShadow = [0x00, 0x00, 0x00, 0x00, 0x00, 0x00, 0x00, 0x00],
       ucReadExtIO = arr 52 [0x53, 0xC2, 0xC0, 0xDF, 0xF7, 0x0F, 0x00, 0x00, 0x3F, 0xE4, 0x00,
       0x00, 0x37, 0x37, 0xFD, 0xFF, 0xFD, 0xFF, 0xFF, 0xFF],
       ucReadIOExtShadow = arr 52 [0x00, 0x00, 0x00, 0x00, 0x00, 0x00, 0x00, 0x00, 0x00, 0x00,
       0x00, 0x00, 0x00, 0x00, 0x00, 0x00, 0x00, 0x00, 0x00, 0x00],
       ucWriteExtIO = arr 52 [0x11, 0xC2, 0xC0, 0xD8, 0xF7, 0x0F, 0x00, 0x00, 0x3F, 0xE4, 0x00,
       0x00, 0x36, 0x33, 0x01, 0xFC, 0x05, 0xFC, 0x07, 0xFC],
       ucWriteIOExtShadow = arr 52 [0x00, 0x00, 0x00, 0x00, 0x00, 0x00, 0x00, 0x00, 0x00, 0x00,
       0x00, 0x00, 0x00, 0x00, 0x00, 0x00, 0x00, 0x00, 0x00, 0x00], ucIDRAddress = 0x00,
       ucSPMCRAddress = 0x00, ucRAMPZAddress = 0, uiFlashPageSize = fill_b2 (64),
       ucEepromPageSize = 4, ulBootAddress = fill_b4 (0x1F00), uiUpperExtIOLoc = fill_b2 (0xFF),
       ulFlashSize = fill_b4 (16384),
       ucEepromInst = [0xBD, 0xF2, 0xBD, 0xE1, 0xBB, 0xCF, 0xB4, 0x00, 0xBE, 0x01, 0xB6, 0x01,
       0xBC, 0x00, 0xBB, 0xBF, 0x99, 0xF9, 0xBB, 0xAF], ucFlashInst = [0xB6, 0x01, 0x11],
       ucSPHaddr = 0x3E, ucSPLaddr = 0x3D, uiFlashpages = fill_b2 (16384 div 64),
       ucDWDRAddress = 0x31, ucDWBasePC = 0x00, ucAllowFullPageBitstream = 0x00,
       uiStartSmallestBootLoaderSection = fill_b2 (0x1F00), EnablePageProgramming = 1,
       ucCacheType = 0, uiSramStartAddr = fill_b2 (0x0100), ucResetType = 0,
       ucPCMaskExtended = 0, ucPCMaskHigh = 0, ucEindAddress = 0, EECRAddress = fill_b2 (0x1F)\<rparr>\<rparr>"

definition dev_at90usb1287 :: jtag_device_def where
  "dev_at90usb1287 = \<lparr>
     dev_name = Some ''at90usb1287'', device_id = 0x9782,
     flash_page_size = 256, flash_page_count = 512,
     eeprom_page_size = 8, eeprom_page_count = 512,
     vectors_end = 38 * 4, device_flags = DEVFL_MKII_ONLY,
     io_reg_defs = None, dev_is_xmega = False,
     dev_desc1 = no_mkI,
     dev_desc2 = \<lparr>
       desc_cmd2 = CMND_SET_DEVICE_DESCRIPTOR,
       ucReadIO = [0xFF, 0xFF, 0xE3, 0xF9, 0xFF, 0x3F, 0xB9, 0xF8],
       ucReadIOShadow = [0x00, 0x00, 0x00, 0x00, 0x00, 0x00, 0x00, 0x00],
       ucWriteIO = [0xB6, 0x6D, 0x03, 0xE0, 0xFF, 0x1F, 0xB8, 0xF8],
       ucWriteIOShadow = [0x00, 0x00, 0x00, 0x00, 0x00, 0x00, 0x00, 0x00],
       ucReadExtIO = arr 52 [0x73, 0xCF, 0x33, 0xDF, 0xF7, 0x3F, 0xF7, 0xFF, 0xFF, 0x7F, 0x5F,
       0x3F, 0x00, 0x37, 0x80, 0xE7, 0x7F, 0xFF, 0xFD, 0x03],
       ucReadIOExtShadow = arr 52 [0x00, 0x00, 0x00, 0x00, 0x00, 0x00, 0x00, 0x00, 0x00, 0x00,
       0x00, 0x00, 0x00, 0x00, 0x00, 0x00, 0x00, 0x00, 0x00, 0x00],
       ucWriteExtIO = arr 52 [0x73, 0xCF, 0x33, 0xD8, 0xF7, 0x3F, 0xF7, 0xFF, 0xF3, 0x7F, 0x5F,
       0x2F, 0x00, 0x36, 0x80, 0xE5, 0x0F, 0x7F, 0x31, 0x03],
       ucWriteIOExtShadow = arr 52 [0x00, 0x00, 0x00, 0x00, 0x00, 0x00, 0x00, 0x00, 0x00, 0x00,
       0x00, 0x00, 0x00, 0x00, 0x00, 0x00, 0x00, 0x00, 0x00, 0x00], ucIDRAddress = 0x31,
       ucSPMCRAddress = 0x57, ucRAMPZAddress = 0x3B, uiFlashPageSize = fill_b2 (256),
       ucEepromPageSize = 8, ulBootAddress = fill_b4 (0xFE00),
       uiUpperExtIOLoc = fill_b2 (0x00FF), ulFlashSize = fill_b4 (131072),
       ucEepromInst = arr 20 [0x00], ucFlashInst = arr 3 [0x00], ucSPHaddr = 0x3E,
       ucSPLaddr = 0x3D, uiFlashpages = fill_b2 (131072 div 256), ucDWDRAddress = 0x00,
       ucDWBasePC = 0x00, ucAllowFullPageBitstream = 0x00,
       uiStartSmallestBootLoaderSection = fill_b2 (0x00), EnablePageProgramming = 1,
       ucCacheType = 0, uiSramStartAddr = fill_b2 (0x100), ucResetType = 0, ucPCMaskExtended = 0,
       ucPCMaskHigh = 0, ucEindAddress = 0x3C, EECRAddress = fill_b2 (0x1F)\<rparr>\<rparr>"

definition dev_at90usb162 :: jtag_device_def where
  "dev_at90usb162 = \<lparr>
     dev_name = Some ''at90usb162'', device_id = 0x9482,
     flash_page_size = 128, flash_page_count = 128,
     eeprom_page_size = 4, eeprom_page_count = 128,
     vectors_end = 38 * 4, device_flags = DEVFL_MKII_ONLY,
     io_reg_defs = None, dev_is_xmega = False,
     dev_desc1 = no_mkI,
     dev_desc2 = \<lparr>
       desc_cmd2 = CMND_SET_DEVICE_DESCRIPTOR,
       ucReadIO = [0xF8, 0x0F, 0x60, 0xF8, 0xFF, 0x3F, 0xB9, 0xF0],
       ucReadIOShadow = [0x00, 0x00, 0x00, 0x00, 0x00, 0x00, 0x00, 0x00],
       ucWriteIO = [0xB0, 0x0D, 0x00, 0xE0, 0xFF, 0x1F, 0xB8, 0xF0],
       ucWriteIOShadow = [0x00, 0x00, 0x00, 0x00, 0x00, 0x00, 0x00, 0x00],
       ucReadExtIO = arr 52 [0x7F, 0xDF, 0x00, 0x00, 0xF7, 0x3F, 0x00, 0x00, 0x00, 0x00, 0x00,
       0x00, 0x00, 0x3F, 0x07, 0x01, 0x7F, 0xFF, 0x15, 0x0C],
       ucReadIOExtShadow = arr 52 [0x00, 0x00, 0x00, 0x00, 0x00, 0x00, 0x00, 0x00, 0x00, 0x00,
       0x00, 0x00, 0x00, 0x00, 0x00, 0x00, 0x00, 0x00, 0x00, 0x00],
       ucWriteExtIO = arr 52 [0x34, 0xDF, 0x00, 0xC8, 0xF7, 0x3F, 0x40, 0x00, 0x00, 0x00, 0x00,
       0x00, 0x00, 0x7F, 0x03, 0x01, 0x0F, 0x7F, 0x11, 0x0C],
       ucWriteIOExtShadow = arr 52 [0x00, 0x00, 0x00, 0x00, 0x00, 0x00, 0x00, 0x00, 0x00, 0x00,
       0x00, 0x00, 0x00, 0x00, 0x00, 0x00, 0x00, 0x00, 0x00, 0x00], ucIDRAddress = 0x00,
       ucSPMCRAddress = 0x00, ucRAMPZAddress = 0x3B, uiFlashPageSize = fill_b2 (128),
       ucEepromPageSize = 4, ulBootAddress = fill_b4 (0x1F00), uiUpperExtIOLoc = fill_b2 (0xFB),
       ulFlashSize = fill_b4 (16384),
       ucEepromInst = [0xBD, 0xF2, 0xBD, 0xE1, 0xBB, 0xCF, 0xB4, 0x00, 0xBE, 0x01, 0xB6, 0x01,
       0xBC, 0x00, 0xBB, 0xBF, 0x99, 0xF9, 0xBB, 0xAF], ucFlashInst = [0xB6, 0x01, 0x11],
       ucSPHaddr = 0x3E, ucSPLaddr = 0x3D, uiFlashpages = fill_b2 (16384 div 128),
       ucDWDRAddress = 0x31, ucDWBasePC = 0x00, ucAllowFullPageBitstream = 0x00,
       uiStartSmallestBootLoaderSection = fill_b2 (0x1F00), EnablePageProgramming = 1,
       ucCacheType = 0, uiSramStartAddr = fill_b2 (0x100), ucResetType = 0, ucPCMaskExtended = 0,
       ucPCMaskHigh = 0, ucEindAddress = 0x3C, EECRAddress = fill_b2 (0x1F)\<rparr>\<rparr>"

definition dev_at90usb646 :: jtag_device_def where
  "dev_at90usb646 = \<lparr>
     dev_name = Some ''at90usb646'', device_id = 0x9682,
     flash_page_size = 256, flash_page_count = 256,
     eeprom_page_size = 8, eeprom_page_count = 256,
     vectors_end = 38 * 4, device_flags = DEVFL_MKII_ONLY,
     io_reg_defs = None, dev_is_xmega = False,
     dev_desc1 = no_mkI,
     dev_desc2 = \<lparr>
       desc_cmd2 = CMND_SET_DEVICE_DESCRIPTOR,
       ucReadIO = [0xFF, 0xFF, 0xE3, 0xF9, 0xFF, 0x3F, 0xB9, 0xF8],
       ucReadIOShadow = [0x00, 0x00, 0x00, 0x00, 0x00, 0x00, 0x00, 0x00],
       ucWriteIO = [0xB6, 0x6D, 0x03, 0xE0, 0xFF, 0x1F, 0xB8, 0xF8],
       ucWriteIOShadow = [0x00, 0x00, 0x00, 0x00, 0x00, 0x00, 0x00, 0x00],
       ucReadExtIO = arr 52 [0x73, 0xCF, 0x33, 0xDF, 0xF7, 0x3F, 0xF7, 0xFF, 0xFF, 0x7F, 0x5F,
       0x3F, 0x00, 0x37, 0x80, 0xE7, 0x7F, 0xFF, 0xFD, 0x03],
       ucReadIOExtShadow = arr 52 [0x00, 0x00, 0x00, 0x00, 0x00, 0x00, 0x00, 0x00, 0x00, 0x00,
       0x00, 0x00, 0x00, 0x00, 0x00, 0x00, 0x00, 0x00, 0x00, 0x00],
       ucWriteExtIO = arr 52 [0x73, 0xCF, 0x33, 0xD8, 0xF7, 0x3F, 0xF7, 0xFF, 0xF3, 0x7F, 0x5F,
       0x2F, 0x00, 0x36, 0x80, 0xE5, 0x0F, 0x7F, 0x31, 0x03],
       ucWriteIOExtShadow = arr 52 [0x00, 0x00, 0x00, 0x00, 0x00, 0x00, 0x00, 0x00, 0x00, 0x00,
       0x00, 0x00, 0x00, 0x00, 0x00, 0x00, 0x00, 0x00, 0x00, 0x00], ucIDRAddress = 0x31,
       ucSPMCRAddress = 0x57, ucRAMPZAddress = 0x3B, uiFlashPageSize = fill_b2 (256),
       ucEepromPageSize = 8, ulBootAddress = fill_b4 (0xFE00),
       uiUpperExtIOLoc = fill_b2 (0x00FF), ulFlashSize = fill_b4 (65536),
       ucEepromInst = arr 20 [0x00], ucFlashInst = arr 3 [0x00], ucSPHaddr = 0x3E,
       ucSPLaddr = 0x3D, uiFlashpages = fill_b2 (65536 div 256), ucDWDRAddress = 0x00,
       ucDWBasePC = 0x00, ucAllowFullPageBitstream = 0x00,
       uiStartSmallestBootLoaderSection = fill_b2 (0x00), EnablePageProgramming = 1,
       ucCacheType = 0, uiSramStartAddr = fill_b2 (0x100), ucResetType = 0, ucPCMaskExtended = 0,
       ucPCMaskHigh = 0, ucEindAddress = 0x3C, EECRAddress = fill_b2 (0x1F)\<rparr>\<rparr>"

definition dev_at90usb647 :: jtag_device_def where
  "dev_at90usb647 = \<lparr>
     dev_name = Some ''at90usb647'', device_id = 0x9682,
     flash_page_size = 256, flash_page_count = 256,
     eeprom_page_size = 8, eeprom_page_count = 256,
     vectors_end = 38 * 4, device_flags = DEVFL_MKII_ONLY,
     io_reg_defs = None, dev_is_xmega = False,
     dev_desc1 = no_mkI,
     dev_desc2 = \<lparr>
       desc_cmd2 = CMND_SET_DEVICE_DESCRIPTOR,
       ucReadIO = [0xFF, 0xFF, 0xE3, 0xF9, 0xFF, 0x3F, 0xB9, 0xF8],
       ucReadIOShadow = [0x00, 0x00, 0x00, 0x00, 0x00, 0x00, 0x00, 0x00],
       ucWriteIO = [0xB6, 0x6D, 0x03, 0xE0, 0xFF, 0x1F, 0xB8, 0xF8],
       ucWriteIOShadow = [0x00, 0x00, 0x00, 0x00, 0x00, 0x00, 0x00, 0x00],
       ucReadExtIO = arr 52 [0x73, 0xCF, 0x33, 0xDF, 0xF7, 0x3F, 0xF7, 0xFF, 0xFF, 0x7F, 0x5F,
       0x3F, 0x00, 0x37, 0x80, 0xE7, 0x7F, 0xFF, 0xFD, 0x03],
       ucReadIOExtShadow = arr 52 [0x00, 0x00, 0x00, 0x00, 0x00, 0x00, 0x00, 0x00, 0x00, 0x00,
       0x00, 0x00, 0x00, 0x00, 0x00, 0x00, 0x00, 0x00, 0x00, 0x00],
       ucWriteExtIO = arr 52 [0x73, 0xCF, 0x33, 0xD8, 0xF7, 0x3F, 0xF7, 0xFF, 0xF3, 0x7F, 0x5F,
       0x2F, 0x00, 0x36, 0x80, 0xE5, 0x0F, 0x7F, 0x31, 0x03],
       ucWriteIOExtShadow = arr 52 [0x00, 0x00, 0x00, 0x00, 0x00, 0x00, 0x00, 0x00, 0x00, 0x00,
       0x00, 0x00, 0x00, 0x00, 0x00, 0x00, 0x00, 0x00, 0x00, 0x00], ucIDRAddress = 0x31,
       ucSPMCRAddress = 0x57, ucRAMPZAddress = 0x3B, uiFlashPageSize = fill_b2 (256),
       ucEepromPageSize = 8, ulBootAddress = fill_b4 (0xFE00),
       uiUpperExtIOLoc = fill_b2 (0x00FF), ulFlashSize = fill_b4 (65536),
       ucEepromInst = arr 20 [0x00], ucFlashInst = arr 3 [0x00], ucSPHaddr = 0x3E,
       ucSPLaddr = 0x3D, uiFlashpages = fill_b2 (65536 div 256), ucDWDRAddress = 0x00,
       ucDWBasePC = 0x00, ucAllowFullPageBitstream = 0x00,
       uiStartSmallestBootLoaderSection = fill_b2 (0x00), EnablePageProgramming = 1,
       ucCacheType = 0, uiSramStartAddr = fill_b2 (0x100), ucResetType = 0, ucPCMaskExtended = 0,
       ucPCMaskHigh = 0, ucEindAddress = 0x3C, EECRAddress = fill_b2 (0x1F)\<rparr>\<rparr>"

definition dev_atmega1284p :: jtag_device_def where
  "dev_atmega1284p = \<lparr>
     dev_name = Some ''atmega1284p'', device_id = 0x9705,
     flash_page_size = 256, flash_page_count = 512,
     eeprom_page_size = 8, eeprom_page_count = 512,
     vectors_end = 35 * 4, device_flags = DEVFL_MKII_ONLY,
     io_reg_defs = None, dev_is_xmega = False,
     dev_desc1 = no_mkI,
     dev_desc2 = \<lparr>
       desc_cmd2 = CMND_SET_DEVICE_DESCRIPTOR,
       ucReadIO = [0xFF, 0x0F, 0xE0, 0xF9, 0xFF, 0x3D, 0xB9, 0xE8],
       ucReadIOShadow = [0x00, 0x00, 0x00, 0x00, 0x01, 0x00, 0x00, 0x00],
       ucWriteIO = [0xFF, 0x0F, 0x00, 0xE0, 0xFF, 0x1D, 0xB8, 0xE8],
       ucWriteIOShadow = [0x00, 0x00, 0x00, 0x00, 0x01, 0x00, 0x00, 0x00],
       ucReadExtIO = arr 52 [0x73, 0xFD, 0x0B, 0xDF, 0xF7, 0x0F, 0xF7, 0x0F, 0x00, 0x00, 0x5F,
       0x3F, 0x37, 0x37, 0x00, 0x00, 0x00, 0x00, 0x00, 0x00],
       ucReadIOExtShadow = arr 52 [0x00, 0x00, 0x00, 0x00, 0x00, 0x00, 0x00, 0x00, 0x00, 0x00,
       0x00, 0x00, 0x00, 0x00, 0x00, 0x00, 0x00, 0x00, 0x00, 0x00],
       ucWriteExtIO = arr 52 [0x73, 0xFD, 0x0B, 0xD8, 0xF7, 0x0F, 0xF7, 0x0F, 0x00, 0x00, 0x5F,
       0x2F, 0x36, 0x36, 0x00, 0x00, 0x00, 0x00, 0x00, 0x00],
       ucWriteIOExtShadow = arr 52 [0x00, 0x00, 0x00, 0x00, 0x00, 0x00, 0x00, 0x00, 0x00, 0x00,
       0x00, 0x00, 0x00, 0x00, 0x00, 0x00, 0x00, 0x00, 0x00, 0x00], ucIDRAddress = 0x31,
       ucSPMCRAddress = 0x57, ucRAMPZAddress = 0x3B, uiFlashPageSize = fill_b2 (256),
       ucEepromPageSize = 8, ulBootAddress = fill_b4 (0xFE00), uiUpperExtIOLoc = fill_b2 (0xCE),
       ulFlashSize = fill_b4 (131072), ucEepromInst = arr 20 [0x00], ucFlashInst = arr 3 [0x00],
       ucSPHaddr = 0x3E, ucSPLaddr = 0x3D, uiFlashpages = fill_b2 (131072 div 256),
       ucDWDRAddress = 0x00, ucDWBasePC = 0x00, ucAllowFullPageBitstream = 0x00,
       uiStartSmallestBootLoaderSection = fill_b2 (0x00), EnablePageProgramming = 1,
       ucCacheType = 0, uiSramStartAddr = fill_b2 (0x100), ucResetType = 0, ucPCMaskExtended = 0,
       ucPCMaskHigh = 0, ucEindAddress = 0, EECRAddress = fill_b2 (0x1F)\<rparr>\<rparr>"

definition dev_atmega165 :: jtag_device_def where
  "dev_atmega165 = \<lparr>
     dev_name = Some ''atmega165'', device_id = 0x9407,
     flash_page_size = 128, flash_page_count = 128,
     eeprom_page_size = 4, eeprom_page_count = 128,
     vectors_end = 22 * 4, device_flags = DEVFL_MKII_ONLY,
     io_reg_defs = None, dev_is_xmega = False,
     dev_desc1 = no_mkI,
     dev_desc2 = \<lparr>
       desc_cmd2 = CMND_SET_DEVICE_DESCRIPTOR,
       ucReadIO = [0xFF, 0xFF, 0xFF, 0xF0, 0xDF, 0x3C, 0xB9, 0xE0],
       ucReadIOShadow = [0x00, 0x00, 0x00, 0x00, 0x00, 0x00, 0x00, 0x00],
       ucWriteIO = [0xB6, 0x6D, 0x1B, 0xE0, 0xDF, 0x1C, 0xB8, 0xE0],
       ucWriteIOShadow = [0x00, 0x00, 0x00, 0x00, 0x00, 0x00, 0x00, 0x00],
       ucReadExtIO = arr 52 [0x53, 0xDA, 0x01, 0xDF, 0xF7, 0x0F, 0x00, 0x00, 0x00, 0x00, 0x4D,
       0x07, 0x37, 0x00, 0x00, 0x00, 0x00, 0x00, 0x00, 0x00],
       ucReadIOExtShadow = arr 52 [0x00, 0x00, 0x00, 0x00, 0x00, 0x00, 0x00, 0x00, 0x00, 0x00,
       0x00, 0x00, 0x00, 0x00, 0x00, 0x00, 0x00, 0x00, 0x00, 0x00],
       ucWriteExtIO = arr 52 [0x53, 0xDA, 0x01, 0xD8, 0xF7, 0x0F, 0x00, 0x00, 0x00, 0x00, 0x4D,
       0x05, 0x36, 0x00, 0x00, 0x00, 0x00, 0x00, 0x00, 0x00],
       ucWriteIOExtShadow = arr 52 [0x00, 0x00, 0x00, 0x00, 0x00, 0x00, 0x00, 0x00, 0x00, 0x00,
       0x00, 0x00, 0x00, 0x00, 0x00, 0x00, 0x00, 0x00, 0x00, 0x00], ucIDRAddress = 0x31,
       ucSPMCRAddress = 0x57, ucRAMPZAddress = 0, uiFlashPageSize = fill_b2 (128),
       ucEepromPageSize = 4, ulBootAddress = fill_b4 (0x1F80), uiUpperExtIOLoc = fill_b2 (0xFE),
       ulFlashSize = fill_b4 (16384), ucEepromInst = arr 20 [0x00], ucFlashInst = arr 3 [0x00],
       ucSPHaddr = 0x3E, ucSPLaddr = 0x3D, uiFlashpages = fill_b2 (16384 div 128),
       ucDWDRAddress = 0x00, ucDWBasePC = 0x00, ucAllowFullPageBitstream = 0x00,
       uiStartSmallestBootLoaderSection = fill_b2 (0x00), EnablePageProgramming = 1,
       ucCacheType = 0, uiSramStartAddr = fill_b2 (0x100), ucResetType = 0, ucPCMaskExtended = 0,
       ucPCMaskHigh = 0, ucEindAddress = 0, EECRAddress = fill_b2 (0x1F)\<rparr>\<rparr>"

definition dev_atmega165p :: jtag_device_def where
  "dev_atmega165p = \<lparr>
     dev_name = Some ''atmega165p'', device_id = 0x9407,
     flash_page_size = 128, flash_page_count = 128,
     eeprom_page_size = 4, eeprom_page_count = 128,
     vectors_end = 22 * 4, device_flags = DEVFL_MKII_ONLY,
     io_reg_defs = None, dev_is_xmega = False,
     dev_desc1 = no_mkI,
     dev_desc2 = \<lparr>
       desc_cmd2 = CMND_SET_DEVICE_DESCRIPTOR,
       ucReadIO = [0xFF, 0xFF, 0xFF, 0xF0, 0xDF, 0x3C, 0xB9, 0xE0],
       ucReadIOShadow = [0x00, 0x00, 0x00, 0x00, 0x00, 0x00, 0x00, 0x00],
       ucWriteIO = [0xB6, 0x6D, 0x1B, 0xE0, 0xDF, 0x1C, 0xB8, 0xE0],
       ucWriteIOShadow = [0x00, 0x00, 0x00, 0x00, 0x00, 0x00, 0x00, 0x00],
       ucReadExtIO = arr 52 [0x53, 0xDA, 0x01, 0xDF, 0xF7, 0x0F, 0x00, 0x00, 0x00, 0x00, 0x4D,
       0x07, 0x37, 0x00, 0x00, 0x00, 0x00, 0x00, 0x00, 0x00],
       ucReadIOExtShadow = arr 52 [0x00, 0x00, 0x00, 0x00, 0x00, 0x00, 0x00, 0x00, 0x00, 0x00,
       0x00, 0x00, 0x00, 0x00, 0x00, 0x00, 0x00, 0x00, 0x00, 0x00],
       ucWriteExtIO = arr 52 [0x53, 0xDA, 0x01, 0xD8, 0xF7, 0x0F, 0x00, 0x00, 0x00, 0x00, 0x4D,
       0x05, 0x36, 0x00, 0x00, 0x00, 0x00, 0x00, 0x00, 0x00],
       ucWriteIOExtShadow = arr 52 [0x00, 0x00, 0x00, 0x00, 0x00, 0x00, 0x00, 0x00, 0x00, 0x00,
       0x00, 0x00, 0x00, 0x00, 0x00, 0x00, 0x00, 0x00, 0x00, 0x00], ucIDRAddress = 0x31,
       ucSPMCRAddress = 0x57, ucRAMPZAddress = 0, uiFlashPageSize = fill_b2 (128),
       ucEepromPageSize = 4, ulBootAddress = fill_b4 (0x1F80), uiUpperExtIOLoc = fill_b2 (0xFE),
       ulFlashSize = fill_b4 (16384), ucEepromInst = arr 20 [0x00], ucFlashInst = arr 3 [0x00],
       ucSPHaddr = 0x3E, ucSPLaddr = 0x3D, uiFlashpages = fill_b2 (16384 div 128),
       ucDWDRAddress = 0x00, ucDWBasePC = 0x00, ucAllowFullPageBitstream = 0x00,
       uiStartSmallestBootLoaderSection = fill_b2 (0x00), EnablePageProgramming = 1,
       ucCacheType = 0, uiSramStartAddr = fill_b2 (0x100), ucResetType = 0, ucPCMaskExtended = 0,
       ucPCMaskHigh = 0, ucEindAddress = 0, EECRAddress = fill_b2 (0x1F)\<rparr>\<rparr>"

definition dev_atmega168p :: jtag_device_def where
  "dev_atmega168p = \<lparr>
     dev_name = Some ''atmega168p'', device_id = 0x940B,
     flash_page_size = 128, flash_page_count = 128,
     eeprom_page_size = 4, eeprom_page_count = 128,
     vectors_end = 26 * 4, device_flags = DEVFL_MKII_ONLY,
     io_reg_defs = None, dev_is_xmega = False,
     dev_desc1 = no_mkI,
     dev_desc2 = \<lparr>
       desc_cmd2 = CMND_SET_DEVICE_DESCRIPTOR,
       ucReadIO = [0xF8, 0x0F, 0xE0, 0xF8, 0xFF, 0x3D, 0xB9, 0xE0],
       ucReadIOShadow = [0x00, 0x00, 0x00, 0x00, 0x00, 0x00, 0x00, 0x00],
       ucWriteIO = [0xB0, 0x0D, 0x00, 0xE0, 0xFF, 0x1D, 0xB8, 0xE0],
       ucWriteIOShadow = [0x00, 0x00, 0x00, 0x00, 0x00, 0x00, 0x00, 0x00],
       ucReadExtIO = arr 52 [0x53, 0xFB, 0x01, 0xDF, 0xF7, 0x0F, 0x00, 0x00, 0x00, 0x00, 0x5F,
       0x3F, 0x37, 0x00, 0x00, 0x00, 0x00, 0x00, 0x00, 0x00],
       ucReadIOExtShadow = arr 52 [0x00, 0x00, 0x00, 0x00, 0x00, 0x00, 0x00, 0x00, 0x00, 0x00,
       0x00, 0x00, 0x00, 0x00, 0x00, 0x00, 0x00, 0x00, 0x00, 0x00],
       ucWriteExtIO = arr 52 [0x00, 0xFB, 0x01, 0xD8, 0xF7, 0x0F, 0x00, 0x00, 0x00, 0x00, 0x5F,
       0x2F, 0x36, 0x00, 0x00, 0x00, 0x00, 0x00, 0x00, 0x00],
       ucWriteIOExtShadow = arr 52 [0x00, 0x00, 0x00, 0x00, 0x00, 0x00, 0x00, 0x00, 0x00, 0x00,
       0x00, 0x00, 0x00, 0x00, 0x00, 0x00, 0x00, 0x00, 0x00, 0x00], ucIDRAddress = 0x00,
       ucSPMCRAddress = 0x00, ucRAMPZAddress = 0, uiFlashPageSize = fill_b2 (128),
       ucEepromPageSize = 4, ulBootAddress = fill_b4 (0x1F80), uiUpperExtIOLoc = fill_b2 (0xC6),
       ulFlashSize = fill_b4 (16384),
       ucEepromInst = [0xBD, 0xF2, 0xBD, 0xE1, 0xBB, 0xCF, 0xB4, 0x00, 0xBE, 0x01, 0xB6, 0x01,
       0xBC, 0x00, 0xBB, 0xBF, 0x99, 0xF9, 0xBB, 0xAF], ucFlashInst = [0xB6, 0x01, 0x11],
       ucSPHaddr = 0x3E, ucSPLaddr = 0x3D, uiFlashpages = fill_b2 (16384 div 128),
       ucDWDRAddress = 0x31, ucDWBasePC = 0x00, ucAllowFullPageBitstream = 0x00,
       uiStartSmallestBootLoaderSection = fill_b2 (0x1F80), EnablePageProgramming = 1,
       ucCacheType = 0, uiSramStartAddr = fill_b2 (0x100), ucResetType = 0, ucPCMaskExtended = 0,
       ucPCMaskHigh = 0, ucEindAddress = 0, EECRAddress = fill_b2 (0x1F)\<rparr>\<rparr>"

definition dev_atmega16hva :: jtag_device_def where
  "dev_atmega16hva = \<lparr>
     dev_name = Some ''atmega16hva'', device_id = 0x940C,
     flash_page_size = 128, flash_page_count = 128,
     eeprom_page_size = 4, eeprom_page_count = 64,
     vectors_end = 21 * 4, device_flags = DEVFL_MKII_ONLY,
     io_reg_defs = None, dev_is_xmega = False,
     dev_desc1 = no_mkI,
     dev_desc2 = \<lparr>
       desc_cmd2 = CMND_SET_DEVICE_DESCRIPTOR,
       ucReadIO = [0x7F, 0x01, 0xE0, 0xF0, 0xFB, 0x3F, 0xB8, 0xE0],
       ucReadIOShadow = [0x00, 0x00, 0x00, 0x00, 0x00, 0x00, 0x00, 0x00],
       ucWriteIO = [0x37, 0x01, 0x00, 0xE0, 0xFB, 0x1F, 0xA8, 0xE0],
       ucWriteIOShadow = [0x00, 0x00, 0x00, 0x00, 0x00, 0x00, 0x00, 0x00],
       ucReadExtIO = arr 52 [0x53, 0xC2, 0x00, 0x57, 0x33, 0x03, 0x00, 0x00, 0x00, 0x00, 0x00,
       0x00, 0x00, 0x01, 0x03, 0x00, 0x7F, 0x03, 0xED, 0x7F],
       ucReadIOExtShadow = arr 52 [0x00, 0x00, 0x00, 0x00, 0x00, 0x00, 0x00, 0x00, 0x00, 0x00,
       0x00, 0x00, 0x00, 0x00, 0x00, 0x00, 0x00, 0x00, 0x00, 0x00],
       ucWriteExtIO = arr 52 [0x50, 0xC2, 0x00, 0x50, 0x33, 0x03, 0x00, 0x00, 0x00, 0x00, 0x00,
       0x00, 0x00, 0x00, 0x03, 0x00, 0x70, 0x00, 0xED, 0x3F],
       ucWriteIOExtShadow = arr 52 [0x00, 0x00, 0x00, 0x00, 0x00, 0x00, 0x00, 0x00, 0x00, 0x00,
       0x00, 0x00, 0x00, 0x00, 0x00, 0x00, 0x00, 0x00, 0x00, 0x00], ucIDRAddress = 0x00,
       ucSPMCRAddress = 0x57, ucRAMPZAddress = 0, uiFlashPageSize = fill_b2 (128),
       ucEepromPageSize = 4, ulBootAddress = fill_b4 (0), uiUpperExtIOLoc = fill_b2 (0xFE),
       ulFlashSize = fill_b4 (16384),
       ucEepromInst = [0xBD, 0xF2, 0xBD, 0xE1, 0xBB, 0xCF, 0xB4, 0x00, 0xBE, 0x01, 0xB6, 0x01,
       0xBC, 0x00, 0xBB, 0xBF, 0x99, 0xF9, 0xBB, 0xAF], ucFlashInst = [0xB6, 0x01, 0x11],
       ucSPHaddr = 0x3E, ucSPLaddr = 0x3D, uiFlashpages = fill_b2 (16384 div 128),
       ucDWDRAddress = 0x31, ucDWBasePC = 0x00, ucAllowFullPageBitstream = 0x00,
       uiStartSmallestBootLoaderSection = fill_b2 (0x00), EnablePageProgramming = 1,
       ucCacheType = 0, uiSramStartAddr = fill_b2 (0x100), ucResetType = 0, ucPCMaskExtended = 0,
       ucPCMaskHigh = 0, ucEindAddress = 0, EECRAddress = fill_b2 (0x1F)\<rparr>\<rparr>"

definition dev_atmega3250p :: jtag_device_def where
  "dev_atmega3250p = \<lparr>
     dev_name = Some ''atmega3250p'', device_id = 0x956E,
     flash_page_size = 128, flash_page_count = 256,
     eeprom_page_size = 4, eeprom_page_count = 256,
     vectors_end = 25 * 4, device_flags = DEVFL_MKII_ONLY,
     io_reg_defs = None, dev_is_xmega = False,
     dev_desc1 = no_mkI,
     dev_desc2 = \<lparr>
       desc_cmd2 = CMND_SET_DEVICE_DESCRIPTOR,
       ucReadIO = [0xFF, 0xFF, 0xFF, 0xF0, 0xDF, 0x3C, 0xB9, 0xE0],
       ucReadIOShadow = [0x00, 0x00, 0x00, 0x00, 0x00, 0x00, 0x00, 0x00],
       ucWriteIO = [0xB6, 0x6D, 0x1B, 0xE0, 0xDF, 0x1C, 0xB8, 0xE0],
       ucWriteIOShadow = [0x00, 0x00, 0x00, 0x00, 0x00, 0x00, 0x00, 0x00],
       ucReadExtIO = arr 52 [0x53, 0xFA, 0x09, 0xDF, 0xF7, 0x0F, 0x00, 0x00, 0x00, 0x00, 0x4D,
       0x07, 0x37, 0x00, 0x00, 0x3F, 0x00, 0x00, 0x00, 0x00],
       ucReadIOExtShadow = arr 52 [0x00, 0x00, 0x00, 0x00, 0x00, 0x00, 0x00, 0x00, 0x00, 0x00,
       0x00, 0x00, 0x00, 0x00, 0x00, 0x00, 0x00, 0x00, 0x00, 0x00],
       ucWriteExtIO = arr 52 [0x53, 0xFA, 0x09, 0xD8, 0xF7, 0x0F, 0x00, 0x00, 0x00, 0x00, 0x4D,
       0x05, 0x36, 0x00, 0x00, 0x3F, 0x00, 0x00, 0x00, 0x00],
       ucWriteIOExtShadow = arr 52 [0x00, 0x00, 0x00, 0x00, 0x00, 0x00, 0x00, 0x00, 0x00, 0x00,
       0x00, 0x00, 0x00, 0x00, 0x00, 0x00, 0x00, 0x00, 0x00, 0x00], ucIDRAddress = 0x31,
       ucSPMCRAddress = 0x57, ucRAMPZAddress = 0, uiFlashPageSize = fill_b2 (128),
       ucEepromPageSize = 4, ulBootAddress = fill_b4 (0x3F00), uiUpperExtIOLoc = fill_b2 (0xDD),
       ulFlashSize = fill_b4 (32768), ucEepromInst = arr 20 [0x00], ucFlashInst = arr 3 [0x00],
       ucSPHaddr = 0x3E, ucSPLaddr = 0x3D, uiFlashpages = fill_b2 (32768 div 128),
       ucDWDRAddress = 0x00, ucDWBasePC = 0x40, ucAllowFullPageBitstream = 0x00,
       uiStartSmallestBootLoaderSection = fill_b2 (0x00), EnablePageProgramming = 1,
       ucCacheType = 0, uiSramStartAddr = fill_b2 (0x100), ucResetType = 0, ucPCMaskExtended = 0,
       ucPCMaskHigh = 0x40, ucEindAddress = 0, EECRAddress = fill_b2 (0x1F)\<rparr>\<rparr>"

definition dev_atmega325p :: jtag_device_def where
  "dev_atmega325p = \<lparr>
     dev_name = Some ''atmega325p'', device_id = 0x955D,
     flash_page_size = 128, flash_page_count = 256,
     eeprom_page_size = 4, eeprom_page_count = 256,
     vectors_end = 22 * 4, device_flags = DEVFL_MKII_ONLY,
     io_reg_defs = None, dev_is_xmega = False,
     dev_desc1 = no_mkI,
     dev_desc2 = \<lparr>
       desc_cmd2 = CMND_SET_DEVICE_DESCRIPTOR,
       ucReadIO = [0xFF, 0xFF, 0xFF, 0xF0, 0xDF, 0x3C, 0xB9, 0xE0],
       ucReadIOShadow = [0x00, 0x00, 0x00, 0x00, 0x00, 0x00, 0x00, 0x00],
       ucWriteIO = [0xB6, 0x6D, 0x1B, 0xE0, 0xDF, 0x1C, 0xB8, 0xE0],
       ucWriteIOShadow = [0x00, 0x00, 0x00, 0x00, 0x00, 0x00, 0x00, 0x00],
       ucReadExtIO = arr 52 [0x53, 0xDA, 0x01, 0xDF, 0xF7, 0x0F, 0x00, 0x00, 0x00, 0x00, 0x4D,
       0x07, 0x37, 0x00, 0x00, 0x00, 0x00, 0x00, 0x00, 0x00],
       ucReadIOExtShadow = arr 52 [0x00, 0x00, 0x00, 0x00, 0x00, 0x00, 0x00, 0x00, 0x00, 0x00,
       0x00, 0x00, 0x00, 0x00, 0x00, 0x00, 0x00, 0x00, 0x00, 0x00],
       ucWriteExtIO = arr 52 [0x53, 0xDA, 0x01, 0xD8, 0xF7, 0x0F, 0x00, 0x00, 0x00, 0x00, 0x4D,
       0x05, 0x36, 0x00, 0x00, 0x00, 0x00, 0x00, 0x00, 0x00],
       ucWriteIOExtShadow = arr 52 [0x00, 0x00, 0x00, 0x00, 0x00, 0x00, 0x00, 0x00, 0x00, 0x00,
       0x00, 0x00, 0x00, 0x00, 0x00, 0x00, 0x00, 0x00, 0x00, 0x00], ucIDRAddress = 0x31,
       ucSPMCRAddress = 0x57, ucRAMPZAddress = 0, uiFlashPageSize = fill_b2 (128),
       ucEepromPageSize = 4, ulBootAddress = fill_b4 (0x3F00), uiUpperExtIOLoc = fill_b2 (0xC6),
       ulFlashSize = fill_b4 (32768), ucEepromInst = arr 20 [0x00], ucFlashInst = arr 3 [0x00],
       ucSPHaddr = 0x3E, ucSPLaddr = 0x3D, uiFlashpages = fill_b2 (32768 div 128),
       ucDWDRAddress = 0x00, ucDWBasePC = 0x40, ucAllowFullPageBitstream = 0x00,
       uiStartSmallestBootLoaderSection = fill_b2 (0x00), EnablePageProgramming = 1,
       ucCacheType = 0, uiSramStartAddr = fill_b2 (0x100), ucResetType = 0, ucPCMaskExtended = 0,
       ucPCMaskHigh = 0x40, ucEindAddress = 0, EECRAddress = fill_b2 (0x1F)\<rparr>\<rparr>"

definition dev_atmega328p :: jtag_device_def where
  "dev_atmega328p = \<lparr>
     dev_name = Some ''atmega328p'', device_id = 0x950F,
     flash_page_size = 128, flash_page_count = 256,
     eeprom_page_size = 4, eeprom_page_count = 256,
     vectors_end = 26 * 4, device_flags = DEVFL_MKII_ONLY,
     io_reg_defs = None, dev_is_xmega = False,
     dev_desc1 = no_mkI,
     dev_desc2 = \<lparr>
       desc_cmd2 = CMND_SET_DEVICE_DESCRIPTOR,
       ucReadIO = [0xF8, 0x0F, 0xE0, 0xF8, 0xFF, 0x3D, 0xB9, 0xE0],
       ucReadIOShadow = [0x00, 0x00, 0x00, 0x00, 0x00, 0x00, 0x00, 0x00],
       ucWriteIO = [0xB0, 0x0D, 0x00, 0xE0, 0xFF, 0x1D, 0xB8, 0xE0],
       ucWriteIOShadow = [0x00, 0x00, 0x00, 0x00, 0x00, 0x00, 0x00, 0x00],
       ucReadExtIO = arr 52 [0x53, 0xFB, 0x01, 0xDF, 0xF7, 0x0F, 0x00, 0x00, 0x00, 0x00, 0x5F,
       0x3F, 0x37, 0x00, 0x00, 0x00, 0x00, 0x00, 0x00, 0x00],
       ucReadIOExtShadow = arr 52 [0x00, 0x00, 0x00, 0x00, 0x00, 0x00, 0x00, 0x00, 0x00, 0x00,
       0x00, 0x00, 0x00, 0x00, 0x00, 0x00, 0x00, 0x00, 0x00, 0x00],
       ucWriteExtIO = arr 52 [0x00, 0xFB, 0x01, 0xD8, 0xF7, 0x0F, 0x00, 0x00, 0x00, 0x00, 0x5F,
       0x2F, 0x36, 0x00, 0x00, 0x00, 0x00, 0x00, 0x00, 0x00],
       ucWriteIOExtShadow = arr 52 [0x00, 0x00, 0x00, 0x00, 0x00, 0x00, 0x00, 0x00, 0x00, 0x00,
       0x00, 0x00, 0x00, 0x00, 0x00, 0x00, 0x00, 0x00, 0x00, 0x00], ucIDRAddress = 0x00,
       ucSPMCRAddress = 0x00, ucRAMPZAddress = 0, uiFlashPageSize = fill_b2 (128),
       ucEepromPageSize = 4, ulBootAddress = fill_b4 (0x3F00), uiUpperExtIOLoc = fill_b2 (0xC6),
       ulFlashSize = fill_b4 (32768),
       ucEepromInst = [0xBD, 0xF2, 0xBD, 0xE1, 0xBB, 0xCF, 0xB4, 0x00, 0xBE, 0x01, 0xB6, 0x01,
       0xBC, 0x00, 0xBB, 0xBF, 0x99, 0xF9, 0xBB, 0xAF], ucFlashInst = [0xB6, 0x01, 0x11],
       ucSPHaddr = 0x3E, ucSPLaddr = 0x3D, uiFlashpages = fill_b2 (32768 div 128),
       ucDWDRAddress = 0x31, ucDWBasePC = 0x00, ucAllowFullPageBitstream = 0x00,
       uiStartSmallestBootLoaderSection = fill_b2 (0x3F00), EnablePageProgramming = 1,
       ucCacheType = 0, uiSramStartAddr = fill_b2 (0x100), ucResetType = 0, ucPCMaskExtended = 0,
       ucPCMaskHigh = 0, ucEindAddress = 0, EECRAddress = fill_b2 (0x1F)\<rparr>\<rparr>"

definition dev_atmega3290p :: jtag_device_def where
  "dev_atmega3290p = \<lparr>
     dev_name = Some ''atmega3290p'', device_id = 0x950C,
     flash_page_size = 128, flash_page_count = 256,
     eeprom_page_size = 4, eeprom_page_count = 256,
     vectors_end = 25 * 4, device_flags = DEVFL_MKII_ONLY,
     io_reg_defs = None, dev_is_xmega = False,
     dev_desc1 = no_mkI,
     dev_desc2 = \<lparr>
       desc_cmd2 = CMND_SET_DEVICE_DESCRIPTOR,
       ucReadIO = [0xFF, 0xFF, 0xFF, 0xF0, 0xDF, 0x3C, 0xB9, 0xE0],
       ucReadIOShadow = [0x00, 0x00, 0x00, 0x00, 0x00, 0x00, 0x00, 0x00],
       ucWriteIO = [0xB6, 0x6D, 0x1B, 0xE0, 0xDF, 0x1C, 0xB8, 0xE0],
       ucWriteIOShadow = [0x00, 0x00, 0x00, 0x00, 0x00, 0x00, 0x00, 0x00],
       ucReadExtIO = arr 52 [0x53, 0xFA, 0x09, 0xDF, 0xF7, 0x0F, 0x00, 0x00, 0x00, 0x00, 0x4D,
       0x07, 0x37, 0x00, 0x00, 0x3F, 0xF0, 0xF0, 0xFF, 0xFF],
       ucReadIOExtShadow = arr 52 [0x00, 0x00, 0x00, 0x00, 0x00, 0x00, 0x00, 0x00, 0x00, 0x00,
       0x00, 0x00, 0x00, 0x00, 0x00, 0x00, 0x00, 0x00, 0x00, 0x00],
       ucWriteExtIO = arr 52 [0x53, 0xFA, 0x09, 0xD8, 0xF7, 0x0F, 0x00, 0x00, 0x00, 0x00, 0x4D,
       0x05, 0x36, 0x00, 0x00, 0x3F, 0xE0, 0xF0, 0xFF, 0xFF],
       ucWriteIOExtShadow = arr 52 [0x00, 0x00, 0x00, 0x00, 0x00, 0x00, 0x00, 0x00, 0x00, 0x00,
       0x00, 0x00, 0x00, 0x00, 0x00, 0x00, 0x00, 0x00, 0x00, 0x00], ucIDRAddress = 0x31,
       ucSPMCRAddress = 0x57, ucRAMPZAddress = 0, uiFlashPageSize = fill_b2 (128),
       ucEepromPageSize = 4, ulBootAddress = fill_b4 (0x3F00), uiUpperExtIOLoc = fill_b2 (0xFF),
       ulFlashSize = fill_b4 (32768), ucEepromInst = arr 20 [0x00], ucFlashInst = arr 3 [0x00],
       ucSPHaddr = 0x3E, ucSPLaddr = 0x3D, uiFlashpages = fill_b2 (32768 div 128),
       ucDWDRAddress = 0x00, ucDWBasePC = 0x40, ucAllowFullPageBitstream = 0x00,
       uiStartSmallestBootLoaderSection = fill_b2 (0x00), EnablePageProgramming = 1,
       ucCacheType = 0, uiSramStartAddr = fill_b2 (0x100), ucResetType = 0, ucPCMaskExtended = 0,
       ucPCMaskHigh = 0x40, ucEindAddress = 0, EECRAddress = fill_b2 (0x1F)\<rparr>\<rparr>"

definition dev_atmega329p :: jtag_device_def where
  "dev_atmega329p = \<lparr>
     dev_name = Some ''atmega329p'', device_id = 0x9503,
     flash_page_size = 128, flash_page_count = 256,
     eeprom_page_size = 4, eeprom_page_count = 256,
     vectors_end = 23 * 4, device_flags = DEVFL_MKII_ONLY,
     io_reg_defs = None, dev_is_xmega = False,
     dev_desc1 = no_mkI,
     dev_desc2 = \<lparr>
       desc_cmd2 = CMND_SET_DEVICE_DESCRIPTOR,
       ucReadIO = [0xFF, 0xFF, 0xFF, 0xF0, 0xDF, 0x3C, 0xB9, 0xE0],
       ucReadIOShadow = [0x00, 0x00, 0x00, 0x00, 0x00, 0x00, 0x00, 0x00],
       ucWriteIO = [0xB6, 0x6D, 0x1B, 0xE0, 0xDF, 0x1C, 0xB8, 0xE0],
       ucWriteIOShadow = [0x00, 0x00, 0x00, 0x00, 0x00, 0x00, 0x00, 0x00],
       ucReadExtIO = arr 52 [0x53, 0xDA, 0x01, 0xDF, 0xF7, 0x0F, 0x00, 0x00, 0x00, 0x00, 0x4D,
       0x07, 0x37, 0x00, 0x00, 0x00, 0xF0, 0xF0, 0xDE, 0x7B],
       ucReadIOExtShadow = arr 52 [0x00, 0x00, 0x00, 0x00, 0x00, 0x00, 0x00, 0x00, 0x00, 0x00,
       0x00, 0x00, 0x00, 0x00, 0x00, 0x00, 0x00, 0x00, 0x00, 0x00],
       ucWriteExtIO = arr 52 [0x53, 0xDA, 0x01, 0xD8, 0xF7, 0x0F, 0x00, 0x00, 0x00, 0x00, 0x4D,
       0x05, 0x36, 0x00, 0x00, 0x00, 0xE0, 0xF0, 0xDE, 0x7B],
       ucWriteIOExtShadow = arr 52 [0x00, 0x00, 0x00, 0x00, 0x00, 0x00, 0x00, 0x00, 0x00, 0x00,
       0x00, 0x00, 0x00, 0x00, 0x00, 0x00, 0x00, 0x00, 0x00, 0x00], ucIDRAddress = 0x31,
       ucSPMCRAddress = 0x57, ucRAMPZAddress = 0, uiFlashPageSize = fill_b2 (128),
       ucEepromPageSize = 4, ulBootAddress = fill_b4 (0x3F00), uiUpperExtIOLoc = fill_b2 (0xFE),
       ulFlashSize = fill_b4 (32768), ucEepromInst = arr 20 [0x00], ucFlashInst = arr 3 [0x00],
       ucSPHaddr = 0x3E, ucSPLaddr = 0x3D, uiFlashpages = fill_b2 (32768 div 128),
       ucDWDRAddress = 0x00, ucDWBasePC = 0x40, ucAllowFullPageBitstream = 0x00,
       uiStartSmallestBootLoaderSection = fill_b2 (0x00), EnablePageProgramming = 1,
       ucCacheType = 0, uiSramStartAddr = fill_b2 (0x100), ucResetType = 0, ucPCMaskExtended = 0,
       ucPCMaskHigh = 0x40, ucEindAddress = 0, EECRAddress = fill_b2 (0x1F)\<rparr>\<rparr>"

definition dev_atmega32hvb :: jtag_device_def where
  "dev_atmega32hvb = \<lparr>
     dev_name = Some ''atmega32hvb'', device_id = 0x9510,
     flash_page_size = 128, flash_page_count = 256,
     eeprom_page_size = 4, eeprom_page_count = 256,
     vectors_end = 29 * 4, device_flags = DEVFL_MKII_ONLY,
     io_reg_defs = None, dev_is_xmega = False,
     dev_desc1 = no_mkI,
     dev_desc2 = \<lparr>
       desc_cmd2 = CMND_SET_DEVICE_DESCRIPTOR,
       ucReadIO = [0x7F, 0x01, 0xE0, 0xF8, 0xFF, 0x3F, 0xB8, 0xE0],
       ucReadIOShadow = [0x00, 0x00, 0x00, 0x00, 0x00, 0x00, 0x00, 0x00],
       ucWriteIO = [0x37, 0x01, 0x00, 0xE0, 0xFF, 0x1F, 0xA8, 0xE0],
       ucWriteIOShadow = [0x00, 0x00, 0x00, 0x00, 0x00, 0x00, 0x00, 0x00],
       ucReadExtIO = arr 52 [0x53, 0xDB, 0x00, 0x57, 0x33, 0x03, 0x00, 0x00, 0x00, 0x00, 0x00,
       0x7F, 0x00, 0x01, 0x17, 0x00, 0xFF, 0x07, 0xEF, 0x7F],
       ucReadIOExtShadow = arr 52 [0x00, 0x00, 0x00, 0x00, 0x00, 0x00, 0x00, 0x00, 0x00, 0x00,
       0x00, 0x00, 0x00, 0x00, 0x00, 0x00, 0x00, 0x00, 0x00, 0x00],
       ucWriteExtIO = arr 52 [0x50, 0xDB, 0x00, 0x50, 0x33, 0x03, 0x00, 0x00, 0x00, 0x00, 0x00,
       0x7F, 0x00, 0x00, 0x17, 0x00, 0xCF, 0x07, 0xEF, 0x3F],
       ucWriteIOExtShadow = arr 52 [0x00, 0x00, 0x00, 0x00, 0x00, 0x00, 0x00, 0x00, 0x00, 0x00,
       0x00, 0x00, 0x00, 0x00, 0x00, 0x00, 0x00, 0x00, 0x00, 0x00], ucIDRAddress = 0x00,
       ucSPMCRAddress = 0x57, ucRAMPZAddress = 0, uiFlashPageSize = fill_b2 (128),
       ucEepromPageSize = 4, ulBootAddress = fill_b4 (0x3F00), uiUpperExtIOLoc = fill_b2 (0xFE),
       ulFlashSize = fill_b4 (32768),
       ucEepromInst = [0xBD, 0xF2, 0xBD, 0xE1, 0xBB, 0xCF, 0xB4, 0x00, 0xBE, 0x01, 0xB6, 0x01,
       0xBC, 0x00, 0xBB, 0xBF, 0x99, 0xF9, 0xBB, 0xAF], ucFlashInst = [0xB6, 0x01, 0x11],
       ucSPHaddr = 0x3E, ucSPLaddr = 0x3D, uiFlashpages = fill_b2 (32768 div 128),
       ucDWDRAddress = 0x31, ucDWBasePC = 0x00, ucAllowFullPageBitstream = 0x00,
       uiStartSmallestBootLoaderSection = fill_b2 (0x3F00), EnablePageProgramming = 1,
       ucCacheType = 0, uiSramStartAddr = fill_b2 (0x100), ucResetType = 0, ucPCMaskExtended = 0,
       ucPCMaskHigh = 0, ucEindAddress = 0, EECRAddress = fill_b2 (0x1F)\<rparr>\<rparr>"

definition dev_atmega32u4 :: jtag_device_def where
  "dev_atmega32u4 = \<lparr>
     dev_name = Some ''atmega32u4'', device_id = 0x9587,
     flash_page_size = 128, flash_page_count = 256,
     eeprom_page_size = 4, eeprom_page_count = 256,
     vectors_end = 43 * 4, device_flags = DEVFL_MKII_ONLY,
     io_reg_defs = None, dev_is_xmega = False,
     dev_desc1 = no_mkI,
     dev_desc2 = \<lparr>
       desc_cmd2 = CMND_SET_DEVICE_DESCRIPTOR,
       ucReadIO = [0xF8, 0xFF, 0xE3, 0xFB, 0xFF, 0x3F, 0xBD, 0xF8],
       ucReadIOShadow = [0x00, 0x00, 0x00, 0x00, 0x00, 0x00, 0x00, 0x00],
       ucWriteIO = [0xB0, 0x6D, 0x03, 0xE0, 0xFF, 0x1F, 0xBC, 0xF8],
       ucWriteIOShadow = [0x00, 0x00, 0x00, 0x00, 0x00, 0x00, 0x00, 0x00],
       ucReadExtIO = arr 52 [0xF3, 0xCF, 0x07, 0xDF, 0xF7, 0x3F, 0xF7, 0x3F, 0x00, 0x00, 0x1F,
       0xFF, 0xFF, 0xB7, 0x97, 0x07, 0x7F, 0xFF, 0x1D],
       ucReadIOExtShadow = arr 52 [0x00, 0x00, 0x00, 0x00, 0x00, 0x00, 0x00, 0x00, 0x00, 0x00,
       0x00, 0x00, 0x00, 0x00, 0x00, 0x00, 0x00, 0x00, 0x00, 0x00],
       ucWriteExtIO = arr 52 [0xF3, 0xCF, 0x07, 0xD8, 0xF7, 0x3F, 0xF7, 0x3F, 0x00, 0x00, 0x1F,
       0xEF, 0x7F, 0xB6, 0x97, 0x05, 0x0F, 0x7F, 0x11],
       ucWriteIOExtShadow = arr 52 [0x00, 0x00, 0x00, 0x00, 0x00, 0x00, 0x00, 0x00, 0x00, 0x00,
       0x00, 0x00, 0x00, 0x00, 0x00, 0x00, 0x00, 0x00, 0x00, 0x00], ucIDRAddress = 0x31,
       ucSPMCRAddress = 0x57, ucRAMPZAddress = 0x3B, uiFlashPageSize = fill_b2 (128),
       ucEepromPageSize = 4, ulBootAddress = fill_b4 (0x3F00),
       uiUpperExtIOLoc = fill_b2 (0x00FF), ulFlashSize = fill_b4 (32768),
       ucEepromInst = arr 20 [0x00], ucFlashInst = arr 3 [0x00], ucSPHaddr = 0x3E,
       ucSPLaddr = 0x3D, uiFlashpages = fill_b2 (32768 div 128), ucDWDRAddress = 0x00,
       ucDWBasePC = 0x00, ucAllowFullPageBitstream = 0x00,
       uiStartSmallestBootLoaderSection = fill_b2 (0x00), EnablePageProgramming = 1,
       ucCacheType = 0, uiSramStartAddr = fill_b2 (0x100), ucResetType = 0, ucPCMaskExtended = 0,
       ucPCMaskHigh = 0, ucEindAddress = 0x3C, EECRAddress = fill_b2 (0x1F)\<rparr>\<rparr>"

definition dev_atmega406 :: jtag_device_def where
  "dev_atmega406 = \<lparr>
     dev_name = Some ''atmega406'', device_id = 0x9507,
     flash_page_size = 128, flash_page_count = 320,
     eeprom_page_size = 4, eeprom_page_count = 128,
     vectors_end = 23 * 4, device_flags = DEVFL_MKII_ONLY,
     io_reg_defs = None, dev_is_xmega = False,
     dev_desc1 = no_mkI,
     dev_desc2 = \<lparr>
       desc_cmd2 = CMND_SET_DEVICE_DESCRIPTOR,
       ucReadIO = [0x3F, 0x0F, 0x60, 0xF8, 0xFF, 0x0D, 0xB8, 0xE0],
       ucReadIOShadow = [0x00, 0x00, 0x00, 0x00, 0x00, 0x00, 0x00, 0x00],
       ucWriteIO = [0x37, 0x0F, 0x00, 0xE0, 0xFF, 0x0D, 0xB8, 0xE0],
       ucWriteIOShadow = [0x00, 0x00, 0x00, 0x00, 0x00, 0x00, 0x00, 0x00],
       ucReadExtIO = arr 52 [0x55, 0xDB, 0x00, 0x57, 0x32, 0x03, 0x00, 0x00, 0x00, 0x00, 0x00,
       0x7F, 0x01, 0x00, 0x03, 0x00, 0xFF, 0x03, 0xFF, 0x01],
       ucReadIOExtShadow = arr 52 [0x00, 0x00, 0x00, 0x00, 0x00, 0x00, 0x00, 0x00, 0x00, 0x00,
       0x00, 0x00, 0x00, 0x00, 0x00, 0x00, 0x00, 0x00, 0x00, 0x00],
       ucWriteExtIO = arr 52 [0x50, 0xDB, 0x00, 0x50, 0x32, 0x03, 0x00, 0x00, 0x00, 0x00, 0x00,
       0x6D, 0x01, 0x00, 0x03, 0x00, 0xD0, 0x00, 0xFB, 0x00],
       ucWriteIOExtShadow = arr 52 [0x00, 0x00, 0x00, 0x00, 0x00, 0x00, 0x00, 0x00, 0x00, 0x00,
       0x00, 0x00, 0x00, 0x00, 0x00, 0x00, 0x00, 0x00, 0x00, 0x00], ucIDRAddress = 0x31,
       ucSPMCRAddress = 0x57, ucRAMPZAddress = 0, uiFlashPageSize = fill_b2 (128),
       ucEepromPageSize = 4, ulBootAddress = fill_b4 (0x4F00), uiUpperExtIOLoc = fill_b2 (0xF8),
       ulFlashSize = fill_b4 (40960), ucEepromInst = arr 20 [0x00], ucFlashInst = arr 3 [0x00],
       ucSPHaddr = 0x3E, ucSPLaddr = 0x3D, uiFlashpages = fill_b2 (40960 div 128),
       ucDWDRAddress = 0x00, ucDWBasePC = 0x00, ucAllowFullPageBitstream = 0x00,
       uiStartSmallestBootLoaderSection = fill_b2 (0x00), EnablePageProgramming = 1,
       ucCacheType = 0x00, uiSramStartAddr = fill_b2 (0x100), ucResetType = 0,
       ucPCMaskExtended = 0, ucPCMaskHigh = 0, ucEindAddress = 0, EECRAddress = fill_b2 (0x1F)\<rparr>\<rparr>"

definition dev_atmega48p :: jtag_device_def where
  "dev_atmega48p = \<lparr>
     dev_name = Some ''atmega48p'', device_id = 0x920A,
     flash_page_size = 64, flash_page_count = 64,
     eeprom_page_size = 4, eeprom_page_count = 64,
     vectors_end = 26 * 2, device_flags = DEVFL_MKII_ONLY,
     io_reg_defs = None, dev_is_xmega = False,
     dev_desc1 = no_mkI,
     dev_desc2 = \<lparr>
       desc_cmd2 = CMND_SET_DEVICE_DESCRIPTOR,
       ucReadIO = [0xF8, 0x0F, 0xE0, 0xF8, 0xFB, 0x3D, 0xB9, 0xE0],
       ucReadIOShadow = [0x00, 0x00, 0x00, 0x00, 0x00, 0x00, 0x00, 0x00],
       ucWriteIO = [0xB0, 0x0D, 0x00, 0xE0, 0xFB, 0x1D, 0xB8, 0xE0],
       ucWriteIOShadow = [0x00, 0x00, 0x00, 0x00, 0x00, 0x00, 0x00, 0x00],
       ucReadExtIO = arr 52 [0x53, 0xFB, 0x01, 0xDF, 0xF3, 0x0F, 0x00, 0x00, 0x00, 0x00, 0x5F,
       0x3F, 0x37, 0x00, 0x00, 0x00, 0x00, 0x00, 0x00, 0x00],
       ucReadIOExtShadow = arr 52 [0x00, 0x00, 0x00, 0x00, 0x00, 0x00, 0x00, 0x00, 0x00, 0x00,
       0x00, 0x00, 0x00, 0x00, 0x00, 0x00, 0x00, 0x00, 0x00, 0x00],
       ucWriteExtIO = arr 52 [0x00, 0xFB, 0x01, 0xD8, 0xF3, 0x0F, 0x00, 0x00, 0x00, 0x00, 0x5F,
       0x2F, 0x36, 0x00, 0x00, 0x00, 0x00, 0x00, 0x00, 0x00],
       ucWriteIOExtShadow = arr 52 [0x00, 0x00, 0x00, 0x00, 0x00, 0x00, 0x00, 0x00, 0x00, 0x00,
       0x00, 0x00, 0x00, 0x00, 0x00, 0x00, 0x00, 0x00, 0x00, 0x00], ucIDRAddress = 0x00,
       ucSPMCRAddress = 0x00, ucRAMPZAddress = 0, uiFlashPageSize = fill_b2 (64),
       ucEepromPageSize = 4, ulBootAddress = fill_b4 (0x0000), uiUpperExtIOLoc = fill_b2 (0xC6),
       ulFlashSize = fill_b4 (4096),
       ucEepromInst = [0xBD, 0xF2, 0xBD, 0xE1, 0xBB, 0xCF, 0xB4, 0x00, 0xBE, 0x01, 0xB6, 0x01,
       0xBC, 0x00, 0xBB, 0xBF, 0x99, 0xF9, 0xBB, 0xAF], ucFlashInst = [0xB6, 0x01, 0x11],
       ucSPHaddr = 0x3E, ucSPLaddr = 0x3D, uiFlashpages = fill_b2 (4096 div 64),
       ucDWDRAddress = 0x31, ucDWBasePC = 0x00, ucAllowFullPageBitstream = 0x00,
       uiStartSmallestBootLoaderSection = fill_b2 (0x00), EnablePageProgramming = 1,
       ucCacheType = 0, uiSramStartAddr = fill_b2 (0x100), ucResetType = 0, ucPCMaskExtended = 0,
       ucPCMaskHigh = 0, ucEindAddress = 0, EECRAddress = fill_b2 (0x1F)\<rparr>\<rparr>"

definition dev_atmega644p :: jtag_device_def where
  "dev_atmega644p = \<lparr>
     dev_name = Some ''atmega644p'', device_id = 0x960A,
     flash_page_size = 256, flash_page_count = 256,
     eeprom_page_size = 8, eeprom_page_count = 256,
     vectors_end = 31 * 4, device_flags = DEVFL_MKII_ONLY,
     io_reg_defs = None, dev_is_xmega = False,
     dev_desc1 = no_mkI,
     dev_desc2 = \<lparr>
       desc_cmd2 = CMND_SET_DEVICE_DESCRIPTOR,
       ucReadIO = [0xFF, 0x0F, 0xE0, 0xF8, 0xFF, 0x3D, 0xB9, 0xE8],
       ucReadIOShadow = [0x00, 0x00, 0x00, 0x00, 0x01, 0x00, 0x00, 0x00],
       ucWriteIO = [0xB6, 0x0D, 0x00, 0xE0, 0xFF, 0x1D, 0xB8, 0xE8],
       ucWriteIOShadow = [0x00, 0x00, 0x00, 0x00, 0x01, 0x00, 0x00, 0x00],
       ucReadExtIO = arr 52 [0x53, 0xFB, 0x09, 0xDF, 0xF7, 0x0F, 0x00, 0x00, 0x00, 0x00, 0x5F,
       0x3F, 0x37, 0x37, 0x00, 0x00, 0x00, 0x00, 0x00, 0x00],
       ucReadIOExtShadow = arr 52 [0x00, 0x00, 0x00, 0x00, 0x00, 0x00, 0x00, 0x00, 0x00, 0x00,
       0x00, 0x00, 0x00, 0x00, 0x00, 0x00, 0x00, 0x00, 0x00, 0x00],
       ucWriteExtIO = arr 52 [0x53, 0xFB, 0x09, 0xD8, 0xF7, 0x0F, 0x00, 0x00, 0x00, 0x00, 0x5F,
       0x2F, 0x36, 0x36, 0x00, 0x00, 0x00, 0x00, 0x00, 0x00],
       ucWriteIOExtShadow = arr 52 [0x00, 0x00, 0x00, 0x00, 0x00, 0x00, 0x00, 0x00, 0x00, 0x00,
       0x00, 0x00, 0x00, 0x00, 0x00, 0x00, 0x00, 0x00, 0x00, 0x00], ucIDRAddress = 0x31,
       ucSPMCRAddress = 0x57, ucRAMPZAddress = 0x3B, uiFlashPageSize = fill_b2 (256),
       ucEepromPageSize = 8, ulBootAddress = fill_b4 (0x7e00), uiUpperExtIOLoc = fill_b2 (0xCE),
       ulFlashSize = fill_b4 (65536), ucEepromInst = arr 20 [0x00], ucFlashInst = arr 3 [0x00],
       ucSPHaddr = 0x3E, ucSPLaddr = 0x3D, uiFlashpages = fill_b2 (65536 div 256),
       ucDWDRAddress = 0x00, ucDWBasePC = 0x00, ucAllowFullPageBitstream = 0x00,
       uiStartSmallestBootLoaderSection = fill_b2 (0x00), EnablePageProgramming = 1,
       ucCacheType = 0, uiSramStartAddr = fill_b2 (0x100), ucResetType = 0, ucPCMaskExtended = 0,
       ucPCMaskHigh = 0, ucEindAddress = 0, EECRAddress = fill_b2 (0x1F)\<rparr>\<rparr>"

definition dev_atmega88p :: jtag_device_def where
  "dev_atmega88p = \<lparr>
     dev_name = Some ''atmega88p'', device_id = 0x930F,
     flash_page_size = 64, flash_page_count = 128,
     eeprom_page_size = 4, eeprom_page_count = 128,
     vectors_end = 26 * 2, device_flags = DEVFL_MKII_ONLY,
     io_reg_defs = None, dev_is_xmega = False,
     dev_desc1 = no_mkI,
     dev_desc2 = \<lparr>
       desc_cmd2 = CMND_SET_DEVICE_DESCRIPTOR,
       ucReadIO = [0xF8, 0x0F, 0xE0, 0xF8, 0xFF, 0x3D, 0xB9, 0xE0],
       ucReadIOShadow = [0x00, 0x00, 0x00, 0x00, 0x00, 0x00, 0x00, 0x00],
       ucWriteIO = [0xB0, 0x0D, 0x00, 0xE0, 0xFF, 0x1D, 0xB8, 0xE0],
       ucWriteIOShadow = [0x00, 0x00, 0x00, 0x00, 0x00, 0x00, 0x00, 0x00],
       ucReadExtIO = arr 52 [0x53, 0xFB, 0x01, 0xDF, 0xF7, 0x0F, 0x00, 0x00, 0x00, 0x00, 0x5F,
       0x3F, 0x37, 0x00, 0x00, 0x00, 0x00, 0x00, 0x00, 0x00],
       ucReadIOExtShadow = arr 52 [0x00, 0x00, 0x00, 0x00, 0x00, 0x00, 0x00, 0x00, 0x00, 0x00,
       0x00, 0x00, 0x00, 0x00, 0x00, 0x00, 0x00, 0x00, 0x00, 0x00],
       ucWriteExtIO = arr 52 [0x00, 0xFB, 0x01, 0xD8, 0xF7, 0x0F, 0x00, 0x00, 0x00, 0x00, 0x5F,
       0x2F, 0x36, 0x00, 0x00, 0x00, 0x00, 0x00, 0x00, 0x00],
       ucWriteIOExtShadow = arr 52 [0x00, 0x00, 0x00, 0x00, 0x00, 0x00, 0x00, 0x00, 0x00, 0x00,
       0x00, 0x00, 0x00, 0x00, 0x00, 0x00, 0x00, 0x00, 0x00, 0x00], ucIDRAddress = 0x00,
       ucSPMCRAddress = 0x00, ucRAMPZAddress = 0, uiFlashPageSize = fill_b2 (64),
       ucEepromPageSize = 4, ulBootAddress = fill_b4 (0x0F80), uiUpperExtIOLoc = fill_b2 (0xC6),
       ulFlashSize = fill_b4 (8192),
       ucEepromInst = [0xBD, 0xF2, 0xBD, 0xE1, 0xBB, 0xCF, 0xB4, 0x00, 0xBE, 0x01, 0xB6, 0x01,
       0xBC, 0x00, 0xBB, 0xBF, 0x99, 0xF9, 0xBB, 0xAF], ucFlashInst = [0xB6, 0x01, 0x11],
       ucSPHaddr = 0x3E, ucSPLaddr = 0x3D, uiFlashpages = fill_b2 (8192 div 64),
       ucDWDRAddress = 0x31, ucDWBasePC = 0x00, ucAllowFullPageBitstream = 0x00,
       uiStartSmallestBootLoaderSection = fill_b2 (0xF80), EnablePageProgramming = 1,
       ucCacheType = 0, uiSramStartAddr = fill_b2 (0x100), ucResetType = 0, ucPCMaskExtended = 0,
       ucPCMaskHigh = 0, ucEindAddress = 0, EECRAddress = fill_b2 (0x1F)\<rparr>\<rparr>"

definition dev_attiny167 :: jtag_device_def where
  "dev_attiny167 = \<lparr>
     dev_name = Some ''attiny167'', device_id = 0x9487,
     flash_page_size = 128, flash_page_count = 128,
     eeprom_page_size = 4, eeprom_page_count = 128,
     vectors_end = 20 * 4, device_flags = DEVFL_MKII_ONLY,
     io_reg_defs = None, dev_is_xmega = False,
     dev_desc1 = no_mkI,
     dev_desc2 = \<lparr>
       desc_cmd2 = CMND_SET_DEVICE_DESCRIPTOR,
       ucReadIO = [0x3F, 0x00, 0x64, 0xF8, 0xEF, 0x3D, 0xB9, 0xE0],
       ucReadIOShadow = [0x00, 0x00, 0x00, 0x00, 0x00, 0x00, 0x00, 0x00],
       ucWriteIO = [0x36, 0x00, 0x04, 0xE0, 0xEF, 0x1D, 0xB8, 0xE0],
       ucWriteIOShadow = [0x00, 0x00, 0x00, 0x00, 0x00, 0x00, 0x00, 0x00],
       ucReadExtIO = arr 52 [0x5F, 0xDB, 0x80, 0xDF, 0xFF, 0x0F, 0x00, 0x00, 0x00, 0x00, 0x40,
       0x1F, 0x00, 0xFF, 0x07, 0x00],
       ucReadIOExtShadow = arr 52 [0x00, 0x00, 0x00, 0x00, 0x00, 0x00, 0x00, 0x00, 0x00, 0x00,
       0x00, 0x00, 0x00, 0x00, 0x00, 0x00, 0x00, 0x00, 0x00, 0x00],
       ucWriteExtIO = arr 52 [0x1C, 0xDB, 0x80, 0xD8, 0xFF, 0x0F, 0x00, 0x00, 0x00, 0x00, 0x40,
       0x15, 0x00, 0xF7, 0x07, 0x00],
       ucWriteIOExtShadow = arr 52 [0x00, 0x00, 0x00, 0x00, 0x00, 0x00, 0x00, 0x00, 0x00, 0x00,
       0x00, 0x00, 0x00, 0x00, 0x00, 0x00, 0x00, 0x00, 0x00, 0x00], ucIDRAddress = 0x00,
       ucSPMCRAddress = 0x57, ucRAMPZAddress = 0, uiFlashPageSize = fill_b2 (128),
       ucEepromPageSize = 4, ulBootAddress = fill_b4 (0), uiUpperExtIOLoc = fill_b2 (0x00D2),
       ulFlashSize = fill_b4 (16384),
       ucEepromInst = [0xBD, 0xF2, 0xBD, 0xE1, 0xBB, 0xCF, 0xB4, 0x00, 0xBE, 0x01, 0xB6, 0x01,
       0xBC, 0x00, 0xBB, 0xBF, 0x99, 0xF9, 0xBB, 0xAF], ucFlashInst = [0xB6, 0x01, 0x11],
       ucSPHaddr = 0x3E, ucSPLaddr = 0x3D, uiFlashpages = fill_b2 (16384 div 128),
       ucDWDRAddress = 0x31, ucDWBasePC = 0x00, ucAllowFullPageBitstream = 0x00,
       uiStartSmallestBootLoaderSection = fill_b2 (0x00), EnablePageProgramming = 1,
       ucCacheType = 0, uiSramStartAddr = fill_b2 (0x0100), ucResetType = 0,
       ucPCMaskExtended = 0, ucPCMaskHigh = 0, ucEindAddress = 0, EECRAddress = fill_b2 (0x1F)\<rparr>\<rparr>"

definition dev_attiny43u :: jtag_device_def where
  "dev_attiny43u = \<lparr>
     dev_name = Some ''attiny43u'', device_id = 0x920C,
     flash_page_size = 64, flash_page_count = 64,
     eeprom_page_size = 4, eeprom_page_count = 16,
     vectors_end = 16 * 2, device_flags = DEVFL_MKII_ONLY,
     io_reg_defs = None, dev_is_xmega = False,
     dev_desc1 = no_mkI,
     dev_desc2 = \<lparr>
       desc_cmd2 = CMND_SET_DEVICE_DESCRIPTOR,
       ucReadIO = [0xFB, 0xF9, 0xFD, 0x7F, 0x4B, 0xF8, 0xFF, 0xFF],
       ucReadIOShadow = [0x00, 0x00, 0x00, 0x00, 0x00, 0x00, 0x00, 0x00],
       ucWriteIO = [0x8B, 0xB0, 0xBD, 0x7D, 0x09, 0xF8, 0x7D, 0xFA],
       ucWriteIOShadow = [0x00, 0x00, 0x00, 0x00, 0x00, 0x00, 0x00, 0x00],
       ucReadExtIO = arr 52 [0x00, 0x00, 0x00, 0x00, 0x00, 0x00, 0x00, 0x00, 0x00, 0x00, 0x00,
       0x00, 0x00, 0x00, 0x00, 0x00, 0x00, 0x00, 0x00, 0x00],
       ucReadIOExtShadow = arr 52 [0x00, 0x00, 0x00, 0x00, 0x00, 0x00, 0x00, 0x00, 0x00, 0x00,
       0x00, 0x00, 0x00, 0x00, 0x00, 0x00, 0x00, 0x00, 0x00, 0x00],
       ucWriteExtIO = arr 52 [0x00, 0x00, 0x00, 0x00, 0x00, 0x00, 0x00, 0x00, 0x00, 0x00, 0x00,
       0x00, 0x00, 0x00, 0x00, 0x00, 0x00, 0x00, 0x00, 0x00],
       ucWriteIOExtShadow = arr 52 [0x00, 0x00, 0x00, 0x00, 0x00, 0x00, 0x00, 0x00, 0x00, 0x00,
       0x00, 0x00, 0x00, 0x00, 0x00, 0x00, 0x00, 0x00, 0x00, 0x00], ucIDRAddress = 0x00,
       ucSPMCRAddress = 0x57, ucRAMPZAddress = 0, uiFlashPageSize = fill_b2 (64),
       ucEepromPageSize = 4, ulBootAddress = fill_b4 (0), uiUpperExtIOLoc = fill_b2 (0x0000),
       ulFlashSize = fill_b4 (4096),
       ucEepromInst = [0xBB, 0xFF, 0xBB, 0xEE, 0xBB, 0xCC, 0xB2, 0x0D, 0xBC, 0x07, 0xB4, 0x07,
       0xBA, 0x0D, 0xBB, 0xBC, 0x99, 0xE1, 0xBB, 0xAC], ucFlashInst = [0xB4, 0x07, 0x17],
       ucSPHaddr = 0x3E, ucSPLaddr = 0x3D, uiFlashpages = fill_b2 (4096 div 64),
       ucDWDRAddress = 0x20, ucDWBasePC = 0x00, ucAllowFullPageBitstream = 0x00,
       uiStartSmallestBootLoaderSection = fill_b2 (0x00), EnablePageProgramming = 1,
       ucCacheType = 0, uiSramStartAddr = fill_b2 (0x60), ucResetType = 0, ucPCMaskExtended = 0,
       ucPCMaskHigh = 0, ucEindAddress = 0, EECRAddress = fill_b2 (0x1C)\<rparr>\<rparr>"

definition dev_attiny48 :: jtag_device_def where
  "dev_attiny48 = \<lparr>
     dev_name = Some ''attiny48'', device_id = 0x9209,
     flash_page_size = 64, flash_page_count = 64,
     eeprom_page_size = 4, eeprom_page_count = 16,
     vectors_end = 20 * 2, device_flags = DEVFL_MKII_ONLY,
     io_reg_defs = None, dev_is_xmega = False,
     dev_desc1 = no_mkI,
     dev_desc2 = \<lparr>
       desc_cmd2 = CMND_SET_DEVICE_DESCRIPTOR,
       ucReadIO = [0xF8, 0x7F, 0x64, 0xF8, 0xEB, 0x3D, 0xB9, 0xA0],
       ucReadIOShadow = [0x00, 0x00, 0x00, 0x00, 0x00, 0x00, 0x00, 0x00],
       ucWriteIO = [0xB0, 0x0D, 0x00, 0xE0, 0xFB, 0x1D, 0xB8, 0xA0],
       ucWriteIOShadow = [0x00, 0x00, 0x00, 0x00, 0x00, 0x00, 0x00, 0x00],
       ucReadExtIO = arr 52 [0x53, 0xFF, 0x00, 0xDF, 0xF7, 0x0F, 0x00, 0x00, 0x00, 0x00, 0x00,
       0x7F, 0x00, 0x00, 0x00, 0x00, 0x00, 0x00, 0x00, 0x00],
       ucReadIOExtShadow = arr 52 [0x00, 0x00, 0x00, 0x00, 0x00, 0x00, 0x00, 0x00, 0x00, 0x00,
       0x00, 0x00, 0x00, 0x00, 0x00, 0x00, 0x00, 0x00, 0x00, 0x00],
       ucWriteExtIO = arr 52 [0x00, 0xFF, 0x00, 0xDC, 0xF7, 0x0F, 0x00, 0x00, 0x00, 0x00, 0x00,
       0x7F, 0x00, 0x00, 0x00, 0x00, 0x00, 0x00, 0x00, 0x00],
       ucWriteIOExtShadow = arr 52 [0x00, 0x00, 0x00, 0x00, 0x00, 0x00, 0x00, 0x00, 0x00, 0x00,
       0x00, 0x00, 0x00, 0x00, 0x00, 0x00, 0x00, 0x00, 0x00, 0x00], ucIDRAddress = 0x00,
       ucSPMCRAddress = 0x00, ucRAMPZAddress = 0, uiFlashPageSize = fill_b2 (64),
       ucEepromPageSize = 4, ulBootAddress = fill_b4 (0x0000), uiUpperExtIOLoc = fill_b2 (0xBD),
       ulFlashSize = fill_b4 (4096),
       ucEepromInst = [0xBD, 0xF2, 0xBD, 0xE1, 0xBB, 0xCF, 0xB4, 0x00, 0xBE, 0x01, 0xB6, 0x01,
       0xBC, 0x00, 0xBB, 0xBF, 0x99, 0xF9, 0xBB, 0xAF], ucFlashInst = [0xB6, 0x01, 0x11],
       ucSPHaddr = 0x3E, ucSPLaddr = 0x3D, uiFlashpages = fill_b2 (4096 div 64),
       ucDWDRAddress = 0x31, ucDWBasePC = 0x00, ucAllowFullPageBitstream = 0x00,
       uiStartSmallestBootLoaderSection = fill_b2 (0x00), EnablePageProgramming = 1,
       ucCacheType = 0, uiSramStartAddr = fill_b2 (0x100), ucResetType = 0, ucPCMaskExtended = 0,
       ucPCMaskHigh = 0, ucEindAddress = 0, EECRAddress = fill_b2 (0x1F)\<rparr>\<rparr>"

definition dev_attiny88 :: jtag_device_def where
  "dev_attiny88 = \<lparr>
     dev_name = Some ''attiny88'', device_id = 0x9311,
     flash_page_size = 64, flash_page_count = 128,
     eeprom_page_size = 4, eeprom_page_count = 16,
     vectors_end = 20 * 2, device_flags = DEVFL_MKII_ONLY,
     io_reg_defs = None, dev_is_xmega = True,
     dev_desc1 = no_mkI,
     dev_desc2 = \<lparr>
       desc_cmd2 = CMND_SET_DEVICE_DESCRIPTOR,
       ucReadIO = [0xF8, 0x7F, 0x64, 0xF8, 0xEB, 0x3D, 0xB9, 0xA0],
       ucReadIOShadow = [0x00, 0x00, 0x00, 0x00, 0x00, 0x00, 0x00, 0x00],
       ucWriteIO = [0xB0, 0x0D, 0x00, 0xE0, 0xFB, 0x1D, 0xB8, 0xA0],
       ucWriteIOShadow = [0x00, 0x00, 0x00, 0x00, 0x00, 0x00, 0x00, 0x00],
       ucReadExtIO = arr 52 [0x53, 0xFF, 0x00, 0xDF, 0xF7, 0x0F, 0x00, 0x00, 0x00, 0x00, 0x00,
       0x7F, 0x00, 0x00, 0x00, 0x00, 0x00, 0x00, 0x00, 0x00],
       ucReadIOExtShadow = arr 52 [0x00, 0x00, 0x00, 0x00, 0x00, 0x00, 0x00, 0x00, 0x00, 0x00,
       0x00, 0x00, 0x00, 0x00, 0x00, 0x00, 0x00, 0x00, 0x00, 0x00],
       ucWriteExtIO = arr 52 [0x00, 0xFF, 0x00, 0xDC, 0xF7, 0x0F, 0x00, 0x00, 0x00, 0x00, 0x00,
       0x7F, 0x00, 0x00, 0x00, 0x00, 0x00, 0x00, 0x00, 0x00],
       ucWriteIOExtShadow = arr 52 [0x00, 0x00, 0x00, 0x00, 0x00, 0x00, 0x00, 0x00, 0x00, 0x00,
       0x00, 0x00, 0x00, 0x00, 0x00, 0x00, 0x00, 0x00, 0x00, 0x00], ucIDRAddress = 0x00,
       ucSPMCRAddress = 0x00, ucRAMPZAddress = 0, uiFlashPageSize = fill_b2 (64),
       ucEepromPageSize = 4, ulBootAddress = fill_b4 (0x0000), uiUpperExtIOLoc = fill_b2 (0xBD),
       ulFlashSize = fill_b4 (8192),
       ucEepromInst = [0xBD, 0xF2, 0xBD, 0xE1, 0xBB, 0xCF, 0xB4, 0x00, 0xBE, 0x01, 0xB6, 0x01,
       0xBC, 0x00, 0xBB, 0xBF, 0x99, 0xF9, 0xBB, 0xAF], ucFlashInst = [0xB6, 0x01, 0x11],
       ucSPHaddr = 0x3E, ucSPLaddr = 0x3D, uiFlashpages = fill_b2 (8192 div 64),
       ucDWDRAddress = 0x31, ucDWBasePC = 0x00, ucAllowFullPageBitstream = 0x00,
       uiStartSmallestBootLoaderSection = fill_b2 (0x00), EnablePageProgramming = 1,
       ucCacheType = 0, uiSramStartAddr = fill_b2 (0x100), ucResetType = 0, ucPCMaskExtended = 0,
       ucPCMaskHigh = 0, ucEindAddress = 0, EECRAddress = fill_b2 (0x1F)\<rparr>\<rparr>"

definition dev_atxmega128a1revd :: jtag_device_def where
  "dev_atxmega128a1revd = \<lparr>
     dev_name = Some ''atxmega128a1revd'', device_id = 0x9741,
     flash_page_size = 512, flash_page_count = 272,
     eeprom_page_size = 32, eeprom_page_count = 64,
     vectors_end = 0 * 4, device_flags = DEVFL_MKII_ONLY,
     io_reg_defs = None, dev_is_xmega = False,
     dev_desc1 = no_mkI,
     dev_desc2 = \<lparr>
       desc_cmd2 = CMND_SET_DEVICE_DESCRIPTOR,
       ucReadIO = [0xFF, 0xFF, 0xFF, 0xF9, 0xFF, 0x3D, 0xB9, 0xF8],
       ucReadIOShadow = [0x00, 0x00, 0x00, 0x00, 0x00, 0x00, 0x00, 0x00],
       ucWriteIO = [0xFF, 0xFF, 0x1F, 0xE0, 0xFF, 0x1D, 0xA9, 0xF8],
       ucWriteIOShadow = [0x00, 0x00, 0x00, 0x00, 0x00, 0x00, 0x00, 0x00],
       ucReadExtIO = arr 52 [0x73, 0xFF, 0x3F, 0xFF, 0xF7, 0x3F, 0xF7, 0x3F, 0xF7, 0x3F, 0x5F,
       0x3F, 0x37, 0x37, 0x36, 0x00, 0x00, 0x00, 0x00, 0x00, 0xFF, 0x0F, 0x00, 0x00, 0xF7, 0x3F,
       0x36, 0x00],
       ucReadIOExtShadow = arr 52 [0x00, 0x00, 0x00, 0x00, 0x00, 0x00, 0x00, 0x00, 0x00, 0x00,
       0x00, 0x00, 0x00, 0x00, 0x00, 0x00, 0x00, 0x00, 0x00, 0x00],
       ucWriteExtIO = arr 52 [0x73, 0xFF, 0x3F, 0xF8, 0xF7, 0x3F, 0xF7, 0x3F, 0xF7, 0x3F, 0x5F,
       0x2F, 0x36, 0x36, 0x36, 0x00, 0x00, 0x00, 0x00, 0x00, 0xFF, 0x0F, 0x00, 0x00, 0xF7, 0x3F,
       0x36, 0x00],
       ucWriteIOExtShadow = arr 52 [0x00, 0x00, 0x00, 0x00, 0x00, 0x00, 0x00, 0x00, 0x00, 0x00,
       0x00, 0x00, 0x00, 0x00, 0x00, 0x00, 0x00, 0x00, 0x00, 0x00], ucIDRAddress = 0x31,
       ucSPMCRAddress = 0x57, ucRAMPZAddress = 0, uiFlashPageSize = fill_b2 (512),
       ucEepromPageSize = 32, ulBootAddress = fill_b4 (0x20000),
       uiUpperExtIOLoc = fill_b2 (0x136), ulFlashSize = fill_b4 (139264),
       ucEepromInst = arr 20 [0x00], ucFlashInst = arr 3 [0x00], ucSPHaddr = 0x3E,
       ucSPLaddr = 0x3D, uiFlashpages = fill_b2 (139264 div 512), ucDWDRAddress = 0x00,
       ucDWBasePC = 0x00, ucAllowFullPageBitstream = 0x00,
       uiStartSmallestBootLoaderSection = fill_b2 (0x00), EnablePageProgramming = 1,
       ucCacheType = 0x02, uiSramStartAddr = fill_b2 (8192), ucResetType = 0,
       ucPCMaskExtended = 0, ucPCMaskHigh = 0, ucEindAddress = 0, EECRAddress = fill_b2 (0)\<rparr>\<rparr>"

definition dev_atxmega128a1 :: jtag_device_def where
  "dev_atxmega128a1 = \<lparr>
     dev_name = Some ''atxmega128a1'', device_id = 0x974c,
     flash_page_size = 512, flash_page_count = 272,
     eeprom_page_size = 32, eeprom_page_count = 64,
     vectors_end = 0 * 4, device_flags = DEVFL_MKII_ONLY,
     io_reg_defs = None, dev_is_xmega = True,
     dev_desc1 = no_mkI,
     dev_desc2 = \<lparr>
       desc_cmd2 = CMND_SET_DEVICE_DESCRIPTOR,
       ucReadIO = [0xFF, 0xFF, 0xFF, 0xF9, 0xFF, 0x3D, 0xB9, 0xF8],
       ucReadIOShadow = [0x00, 0x00, 0x00, 0x00, 0x00, 0x00, 0x00, 0x00],
       ucWriteIO = [0xFF, 0xFF, 0x1F, 0xE0, 0xFF, 0x1D, 0xA9, 0xF8],
       ucWriteIOShadow = [0x00, 0x00, 0x00, 0x00, 0x00, 0x00, 0x00, 0x00],
       ucReadExtIO = arr 52 [0x73, 0xFF, 0x3F, 0xFF, 0xF7, 0x3F, 0xF7, 0x3F, 0xF7, 0x3F, 0x5F,
       0x3F, 0x37, 0x37, 0x36, 0x00, 0x00, 0x00, 0x00, 0x00, 0xFF, 0x0F, 0x00, 0x00, 0xF7, 0x3F,
       0x36, 0x00],
       ucReadIOExtShadow = arr 52 [0x00, 0x00, 0x00, 0x00, 0x00, 0x00, 0x00, 0x00, 0x00, 0x00,
       0x00, 0x00, 0x00, 0x00, 0x00, 0x00, 0x00, 0x00, 0x00, 0x00],
       ucWriteExtIO = arr 52 [0x73, 0xFF, 0x3F, 0xF8, 0xF7, 0x3F, 0xF7, 0x3F, 0xF7, 0x3F, 0x5F,
       0x2F, 0x36, 0x36, 0x36, 0x00, 0x00, 0x00, 0x00, 0x00, 0xFF, 0x0F, 0x00, 0x00, 0xF7, 0x3F,
       0x36, 0x00],
       ucWriteIOExtShadow = arr 52 [0x00, 0x00, 0x00, 0x00, 0x00, 0x00, 0x00, 0x00, 0x00, 0x00,
       0x00, 0x00, 0x00, 0x00, 0x00, 0x00, 0x00, 0x00, 0x00, 0x00], ucIDRAddress = 0x31,
       ucSPMCRAddress = 0x57, ucRAMPZAddress = 0, uiFlashPageSize = fill_b2 (512),
       ucEepromPageSize = 32, ulBootAddress = fill_b4 (0x20000),
       uiUpperExtIOLoc = fill_b2 (0x136), ulFlashSize = fill_b4 (139264),
       ucEepromInst = arr 20 [0x00], ucFlashInst = arr 3 [0x00], ucSPHaddr = 0x3E,
       ucSPLaddr = 0x3D, uiFlashpages = fill_b2 (139264 div 512), ucDWDRAddress = 0x00,
       ucDWBasePC = 0x00, ucAllowFullPageBitstream = 0x00,
       uiStartSmallestBootLoaderSection = fill_b2 (0x00), EnablePageProgramming = 1,
       ucCacheType = 0x02, uiSramStartAddr = fill_b2 (8192), ucResetType = 0,
       ucPCMaskExtended = 0, ucPCMaskHigh = 0, ucEindAddress = 0, EECRAddress = fill_b2 (0)\<rparr>\<rparr>"

definition dev_atmega128rfa1 :: jtag_device_def where
  "dev_atmega128rfa1 = \<lparr>
     dev_name = Some ''atmega128rfa1'', device_id = 0xA701,
     flash_page_size = 256, flash_page_count = 512,
     eeprom_page_size = 8, eeprom_page_count = 512,
     vectors_end = 71 * 4, device_flags = DEVFL_MKII_ONLY,
     io_reg_defs = None, dev_is_xmega = False,
     dev_desc1 = no_mkI,
     dev_desc2 = \<lparr>
       desc_cmd2 = CMND_SET_DEVICE_DESCRIPTOR,
       ucReadIO = [0xFF, 0xFF, 0xFF, 0xF9, 0xFF, 0x3D, 0xB9, 0xF8],
       ucReadIOShadow = [0x00, 0x00, 0x00, 0x00, 0x00, 0x00, 0x00, 0x00],
       ucWriteIO = [0xFF, 0xFF, 0x1F, 0xE0, 0xFF, 0x1D, 0xA9, 0xF8],
       ucWriteIOShadow = [0x00, 0x00, 0x00, 0x00, 0x00, 0x00, 0x00, 0x00],
       ucReadExtIO = [0x73, 0xFF, 0x3F, 0xFF, 0xF7, 0x3F, 0xF7, 0x3F, 0xF7, 0x3F, 0x5F, 0x3F,
       0x37, 0x37, 0x36, 0xF0, 0xFF, 0xFF, 0xFF, 0x01, 0xFF, 0x0F, 0x00, 0x00, 0xF7, 0x3F, 0x36,
       0x00, 0xFF, 0xFF, 0xFF, 0xFF, 0xFF, 0xFF, 0xFF, 0xFF, 0xFF, 0xFF, 0xFF, 0xFF, 0xFF, 0xFF,
       0xFF, 0xFF, 0xFF, 0xFF, 0xFF, 0xFF, 0xFF, 0xFF, 0xFF, 0xFF],
       ucReadIOExtShadow = arr 52 [0x00, 0x00, 0x00, 0x00, 0x00, 0x00, 0x00, 0x00, 0x00, 0x00,
       0x00, 0x00, 0x00, 0x00, 0x00, 0x00, 0x00, 0x00, 0x00, 0x00],
       ucWriteExtIO = [0x73, 0xFF, 0x3F, 0xF8, 0xF7, 0x3F, 0xF7, 0x3F, 0xF7, 0x3F, 0x5F, 0x2F,
       0x36, 0x36, 0x36, 0xF0, 0xFF, 0xFF, 0xFF, 0x01, 0xFF, 0x0F, 0x00, 0x00, 0xF7, 0x3F, 0x36,
       0x00, 0xFF, 0xFF, 0xFF, 0xFF, 0xFF, 0xFF, 0xFF, 0xFF, 0xFF, 0xFF, 0xFF, 0xFF, 0xFF, 0xFF,
       0xFF, 0xFF, 0xFF, 0xFF, 0xFF, 0xFF, 0xFF, 0xFF, 0xFF, 0xFF],
       ucWriteIOExtShadow = arr 52 [0x00, 0x00, 0x00, 0x00, 0x00, 0x00, 0x00, 0x00, 0x00, 0x00,
       0x00, 0x00, 0x00, 0x00, 0x00, 0x00, 0x00, 0x00, 0x00, 0x00], ucIDRAddress = 0x31,
       ucSPMCRAddress = 0x57, ucRAMPZAddress = 0x3B, uiFlashPageSize = fill_b2 (256),
       ucEepromPageSize = 8, ulBootAddress = fill_b4 (0xFE00),
       uiUpperExtIOLoc = fill_b2 (0x01FF), ulFlashSize = fill_b4 (131072),
       ucEepromInst = arr 20 [0x00], ucFlashInst = arr 3 [0x00], ucSPHaddr = 0x3E,
       ucSPLaddr = 0x3D, uiFlashpages = fill_b2 (131072 div 256), ucDWDRAddress = 0x00,
       ucDWBasePC = 0x00, ucAllowFullPageBitstream = 0x00,
       uiStartSmallestBootLoaderSection = fill_b2 (0x00), EnablePageProgramming = 1,
       ucCacheType = 0, uiSramStartAddr = fill_b2 (0x200), ucResetType = 0, ucPCMaskExtended = 0,
       ucPCMaskHigh = 0, ucEindAddress = 0x3C, EECRAddress = fill_b2 (0x1F)\<rparr>\<rparr>"

definition terminator :: jtag_device_def where
  "terminator = \<lparr>
     dev_name = None, device_id = 0, flash_page_size = 0, flash_page_count = 0,
     eeprom_page_size = 0, eeprom_page_count = 0, vectors_end = 0, device_flags = DEVFL_NONE,
     io_reg_defs = None, dev_is_xmega = False, dev_desc1 = no_mkI, dev_desc2 = no_mkII\<rparr>"

definition deviceDefinitions :: "jtag_device_def list" where
  "deviceDefinitions = [
     dev_atmega16, dev_atmega162, dev_atmega169, dev_atmega323, dev_atmega32, dev_atmega64,
     dev_atmega128, dev_at90can128, dev_atmega164p, dev_atmega324p, dev_atmega644, dev_atmega325,
     dev_atmega3250, dev_atmega645, dev_atmega6450, dev_atmega329, dev_atmega3290, dev_atmega649,
     dev_atmega6490, dev_atmega640, dev_atmega1280, dev_atmega1281, dev_atmega2560,
     dev_atmega2561, dev_atmega48, dev_atmega88, dev_atmega168, dev_attiny13, dev_attiny2313,
     dev_at90pwm2, dev_at90pwm3, dev_at90pwm2b, dev_at90pwm3b, dev_attiny24, dev_attiny44,
     dev_attiny84, dev_attiny25, dev_attiny45, dev_attiny85, dev_attiny261, dev_attiny461,
     dev_attiny861, dev_atmega32c1, dev_atmega32m1, dev_at90can32, dev_at90can64, dev_at90pwm216,
     dev_at90pwm316, dev_at90usb1287, dev_at90usb162, dev_at90usb646, dev_at90usb647,
     dev_atmega1284p, dev_atmega165, dev_atmega165p, dev_atmega168p, dev_atmega16hva,
     dev_atmega3250p, dev_atmega325p, dev_atmega328p, dev_atmega3290p, dev_atmega329p,
     dev_atmega32hvb, dev_atmega32u4, dev_atmega406, dev_atmega48p, dev_atmega644p,
     dev_atmega88p, dev_attiny167, dev_attiny43u, dev_attiny48, dev_attiny88,
     dev_atxmega128a1revd, dev_atxmega128a1, dev_atmega128rfa1, terminator]"


section \<open>Consistency of the table\<close>

lemmas device_entry_defs =
  dev_atmega16_def dev_atmega162_def dev_atmega169_def dev_atmega323_def dev_atmega32_def
  dev_atmega64_def dev_atmega128_def dev_at90can128_def dev_atmega164p_def
  dev_atmega324p_def dev_atmega644_def dev_atmega325_def dev_atmega3250_def
  dev_atmega645_def dev_atmega6450_def dev_atmega329_def dev_atmega3290_def
  dev_atmega649_def dev_atmega6490_def dev_atmega640_def dev_atmega1280_def
  dev_atmega1281_def dev_atmega2560_def dev_atmega2561_def dev_atmega48_def dev_atmega88_def
  dev_atmega168_def dev_attiny13_def dev_attiny2313_def dev_at90pwm2_def dev_at90pwm3_def
  dev_at90pwm2b_def dev_at90pwm3b_def dev_attiny24_def dev_attiny44_def dev_attiny84_def
  dev_attiny25_def dev_attiny45_def dev_attiny85_def dev_attiny261_def dev_attiny461_def
  dev_attiny861_def dev_atmega32c1_def dev_atmega32m1_def dev_at90can32_def
  dev_at90can64_def dev_at90pwm216_def dev_at90pwm316_def dev_at90usb1287_def
  dev_at90usb162_def dev_at90usb646_def dev_at90usb647_def dev_atmega1284p_def
  dev_atmega165_def dev_atmega165p_def dev_atmega168p_def dev_atmega16hva_def
  dev_atmega3250p_def dev_atmega325p_def dev_atmega328p_def dev_atmega3290p_def
  dev_atmega329p_def dev_atmega32hvb_def dev_atmega32u4_def dev_atmega406_def
  dev_atmega48p_def dev_atmega644p_def dev_atmega88p_def dev_attiny167_def dev_attiny43u_def
  dev_attiny48_def dev_attiny88_def dev_atxmega128a1revd_def dev_atxmega128a1_def
  dev_atmega128rfa1_def terminator_def

lemmas device_defs = device_entry_defs no_mkI_def no_mkII_def

lemma arr_4: "arr 4 [] = [0, 0, 0, 0]"
  by (simp add: arr_def numeral_eq_Suc)

text \<open>The descriptors of every device have the sizes that are sent.\<close>

lemma devices_sized:
  "list_all (\<lambda>d. length (desc1_bytes (dev_desc1 d)) = sizeof_desc1 \<and>
     length (desc2_bytes (dev_desc2 d)) = sizeof_desc2) deviceDefinitions"
proof -
  have "list_all (\<lambda>d. desc1_ok (dev_desc1 d) \<and> desc2_ok (dev_desc2 d)) deviceDefinitions"
    by (simp add: deviceDefinitions_def)
      (simp add: device_defs desc1_ok_def desc2_ok_def arr_def fill_b2_def fill_b4_def)
  then show ?thesis
    by (auto simp: list_all_iff length_desc1 length_desc2)
qed

text \<open>The flash geometry used for page arithmetic agrees with the descriptor sent to the box.\<close>

definition flash_geometry_ok :: "jtag_device_def \<Rightarrow> bool" where
  "flash_geometry_ok d \<longleftrightarrow>
     ulFlashSize (dev_desc2 d) = u32_to_b4 (ucast (flash_page_size d * flash_page_count d)) \<and>
     uiFlashPageSize (dev_desc2 d) = u16_to_b2 (ucast (flash_page_size d)) \<and>
     uiFlashpages (dev_desc2 d) = u16_to_b2 (ucast (flash_page_count d)) \<and>
     ucEepromPageSize (dev_desc2 d) = eeprom_page_size d"

lemma no_mkII_geometry:
  "ulFlashSize no_mkII = [0, 0, 0, 0]" "uiFlashPageSize no_mkII = [0, 0]"
  "uiFlashpages no_mkII = [0, 0]" "ucEepromPageSize no_mkII = 0"
  by (simp_all add: no_mkII_def arr_def numeral_eq_Suc)

text \<open>C4: the page geometry of the table and the geometry in the mkII descriptor agree for every
  device but one: the descriptor of the ATmega640 announces twice its flash size.\<close>

theorem devices_flash_geometry:
  "map dev_name (filter (\<lambda>d. \<not> flash_geometry_ok d) deviceDefinitions) = [Some ''atmega640'']"
  by (simp add: deviceDefinitions_def flash_geometry_ok_def device_entry_defs no_mkII_geometry
      fill_b2_def fill_b4_def u32_to_b4_def u16_to_b2_def)

text \<open>The devices whose pages do not fit the page caches of the mkII driver (256 bytes of
  flash, 16 bytes of EEPROM) are exactly the two ATxmega entries.\<close>

lemma devices_pages_cached:
  "map dev_name (filter (\<lambda>d. MAX_FLASH_PAGE_SIZE < unat (flash_page_size d) \<or>
       MAX_EEPROM_PAGE_SIZE < unat (eeprom_page_size d)) deviceDefinitions) =
     [Some ''atxmega128a1revd'', Some ''atxmega128a1'']"
  by (simp add: deviceDefinitions_def device_entry_defs code_defs)

text \<open>The entries marked as ATxmega parts are \<^verbatim>\<open>attiny88\<close> and \<^verbatim>\<open>atxmega128a1\<close>; the mark of
  \<^verbatim>\<open>atxmega128a1revd\<close> is missing.\<close>

lemma devices_xmega:
  "map dev_name (filter dev_is_xmega deviceDefinitions) = [Some ''attiny88'', Some ''atxmega128a1'']"
  by (simp add: deviceDefinitions_def device_entry_defs)

lemma page_sizes_power_of_2:
  "list_all (\<lambda>d. unat (flash_page_size d) \<in> {0, 32, 64, 128, 256, 512} \<and>
     unat (eeprom_page_size d) \<in> {0, 1, 4, 8, 32}) deviceDefinitions"
  by (simp add: deviceDefinitions_def device_entry_defs)

end
