(* ===== verification/Channel.thy ===== *)
theory Channel
  imports Device_Table
begin

text \<open>
  The connection to the emulator: the members of \<open>class jtag\<close> (\<^verbatim>\<open>src/src/jtag.h\<close>), and
  \<open>timeout_read\<close>, \<open>safewrite\<close> and \<open>changeLocalBitRate\<close> of \<^verbatim>\<open>src/src/jtaggeneric.cc\<close> and
  \<^verbatim>\<open>src/src/jtagserial.cc\<close>.

  What the operating system will answer is part of the state, so that every statement is for all
  behaviours of the line: \<open>rx\<close> is the script of the coming \<open>select\<close> and \<open>read\<close> calls (bytes
  arrive in chunks of any size; a script that is over is a silent line), \<open>wq\<close> the results of the
  coming \<open>write\<close> calls, \<open>flq\<close> how much of \<open>rx\<close> the coming \<open>tcflush\<close> calls find waiting and
  drop. What the program did to the world is logged: \<open>tx\<close> are the bytes written
  to the emulator and \<open>ctrl_log\<close> those written to the control pipe of the USB daemon. \<open>fresh\<close>
  gives the contents of memory that was allocated and never written.
\<close>

section \<open>State\<close>

text \<open>An empty chunk is the end of file: \<open>select\<close> then always reports the descriptor readable and
  \<open>read\<close> returns 0. \<open>Again\<close> is a \<open>read\<close> that fails with \<open>EAGAIN\<close>, \<open>Interrupted\<close> a
  \<open>select\<close> that fails with \<open>EINTR\<close>.\<close>

datatype rxev = Chunk "u8 list" | Timeout | Again | Interrupted | ReadError

datatype wrev = Wrote nat | Intr | WriteError

datatype emulator = EMULATOR_JTAGICE | EMULATOR_DRAGON

record jtag =
  rx :: "rxev list"
  wq :: "wrev list"
  flq :: "nat list"
  tx :: "u8 list"
  ctrl_log :: "u8 list"
  fresh :: "nat \<Rightarrow> u8"
  tty_ok :: bool
  local_rate :: int
  is_usb :: bool
  ctrlPipe :: int
  emu_type :: emulator
  apply_nSRST :: bool
  programmingEnabled :: bool
  device_name :: "string option"
  units_before :: u8
  units_after :: u8
  bits_before :: u8
  bits_after :: u8
  p_device_def :: "jtag_device_def option"

definition JTAG_CAUSE :: string where
  "JTAG_CAUSE = ''JTAG ICE communication failed''"

definition jtagCheck :: "int \<Rightarrow> ('s, unit) io" where
  "jtagCheck status = unixCheck status JTAG_CAUSE"

lemma jtagCheck_simps [io_simps]:
  "0 \<le> n \<Longrightarrow> jtagCheck n = io_ret ()" "n < 0 \<Longrightarrow> jtagCheck n = io_throw (Thrown JTAG_CAUSE)"
  by (simp_all add: jtagCheck_def unixCheck_def)

lemma preserves_jtagCheck [preserve]: "preserves I (jtagCheck n)"
  by (simp add: jtagCheck_def preserve)

section \<open>Reading\<close>

text \<open>
  The loop of \<open>timeout_read\<close> on the script alone: \<open>acc\<close> is the part of the buffer already filled.
  It has no bound: at the end of file it goes round for ever, which is the value \<open>None\<close>.
\<close>

partial_function (option) read_loop ::
  "nat \<Rightarrow> u8 list \<Rightarrow> rxev list \<Rightarrow> ((err + u8 list) \<times> rxev list) option" where
  "read_loop count acc evs =
     (if \<not> length acc < count then Some (Inr acc, evs)
      else case evs of
        [] \<Rightarrow> Some (Inr acc, [])
      | Timeout # evs' \<Rightarrow> Some (Inr acc, evs')
      | Again # evs' \<Rightarrow> read_loop count acc evs'
      | Interrupted # evs' \<Rightarrow> read_loop count acc evs'
      | ReadError # evs' \<Rightarrow> Some (Inl (Thrown JTAG_CAUSE), evs')
      | Chunk bs # evs' \<Rightarrow>
          if bs = [] then read_loop count acc evs
          else let thisread = min (length bs) (count - length acc) in
            read_loop count (acc @ take thisread bs)
              (if thisread < length bs then Chunk (drop thisread bs) # evs' else evs'))"

definition timeout_read :: "nat \<Rightarrow> ('z jtag_scheme, u8 list) io" where
  "timeout_read count s =
     (case read_loop count [] (rx s) of
        None \<Rightarrow> None
      | Some (r, evs) \<Rightarrow> Some (r, s\<lparr>rx := evs\<rparr>))"

text \<open>The bytes that arrive before the line stops, and the script from the stop on.\<close>

fun avail :: "rxev list \<Rightarrow> u8 list" where
  "avail (Chunk bs # evs) = (if bs = [] then [] else bs @ avail evs)"
| "avail (Again # evs) = avail evs"
| "avail (Interrupted # evs) = avail evs"
| "avail _ = []"

fun stop :: "rxev list \<Rightarrow> rxev list" where
  "stop (Chunk bs # evs) = (if bs = [] then Chunk bs # evs else stop evs)"
| "stop (Again # evs) = stop evs"
| "stop (Interrupted # evs) = stop evs"
| "stop evs = evs"

text \<open>How much of the script is left: every byte and every event counts.\<close>

fun rx_size :: "rxev list \<Rightarrow> nat" where
  "rx_size [] = 0"
| "rx_size (Chunk bs # evs) = Suc (length bs + rx_size evs)"
| "rx_size (_ # evs) = Suc (rx_size evs)"

lemma read_loop_done: "count \<le> length acc \<Longrightarrow> read_loop count acc evs = Some (Inr acc, evs)"
  by (subst read_loop.simps) simp

lemma read_loop_enough:
  assumes "length acc \<le> count" "count \<le> length acc + length (avail evs)"
  shows "\<exists>evs'. read_loop count acc evs = Some (Inr (acc @ take (count - length acc) (avail evs)), evs') \<and>
     avail evs' = drop (count - length acc) (avail evs) \<and> stop evs' = stop evs \<and>
     rx_size evs' + (count - length acc) \<le> rx_size evs"
  using assms
proof (induction "rx_size evs" arbitrary: acc evs rule: less_induct)
  case less
  show ?case
  proof (cases "length acc < count")
    case False
    with less.prems show ?thesis by (simp add: read_loop_done)
  next
    case True
    with less.prems have "avail evs \<noteq> []" by auto
    then consider (chunk) bs evs' where "evs = Chunk bs # evs'" "bs \<noteq> []"
      | (again) evs' where "evs = Again # evs' \<or> evs = Interrupted # evs'"
      by (cases evs rule: avail.cases) (auto split: if_splits)
    then show ?thesis
    proof cases
      case again
      then show ?thesis
        using less.hyps [of evs' acc] less.prems True by (subst read_loop.simps) auto
    next
      case chunk
      define k where "k = min (length bs) (count - length acc)"
      define next_evs where "next_evs = (if k < length bs then Chunk (drop k bs) # evs' else evs')"
      have k: "0 < k" "k \<le> length bs" "k \<le> count - length acc"
        using chunk True by (auto simp: k_def)
      have step: "read_loop count acc evs = read_loop count (acc @ take k bs) next_evs"
        using True chunk by (subst read_loop.simps) (simp add: k_def next_evs_def Let_def)
      have av: "avail evs = take k bs @ avail next_evs" and st: "stop next_evs = stop evs"
        and sz: "rx_size next_evs + k \<le> rx_size evs"
        using chunk k by (auto simp: next_evs_def)
      have "rx_size next_evs < rx_size evs"
        using sz k by simp
      moreover have "length acc + k \<le> count" "count \<le> length acc + k + length (avail next_evs)"
        using k True less.prems av by simp_all
      ultimately
      obtain evs'' where "read_loop count (acc @ take k bs) next_evs =
            Some (Inr ((acc @ take k bs) @ take (count - length acc - k) (avail next_evs)), evs'')"
          "avail evs'' = drop (count - length acc - k) (avail next_evs)" "stop evs'' = stop next_evs"
          "rx_size evs'' + (count - length acc - k) \<le> rx_size next_evs"
        using less.hyps [of next_evs "acc @ take k bs"] k by (auto simp: min_absorb2)
      then show ?thesis
        unfolding step using av st sz k by (auto simp: min_absorb2)
    qed
  qed
qed

text \<open>Too few bytes before the stop: it depends on what the line stopped with.\<close>

lemma read_loop_short:
  assumes "length acc + length (avail evs) < count"
  shows "read_loop count acc evs = read_loop count (acc @ avail evs) (stop evs)"
  using assms
proof (induction evs arbitrary: acc rule: avail.induct)
  case (1 bs evs)
  show ?case
  proof (cases "bs = []")
    case False
    with "1.prems" have "read_loop count acc (Chunk bs # evs) = read_loop count (acc @ bs) evs"
      by (subst read_loop.simps) (simp add: Let_def)
    with False "1.prems" show ?thesis
      using "1.IH" [of "acc @ bs"] by simp
  qed simp
next
  case (2 evs)
  then show ?case
    by (subst read_loop.simps) auto
next
  case (3 evs)
  then show ?case
    by (subst read_loop.simps) auto
qed simp_all

lemma read_loop_eof: "length acc < count \<Longrightarrow> read_loop count acc (Chunk [] # evs) = None"
proof -
  have "n \<le> length a \<or> e \<noteq> Chunk [] # evs" if "read_loop n a e = Some y" for n a e y
    by (rule read_loop.raw_induct [where P = "\<lambda>n a e _. n \<le> length a \<or> e \<noteq> Chunk [] # evs", OF _ that])
      (fastforce split: if_splits)
  then show "length acc < count \<Longrightarrow> ?thesis"
    by (cases "read_loop count acc (Chunk [] # evs)") fastforce+
qed

lemma avail_stop: "avail (stop evs) = []"
  by (induction evs rule: stop.induct) auto

lemma rx_size_stop: "rx_size (stop evs) + length (avail evs) \<le> rx_size evs"
  by (induction evs rule: stop.induct) auto

lemma stop_cases:
  obtains (silent) "stop evs = []" | (timeout) evs' where "stop evs = Timeout # evs'"
    | (error) evs' where "stop evs = ReadError # evs'" | (eof) evs' where "stop evs = Chunk [] # evs'"
proof -
  have "stop evs = [] \<or> (\<exists>evs'. stop evs = Timeout # evs') \<or> (\<exists>evs'. stop evs = ReadError # evs')
      \<or> (\<exists>evs'. stop evs = Chunk [] # evs')"
    by (induction evs rule: stop.induct) auto
  then show ?thesis
    using that by blast
qed

text \<open>The complete behaviour of \<open>timeout_read\<close>.\<close>

lemma timeout_read_enough:
  assumes "count \<le> length (avail (rx s))"
  shows "\<exists>evs. timeout_read count s = Some (Inr (take count (avail (rx s))), s\<lparr>rx := evs\<rparr>) \<and>
     avail evs = drop count (avail (rx s)) \<and> stop evs = stop (rx s) \<and>
     rx_size evs + count \<le> rx_size (rx s)"
  using read_loop_enough [of "[]" count "rx s"] assms by (auto simp: timeout_read_def)

lemma timeout_read_short:
  assumes "length (avail (rx s)) < count"
  shows "timeout_read count s = (case stop (rx s) of
       [] \<Rightarrow> Some (Inr (avail (rx s)), s\<lparr>rx := []\<rparr>)
     | Timeout # evs \<Rightarrow> Some (Inr (avail (rx s)), s\<lparr>rx := evs\<rparr>)
     | ReadError # evs \<Rightarrow> Some (Inl (Thrown JTAG_CAUSE), s\<lparr>rx := evs\<rparr>)
     | _ \<Rightarrow> None)"
proof -
  have "read_loop count [] (rx s) = read_loop count (avail (rx s)) (stop (rx s))"
    using read_loop_short [of "[]" "rx s" count] assms by simp
  moreover have "read_loop count (avail (rx s)) (stop (rx s)) = (case stop (rx s) of
       [] \<Rightarrow> Some (Inr (avail (rx s)), [])
     | Timeout # evs \<Rightarrow> Some (Inr (avail (rx s)), evs)
     | ReadError # evs \<Rightarrow> Some (Inl (Thrown JTAG_CAUSE), evs)
     | _ \<Rightarrow> None)"
    using assms by (cases "rx s" rule: stop_cases; subst read_loop.simps) (simp_all add: read_loop_eof)
  ultimately show ?thesis
    by (cases "rx s" rule: stop_cases) (simp_all add: timeout_read_def)
qed

text \<open>Bytes read were in the script: the other functions terminate because it gets shorter.\<close>

lemma timeout_read_size:
  assumes "timeout_read count s = Some (Inr bs, s')"
  shows "rx_size (rx s') + length bs \<le> rx_size (rx s)" and "length bs \<le> count"
    and "s' = s\<lparr>rx := rx s'\<rparr>"
proof -
  have "rx_size (rx s') + length bs \<le> rx_size (rx s) \<and> length bs \<le> count \<and> s' = s\<lparr>rx := rx s'\<rparr>"
  proof (cases "count \<le> length (avail (rx s))")
    case True
    then show ?thesis
      using timeout_read_enough [of count s] assms by auto
  next
    case False
    then have "length (avail (rx s)) < count" by simp
    then show ?thesis
      using timeout_read_short [of s count] assms rx_size_stop [of "rx s"]
      by (cases "rx s" rule: stop_cases) auto
  qed
  then show "rx_size (rx s') + length bs \<le> rx_size (rx s)" "length bs \<le> count" "s' = s\<lparr>rx := rx s'\<rparr>"
    by blast+
qed

lemma timeout_read_state: "timeout_read count s = Some (r, s') \<Longrightarrow> \<exists>evs. s' = s\<lparr>rx := evs\<rparr>"
  by (auto simp: timeout_read_def split: option.splits)

lemma preserves_timeout_read [preserve]:
  "(\<And>s evs. I s \<Longrightarrow> I (s\<lparr>rx := evs\<rparr>)) \<Longrightarrow> preserves I (timeout_read count)"
  by (auto simp: preserves_def dest: timeout_read_state)

text \<open>\<open>FDSelect::waitRead\<close> on the descriptor of the emulator, without \<open>retry\<close> and with a finite
  timeout: 1 when it is readable, 0 when the time is over, -1 when \<open>select\<close> was interrupted.\<close>

definition waitRead :: "('z jtag_scheme, int) io" where
  "waitRead s =
     (case rx s of
        [] \<Rightarrow> Some (Inr 0, s)
      | Timeout # evs \<Rightarrow> Some (Inr 0, s\<lparr>rx := evs\<rparr>)
      | Interrupted # evs \<Rightarrow> Some (Inr (-1), s\<lparr>rx := evs\<rparr>)
      | _ \<Rightarrow> Some (Inr 1, s))"

lemma preserves_waitRead [preserve]:
  "(\<And>s evs. I s \<Longrightarrow> I (s\<lparr>rx := evs\<rparr>)) \<Longrightarrow> preserves I waitRead"
  by (auto simp: preserves_def waitRead_def split: list.splits rxev.splits)

section \<open>Writing\<close>

text \<open>
  The loop of \<open>safewrite\<close>: the script of the \<open>write\<close> calls, what is still to write, the count
  \<open>actual\<close> so far and what went out. When the script is over a \<open>write\<close> takes everything.
\<close>

fun write_loop :: "wrev list \<Rightarrow> u8 list \<Rightarrow> nat \<Rightarrow> u8 list \<Rightarrow> int \<times> u8 list \<times> wrev list" where
  "write_loop ws [] actual out = (int actual, out, ws)"
| "write_loop [] (b # bs) actual out = (int (actual + length (b # bs)), out @ b # bs, [])"
| "write_loop (Intr # ws) (b # bs) actual out = write_loop ws (b # bs) actual out"
| "write_loop (WriteError # ws) (b # bs) actual out = (-1, out, ws)"
| "write_loop (Wrote n # ws) (b # bs) actual out =
     (let k = min n (length (b # bs))
      in write_loop ws (drop k (b # bs)) (actual + k) (out @ take k (b # bs)))"

definition safewrite :: "u8 list \<Rightarrow> ('z jtag_scheme, int) io" where
  "safewrite b s =
     (case write_loop (wq s) b 0 [] of
        (n, out, ws) \<Rightarrow> Some (Inr n, s\<lparr>wq := ws, tx := tx s @ out\<rparr>))"

lemma write_loop_spec:
  "write_loop ws bs actual out = (n, out', ws') \<Longrightarrow>
     (n = int (actual + length bs) \<and> out' = out @ bs) \<or>
     (n = -1 \<and> (\<exists>k < length bs. out' = out @ take k bs))"
proof (induction ws bs actual out rule: write_loop.induct)
  case (5 k ws b bs actual out)
  define m where "m = min k (length (b # bs))"
  have m: "m \<le> length (b # bs)" by (simp add: m_def)
  have "write_loop ws (drop m (b # bs)) (actual + m) (out @ take m (b # bs)) = (n, out', ws')"
    using "5.prems" by (simp add: m_def Let_def)
  from "5.IH" [folded m_def, OF refl this]
  show ?case
  proof (elim disjE conjE exE)
    fix j assume "n = - 1" "j < length (drop m (b # bs))"
      "out' = (out @ take m (b # bs)) @ take j (drop m (b # bs))"
    then have "m + j < length (b # bs)" "out' = out @ take (m + j) (b # bs)" "n = -1"
      by (simp_all only: take_add append_assoc length_drop)
    then show ?thesis by blast
  qed (use m in auto)
next
  case (4 ws b bs actual out)
  then show ?case by (auto intro: exI [of _ 0])
qed auto

text \<open>\<open>safewrite\<close> always returns: everything was written, or it returns -1 and only a part was.\<close>

lemma safewrite_cases:
  obtains (all) ws where "safewrite b s = Some (Inr (int (length b)), s\<lparr>wq := ws, tx := tx s @ b\<rparr>)"
    | (error) k ws where "k < length b"
        "safewrite b s = Some (Inr (-1), s\<lparr>wq := ws, tx := tx s @ take k b\<rparr>)"
proof -
  obtain n out ws where w: "write_loop (wq s) b 0 [] = (n, out, ws)"
    by (metis prod_cases3)
  from write_loop_spec [OF this] show ?thesis
    using that w by (auto simp: safewrite_def)
qed

lemma safewrite_state:
  "safewrite b s = Some (r, s') \<Longrightarrow> \<exists>ws out. s' = s\<lparr>wq := ws, tx := out\<rparr>"
  by (auto simp: safewrite_def split: prod.splits)

lemma preserves_safewrite [preserve]:
  "(\<And>s ws out. I s \<Longrightarrow> I (s\<lparr>wq := ws, tx := out\<rparr>)) \<Longrightarrow> preserves I (safewrite b)"
  by (auto simp: preserves_def dest: safewrite_state)

section \<open>The control pipe and the port\<close>

text \<open>\<open>(void) write(ctrlPipe, cmd, 1)\<close>, guarded by \<open>ctrlPipe != -1\<close> wherever it occurs.\<close>

definition ctrl_write :: "u8 \<Rightarrow> ('z jtag_scheme, unit) io" where
  "ctrl_write c s = (if ctrlPipe s \<noteq> -1 then Some (Inr (), s\<lparr>ctrl_log := ctrl_log s @ [c]\<rparr>) else Some (Inr (), s))"

lemma preserves_ctrl_write [preserve]:
  "(\<And>s l. I s \<Longrightarrow> I (s\<lparr>ctrl_log := l\<rparr>)) \<Longrightarrow> preserves I (ctrl_write c)"
  by (auto simp: preserves_def ctrl_write_def split: if_splits)

text \<open>\<open>tcflush(jtagBox, TCIFLUSH)\<close> drops what has arrived and was not read.\<close>

definition tcflush_input :: "('z jtag_scheme, unit) io" where
  "tcflush_input = io_put (\<lambda>s. s\<lparr>rx := drop (hd (flq s @ [0])) (rx s), flq := tl (flq s)\<rparr>)"

lemma preserves_tcflush_input [preserve]:
  "(\<And>s a b. I s \<Longrightarrow> I (s\<lparr>rx := a, flq := b\<rparr>)) \<Longrightarrow> preserves I tcflush_input"
  unfolding tcflush_input_def by (rule preserves_put) auto

text \<open>The terminal calls (\<open>tcgetattr\<close>, \<open>tcsetattr\<close>, \<open>tcflush\<close>, \<open>tcdrain\<close>) succeed when \<open>tty_ok\<close>; a speed
  that is not one of the five ends the program with \<open>exit(1)\<close>.\<close>

definition changeLocalBitRate :: "int \<Rightarrow> ('z jtag_scheme, unit) io" where
  "changeLocalBitRate newBitRate =
     io_bind (io_get (\<lambda>s. (is_usb s, tty_ok s))) (\<lambda>(usb, ok).
     if usb then io_ret ()
     else io_then (jtagCheck (if ok then 0 else -1))
       (if newBitRate \<in> {9600, 19200, 38400, 57600, 115200}
        then io_then (io_put (\<lambda>s. s\<lparr>local_rate := newBitRate\<rparr>)) tcflush_input
        else io_throw (Exited 1)))"

lemma preserves_changeLocalBitRate [preserve]:
  "(\<And>s r. I s \<Longrightarrow> I (s\<lparr>local_rate := r\<rparr>)) \<Longrightarrow> (\<And>s a b. I s \<Longrightarrow> I (s\<lparr>rx := a, flq := b\<rparr>))
     \<Longrightarrow> preserves I (changeLocalBitRate n)"
  unfolding changeLocalBitRate_def by (intro preserve preserves_put) auto

section \<open>Properties\<close>

text \<open>C3: the complete behaviour of \<open>timeout_read\<close>. With enough bytes before the line stops it
  returns exactly the next \<open>count\<close> ones, however they are chunked, and leaves the rest; with fewer
  it returns what came before the timeout; on a read error it throws, where the comment of its declaration
  promises -1; and at the end of file it never returns, where that comment says that it is like a timeout.\<close>

theorem timeout_read_spec:
  "if count \<le> length (avail (rx s)) then
     \<exists>evs. timeout_read count s = Some (Inr (take count (avail (rx s))), s\<lparr>rx := evs\<rparr>) \<and>
       avail evs = drop count (avail (rx s)) \<and> stop evs = stop (rx s)
   else timeout_read count s = (case stop (rx s) of
       [] \<Rightarrow> Some (Inr (avail (rx s)), s\<lparr>rx := []\<rparr>)
     | Timeout # evs \<Rightarrow> Some (Inr (avail (rx s)), s\<lparr>rx := evs\<rparr>)
     | ReadError # evs \<Rightarrow> Some (Inl (Thrown JTAG_CAUSE), s\<lparr>rx := evs\<rparr>)
     | _ \<Rightarrow> None)"
  using timeout_read_enough [of count s] timeout_read_short [of s count] by (auto simp: not_le)

text \<open>Whatever partial writes and interruptions occur, \<open>safewrite\<close> returns; its result is the
  length of the buffer exactly when all of it was written, otherwise -1 and a proper prefix was.\<close>

lemma safewrite_spec:
  "\<exists>n out ws. safewrite b s = Some (Inr n, s\<lparr>wq := ws, tx := tx s @ out\<rparr>) \<and>
     (if n = int (length b) then out = b else n = -1 \<and> (\<exists>k. k < length b \<and> out = take k b))"
proof (cases b s rule: safewrite_cases)
  case (all ws)
  then show ?thesis by (intro exI [of _ "int (length b)"] exI [of _ b] exI [of _ ws]) simp
next
  case (error k ws)
  then show ?thesis by (intro exI [of _ "-1"] exI [of _ "take k b"] exI [of _ ws]) auto
qed

end
