(* ===== verification/Crc16.thy ===== *)
theory Crc16
  imports Prelude
begin

text \<open>
  The CRC of the mkII frames (\<^verbatim>\<open>src/crc16.c\<close>): the look-up table, the table-driven sum,
  the check of a received frame and the appending of the two CRC bytes to a frame. The
  reference is the bit-by-bit division by the reflected polynomial \<open>0x8408\<close>; the lemmas show
  the table-driven sum equal to it, that an appended CRC verifies, and that a change confined
  to one byte of a message is always detected.
\<close>

section \<open>The code\<close>

definition crc_table :: "u16 list" where
  "crc_table =
    [0x0000, 0x1189, 0x2312, 0x329b, 0x4624, 0x57ad, 0x6536, 0x74bf,
     0x8c48, 0x9dc1, 0xaf5a, 0xbed3, 0xca6c, 0xdbe5, 0xe97e, 0xf8f7,
     0x1081, 0x0108, 0x3393, 0x221a, 0x56a5, 0x472c, 0x75b7, 0x643e,
     0x9cc9, 0x8d40, 0xbfdb, 0xae52, 0xdaed, 0xcb64, 0xf9ff, 0xe876,
     0x2102, 0x308b, 0x0210, 0x1399, 0x6726, 0x76af, 0x4434, 0x55bd,
     0xad4a, 0xbcc3, 0x8e58, 0x9fd1, 0xeb6e, 0xfae7, 0xc87c, 0xd9f5,
     0x3183, 0x200a, 0x1291, 0x0318, 0x77a7, 0x662e, 0x54b5, 0x453c,
     0xbdcb, 0xac42, 0x9ed9, 0x8f50, 0xfbef, 0xea66, 0xd8fd, 0xc974,
     0x4204, 0x538d, 0x6116, 0x709f, 0x0420, 0x15a9, 0x2732, 0x36bb,
     0xce4c, 0xdfc5, 0xed5e, 0xfcd7, 0x8868, 0x99e1, 0xab7a, 0xbaf3,
     0x5285, 0x430c, 0x7197, 0x601e, 0x14a1, 0x0528, 0x37b3, 0x263a,
     0xdecd, 0xcf44, 0xfddf, 0xec56, 0x98e9, 0x8960, 0xbbfb, 0xaa72,
     0x6306, 0x728f, 0x4014, 0x519d, 0x2522, 0x34ab, 0x0630, 0x17b9,
     0xef4e, 0xfec7, 0xcc5c, 0xddd5, 0xa96a, 0xb8e3, 0x8a78, 0x9bf1,
     0x7387, 0x620e, 0x5095, 0x411c, 0x35a3, 0x242a, 0x16b1, 0x0738,
     0xffcf, 0xee46, 0xdcdd, 0xcd54, 0xb9eb, 0xa862, 0x9af9, 0x8b70,
     0x8408, 0x9581, 0xa71a, 0xb693, 0xc22c, 0xd3a5, 0xe13e, 0xf0b7,
     0x0840, 0x19c9, 0x2b52, 0x3adb, 0x4e64, 0x5fed, 0x6d76, 0x7cff,
     0x9489, 0x8500, 0xb79b, 0xa612, 0xd2ad, 0xc324, 0xf1bf, 0xe036,
     0x18c1, 0x0948, 0x3bd3, 0x2a5a, 0x5ee5, 0x4f6c, 0x7df7, 0x6c7e,
     0xa50a, 0xb483, 0x8618, 0x9791, 0xe32e, 0xf2a7, 0xc03c, 0xd1b5,
     0x2942, 0x38cb, 0x0a50, 0x1bd9, 0x6f66, 0x7eef, 0x4c74, 0x5dfd,
     0xb58b, 0xa402, 0x9699, 0x8710, 0xf3af, 0xe226, 0xd0bd, 0xc134,
     0x39c3, 0x284a, 0x1ad1, 0x0b58, 0x7fe7, 0x6e6e, 0x5cf5, 0x4d7c,
     0xc60c, 0xd785, 0xe51e, 0xf497, 0x8028, 0x91a1, 0xa33a, 0xb2b3,
     0x4a44, 0x5bcd, 0x6956, 0x78df, 0x0c60, 0x1de9, 0x2f72, 0x3efb,
     0xd68d, 0xc704, 0xf59f, 0xe416, 0x90a9, 0x8120, 0xb3bb, 0xa232,
     0x5ac5, 0x4b4c, 0x79d7, 0x685e, 0x1ce1, 0x0d68, 0x3ff3, 0x2e7a,
     0xe70e, 0xf687, 0xc41c, 0xd595, 0xa12a, 0xb0a3, 0x8238, 0x93b1,
     0x6b46, 0x7acf, 0x4854, 0x59dd, 0x2d62, 0x3ceb, 0x0e70, 0x1ff9,
     0xf78f, 0xe606, 0xd49d, 0xc514, 0xb1ab, 0xa022, 0x92b9, 0x8330,
     0x7bc7, 0x6a4e, 0x58d5, 0x495c, 0x3de3, 0x2c6a, 0x1ef1, 0x0f78]"

definition CRC_INIT :: u16 where
  "CRC_INIT = 0xFFFF"

text \<open>The macro \<open>CRC(crcval, newchar)\<close>.\<close>

definition CRC :: "u16 \<Rightarrow> u8 \<Rightarrow> u16" where
  "CRC crcval newchar =
     drop_bit 8 crcval XOR crc_table ! unat ((crcval XOR ucast newchar) AND 0x00ff)"

text \<open>The loop over \<open>message[0 .. length - 1]\<close>.\<close>

primrec crcsum :: "u8 list \<Rightarrow> u16 \<Rightarrow> u16" where
  "crcsum [] crc = crc"
| "crcsum (b # bs) crc = crcsum bs (CRC crc b)"

text \<open>
  \<open>crcverify(message, length)\<close> and \<open>crcappend(message, length)\<close>: \<open>None\<close> when an access
  falls outside the array \<open>message\<close>.
\<close>

definition crcverify :: "u8 list \<Rightarrow> nat \<Rightarrow> bool option" where
  "crcverify message len =
     (if 2 \<le> len \<and> len \<le> length message then
        let expected = crcsum (take (len - 2) message) CRC_INIT in
        Some (expected AND 0xff = ucast (message ! (len - 2)) \<and>
              drop_bit 8 expected AND 0xff = ucast (message ! (len - 1)))
      else None)"

definition crcappend :: "u8 list \<Rightarrow> nat \<Rightarrow> u8 list option" where
  "crcappend message len =
     (if len + 1 < length message then
        let crc = crcsum (take len message) CRC_INIT in
        Some (message[len := ucast (crc AND 0xff), len + 1 := ucast (drop_bit 8 crc AND 0xff)])
      else None)"

section \<open>The reference: division by the polynomial, bit by bit\<close>

definition poly_shift :: "u16 \<Rightarrow> u16" where
  "poly_shift c = (if bit c 0 then drop_bit 1 c XOR 0x8408 else drop_bit 1 c)"

definition crc_bitwise :: "u16 \<Rightarrow> u8 \<Rightarrow> u16" where
  "crc_bitwise c b = (poly_shift ^^ 8) (c XOR ucast b)"

text \<open>The table is the eight steps of the division, tabulated.\<close>

lemma poly_shift_8:
  "(poly_shift ^^ 8) x = poly_shift (poly_shift (poly_shift (poly_shift
     (poly_shift (poly_shift (poly_shift (poly_shift x)))))))"
  by (simp add: eval_nat_numeral)

lemma crc_table_map: "crc_table = map (\<lambda>i. (poly_shift ^^ 8) (of_nat i)) [0..<256]"
proof -
  have upt: "[0..<256] = (0::nat) # 1 # [2..<256]"
    by (simp add: upt_conv_Cons)
  show ?thesis
    unfolding upt by (simp add: upt_rec_numeral crc_table_def) (simp add: poly_shift_def poly_shift_8)
qed

lemma crc_table_nth: "n < 256 \<Longrightarrow> crc_table ! n = (poly_shift ^^ 8) (of_nat n)"
  by (simp add: crc_table_map)

lemma length_crc_table: "length crc_table = 256"
  by (simp add: crc_table_map)

text \<open>The division is linear, and on the high byte it is a plain shift.\<close>

lemma poly_shift_xor: "poly_shift (a XOR b) = poly_shift a XOR poly_shift b"
  by (simp add: poly_shift_def bit_xor_iff drop_bit_xor ac_simps)

lemma poly_shift_pow_xor:
  "(poly_shift ^^ n) (a XOR b) = (poly_shift ^^ n) a XOR (poly_shift ^^ n) b"
  by (induction n) (simp_all add: poly_shift_xor)

lemma poly_shift_pow_push: "n \<le> 8 \<Longrightarrow> (poly_shift ^^ n) (push_bit 8 x) = drop_bit n (push_bit 8 x)"
proof (induction n)
  case (Suc n)
  have "\<not> bit (drop_bit n (push_bit 8 x)) 0"
    using Suc.prems by (simp add: bit_drop_bit_eq bit_push_bit_iff)
  with Suc show ?case
    by (simp add: poly_shift_def drop_bit_drop_bit)
qed simp

lemma split_high_low: "(x :: u16) = (x AND 0xff) XOR push_bit 8 (drop_bit 8 x)"
proof (rule bit_eqI)
  fix n
  have m: "(0xff :: u16) = mask 8" by (simp add: mask_eq_exp_minus_1)
  show "bit x n = bit ((x AND 0xff) XOR push_bit 8 (drop_bit 8 x)) n" if "possible_bit TYPE(u16) n"
    using that by (auto simp: m bit_simps dest: bit_imp_le_length)
qed

lemma drop_push_drop: "drop_bit 8 (push_bit 8 (drop_bit 8 (x :: u16))) = drop_bit 8 x"
  by (rule bit_eqI) (auto simp: bit_simps dest: bit_imp_le_length)

lemma unat_and_ff: "unat ((x :: u16) AND 0xff) < 256"
proof -
  have "unat (x AND 0xff) \<le> unat (0xff :: u16)"
    by (rule word_and_le1 [THEN word_le_nat_alt [THEN iffD1]])
  then show ?thesis by simp
qed

lemma drop_bit_xor_ucast: "drop_bit 8 (c XOR ucast (b :: u8)) = drop_bit 8 (c :: u16)"
  by (rule bit_eqI) (auto simp: bit_simps dest: bit_imp_le_length)

lemma CRC_eq_bitwise: "CRC c b = crc_bitwise c b"
proof -
  define x where "x = c XOR ucast b"
  have "crc_bitwise c b = (poly_shift ^^ 8) (x AND 0xff) XOR (poly_shift ^^ 8) (push_bit 8 (drop_bit 8 x))"
    unfolding crc_bitwise_def x_def [symmetric]
    by (subst split_high_low [of x]) (rule poly_shift_pow_xor)
  also have "\<dots> = (poly_shift ^^ 8) (x AND 0xff) XOR drop_bit 8 c"
    by (simp only: poly_shift_pow_push [OF order_refl] drop_push_drop x_def drop_bit_xor_ucast)
  also have "(poly_shift ^^ 8) (x AND 0xff) = crc_table ! unat (x AND 0xff)"
    by (simp add: crc_table_nth unat_and_ff)
  finally show ?thesis
    by (simp add: CRC_def x_def ac_simps)
qed

section \<open>Injectivity and the residue\<close>

lemma xor_eq_0: "a XOR b = 0 \<longleftrightarrow> (a :: 'a::len word) = b"
  by (metis xor.left_neutral xor.right_neutral xor.assoc xor_self_eq)

lemma poly_shift_kernel: "poly_shift c = 0 \<Longrightarrow> c = 0"
proof (cases "bit c 0")
  case True
  assume "poly_shift c = 0"
  with True have "drop_bit 1 c XOR 0x8408 = 0"
    by (simp add: poly_shift_def)
  then have "bit (drop_bit 1 c) 15"
    unfolding xor_eq_0 by (simp del: bit_drop_bit_eq)
  then show ?thesis
    using bit_imp_le_length [of c 16] by (simp add: bit_drop_bit_eq)
next
  case False
  assume "poly_shift c = 0"
  with False have z: "drop_bit 1 c = 0"
    by (simp add: poly_shift_def)
  show ?thesis
  proof (rule bit_eqI)
    fix n
    have "bit (drop_bit 1 c) (n - 1) = bit (0 :: u16) (n - 1)"
      using z by simp
    with False show "bit c n = bit 0 n"
      by (cases n) (simp_all add: bit_drop_bit_eq)
  qed
qed

lemma poly_shift_pow_kernel: "(poly_shift ^^ n) c = 0 \<Longrightarrow> c = 0"
  by (induction n) (auto dest: poly_shift_kernel)

lemma poly_shift_pow_inj: "(poly_shift ^^ n) a = (poly_shift ^^ n) b \<longleftrightarrow> a = b"
proof
  assume "(poly_shift ^^ n) a = (poly_shift ^^ n) b"
  then have "(poly_shift ^^ n) (a XOR b) = 0"
    by (simp add: poly_shift_pow_xor)
  then show "a = b"
    using poly_shift_pow_kernel xor_eq_0 by blast
qed simp

lemma poly_shift_pow_zero: "(poly_shift ^^ n) 0 = 0"
  by (induction n) (simp_all add: poly_shift_def)

lemma xor_right_inj: "a XOR c = b XOR c \<longleftrightarrow> (a :: 'a::len word) = b"
  by (metis xor.assoc xor.right_neutral xor_self_eq)

lemma CRC_inj: "CRC c b = CRC c' b \<longleftrightarrow> c = c'"
  by (simp add: CRC_eq_bitwise crc_bitwise_def poly_shift_pow_inj xor_right_inj)

lemma crcsum_append: "crcsum (xs @ ys) c = crcsum ys (crcsum xs c)"
  by (induction xs arbitrary: c) simp_all

lemma crcsum_inj: "crcsum bs c = crcsum bs c' \<longleftrightarrow> c = c'"
  by (induction bs arbitrary: c c') (simp_all add: CRC_inj)

definition two_bytes :: "u8 \<Rightarrow> u8 \<Rightarrow> u16" where
  "two_bytes lo hi = ucast lo XOR push_bit 8 (ucast hi)"

lemma two_bytes_inj: "two_bytes a b = two_bytes a' b' \<longleftrightarrow> a = a' \<and> b = b'"
proof
  assume eq: "two_bytes a b = two_bytes a' b'"
  have "bit a n = bit a' n" if "n < 8" for n
    using arg_cong [OF eq, of "\<lambda>w. bit w n"] that by (auto simp: two_bytes_def bit_simps)
  moreover have "bit b n = bit b' n" if "n < 8" for n
    using arg_cong [OF eq, of "\<lambda>w. bit w (n + 8)"] that
    by (auto simp: two_bytes_def bit_simps dest: bit_imp_le_length)
  ultimately show "a = a' \<and> b = b'"
    by (auto intro!: bit_eqI)
qed simp

lemma crcsum_two: "crcsum [a, b] c = (poly_shift ^^ 16) (c XOR two_bytes a b)"
proof -
  have "ucast b = drop_bit 8 (push_bit 8 (ucast b :: u16))"
    by (rule bit_eqI) (auto simp: bit_simps dest: bit_imp_le_length)
  then have b: "ucast b = (poly_shift ^^ 8) (push_bit 8 (ucast b :: u16))"
    by (simp add: poly_shift_pow_push)
  have "crcsum [a, b] c = (poly_shift ^^ 8) ((poly_shift ^^ 8) (c XOR ucast a) XOR ucast b)"
    by (simp add: CRC_eq_bitwise crc_bitwise_def)
  also have "\<dots> = (poly_shift ^^ 8) ((poly_shift ^^ 8) (c XOR ucast a XOR push_bit 8 (ucast b)))"
    by (subst b) (simp only: poly_shift_pow_xor xor.assoc)
  also have "\<dots> = (poly_shift ^^ (8 + 8)) (c XOR two_bytes a b)"
    by (simp only: funpow_add comp_apply two_bytes_def xor.assoc)
  finally show ?thesis by simp
qed

lemma two_bytes_eq_iff:
  "c = two_bytes lo hi \<longleftrightarrow> c AND 0xff = ucast lo \<and> drop_bit 8 c AND 0xff = ucast hi"
proof -
  have m: "(0xff :: u16) = mask 8" by (simp add: mask_eq_exp_minus_1)
  have "c AND 0xff = ucast lo \<and> drop_bit 8 c AND 0xff = ucast hi" if "c = two_bytes lo hi"
  proof
    show "c AND 0xff = ucast lo"
      unfolding that m two_bytes_def
      by (rule bit_eqI) (auto simp: bit_simps dest: bit_imp_le_length)
    show "drop_bit 8 c AND 0xff = ucast hi"
      unfolding that m two_bytes_def
      by (rule bit_eqI) (use bit_imp_le_length [of lo] bit_imp_le_length [of hi] in \<open>fastforce simp: bit_simps\<close>)
  qed
  moreover have "c = two_bytes lo hi"
    if lo: "c AND 0xff = ucast lo" and hi: "drop_bit 8 c AND 0xff = ucast hi"
  proof -
    have "drop_bit 8 c = drop_bit 8 c AND 0xff"
      unfolding m by (rule bit_eqI) (auto simp: bit_simps dest: bit_imp_le_length)
    with hi have "drop_bit 8 c = ucast hi" by simp
    then show ?thesis
      using split_high_low [of c] lo by (simp add: two_bytes_def)
  qed
  ultimately show ?thesis by blast
qed

text \<open>A frame verifies exactly when the sum over all of it, the CRC bytes included, is zero.\<close>

lemma crcverify_residue:
  assumes "2 \<le> len" "len \<le> length m"
  shows "crcverify m len = Some (crcsum (take len m) CRC_INIT = 0)"
proof -
  define c where "c = crcsum (take (len - 2) m) CRC_INIT"
  obtain k where k: "len = Suc (Suc k)"
    using assms(1) by (cases len; cases "len - 1") auto
  then have "take len m = take (len - 2) m @ [m ! (len - 2), m ! (len - 1)]"
    using assms(2) by (simp add: take_Suc_conv_app_nth)
  then have "crcsum (take len m) CRC_INIT = crcsum [m ! (len - 2), m ! (len - 1)] c"
    by (simp only: crcsum_append c_def)
  then have "crcsum (take len m) CRC_INIT = 0 \<longleftrightarrow> c = two_bytes (m ! (len - 2)) (m ! (len - 1))"
    unfolding crcsum_two
    by (metis poly_shift_pow_kernel poly_shift_pow_zero xor_eq_0)
  with assms show ?thesis
    by (simp add: crcverify_def Let_def c_def two_bytes_eq_iff)
qed


section \<open>Round trip and error detection\<close>

lemma low_byte_back: "(x :: u16) AND 0xff = ucast (ucast (x AND 0xff) :: u8)"
proof -
  have m: "(0xff :: u16) = mask 8" by (simp add: mask_eq_exp_minus_1)
  show ?thesis
    unfolding m by (rule bit_eqI) (auto simp: bit_simps)
qed

lemma crcappend_verifies:
  assumes "crcappend m len = Some m'"
  shows "crcverify m' (len + 2) = Some True"
  using assms
  by (auto simp: crcappend_def crcverify_def Let_def split: if_splits
           intro: low_byte_back)

lemma crcappend_keeps:
  assumes "crcappend m len = Some m'"
  shows "length m' = length m" "take len m' = take len m" "drop (len + 2) m' = drop (len + 2) m"
  using assms by (auto simp: crcappend_def Let_def split: if_splits)

lemma crcsum_burst:
  "crcsum (p @ [a, b] @ s) c = crcsum (p @ [a', b'] @ s) c \<longleftrightarrow> a = a' \<and> b = b'"
proof -
  have "c XOR x = c XOR y \<longleftrightarrow> x = y" for c x y :: u16
    by (metis xor_right_inj xor.commute)
  then show ?thesis
    by (simp only: crcsum_append crcsum_inj crcsum_two poly_shift_pow_inj two_bytes_inj)
qed

lemma crcsum_detects:
  assumes len: "length m' = length m" "i + 1 < length m"
    and same: "\<And>j. j < length m \<Longrightarrow> j \<noteq> i \<Longrightarrow> j \<noteq> i + 1 \<Longrightarrow> m' ! j = m ! j"
    and diff: "m' \<noteq> m"
  shows "crcsum m' c \<noteq> crcsum m c"
proof -
  have split: "x = take i x @ [x ! i, x ! (i + 1)] @ drop (i + 2) x" if "i + 1 < length x" for x :: "u8 list"
    using that by (metis Cons_nth_drop_Suc Suc_lessD add.commute append_Cons append_Nil
        append_take_drop_id add_2_eq_Suc' plus_1_eq_Suc)
  have t: "take i m' = take i m" and d: "drop (i + 2) m' = drop (i + 2) m"
    using len same by (auto intro!: nth_equalityI)
  have "crcsum m' c = crcsum m c \<longleftrightarrow> m' ! i = m ! i \<and> m' ! (i + 1) = m ! (i + 1)"
    using crcsum_burst [of "take i m" "m' ! i" "m' ! (i + 1)" "drop (i + 2) m" c "m ! i" "m ! (i + 1)"]
      split [of m] split [of m'] len t d by metis
  moreover have "m' = m" if "m' ! i = m ! i" "m' ! (i + 1) = m ! (i + 1)"
    using that split [of m] split [of m'] len t d by metis
  ultimately show ?thesis
    using diff by blast
qed

lemma crcverify_burst:
  assumes "crcverify m len = Some True" "length m' = length m" "m' \<noteq> m" "i + 1 < len"
    and "\<And>j. j < length m \<Longrightarrow> j \<noteq> i \<Longrightarrow> j \<noteq> i + 1 \<Longrightarrow> m' ! j = m ! j"
  shows "crcverify m' len = Some False"
proof -
  have len: "2 \<le> len" "len \<le> length m"
    using assms(1) by (auto simp: crcverify_def split: if_splits)
  have "take len m' \<noteq> take len m"
  proof
    assume eq: "take len m' = take len m"
    have "m' ! j = m ! j" if "j < length m" for j
      using assms(4,5) that arg_cong [OF eq, of "\<lambda>xs. xs ! j"] by (cases "j < len") auto
    with assms(2,3) show False
      by (simp add: nth_equalityI)
  qed
  then have "crcsum (take len m') CRC_INIT \<noteq> crcsum (take len m) CRC_INIT"
    using assms len by (intro crcsum_detects [where i = i]) auto
  with assms len show ?thesis
    by (simp add: crcverify_residue)
qed

section \<open>Properties\<close>

text \<open>C1: the table-driven sum is the bit-by-bit division of the message by the polynomial
  0x8408 (reflected CCITT), byte after byte: every one of the 256 table entries is right.\<close>

theorem crcsum_is_division: "crcsum bs crc = fold (\<lambda>b c. crc_bitwise c b) bs crc"
  by (induction bs arbitrary: crc) (simp_all add: CRC_eq_bitwise)

text \<open>What \<open>crcappend\<close> wrote \<open>crcverify\<close> accepts, and the message itself is kept.\<close>

lemma crcappend_crcverify:
  assumes "crcappend m len = Some m'"
  shows "crcverify m' (len + 2) = Some True \<and> length m' = length m \<and> take len m' = take len m"
  using crcappend_verifies crcappend_keeps assms by blast

lemma crcappend_crcverify_witness:
  "\<exists>m'. crcappend [0x1B, 0, 0, 0] 2 = Some m' \<and> crcverify m' 4 = Some True"
  using crcappend_crcverify [of "[0x1B, 0, 0, 0]" 2] by (simp add: crcappend_def Let_def)

text \<open>C2: a message that verifies no longer does after a change inside two adjacent bytes,
  wherever they are (in the body or in the CRC itself).\<close>

theorem crcverify_detects_burst:
  assumes "crcverify m len = Some True" "length m' = length m" "m' \<noteq> m" "i + 1 < len"
    and "\<And>j. j < length m \<Longrightarrow> j \<noteq> i \<Longrightarrow> j \<noteq> i + 1 \<Longrightarrow> m' ! j = m ! j"
  shows "crcverify m' len = Some False"
  by (rule crcverify_burst [OF assms])

lemma crcverify_detects_burst_witness:
  "\<exists>m. crcverify m 4 = Some True \<and> crcverify (m[1 := 7]) 4 = Some False"
proof -
  obtain m where m: "crcappend [0x1B, 0, 0, 0] 2 = Some m"
    by (simp add: crcappend_def Let_def)
  then have ok: "crcverify m 4 = Some True" and len: "length m = 4" and body: "m ! 1 = 0"
    using crcappend_verifies [OF m] crcappend_keeps [OF m] m
    by (auto simp: crcappend_def Let_def)
  have "crcverify (m[1 := 7]) 4 = Some False"
    by (rule crcverify_detects_burst [OF ok, where i = 1])
      (use len body in \<open>auto simp: list_eq_iff_nth_eq intro!: exI [of _ 1]\<close>)
  with ok show ?thesis by blast
qed

end
