(* ===== verification/Mk2_State.thy ===== *)
theory Mk2_State
  imports Channel Crc16
begin

text \<open>
  \<^verbatim>\<open>src/src/jtag2.h\<close>: the breakpoint table entries and the members of \<open>class jtag2\<close>, which extends
  \<open>class jtag\<close> as the record \<open>jtag2\<close> extends \<open>jtag\<close>. (\<open>softBPcache\<close> is never read and is left
  out.) \<open>jtag2_new\<close> is the constructor, applied to the state its base class constructor made.
\<close>

definition MAX_BREAKPOINTS2_CODE :: nat where [code_defs]: "MAX_BREAKPOINTS2_CODE = 4"
definition MAX_BREAKPOINTS2_DATA :: nat where [code_defs]: "MAX_BREAKPOINTS2_DATA = 2"
definition MAX_BREAKPOINTS2 :: nat where [code_defs]: "MAX_BREAKPOINTS2 = 4"
definition BREAKPOINT2_FIRST_DATA :: nat where [code_defs]: "BREAKPOINT2_FIRST_DATA = 2"
definition BREAKPOINT2_DATA_MASK :: nat where [code_defs]: "BREAKPOINT2_DATA_MASK = 3"
definition MAX_TOTAL_BREAKPOINTS2 :: nat where [code_defs]: "MAX_TOTAL_BREAKPOINTS2 = 32"

record breakpoint2 =
  address :: u32
  mask_pointer :: u32
  bp_type :: bpType
  enabled :: bool
  last_bp :: bool
  icestatus :: bool
  toremove :: bool
  toadd :: bool
  bpnum :: u8

definition default_bp :: breakpoint2 where
  "default_bp = \<lparr>address = 0, mask_pointer = 0, bp_type = NONE, enabled = False, last_bp = True,
     icestatus = False, toremove = False, toadd = False, bpnum = 0\<rparr>"

record jtag2 = jtag +
  bps :: "breakpoint2 list"
  command_sequence :: u16
  devdescrlen :: int
  signedIn :: bool
  haveHiddenBreakpoint :: bool
  useDebugWire :: bool
  is_xmega :: bool
  flashCache :: "u8 list"
  flashCachePageAddr :: u32
  eepromCache :: "u8 list"
  eepromCachePageAddr :: u32
  nonbreaking_events :: "bool list"

text \<open>Members the constructor does not set hold what the memory held: the page caches and
  \<open>nonbreaking_events\<close> (an array of \<open>EVT_MAX - EVT_BREAK + 1\<close> flags).\<close>

definition jtag2_new :: "jtag \<Rightarrow> bool \<Rightarrow> bool \<Rightarrow> bool \<Rightarrow> bool \<Rightarrow> jtag2" where
  "jtag2_new base useDW is_dragon nsrst xmega = jtag.extend
     (base\<lparr>emu_type := (if is_dragon then EMULATOR_DRAGON else EMULATOR_JTAGICE), apply_nSRST := nsrst\<rparr>)
     (jtag2.fields
       (replicate MAX_TOTAL_BREAKPOINTS2 default_bp) 0 (int sizeof_desc2) False False useDW xmega
       (map (fresh base) [0..<MAX_FLASH_PAGE_SIZE]) 0xffffffff
       (map (fresh base) [0..<MAX_EEPROM_PAGE_SIZE]) 0xffff
       (map (\<lambda>i. fresh base i \<noteq> 0) [0..<32]))"

text \<open>The sizes of the array members never change.\<close>

definition arrays_ok :: "'z jtag2_scheme \<Rightarrow> bool" where
  "arrays_ok s \<longleftrightarrow> length (bps s) = MAX_TOTAL_BREAKPOINTS2 \<and> length (flashCache s) = MAX_FLASH_PAGE_SIZE \<and>
     length (eepromCache s) = MAX_EEPROM_PAGE_SIZE \<and> length (nonbreaking_events s) = 32"

text \<open>Sequence number \<open>0xffff\<close> is reserved for events: the counter never takes it.\<close>

definition seq_ok :: "'z jtag2_scheme \<Rightarrow> bool" where
  "seq_ok s \<longleftrightarrow> command_sequence s \<noteq> 0xffff"

definition jtag2_inv :: "'z jtag2_scheme \<Rightarrow> bool" where
  "jtag2_inv s \<longleftrightarrow> arrays_ok s \<and> seq_ok s"

lemma jtag2_inv_new: "jtag2_inv (jtag2_new base useDW is_dragon nsrst xmega)"
  by (simp add: jtag2_inv_def arrays_ok_def seq_ok_def jtag2_new_def jtag.extend_def jtag2.fields_def code_defs)

text \<open>The invariant does not look at the members of the base class.\<close>

lemma jtag2_inv_base [simp]:
  "jtag2_inv (s\<lparr>rx := a\<rparr>) = jtag2_inv s" "jtag2_inv (s\<lparr>wq := b\<rparr>) = jtag2_inv s"
  "jtag2_inv (s\<lparr>tx := c\<rparr>) = jtag2_inv s" "jtag2_inv (s\<lparr>flq := k\<rparr>) = jtag2_inv s" "jtag2_inv (s\<lparr>ctrl_log := d\<rparr>) = jtag2_inv s"
  "jtag2_inv (s\<lparr>local_rate := e\<rparr>) = jtag2_inv s" "jtag2_inv (s\<lparr>programmingEnabled := f\<rparr>) = jtag2_inv s"
  "jtag2_inv (s\<lparr>device_name := g\<rparr>) = jtag2_inv s" "jtag2_inv (s\<lparr>p_device_def := h\<rparr>) = jtag2_inv s"
  by (simp_all add: jtag2_inv_def arrays_ok_def seq_ok_def)

lemma jtag2_inv_own [simp]:
  "jtag2_inv (s\<lparr>devdescrlen := a\<rparr>) = jtag2_inv s" "jtag2_inv (s\<lparr>signedIn := b\<rparr>) = jtag2_inv s"
  "jtag2_inv (s\<lparr>haveHiddenBreakpoint := b\<rparr>) = jtag2_inv s" "jtag2_inv (s\<lparr>is_xmega := b\<rparr>) = jtag2_inv s"
  "jtag2_inv (s\<lparr>flashCachePageAddr := e\<rparr>) = jtag2_inv s"
  "jtag2_inv (s\<lparr>eepromCachePageAddr := f\<rparr>) = jtag2_inv s"
  by (simp_all add: jtag2_inv_def arrays_ok_def seq_ok_def)

end
