(* ===== verification/Mk2_Frame.thy ===== *)
theory Mk2_Frame
  imports Mk2_State
begin

text \<open>
  The frame layer of the mkII protocol, \<^verbatim>\<open>src/src/jtag2io.cc\<close>: \<open>sendFrame\<close>, \<open>recvFrame\<close> and
  \<open>recv\<close>.
\<close>

section \<open>Sending\<close>

text \<open>The buffer of \<open>sendFrame\<close> before \<open>crcappend\<close>; the two bytes of the CRC are still as they
  were allocated.\<close>

definition frame_buffer :: "(nat \<Rightarrow> u8) \<Rightarrow> u16 \<Rightarrow> u8 list \<Rightarrow> u8 list" where
  "frame_buffer mem sequence command =
     MESSAGE_START # u16_to_b2 sequence @ u32_to_b4 (of_nat (length command)) @ [TOKEN] @ command @
     [mem (length command + 8), mem (length command + 9)]"

definition sendFrame :: "u8 list \<Rightarrow> ('z jtag2_scheme, unit) io" where
  "sendFrame command =
     io_bind (io_get (\<lambda>s. frame_buffer (fresh s) (command_sequence s) command)) (\<lambda>buf.
     io_bind (io_defined (crcappend buf (length command + 8))) (\<lambda>buf'.
     io_bind (safewrite buf') (\<lambda>count.
     if count < 0 then jtagCheck count
     else check (count = int (length command + 10)) JTAG_CAUSE)))"

text \<open>The frame of the protocol description in \<^verbatim>\<open>jtag_constants.h\<close>.\<close>

definition frame_header :: "u16 \<Rightarrow> nat \<Rightarrow> u8 list" where
  "frame_header sequence n = MESSAGE_START # u16_to_b2 sequence @ u32_to_b4 (of_nat n) @ [TOKEN]"

definition frame :: "u16 \<Rightarrow> u8 list \<Rightarrow> u8 list" where
  "frame sequence payload =
     (let body = frame_header sequence (length payload) @ payload in
      body @ u16_to_b2 (crcsum body CRC_INIT))"

lemma length_u16_to_b2 [simp]: "length (u16_to_b2 x) = 2"
  by (rule b2.length_enc)

lemma length_u32_to_b4 [simp]: "length (u32_to_b4 x) = 4"
  by (rule b4.length_enc)

lemma length_frame_header [simp]: "length (frame_header sequence n) = 8"
  by (simp add: frame_header_def)

lemma length_frame [simp]: "length (frame sequence payload) = length payload + 10"
  by (simp add: frame_def Let_def)

lemma crcappend_end:
  assumes "length b = n"
  shows "crcappend (b @ [x, y]) n = Some (b @ u16_to_b2 (crcsum b CRC_INIT))"
  using assms by (simp add: crcappend_def Let_def u16_to_b2_def list_update_append)

lemma crcappend_frame:
  "crcappend (frame_buffer mem sequence command) (length command + 8) = Some (frame sequence command)"
proof -
  have "frame_buffer mem sequence command = (frame_header sequence (length command) @ command) @
      [mem (length command + 8), mem (length command + 9)]"
    by (simp add: frame_buffer_def frame_header_def)
  then show ?thesis
    using crcappend_end [of "frame_header sequence (length command) @ command" "length command + 8"]
    by (simp add: frame_def Let_def)
qed

lemma crcverify_frame:
  "crcverify (frame sequence payload) (length payload + 10) = Some True"
  using crcappend_verifies [OF crcappend_frame [of undefined sequence payload]] by (simp add: ac_simps)

text \<open>\<open>sendFrame\<close> writes exactly the frame, or throws after writing a proper prefix of it.\<close>

lemma sendFrame_cases:
  obtains (sent) ws where "sendFrame command s =
      Some (Inr (), s\<lparr>wq := ws, tx := tx s @ frame (command_sequence s) command\<rparr>)"
    | (failed) k ws where "k < length command + 10" "sendFrame command s = Some (Inl (Thrown JTAG_CAUSE),
        s\<lparr>wq := ws, tx := tx s @ take k (frame (command_sequence s) command)\<rparr>)"
proof (cases "frame (command_sequence s) command" s rule: safewrite_cases)
  case (all ws)
  then show ?thesis
    using sent by (simp add: sendFrame_def crcappend_frame io_simps)
next
  case (error k ws)
  then show ?thesis
    using failed by (simp add: sendFrame_def crcappend_frame io_simps)
qed

lemma sendFrame_all:
  assumes "wq s = []"
  shows "sendFrame command s = Some (Inr (), s\<lparr>wq := [], tx := tx s @ frame (command_sequence s) command\<rparr>)"
proof -
  have "write_loop [] bs n out = (int (n + length bs), out @ bs, [])" for bs n out
    by (cases bs) simp_all
  then show ?thesis
    using assms by (simp add: sendFrame_def crcappend_frame safewrite_def io_simps)
qed

lemma preserves_sendFrame [preserve]:
  "(\<And>s ws out. I s \<Longrightarrow> I (s\<lparr>wq := ws, tx := out\<rparr>)) \<Longrightarrow> preserves I (sendFrame command)"
  unfolding sendFrame_def by (intro preserve)


section \<open>Receiving a frame\<close>

datatype rf_states = sSTART | sSEQNUM1 | sSEQNUM2 | sSIZE1 | sSIZE2 | sSIZE3 | sSIZE4 | sTOKEN
  | sDATA | sCSUM1 | sCSUM2 | sDONE

text \<open>\<open>state < sDATA\<close> on the enumeration.\<close>

definition before_data :: "rf_states \<Rightarrow> bool" where
  "before_data st \<longleftrightarrow> st \<notin> {sDATA, sCSUM1, sCSUM2, sDONE}"

text \<open>The local variables of \<open>recvFrame\<close>. (\<open>ignorpkt\<close> is never set and \<open>checksum\<close> never used.)\<close>

record rf =
  rf_state :: rf_states
  msglen :: u32
  rf_l :: nat
  headeridx :: nat
  rf_buf :: "u8 list option"
  rf_header :: "u8 list"
  r_seqno :: u16

definition rf_init :: "(nat \<Rightarrow> u8) \<Rightarrow> rf" where
  "rf_init mem = \<lparr>rf_state = sSTART, msglen = 0, rf_l = 0, headeridx = 0, rf_buf = None,
     rf_header = map mem [0..<8], r_seqno = 0\<rparr>"

definition domsglen :: "u8 \<Rightarrow> u32 \<Rightarrow> u32" where
  "domsglen c len = drop_bit 8 len OR push_bit 24 (ucast c)"

text \<open>
  One pass of the loop with a character \<open>c\<close> (every state but \<open>sDATA\<close>): \<open>Go\<close> is the next pass,
  \<open>Bad\<close> is \<open>return -1\<close>, \<open>Oob\<close> an access outside \<open>header\<close> or \<open>buf\<close>.
\<close>

datatype rf_step = Go rf | Bad | Oob

definition rf_store :: "rf \<Rightarrow> u8 \<Rightarrow> rf option" where
  "rf_store r c =
     (if before_data (rf_state r)
      then map_option (\<lambda>h. r\<lparr>rf_header := h, headeridx := headeridx r + 1\<rparr>)
             (store (rf_header r) (headeridx r) c)
      else Some r)"

definition rf_switch :: "(nat \<Rightarrow> u8) \<Rightarrow> u8 \<Rightarrow> rf \<Rightarrow> rf_step" where
  "rf_switch mem c r =
     (case rf_state r of
        sSTART \<Rightarrow> if c = MESSAGE_START then Go (r\<lparr>rf_state := sSEQNUM1\<rparr>)
                  else Go (r\<lparr>headeridx := 0\<rparr>)
      | sSEQNUM1 \<Rightarrow> Go (r\<lparr>r_seqno := ucast c, rf_state := sSEQNUM2\<rparr>)
      | sSEQNUM2 \<Rightarrow> Go (r\<lparr>r_seqno := r_seqno r OR push_bit 8 (ucast c), rf_state := sSIZE1\<rparr>)
      | sSIZE1 \<Rightarrow> Go (r\<lparr>msglen := domsglen c (msglen r), rf_state := sSIZE2\<rparr>)
      | sSIZE2 \<Rightarrow> Go (r\<lparr>msglen := domsglen c (msglen r), rf_state := sSIZE3\<rparr>)
      | sSIZE3 \<Rightarrow> Go (r\<lparr>msglen := domsglen c (msglen r), rf_state := sSIZE4\<rparr>)
      | sSIZE4 \<Rightarrow> Go (r\<lparr>msglen := domsglen c (msglen r), rf_state := sTOKEN\<rparr>)
      | sTOKEN \<Rightarrow>
          if c = TOKEN then
            (if MAX_MESSAGE < unat (msglen r) then Go (r\<lparr>rf_state := sSTART, headeridx := 0\<rparr>)
             else Go (r\<lparr>rf_state := sDATA,
               rf_buf := Some (rf_header r @ map mem [8..<unat (msglen r) + 10])\<rparr>))
          else Go (r\<lparr>rf_state := sSTART, headeridx := 0\<rparr>)
      | sCSUM1 \<Rightarrow> (case Option.bind (rf_buf r) (\<lambda>b. store b (rf_l r) c) of
            None \<Rightarrow> Oob
          | Some b \<Rightarrow> Go (r\<lparr>rf_buf := Some b, rf_l := rf_l r + 1, rf_state := sCSUM2\<rparr>))
      | sCSUM2 \<Rightarrow> (case Option.bind (rf_buf r) (\<lambda>b. store b (rf_l r) c) of
            None \<Rightarrow> Oob
          | Some b \<Rightarrow> (case crcverify b (unat (msglen r) + 10) of
                None \<Rightarrow> Oob
              | Some True \<Rightarrow> Go (r\<lparr>rf_buf := Some b, rf_l := rf_l r + 1, rf_state := sDONE\<rparr>)
              | Some False \<Rightarrow> Bad))
      | _ \<Rightarrow> Bad)"

definition rf_char :: "(nat \<Rightarrow> u8) \<Rightarrow> u8 \<Rightarrow> rf \<Rightarrow> rf_step" where
  "rf_char mem c r = (case rf_store r c of None \<Rightarrow> Oob | Some r' \<Rightarrow> rf_switch mem c r')"

text \<open>The statements after the loop: the result, \<open>msg\<close> (\<open>None\<close> is \<open>NULL\<close>) and \<open>seqno\<close> (\<open>None\<close>
  when it was not set).\<close>

type_synonym received = "int \<times> u8 list option \<times> u16 option"

definition rf_done :: "rf \<Rightarrow> received" where
  "rf_done r = (sint (msglen r), rf_buf r, Some (r_seqno r))"

function recvFrame_loop :: "rf \<Rightarrow> ('z jtag2_scheme, received) io" where
  "recvFrame_loop r s =
     (if rf_state r = sDONE then Some (Inr (rf_done r), s)
      else if rf_state r = sDATA then
        io_bind (timeout_read (unat (msglen r))) (\<lambda>bs t.
          if bs = [] then Some (Inr (rf_done r), t)
          else case Option.bind (rf_buf r) (\<lambda>b. store_many b 8 bs) of
              None \<Rightarrow> Some (Inl Undef, t)
            | Some b \<Rightarrow> recvFrame_loop
                (r\<lparr>rf_buf := Some b, rf_l := unat (msglen r) + 8, rf_state := sCSUM1\<rparr>) t) s
      else
        io_bind (timeout_read 1) (\<lambda>bs t.
          case bs of [] \<Rightarrow> Some (Inr (rf_done r), t)
          | c # _ \<Rightarrow> (case rf_char (fresh t) c r of
                Go r' \<Rightarrow> recvFrame_loop r' t
              | Bad \<Rightarrow> Some (Inr (-1, None, None), t)
              | Oob \<Rightarrow> Some (Inl Undef, t))) s)"
  by pat_completeness auto

termination
proof (relation "measure (\<lambda>(r, s). rx_size (rx s))", goal_cases)
  case (2 r s bs t b)
  then show ?case
    using timeout_read_size(1) [of "unat (msglen r)" s bs t] by (cases bs) auto
next
  case (3 r s bs t c cs r')
  then show ?case
    using timeout_read_size(1) [of 1 s bs t] by auto
qed simp

definition recvFrame :: "('z jtag2_scheme, received) io" where
  "recvFrame =
     io_then (ctrl_write 0x72) (io_bind (io_get fresh) (\<lambda>mem. recvFrame_loop (rf_init mem)))"

declare recvFrame_loop.simps [simp del]

text \<open>The ways the loop goes on or ends.\<close>

lemma recvFrame_loop_elim:
  assumes "recvFrame_loop r s = Some (x, s')"
  obtains (finished) "rf_state r = sDONE" "x = Inr (rf_done r)" "s' = s"
    | (failed) n e where "timeout_read n s = Some (Inl e, s')" "x = Inl e"
    | (timeout) n where "rf_state r \<noteq> sDONE" "timeout_read n s = Some (Inr [], s')" "x = Inr (rf_done r)"
    | (data) bs t b where "rf_state r = sDATA" "timeout_read (unat (msglen r)) s = Some (Inr bs, t)"
        "bs \<noteq> []" "Option.bind (rf_buf r) (\<lambda>b. store_many b 8 bs) = Some b"
        "recvFrame_loop (r\<lparr>rf_buf := Some b, rf_l := unat (msglen r) + 8, rf_state := sCSUM1\<rparr>) t =
           Some (x, s')"
    | (data_oob) bs where "rf_state r = sDATA" "timeout_read (unat (msglen r)) s = Some (Inr bs, s')"
        "Option.bind (rf_buf r) (\<lambda>b. store_many b 8 bs) = None" "x = Inl Undef"
    | (char) c cs t r' where "rf_state r \<noteq> sDONE" "rf_state r \<noteq> sDATA"
        "timeout_read 1 s = Some (Inr (c # cs), t)" "rf_char (fresh t) c r = Go r'"
        "recvFrame_loop r' t = Some (x, s')"
    | (bad) c cs where "rf_state r \<noteq> sDONE" "rf_state r \<noteq> sDATA"
        "timeout_read 1 s = Some (Inr (c # cs), s')" "rf_char (fresh s') c r = Bad"
        "x = Inr (-1, None, None)"
    | (oob) c cs where "rf_state r \<noteq> sDONE" "rf_state r \<noteq> sDATA"
        "timeout_read 1 s = Some (Inr (c # cs), s')" "rf_char (fresh s') c r = Oob" "x = Inl Undef"
proof -
  consider (a) "rf_state r = sDONE" | (b) "rf_state r = sDATA"
    | (c) "rf_state r \<noteq> sDONE" "rf_state r \<noteq> sDATA" by blast
  then show ?thesis
  proof cases
    case a
    then show ?thesis
      using assms finished by (auto simp: recvFrame_loop.simps)
  next
    case b
    from assms b obtain y t where rd: "timeout_read (unat (msglen r)) s = Some (y, t)"
      by (auto simp: recvFrame_loop.simps [of r s] elim!: io_bind_SomeE)
    show ?thesis
    proof (cases y)
      case (Inl e)
      with assms b rd show ?thesis
        by (intro failed [of "unat (msglen r)" e]) (auto simp: recvFrame_loop.simps [of r s] io_simps)
    next
      case (Inr bs)
      with assms b rd have x: "(if bs = [] then Some (Inr (rf_done r), t)
          else case Option.bind (rf_buf r) (\<lambda>b. store_many b 8 bs) of
              None \<Rightarrow> Some (Inl Undef, t)
            | Some b \<Rightarrow> recvFrame_loop
                (r\<lparr>rf_buf := Some b, rf_l := unat (msglen r) + 8, rf_state := sCSUM1\<rparr>) t) = Some (x, s')"
        by (simp add: recvFrame_loop.simps [of r s] io_simps)
      show ?thesis
      proof (cases "bs = []")
        case True
        then show ?thesis
          using x rd b Inr by (intro timeout [of "unat (msglen r)"]) auto
      next
        case False
        then show ?thesis
          using x rd b Inr data [of bs t] data_oob [of bs] by (auto split: option.splits)
      qed
    qed
  next
    case c
    from assms c obtain y t where rd: "timeout_read 1 s = Some (y, t)"
      by (auto simp: recvFrame_loop.simps [of r s] elim!: io_bind_SomeE)
    show ?thesis
    proof (cases y)
      case (Inl e)
      with assms c rd show ?thesis
        by (intro failed [of 1 e]) (auto simp: recvFrame_loop.simps [of r s] io_simps)
    next
      case (Inr bs)
      with assms c rd have x: "(case bs of [] \<Rightarrow> Some (Inr (rf_done r), t)
          | c # _ \<Rightarrow> (case rf_char (fresh t) c r of
                Go r' \<Rightarrow> recvFrame_loop r' t
              | Bad \<Rightarrow> Some (Inr (-1, None, None), t)
              | Oob \<Rightarrow> Some (Inl Undef, t))) = Some (x, s')"
        by (simp add: recvFrame_loop.simps [of r s] io_simps)
      show ?thesis
      proof (cases bs)
        case Nil
        then show ?thesis
          using x rd c Inr by (intro timeout [of 1]) auto
      next
        case (Cons d ds)
        then show ?thesis
          using x rd c Inr char [of d ds t] bad [of d ds] oob [of d ds] by (auto split: rf_step.splits)
      qed
    qed
  qed
qed

text \<open>The rule for statements about all runs: an invariant of the loop and what it gives at every
  end.\<close>

lemma recvFrame_loop_rule:
  assumes "recvFrame_loop r s = Some (x, s')" and "Inv r s"
    and "\<And>r s. Inv r s \<Longrightarrow> rf_state r = sDONE \<Longrightarrow> P (Inr (rf_done r)) s"
    and "\<And>r s n e t. Inv r s \<Longrightarrow> timeout_read n s = Some (Inl e, t) \<Longrightarrow> P (Inl e) t"
    and "\<And>r s n t. Inv r s \<Longrightarrow> rf_state r \<noteq> sDONE \<Longrightarrow> timeout_read n s = Some (Inr [], t) \<Longrightarrow> P (Inr (rf_done r)) t"
    and "\<And>r s bs t. Inv r s \<Longrightarrow> rf_state r = sDATA \<Longrightarrow>
        timeout_read (unat (msglen r)) s = Some (Inr bs, t) \<Longrightarrow>
        case Option.bind (rf_buf r) (\<lambda>b. store_many b 8 bs) of
          None \<Rightarrow> P (Inl Undef) t
        | Some b \<Rightarrow> Inv (r\<lparr>rf_buf := Some b, rf_l := unat (msglen r) + 8, rf_state := sCSUM1\<rparr>) t"
    and "\<And>r s c cs t. Inv r s \<Longrightarrow> rf_state r \<noteq> sDATA \<Longrightarrow> rf_state r \<noteq> sDONE \<Longrightarrow>
        timeout_read 1 s = Some (Inr (c # cs), t) \<Longrightarrow>
        case rf_char (fresh t) c r of Go r' \<Rightarrow> Inv r' t | Bad \<Rightarrow> P (Inr (-1, None, None)) t
        | Oob \<Rightarrow> P (Inl Undef) t"
  shows "P x s'"
  using assms(1,2)
proof (induction "rx_size (rx s)" arbitrary: r s rule: less_induct)
  case less
  from less.prems(1) show ?case
  proof (cases rule: recvFrame_loop_elim)
    case (data bs t b)
    then show ?thesis
      using less.hyps [of t] less.prems assms(6) [of r s bs t] timeout_read_size(1) [OF data(2)]
      by (cases bs) auto
  next
    case (char c cs t r')
    then show ?thesis
      using less.hyps [of t r'] less.prems assms(7) [of r s c cs t] timeout_read_size(1) [OF char(3)] by auto
  next
    case (data_oob bs)
    then show ?thesis using less.prems assms(6) [of r s bs s'] by auto
  next
    case (bad c cs)
    then show ?thesis using less.prems assms(7) [of r s c cs s'] by auto
  next
    case (oob c cs)
    then show ?thesis using less.prems assms(7) [of r s c cs s'] by auto
  qed (use less.prems assms(3-5) in auto)
qed

lemma recvFrame_elim:
  assumes "recvFrame s = Some (x, s')"
  obtains t where "recvFrame_loop (rf_init (fresh t)) t = Some (x, s')"
    "t = s\<lparr>ctrl_log := ctrl_log t\<rparr>"
  using assms that [of s] that [of "s\<lparr>ctrl_log := ctrl_log s @ [0x72]\<rparr>"]
  by (auto simp: recvFrame_def ctrl_write_def io_then_def io_bind_def io_get_def split: if_splits)

lemma preserves_recvFrame [preserve]:
  assumes "\<And>s evs. I s \<Longrightarrow> I (s\<lparr>rx := evs\<rparr>)" "\<And>s l. I s \<Longrightarrow> I (s\<lparr>ctrl_log := l\<rparr>)"
  shows "preserves I recvFrame"
proof
  fix s x s'
  assume "I s" "recvFrame s = Some (x, s')"
  then obtain t where "recvFrame_loop (rf_init (fresh t)) t = Some (x, s')" "I t"
    by (metis recvFrame_elim assms(2))
  then show "I s'"
    by (rule recvFrame_loop_rule [where Inv = "\<lambda>_. I" and P = "\<lambda>_. I"])
      (auto dest!: timeout_read_state intro: assms(1) split: option.split rf_step.split)
qed

section \<open>The reader stays inside its buffers\<close>

text \<open>The number of header bytes read before each state.\<close>

fun rf_pos :: "rf_states \<Rightarrow> nat" where
  "rf_pos sSTART = 0" | "rf_pos sSEQNUM1 = 1" | "rf_pos sSEQNUM2 = 2" | "rf_pos sSIZE1 = 3"
| "rf_pos sSIZE2 = 4" | "rf_pos sSIZE3 = 5" | "rf_pos sSIZE4 = 6" | "rf_pos sTOKEN = 7"
| "rf_pos _ = 8"

definition rf_inv :: "rf \<Rightarrow> bool" where
  "rf_inv r \<longleftrightarrow> length (rf_header r) = 8 \<and>
     (if before_data (rf_state r) then headeridx r = rf_pos (rf_state r) \<and> rf_buf r = None
      else unat (msglen r) \<le> MAX_MESSAGE \<and>
        (\<exists>b. rf_buf r = Some b \<and> length b = unat (msglen r) + 10) \<and>
        (rf_state r = sCSUM1 \<longrightarrow> rf_l r = unat (msglen r) + 8) \<and>
        (rf_state r = sCSUM2 \<longrightarrow> rf_l r = unat (msglen r) + 9))"

lemma rf_inv_init: "rf_inv (rf_init mem)"
  by (simp add: rf_inv_def rf_init_def before_data_def)

lemma rf_char_inv:
  assumes "rf_inv r" "rf_state r \<noteq> sDATA" "rf_state r \<noteq> sDONE"
  shows "rf_char mem c r \<noteq> Oob" "rf_char mem c r = Go r' \<Longrightarrow> rf_inv r'"
  using assms
  by (cases "rf_state r"; auto simp: rf_char_def rf_store_def rf_switch_def rf_inv_def before_data_def
      store_def crcverify_def Let_def split: if_splits option.splits bool.splits)+

lemma rf_data_inv:
  assumes "rf_inv r" "rf_state r = sDATA" "length bs \<le> unat (msglen r)"
  shows "\<exists>b. Option.bind (rf_buf r) (\<lambda>b. store_many b 8 bs) = Some b \<and>
     rf_inv (r\<lparr>rf_buf := Some b, rf_l := unat (msglen r) + 8, rf_state := sCSUM1\<rparr>)"
  using assms by (auto simp: rf_inv_def before_data_def store_many_def)

lemma timeout_read_error: "timeout_read n s = Some (Inl e, t) \<Longrightarrow> e = Thrown JTAG_CAUSE"
  using timeout_read_enough [of n s] timeout_read_short [of s n]
  by (cases "n \<le> length (avail (rx s))"; cases "rx s" rule: stop_cases) auto

lemma recvFrame_safe: "recvFrame s = Some (x, s') \<Longrightarrow> x \<noteq> Inl Undef"
proof (elim recvFrame_elim)
  fix t
  assume "recvFrame_loop (rf_init (fresh t)) t = Some (x, s')"
  then show "x \<noteq> Inl Undef"
  proof (rule recvFrame_loop_rule [where Inv = "\<lambda>r _. rf_inv r" and P = "\<lambda>x _. x \<noteq> Inl Undef"])
    fix r :: rf and s :: "'a jtag2_scheme" and bs t
    assume "rf_inv r" "rf_state r = sDATA" "timeout_read (unat (msglen r)) s = Some (Inr bs, t)"
    then show "case Option.bind (rf_buf r) (\<lambda>b. store_many b 8 bs) of None \<Rightarrow> Inl Undef \<noteq> Inl Undef
        | Some b \<Rightarrow> rf_inv (r\<lparr>rf_buf := Some b, rf_l := unat (msglen r) + 8, rf_state := sCSUM1\<rparr>)"
      using rf_data_inv [of r bs] timeout_read_size(2) by fastforce
  next
    fix r :: rf and s :: "'a jtag2_scheme" and c cs t
    assume "rf_inv r" "rf_state r \<noteq> sDATA" "rf_state r \<noteq> sDONE"
    then show "case rf_char (fresh t) c r of Go r' \<Rightarrow> rf_inv r'
        | Bad \<Rightarrow> Inr (-1, None, None) \<noteq> Inl Undef | Oob \<Rightarrow> Inl Undef \<noteq> Inl Undef"
      using rf_char_inv [of r "fresh t" c] by (auto split: rf_step.split)
  next
    fix r :: rf and s :: "'a jtag2_scheme" and n e t
    assume "timeout_read n s = Some (Inl e, t)"
    then show "Inl e \<noteq> (Inl Undef :: err + received)"
      by (auto dest: timeout_read_error)
  qed (use rf_inv_init in auto)
qed

section \<open>What arrives is what was sent\<close>

text \<open>\<open>fed s s' r\<close>: in \<open>s'\<close> only the script of \<open>s\<close> has advanced, to where the bytes \<open>r\<close> are to
  come before the same stop.\<close>

definition fed :: "'z jtag_scheme \<Rightarrow> 'z jtag_scheme \<Rightarrow> u8 list \<Rightarrow> bool" where
  "fed s s' r \<longleftrightarrow> (\<exists>evs. s' = s\<lparr>rx := evs\<rparr> \<and> avail evs = r \<and> stop evs = stop (rx s))"

lemma fed_refl: "avail (rx s) = r \<Longrightarrow> fed s s r"
  by (auto simp: fed_def intro: exI [of _ "rx s"])

lemma fed_trans: "fed s t q \<Longrightarrow> fed t u r \<Longrightarrow> fed s u r"
  by (auto simp: fed_def)

lemma fed_avail: "fed s t r \<Longrightarrow> avail (rx t) = r"
  by (auto simp: fed_def)

lemma fed_fresh: "fed s t r \<Longrightarrow> fresh t = fresh s"
  by (auto simp: fed_def)

lemma timeout_read_fed:
  assumes "avail (rx s) = bs @ r"
  obtains t where "timeout_read (length bs) s = Some (Inr bs, t)" "fed s t r"
  using timeout_read_enough [of "length bs" s] assms by (auto simp: fed_def)

fun rf_feed :: "(nat \<Rightarrow> u8) \<Rightarrow> u8 list \<Rightarrow> rf \<Rightarrow> rf option" where
  "rf_feed mem [] r = Some r"
| "rf_feed mem (c # cs) r =
     (if rf_state r \<in> {sDATA, sDONE} then None
      else case rf_char mem c r of Go r' \<Rightarrow> rf_feed mem cs r' | _ \<Rightarrow> None)"

lemma rf_feed_append: "rf_feed mem (xs @ ys) r = Option.bind (rf_feed mem xs r) (rf_feed mem ys)"
  by (induction mem xs r rule: rf_feed.induct) (auto split: rf_step.split)

lemma recvFrame_loop_feed:
  assumes "rf_feed (fresh s) cs r = Some r'" "avail (rx s) = cs @ rest"
  shows "\<exists>t. fed s t rest \<and> recvFrame_loop r s = recvFrame_loop r' t"
  using assms
proof (induction cs arbitrary: r s)
  case Nil
  then show ?case using fed_refl by auto
next
  case (Cons c cs)
  from Cons.prems obtain q where r: "rf_state r \<noteq> sDATA" "rf_state r \<noteq> sDONE"
    and q: "rf_char (fresh s) c r = Go q" "rf_feed (fresh s) cs q = Some r'"
    by (auto split: if_splits rf_step.splits)
  obtain t where t: "timeout_read 1 s = Some (Inr [c], t)" "fed s t (cs @ rest)"
    using timeout_read_fed [of s "[c]" "cs @ rest"] Cons.prems(2) by auto
  then have "recvFrame_loop r s = recvFrame_loop q t"
    using r q fed_fresh [OF t(2)] by (subst recvFrame_loop.simps) (simp add: io_simps)
  moreover obtain u where "fed t u rest" "recvFrame_loop q t = recvFrame_loop r' u"
    using Cons.IH [of t q] q(2) fed_fresh [OF t(2)] fed_avail [OF t(2)] by auto
  ultimately show ?case
    using fed_trans [OF t(2)] by auto
qed

text \<open>Bytes before the start of a frame are skipped.\<close>

lemma rf_feed_junk:
  assumes "MESSAGE_START \<notin> set junk" "rf_state r = sSTART" "headeridx r = 0" "length (rf_header r) = 8"
  shows "\<exists>h. length h = 8 \<and> rf_feed mem junk r = Some (r\<lparr>rf_header := h\<rparr>)"
  using assms
proof (induction junk arbitrary: r)
  case Nil
  then show ?case by (intro exI [of _ "rf_header r"]) simp
next
  case (Cons c cs)
  then have "rf_char mem c r = Go (r\<lparr>rf_header := (rf_header r)[0 := c]\<rparr>)"
    by (cases r) (auto simp: rf_char_def rf_store_def rf_switch_def before_data_def store_def)
  with Cons show ?case
    using Cons.IH [of "r\<lparr>rf_header := (rf_header r)[0 := c]\<rparr>"] by auto
qed

lemma domsglen_le:
  assumes "n < 2 ^ 32"
  shows "fold domsglen (u32_to_b4 (of_nat n)) len = of_nat n"
proof -
  define x :: u64 where "x = of_nat n"
  have x: "x < 2 ^ 32"
    using assms by (simp add: x_def word_less_nat_alt unat_of_nat take_bit_nat_eq_self)
  have bits: "bit x k \<longleftrightarrow> k < 32 \<and> bit n k" for k
    using x unfolding u64_less_iff by (auto simp: x_def bit_simps)
  have "fold domsglen (u32_to_b4 x) len = of_nat n"
  proof (rule bit_eqI)
    fix k
    show "bit (fold domsglen (u32_to_b4 x) len) k \<longleftrightarrow> bit (of_nat n :: u32) k"
    proof (cases "k < 32")
      case True
      then consider "k < 8" | "8 \<le> k" "k < 16" | "16 \<le> k" "k < 24" | "24 \<le> k" "k < 32"
        by linarith
      then show ?thesis
        by cases (auto simp: u32_to_b4_def mask8 domsglen_def bit_simps bits dest: bit_imp_le_length)
    qed (auto dest: bit_imp_le_length)
  qed
  then show ?thesis by (simp add: x_def)
qed

lemma u16_bytes: "ucast (a :: u8) OR push_bit 8 (ucast (b :: u8)) = sequence"
  if "u16_to_b2 sequence = [a, b]"
  using that b2_dec_enc [of sequence "[]"] by (simp add: b2_to_u16_or del: b2_to_u16.simps)

text \<open>A header takes the reader from its start state to the payload.\<close>

lemma rf_feed_header:
  assumes "rf_state r = sSTART" "headeridx r = 0" "length (rf_header r) = 8" "n \<le> MAX_MESSAGE"
  shows "rf_feed mem (frame_header sequence n) r = Some (r\<lparr>rf_state := sDATA, msglen := of_nat n,
     headeridx := 8, rf_header := frame_header sequence n, r_seqno := sequence,
     rf_buf := Some (frame_header sequence n @ map mem [8..<n + 10])\<rparr>)"
proof -
  obtain s0 s1 where sq: "u16_to_b2 sequence = [s0, s1]"
    by (simp add: u16_to_b2_def)
  obtain l0 l1 l2 l3 where ln: "u32_to_b4 (of_nat n) = [l0, l1, l2, l3]"
    by (simp add: u32_to_b4_def)
  obtain h0 h1 h2 h3 h4 h5 h6 h7 where h: "rf_header r = [h0, h1, h2, h3, h4, h5, h6, h7]"
    using assms(3) by (auto simp: length_Suc_conv eval_nat_numeral)
  have n: "n < 2 ^ 32" "unat (of_nat n :: u32) = n"
    using assms(4) by (simp_all add: code_defs unat_of_nat take_bit_nat_eq_self)
  have len: "domsglen l3 (domsglen l2 (domsglen l1 (domsglen l0 (msglen r)))) = of_nat n"
    using domsglen_le [OF n(1), of "msglen r"] by (simp add: ln)
  show ?thesis
    using assms h n len u16_bytes [OF sq]
    by (cases r) (simp add: frame_header_def sq ln rf_char_def rf_store_def rf_switch_def before_data_def
        store_def not_less)
qed

text \<open>The payload and the two bytes of the CRC.\<close>

lemma recvFrame_loop_payload:
  assumes r: "rf_state r = sDATA" "msglen r = of_nat (length payload)" "r_seqno r = sequence"
      "rf_buf r = Some (h @ pad)" "length h = 8" "length pad = length payload + 2"
    and len: "0 < length payload" "length payload \<le> MAX_MESSAGE"
    and avail: "avail (rx s) = payload @ [x, y] @ rest"
  shows "\<exists>t. fed s t rest \<and> recvFrame_loop r s =
     (if crcverify (h @ payload @ [x, y]) (length payload + 10) = Some True
      then Some (Inr (int (length payload), Some (h @ payload @ [x, y]), Some sequence), t)
      else Some (Inr (-1, None, None), t))"
proof -
  define n where "n = length payload"
  have n: "unat (msglen r) = n" "sint (msglen r) = int n" "0 < n"
    using len r(2) by (simp_all add: n_def code_defs unat_of_nat take_bit_nat_eq_self
        signed_of_nat signed_take_bit_int_eq_self)
  obtain p0 p1 where pad: "drop n pad = [p0, p1]"
    using r(6) by (metis (no_types) add_diff_cancel_left' length_0_conv length_Suc_conv length_drop
        n_def numeral_2_eq_2)
  obtain t where t: "timeout_read n s = Some (Inr payload, t)" "fed s t ([x, y] @ rest)"
    using timeout_read_fed avail by (metis n_def)
  have buf: "store_many (h @ pad) 8 payload = Some (h @ payload @ [p0, p1])"
    using r(5,6) pad by (simp add: store_many_def n_def)
  define q where "q = r\<lparr>rf_buf := Some (h @ payload @ [p0, p1]), rf_l := n + 8, rf_state := sCSUM1\<rparr>"
  have "recvFrame_loop r s = recvFrame_loop q t"
    using r(1,4) t(1) n buf by (subst recvFrame_loop.simps) (auto simp: io_simps n_def q_def)
  moreover
  define q1 where "q1 = q\<lparr>rf_buf := Some (h @ payload @ [x, p1]), rf_l := n + 9, rf_state := sCSUM2\<rparr>"
  have "rf_feed (fresh t) [x] q = Some q1"
    using r(5) by (simp add: q_def q1_def rf_char_def rf_store_def rf_switch_def before_data_def
        store_def n_def list_update_append)
  then obtain u where u: "fed t u ([y] @ rest)" "recvFrame_loop q t = recvFrame_loop q1 u"
    using recvFrame_loop_feed [of t "[x]" q q1 "[y] @ rest"] fed_avail [OF t(2)] by auto
  moreover obtain v where v: "timeout_read 1 u = Some (Inr [y], v)" "fed u v rest"
    using timeout_read_fed [of u "[y]" rest] fed_avail [OF u(1)] by auto
  have "fed s v rest"
    using t(2) u(1) v(2) fed_trans by blast
  moreover have "recvFrame_loop q1 u =
     (if crcverify (h @ payload @ [x, y]) (n + 10) = Some True
      then Some (Inr (int n, Some (h @ payload @ [x, y]), Some sequence), v)
      else Some (Inr (-1, None, None), v))"
  proof -
    have upd: "(h @ payload @ [x, p1])[n + 9 := y] = h @ payload @ [x, y]"
      using r(5) by (simp add: list_update_append n_def)
    obtain b where crc: "crcverify (h @ payload @ [x, y]) (n + 10) = Some b"
      using r(5) by (simp add: crcverify_def Let_def n_def)
    show ?thesis
      using v(1) n r(3,5) upd crc
      by (subst recvFrame_loop.simps, cases b)
        (simp_all add: io_simps q1_def q_def rf_char_def rf_store_def rf_switch_def before_data_def
          store_def n_def recvFrame_loop.simps rf_done_def)
  qed
  ultimately show ?thesis
    unfolding n_def by auto
qed

lemma fed_update: "fed s t r \<Longrightarrow> t = s\<lparr>rx := rx t\<rparr> \<and> avail (rx t) = r \<and> stop (rx t) = stop (rx s)"
  by (auto simp: fed_def)

definition ctrl_ready :: "'z jtag2_scheme \<Rightarrow> 'z jtag2_scheme" where
  "ctrl_ready s = (if ctrlPipe s \<noteq> -1 then s\<lparr>ctrl_log := ctrl_log s @ [0x72]\<rparr> else s)"

lemma recvFrame_ready: "recvFrame s = recvFrame_loop (rf_init (fresh s)) (ctrl_ready s)"
  by (simp add: recvFrame_def ctrl_ready_def ctrl_write_def io_then_def io_bind_def io_get_def)

lemma ctrl_ready_simps [simp]:
  "rx (ctrl_ready s) = rx s" "fresh (ctrl_ready s) = fresh s"
  "command_sequence (ctrl_ready s) = command_sequence s"
  by (simp_all add: ctrl_ready_def)

text \<open>After junk and a header the reader waits for the payload.\<close>

lemma recvFrame_header:
  assumes "MESSAGE_START \<notin> set junk" "n \<le> MAX_MESSAGE"
    and "avail (rx s) = junk @ frame_header sequence n @ rest"
  shows "\<exists>t r. fed (ctrl_ready s) t rest \<and> recvFrame s = recvFrame_loop r t \<and> rf_state r = sDATA \<and>
     msglen r = of_nat n \<and> r_seqno r = sequence \<and>
     rf_buf r = Some (frame_header sequence n @ map (fresh s) [8..<n + 10])"
proof -
  obtain h where h: "length h = 8" "rf_feed (fresh s) junk (rf_init (fresh s)) = Some (rf_init (fresh s)\<lparr>rf_header := h\<rparr>)"
    using rf_feed_junk [OF assms(1), of "rf_init (fresh s)" "fresh s"] by (auto simp: rf_init_def)
  obtain r where r: "rf_feed (fresh s) (junk @ frame_header sequence n) (rf_init (fresh s)) = Some r"
    "rf_state r = sDATA" "msglen r = of_nat n" "r_seqno r = sequence"
    "rf_buf r = Some (frame_header sequence n @ map (fresh s) [8..<n + 10])"
    using h assms(2) by (simp add: rf_feed_append rf_feed_header rf_init_def)
  show ?thesis
    using recvFrame_loop_feed [of "ctrl_ready s" "junk @ frame_header sequence n" "rf_init (fresh s)" r rest]
      r assms(3) by (auto simp: recvFrame_ready)
qed

lemma recvFrame_body:
  assumes "MESSAGE_START \<notin> set junk" "0 < length payload" "length payload \<le> MAX_MESSAGE"
    and "avail (rx s) = junk @ frame_header sequence (length payload) @ payload @ [x, y] @ rest"
  shows "\<exists>t. fed (ctrl_ready s) t rest \<and> recvFrame s =
     (if crcverify (frame_header sequence (length payload) @ payload @ [x, y]) (length payload + 10) = Some True
      then Some (Inr (int (length payload),
             Some (frame_header sequence (length payload) @ payload @ [x, y]), Some sequence), t)
      else Some (Inr (-1, None, None), t))"
proof -
  from recvFrame_header [OF assms(1,3,4)] obtain t r where
    t: "fed (ctrl_ready s) t (payload @ [x, y] @ rest)" "recvFrame s = recvFrame_loop r t"
    and r: "rf_state r = sDATA" "msglen r = of_nat (length payload)" "r_seqno r = sequence"
      "rf_buf r = Some (frame_header sequence (length payload) @ map (fresh s) [8..<length payload + 10])"
    by auto
  show ?thesis
    unfolding t(2) using recvFrame_loop_payload [OF r _ _ assms(2,3) fed_avail [OF t(1)]] fed_trans [OF t(1)]
    by (auto split: if_splits)
qed

text \<open>A complete frame.\<close>

lemma recvFrame_frame:
  assumes "MESSAGE_START \<notin> set junk" "0 < length payload" "length payload \<le> MAX_MESSAGE"
    and "avail (rx s) = junk @ frame sequence payload @ rest"
  shows "\<exists>t. fed (ctrl_ready s) t rest \<and>
     recvFrame s = Some (Inr (int (length payload), Some (frame sequence payload), Some sequence), t)"
proof -
  obtain x y where xy: "frame sequence payload = frame_header sequence (length payload) @ payload @ [x, y]"
    by (auto simp: frame_def Let_def u16_to_b2_def)
  show ?thesis
    using recvFrame_body [OF assms(1-3), of s sequence x y rest] assms(4) crcverify_frame [of sequence payload]
    by (simp add: xy)
qed

text \<open>The line falls silent after the payload: the CRC never comes.\<close>

lemma recvFrame_cut:
  assumes "MESSAGE_START \<notin> set junk" "0 < length payload" "length payload \<le> MAX_MESSAGE"
    and "avail (rx s) = junk @ frame_header sequence (length payload) @ payload"
    and "stop (rx s) = Timeout # evs"
  shows "recvFrame s = Some (Inr (int (length payload),
       Some (frame_header sequence (length payload) @ payload @
         [fresh s (length payload + 8), fresh s (length payload + 9)]), Some sequence),
     (ctrl_ready s)\<lparr>rx := evs\<rparr>)"
proof -
  define n where "n = length payload"
  obtain t r where
    t: "fed (ctrl_ready s) t payload" "recvFrame s = recvFrame_loop r t"
    and r: "rf_state r = sDATA" "msglen r = of_nat n" "r_seqno r = sequence"
      "rf_buf r = Some (frame_header sequence n @ map (fresh s) [8..<n + 10])"
    using recvFrame_header [OF assms(1,3,4)] by (auto simp: n_def)
  have n: "unat (msglen r) = n" "sint (msglen r) = int n" "n \<noteq> 0"
    using assms(2,3) r(2) by (simp_all add: n_def code_defs unat_of_nat take_bit_nat_eq_self
        signed_of_nat signed_take_bit_int_eq_self)
  obtain u where u: "timeout_read n t = Some (Inr payload, u)" "fed t u []"
    using timeout_read_fed [of t payload "[]"] fed_avail [OF t(1)] by (auto simp: n_def)
  have su: "u = (ctrl_ready s)\<lparr>rx := rx u\<rparr>" "avail (rx u) = []" "stop (rx u) = Timeout # evs"
    using fed_update [OF fed_trans [OF t(1) u(2)]] assms(5) by simp_all
  have w: "timeout_read 1 u = Some (Inr [], u\<lparr>rx := evs\<rparr>)"
    using timeout_read_short [of u 1] su(2,3) by simp
  have pad: "drop n (map (fresh s) [8..<n + 10]) = [fresh s (n + 8), fresh s (n + 9)]"
    proof -
    have "[n + 8..<n + 10] = [n + 8, n + 9]"
      by (simp add: upt_conv_Cons)
    then show ?thesis
      by (simp add: drop_map ac_simps)
  qed
  have "recvFrame_loop r t = recvFrame_loop (r\<lparr>rf_buf := Some (frame_header sequence n @ payload @
      [fresh s (n + 8), fresh s (n + 9)]), rf_l := n + 8, rf_state := sCSUM1\<rparr>) u"
    using r u(1) n pad by (subst recvFrame_loop.simps) (auto simp: io_simps n_def store_many_def)
  also have "\<dots> = Some (Inr (int n, Some (frame_header sequence n @ payload @
      [fresh s (n + 8), fresh s (n + 9)]), Some sequence), u\<lparr>rx := evs\<rparr>)"
    using w n r by (subst recvFrame_loop.simps) (simp add: io_simps rf_done_def)
  also have "u\<lparr>rx := evs\<rparr> = (ctrl_ready s)\<lparr>rx := evs\<rparr>"
    by (subst su(1)) simp
  finally show ?thesis
    by (simp add: t(2) n_def)
qed

section \<open>The reader returns\<close>

text \<open>Without an end of file in the script every read returns, and leaves such a script.\<close>

definition no_eof :: "'z jtag_scheme \<Rightarrow> bool" where
  "no_eof s \<longleftrightarrow> Chunk [] \<notin> set (rx s)"

lemma no_eof_simps [simp]:
  "no_eof (s\<lparr>wq := a\<rparr>) = no_eof s" "no_eof (s\<lparr>tx := b\<rparr>) = no_eof s"
  "no_eof (s\<lparr>ctrl_log := c\<rparr>) = no_eof s" "no_eof (s\<lparr>local_rate := d\<rparr>) = no_eof s"
  by (simp_all add: no_eof_def)

lemma read_loop_total:
  "Chunk [] \<notin> set evs \<Longrightarrow> \<exists>x evs'. read_loop n acc evs = Some (x, evs') \<and> Chunk [] \<notin> set evs'"
proof (induction "rx_size evs" arbitrary: acc evs rule: less_induct)
  case less
  show ?case
  proof (cases "length acc < n")
    case True
    show ?thesis
    proof (cases evs)
      case (Cons e es)
      show ?thesis
      proof (cases e)
        case (Chunk bs)
        define k where "k = min (length bs) (n - length acc)"
        define next_evs where "next_evs = (if k < length bs then Chunk (drop k bs) # es else es)"
        have "bs \<noteq> []" using Cons Chunk less.prems by auto
        then have "0 < k" "rx_size next_evs < rx_size evs" "Chunk [] \<notin> set next_evs"
          using True Cons Chunk less.prems by (auto simp: k_def next_evs_def)
        moreover have "read_loop n acc evs = read_loop n (acc @ take k bs) next_evs"
          using True Cons Chunk \<open>bs \<noteq> []\<close> by (subst read_loop.simps) (simp add: k_def next_evs_def Let_def)
        ultimately show ?thesis
          using less.hyps by metis
      qed (use True Cons less in \<open>auto simp: read_loop.simps [of n acc "_ # _"]\<close>)
    qed (use True in \<open>simp add: read_loop.simps [of n acc "[]"]\<close>)
  qed (use less.prems in \<open>simp add: read_loop_done\<close>)
qed

lemma timeout_read_total:
  assumes "no_eof s"
  obtains x t where "timeout_read n s = Some (x, t)" "no_eof t"
  using read_loop_total [of "rx s" n "[]"] assms by (auto simp: timeout_read_def no_eof_def)

lemma recvFrame_loop_total:
  "no_eof s \<Longrightarrow> \<exists>x t. recvFrame_loop r s = Some (x, t) \<and> no_eof t"
proof (induction r s rule: recvFrame_loop.induct)
  case (1 r s)
  consider (fin) "rf_state r = sDONE" | (dat) "rf_state r = sDATA"
    | (chr) "rf_state r \<noteq> sDONE" "rf_state r \<noteq> sDATA" by blast
  then show ?case
  proof cases
    case fin
    then show ?thesis using "1.prems" by (simp add: recvFrame_loop.simps)
  next
    case dat
    obtain x t where t: "timeout_read (unat (msglen r)) s = Some (x, t)" "no_eof t"
      using timeout_read_total "1.prems" by blast
    then show ?thesis
      using dat "1.IH"(1) [OF _ dat, of _ t]
      by (cases x) (auto simp: recvFrame_loop.simps [of r s] io_simps split: option.split)
  next
    case chr
    obtain x t where t: "timeout_read 1 s = Some (x, t)" "no_eof t"
      using timeout_read_total "1.prems" by blast
    then show ?thesis
      using chr "1.IH"(2) [OF chr, of _ t]
      by (cases x) (auto simp: recvFrame_loop.simps [of r s] io_simps split: list.split rf_step.split)
  qed
qed

lemma recvFrame_total:
  assumes "no_eof s"
  obtains x t where "recvFrame s = Some (x, t)" "no_eof t"
  using recvFrame_loop_total [of "ctrl_ready s" "rf_init (fresh s)"] assms
  by (auto simp: recvFrame_ready no_eof_def)

section \<open>Properties\<close>

text \<open>C5: a payload sent by \<open>sendFrame\<close> is what \<open>recvFrame\<close> returns at the other end, with the
  sender's sequence number, whatever the chunking of the line and whatever bytes without a
  \<open>MESSAGE_START\<close> precede it; exactly the frame is consumed.\<close>

theorem recvFrame_sendFrame:
  assumes "sendFrame payload s = Some (Inr (), s')" "tx s' = tx s @ bytes"
    and "0 < length payload" "length payload \<le> MAX_MESSAGE" "MESSAGE_START \<notin> set junk"
    and "avail (rx r) = junk @ bytes @ rest"
  shows "\<exists>buf t. recvFrame r = Some (Inr (int (length payload), Some buf, Some (command_sequence s)), t) \<and>
     take (length payload) (drop 8 buf) = payload \<and> avail (rx t) = rest \<and> stop (rx t) = stop (rx r)"
proof -
  have "bytes = frame (command_sequence s) payload"
    using assms(1,2) by (cases payload s rule: sendFrame_cases) auto
  with recvFrame_frame [OF assms(5,3,4), of r "command_sequence s" rest] assms(6) obtain t where t: "fed (ctrl_ready r) t rest"
    "recvFrame r = Some (Inr (int (length payload), Some (frame (command_sequence s) payload),
       Some (command_sequence s)), t)"
    by auto
  moreover have "take (length payload) (drop 8 (frame (command_sequence s) payload)) = payload"
    by (simp add: frame_def Let_def)
  ultimately show ?thesis
    using fed_update [OF t(1)] by auto
qed

text \<open>C6: on no input does \<open>recvFrame\<close> access its header or its message buffer out of bounds.\<close>

theorem recvFrame_no_overrun: "recvFrame s \<noteq> Some (Inl Undef, s')"
  using recvFrame_safe by blast

text \<open>Unless the line reaches the end of file, \<open>recvFrame\<close> returns.\<close>

lemma recvFrame_returns:
  assumes "no_eof s"
  shows "recvFrame s \<noteq> None"
  by (rule recvFrame_total [OF assms]) simp

text \<open>C7: a frame whose payload or CRC was changed within two adjacent bytes is refused.\<close>

theorem recvFrame_refuses_burst:
  assumes "MESSAGE_START \<notin> set junk" "0 < length payload" "length payload \<le> MAX_MESSAGE"
    and "frame sequence payload = frame_header sequence (length payload) @ sent"
    and "length received = length sent" "received \<noteq> sent" "i + 1 < length sent"
      "\<And>j. j < length sent \<Longrightarrow> j \<noteq> i \<Longrightarrow> j \<noteq> i + 1 \<Longrightarrow> received ! j = sent ! j"
    and "avail (rx s) = junk @ frame_header sequence (length payload) @ received @ rest"
  shows "\<exists>t. recvFrame s = Some (Inr (-1, None, None), t) \<and> avail (rx t) = rest"
proof -
  let ?h = "frame_header sequence (length payload)"
  have len: "length sent = length payload + 2"
    using arg_cong [OF assms(4), of length] by simp
  have "crcverify (?h @ received) (length payload + 10) = Some False"
  proof (rule crcverify_burst)
    show "crcverify (?h @ sent) (length payload + 10) = Some True"
      using crcverify_frame assms(4) by metis
    show "(?h @ received) ! j = (?h @ sent) ! j" if "j < length (?h @ sent)" "j \<noteq> i + 8" "j \<noteq> i + 8 + 1" for j
      using that assms(8) [of "j - 8"] by (auto simp: nth_append)
  qed (use assms len in auto)
  moreover obtain p x y where p: "received = p @ [x, y]" "length p = length payload"
  proof
    show "received = take (length payload) received @
        [received ! length payload, received ! (length payload + 1)]"
      using assms(5) len by (auto simp: list_eq_iff_nth_eq nth_append less_Suc_eq numeral_2_eq_2)
  qed (use assms(5) len in simp)
  ultimately show ?thesis
    using recvFrame_body [OF assms(1), of p s sequence x y rest] assms(2,3,9) fed_avail by auto
qed

text \<open>A frame cut off before its CRC is nevertheless returned as received, its CRC bytes being
  the contents of uninitialised memory.\<close>

lemma recvFrame_accepts_truncated:
  assumes "MESSAGE_START \<notin> set junk" "0 < length payload" "length payload \<le> MAX_MESSAGE"
    and "avail (rx s) = junk @ frame_header sequence (length payload) @ payload"
    and "stop (rx s) = Timeout # evs"
  shows "\<exists>t. recvFrame s = Some (Inr (int (length payload),
       Some (frame_header sequence (length payload) @ payload @
         [fresh s (length payload + 8), fresh s (length payload + 9)]), Some sequence), t)"
  using recvFrame_cut [OF assms] by blast

text \<open>A concrete conversation for the witnesses: the sign-on command, sent in two chunks with an
  interruption, after two bytes of noise.\<close>

definition quiet_box :: "rxev list \<Rightarrow> jtag2" where
  "quiet_box evs = jtag2_new
     \<lparr>rx = evs, wq = [], flq = [], tx = [], ctrl_log = [], fresh = (\<lambda>_. 0), tty_ok = True, local_rate = 19200,
      is_usb = False, ctrlPipe = -1, emu_type = EMULATOR_JTAGICE, apply_nSRST = False,
      programmingEnabled = False, device_name = None, units_before = 0, units_after = 0,
      bits_before = 0, bits_after = 0, p_device_def = None\<rparr> False False False False"

lemma quiet_box_simps [simp]:
  "rx (quiet_box evs) = evs" "wq (quiet_box evs) = []" "tx (quiet_box evs) = []"
  "command_sequence (quiet_box evs) = 0" "fresh (quiet_box evs) = (\<lambda>_. 0)" "ctrlPipe (quiet_box evs) = -1"
  by (simp_all add: quiet_box_def jtag2_new_def jtag.extend_def jtag2.fields_def)

lemma recvFrame_sendFrame_witness:
  "\<exists>bytes buf t. recvFrame (quiet_box [Chunk [7, 7], Again, Chunk bytes, Timeout]) =
      Some (Inr (1, Some buf, Some 0), t) \<and> take 1 (drop 8 buf) = [0x01]"
proof -
  have "sendFrame [0x01] (quiet_box []) = Some (Inr (), (quiet_box [])\<lparr>wq := [], tx := frame 0 [0x01]\<rparr>)"
    by (simp add: sendFrame_all)
  moreover have "frame 0 [0x01] \<noteq> []"
    by (simp add: frame_def Let_def frame_header_def)
  ultimately have "\<exists>buf t. recvFrame (quiet_box [Chunk [7, 7], Again, Chunk (frame 0 [0x01]), Timeout]) =
      Some (Inr (1, Some buf, Some 0), t) \<and> take 1 (drop 8 buf) = [0x01]"
    using recvFrame_sendFrame [of "[0x01 :: u8]" "quiet_box []" _ "frame 0 [0x01]" "[7, 7]"
        "quiet_box [Chunk [7, 7], Again, Chunk (frame 0 [0x01]), Timeout]" "[]"]
    by (auto simp: code_defs)
  then show ?thesis by blast
qed

lemma recvFrame_returns_witness:
  "recvFrame (quiet_box [Chunk [0x1B], ReadError]) \<noteq> None"
  by (rule recvFrame_returns) (simp add: no_eof_def)

lemma recvFrame_refuses_burst_witness:
  "\<exists>sent t. frame 0 [0x01] = frame_header 0 1 @ sent \<and>
     recvFrame (quiet_box [Chunk (frame_header 0 1 @ 0x02 # tl sent)]) = Some (Inr (-1, None, None), t)"
proof -
  define sent where "sent = drop 8 (frame 0 [0x01])"
  have f: "frame 0 [0x01] = frame_header 0 1 @ sent" "length sent = 3" "sent ! 0 = 0x01"
    by (simp_all add: sent_def frame_def Let_def)
  have "\<exists>t. recvFrame (quiet_box [Chunk (frame_header 0 1 @ 0x02 # tl sent)]) = Some (Inr (-1, None, None), t) \<and>
      avail (rx t) = []"
    by (rule recvFrame_refuses_burst [where junk = "[]" and payload = "[0x01]" and sequence = 0 and sent = sent and received = "0x02 # tl sent" and i = 0])
      (use f in \<open>auto simp: code_defs nth_Cons' nth_tl neq_Nil_conv length_Suc_conv numeral_3_eq_3\<close>)
  with f show ?thesis by blast
qed

lemma recvFrame_accepts_truncated_witness:
  "\<exists>t. recvFrame (quiet_box [Chunk (frame_header 7 1 @ [0x86]), Timeout]) =
     Some (Inr (1, Some (frame_header 7 1 @ [0x86, 0, 0]), Some 7), t)"
  using recvFrame_accepts_truncated [of "[]" "[0x86]"
      "quiet_box [Chunk (frame_header 7 1 @ [0x86]), Timeout]" 7 "[]"]
  by (simp add: code_defs)

end
