(* ===== verification/Mk2_Command.thy ===== *)
theory Mk2_Command
  imports Mk2_Frame
begin

text \<open>
  The command layer of the mkII protocol: \<open>recv\<close>, \<open>sendJtagCommand\<close>, \<open>doJtagCommand\<close> and
  \<open>doSimpleJtagCommand\<close> of \<^verbatim>\<open>src/src/jtag2io.cc\<close>, \<open>setJtagParameter\<close> and \<open>getJtagParameter\<close> of
  \<^verbatim>\<open>src/src/jtag2misc.cc\<close>.
\<close>

section \<open>Waiting for the answer\<close>

text \<open>A positive length means that bytes were consumed: this is why \<open>recv\<close> ends.\<close>

lemma recvFrame_shrinks:
  assumes "recvFrame s = Some (Inr (rv, msg, q), t)" "0 < rv"
  shows "rx_size (rx t) < rx_size (rx s)"
proof -
  define P :: "err + received \<Rightarrow> 'a jtag2_scheme \<Rightarrow> bool" where
    "P x u \<longleftrightarrow> (\<forall>n m q. x = Inr (n, m, q) \<longrightarrow> 0 < n \<longrightarrow> rx_size (rx u) < rx_size (rx s))" for x u
  define Inv :: "rf \<Rightarrow> 'a jtag2_scheme \<Rightarrow> bool" where
    "Inv r u \<longleftrightarrow> rx_size (rx u) \<le> rx_size (rx s) \<and>
       (rf_state r \<noteq> sSTART \<or> msglen r \<noteq> 0 \<longrightarrow> rx_size (rx u) < rx_size (rx s))" for r u
  have "P (Inr (rv, msg, q)) t"
  proof (rule recvFrame_loop_rule [where Inv = Inv])
    show "recvFrame_loop (rf_init (fresh s)) (ctrl_ready s) = Some (Inr (rv, msg, q), t)"
      using assms(1) by (simp add: recvFrame_ready)
    show "Inv (rf_init (fresh s)) (ctrl_ready s)"
      by (simp add: Inv_def rf_init_def)
  next
    fix r u assume "Inv r u" "rf_state r = sDONE"
    then show "P (Inr (rf_done r)) u"
      by (simp add: P_def Inv_def)
  next
    fix r :: rf and u n e v show "P (Inl e) v" by (simp add: P_def)
  next
    fix r u n v
    assume "Inv r u" "timeout_read n u = Some (Inr [], v)"
    then show "P (Inr (rf_done r)) v"
      using timeout_read_size(1) [of n u "[]" v]
      by (cases "msglen r = 0") (auto simp: P_def Inv_def rf_done_def)
  next
    fix r u bs v
    assume "Inv r u" "rf_state r = sDATA" "timeout_read (unat (msglen r)) u = Some (Inr bs, v)"
    then show "case Option.bind (rf_buf r) (\<lambda>b. store_many b 8 bs) of None \<Rightarrow> P (Inl Undef) v
      | Some b \<Rightarrow> Inv (r\<lparr>rf_buf := Some b, rf_l := unat (msglen r) + 8, rf_state := sCSUM1\<rparr>) v"
      using timeout_read_size(1) [of "unat (msglen r)" u bs v]
      by (auto simp: P_def Inv_def split: option.split)
  next
    fix r u c cs v
    assume "Inv r u" "timeout_read 1 u = Some (Inr (c # cs), v)"
    then have "rx_size (rx v) < rx_size (rx s)"
      using timeout_read_size(1) [of 1 u "c # cs" v] by (auto simp: Inv_def)
    then show "case rf_char (fresh v) c r of Go r' \<Rightarrow> Inv r' v | Bad \<Rightarrow> P (Inr (-1, None, None)) v
      | Oob \<Rightarrow> P (Inl Undef) v"
      by (auto simp: P_def Inv_def split: rf_step.split)
  qed
  with assms(2) show ?thesis by (simp add: P_def)
qed

text \<open>\<open>++command_sequence\<close>, skipping the number of the events.\<close>

definition next_seq :: "u16 \<Rightarrow> u16" where
  "next_seq n = (if n + 1 = 0xffff then 0 else n + 1)"

text \<open>
  \<open>recv\<close> returns the length and the message, the payload moved to its front. A message that does
  not answer the command is dropped; the text logged for an event reads \<open>msg[8]\<close>.
\<close>

function recv :: "('z jtag2_scheme, int \<times> u8 list option) io" where
  "recv s =
     io_bind recvFrame (\<lambda>frm t. case frm of (rv, msg, seqno) \<Rightarrow>
       if rv \<le> 0 then Some (Inr (rv, msg), t)
       else if seqno = Some (command_sequence t) then
         io_then (io_put (\<lambda>s. s\<lparr>command_sequence := next_seq (command_sequence s)\<rparr>))
           (io_bind (io_defined (Option.bind msg (\<lambda>b.
               Option.bind (load_many b 8 (nat rv)) (\<lambda>p. store_many b 0 p))))
             (\<lambda>b. io_ret (rv, Some b))) t
       else if seqno = Some 0xffff then
         (case Option.bind msg (\<lambda>b. cell b 8) of
            None \<Rightarrow> Some (Inl Undef, t)
          | Some _ \<Rightarrow> recv t)
       else recv t) s"
  by pat_completeness auto

termination
  by (relation "measure (\<lambda>s. rx_size (rx s))") (auto simp: not_le dest: recvFrame_shrinks)

declare recv.simps [simp del]

section \<open>Commands\<close>

text \<open>
  \<open>sendJtagCommand\<close> returns whether the response is positive, \<open>msgsize\<close>, \<open>msg\<close> and the new
  value of \<open>tries\<close>.
\<close>

definition sendJtagCommand ::
  "u8 list \<Rightarrow> nat \<Rightarrow> bool \<Rightarrow> ('z jtag2_scheme, bool \<times> int \<times> u8 list option \<times> nat) io" where
  "sendJtagCommand command tries verify =
     io_then (check (tries < MAX_JTAG_COMM_ATTEMPS) ''JTAG ICE: Cannot synchronise'')
    (io_then (sendFrame command)
    (io_bind recv (\<lambda>(msgsize, msg).
     if verify \<and> msgsize - 1 < 0 then io_throw (Thrown JTAG_CAUSE)
     else if msgsize < 1 then io_ret (False, msgsize, msg, tries + 1)
     else io_bind (io_defined (Option.bind msg (\<lambda>m. cell m 0))) (\<lambda>c.
       io_ret (RSP_OK \<le> c \<and> c < RSP_FAILED, msgsize, msg, tries + 1)))))"

lemma sendJtagCommand_tries:
  "sendJtagCommand command tries verify s = Some (Inr (ok, n, msg, tries'), t) \<Longrightarrow>
     tries < MAX_JTAG_COMM_ATTEMPS \<and> tries' = Suc tries"
  unfolding sendJtagCommand_def
  by (auto simp: check_def io_throw_def io_ret_def split: if_splits elim!: io_then_InrE io_bind_InrE)

text \<open>The response, its size, and whether it was positive.\<close>

type_synonym reply = "bool \<times> u8 list option \<times> int"

function doJtagCommand_loop :: "u8 list \<Rightarrow> bool \<Rightarrow> nat \<Rightarrow> ('z jtag2_scheme, reply) io" where
  "doJtagCommand_loop command retryOnTimeout tryCount s =
     io_bind (sendJtagCommand command tryCount False) (\<lambda>(ok, responseSize, response, tryCount') t.
       if ok then Some (Inr (True, response, responseSize), t)
       else if responseSize > 0 \<or> \<not> retryOnTimeout then Some (Inr (False, response, responseSize), t)
       else io_then (if tryCount' > 3 then ctrl_write 0x63 else io_ret ())
         (\<lambda>u. doJtagCommand_loop command retryOnTimeout tryCount' u) t) s"
  by pat_completeness auto

termination
  by (relation "measure (\<lambda>(command, retry, tries, s). MAX_JTAG_COMM_ATTEMPS - tries)")
    (auto dest!: sendJtagCommand_tries)

declare doJtagCommand_loop.simps [simp del]

definition doJtagCommand :: "u8 list \<Rightarrow> bool \<Rightarrow> ('z jtag2_scheme, reply) io" where
  "doJtagCommand command retryOnTimeout = doJtagCommand_loop command retryOnTimeout 0"

text \<open>\<open>jtagCheck(dummy <= 0)\<close> passes a truth value, never a negative status.\<close>

function doSimpleJtagCommand_loop :: "u8 \<Rightarrow> nat \<Rightarrow> ('z jtag2_scheme, unit) io" where
  "doSimpleJtagCommand_loop command tryCount s =
     io_bind (sendJtagCommand [command] tryCount False) (\<lambda>(ok, dummy, replydummy, tryCount') t.
       if ok then
         io_then (check (replydummy \<noteq> None) JTAG_CAUSE)
           (io_bind (io_defined (Option.bind replydummy (\<lambda>m. cell m 0))) (\<lambda>c.
              check (dummy = 1 \<and> c = RSP_OK) ''Unexpected response in doSimpleJtagCommand'')) t
       else io_then (jtagCheck (if dummy \<le> 0 then 1 else 0))
         (\<lambda>u. doSimpleJtagCommand_loop command tryCount' u) t) s"
  by pat_completeness auto

termination
  by (relation "measure (\<lambda>(command, tries, s). MAX_JTAG_COMM_ATTEMPS - tries)")
    (auto dest!: sendJtagCommand_tries)

declare doSimpleJtagCommand_loop.simps [simp del]

definition doSimpleJtagCommand :: "u8 \<Rightarrow> ('z jtag2_scheme, unit) io" where
  "doSimpleJtagCommand command = doSimpleJtagCommand_loop command 0"

section \<open>Parameters\<close>

definition setJtagParameter :: "u8 \<Rightarrow> u8 list \<Rightarrow> ('z jtag2_scheme, unit) io" where
  "setJtagParameter item newValue =
     io_then (check (length newValue \<le> 4) ''Parameter too large in setJtagParameter'')
    (io_bind (doJtagCommand ([CMND_SET_PARAMETER, item] @ newValue) True) (\<lambda>(ok, resp, respsize).
     check ok ''set paramater command failed''))"

definition getJtagParameter :: "u8 \<Rightarrow> ('z jtag2_scheme, u8 list \<times> int) io" where
  "getJtagParameter item =
     io_bind (doJtagCommand [CMND_GET_PARAMETER, item] True) (\<lambda>(ok, resp, respSize).
     io_then (check ok ''get paramater command failed'')
    (io_bind (io_defined resp) (\<lambda>r.
     io_bind (io_defined (cell r 0)) (\<lambda>c.
     io_then (check (c = RSP_PARAMETER \<and> respSize > 1) ''unexpected response to get paramater command'')
     (io_ret (r, respSize))))))"

section \<open>Invariants\<close>

lemma next_seq_valid: "next_seq n \<noteq> 0xffff"
  by (simp add: next_seq_def)

lemma jtag2_inv_next_seq [simp]:
  "jtag2_inv s \<Longrightarrow> jtag2_inv (s\<lparr>command_sequence := next_seq n\<rparr>)"
  by (simp add: jtag2_inv_def arrays_ok_def seq_ok_def next_seq_valid)

text \<open>What an answer did to the state: the frame layer only moved the line on, and the sequence
  number advanced exactly when a message was accepted.\<close>

definition line_only :: "'z jtag2_scheme \<Rightarrow> 'z jtag2_scheme \<Rightarrow> bool" where
  "line_only s t \<longleftrightarrow> (\<exists>evs l. t = s\<lparr>rx := evs, ctrl_log := l\<rparr>)"

lemma line_only_refl: "line_only s s"
  unfolding line_only_def by (intro exI [of _ "rx s"] exI [of _ "ctrl_log s"]) simp

lemma line_only_trans: "line_only s t \<Longrightarrow> line_only t u \<Longrightarrow> line_only s u"
  by (fastforce simp: line_only_def)

lemma line_only_rx:
  assumes "line_only s t" shows "line_only s (t\<lparr>rx := evs\<rparr>)"
proof -
  obtain e l where "t = s\<lparr>rx := e, ctrl_log := l\<rparr>"
    using assms by (auto simp: line_only_def)
  then show ?thesis
    unfolding line_only_def by (intro exI [of _ evs] exI [of _ l]) simp
qed

lemma line_only_ctrl:
  assumes "line_only s t" shows "line_only s (t\<lparr>ctrl_log := l\<rparr>)"
proof -
  obtain e k where "t = s\<lparr>rx := e, ctrl_log := k\<rparr>"
    using assms by (auto simp: line_only_def)
  then show ?thesis
    unfolding line_only_def by (intro exI [of _ e] exI [of _ l]) simp
qed

lemma line_only_seq:
  "line_only s t \<Longrightarrow> line_only (s\<lparr>command_sequence := next_seq (command_sequence s)\<rparr>)
     (t\<lparr>command_sequence := next_seq (command_sequence t)\<rparr>)"
proof -
  assume "line_only s t"
  then obtain evs l where "t = s\<lparr>rx := evs, ctrl_log := l\<rparr>"
    by (auto simp: line_only_def)
  then show ?thesis
    unfolding line_only_def by (intro exI [of _ evs] exI [of _ l]) simp
qed

lemma line_only_simps:
  assumes "line_only s t"
  shows "command_sequence t = command_sequence s" "tx t = tx s" "wq t = wq s" "fresh t = fresh s"
    "bps t = bps s" "flashCache t = flashCache s" "programmingEnabled t = programmingEnabled s"
  using assms by (auto simp: line_only_def)

lemma line_only_recvFrame: "recvFrame s = Some (x, t) \<Longrightarrow> line_only s t"
  by (rule preservesD [OF preserves_recvFrame _ line_only_refl]) (auto intro: line_only_rx line_only_ctrl)

text \<open>\<open>recv\<close>: one frame, then an end or another round.\<close>

lemma recv_elim:
  assumes "recv s = Some (r, s')"
  obtains (failed) e where "recvFrame s = Some (Inl e, s')" "r = Inl e"
    | (none) rv msg q where "recvFrame s = Some (Inr (rv, msg, q), s')" "rv \<le> 0" "r = Inr (rv, msg)"
    | (accepted) rv b p b' t where "recvFrame s = Some (Inr (rv, Some b, Some (command_sequence t)), t)"
        "0 < rv" "load_many b 8 (nat rv) = Some p" "store_many b 0 p = Some b'" "r = Inr (rv, Some b')"
        "s' = t\<lparr>command_sequence := next_seq (command_sequence t)\<rparr>"
    | (null) rv msg q t where "recvFrame s = Some (Inr (rv, msg, q), t)" "0 < rv" "r = Inl Undef"
        "s' = t \<or> s' = t\<lparr>command_sequence := next_seq (command_sequence t)\<rparr>"
    | (dropped) rv msg q t where "recvFrame s = Some (Inr (rv, msg, q), t)" "0 < rv"
        "q \<noteq> Some (command_sequence t)" "recv t = Some (r, s')"
proof -
  from assms show ?thesis
    unfolding recv.simps [of s]
  proof (cases rule: io_bind_SomeE)
    case (err e)
    then show ?thesis using failed by blast
  next
    case (ok frm t)
    obtain rv msg q where frm: "frm = (rv, msg, q)" by (cases frm)
    have fr: "recvFrame s = Some (Inr (rv, msg, q), t)"
      using ok(1) frm by simp
    consider (a) "rv \<le> 0" | (b) "0 < rv" "q = Some (command_sequence t)"
      | (c) "0 < rv" "q \<noteq> Some (command_sequence t)" by linarith
    then show ?thesis
    proof cases
      case a
      with ok(2) frm have "r = Inr (rv, msg)" "s' = t" by simp_all
      with a fr show ?thesis using none by simp
    next
      case b
      define u where "u = t\<lparr>command_sequence := next_seq (command_sequence t)\<rparr>"
      define mv where "mv = Option.bind msg (\<lambda>b. Option.bind (load_many b 8 (nat rv)) (store_many b 0))"
      have x: "io_bind (io_defined mv) (\<lambda>b. io_ret (rv, Some b)) u = Some (r, s')"
        using ok(2) frm b by (simp add: io_simps u_def mv_def)
      show ?thesis
      proof (cases mv)
        case None
        with x have r: "r = Inl Undef" and s': "s' = u"
          by (simp_all add: io_bind_def io_defined_def io_throw_def)
        show ?thesis by (rule null [OF fr b(1) r]) (use s' in \<open>simp only: u_def simp_thms\<close>)
      next
        case (Some b')
        with x have "r = Inr (rv, Some b')" "s' = u"
          by (simp_all add: io_bind_def io_defined_def io_ret_def)
        moreover obtain c p where "msg = Some c" "load_many c 8 (nat rv) = Some p" "store_many c 0 p = Some b'"
          using Some by (auto simp: mv_def Option.bind_eq_Some_conv)
        ultimately show ?thesis using accepted [of rv c t p b'] fr b unfolding u_def by blast
      qed
    next
      case c
      have x: "(if q = Some 0xffff then
           (case Option.bind msg (\<lambda>b. cell b 8) of None \<Rightarrow> Some (Inl Undef, t) | Some _ \<Rightarrow> recv t)
         else recv t) = Some (r, s')"
        using ok(2) frm c by simp
      show ?thesis
      proof (cases "q = Some 0xffff \<and> Option.bind msg (\<lambda>b. cell b 8) = None")
        case True
        with x have "Some (Inl Undef, t) = Some (r, s')" by simp
        then have "r = Inl Undef" "s' = t" by blast+
        then show ?thesis using null [OF fr c(1)] by blast
      next
        case False
        with x have "recv t = Some (r, s')"
          by (cases "q = Some 0xffff"; cases "Option.bind msg (\<lambda>b. cell b 8)") simp_all
        then show ?thesis by (rule dropped [OF fr c])
      qed
    qed
  qed
qed

text \<open>The outcomes of \<open>recv\<close>.\<close>

lemma recv_result:
  assumes "recv s = Some (r, s')"
  shows "case r of
      Inl e \<Rightarrow> line_only s s' \<or> line_only (s\<lparr>command_sequence := next_seq (command_sequence s)\<rparr>) s'
    | Inr (rv, msg) \<Rightarrow>
        if rv \<le> 0 then line_only s s'
        else line_only (s\<lparr>command_sequence := next_seq (command_sequence s)\<rparr>) s' \<and>
          (\<exists>m. msg = Some m \<and> nat rv + 8 \<le> length m)"
  using assms
proof (induction "rx_size (rx s)" arbitrary: s rule: less_induct)
  case less
  from less.prems show ?case
  proof (cases rule: recv_elim)
    case (failed e)
    then show ?thesis using line_only_recvFrame by auto
  next
    case (none rv msg q)
    then show ?thesis using line_only_recvFrame by auto
  next
    case (accepted rv b p b' t)
    then have "line_only s t" by (blast dest: line_only_recvFrame)
    with accepted show ?thesis
      using line_only_seq [of s t] by (auto simp: load_many_def length_store_many split: if_splits)
  next
    case (null rv msg q t)
    then have "line_only s t" by (blast dest: line_only_recvFrame)
    with null show ?thesis
      using line_only_seq [of s t] by auto
  next
    case (dropped rv msg q t)
    then have st: "line_only s t" by (blast dest: line_only_recvFrame)
    note IH = less.hyps [OF recvFrame_shrinks [OF dropped(1,2)] dropped(4)]
    show ?thesis
      using IH line_only_trans [OF st] line_only_trans [OF line_only_seq [OF st]]
      by (auto split: sum.splits prod.splits if_splits)
  qed
qed

lemma preserves_recv [preserve]:
  assumes "\<And>s evs. I s \<Longrightarrow> I (s\<lparr>rx := evs\<rparr>)" "\<And>s l. I s \<Longrightarrow> I (s\<lparr>ctrl_log := l\<rparr>)"
    "\<And>s. I s \<Longrightarrow> I (s\<lparr>command_sequence := next_seq (command_sequence s)\<rparr>)"
  shows "preserves I recv"
proof
  fix s r s' assume "I s" "recv s = Some (r, s')"
  then have "\<exists>u. I u \<and> line_only u s'"
    using recv_result [of s r s'] assms(3) by (auto split: sum.splits prod.splits if_splits)
  then show "I s'"
    using assms(1,2) by (auto simp: line_only_def)
qed

text \<open>Frames that answer another command, and events, are skipped.\<close>

lemma recv_skips:
  assumes "avail (rx s) = concat (map (\<lambda>(q, p). frame q p) stale) @ frame (command_sequence s) payload @ rest"
    and "\<And>q p. (q, p) \<in> set stale \<Longrightarrow> q \<noteq> command_sequence s \<and> 0 < length p \<and> length p \<le> MAX_MESSAGE"
    and "0 < length payload" "length payload \<le> MAX_MESSAGE"
  shows "\<exists>msg t. recv s = Some (Inr (int (length payload), Some msg), t) \<and> take (length payload) msg = payload \<and>
     avail (rx t) = rest \<and> stop (rx t) = stop (rx s) \<and>
     line_only (s\<lparr>command_sequence := next_seq (command_sequence s)\<rparr>) t"
  using assms(1,2)
proof (induction stale arbitrary: s)
  case Nil
  define f where "f = frame (command_sequence s) payload"
  obtain t where t: "fed (ctrl_ready s) t rest"
    "recvFrame s = Some (Inr (int (length payload), Some f, Some (command_sequence s)), t)"
    using recvFrame_frame [of "[]" payload s "command_sequence s" rest] Nil assms(3,4) by (auto simp: f_def)
  have f: "load_many f 8 (length payload) = Some payload"
    by (simp add: f_def load_many_def frame_def Let_def)
  obtain m where m: "store_many f 0 payload = Some m" "take (length payload) m = payload"
    by (simp add: store_many_def f_def)
  have st: "line_only s t" "command_sequence t = command_sequence s"
    using line_only_recvFrame [OF t(2)] line_only_simps(1) by blast+
  show ?case
    using t f m assms(3) st line_only_seq [OF st(1)] fed_update [OF t(1)]
    by (subst recv.simps) (auto simp: io_simps)
next
  case (Cons qp stale)
  obtain q p where qp: "qp = (q, p)" by (cases qp)
  then have p: "q \<noteq> command_sequence s" "0 < length p" "length p \<le> MAX_MESSAGE"
    using Cons.prems(2) by auto
  let ?rest = "concat (map (\<lambda>(q, p). frame q p) stale) @ frame (command_sequence s) payload @ rest"
  obtain t where t: "fed (ctrl_ready s) t ?rest" "recvFrame s = Some (Inr (int (length p), Some (frame q p), Some q), t)"
    using recvFrame_frame [of "[]" p s q ?rest] Cons.prems(1) p qp by auto
  have st: "line_only s t" "command_sequence t = command_sequence s"
    using line_only_recvFrame [OF t(2)] line_only_simps(1) by blast+
  have "recv s = recv t"
    using t(2) p st by (subst recv.simps) (auto simp: io_simps cell_def)
  moreover have "avail (rx t) = concat (map (\<lambda>(q, p). frame q p) stale) @
      frame (command_sequence t) payload @ rest"
    using fed_update [OF t(1)] st(2) by simp
  from Cons.IH [OF this] obtain msg u where
    "recv t = Some (Inr (int (length payload), Some msg), u)" "take (length payload) msg = payload"
    "avail (rx u) = rest" "stop (rx u) = stop (rx t)"
    "line_only (t\<lparr>command_sequence := next_seq (command_sequence t)\<rparr>) u"
    using Cons.prems(2) st(2) by (metis list.set_intros(2))
  ultimately show ?case
    using line_only_trans [OF line_only_seq [OF st(1)]] fed_update [OF t(1)] by auto
qed

text \<open>The state predicates that no communication with the emulator can falsify.\<close>

definition comm_closed :: "('z jtag2_scheme \<Rightarrow> bool) \<Rightarrow> bool" where
  "comm_closed I \<longleftrightarrow> (\<forall>s. I s \<longrightarrow> (\<forall>e. I (s\<lparr>rx := e\<rparr>)) \<and> (\<forall>l. I (s\<lparr>ctrl_log := l\<rparr>)) \<and>
     (\<forall>w out. I (s\<lparr>wq := w, tx := out\<rparr>)) \<and>
     I (s\<lparr>command_sequence := next_seq (command_sequence s)\<rparr>))"

lemma comm_closed_inv: "comm_closed jtag2_inv"
  by (simp add: comm_closed_def)

lemma comm_preserves_recv: "comm_closed I \<Longrightarrow> preserves I recv"
  by (rule preserves_recv) (auto simp: comm_closed_def)

lemma comm_preserves_sendFrame: "comm_closed I \<Longrightarrow> preserves I (sendFrame c)"
  by (rule preserves_sendFrame) (auto simp: comm_closed_def)

lemma comm_preserves_ctrl: "comm_closed I \<Longrightarrow> preserves I (ctrl_write c)"
  by (rule preserves_ctrl_write) (auto simp: comm_closed_def)

lemma comm_preserves_sendJtagCommand:
  "comm_closed I \<Longrightarrow> preserves I (sendJtagCommand command tries verify)"
  unfolding sendJtagCommand_def
  by (intro preserve comm_preserves_recv comm_preserves_sendFrame)

lemma comm_preserves_doJtagCommand_loop:
  assumes "comm_closed I"
  shows "doJtagCommand_loop command retry n s = Some (r, s') \<Longrightarrow> I s \<Longrightarrow> I s'"
proof (induction command retry n s rule: doJtagCommand_loop.induct)
  case (1 command retry n s)
  from "1.prems"(1) show ?case
    unfolding doJtagCommand_loop.simps [of command retry n s]
  proof (cases rule: io_bind_SomeE)
    case (err e)
    then show ?thesis
      using preservesD [OF comm_preserves_sendJtagCommand [OF assms] err(1) "1.prems"(2)] by simp
  next
    case (ok x t)
    obtain a n' m k where x: "x = (a, n', m, k)" by (cases x)
    note run = ok(1)
    have t: "I t"
      using preservesD [OF comm_preserves_sendJtagCommand [OF assms] ok(1) "1.prems"(2)] .
    have ctl: "preserves I (if k > 3 then ctrl_write 0x63 else io_ret ())"
      by (intro preserve comm_preserves_ctrl assms)
    show ?thesis
    proof (cases "a \<or> n' > 0 \<or> \<not> retry")
      case True
      with ok(2) x have "s' = t" by (auto split: if_splits)
      with t show ?thesis by simp
    next
      case False
      with ok(2) x have "io_then (if k > 3 then ctrl_write 0x63 else io_ret ())
          (\<lambda>u. doJtagCommand_loop command retry k u) t = Some (r, s')"
        by simp
      then show ?thesis
        unfolding io_then_def
      proof (cases rule: io_bind_SomeE)
        case (err e)
        then show ?thesis using preservesD [OF ctl _ t] by blast
      next
        case (ok v u)
        then have "I u"
          using preservesD [OF ctl _ t] by blast
        then show ?thesis
          using "1.IH" [OF run x [symmetric] refl refl] ok(2) False by blast
      qed
    qed
  qed
qed

lemma comm_preserves_doJtagCommand [preserve]: "comm_closed I \<Longrightarrow> preserves I (doJtagCommand command retry)"
  unfolding doJtagCommand_def using comm_preserves_doJtagCommand_loop by (auto simp: preserves_def)

lemma comm_preserves_doSimple_loop:
  assumes "comm_closed I"
  shows "doSimpleJtagCommand_loop command n s = Some (r, s') \<Longrightarrow> I s \<Longrightarrow> I s'"
proof (induction command n s rule: doSimpleJtagCommand_loop.induct)
  case (1 command n s)
  from "1.prems"(1) show ?case
    unfolding doSimpleJtagCommand_loop.simps [of command n s]
  proof (cases rule: io_bind_SomeE)
    case (err e)
    then show ?thesis
      using preservesD [OF comm_preserves_sendJtagCommand [OF assms] err(1) "1.prems"(2)] by simp
  next
    case (ok x t)
    obtain a n' m k where x: "x = (a, n', m, k)" by (cases x)
    note run = ok(1)
    have t: "I t"
      using preservesD [OF comm_preserves_sendJtagCommand [OF assms] ok(1) "1.prems"(2)] .
    have done_ok: "preserves I (io_then (check (m \<noteq> None) JTAG_CAUSE)
        (io_bind (io_defined (Option.bind m (\<lambda>m. cell m 0))) (\<lambda>c.
          check (n' = 1 \<and> c = RSP_OK) ''Unexpected response in doSimpleJtagCommand'')))"
      by (intro preserve)
    show ?thesis
    proof (cases a)
      case True
      with ok(2) x show ?thesis
        using preservesD [OF done_ok _ t] by simp
    next
      case False
      with ok(2) x have "doSimpleJtagCommand_loop command k t = Some (r, s')"
        by (simp add: io_then_def io_bind_def jtagCheck_simps io_ret_def)
      then show ?thesis
        using "1.IH" [OF run x [symmetric] refl refl] False t by blast
    qed
  qed
qed

lemma comm_preserves_doSimple [preserve]: "comm_closed I \<Longrightarrow> preserves I (doSimpleJtagCommand command)"
  unfolding doSimpleJtagCommand_def using comm_preserves_doSimple_loop by (auto simp: preserves_def)

lemma comm_preserves_setJtagParameter [preserve]: "comm_closed I \<Longrightarrow> preserves I (setJtagParameter item v)"
  unfolding setJtagParameter_def by (intro preserve)

lemma comm_preserves_getJtagParameter [preserve]: "comm_closed I \<Longrightarrow> preserves I (getJtagParameter item)"
  unfolding getJtagParameter_def by (intro preserve)

section \<open>Attempts\<close>

text \<open>An attempt writes one frame and at most one answer is accepted.\<close>

lemma sendJtagCommand_result:
  assumes "sendJtagCommand command tries verify s = Some (Inr (ok, n, msg, tries'), t)"
  shows "tries < MAX_JTAG_COMM_ATTEMPS" "tries' = Suc tries"
    "tx t = tx s @ frame (command_sequence s) command"
    "command_sequence t = (if 0 < n then next_seq (command_sequence s) else command_sequence s)"
    "0 < n \<Longrightarrow> \<exists>m. msg = Some m \<and> nat n + 8 \<le> length m \<and> (ok \<longleftrightarrow> RSP_OK \<le> m ! 0 \<and> m ! 0 < RSP_FAILED)"
    "ok \<Longrightarrow> 0 < n"
proof -
  from assms sendJtagCommand_tries show "tries < MAX_JTAG_COMM_ATTEMPS" "tries' = Suc tries" by blast+
  have "tries < MAX_JTAG_COMM_ATTEMPS"
    using assms sendJtagCommand_tries by blast
  then have run: "io_then (sendFrame command) (io_bind recv (\<lambda>(msgsize, msg).
     if verify \<and> msgsize - 1 < 0 then io_throw (Thrown JTAG_CAUSE)
     else if msgsize < 1 then io_ret (False, msgsize, msg, tries + 1)
     else io_bind (io_defined (Option.bind msg (\<lambda>m. cell m 0))) (\<lambda>c.
       io_ret (RSP_OK \<le> c \<and> c < RSP_FAILED, msgsize, msg, tries + 1)))) s = Some (Inr (ok, n, msg, tries'), t)"
    using assms by (simp add: sendJtagCommand_def io_simps)
  from run obtain u where u: "sendFrame command s = Some (Inr (), u)"
    by (elim io_then_InrE) simp
  with run obtain rv m where v: "recv u = Some (Inr (rv, m), t)"
    and eq: "n = rv" "msg = m" "ok \<Longrightarrow> 1 \<le> rv"
      "1 \<le> rv \<Longrightarrow> \<exists>c. Option.bind m (\<lambda>m. cell m 0) = Some c \<and> (ok \<longleftrightarrow> RSP_OK \<le> c \<and> c < RSP_FAILED)"
    by (auto simp: io_simps io_throw_def io_ret_def io_defined_def elim!: io_bind_InrE
        split: if_splits option.splits)
  have w: "tx u = tx s @ frame (command_sequence s) command" "command_sequence u = command_sequence s"
    using u by (cases command s rule: sendFrame_cases; auto)+
  have rc: "if rv \<le> 0 then line_only u t
      else line_only (u\<lparr>command_sequence := next_seq (command_sequence u)\<rparr>) t \<and>
        (\<exists>m'. m = Some m' \<and> nat rv + 8 \<le> length m')"
    using recv_result [OF v] by simp
  show "tx t = tx s @ frame (command_sequence s) command"
    using rc w(1) by (auto dest: line_only_simps(2) split: if_splits)
  show "command_sequence t = (if 0 < n then next_seq (command_sequence s) else command_sequence s)"
    using rc w(2) eq(1) by (auto dest: line_only_simps(1) split: if_splits)
  show "\<exists>m. msg = Some m \<and> nat n + 8 \<le> length m \<and> (ok \<longleftrightarrow> RSP_OK \<le> m ! 0 \<and> m ! 0 < RSP_FAILED)" if "0 < n"
    using rc eq that by (auto simp: cell_def split: if_splits)
  show "ok \<Longrightarrow> 0 < n"
    using eq by simp
qed

text \<open>Every call ends after at most ten frames, all of them the same.\<close>

lemma doJtagCommand_loop_result:
  "doJtagCommand_loop command retry tries s = Some (Inr (ok, msg, n), t) \<Longrightarrow>
     (\<exists>k. 1 \<le> k \<and> tries + k \<le> MAX_JTAG_COMM_ATTEMPS \<and>
       tx t = tx s @ concat (replicate k (frame (command_sequence s) command)) \<and> (k = 1 \<or> retry)) \<and>
     command_sequence t = (if 0 < n then next_seq (command_sequence s) else command_sequence s) \<and>
     (0 < n \<longrightarrow> (\<exists>m. msg = Some m \<and> nat n + 8 \<le> length m \<and> (ok \<longleftrightarrow> RSP_OK \<le> m ! 0 \<and> m ! 0 < RSP_FAILED))) \<and>
     (0 < n \<or> \<not> ok \<and> \<not> retry)"
proof (induction command retry tries s rule: doJtagCommand_loop.induct)
  case (1 command retry tries s)
  from "1.prems" show ?case
    unfolding doJtagCommand_loop.simps [of command retry tries s]
  proof (cases rule: io_bind_InrE)
    case (1 x u)
    obtain a n' m k where x: "x = (a, n', m, k)" by (cases x)
    note run = 1(1)
    note res = sendJtagCommand_result [OF run [unfolded x]]
    show ?thesis
    proof (cases "a \<or> n' > 0 \<or> \<not> retry")
      case True
      with 1(2) x have "ok = a" "msg = m" "n = n'" "t = u"
        by (auto split: if_splits)
      with True res show ?thesis
        by (intro conjI exI [of _ "1 :: nat"]) auto
    next
      case False
      with 1(2) x have "io_then (if k > 3 then ctrl_write 0x63 else io_ret ())
          (\<lambda>u. doJtagCommand_loop command retry k u) u = Some (Inr (ok, msg, n), t)"
        by simp
      moreover define v where
        "v = (if k > 3 \<and> ctrlPipe u \<noteq> -1 then u\<lparr>ctrl_log := ctrl_log u @ [0x63]\<rparr> else u)"
      ultimately have v: "tx v = tx u" "command_sequence v = command_sequence u"
        "doJtagCommand_loop command retry k v = Some (Inr (ok, msg, n), t)"
        by (auto simp: io_then_def io_bind_def ctrl_write_def io_ret_def split: if_splits)
      from "1.IH" [OF run x [symmetric] refl refl _ _ v(3)] False obtain j where
        j: "1 \<le> j" "k + j \<le> MAX_JTAG_COMM_ATTEMPS"
          "tx t = tx v @ concat (replicate j (frame (command_sequence v) command))"
        and rest: "command_sequence t = (if 0 < n then next_seq (command_sequence v) else command_sequence v)"
          "0 < n \<longrightarrow> (\<exists>m. msg = Some m \<and> nat n + 8 \<le> length m \<and> (ok \<longleftrightarrow> RSP_OK \<le> m ! 0 \<and> m ! 0 < RSP_FAILED))"
          "0 < n \<or> \<not> ok \<and> \<not> retry"
        by blast
      show ?thesis
        using j rest res(2-4) v(1,2) False by (intro conjI exI [of _ "Suc j"]) auto
    qed
  qed
qed

section \<open>Answers and silence\<close>

lemma doJtagCommand_answer:
  assumes "wq s = []" "0 < length resp" "length resp \<le> MAX_MESSAGE"
    and "\<And>q p. (q, p) \<in> set stale \<Longrightarrow> q \<noteq> command_sequence s \<and> 0 < length p \<and> length p \<le> MAX_MESSAGE"
    and "avail (rx s) = concat (map (\<lambda>(q, p). frame q p) stale) @ frame (command_sequence s) resp @ rest"
  shows "\<exists>msg t. doJtagCommand command retry s =
       Some (Inr (RSP_OK \<le> resp ! 0 \<and> resp ! 0 < RSP_FAILED, Some msg, int (length resp)), t) \<and>
     take (length resp) msg = resp \<and> avail (rx t) = rest \<and> stop (rx t) = stop (rx s) \<and>
     line_only (s\<lparr>wq := [], tx := tx s @ frame (command_sequence s) command,
       command_sequence := next_seq (command_sequence s)\<rparr>) t"
proof -
  define u where "u = s\<lparr>wq := [], tx := tx s @ frame (command_sequence s) command\<rparr>"
  have u: "sendFrame command s = Some (Inr (), u)"
    using sendFrame_all [OF assms(1)] by (simp add: u_def)
  obtain msg t where t: "recv u = Some (Inr (int (length resp), Some msg), t)" "take (length resp) msg = resp"
    "avail (rx t) = rest" "stop (rx t) = stop (rx u)"
    "line_only (u\<lparr>command_sequence := next_seq (command_sequence u)\<rparr>) t"
    using recv_skips [of u stale resp rest] assms(2-5) by (auto simp: u_def)
  have hd: "cell msg 0 = Some (resp ! 0)"
  proof -
    have "resp ! 0 = take (length resp) msg ! 0" "msg \<noteq> []"
      using t(2) assms(2) by auto
    then show ?thesis
      using assms(2) by (simp add: cell_def)
  qed
  have "sendJtagCommand command 0 False s = Some (Inr (RSP_OK \<le> resp ! 0 \<and> resp ! 0 < RSP_FAILED,
      int (length resp), Some msg, 1), t)"
    using u t(1) hd assms(2) by (simp add: sendJtagCommand_def io_simps code_defs)
  then have "doJtagCommand command retry s =
      Some (Inr (RSP_OK \<le> resp ! 0 \<and> resp ! 0 < RSP_FAILED, Some msg, int (length resp)), t)"
    using assms(2) by (simp add: doJtagCommand_def doJtagCommand_loop.simps io_simps)
  with t show ?thesis
    by (auto simp: u_def)
qed

lemma recv_total:
  assumes "no_eof s"
  shows "\<exists>x t. recv s = Some (x, t) \<and> no_eof t"
  using assms
proof (induction "rx_size (rx s)" arbitrary: s rule: less_induct)
  case less
  obtain x t where t: "recvFrame s = Some (x, t)" "no_eof t"
    using recvFrame_total less.prems by blast
  show ?case
  proof (cases x)
    case (Inl e)
    with t show ?thesis by (simp add: recv.simps [of s] io_simps)
  next
    case (Inr frm)
    obtain rv msg q where frm: "frm = (rv, msg, q)" by (cases frm)
    show ?thesis
    proof (cases "rv \<le> 0 \<or> q = Some (command_sequence t)")
      case True
      have "no_eof (t\<lparr>command_sequence := n\<rparr>)" for n
        using t(2) by (simp add: no_eof_def)
      with True show ?thesis
        using t Inr frm by (auto simp: recv.simps [of s] io_then_def io_bind_def io_put_def
            io_defined_def io_throw_def io_ret_def split: option.split)
    next
      case False
      then have "rx_size (rx t) < rx_size (rx s)"
        using t(1) Inr frm by (intro recvFrame_shrinks [of s rv msg q t]) auto
      from less.hyps [OF this t(2)] show ?thesis
        using t False Inr frm by (auto simp: recv.simps [of s] io_simps split: option.split)
    qed
  qed
qed

lemma sendFrame_total:
  assumes "no_eof s"
  shows "\<exists>x t. sendFrame command s = Some (x, t) \<and> no_eof t"
  by (cases command s rule: sendFrame_cases) (use assms in \<open>auto simp: no_eof_def\<close>)

lemma sendJtagCommand_total:
  assumes "no_eof s"
  shows "\<exists>x t. sendJtagCommand command tries verify s = Some (x, t) \<and> no_eof t"
proof -
  obtain x t where t: "sendFrame command s = Some (x, t)" "no_eof t"
    using sendFrame_total assms by blast
  obtain y u where u: "recv t = Some (y, u)" "no_eof u"
    using recv_total t(2) by blast
  show ?thesis
    using t u assms by (cases x; cases y) (auto simp: sendJtagCommand_def check_def io_then_def io_bind_def
        io_defined_def io_throw_def io_ret_def split: option.split)
qed

lemma doJtagCommand_loop_total:
  "no_eof s \<Longrightarrow> \<exists>x t. doJtagCommand_loop command retry tries s = Some (x, t) \<and> no_eof t"
proof (induction command retry tries s rule: doJtagCommand_loop.induct)
  case (1 command retry tries s)
  obtain x t where t: "sendJtagCommand command tries False s = Some (x, t)" "no_eof t"
    using sendJtagCommand_total "1.prems" by blast
  show ?case
  proof (cases x)
    case (Inl e)
    with t show ?thesis by (simp add: doJtagCommand_loop.simps [of command retry tries s] io_simps)
  next
    case (Inr y)
    obtain ok n msg k where y: "y = (ok, n, msg, k)" by (cases y)
    define v where "v = (if k > 3 \<and> ctrlPipe t \<noteq> -1 then t\<lparr>ctrl_log := ctrl_log t @ [0x63]\<rparr> else t)"
    have v: "no_eof v" "(if k > 3 then ctrl_write 0x63 else io_ret ()) t = Some (Inr (), v)"
      using t(2) by (auto simp: v_def ctrl_write_def io_ret_def)
    show ?thesis
      using t Inr y v "1.IH" [OF _ y [symmetric] refl refl, of t v]
      by (cases "ok \<or> n > 0 \<or> \<not> retry")
        (auto simp: doJtagCommand_loop.simps [of command _ tries s] io_simps)
  qed
qed

lemma doJtagCommand_total:
  "no_eof s \<Longrightarrow> \<exists>x t. doJtagCommand command retry s = Some (x, t) \<and> no_eof t"
  by (simp add: doJtagCommand_def doJtagCommand_loop_total)

text \<open>A silent box.\<close>

lemma recvFrame_silent: "rx s = [] \<Longrightarrow> recvFrame s = Some (Inr (0, None, Some 0), ctrl_ready s)"
proof -
  assume rx: "rx s = []"
  then have "timeout_read 1 (ctrl_ready s) = Some (Inr [], (ctrl_ready s)\<lparr>rx := []\<rparr>)"
    using timeout_read_short [of "ctrl_ready s" 1] by simp
  moreover have "(ctrl_ready s)\<lparr>rx := []\<rparr> = ctrl_ready s"
    using rx by (simp add: ctrl_ready_def)
  ultimately show ?thesis
    unfolding recvFrame_ready by (subst recvFrame_loop.simps) (simp add: rf_init_def io_simps rf_done_def)
qed

lemma doJtagCommand_loop_silent:
  assumes "rx s = []" "wq s = []"
  shows "\<exists>t. doJtagCommand_loop command True (MAX_JTAG_COMM_ATTEMPS - k) s =
       Some (Inl (Thrown ''JTAG ICE: Cannot synchronise''), t) \<and>
     (k \<le> MAX_JTAG_COMM_ATTEMPS \<longrightarrow>
       tx t = tx s @ concat (replicate k (frame (command_sequence s) command)))"
  using assms
proof (induction k arbitrary: s)
  case 0
  then show ?case
    by (simp add: doJtagCommand_loop.simps sendJtagCommand_def io_simps)
next
  case (Suc k)
  show ?case
  proof (cases "Suc k \<le> MAX_JTAG_COMM_ATTEMPS")
    case False
    then show ?thesis
      using Suc.IH [OF Suc.prems] by (auto simp: not_le)
  next
    case True
    define n where "n = MAX_JTAG_COMM_ATTEMPS - Suc k"
    define u where "u = s\<lparr>wq := [], tx := tx s @ frame (command_sequence s) command\<rparr>"
    have "sendFrame command s = Some (Inr (), u)"
      using sendFrame_all [OF Suc.prems(2)] by (simp add: u_def)
    moreover have "recvFrame u = Some (Inr (0, None, Some 0), ctrl_ready u)"
      using Suc.prems(1) recvFrame_silent [of u] by (simp add: u_def)
    then have "recv u = Some (Inr (0, None), ctrl_ready u)"
      by (simp add: recv.simps [of u] io_simps)
    ultimately have "sendJtagCommand command n False s = Some (Inr (False, 0, None, Suc n), ctrl_ready u)"
      using True by (simp add: sendJtagCommand_def io_simps n_def)
    moreover define v where "v = (if Suc n > 3 \<and> ctrlPipe (ctrl_ready u) \<noteq> -1
        then (ctrl_ready u)\<lparr>ctrl_log := ctrl_log (ctrl_ready u) @ [0x63]\<rparr> else ctrl_ready u)"
    ultimately have "doJtagCommand_loop command True n s = doJtagCommand_loop command True (Suc n) v"
      by (auto simp: doJtagCommand_loop.simps [of command True n s] io_simps ctrl_write_def io_then_def io_bind_def io_ret_def)
    moreover have "rx v = []" "wq v = []" "tx v = tx s @ frame (command_sequence s) command"
      "command_sequence v = command_sequence s"
      using Suc.prems by (auto simp: v_def u_def ctrl_ready_def)
    moreover have "Suc n = MAX_JTAG_COMM_ATTEMPS - k"
      using True by (simp add: n_def)
    ultimately show ?thesis
      using Suc.IH [of v] True by (auto simp: n_def)
  qed
qed

section \<open>A truncated header\<close>

text \<open>The line stops inside the size field: \<open>recvFrame\<close> reports the part of the size it has seen and
  no message.\<close>

lemma recvFrame_header_cut:
  assumes "avail (rx s) = MESSAGE_START # u16_to_b2 sequence @ [b]" "stop (rx s) = Timeout # evs"
  shows "\<exists>t. recvFrame s = Some (Inr (sint (push_bit 24 (ucast b) :: u32), None, Some sequence), t) \<and>
     command_sequence t = command_sequence s"
proof -
  obtain s0 s1 where sq: "u16_to_b2 sequence = [s0, s1]"
    by (simp add: u16_to_b2_def)
  obtain h0 h1 h2 h3 hs where h: "rf_header (rf_init (fresh s)) = h0 # h1 # h2 # h3 # hs"
    by (simp add: rf_init_def upt_conv_Cons)
  define r where "r = (rf_init (fresh s))\<lparr>rf_header := MESSAGE_START # s0 # s1 # b # hs, headeridx := 4,
    r_seqno := sequence, msglen := push_bit 24 (ucast b), rf_state := sSIZE2\<rparr>"
  have "rf_feed (fresh s) (MESSAGE_START # [s0, s1] @ [b]) (rf_init (fresh s)) = Some r"
    using h u16_bytes [OF sq]
    by (simp add: rf_char_def rf_store_def rf_switch_def before_data_def store_def rf_init_def r_def domsglen_def)
  then have feed: "rf_feed (fresh (ctrl_ready s)) (MESSAGE_START # [s0, s1] @ [b]) (rf_init (fresh s)) = Some r"
    by simp
  obtain t where t: "fed (ctrl_ready s) t []" "recvFrame s = recvFrame_loop r t"
    using recvFrame_loop_feed [OF feed, of "[]"] assms(1) sq by (auto simp: recvFrame_ready)
  then have "timeout_read 1 t = Some (Inr [], t\<lparr>rx := evs\<rparr>)"
    using timeout_read_short [of t 1] fed_update [OF t(1)] assms(2) by simp
  then have "recvFrame_loop r t = Some (Inr (sint (msglen r), rf_buf r, Some (r_seqno r)), t\<lparr>rx := evs\<rparr>)"
    by (subst recvFrame_loop.simps) (simp add: r_def io_simps rf_done_def)
  then have "recvFrame s = Some (Inr (sint (push_bit 24 (ucast b) :: u32), None, Some sequence), t\<lparr>rx := evs\<rparr>)"
    unfolding t(2) by (simp add: r_def rf_init_def)
  then show ?thesis
    using line_only_simps(1) [OF line_only_recvFrame] by blast
qed

section \<open>Properties\<close>

text \<open>C8: a command returns only with an answer that carries its own sequence number, or, when no
  retry was asked for, without one. It was sent between one and ten times, always as the same
  frame; the sequence number advances exactly when an answer was accepted, and the command
  succeeded exactly when the answer's first byte is in the range of positive responses.\<close>

theorem doJtagCommand_outcome:
  assumes "doJtagCommand command retry s = Some (Inr (ok, msg, n), t)"
  shows "(\<exists>k. 1 \<le> k \<and> k \<le> MAX_JTAG_COMM_ATTEMPS \<and>
       tx t = tx s @ concat (replicate k (frame (command_sequence s) command))) \<and>
     command_sequence t = (if 0 < n then next_seq (command_sequence s) else command_sequence s) \<and>
     (if 0 < n then \<exists>m. msg = Some m \<and> nat n \<le> length m \<and> (ok \<longleftrightarrow> RSP_OK \<le> m ! 0 \<and> m ! 0 < RSP_FAILED)
      else \<not> ok \<and> \<not> retry)"
  using doJtagCommand_loop_result [OF assms [unfolded doJtagCommand_def]] by (cases "0 < n") force+

text \<open>C9: a command whose answer arrives, after any number of answers to other commands and of
  events, in any chunking, returns that answer and consumes nothing behind it.\<close>

theorem doJtagCommand_answered:
  assumes "wq s = []" "0 < length resp" "length resp \<le> MAX_MESSAGE"
    and "\<And>q p. (q, p) \<in> set stale \<Longrightarrow> q \<noteq> command_sequence s \<and> 0 < length p \<and> length p \<le> MAX_MESSAGE"
    and "avail (rx s) = concat (map (\<lambda>(q, p). frame q p) stale) @ frame (command_sequence s) resp @ rest"
  shows "\<exists>msg t. doJtagCommand command retry s =
       Some (Inr (RSP_OK \<le> resp ! 0 \<and> resp ! 0 < RSP_FAILED, Some msg, int (length resp)), t) \<and>
     take (length resp) msg = resp \<and> avail (rx t) = rest \<and>
     tx t = tx s @ frame (command_sequence s) command"
proof -
  from doJtagCommand_answer [OF assms] obtain msg t where
    "doJtagCommand command retry s =
       Some (Inr (RSP_OK \<le> resp ! 0 \<and> resp ! 0 < RSP_FAILED, Some msg, int (length resp)), t)"
    "take (length resp) msg = resp" "avail (rx t) = rest"
    "line_only (s\<lparr>wq := [], tx := tx s @ frame (command_sequence s) command,
       command_sequence := next_seq (command_sequence s)\<rparr>) t"
    by blast
  then show ?thesis
    using line_only_simps(2) by fastforce
qed

text \<open>Unless the line reaches the end of file, a command returns (normally or by throwing).\<close>

lemma doJtagCommand_returns:
  assumes "no_eof s"
  shows "doJtagCommand command retry s \<noteq> None"
  using doJtagCommand_total [OF assms, of command retry] by auto

text \<open>C10: when the box stays silent, \<open>doJtagCommand\<close> gives up by throwing, after exactly ten frames.\<close>

theorem doJtagCommand_gives_up:
  assumes "rx s = []" "wq s = []"
  shows "\<exists>t. doJtagCommand command True s = Some (Inl (Thrown ''JTAG ICE: Cannot synchronise''), t) \<and>
     tx t = tx s @ concat (replicate 10 (frame (command_sequence s) command))"
  using doJtagCommand_loop_silent [OF assms, of command MAX_JTAG_COMM_ATTEMPS]
  by (auto simp: doJtagCommand_def code_defs)

text \<open>A frame header cut off inside its size field makes \<open>recv\<close> move a message that was never
  allocated (\<open>memmove\<close> on a null pointer).\<close>

lemma recv_null_message:
  assumes "avail (rx s) = MESSAGE_START # u16_to_b2 (command_sequence s) @ [1]" "stop (rx s) = Timeout # evs"
  shows "\<exists>t. recv s = Some (Inl Undef, t)"
proof -
  have one: "sint (push_bit 24 (ucast (1 :: u8)) :: u32) = 2 ^ 24"
    by simp
  obtain t where t: "recvFrame s = Some (Inr (2 ^ 24, None, Some (command_sequence s)), t)"
      "command_sequence t = command_sequence s"
    using recvFrame_header_cut [OF assms] unfolding one by blast
  then show ?thesis
    by (simp add: recv.simps [of s] io_simps)
qed

section \<open>Examples\<close>

text \<open>A box that reports an event and then answers \<open>RSP_OK\<close> to the first command.\<close>

definition answering_box :: jtag2 where
  "answering_box = quiet_box [Chunk (frame 0xffff [0xE0]), Again, Chunk (frame 0 [0x80])]"

lemma frame_nonempty: "frame q p \<noteq> []"
  by (simp add: frame_def Let_def frame_header_def)

lemma answering_box_run:
  "\<exists>msg t. doJtagCommand [0x08] True answering_box = Some (Inr (True, Some msg, 1), t)"
  using doJtagCommand_answer [of answering_box "[0x80]" "[(0xffff, [0xE0])]" "[]" "[0x08]" True]
  by (auto simp: answering_box_def frame_nonempty code_defs)

lemma doJtagCommand_outcome_witness:
  "\<exists>msg t k. doJtagCommand [0x08] True answering_box = Some (Inr (True, Some msg, 1), t) \<and>
     1 \<le> k \<and> k \<le> (10 :: nat) \<and> tx t = concat (replicate k (frame 0 [0x08]))"
proof -
  obtain msg t where t: "doJtagCommand [0x08] True answering_box = Some (Inr (True, Some msg, 1), t)"
    using answering_box_run by blast
  from doJtagCommand_outcome [OF t] show ?thesis
    using t by (auto simp: answering_box_def code_defs)
qed

lemma doJtagCommand_answered_witness:
  "\<exists>msg t. doJtagCommand [0x08] True answering_box = Some (Inr (True, Some msg, 1), t) \<and>
     take 1 msg = [0x80] \<and> tx t = frame 0 [0x08]"
  using doJtagCommand_answered [of answering_box "[0x80]" "[(0xffff, [0xE0])]" "[]" "[0x08]" True]
  by (auto simp: answering_box_def frame_nonempty code_defs)

lemma doJtagCommand_returns_witness: "doJtagCommand [0x08] True (quiet_box [Timeout]) \<noteq> None"
  by (rule doJtagCommand_returns) (simp add: no_eof_def)

lemma doJtagCommand_gives_up_witness:
  "\<exists>t. doJtagCommand [0x08] True (quiet_box []) = Some (Inl (Thrown ''JTAG ICE: Cannot synchronise''), t) \<and>
     tx t = concat (replicate 10 (frame 0 [0x08]))"
  using doJtagCommand_gives_up [of "quiet_box []" "[0x08]"] by simp

lemma recv_null_message_witness:
  "\<exists>t. recv (quiet_box [Chunk [MESSAGE_START, 0, 0, 1], Timeout]) = Some (Inl Undef, t)"
  by (rule recv_null_message) (simp_all add: u16_to_b2_def)

end
