(* ===== verification/Mk2_Memory.thy ===== *)
theory Mk2_Memory
  imports Mk2_Command
begin

text \<open>
  Programming mode and memory access of the mkII driver: \<^verbatim>\<open>src/src/jtag2prog.cc\<close>
  (\<open>enableProgramming\<close>, \<open>disableProgramming\<close>, \<open>eraseProgramMemory\<close>, \<open>eraseProgramPage\<close>) and
  \<^verbatim>\<open>src/src/jtag2rw.cc\<close> (\<open>memorySpace\<close>, \<open>jtagRead\<close>, \<open>jtagWrite\<close>).
\<close>

section \<open>Programming mode\<close>

definition enableProgramming :: "('z jtag2_scheme, unit) io" where
  "enableProgramming =
     io_bind (io_get useDebugWire) (\<lambda>dw.
     if \<not> dw then
       io_then (io_put (\<lambda>s. s\<lparr>programmingEnabled := True\<rparr>)) (doSimpleJtagCommand CMND_ENTER_PROGMODE)
     else io_ret ())"

definition disableProgramming :: "('z jtag2_scheme, unit) io" where
  "disableProgramming =
     io_bind (io_get useDebugWire) (\<lambda>dw.
     if \<not> dw then
       io_then (io_put (\<lambda>s. s\<lparr>programmingEnabled := False\<rparr>)) (doSimpleJtagCommand CMND_LEAVE_PROGMODE)
     else io_ret ())"

definition eraseProgramMemory :: "('z jtag2_scheme, unit) io" where
  "eraseProgramMemory = doSimpleJtagCommand CMND_CHIP_ERASE"

text \<open>The address is sent most significant byte first, unlike everywhere else in the protocol.\<close>

definition eraseProgramPage :: "u64 \<Rightarrow> ('z jtag2_scheme, unit) io" where
  "eraseProgramPage addr =
     io_bind (doJtagCommand
       [CMND_ERASEPAGE_SPM,
        ucast (drop_bit 24 (addr AND 0xff000000)), ucast (drop_bit 16 (addr AND 0xff0000)),
        ucast (drop_bit 8 (addr AND 0xff00)), ucast addr] True) (\<lambda>(ok, response, respSize).
     check ok ''Page erase failed'')"

section \<open>Memory spaces\<close>

text \<open>\<open>memorySpace(addr)\<close> returns the memory type and the address without its space bits.\<close>

definition memorySpace :: "u64 \<Rightarrow> 'z jtag2_scheme \<Rightarrow> u8 \<times> u64" where
  "memorySpace addr s =
     (let (mask, addr') = (if addr AND DATA_SPACE_ADDR_OFFSET \<noteq> 0
                           then (addr AND ADDR_SPACE_MASK, addr AND NOT ADDR_SPACE_MASK)
                           else (0, addr))
      in (if mask = EEPROM_SPACE_ADDR_OFFSET then
            (if \<not> useDebugWire s \<and> programmingEnabled s then MTYPE_EEPROM_PAGE else MTYPE_EEPROM)
          else if mask = FUSE_SPACE_ADDR_OFFSET then MTYPE_FUSE_BITS
          else if mask = LOCK_SPACE_ADDR_OFFSET then MTYPE_LOCK_BITS
          else if mask = SIG_SPACE_ADDR_OFFSET then MTYPE_SIGN_JTAG
          else if mask = BREAKPOINT_SPACE_ADDR_OFFSET then MTYPE_EVENT
          else if mask = DATA_SPACE_ADDR_OFFSET then MTYPE_SRAM
          else if useDebugWire s \<or> programmingEnabled s then MTYPE_FLASH_PAGE
          else MTYPE_SPM, addr'))"

section \<open>Reading\<close>

text \<open>The two page caches: \<open>cachePtr\<close> and \<open>cacheBaseAddr\<close> of \<open>jtagRead\<close>.\<close>

datatype page_cache = Flash_Page_Cache | Eeprom_Page_Cache

fun cache_data :: "page_cache \<Rightarrow> 'z jtag2_scheme \<Rightarrow> u8 list" where
  "cache_data Flash_Page_Cache s = flashCache s"
| "cache_data Eeprom_Page_Cache s = eepromCache s"

fun cache_base :: "page_cache \<Rightarrow> 'z jtag2_scheme \<Rightarrow> u32" where
  "cache_base Flash_Page_Cache s = flashCachePageAddr s"
| "cache_base Eeprom_Page_Cache s = eepromCachePageAddr s"

fun cache_fill :: "page_cache \<Rightarrow> u8 list \<Rightarrow> u32 \<Rightarrow> 'z jtag2_scheme \<Rightarrow> 'z jtag2_scheme" where
  "cache_fill Flash_Page_Cache d a s = s\<lparr>flashCache := d, flashCachePageAddr := a\<rparr>"
| "cache_fill Eeprom_Page_Cache d a s = s\<lparr>eepromCache := d, eepromCachePageAddr := a\<rparr>"

text \<open>
  The branch that reads one page from the device: the \<open>CMND_READ_MEMORY\<close> for a whole page, then
  \<open>memcpy(cachePtr, resp + 1, pageSize)\<close>.
\<close>

definition fetch_page :: "u8 \<Rightarrow> page_cache \<Rightarrow> u32 \<Rightarrow> u32 \<Rightarrow> ('z jtag2_scheme, unit) io" where
  "fetch_page whichSpace cache pageSize pageAddr =
     io_bind (doJtagCommand ([CMND_READ_MEMORY, whichSpace] @ u32_to_b4 (ucast pageSize) @
         u32_to_b4 (ucast pageAddr)) True) (\<lambda>(ok, resp, responseSize).
     io_then (check ok ''Failed to read target memory space'')
    (io_bind (io_defined (Option.bind resp (\<lambda>r. load_many r 1 (unat pageSize)))) (\<lambda>page.
     io_bind (io_get (cache_data cache)) (\<lambda>old.
     io_bind (io_defined (store_many old 0 page)) (\<lambda>new.
     io_put (cache_fill cache new pageAddr))))))"

text \<open>The loop over the pages. \<open>response\<close> is the buffer being filled.\<close>

partial_function (option) read_pages ::
  "u8 \<Rightarrow> page_cache \<Rightarrow> u32 \<Rightarrow> u32 \<Rightarrow> u32 \<Rightarrow> u32 \<Rightarrow> u32 \<Rightarrow> u32 \<Rightarrow> u8 list \<Rightarrow> ('z jtag2_scheme, u8 list) io"
where
  "read_pages whichSpace cache pageSize pageAddr offset numBytes chunksize targetOffset response s =
     (if numBytes = 0 then Some (Inr response, s)
      else
        io_bind (\<lambda>t. if pageAddr = cache_base cache t then Some (Inr (), t)
            else fetch_page whichSpace cache pageSize pageAddr t) (\<lambda>_ t.
        io_bind (io_defined (Option.bind (load_many (cache_data cache t) (unat offset) (unat chunksize))
            (store_many response (unat targetOffset)))) (\<lambda>response' u.
        read_pages whichSpace cache pageSize (pageAddr + pageSize) offset (numBytes - chunksize)
          (if numBytes - chunksize > pageSize then pageSize else numBytes - chunksize)
          (targetOffset + chunksize) response' u) t) s)"

definition read_paged :: "u8 \<Rightarrow> page_cache \<Rightarrow> u32 \<Rightarrow> u64 \<Rightarrow> u32 \<Rightarrow> ('z jtag2_scheme, u8 list) io" where
  "read_paged whichSpace cache pageSize addr numBytes =
     io_bind (io_get (\<lambda>s. map (fresh s) [0..<unat numBytes])) (\<lambda>response.
     let mask = pageSize - 1;
         pageAddr = ucast (addr AND ucast (NOT mask)) :: u32;
         chunksize = (if addr + ucast numBytes \<ge> ucast (pageAddr + pageSize)
                      then ucast (ucast numBytes - (addr + ucast numBytes - ucast (pageAddr + pageSize)))
                      else numBytes);
         offset = ucast (addr - ucast pageAddr)
     in read_pages whichSpace cache pageSize pageAddr offset numBytes chunksize 0 response)"

text \<open>The branch without pages: \<open>memmove(response, response + 1 + offset, responseSize - 1 - offset)\<close>.\<close>

definition read_plain :: "u8 \<Rightarrow> u64 \<Rightarrow> u32 \<Rightarrow> nat \<Rightarrow> ('z jtag2_scheme, u8 list) io" where
  "read_plain whichSpace addr numBytes offset =
     io_bind (doJtagCommand ([CMND_READ_MEMORY, whichSpace] @ u32_to_b4 (ucast numBytes) @
         u32_to_b4 addr) True) (\<lambda>(ok, resp, responseSize).
     io_then (check ok ''Failed to read target memory space'')
    (io_defined (Option.bind resp (\<lambda>r.
       if responseSize - 1 - int offset < 0 then None
       else Option.bind (load_many r (1 + offset) (nat (responseSize - 1 - int offset)))
         (store_many r 0)))))"

definition jtagRead :: "u64 \<Rightarrow> u32 \<Rightarrow> ('z jtag2_scheme, u8 list) io" where
  "jtagRead addr0 numBytes =
     (if numBytes = 0 then io_ret [0]
      else
        io_bind (io_get (memorySpace addr0)) (\<lambda>(whichSpace, addr).
        let needProgmode = whichSpace \<ge> MTYPE_FLASH_PAGE in
        io_bind (io_get programmingEnabled) (\<lambda>wasProgmode.
        io_then (if needProgmode \<and> \<not> wasProgmode then enableProgramming else io_ret ())
       (io_bind
          (if whichSpace = MTYPE_SPM then
             read_plain whichSpace (addr AND NOT 1) ((numBytes + 1) AND NOT 1) (unat (addr AND 1))
           else if whichSpace = MTYPE_FLASH_PAGE then
             io_bind (io_get p_device_def) (\<lambda>d. io_bind (io_defined d) (\<lambda>dev.
             if flash_page_size dev > 0
             then read_paged whichSpace Flash_Page_Cache (flash_page_size dev) addr numBytes
             else read_plain whichSpace addr numBytes 0))
           else if whichSpace = MTYPE_EEPROM_PAGE then
             io_bind (io_get p_device_def) (\<lambda>d. io_bind (io_defined d) (\<lambda>dev.
             if eeprom_page_size dev > 0
             then read_paged whichSpace Eeprom_Page_Cache (ucast (eeprom_page_size dev)) addr numBytes
             else read_plain whichSpace addr numBytes 0))
           else read_plain whichSpace addr numBytes 0) (\<lambda>response.
        io_then (if needProgmode \<and> \<not> wasProgmode then disableProgramming else io_ret ())
          (io_ret response))))))"

section \<open>Writing\<close>

text \<open>\<open>buffer\<close> is the caller's buffer; reading beyond it is undefined.\<close>

definition jtagWrite :: "u64 \<Rightarrow> u32 \<Rightarrow> u8 list \<Rightarrow> ('z jtag2_scheme, bool) io" where
  "jtagWrite addr0 numBytes buffer =
     (if numBytes = 0 then io_ret True
      else
        io_bind (io_get (memorySpace addr0)) (\<lambda>(whichSpace, addr).
        io_then (if whichSpace = MTYPE_SPM \<and> addr = 0 \<and> numBytes > 4 then eraseProgramMemory else io_ret ())
       (let needProgmode = whichSpace \<ge> MTYPE_FLASH_PAGE in
        io_bind (io_get programmingEnabled) (\<lambda>wasProgmode.
        io_then (if needProgmode \<and> \<not> wasProgmode then enableProgramming else io_ret ())
       (io_bind
          (if whichSpace = MTYPE_FLASH_PAGE then
             io_bind (io_get p_device_def) (\<lambda>d. io_bind (io_defined d) (\<lambda>dev. io_ret (flash_page_size dev)))
           else if whichSpace = MTYPE_EEPROM_PAGE then
             io_bind (io_get p_device_def) (\<lambda>d. io_bind (io_defined d) (\<lambda>dev.
               io_ret (ucast (eeprom_page_size dev))))
           else io_ret 0) (\<lambda>pageSize.
        let addr' = (if pageSize > 0 then addr AND ucast (NOT (pageSize - 1)) else addr) in
        io_then (if pageSize > 0
            then check (numBytes = pageSize) ''jtagWrite(): numByte does not match page size''
            else io_ret ())
       (io_bind (io_defined (load_many buffer 0 (unat numBytes))) (\<lambda>bytes.
        io_bind (doJtagCommand ([CMND_WRITE_MEMORY, whichSpace] @
            u32_to_b4 (if pageSize > 0 then ucast pageSize else ucast numBytes) @ u32_to_b4 addr' @ bytes) True)
          (\<lambda>(ok, response, responseSize).
        io_then (check ok ''Failed to write target memory space'')
       (io_then (if needProgmode \<and> \<not> wasProgmode then disableProgramming else io_ret ())
          (io_ret True)))))))))))"

section \<open>Invariants\<close>

lemma comm_preserves_enableProgramming:
  "comm_closed I \<Longrightarrow> (\<And>s b. I s \<Longrightarrow> I (s\<lparr>programmingEnabled := b\<rparr>)) \<Longrightarrow> preserves I enableProgramming"
  unfolding enableProgramming_def by (intro preserve preserves_put)

lemma comm_preserves_disableProgramming:
  "comm_closed I \<Longrightarrow> (\<And>s b. I s \<Longrightarrow> I (s\<lparr>programmingEnabled := b\<rparr>)) \<Longrightarrow> preserves I disableProgramming"
  unfolding disableProgramming_def by (intro preserve preserves_put)

lemma comm_preserves_eraseMemory [preserve]: "comm_closed I \<Longrightarrow> preserves I eraseProgramMemory"
  unfolding eraseProgramMemory_def by (intro preserve)

lemma comm_preserves_erasePage [preserve]: "comm_closed I \<Longrightarrow> preserves I (eraseProgramPage a)"
  unfolding eraseProgramPage_def by (intro preserve)

text \<open>A computation that is chosen by the state it starts in.\<close>

lemma preserves_dep: "(\<And>t. preserves I (m t)) \<Longrightarrow> preserves I (\<lambda>t. m t t)"
  by (auto simp: preserves_def)

definition fill_closed :: "('z jtag2_scheme \<Rightarrow> bool) \<Rightarrow> bool" where
  "fill_closed I \<longleftrightarrow> (\<forall>s c d a. I s \<longrightarrow> length d = length (cache_data c s) \<longrightarrow> I (cache_fill c d a s))"

lemma fill_closed_inv: "fill_closed jtag2_inv"
  unfolding fill_closed_def
proof (intro allI impI)
  fix s :: "'a jtag2_scheme" and c a and d :: "u8 list"
  assume "jtag2_inv s" "length d = length (cache_data c s)"
  then show "jtag2_inv (cache_fill c d a s)"
    by (cases c) (simp_all add: jtag2_inv_def arrays_ok_def seq_ok_def)
qed

lemma preserves_fetch_page:
  assumes "comm_closed I" "fill_closed I"
  shows "preserves I (fetch_page w c ps pa)"
proof -
  have "preserves I (io_bind (io_get (cache_data c)) (\<lambda>old.
      io_bind (io_defined (store_many old 0 page)) (\<lambda>new. io_put (cache_fill c new pa))))" for page
    using assms(2) by (auto simp: preserves_def io_bind_def io_get_def io_defined_def io_put_def io_ret_def
        io_throw_def fill_closed_def length_store_many split: option.splits)
  then have "preserves I (io_bind (io_defined x) (\<lambda>page. io_bind (io_get (cache_data c)) (\<lambda>old.
      io_bind (io_defined (store_many old 0 page)) (\<lambda>new. io_put (cache_fill c new pa)))))" for x
    by (rule preserves_bind [OF preserves_defined])
  then show ?thesis
    unfolding fetch_page_def
    by (intro preserves_bind [OF comm_preserves_doJtagCommand] preserves_prod preserves_then preserves_check assms(1))
qed

lemma preserves_read_pages:
  assumes "comm_closed I" "fill_closed I"
  shows "preserves I (read_pages w c ps pa off n k to resp)"
proof
  fix s r s'
  assume "I s" "read_pages w c ps pa off n k to resp s = Some (r, s')"
  have "I s \<longrightarrow> I (snd (r, s'))"
  proof (rule read_pages.raw_induct [where P = "\<lambda>_ _ _ _ _ _ _ _ _ s y. I s \<longrightarrow> I (snd y)"])
    show "read_pages w c ps pa off n k to resp s = Some (r, s')" by fact
  next
    fix f w c ps pa off n k to resp s and y :: "(err + u8 list) \<times> 'a jtag2_scheme"
    assume IH: "\<And>w c ps pa off n k to resp s y. f w c ps pa off n k to resp s = Some y \<Longrightarrow> I s \<longrightarrow> I (snd y)"
      and run: "(if n = 0 then Some (Inr resp, s)
      else
        io_bind (\<lambda>t. if pa = cache_base c t then Some (Inr (), t) else fetch_page w c ps pa t) (\<lambda>_ t.
        io_bind (io_defined (Option.bind (load_many (cache_data c t) (unat off) (unat k))
            (store_many resp (unat to)))) (\<lambda>response' u.
        f w c ps (pa + ps) off (n - k)
          (if n - k > ps then ps else n - k) (to + k) response' u) t) s) = Some y"
    have fetch: "preserves I (\<lambda>t. if pa = cache_base c t then Some (Inr (), t) else fetch_page w c ps pa t)"
      using preserves_fetch_page [OF assms] by (auto simp: preserves_def)
    have rest: "preserves I (f w c ps (pa + ps) off (n - k) (if n - k > ps then ps else n - k) (to + k) r)" for r
      using IH by (fastforce simp: preserves_def)
    have "preserves I (io_bind (\<lambda>t. if pa = cache_base c t then Some (Inr (), t) else fetch_page w c ps pa t) (\<lambda>_ t.
        io_bind (io_defined (Option.bind (load_many (cache_data c t) (unat off) (unat k))
            (store_many resp (unat to)))) (\<lambda>response' u.
        f w c ps (pa + ps) off (n - k)
          (if n - k > ps then ps else n - k) (to + k) response' u) t))"
    proof (rule preserves_bind [OF fetch])
      fix x
      show "preserves I (\<lambda>t. io_bind (io_defined (Option.bind (load_many (cache_data c t) (unat off) (unat k))
            (store_many resp (unat to)))) (\<lambda>response' u.
          f w c ps (pa + ps) off (n - k) (if n - k > ps then ps else n - k) (to + k) response' u) t)"
        by (rule preserves_dep [where m = "\<lambda>t. io_bind (io_defined (Option.bind
              (load_many (cache_data c t) (unat off) (unat k)) (store_many resp (unat to)))) (\<lambda>response' u.
            f w c ps (pa + ps) off (n - k) (if n - k > ps then ps else n - k) (to + k) response' u)"])
          (intro preserves_bind preserves_defined rest)
    qed
    then show "I s \<longrightarrow> I (snd y)"
      using run by (cases y) (auto simp: preserves_def split: if_splits)
  qed
  with \<open>I s\<close> show "I s'" by simp
qed

lemma preserves_jtagRead:
  assumes "comm_closed I" "fill_closed I" "\<And>s b. I s \<Longrightarrow> I (s\<lparr>programmingEnabled := b\<rparr>)"
  shows "preserves I (jtagRead addr n)"
  unfolding jtagRead_def read_paged_def read_plain_def
  by (intro preserve preserves_read_pages comm_preserves_enableProgramming comm_preserves_disableProgramming assms)

lemma preserves_jtagWrite:
  assumes "comm_closed I" "\<And>s b. I s \<Longrightarrow> I (s\<lparr>programmingEnabled := b\<rparr>)"
  shows "preserves I (jtagWrite addr n buf)"
  unfolding jtagWrite_def
  by (intro preserve comm_preserves_enableProgramming comm_preserves_disableProgramming assms)

lemma inv_jtagRead: "preserves jtag2_inv (jtagRead addr n)"
  by (intro preserves_jtagRead comm_closed_inv fill_closed_inv) simp

lemma inv_jtagWrite: "preserves jtag2_inv (jtagWrite addr n buf)"
  by (intro preserves_jtagWrite comm_closed_inv) simp

section \<open>Address arithmetic\<close>

lemma u64_add: "unat (x :: u64) < 2 ^ 40 \<Longrightarrow> unat (y :: u64) < 2 ^ 40 \<Longrightarrow> unat (x + y) = unat x + unat y"
  by (subst unat_plus_if') simp

lemma u64_ucast: "unat (ucast (x :: u32) :: u64) = unat x"
  by (simp add: unsigned_ucast_eq take_bit_nat_eq_self order.strict_trans1 [OF less_imp_le [OF unsigned_less]])

lemma page_base:
  assumes "k \<le> 16" "unat (addr :: u64) < 2 ^ 30"
  shows "unat (ucast (addr AND ucast (NOT (2 ^ k - 1 :: u32))) :: u32) = unat addr div 2 ^ k * 2 ^ k"
proof -
  define a :: u32 where "a = ucast addr"
  have a: "unat a = unat addr"
    using assms(2) by (simp add: a_def unsigned_ucast_eq take_bit_nat_eq_self)
  have "(ucast (addr AND ucast (NOT (2 ^ k - 1 :: u32))) :: u32) = push_bit k (drop_bit k a)"
    unfolding mask_eq_exp_minus_1 [symmetric]
    by (rule bit_eqI) (use assms(1) in \<open>auto simp: bit_simps a_def\<close>)
  moreover have "unat (push_bit k (drop_bit k a)) = unat a div 2 ^ k * 2 ^ k"
  proof -
    have "unat a div 2 ^ k * 2 ^ k < 2 ^ 32"
    proof -
      have "unat a < 2 ^ 32"
        using unsigned_less [of a, where 'a = nat] by simp
      then show ?thesis
        using div_times_less_eq_dividend [of "unat a" "2 ^ k"] by linarith
    qed
    moreover have "take_bit 32 (unat a) = unat a"
      using unsigned_less [of a, where 'a = nat] by (simp add: take_bit_nat_eq_self)
    ultimately show ?thesis
      by (simp only: unsigned_push_bit_eq unsigned_drop_bit_eq)
        (simp add: drop_bit_eq_div push_bit_eq_mult take_bit_nat_eq_self)
  qed
  ultimately show ?thesis
    by (simp add: a)
qed

text \<open>The first chunk of a paged read, in natural numbers: a power of two as the page size, the page
  start \<open>P\<close>, and the part of the request that lies in that page.\<close>

lemma read_paged_eq:
  fixes addr :: u64 and n :: u32 and k :: nat
  defines "A \<equiv> unat addr"
  defines "P \<equiv> A div 2 ^ k * 2 ^ k"
  assumes "k \<le> 16" "A < 2 ^ 30" "unat n < 2 ^ 30"
  shows "read_paged w c (2 ^ k) addr n s =
     read_pages w c (2 ^ k) (of_nat P) (of_nat (A - P)) n (of_nat (min (unat n) (P + 2 ^ k - A))) 0
       (map (fresh s) [0..<unat n]) s"
proof -
  define pageAddr where "pageAddr = (ucast (addr AND ucast (NOT (2 ^ k - 1 :: u32))) :: u32)"
  have k: "(2 :: nat) ^ k \<le> 2 ^ 16"
    using assms(3) by (rule power_increasing) simp
  have small: "unat (of_nat m :: u32) = m" if "m < 2 ^ 32" for m
    using that by (simp add: unat_of_nat take_bit_nat_eq_self)
  have small64: "unat (of_nat m :: u64) = m" if "m < 2 ^ 64" for m
    using that by (simp add: unat_of_nat take_bit_nat_eq_self)
  have nat32: "x = of_nat m" if "unat x = m" for x :: u32 and m
    using that by auto
  have nat64: "x = of_nat m" if "unat x = m" for x :: u64 and m
    using that by auto
  have ps: "(2 ^ k :: u32) = of_nat (2 ^ k)"
    by simp
  have P: "pageAddr = of_nat P" "P \<le> A" "A < P + 2 ^ k"
  proof -
    show "pageAddr = of_nat P"
      by (rule nat32) (use page_base [OF assms(3), of addr] assms(4) in \<open>simp add: pageAddr_def P_def A_def\<close>)
    show "P \<le> A"
      by (simp add: P_def)
    have "A mod 2 ^ k < 2 ^ k" by simp
    then show "A < P + 2 ^ k"
      using div_mult_mod_eq [of A "2 ^ k"] unfolding P_def by linarith
  qed
  have bound: "P + 2 ^ k < 2 ^ 31"
    using P(2) k assms(4) by simp
  have pend: "(ucast (pageAddr + 2 ^ k) :: u64) = of_nat (P + 2 ^ k)"
  proof (rule nat64)
    have "pageAddr + 2 ^ k = of_nat (P + 2 ^ k)"
      by (simp add: P(1))
    then show "unat (ucast (pageAddr + 2 ^ k) :: u64) = P + 2 ^ k"
      unfolding u64_ucast using small [of "P + 2 ^ k"] bound by simp
  qed
  have aend: "addr + ucast n = of_nat (A + unat n)"
  proof (rule nat64)
    show "unat (addr + ucast n) = A + unat n"
      using assms(4,5) u64_add [of addr "ucast n"] by (simp add: u64_ucast A_def)
  qed
  have off: "(ucast (addr - ucast pageAddr) :: u32) = of_nat (A - P)"
  proof (rule nat32)
    have "addr = of_nat A" by (simp add: A_def)
    moreover have "(ucast pageAddr :: u64) = of_nat P"
      by (rule nat64, unfold u64_ucast) (use P bound small [of P] in simp)
    ultimately have "addr - ucast pageAddr = of_nat (A - P)"
      using P(2) by (simp add: of_nat_diff)
    then show "unat (ucast (addr - ucast pageAddr) :: u32) = A - P"
      using assms(4) by (simp add: unsigned_ucast_eq unat_of_nat take_bit_nat_eq_self)
  qed
  have e1: "unat (of_nat (A + unat n) :: u64) = A + unat n" and e2: "unat (of_nat (P + 2 ^ k) :: u64) = P + 2 ^ k"
    by (rule small64, use assms(4,5) bound in simp)+
  define chunk where "chunk = (if addr + ucast n \<ge> ucast (pageAddr + 2 ^ k)
      then ucast (ucast n - (addr + ucast n - ucast (pageAddr + 2 ^ k))) else n :: u32)"
  have "chunk = of_nat (min (unat n) (P + 2 ^ k - A))"
  proof (cases "P + 2 ^ k \<le> A + unat n")
    case True
    then have cond: "addr + ucast n \<ge> ucast (pageAddr + 2 ^ k)"
      unfolding pend aend word_le_nat_alt e1 e2 .
    have "(ucast n :: u64) = of_nat (unat n)"
      by (rule nat64) (rule u64_ucast)
    moreover have "unat n - (A + unat n - (P + 2 ^ k)) = P + 2 ^ k - A" "A + unat n - (P + 2 ^ k) \<le> unat n"
      using True P(3) by simp_all
    ultimately have "ucast n - (addr + ucast n - ucast (pageAddr + 2 ^ k)) = (of_nat (P + 2 ^ k - A) :: u64)"
      unfolding pend aend using True by (metis of_nat_diff)
    then have "chunk = of_nat (P + 2 ^ k - A)"
      unfolding chunk_def using cond bound
      by (intro nat32) (simp add: unsigned_ucast_eq unat_of_nat take_bit_nat_eq_self)
    moreover have "P + 2 ^ k - A \<le> unat n"
      using True by simp
    ultimately show ?thesis by (simp add: min_absorb2)
  next
    case False
    then have "\<not> addr + ucast n \<ge> ucast (pageAddr + 2 ^ k)"
      unfolding pend aend word_le_nat_alt e1 e2 .
    moreover have "unat n \<le> P + 2 ^ k - A"
      using False by simp
    ultimately show ?thesis
      by (simp add: chunk_def min_absorb1)
  qed
  then show ?thesis
    unfolding read_paged_def Let_def pageAddr_def [symmetric] chunk_def [symmetric] off
    by (simp add: P(1) io_simps)
qed

text \<open>The bytes of a request that lies in one page.\<close>

lemma read_pages_one:
  assumes "pageAddr = cache_base c s" "unat off + unat n \<le> length (cache_data c s)" "n \<noteq> 0"
    and "length response = unat n"
  shows "read_pages w c ps pageAddr off n n 0 response s =
     Some (Inr (take (unat n) (drop (unat off) (cache_data c s))), s)"
proof -
  have "load_many (cache_data c s) (unat off) (unat n) = Some (take (unat n) (drop (unat off) (cache_data c s)))"
    using assms(2) by (simp add: load_many_def)
  moreover have "store_many response 0 (take (unat n) (drop (unat off) (cache_data c s))) =
      Some (take (unat n) (drop (unat off) (cache_data c s)))"
    using assms(2,4) by (simp add: store_many_def)
  ultimately show ?thesis
    using assms(1,3) by (subst read_pages.simps) (simp add: io_simps read_pages.simps [where numBytes = 0])
qed

lemma fetch_page_ok:
  assumes "doJtagCommand ([CMND_READ_MEMORY, w] @ u32_to_b4 (ucast ps) @ u32_to_b4 (ucast pageAddr)) True s =
      Some (Inr (True, Some resp, sz), t)"
    and "unat ps < length resp" "unat ps \<le> length (cache_data c t)"
  shows "fetch_page w c ps pageAddr s = Some (Inr (),
     cache_fill c (take (unat ps) (drop 1 resp) @ drop (unat ps) (cache_data c t)) pageAddr t)"
  using assms by (simp add: fetch_page_def io_simps load_many_def store_many_def min_absorb2)

lemma read_pages_fetch:
  assumes "pageAddr \<noteq> cache_base c s" "n \<noteq> 0" "fetch_page w c ps pageAddr s = Some (Inr (), t)"
    and "cache_base c t = pageAddr"
  shows "read_pages w c ps pageAddr off n k to response s = read_pages w c ps pageAddr off n k to response t"
  using assms by (subst (1 2) read_pages.simps) (simp add: io_simps)

lemma memorySpace_code:
  "addr AND DATA_SPACE_ADDR_OFFSET = 0 \<Longrightarrow> memorySpace addr s =
     (if useDebugWire s \<or> programmingEnabled s then MTYPE_FLASH_PAGE else MTYPE_SPM, addr)"
  by (simp add: memorySpace_def code_defs)

text \<open>In programming mode a read of flash is a paged read.\<close>

lemma jtagRead_flash:
  assumes "addr AND DATA_SPACE_ADDR_OFFSET = 0" "programmingEnabled s" "n \<noteq> 0"
    and "p_device_def s = Some dev" "flash_page_size dev = ps" "ps > 0"
    and "read_paged MTYPE_FLASH_PAGE Flash_Page_Cache ps addr n s = Some (r, t)"
  shows "jtagRead addr n s = Some (r, t)"
proof -
  have "MTYPE_FLASH_PAGE \<noteq> MTYPE_SPM" "MTYPE_FLASH_PAGE \<ge> MTYPE_FLASH_PAGE"
    by (simp_all add: code_defs)
  with assms show ?thesis
    by (cases r) (simp_all add: jtagRead_def memorySpace_code io_simps)
qed

text \<open>Page starts and offsets of an address, for pages of \<open>2 ^ k\<close> bytes.\<close>

definition page_of :: "nat \<Rightarrow> u64 \<Rightarrow> u32" where
  "page_of k addr = of_nat (unat addr div 2 ^ k * 2 ^ k)"

definition in_page :: "nat \<Rightarrow> u64 \<Rightarrow> nat" where
  "in_page k addr = unat addr mod 2 ^ k"

text \<open>A device in programming mode, at a flash address.\<close>

definition flash_access :: "nat \<Rightarrow> u64 \<Rightarrow> 'z jtag2_scheme \<Rightarrow> bool" where
  "flash_access k addr s \<longleftrightarrow> addr AND DATA_SPACE_ADDR_OFFSET = 0 \<and> unat addr < 2 ^ 30 \<and> programmingEnabled s \<and>
     k \<le> 16 \<and> (\<exists>dev. p_device_def s = Some dev \<and> flash_page_size dev = 2 ^ k)"

lemma in_page_unat:
  assumes "k \<le> 16"
  shows "unat (of_nat (in_page k addr) :: u32) = in_page k addr"
proof -
  have "(2 :: nat) ^ k \<le> 2 ^ 16"
    using assms by (rule power_increasing) simp
  moreover have "in_page k addr < 2 ^ k"
    by (simp add: in_page_def)
  ultimately show ?thesis
    by (simp add: unat_of_nat take_bit_nat_eq_self)
qed

lemma p2_unat: "k \<le> 16 \<Longrightarrow> unat (2 ^ k :: u32) = 2 ^ k"
proof -
  assume "k \<le> 16"
  then have "(2 :: nat) ^ k \<le> 2 ^ 16"
    by (rule power_increasing) simp
  then have "unat (of_nat (2 ^ k) :: u32) = 2 ^ k"
    unfolding unat_of_nat by (simp add: take_bit_nat_eq_self)
  then show ?thesis by simp
qed

lemma jtagRead_flash_pages:
  assumes "flash_access k addr s" "n \<noteq> 0" "unat n < 2 ^ 30"
    and "read_pages MTYPE_FLASH_PAGE Flash_Page_Cache (2 ^ k) (page_of k addr) (of_nat (in_page k addr)) n
       (of_nat (min (unat n) (2 ^ k - in_page k addr))) 0 (map (fresh s) [0..<unat n]) s = Some (r, t)"
  shows "jtagRead addr n s = Some (r, t)"
proof -
  obtain dev where dev: "p_device_def s = Some dev" "flash_page_size dev = 2 ^ k"
    and acc: "addr AND DATA_SPACE_ADDR_OFFSET = 0" "unat addr < 2 ^ 30" "programmingEnabled s" "k \<le> 16"
    using assms(1) by (auto simp: flash_access_def)
  have "unat addr - unat addr div 2 ^ k * 2 ^ k = in_page k addr"
    "unat addr div 2 ^ k * 2 ^ k + 2 ^ k - unat addr = 2 ^ k - in_page k addr"
    using div_mult_mod_eq [of "unat addr" "2 ^ k"] unfolding in_page_def by linarith+
  then have "read_paged MTYPE_FLASH_PAGE Flash_Page_Cache (2 ^ k) addr n s = Some (r, t)"
    using read_paged_eq [OF acc(4,2) assms(3), of MTYPE_FLASH_PAGE Flash_Page_Cache s] assms(4) by (simp add: page_of_def)
  moreover have "(2 ^ k :: u32) > 0"
    using p2_unat [OF acc(4)] by (metis unat_0 word_neq_0_conv zero_neq_numeral power_eq_0_iff)
  ultimately show ?thesis
    using jtagRead_flash [OF acc(1,3) assms(2) dev] by blast
qed

lemma jtagRead_hit:
  assumes "flash_access k addr s" "n \<noteq> 0" "in_page k addr + unat n \<le> 2 ^ k" "2 ^ k \<le> length (flashCache s)"
    and "flashCachePageAddr s = page_of k addr"
  shows "jtagRead addr n s = Some (Inr (take (unat n) (drop (in_page k addr) (flashCache s))), s)"
proof (rule jtagRead_flash_pages [OF assms(1,2)])
  have k: "k \<le> 16" using assms(1) by (simp add: flash_access_def)
  then have "(2 :: nat) ^ k \<le> 2 ^ 16"
    by (rule power_increasing) simp
  with assms(3) show "unat n < 2 ^ 30" by simp
  have "min (unat n) (2 ^ k - in_page k addr) = unat n"
    using assms(3) by simp
  then show "read_pages MTYPE_FLASH_PAGE Flash_Page_Cache (2 ^ k) (page_of k addr) (of_nat (in_page k addr)) n
       (of_nat (min (unat n) (2 ^ k - in_page k addr))) 0 (map (fresh s) [0..<unat n]) s =
     Some (Inr (take (unat n) (drop (in_page k addr) (flashCache s))), s)"
    using read_pages_one [of "page_of k addr" Flash_Page_Cache s "of_nat (in_page k addr)" n] assms(2-5)
    by (simp add: in_page_unat [OF k])
qed

text \<open>The command that reads a page.\<close>

definition read_page_command :: "nat \<Rightarrow> u32 \<Rightarrow> u8 list" where
  "read_page_command k pageAddr =
     [CMND_READ_MEMORY, MTYPE_FLASH_PAGE] @ u32_to_b4 (ucast (2 ^ k :: u32)) @ u32_to_b4 (ucast pageAddr)"

lemma jtagRead_miss:
  assumes "flash_access k addr s" "n \<noteq> 0" "in_page k addr + unat n \<le> 2 ^ k" "2 ^ k \<le> length (flashCache t)"
    and "flashCachePageAddr s \<noteq> page_of k addr"
    and "doJtagCommand (read_page_command k (page_of k addr)) True s = Some (Inr (True, Some resp, sz), t)"
    and "2 ^ k < length resp"
  shows "jtagRead addr n s = Some (Inr (take (unat n) (drop (in_page k addr + 1) resp)),
     t\<lparr>flashCache := take (2 ^ k) (drop 1 resp) @ drop (2 ^ k) (flashCache t),
       flashCachePageAddr := page_of k addr\<rparr>)"
proof (rule jtagRead_flash_pages [OF assms(1,2)])
  let ?u = "cache_fill Flash_Page_Cache (take (2 ^ k) (drop 1 resp) @ drop (2 ^ k) (flashCache t)) (page_of k addr) t"
  have k: "k \<le> 16" using assms(1) by (simp add: flash_access_def)
  then have "(2 :: nat) ^ k \<le> 2 ^ 16"
    by (rule power_increasing) simp
  with assms(3) show "unat n < 2 ^ 30" by simp
  have "fetch_page MTYPE_FLASH_PAGE Flash_Page_Cache (2 ^ k) (page_of k addr) s = Some (Inr (), ?u)"
    using fetch_page_ok [of MTYPE_FLASH_PAGE "2 ^ k" "page_of k addr" s resp sz t Flash_Page_Cache] assms(4,6,7)
    by (simp add: p2_unat [OF k] read_page_command_def)
  moreover have "take (unat n) (drop (in_page k addr) (take (2 ^ k) (drop 1 resp) @ drop (2 ^ k) (flashCache t))) =
      take (unat n) (drop (in_page k addr + 1) resp)"
    using assms(3,7) by (simp add: drop_take)
  moreover have "min (unat n) (2 ^ k - in_page k addr) = unat n"
    using assms(3) by simp
  ultimately show "read_pages MTYPE_FLASH_PAGE Flash_Page_Cache (2 ^ k) (page_of k addr) (of_nat (in_page k addr)) n
       (of_nat (min (unat n) (2 ^ k - in_page k addr))) 0 (map (fresh s) [0..<unat n]) s =
     Some (Inr (take (unat n) (drop (in_page k addr + 1) resp)),
       t\<lparr>flashCache := take (2 ^ k) (drop 1 resp) @ drop (2 ^ k) (flashCache t),
         flashCachePageAddr := page_of k addr\<rparr>)"
    using read_pages_fetch [of "page_of k addr" Flash_Page_Cache s n MTYPE_FLASH_PAGE "2 ^ k" ?u]
      read_pages_one [of "page_of k addr" Flash_Page_Cache ?u "of_nat (in_page k addr)" n] assms(2-5,7)
    by (simp add: in_page_unat [OF k])
qed

section \<open>Reads of several pages\<close>

lemma u32_nat: "m < 2 ^ 32 \<Longrightarrow> unat (of_nat m :: u32) = m"
  by (simp add: unat_of_nat take_bit_nat_eq_self)

lemma u64_of_u32: "m < 2 ^ 32 \<Longrightarrow> (ucast (of_nat m :: u32) :: u64) = of_nat m"
  by (simp add: word_unat_eq_iff unsigned_ucast_eq unat_of_nat take_bit_nat_eq_self)

text \<open>The request for the page of \<open>ps\<close> bytes at \<open>P\<close>, and the requests for \<open>j\<close> pages from there on, numbered in turn.\<close>

definition page_request :: "nat \<Rightarrow> nat \<Rightarrow> u8 list" where
  "page_request ps P = [CMND_READ_MEMORY, MTYPE_FLASH_PAGE] @ u32_to_b4 (of_nat ps) @ u32_to_b4 (of_nat P)"

fun page_requests :: "u16 \<Rightarrow> nat \<Rightarrow> nat \<Rightarrow> nat \<Rightarrow> u8 list" where
  "page_requests sequence ps P 0 = []"
| "page_requests sequence ps P (Suc j) =
     frame sequence (page_request ps P) @ page_requests (next_seq sequence) ps (P + ps) j"

text \<open>One round of the loop, in natural numbers: the page at \<open>P\<close> is not cached, the box answers with
  its bytes, \<open>c\<close> of the \<open>N\<close> missing bytes are taken from offset \<open>o\<close> of the cache.\<close>

lemma read_pages_round:
  assumes "0 < c" "c \<le> N" "T + N < 2 ^ 30" "length response = T + N" "ps \<le> 2 ^ 16"
    and "off + c \<le> length (flashCache s)" "ps \<le> length (flashCache s)" "length page = ps"
    and "flashCachePageAddr s \<noteq> of_nat P" "wq s = []"
    and "avail (rx s) = frame (command_sequence s) (RSP_MEMORY # page) @ rest" "off < 2 ^ 30" "P < 2 ^ 32"
  shows "\<exists>t. read_pages MTYPE_FLASH_PAGE Flash_Page_Cache (of_nat ps) (of_nat P) (of_nat off) (of_nat N)
         (of_nat c) (of_nat T) response s =
       read_pages MTYPE_FLASH_PAGE Flash_Page_Cache (of_nat ps) (of_nat (P + ps)) (of_nat off)
         (of_nat (N - c)) (of_nat (min ps (N - c))) (of_nat (T + c))
         (take T response @ take c (drop off (page @ drop ps (flashCache s))) @ drop (T + c) response) t \<and>
     wq t = [] \<and> avail (rx t) = rest \<and> command_sequence t = next_seq (command_sequence s) \<and>
     tx t = tx s @ frame (command_sequence s) (page_request ps P) \<and>
     flashCache t = page @ drop ps (flashCache s) \<and> flashCachePageAddr t = of_nat P"
proof -
  define cmd where "cmd = [CMND_READ_MEMORY, MTYPE_FLASH_PAGE] @ u32_to_b4 (ucast (of_nat ps :: u32)) @
      u32_to_b4 (ucast (of_nat P :: u32))"
  have ok: "RSP_OK \<le> RSP_MEMORY" "RSP_MEMORY < RSP_FAILED" "length (RSP_MEMORY # page) \<le> MAX_MESSAGE"
    using assms(5,8) by (simp_all add: code_defs)
  obtain msg t where t: "doJtagCommand cmd True s = Some (Inr (True, Some msg, int (length (RSP_MEMORY # page))), t)"
      "take (length (RSP_MEMORY # page)) msg = RSP_MEMORY # page" "avail (rx t) = rest"
      "line_only (s\<lparr>wq := [], tx := tx s @ frame (command_sequence s) cmd,
         command_sequence := next_seq (command_sequence s)\<rparr>) t"
    using doJtagCommand_answer [of s "RSP_MEMORY # page" "[]" rest cmd True] assms(10,11) ok by auto
  note st = line_only_simps [OF t(4)]
  have request: "cmd = page_request ps P"
    using assms(5,13) by (simp add: cmd_def page_request_def u64_of_u32)
  have nats: "unat (of_nat ps :: u32) = ps" "unat (of_nat off :: u32) = off" "unat (of_nat c :: u32) = c"
    "unat (of_nat T :: u32) = T" "unat (of_nat N :: u32) = N"
    using assms(2,3,5,6,12) by (auto simp: u32_nat)
  have len: "ps < length msg"
    using arg_cong [OF t(2), of length] assms(8) by simp
  have page: "take ps (drop 1 msg) = page"
    using arg_cong [OF t(2), of tl] assms(8) by (simp add: take_Suc tl_take drop_Suc)
  define u where "u = cache_fill Flash_Page_Cache (page @ drop ps (flashCache t)) (of_nat P) t"
  have f: "fetch_page MTYPE_FLASH_PAGE Flash_Page_Cache (of_nat ps) (of_nat P) s = Some (Inr (), u)"
    unfolding u_def using fetch_page_ok [OF t(1) [unfolded cmd_def], of Flash_Page_Cache] assms(7) len page st
    by (simp add: nats)
  have fu: "flashCache u = page @ drop ps (flashCache s)" "flashCachePageAddr u = of_nat P"
    using st by (simp_all add: u_def)
  have ld: "load_many (flashCache u) off c = Some (take c (drop off (flashCache u)))"
    using assms(6,7,8) by (simp add: load_many_def fu)
  have sto: "store_many response T (take c (drop off (flashCache u))) =
      Some (take T response @ take c (drop off (flashCache u)) @ drop (T + c) response)"
  proof -
    have "length (take c (drop off (flashCache u))) = c"
      using assms(6,7,8) unfolding fu by simp
    then show ?thesis
      using assms(2,4) by (simp add: store_many_def)
  qed
  have N: "(of_nat N :: u32) \<noteq> 0"
    using nats(5) assms(1,2) by auto
  have sub: "of_nat N - of_nat c = (of_nat (N - c) :: u32)"
    using assms(2) by (simp add: of_nat_diff)
  have nc: "unat (of_nat (N - c) :: u32) = N - c"
    using assms(3) by (simp add: u32_nat)
  have mi: "(if (of_nat ps :: u32) < of_nat (N - c) then of_nat ps else of_nat (N - c)) = (of_nat (min ps (N - c)) :: u32)"
    unfolding word_less_nat_alt nats nc by (simp add: min_def)
  have "read_pages MTYPE_FLASH_PAGE Flash_Page_Cache (of_nat ps) (of_nat P) (of_nat off) (of_nat N)
         (of_nat c) (of_nat T) response s =
     read_pages MTYPE_FLASH_PAGE Flash_Page_Cache (of_nat ps) (of_nat P + of_nat ps) (of_nat off)
         (of_nat N - of_nat c) (if (of_nat ps :: u32) < of_nat N - of_nat c then of_nat ps else of_nat N - of_nat c)
         (of_nat T + of_nat c) (take T response @ take c (drop off (flashCache u)) @ drop (T + c) response) u"
    using N assms(9) f by (subst read_pages.simps) (simp add: io_simps nats ld sto)
  then show ?thesis
    unfolding sub mi fu using st t(3) fu request by (intro exI [of _ u]) (simp add: u_def)
qed

text \<open>The line on which the box answers the page reads of one request in turn.\<close>

fun page_answers :: "u16 \<Rightarrow> u8 list list \<Rightarrow> u8 list" where
  "page_answers sequence [] = []"
| "page_answers sequence (page # pages) =
     frame sequence (RSP_MEMORY # page) @ page_answers (next_seq sequence) pages"

lemma read_pages_aligned:
  assumes "0 < ps" "ps \<le> 2 ^ 16" "ps \<le> length (flashCache s)" "\<forall>page \<in> set pages. length page = ps"
    and "N \<le> ps * length pages" "ps * length pages < N + ps" "T + N < 2 ^ 30" "length response = T + N"
    and "P + ps * length pages < 2 ^ 31" "flashCachePageAddr s \<noteq> of_nat P" "wq s = []"
    and "avail (rx s) = page_answers (command_sequence s) pages @ rest"
  shows "\<exists>t. read_pages MTYPE_FLASH_PAGE Flash_Page_Cache (of_nat ps) (of_nat P) (of_nat 0) (of_nat N)
       (of_nat (min ps N)) (of_nat T) response s = Some (Inr (take T response @ take N (concat pages)), t) \<and>
     avail (rx t) = rest \<and> tx t = tx s @ page_requests (command_sequence s) ps P (length pages)"
  using assms(3-12)
proof (induction pages arbitrary: P N T response s)
  case Nil
  then show ?case
    by (auto simp: read_pages.simps)
next
  case (Cons page pages)
  have len: "length page = ps" and N: "0 < N"
    using Cons.prems(2,4) assms(1) by simp_all
  define c where "c = min ps N"
  have c: "0 < c" "c \<le> N" "c \<le> ps"
    using assms(1) N by (simp_all add: c_def)
  have resp: "take c (drop 0 (page @ drop ps (flashCache s))) = take c page"
    using c len by simp
  define response' where "response' = take T response @ take c page @ drop (T + c) response"
  have r': "length response' = (T + c) + (N - c)" "take (T + c) response' = take T response @ take c page"
    using Cons.prems(6) c len by (simp_all add: response'_def)
  from read_pages_round [of c N T response ps 0 s page P "page_answers (next_seq (command_sequence s)) pages @ rest"]
  obtain t where t: "read_pages MTYPE_FLASH_PAGE Flash_Page_Cache (of_nat ps) (of_nat P) (of_nat 0) (of_nat N)
         (of_nat c) (of_nat T) response s =
       read_pages MTYPE_FLASH_PAGE Flash_Page_Cache (of_nat ps) (of_nat (P + ps)) (of_nat 0)
         (of_nat (N - c)) (of_nat (min ps (N - c))) (of_nat (T + c)) response' t"
     "wq t = []" "avail (rx t) = page_answers (next_seq (command_sequence s)) pages @ rest"
     "command_sequence t = next_seq (command_sequence s)" "tx t = tx s @ frame (command_sequence s) (page_request ps P)"
     "flashCache t = page @ drop ps (flashCache s)" "flashCachePageAddr t = of_nat P"
    using c Cons.prems assms(2) len unfolding resp response'_def by auto
  have lt: "P + ps < 2 ^ 32" "P < 2 ^ 32"
    using Cons.prems(7) by simp_all
  from u32_nat [OF lt(1)] u32_nat [OF lt(2)] have "(of_nat (P + ps) :: u32) \<noteq> of_nat P"
    using assms(1) by (metis add_cancel_right_right less_irrefl)
  moreover have "N - c \<le> ps * length pages" "ps * length pages < (N - c) + ps"
    using Cons.prems(3,4) assms(1) by (cases pages; auto simp: c_def min_def)+
  ultimately obtain u where u: "read_pages MTYPE_FLASH_PAGE Flash_Page_Cache (of_nat ps) (of_nat (P + ps)) (of_nat 0)
         (of_nat (N - c)) (of_nat (min ps (N - c))) (of_nat (T + c)) response' t =
       Some (Inr (take (T + c) response' @ take (N - c) (concat pages)), u)" "avail (rx u) = rest"
      "tx u = tx t @ page_requests (command_sequence t) ps (P + ps) (length pages)"
    using Cons.IH [of t "N - c" "T + c" response' "P + ps"] Cons.prems c t r' len by (auto simp: algebra_simps)
  moreover have "take c page @ take (N - c) (concat pages) = take N (page @ concat pages)"
    using len by (auto simp: c_def min_def)
  ultimately show ?case
    unfolding c_def [symmetric] t(1) using t(4,5) by (simp add: r'(2))
qed

lemma jtagRead_pages:
  assumes "flash_access k addr s" "in_page k addr = 0" "n \<noteq> 0" "unat n < 2 ^ 29" "2 ^ k \<le> length (flashCache s)"
    and "\<forall>page \<in> set pages. length page = 2 ^ k"
    and "unat n \<le> 2 ^ k * length pages" "2 ^ k * length pages < unat n + 2 ^ k"
    and "flashCachePageAddr s \<noteq> page_of k addr" "wq s = []"
    and "avail (rx s) = page_answers (command_sequence s) pages @ rest"
  shows "\<exists>t. jtagRead addr n s = Some (Inr (take (unat n) (concat pages)), t) \<and> avail (rx t) = rest \<and>
     tx t = tx s @ page_requests (command_sequence s) (2 ^ k) (unat addr) (length pages)"
proof -
  define P where "P = unat addr div 2 ^ k * 2 ^ k"
  have k: "k \<le> 16" and a: "unat addr < 2 ^ 30" using assms(1) by (simp_all add: flash_access_def)
  have p2: "(2 :: nat) ^ k \<le> 2 ^ 16" "0 < (2 :: nat) ^ k"
    using power_increasing [OF k, of "2 :: nat"] by simp_all
  have "P \<le> unat addr" by (simp add: P_def)
  then have P: "P + 2 ^ k * length pages < 2 ^ 31"
    using a assms(4,8) p2 by (simp del: One_nat_def)
  have "flashCachePageAddr s \<noteq> of_nat P"
    using assms(9) by (simp add: page_of_def P_def)
  with read_pages_aligned [OF p2(2,1) assms(5,6,7,8) _ _ P _ assms(10,11), of 0 "map (fresh s) [0..<unat n]"]
  obtain t where t: "read_pages MTYPE_FLASH_PAGE Flash_Page_Cache (of_nat (2 ^ k)) (of_nat P) (of_nat 0)
      (of_nat (unat n)) (of_nat (min (2 ^ k) (unat n))) (of_nat 0) (map (fresh s) [0..<unat n]) s =
      Some (Inr (take (unat n) (concat pages)), t)" "avail (rx t) = rest"
      "tx t = tx s @ page_requests (command_sequence s) (2 ^ k) P (length pages)"
    using assms(4) by auto
  have "P = unat addr"
    using assms(2) div_mult_mod_eq [of "unat addr" "2 ^ k"] by (simp add: P_def in_page_def)
  have "jtagRead addr n s = Some (Inr (take (unat n) (concat pages)), t)"
    by (rule jtagRead_flash_pages [OF assms(1,3)])
      (use t assms(2,4) in \<open>simp_all add: page_of_def P_def min.commute\<close>)
  with t(2,3) \<open>P = unat addr\<close> show ?thesis by auto
qed

lemma jtagRead_crosses:
  assumes "flash_access k addr s" "n \<noteq> 0" "2 ^ k \<le> length (flashCache s)"
    and "2 ^ k < in_page k addr + unat n" "in_page k addr + unat n \<le> 2 * 2 ^ k"
    and "in_page k addr + (in_page k addr + unat n - 2 ^ k) \<le> length (flashCache s)"
    and "length page1 = 2 ^ k" "length page2 = 2 ^ k"
    and "flashCachePageAddr s \<noteq> page_of k addr" "wq s = []"
    and "avail (rx s) = page_answers (command_sequence s) [page1, page2] @ rest"
  shows "\<exists>t. jtagRead addr n s = Some (Inr (drop (in_page k addr) page1 @
      take (in_page k addr + unat n - 2 ^ k)
        (drop (in_page k addr) (page2 @ drop (2 ^ k) (flashCache s)))), t)"
proof -
  define P where "P = unat addr div 2 ^ k * 2 ^ k"
  define off where "off = in_page k addr"
  define c where "c = 2 ^ k - off"
  have k: "k \<le> 16" and a: "unat addr < 2 ^ 30" using assms(1) by (simp_all add: flash_access_def)
  have p2: "(2 :: nat) ^ k \<le> 2 ^ 16" "0 < (2 :: nat) ^ k"
    using power_increasing [OF k, of "2 :: nat"] by simp_all
  have "P \<le> unat addr" by (simp add: P_def)
  have "P < 2 ^ 32" using \<open>P \<le> unat addr\<close> a by simp
  have off: "off < 2 ^ k" by (simp add: off_def in_page_def)
  have n: "unat n \<le> 2 * 2 ^ 16" using assms(5) p2 by linarith
  have c: "0 < c" "c < unat n" "unat n - c \<le> 2 ^ k"
    using off assms(4,5) unfolding c_def off_def [symmetric] by simp_all
  have P: "flashCachePageAddr s \<noteq> of_nat P"
    using assms(9) by (simp add: page_of_def P_def)
  define resp0 where "resp0 = map (fresh s) [0..<unat n]"
  have l0: "length resp0 = unat n" by (simp add: resp0_def)
  from read_pages_round [of c "unat n" 0 resp0 "2 ^ k" off s page1 P "page_answers (next_seq (command_sequence s)) [page2] @ rest"]
  obtain t where t: "read_pages MTYPE_FLASH_PAGE Flash_Page_Cache (of_nat (2 ^ k)) (of_nat P) (of_nat off) (of_nat (unat n))
         (of_nat c) (of_nat 0) resp0 s =
       read_pages MTYPE_FLASH_PAGE Flash_Page_Cache (of_nat (2 ^ k)) (of_nat (P + 2 ^ k)) (of_nat off)
         (of_nat (unat n - c)) (of_nat (unat n - c)) (of_nat c)
         (drop off page1 @ drop c resp0) t"
     "wq t = []" "avail (rx t) = frame (command_sequence t) (RSP_MEMORY # page2) @ rest"
     "flashCache t = page1 @ drop (2 ^ k) (flashCache s)" "flashCachePageAddr t = of_nat P"
    using c n p2 off P \<open>P < 2 ^ 32\<close> assms(3,7,10,11) l0 unfolding c_def by (auto simp: min_absorb2)
  have "P + 2 ^ k < 2 ^ 32"
    using \<open>P \<le> unat addr\<close> a p2(1) by simp
  then have lt: "P + 2 ^ k < 2 ^ 32" "P < 2 ^ 32" by simp_all
  from u32_nat [OF lt(1)] u32_nat [OF lt(2)] have ne: "(of_nat (P + 2 ^ k) :: u32) \<noteq> of_nat P"
    using p2 by (metis add_cancel_right_right less_irrefl)
  have len: "length (drop off page1 @ drop c resp0) = c + (unat n - c)"
    using l0 assms(7) c off by (simp add: c_def)
  have rem: "off + (unat n - c) = off + (off + unat n - 2 ^ k)"
    using c off by (simp add: c_def)
  have tc: "length (flashCache t) = length (flashCache s)"
    using t(4) assms(3,7) by simp
  have q: "0 < unat n - c" "unat n - c \<le> unat n - c" "c + (unat n - c) < 2 ^ 30"
      "off + (unat n - c) \<le> length (flashCache t)" "2 ^ k \<le> length (flashCache t)"
      "flashCachePageAddr t \<noteq> of_nat (P + 2 ^ k)" "off < 2 ^ 30"
    using c n off p2 assms(3,6) rem ne t(5) unfolding tc off_def [symmetric] by simp_all
  from read_pages_round [OF q(1-3) len p2(1) q(4,5) assms(8) q(6) t(2,3) q(7) lt(1)]
  obtain u where u: "read_pages MTYPE_FLASH_PAGE Flash_Page_Cache (of_nat (2 ^ k)) (of_nat (P + 2 ^ k)) (of_nat off)
         (of_nat (unat n - c)) (of_nat (unat n - c)) (of_nat c) (drop off page1 @ drop c resp0) t =
       read_pages MTYPE_FLASH_PAGE Flash_Page_Cache (of_nat (2 ^ k)) (of_nat (P + 2 ^ k + 2 ^ k)) (of_nat off)
         (of_nat (unat n - c - (unat n - c))) (of_nat (min (2 ^ k) (unat n - c - (unat n - c)))) (of_nat (c + (unat n - c)))
         (take c (drop off page1 @ drop c resp0) @ take (unat n - c) (drop off (page2 @ drop (2 ^ k) (flashCache t))) @
           drop (c + (unat n - c)) (drop off page1 @ drop c resp0)) u"
    by blast
  have "take c (drop off page1 @ drop c resp0) = drop off page1"
    using assms(7) by (simp add: c_def)
  moreover have "drop (c + (unat n - c)) (drop off page1 @ drop c resp0) = []"
    using len by simp
  moreover have "drop (2 ^ k) (flashCache t) = drop (2 ^ k) (flashCache s)"
    using t(4) assms(7) by simp
  moreover have "unat n - c = off + unat n - 2 ^ k"
    using rem by simp
  ultimately have "read_pages MTYPE_FLASH_PAGE Flash_Page_Cache (of_nat (2 ^ k)) (of_nat P) (of_nat off) (of_nat (unat n))
         (of_nat c) (of_nat 0) resp0 s =
       Some (Inr (drop off page1 @ take (off + unat n - 2 ^ k) (drop off (page2 @ drop (2 ^ k) (flashCache s)))), u)"
    unfolding t(1) u by (simp add: read_pages.simps [where numBytes = 0])
  moreover have "min (unat n) c = c" using c by simp
  ultimately have "jtagRead addr n s = Some (Inr (drop off page1 @ take (off + unat n - 2 ^ k)
      (drop off (page2 @ drop (2 ^ k) (flashCache s)))), u)"
    using n by (intro jtagRead_flash_pages [OF assms(1,2)])
      (simp_all add: page_of_def P_def [symmetric] off_def [symmetric] c_def [symmetric] resp0_def)
  then show ?thesis
    unfolding off_def by blast
qed

section \<open>Programming mode is restored\<close>

lemma mode_comm_closed: "comm_closed (\<lambda>s. programmingEnabled s = b \<and> useDebugWire s = d)"
  by (simp add: comm_closed_def)

lemma doSimple_mode:
  assumes "doSimpleJtagCommand c s = Some (r, t)"
  shows "programmingEnabled t = programmingEnabled s" "useDebugWire t = useDebugWire s"
  using preservesD [OF comm_preserves_doSimple [OF mode_comm_closed] assms] by blast+

lemma enableProgramming_result:
  assumes "enableProgramming s = Some (Inr (), t)"
  shows "useDebugWire t = useDebugWire s" "programmingEnabled t = (if useDebugWire s then programmingEnabled s else True)"
  using assms
  by (auto simp: enableProgramming_def io_then_def io_bind_def io_get_def io_put_def io_ret_def
      split: if_splits dest: doSimple_mode)

lemma disableProgramming_result:
  assumes "disableProgramming s = Some (Inr (), t)"
  shows "programmingEnabled t = (if useDebugWire s then programmingEnabled s else False)"
  using assms
  by (auto simp: disableProgramming_def io_then_def io_bind_def io_get_def io_put_def io_ret_def
      split: if_splits dest: doSimple_mode)

lemma cache_fill_mode [simp]:
  "programmingEnabled (cache_fill c e a s) = programmingEnabled s" "useDebugWire (cache_fill c e a s) = useDebugWire s"
  by (cases c; simp)+

lemma mode_closed:
  "comm_closed (\<lambda>s. programmingEnabled s = b \<and> useDebugWire s = d)"
  "fill_closed (\<lambda>s. programmingEnabled s = b \<and> useDebugWire s = d)"
  by (rule mode_comm_closed) (simp add: fill_closed_def)

text \<open>Leaving what was entered: the pattern \<open>needProgmode && !wasProgmode\<close> around a body that keeps
  the mode.\<close>

lemma prog_bracket:
  assumes "io_bind (io_get programmingEnabled) (\<lambda>was.
       io_then (if need \<and> \<not> was then enableProgramming else io_ret ())
      (io_bind body (\<lambda>x. io_then (if need \<and> \<not> was then disableProgramming else io_ret ()) (io_ret (f x))))) s =
     Some (Inr r, t)"
    and "\<And>b d. preserves (\<lambda>s. programmingEnabled s = b \<and> useDebugWire s = d) body"
  shows "programmingEnabled t = programmingEnabled s"
proof (cases "need \<and> \<not> programmingEnabled s")
  case False
  with assms(1) obtain x where "body s = Some (Inr x, t)"
    by (auto simp: io_then_def io_bind_def io_get_def io_ret_def split: option.splits sum.splits)
  then show ?thesis
    using preservesD [OF assms(2), of s _ t "programmingEnabled s" "useDebugWire s"] by simp
next
  case True
  with assms(1) obtain u x v where u: "enableProgramming s = Some (Inr (), u)" and v: "body u = Some (Inr x, v)"
    and t: "disableProgramming v = Some (Inr (), t)"
    by (auto simp: io_then_def io_bind_def io_get_def io_ret_def split: option.splits sum.splits)
  have "programmingEnabled v = programmingEnabled u" "useDebugWire v = useDebugWire u"
    using preservesD [OF assms(2) v, of "programmingEnabled u" "useDebugWire u"] by simp_all
  with True show ?thesis
    using enableProgramming_result [OF u] disableProgramming_result [OF t] by simp
qed

lemma jtagRead_mode:
  assumes "jtagRead addr n s = Some (Inr bs, t)"
  shows "programmingEnabled t = programmingEnabled s"
proof (cases "n = 0")
  case True
  with assms show ?thesis by (simp add: jtagRead_def io_simps)
next
  case False
  obtain w a where wa: "memorySpace addr s = (w, a)" by (cases "memorySpace addr s")
  define body :: "('a jtag2_scheme, u8 list) io" where "body = (if w = MTYPE_SPM then
             read_plain w (a AND NOT 1) ((n + 1) AND NOT 1) (unat (a AND 1))
           else if w = MTYPE_FLASH_PAGE then
             io_bind (io_get p_device_def) (\<lambda>d. io_bind (io_defined d) (\<lambda>dev.
             if flash_page_size dev > 0
             then read_paged w Flash_Page_Cache (flash_page_size dev) a n
             else read_plain w a n 0))
           else if w = MTYPE_EEPROM_PAGE then
             io_bind (io_get p_device_def) (\<lambda>d. io_bind (io_defined d) (\<lambda>dev.
             if eeprom_page_size dev > 0
             then read_paged w Eeprom_Page_Cache (ucast (eeprom_page_size dev)) a n
             else read_plain w a n 0))
           else read_plain w a n 0)"
  have pres: "preserves (\<lambda>s. programmingEnabled s = b \<and> useDebugWire s = d) body" for b d
    unfolding body_def read_paged_def read_plain_def
    by (intro preserve preserves_read_pages mode_closed)
  have run: "io_bind (io_get programmingEnabled) (\<lambda>was.
       io_then (if MTYPE_FLASH_PAGE \<le> w \<and> \<not> was then enableProgramming else io_ret ())
      (io_bind body (\<lambda>x. io_then (if MTYPE_FLASH_PAGE \<le> w \<and> \<not> was then disableProgramming else io_ret ())
        (io_ret x)))) s = Some (Inr bs, t)"
    using assms unfolding jtagRead_def body_def Let_def
    by (simp only: False if_False io_bind_apply [of "io_get (memorySpace addr)"] io_get_apply wa
        option.case sum.case prod.case)
  show ?thesis
    by (rule prog_bracket [OF run pres])
qed

lemma and_not_or:
  fixes a b m :: "'a::len word"
  assumes "a AND NOT m = 0" "b AND m = 0"
  shows "(a OR b) AND NOT m = b"
proof (rule bit_eqI)
  fix i
  have "bit (a AND NOT m) i = bit (0 :: 'a word) i" "bit (b AND m) i = bit (0 :: 'a word) i"
    by (simp_all only: assms)
  then show "bit ((a OR b) AND NOT m) i = bit b i"
    by (auto simp: bit_simps dest: bit_imp_le_length)
qed

lemma jtagRead_stale:
  assumes "jtagWrite waddr m buf s = Some (Inr True, t)" "flash_access k addr t"
    and "n \<noteq> 0" "in_page k addr + unat n \<le> 2 ^ k" "2 ^ k \<le> length (flashCache s)"
    and "flashCachePageAddr s = page_of k addr"
  shows "jtagRead addr n t = Some (Inr (take (unat n) (drop (in_page k addr) (flashCache s))), t)"
proof -
  have "preserves (\<lambda>u. flashCache u = flashCache s \<and> flashCachePageAddr u = flashCachePageAddr s)
      (jtagWrite waddr m buf)"
    by (rule preserves_jtagWrite) (simp_all add: comm_closed_def)
  from preservesD [OF this assms(1)] have "flashCache t = flashCache s" "flashCachePageAddr t = flashCachePageAddr s"
    by simp_all
  then show ?thesis
    using jtagRead_hit [OF assms(2,3,4)] assms(5,6) by simp
qed

section \<open>Properties\<close>

text \<open>The address spaces. The low 16 bits of an address in the data, EEPROM, fuse, lock or
  signature space are the address on the chip; an address without the data bit is a code address
  and is passed on unchanged, however large.\<close>

lemma memorySpace_classifies:
  "memorySpace (DATA_SPACE_ADDR_OFFSET OR ucast (x :: u16)) s = (MTYPE_SRAM, ucast x) \<and>
   memorySpace (EEPROM_SPACE_ADDR_OFFSET OR ucast x) s =
     (if \<not> useDebugWire s \<and> programmingEnabled s then MTYPE_EEPROM_PAGE else MTYPE_EEPROM, ucast x) \<and>
   memorySpace (FUSE_SPACE_ADDR_OFFSET OR ucast x) s = (MTYPE_FUSE_BITS, ucast x) \<and>
   memorySpace (LOCK_SPACE_ADDR_OFFSET OR ucast x) s = (MTYPE_LOCK_BITS, ucast x) \<and>
   memorySpace (SIG_SPACE_ADDR_OFFSET OR ucast x) s = (MTYPE_SIGN_JTAG, ucast x) \<and>
   memorySpace (code AND NOT DATA_SPACE_ADDR_OFFSET) s =
     (if useDebugWire s \<or> programmingEnabled s then MTYPE_FLASH_PAGE else MTYPE_SPM,
      code AND NOT DATA_SPACE_ADDR_OFFSET)"
proof -
  have low: "ucast x AND (m :: u64) = 0" if "take_bit 16 m = 0" for m
  proof (rule bit_eqI)
    fix i
    have "bit (take_bit 16 m) i = bit (0 :: u64) i" using that by simp
    then show "bit (ucast x AND m) i = bit (0 :: u64) i"
      by (auto simp: bit_simps dest: bit_imp_le_length)
  qed
  have m1: "(base OR ucast x) AND 0x800000 = base AND (0x800000 :: u64)" for base
    using low [where m = "0x800000"] by (simp add: bit.conj_disj_distrib2)
  have m2: "(base OR ucast x) AND 0x970000 = base AND (0x970000 :: u64)" for base
    using low [where m = "0x970000"] by (simp add: bit.conj_disj_distrib2)
  have m3: "(base OR ucast x) AND NOT 0x970000 = ucast x" if "base AND NOT 0x970000 = (0 :: u64)" for base
    using and_not_or [OF that, of "ucast x"] low [where m = "0x970000"] by simp
  have code: "(code AND NOT 0x800000) AND 0x800000 = (0 :: u64)"
    by (simp add: ac_simps)
  have "memorySpace (code AND NOT DATA_SPACE_ADDR_OFFSET) s =
     (if useDebugWire s \<or> programmingEnabled s then MTYPE_FLASH_PAGE else MTYPE_SPM,
      code AND NOT DATA_SPACE_ADDR_OFFSET)"
    by (rule memorySpace_code) (use code in \<open>simp only: DATA_SPACE_ADDR_OFFSET_def\<close>)
  moreover have mask: "ADDR_SPACE_MASK = 0x970000"
    by (simp add: code_defs)
  have sp: "memorySpace (base OR ucast x) s =
      (if base = EEPROM_SPACE_ADDR_OFFSET then
         (if \<not> useDebugWire s \<and> programmingEnabled s then MTYPE_EEPROM_PAGE else MTYPE_EEPROM)
       else if base = FUSE_SPACE_ADDR_OFFSET then MTYPE_FUSE_BITS
       else if base = LOCK_SPACE_ADDR_OFFSET then MTYPE_LOCK_BITS
       else if base = SIG_SPACE_ADDR_OFFSET then MTYPE_SIGN_JTAG
       else if base = BREAKPOINT_SPACE_ADDR_OFFSET then MTYPE_EVENT
       else if base = DATA_SPACE_ADDR_OFFSET then MTYPE_SRAM
       else if useDebugWire s \<or> programmingEnabled s then MTYPE_FLASH_PAGE
       else MTYPE_SPM, ucast x)"
    if "base AND 0x800000 \<noteq> 0" "base AND 0x970000 = base" "base AND NOT 0x970000 = 0" for base
    unfolding memorySpace_def mask DATA_SPACE_ADDR_OFFSET_def m1 m2 m3 [OF that(3)]
    using that(1,2) by (simp only: Let_def if_True prod.case simp_thms)
  ultimately show ?thesis
    by (intro conjI) (subst sp, simp_all add: code_defs)
qed

text \<open>C11: in programming mode, a flash read that starts on a page boundary and whose first page is not the cached one
  sends one request for each page it covers, with the address and the size of the page, in ascending order and
  numbered in turn; it returns exactly the bytes the box answers for these pages, and consumes nothing behind
  the answers.\<close>

theorem jtagRead_reads_pages:
  assumes "flash_access k addr s" "in_page k addr = 0" "n \<noteq> 0" "unat n < 2 ^ 29" "2 ^ k \<le> length (flashCache s)"
    and "\<forall>page \<in> set pages. length page = 2 ^ k"
    and "unat n \<le> 2 ^ k * length pages" "2 ^ k * length pages < unat n + 2 ^ k"
    and "flashCachePageAddr s \<noteq> page_of k addr" "wq s = []"
    and "avail (rx s) = page_answers (command_sequence s) pages @ rest"
  shows "\<exists>t. jtagRead addr n s = Some (Inr (take (unat n) (concat pages)), t) \<and> avail (rx t) = rest \<and>
     tx t = tx s @ page_requests (command_sequence s) (2 ^ k) (unat addr) (length pages)"
  by (rule jtagRead_pages [OF assms])


text \<open>\<open>jtagRead\<close> enters programming mode when the memory type needs it, and a normal return
  leaves the mode as it was.\<close>

lemma jtagRead_restores_mode:
  assumes "jtagRead addr n s = Some (Inr bs, t)"
  shows "programmingEnabled t = programmingEnabled s"
  by (rule jtagRead_mode [OF assms])

text \<open>C13: \<open>jtagWrite\<close> does not touch the page cache. After a successful write into the cached flash
  page, reading that page returns the bytes from before the write.\<close>

theorem jtagRead_stale_after_write:
  assumes "jtagWrite waddr m buf s = Some (Inr True, t)" "flash_access k addr t"
    and "n \<noteq> 0" "in_page k addr + unat n \<le> 2 ^ k" "2 ^ k \<le> length (flashCache s)"
    and "flashCachePageAddr s = page_of k addr"
  shows "jtagRead addr n t = Some (Inr (take (unat n) (drop (in_page k addr) (flashCache s))), t)"
  by (rule jtagRead_stale [OF assms])

section \<open>Examples\<close>

text \<open>An ATmega16 (128-byte pages) in programming mode; the box will answer with \<open>answers\<close>.\<close>

definition flash_box :: "u8 list \<Rightarrow> jtag2" where
  "flash_box answers = (quiet_box [Chunk answers])
     \<lparr>programmingEnabled := True, p_device_def := Some dev_atmega16\<rparr>"

lemma flash_box_simps [simp]:
  "wq (flash_box a) = []" "command_sequence (flash_box a) = 0" "rx (flash_box a) = [Chunk a]"
  "flashCachePageAddr (flash_box a) = 0xffffffff" "length (flashCache (flash_box a)) = 256"
  "flashCache (flash_box a) = replicate 256 0"
  by (simp_all add: flash_box_def quiet_box_def jtag2_new_def jtag.extend_def jtag2.fields_def code_defs map_replicate_const)

lemma flash_box_access: "unat addr < 2 ^ 20 \<Longrightarrow> addr AND 0x800000 = 0 \<Longrightarrow> flash_access 7 addr (flash_box a)"
  by (simp add: flash_access_def flash_box_def dev_atmega16_def code_defs)

lemma two_pages: "take (unat (130 :: u32)) (concat [replicate 128 7, replicate 128 8]) = replicate 128 (7 :: u8) @ [8, 8]"
proof -
  have "unat (130 :: u32) = 130" by simp
  then show ?thesis
    by (simp only: concat.simps take_append length_replicate take_replicate append_Nil2) (simp add: numeral_2_eq_2)
qed

lemma flash_box_pages: "page_of 7 0x100 = 0x100" "in_page 7 0x100 = 0"
  by (simp_all add: page_of_def in_page_def)

lemma next_seq_0: "next_seq 0 = 1"
  by (simp add: next_seq_def)

lemma flash_box_read:
  "\<exists>t. jtagRead 0x100 130 (flash_box (page_answers 0 [replicate 128 7, replicate 128 8])) =
     Some (Inr (take (unat (130 :: u32)) (concat [replicate 128 7, replicate 128 8])), t) \<and> avail (rx t) = [] \<and>
     tx t = tx (flash_box (page_answers 0 [replicate 128 7, replicate 128 8])) @
       page_requests (command_sequence (flash_box (page_answers 0 [replicate 128 7, replicate 128 8]))) (2 ^ 7) (unat (0x100 :: u64))
         (length [replicate 128 7 :: u8 list, replicate 128 8])"
  by (intro jtagRead_pages [where k = 7] flash_box_access) (simp_all add: flash_box_pages frame_nonempty)

lemma jtagRead_reads_pages_witness:
  "\<exists>t. jtagRead 0x100 130 (flash_box (page_answers 0 [replicate 128 7, replicate 128 8])) =
     Some (Inr (replicate 128 7 @ [8, 8]), t) \<and> avail (rx t) = [] \<and>
     tx t = frame 0 (page_request 128 0x100) @ frame 1 (page_request 128 0x180)"
proof -
  let ?s = "flash_box (page_answers 0 [replicate 128 7, replicate 128 8])"
  have "page_requests 0 128 0x100 2 = frame 0 (page_request 128 0x100) @ frame 1 (page_request 128 0x180)"
    using next_seq_0 by (simp add: numeral_2_eq_2)
  moreover have "\<exists>t. jtagRead 0x100 130 ?s =
     Some (Inr (take (unat (130 :: u32)) (concat [replicate 128 7, replicate 128 8])), t) \<and> avail (rx t) = [] \<and>
     tx t = tx ?s @ page_requests (command_sequence ?s) (2 ^ 7) (unat (0x100 :: u64)) (length [replicate 128 7 :: u8 list, replicate 128 8])"
    by (intro jtagRead_reads_pages [where k = 7] flash_box_access) (simp_all add: flash_box_pages frame_nonempty)
  moreover have "tx ?s = []"
    by (simp add: flash_box_def quiet_box_def jtag2_new_def jtag.extend_def)
  moreover have "replicate 2 (8 :: u8) = [8, 8]"
    by (simp add: numeral_2_eq_2)
  ultimately show ?thesis
    by (simp add: two_pages next_seq_0)
qed

lemma jtagRead_restores_mode_witness:
  "\<exists>bs t. jtagRead 0x100 130 (flash_box (page_answers 0 [replicate 128 7, replicate 128 8])) = Some (Inr bs, t) \<and>
     programmingEnabled t"
proof -
  obtain bs t where "jtagRead 0x100 130 (flash_box (page_answers 0 [replicate 128 7, replicate 128 8])) = Some (Inr bs, t)"
    using flash_box_read by blast
  with jtagRead_restores_mode [OF this] show ?thesis
    by (auto simp: flash_box_def)
qed


text \<open>The cache holds page 0 (zeros); the box acknowledges a write of that page.\<close>

lemma jtagRead_stale_after_write_witness:
  "\<exists>(s :: jtag2) t. jtagWrite 0 128 (replicate 128 0xAA) s = Some (Inr True, t) \<and> jtagRead 0 1 t = Some (Inr [0], t)"
proof -
  define s where "s = (flash_box (frame 0 [RSP_OK]))\<lparr>flashCachePageAddr := 0\<rparr>"
  define cmd where "cmd = [CMND_WRITE_MEMORY, MTYPE_FLASH_PAGE] @ u32_to_b4 128 @ u32_to_b4 0 @ replicate 128 0xAA"
  obtain msg t where t: "doJtagCommand cmd True s = Some (Inr (True, Some msg, 1), t)"
      "line_only (s\<lparr>wq := [], tx := tx s @ frame (command_sequence s) cmd,
         command_sequence := next_seq (command_sequence s)\<rparr>) t"
    using doJtagCommand_answer [of s "[RSP_OK]" "[]" "[]" cmd True]
    by (auto simp: s_def code_defs frame_nonempty)
  have "jtagWrite 0 128 (replicate 128 0xAA) s = Some (Inr True, t)"
    using t(1) by (simp add: jtagWrite_def memorySpace_def s_def [symmetric] io_simps load_many_def cmd_def code_defs)
      (simp add: s_def flash_box_def dev_atmega16_def io_simps)
  moreover have "p_device_def t = Some dev_atmega16" "programmingEnabled t"
    using t(2) by (auto simp: line_only_def s_def flash_box_def)
  then have "flash_access 7 0 t"
    by (simp add: flash_access_def dev_atmega16_def)
  moreover have "flashCachePageAddr s = page_of 7 0" "in_page 7 0 = 0" "flashCache s = replicate 256 0"
    by (simp_all add: s_def page_of_def in_page_def)
  ultimately have "jtagRead 0 1 t = Some (Inr (take (unat (1 :: u32)) (drop (in_page 7 0) (flashCache s))), t)"
    by (intro jtagRead_stale_after_write) simp_all
  then show ?thesis
    using \<open>jtagWrite 0 128 (replicate 128 0xAA) s = Some (Inr True, t)\<close> \<open>flashCache s = replicate 256 0\<close> \<open>in_page 7 0 = 0\<close>
    by (intro exI [of _ s] exI [of _ t]) (simp add: replicate_eq_replicate eval_nat_numeral)
qed

end
