(* ===== verification/Breakpoint_Contract.thy ===== *)
theory Breakpoint_Contract
  imports Prelude "HOL-Library.Monad_Syntax"
begin

text \<open>
  What the debugger relies on in the breakpoint table of a target (\<open>addBreakpoint\<close>,
  \<open>deleteBreakpoint\<close>, \<open>codeBreakpointAt\<close> of \<^verbatim>\<open>src/src/jtag.h\<close>), for code breakpoints. Two drivers
  provide it: the mkI table keeps a list of words addresses in which an address may occur several
  times, the mkII table keeps each address once. \<open>key\<close> is the granularity of the addresses.
\<close>

datatype bp_request = Insert_BP u32 | Remove_BP u32

fun bp_run :: "(u32 \<Rightarrow> 't \<Rightarrow> (bool \<times> 't) option) \<Rightarrow> (u32 \<Rightarrow> 't \<Rightarrow> (bool \<times> 't) option) \<Rightarrow>
    bp_request list \<Rightarrow> 't \<Rightarrow> (bool list \<times> 't) option" where
  "bp_run add del [] t = Some ([], t)"
| "bp_run add del (r # rs) t = do {
     (ok, t) \<leftarrow> (case r of Insert_BP a \<Rightarrow> add a t | Remove_BP a \<Rightarrow> del a t);
     (oks, t) \<leftarrow> bp_run add del rs t;
     Some (ok # oks, t) }"

locale code_breakpoints =
  fixes inv :: "'t \<Rightarrow> bool"
    and at :: "u32 \<Rightarrow> 't \<Rightarrow> bool option"
    and add :: "u32 \<Rightarrow> 't \<Rightarrow> (bool \<times> 't) option"
    and del :: "u32 \<Rightarrow> 't \<Rightarrow> (bool \<times> 't) option"
    and key :: "u32 \<Rightarrow> u32"
  assumes at_defined: "inv t \<Longrightarrow> \<exists>r. at b t = Some r"
    and add_defined: "inv t \<Longrightarrow> \<exists>r u. add a t = Some (r, u) \<and> inv u"
    and del_defined: "inv t \<Longrightarrow> \<exists>r u. del a t = Some (r, u) \<and> inv u"
    and add_at: "inv t \<Longrightarrow> add a t = Some (r, u) \<Longrightarrow> at b u = Some ((r \<and> key b = key a) \<or> at b t = Some True)"
    and del_at: "inv t \<Longrightarrow> del a t = Some (r, u) \<Longrightarrow> \<not> r \<or> key b \<noteq> key a \<Longrightarrow> at b u = at b t"
    and del_refused: "inv t \<Longrightarrow> del a t = Some (False, u) \<Longrightarrow> at a t \<noteq> Some True"
    and del_sub: "inv t \<Longrightarrow> del a t = Some (r, u) \<Longrightarrow> at b u = Some True \<Longrightarrow> at b t = Some True"
begin

text \<open>Any sequence of requests is processed, and the table reports only what was there or was
  accepted; an accepted breakpoint that nobody removes stays.\<close>

lemma run_defined: "inv t \<Longrightarrow> \<exists>oks u. bp_run add del rs t = Some (oks, u) \<and> inv u \<and> length oks = length rs"
proof (induction rs arbitrary: t)
  case (Cons r rs)
  obtain ok v where v: "(case r of Insert_BP a \<Rightarrow> add a t | Remove_BP a \<Rightarrow> del a t) = Some (ok, v)" "inv v"
    using add_defined [OF Cons.prems] del_defined [OF Cons.prems] by (cases r; simp) blast+
  from Cons.IH [OF v(2)] v(1) show ?case by auto
qed auto

lemma run_keeps:
  assumes "inv t" "bp_run add del rs t = Some (oks, u)" "at b t = Some True"
    and "\<forall>a. Remove_BP a \<in> set rs \<longrightarrow> key a \<noteq> key b"
  shows "at b u = Some True"
  using assms
proof (induction rs arbitrary: t oks)
  case (Cons r rs)
  from Cons.prems(2) obtain ok v oks' where
    v: "(case r of Insert_BP a \<Rightarrow> add a t | Remove_BP a \<Rightarrow> del a t) = Some (ok, v)" "bp_run add del rs v = Some (oks', u)"
    by (auto simp: Option.bind_eq_Some_conv)
  have "at b v = Some True"
  proof (cases r)
    case (Insert_BP a)
    then have "add a t = Some (ok, v)" using v(1) by simp
    from add_at [OF Cons.prems(1) this, of b] Cons.prems(3) show ?thesis by simp
  next
    case (Remove_BP a)
    then have d: "del a t = Some (ok, v)" "key b \<noteq> key a" using v(1) Cons.prems(4) by auto
    from del_at [OF Cons.prems(1) d(1), of b] d(2) Cons.prems(3) show ?thesis by simp
  qed
  moreover have "inv v"
    using v(1) add_defined [OF Cons.prems(1)] del_defined [OF Cons.prems(1)]
    by (cases r) (metis bp_request.case option.inject prod.inject)+
  ultimately show ?case
    using Cons.IH [OF _ v(2)] Cons.prems(4) by auto
qed simp

lemma run_reported:
  assumes "inv t" "bp_run add del rs t = Some (oks, u)" "at b u = Some True" "at b t \<noteq> Some True"
  shows "\<exists>(r, ok) \<in> set (zip rs oks). ok \<and> (\<exists>a. r = Insert_BP a \<and> key a = key b)"
  using assms
proof (induction rs arbitrary: t oks)
  case (Cons r rs)
  from Cons.prems(2) obtain ok v oks' where
    v: "(case r of Insert_BP a \<Rightarrow> add a t | Remove_BP a \<Rightarrow> del a t) = Some (ok, v)" "bp_run add del rs v = Some (oks', u)"
    and oks: "oks = ok # oks'"
    by (auto simp: Option.bind_eq_Some_conv)
  have inv: "inv v"
    using v(1) add_defined [OF Cons.prems(1)] del_defined [OF Cons.prems(1)]
    by (cases r) (metis bp_request.case option.inject prod.inject)+
  show ?case
  proof (cases "at b v = Some True")
    case False
    from Cons.IH [OF inv v(2) Cons.prems(3) False] show ?thesis
      by (auto simp: oks)
  next
    case True
    show ?thesis
    proof (cases r)
      case (Insert_BP a)
      then have "add a t = Some (ok, v)" using v(1) by simp
      from add_at [OF Cons.prems(1) this, of b] True Cons.prems(4) Insert_BP show ?thesis
        by (auto simp: oks)
    next
      case (Remove_BP a)
      then show ?thesis
        using del_sub [OF Cons.prems(1) _ True] v(1) Cons.prems(4) by auto
    qed
  qed
qed simp

lemma add_then_at:
  assumes "inv t" "add a t = Some (True, v)" "bp_run add del rs v = Some (oks, u)"
    and "\<forall>c. Remove_BP c \<in> set rs \<longrightarrow> key c \<noteq> key a"
  shows "at a u = Some True"
proof -
  have "inv v"
    using add_defined [OF assms(1), of a] assms(2) by auto
  moreover have "at a v = Some True"
    using add_at [OF assms(1,2), of a] by simp
  ultimately show ?thesis
    using run_keeps assms(3,4) by metis
qed

end

text \<open>A table in which an address occurs once: deleting it removes it.\<close>

locale code_breakpoint_set = code_breakpoints +
  assumes del_gone: "inv t \<Longrightarrow> del a t = Some (True, u) \<Longrightarrow> key b = key a \<Longrightarrow> at b u = Some False"
begin

lemma del_exact:
  assumes "inv t" "del a t = Some (r, u)" "key b = key a \<longrightarrow> b = a"
  shows "at b u = Some (b \<noteq> a \<and> at b t = Some True)"
proof (cases "b = a")
  case True
  obtain x where x: "at a t = Some x"
    using at_defined [OF assms(1)] by blast
  then show ?thesis
    using True assms(1,2) del_gone [of t a u a] del_refused [of t a u] del_at [of t a r u a] by (cases r) auto
next
  case False
  then have "at b u = at b t"
    using del_at [OF assms(1,2), of b] assms(3) by simp
  then show ?thesis
    using False at_defined [OF assms(1), of b] by auto
qed

end

end
