(* ===== verification/Mk2_Breakpoints.thy ===== *)
theory Mk2_Breakpoints
  imports Mk2_Memory Breakpoint_Contract
begin

text \<open>
  The breakpoint table of the mkII driver, \<^verbatim>\<open>src/src/jtag2bp.cc\<close>. The table is an array of 32
  entries of which those before the first entry marked \<open>last\<close> are in use. The operations are
  functions of the table; \<open>None\<close> is an access outside the array. Loops of the form
  \<open>while (!bp[i].last)\<close> run over the list of indices \<open>0 .. 31\<close>: index 32 is outside.
  \<open>flags\<close> are the \<open>device_flags\<close> of the global device description (\<open>None\<close> when there is none
  yet: a null pointer) and \<open>dw\<close> is \<open>useDebugWire\<close>.
\<close>

type_synonym bp_table = "breakpoint2 list"

section \<open>Queries\<close>

fun codeBreakpointAt :: "u32 \<Rightarrow> bp_table \<Rightarrow> bool option" where
  "codeBreakpointAt addr [] = None"
| "codeBreakpointAt addr (b # bs) =
     (if last_bp b then Some False
      else if address b = addr \<and> bp_type b = CODE \<and> enabled b then Some True
      else codeBreakpointAt addr bs)"

fun codeBreakpointBetween :: "u32 \<Rightarrow> u32 \<Rightarrow> bp_table \<Rightarrow> bool option" where
  "codeBreakpointBetween start finish [] = None"
| "codeBreakpointBetween start finish (b # bs) =
     (if last_bp b then Some False
      else if (start \<le> address b \<and> address b < finish) \<and> bp_type b = CODE \<and> enabled b then Some True
      else codeBreakpointBetween start finish bs)"

fun deleteAllBreakpoints :: "bp_table \<Rightarrow> bp_table option" where
  "deleteAllBreakpoints [] = None"
| "deleteAllBreakpoints (b # bs) =
     (if last_bp b then Some (b # bs)
      else map_option ((#) (b\<lparr>toremove := (if enabled b \<and> icestatus b then True else toremove b),
          enabled := False\<rparr>)) (deleteAllBreakpoints bs))"

section \<open>Assigning the slots of the ICE\<close>

definition bp_set :: "nat \<Rightarrow> (breakpoint2 \<Rightarrow> breakpoint2) \<Rightarrow> bp_table \<Rightarrow> bp_table option" where
  "bp_set i f tbl = do { b \<leftarrow> cell tbl i; store tbl i (f b) }"

definition disable :: "breakpoint2 \<Rightarrow> breakpoint2" where
  "disable b = b\<lparr>enabled := False, toadd := False\<rparr>"

definition is_data :: "bpType \<Rightarrow> bool" where
  "is_data t \<longleftrightarrow> t = READ_DATA \<or> t = (READ_DATA OR HAS_MASK) \<or> t = WRITE_DATA \<or>
     t = (WRITE_DATA OR HAS_MASK) \<or> t = ACCESS_DATA \<or> t = (ACCESS_DATA OR HAS_MASK)"

definition has_mask :: "bpType \<Rightarrow> bool" where
  "has_mask t \<longleftrightarrow> t AND HAS_MASK = HAS_MASK"

text \<open>\<open>remaining_bps\<close>, at first and with debugWIRE.\<close>

definition slots_initial :: "bool \<Rightarrow> bool list" where
  "slots_initial dw = (if dw then [False, False, False, False, False, False]
     else [False, True, True, True, False, False])"

fun mark_stable :: "bp_table \<Rightarrow> bool list \<Rightarrow> bool list option" where
  "mark_stable [] slots = None"
| "mark_stable (b # bs) slots =
     (if last_bp b then Some slots
      else if enabled b \<and> \<not> toremove b \<and> icestatus b
      then do { slots \<leftarrow> store slots (unat (bpnum b)) False; mark_stable bs slots }
      else mark_stable bs slots)"

text \<open>\<open>while (!remaining_bps[bpnum] && bpnum <= MAX_BREAKPOINTS2) bpnum++\<close>\<close>

function free_slot :: "bool list \<Rightarrow> nat \<Rightarrow> nat option" where
  "free_slot slots n = do {
     free \<leftarrow> cell slots n;
     if \<not> free \<and> n \<le> MAX_BREAKPOINTS2 then free_slot slots (Suc n) else Some n }"
  by pat_completeness auto

termination
  by (relation "measure (\<lambda>(slots, n). Suc MAX_BREAKPOINTS2 - n)") auto

declare free_slot.simps [simp del]

text \<open>The body of the loop over the data breakpoints.\<close>

datatype placing = Placed | Skipped | No_Room

definition place_data_at ::
  "nat \<Rightarrow> breakpoint2 \<Rightarrow> bool list \<Rightarrow> bp_table \<Rightarrow> (placing \<times> bool list \<times> bp_table) option" where
  "place_data_at i b slots tbl =
     (if enabled b \<and> toadd b \<and> is_data (bp_type b) then do {
        mask_free \<leftarrow> cell slots BREAKPOINT2_DATA_MASK;
        data_free \<leftarrow> cell slots BREAKPOINT2_FIRST_DATA;
        if has_mask (bp_type b) \<and> (\<not> mask_free \<or> \<not> data_free) then do {
          tbl \<leftarrow> bp_set (unat (mask_pointer b)) disable tbl;
          tbl \<leftarrow> bp_set i disable tbl;
          Some (Skipped, slots, tbl) }
        else do {
          (slots, tbl) \<leftarrow> (if has_mask (bp_type b) then do {
              slots \<leftarrow> store slots BREAKPOINT2_DATA_MASK False;
              tbl \<leftarrow> bp_set (unat (mask_pointer b)) (bpnum_update (\<lambda>_. of_nat BREAKPOINT2_DATA_MASK)) tbl;
              Some (slots, tbl) } else Some (slots, tbl));
          n \<leftarrow> free_slot slots BREAKPOINT2_FIRST_DATA;
          if n > MAX_BREAKPOINTS2 then Some (No_Room, slots, tbl)
          else do {
            tbl \<leftarrow> bp_set i (bpnum_update (\<lambda>_. of_nat n)) tbl;
            slots \<leftarrow> store slots n False;
            Some (Placed, slots, tbl) } } }
      else Some (Placed, slots, tbl))"

fun place_data :: "nat list \<Rightarrow> bool \<Rightarrow> bool list \<Rightarrow> bp_table \<Rightarrow> (bool \<times> bool list \<times> bp_table) option" where
  "place_data [] hadroom slots tbl = None"
| "place_data (i # is) hadroom slots tbl = do {
     b \<leftarrow> cell tbl i;
     if last_bp b then Some (hadroom, slots, tbl)
     else do {
       (p, slots, tbl) \<leftarrow> place_data_at i b slots tbl;
       (case p of
          Placed \<Rightarrow> place_data is hadroom slots tbl
        | Skipped \<Rightarrow> place_data is False slots tbl
        | No_Room \<Rightarrow> Some (False, slots, tbl)) } }"

text \<open>The loop over the code breakpoints; \<open>0xFF\<close> is the flag for no more breakpoints.\<close>

fun place_code :: "nat list \<Rightarrow> bool \<Rightarrow> bool \<Rightarrow> bool list \<Rightarrow> bp_table \<Rightarrow> (bool \<times> bp_table) option" where
  "place_code [] softwarebps hadroom slots tbl = None"
| "place_code (i # is) softwarebps hadroom slots tbl = do {
     b \<leftarrow> cell tbl i;
     if last_bp b then Some (hadroom, tbl)
     else do {
       n \<leftarrow> free_slot slots 0;
       let num = (if n > MAX_BREAKPOINTS2 then if softwarebps then 0 else 0xFF else n);
       if enabled b \<and> toadd b \<and> bp_type b = CODE then
         (if num = 0xFF then Some (False, tbl)
          else do {
            tbl \<leftarrow> bp_set i (bpnum_update (\<lambda>_. of_nat num)) tbl;
            slots \<leftarrow> store slots num False;
            place_code is softwarebps hadroom slots tbl })
       else place_code is softwarebps hadroom slots tbl } }"

abbreviation bp_indices :: "nat list" where
  "bp_indices \<equiv> [0..<MAX_TOTAL_BREAKPOINTS2]"

definition layoutBreakpoints :: "dev_flags option \<Rightarrow> bool \<Rightarrow> bp_table \<Rightarrow> (bool \<times> bp_table) option" where
  "layoutBreakpoints flags dw tbl = do {
     softwarebps \<leftarrow> map_option (\<lambda>f. f \<noteq> DEVFL_NO_SOFTBP) flags;
     slots \<leftarrow> mark_stable tbl (slots_initial dw);
     (hadroom, slots, tbl) \<leftarrow> place_data bp_indices True slots tbl;
     place_code bp_indices softwarebps hadroom slots tbl }"

section \<open>Adding and deleting\<close>

text \<open>\<open>while (!bp[i].last) { if (P) break; i++; }\<close>: the first match, or the terminator.\<close>

fun bp_scan :: "(breakpoint2 \<Rightarrow> bool) \<Rightarrow> bp_table \<Rightarrow> nat option" where
  "bp_scan P [] = None"
| "bp_scan P (b # bs) = (if last_bp b \<or> P b then Some 0 else map_option Suc (bp_scan P bs))"

text \<open>\<open>while (bp[i].enabled || bp[i].toremove) i++\<close>\<close>

fun unused_scan :: "bp_table \<Rightarrow> nat option" where
  "unused_scan [] = None"
| "unused_scan (b # bs) = (if enabled b \<or> toremove b then map_option Suc (unused_scan bs) else Some 0)"

definition ffs :: "u32 \<Rightarrow> nat" where
  "ffs x = (case find (\<lambda>n. bit x n) [0..<32] of None \<Rightarrow> 0 | Some n \<Rightarrow> Suc n)"

text \<open>The end of \<open>addBreakpoint\<close>: download flags, new layout; it reports success in any case.\<close>

definition add_download :: "dev_flags option \<Rightarrow> bool \<Rightarrow> nat \<Rightarrow> bp_table \<Rightarrow> (bool \<times> bp_table) option" where
  "add_download flags dw i tbl = do {
     tbl \<leftarrow> bp_set i (\<lambda>b. b\<lparr>toadd := \<not> icestatus b, toremove := False\<rparr>) tbl;
     (room, tbl) \<leftarrow> layoutBreakpoints flags dw tbl;
     if room then Some (True, tbl)
     else do {
       tbl \<leftarrow> bp_set i disable tbl;
       b \<leftarrow> cell tbl i;
       if has_mask (bp_type b)
       then do { tbl \<leftarrow> bp_set (unat (mask_pointer b)) disable tbl; Some (True, tbl) }
       else Some (True, tbl) } }"

definition add_fail :: "nat \<Rightarrow> bp_table \<Rightarrow> (bool \<times> bp_table) option" where
  "add_fail i tbl = do { tbl \<leftarrow> bp_set i (\<lambda>b. b\<lparr>last_bp := True, enabled := False\<rparr>) tbl; Some (False, tbl) }"

function addBreakpoint :: "dev_flags option \<Rightarrow> bool \<Rightarrow> u32 \<Rightarrow> bpType \<Rightarrow> u32 \<Rightarrow> bp_table \<Rightarrow> (bool \<times> bp_table) option" where
  "addBreakpoint flags dw addr type len tbl = do {
     i \<leftarrow> bp_scan (\<lambda>b. address b = addr \<and> bp_type b = type) tbl;
     b \<leftarrow> cell tbl i;
     tbl \<leftarrow> (if last_bp b then Some tbl else bp_set i (enabled_update (\<lambda>_. True)) tbl);
     b \<leftarrow> cell tbl i;
     if \<not> enabled b \<or> address b \<noteq> addr \<or> bp_type b = type then do {
       i \<leftarrow> (if Suc i = MAX_TOTAL_BREAKPOINTS2 then unused_scan tbl else Some i);
       if Suc i = MAX_TOTAL_BREAKPOINTS2 then Some (False, tbl)
       else do {
         b \<leftarrow> cell tbl i;
         tbl \<leftarrow> (if last_bp b
            then bp_set (Suc i) (\<lambda>b. b\<lparr>last_bp := True, enabled := False, address := 0, bp_type := NONE\<rparr>) tbl
            else Some tbl);
         tbl \<leftarrow> bp_set i (\<lambda>b. b\<lparr>last_bp := False, enabled := True, address := addr, bp_type := type\<rparr>) tbl;
         if len > 1 \<and> type \<noteq> CODE then
           (let mask = push_bit (ffs len - 1) 1 in
            if mask \<noteq> len then add_fail i tbl
            else if addr AND (mask - 1) \<noteq> 0 then add_fail i tbl
            else do {
              let mask = NOT (mask - 1);
              tbl \<leftarrow> bp_set i (bp_type_update (\<lambda>_. type OR HAS_MASK)) tbl;
              (added, tbl) \<leftarrow> addBreakpoint flags dw mask DATA_MASK 1 tbl;
              if \<not> added then add_fail i tbl
              else do {
                here \<leftarrow> cell tbl i;
                j \<leftarrow> bp_scan (\<lambda>b. bp_type b = DATA_MASK \<and> address here = mask) tbl;
                tbl \<leftarrow> bp_set i (mask_pointer_update (\<lambda>_. of_nat j)) tbl;
                add_download flags dw i tbl } })
         else add_download flags dw i tbl } }
     else add_download flags dw i tbl }"
  by pat_completeness auto

termination
  by (relation "measure (\<lambda>(flags, dw, addr, type, len, tbl). if len > 1 then 1 else 0)") auto

declare addBreakpoint.simps [simp del]

definition deleteBreakpoint :: "dev_flags option \<Rightarrow> bool \<Rightarrow> u32 \<Rightarrow> bpType \<Rightarrow> u32 \<Rightarrow> bp_table \<Rightarrow> (bool \<times> bp_table) option" where
  "deleteBreakpoint flags dw addr type len tbl = do {
     i \<leftarrow> bp_scan (\<lambda>b. address b = addr \<and> bp_type b = type) tbl;
     b \<leftarrow> cell tbl i;
     tbl \<leftarrow> (if last_bp b then Some tbl else bp_set i (enabled_update (\<lambda>_. False)) tbl);
     b \<leftarrow> cell tbl i;
     if enabled b \<or> address b \<noteq> addr \<or> bp_type b \<noteq> type then Some (False, tbl)
     else do {
       tbl \<leftarrow> bp_set i (\<lambda>b. b\<lparr>toadd := False, toremove := icestatus b\<rparr>) tbl;
       (room, tbl) \<leftarrow> layoutBreakpoints flags dw tbl;
       Some (True, tbl) } }"

section \<open>The methods\<close>

text \<open>A table operation as a method of \<open>class jtag2\<close>.\<close>

definition on_table :: "(dev_flags option \<Rightarrow> bool \<Rightarrow> bp_table \<Rightarrow> ('a \<times> bp_table) option) \<Rightarrow> ('z jtag2_scheme, 'a) io" where
  "on_table f = (\<lambda>s. case f (map_option device_flags (p_device_def s)) (useDebugWire s) (bps s) of
       None \<Rightarrow> Some (Inl Undef, s)
     | Some (x, tbl) \<Rightarrow> Some (Inr x, s\<lparr>bps := tbl\<rparr>))"

definition jtag2_addBreakpoint :: "u32 \<Rightarrow> bpType \<Rightarrow> u32 \<Rightarrow> ('z jtag2_scheme, bool) io" where
  "jtag2_addBreakpoint addr type len = on_table (\<lambda>flags dw. addBreakpoint flags dw addr type len)"

definition jtag2_deleteBreakpoint :: "u32 \<Rightarrow> bpType \<Rightarrow> u32 \<Rightarrow> ('z jtag2_scheme, bool) io" where
  "jtag2_deleteBreakpoint addr type len = on_table (\<lambda>flags dw. deleteBreakpoint flags dw addr type len)"

definition jtag2_deleteAllBreakpoints :: "('z jtag2_scheme, unit) io" where
  "jtag2_deleteAllBreakpoints = on_table (\<lambda>_ _ tbl. map_option (Pair ()) (deleteAllBreakpoints tbl))"

definition jtag2_codeBreakpointAt :: "u32 \<Rightarrow> ('z jtag2_scheme, bool) io" where
  "jtag2_codeBreakpointAt addr = on_table (\<lambda>_ _ tbl. map_option (\<lambda>r. (r, tbl)) (codeBreakpointAt addr tbl))"

definition jtag2_codeBreakpointBetween :: "u32 \<Rightarrow> u32 \<Rightarrow> ('z jtag2_scheme, bool) io" where
  "jtag2_codeBreakpointBetween start finish =
     on_table (\<lambda>_ _ tbl. map_option (\<lambda>r. (r, tbl)) (codeBreakpointBetween start finish tbl))"

text \<open>\<open>stopAt\<close> has no \<open>return\<close> statement: its result is whatever the caller finds.\<close>

definition stopAt :: "u32 \<Rightarrow> ('z jtag2_scheme, bool) io" where
  "stopAt addr =
     io_then (jtagWrite (ucast (ucast BREAKPOINT_SPACE_ADDR_OFFSET + addr div 2)) 1 [1])
       (io_get (\<lambda>s. fresh s 0 \<noteq> 0))"

section \<open>Downloading\<close>

definition bp_update :: "nat \<Rightarrow> (breakpoint2 \<Rightarrow> breakpoint2) \<Rightarrow> ('z jtag2_scheme, unit) io" where
  "bp_update i f = on_table (\<lambda>_ _ tbl. map_option (Pair ()) (bp_set i f tbl))"

definition clear_break_command :: "breakpoint2 \<Rightarrow> u8 list" where
  "clear_break_command b = [CMND_CLR_BREAK, bpnum b] @
     u32_to_b4 (if bpnum b = 0 then ucast (address b div 2) else 0)"

definition set_break_command :: "breakpoint2 \<Rightarrow> u8 list option" where
  "set_break_command b =
     (let addr = u32_to_b4 (ucast (if bp_type b = CODE then address b div 2 else address b));
          cmd = (\<lambda>kind mode. Some ([CMND_SET_BREAK, kind, bpnum b] @ addr @ [mode]))
      in if bp_type b = READ_DATA \<or> bp_type b = (READ_DATA OR HAS_MASK) then cmd 2 0
         else if bp_type b = WRITE_DATA \<or> bp_type b = (WRITE_DATA OR HAS_MASK) then cmd 2 1
         else if bp_type b = ACCESS_DATA \<or> bp_type b = (ACCESS_DATA OR HAS_MASK) then cmd 2 2
         else if bp_type b = DATA_MASK then cmd 3 0
         else if bp_type b = CODE then cmd (ucast (bp_type b)) 3
         else None)"

fun clear_breaks :: "nat list \<Rightarrow> ('z jtag2_scheme, unit) io" where
  "clear_breaks [] = io_throw Undef"
| "clear_breaks (i # is) =
     io_bind (io_get (\<lambda>s. cell (bps s) i)) (\<lambda>x. io_bind (io_defined x) (\<lambda>b.
       if last_bp b then io_ret ()
       else io_then
         (if toremove b then
            io_bind (doJtagCommand (clear_break_command b) True) (\<lambda>(ok, response, responseSize).
            io_then (check ok ''Failed to clear breakpoint'')
              (bp_update i (\<lambda>b. b\<lparr>icestatus := False, toremove := False\<rparr>)))
          else io_ret ())
         (clear_breaks is)))"

fun set_breaks :: "nat list \<Rightarrow> ('z jtag2_scheme, unit) io" where
  "set_breaks [] = io_throw Undef"
| "set_breaks (i # is) =
     io_bind (io_get (\<lambda>s. cell (bps s) i)) (\<lambda>x. io_bind (io_defined x) (\<lambda>b.
       if last_bp b then io_ret ()
       else io_then
         (if toadd b \<and> enabled b then
            (case set_break_command b of
               None \<Rightarrow> io_throw (Thrown ''Invalid bp mode (for data bp)'')
             | Some cmd \<Rightarrow>
                 io_bind (doJtagCommand cmd True) (\<lambda>(ok, response, responseSize).
                 io_then (check ok ''Failed to set breakpoint'')
                   (bp_update i (\<lambda>b. b\<lparr>icestatus := True, toadd := False\<rparr>))))
          else io_ret ())
         (set_breaks is)))"

definition updateBreakpoints :: "('z jtag2_scheme, unit) io" where
  "updateBreakpoints =
     io_bind (on_table layoutBreakpoints) (\<lambda>_.
     io_then (clear_breaks bp_indices) (set_breaks bp_indices))"

section \<open>No access outside the table\<close>

text \<open>\<open>returns P m\<close>: \<open>m\<close> is defined and its value satisfies \<open>P\<close>.\<close>

definition returns :: "('a \<Rightarrow> bool) \<Rightarrow> 'a option \<Rightarrow> bool" where
  "returns P m \<longleftrightarrow> (\<exists>x. m = Some x \<and> P x)"

named_theorems returns "definedness of table operations"

lemma returns_Some [returns]: "P x \<Longrightarrow> returns P (Some x)"
  by (simp add: returns_def)

lemma returns_bind: "returns Q m \<Longrightarrow> (\<And>x. Q x \<Longrightarrow> returns P (f x)) \<Longrightarrow> returns P (Option.bind m f)"
  by (auto simp: returns_def)

lemma returns_if [returns]:
  "(c \<Longrightarrow> returns P m) \<Longrightarrow> (\<not> c \<Longrightarrow> returns P n) \<Longrightarrow> returns P (if c then m else n)"
  by simp

lemma returns_mono: "returns Q m \<Longrightarrow> (\<And>x. Q x \<Longrightarrow> P x) \<Longrightarrow> returns P m"
  by (auto simp: returns_def)

text \<open>The invariant of the table: slots and mask pointers are in range and the last entry is never
  used.\<close>

definition entry_ok :: "nat \<Rightarrow> breakpoint2 \<Rightarrow> bool" where
  "entry_ok i b \<longleftrightarrow> unat (bpnum b) \<le> MAX_BREAKPOINTS2 \<and> unat (mask_pointer b) < MAX_TOTAL_BREAKPOINTS2 \<and>
     (Suc i = MAX_TOTAL_BREAKPOINTS2 \<longrightarrow> last_bp b \<and> \<not> enabled b \<and> \<not> toremove b \<and> \<not> icestatus b)"

definition table_ok :: "bp_table \<Rightarrow> bool" where
  "table_ok tbl \<longleftrightarrow> length tbl = MAX_TOTAL_BREAKPOINTS2 \<and> (\<forall>i < length tbl. entry_ok i (tbl ! i))"

lemma table_ok_length: "table_ok tbl \<Longrightarrow> length tbl = MAX_TOTAL_BREAKPOINTS2"
  by (simp add: table_ok_def)

lemma table_ok_last: "table_ok tbl \<Longrightarrow> i < length tbl \<Longrightarrow> \<not> last_bp (tbl ! i) \<Longrightarrow> Suc i < length tbl"
  by (auto simp: table_ok_def entry_ok_def)

lemma bp_set_eq: "i < length tbl \<Longrightarrow> bp_set i f tbl = Some (tbl[i := f (tbl ! i)])"
  by (simp add: bp_set_def cell_def store_def)

lemma table_ok_update:
  "table_ok tbl \<Longrightarrow> (i < length tbl \<Longrightarrow> entry_ok i (tbl ! i) \<Longrightarrow> entry_ok i b) \<Longrightarrow> table_ok (tbl[i := b])"
  unfolding table_ok_def length_list_update by (metis nth_list_update_eq nth_list_update_neq)

lemma table_ok_31:
  assumes "table_ok tbl"
  shows "31 < length tbl" "last_bp (tbl ! 31)" "\<not> enabled (tbl ! 31)" "\<not> toremove (tbl ! 31)" "\<not> icestatus (tbl ! 31)"
proof -
  show l: "31 < length tbl"
    using assms by (simp add: table_ok_def code_defs)
  then have "entry_ok 31 (tbl ! 31)"
    using assms by (simp add: table_ok_def)
  then show "last_bp (tbl ! 31)" "\<not> enabled (tbl ! 31)" "\<not> toremove (tbl ! 31)" "\<not> icestatus (tbl ! 31)"
    by (simp_all add: entry_ok_def code_defs)
qed

lemma returns_bp_set:
  "table_ok tbl \<Longrightarrow> i < MAX_TOTAL_BREAKPOINTS2 \<Longrightarrow> (\<And>b. entry_ok i b \<Longrightarrow> entry_ok i (f b)) \<Longrightarrow>
     returns table_ok (bp_set i f tbl)"
  by (simp add: bp_set_eq table_ok_length returns_def table_ok_update)

lemma returns_cell:
  "table_ok tbl \<Longrightarrow> i < MAX_TOTAL_BREAKPOINTS2 \<Longrightarrow> returns (\<lambda>b. b = tbl ! i \<and> entry_ok i b) (cell tbl i)"
  by (simp add: cell_def returns_def table_ok_def)

lemma entry_ok_disable: "entry_ok i b \<Longrightarrow> entry_ok i (disable b)"
  by (auto simp: entry_ok_def disable_def)

lemma entry_ok_bpnum: "entry_ok i b \<Longrightarrow> n \<le> MAX_BREAKPOINTS2 \<Longrightarrow> entry_ok i (b\<lparr>bpnum := of_nat n\<rparr>)"
  by (auto simp: entry_ok_def code_defs unat_of_nat take_bit_nat_eq_self)

lemma bp_scan_result:
  "table_ok tbl \<Longrightarrow> returns (\<lambda>i. i < MAX_TOTAL_BREAKPOINTS2 \<and> (last_bp (tbl ! i) \<or> P (tbl ! i)) \<and>
     (\<forall>j < i. \<not> last_bp (tbl ! j) \<and> \<not> P (tbl ! j))) (bp_scan P tbl)"
proof -
  have scan: "\<exists>i < length tbl. last_bp (tbl ! i) \<Longrightarrow>
      \<exists>i. bp_scan P tbl = Some i \<and> i < length tbl \<and> (last_bp (tbl ! i) \<or> P (tbl ! i)) \<and>
        (\<forall>j < i. \<not> last_bp (tbl ! j) \<and> \<not> P (tbl ! j))"
  proof (induction tbl)
    case (Cons b bs)
    show ?case
    proof (cases "last_bp b \<or> P b")
      case False
      then have "\<exists>i < length bs. last_bp (bs ! i)"
        using Cons.prems by (auto simp: less_Suc_eq_0_disj)
      from Cons.IH [OF this] False show ?thesis
        by (auto simp: less_Suc_eq_0_disj)
    qed auto
  qed simp
  assume "table_ok tbl"
  with table_ok_31 [OF this] scan \<open>table_ok tbl\<close> show ?thesis
    by (auto simp: returns_def table_ok_length)
qed

lemma unused_scan_result:
  "table_ok tbl \<Longrightarrow> returns (\<lambda>i. i < MAX_TOTAL_BREAKPOINTS2 \<and> \<not> enabled (tbl ! i) \<and> \<not> toremove (tbl ! i)) (unused_scan tbl)"
proof -
  have scan: "\<exists>i < length tbl. \<not> enabled (tbl ! i) \<and> \<not> toremove (tbl ! i) \<Longrightarrow>
      \<exists>i. unused_scan tbl = Some i \<and> i < length tbl \<and> \<not> enabled (tbl ! i) \<and> \<not> toremove (tbl ! i)"
  proof (induction tbl)
    case (Cons b bs)
    show ?case
    proof (cases "enabled b \<or> toremove b")
      case True
      then have "\<exists>i < length bs. \<not> enabled (bs ! i) \<and> \<not> toremove (bs ! i)"
        using Cons.prems by (auto simp: less_Suc_eq_0_disj)
      from Cons.IH [OF this] True show ?thesis by auto
    qed auto
  qed simp
  assume "table_ok tbl"
  with table_ok_31 [OF this] scan \<open>table_ok tbl\<close> show ?thesis
    by (auto simp: returns_def table_ok_length)
qed

text \<open>The slots: six flags of which slot 0, the software breakpoints, is never free.\<close>

definition slots_ok :: "bool list \<Rightarrow> bool" where
  "slots_ok slots \<longleftrightarrow> length slots = 6 \<and> \<not> slots ! 0"

lemma slots_initial_ok: "slots_ok (slots_initial dw)"
  by (simp add: slots_ok_def slots_initial_def)

lemma slots_ok_store: "slots_ok slots \<Longrightarrow> n < 6 \<Longrightarrow> returns (\<lambda>t. t = slots[n := False] \<and> slots_ok t) (store slots n False)"
  by (auto simp: slots_ok_def store_def returns_def nth_list_update)

lemma free_slot_result:
  assumes "slots_ok slots" "n \<le> 5"
  shows "returns (\<lambda>m. n \<le> m \<and> m \<le> 5 \<and> (m \<le> MAX_BREAKPOINTS2 \<longrightarrow> slots ! m \<and> 0 < m)) (free_slot slots n)"
  using assms(2)
proof (induction "5 - n" arbitrary: n)
  case 0
  then show ?case
    using assms(1) by (subst free_slot.simps) (auto simp: slots_ok_def cell_def returns_def code_defs)
next
  case (Suc k)
  show ?case
  proof (cases "slots ! n")
    case True
    then have "0 < n"
      using assms(1) by (auto simp: slots_ok_def intro: Nat.gr0I)
    with True Suc.prems show ?thesis
      using assms(1) by (subst free_slot.simps) (auto simp: slots_ok_def cell_def returns_def)
  next
    case False
    have n: "Suc n \<le> 5" "k = 5 - Suc n" using Suc.hyps(2) by simp_all
    from False n(1) have "free_slot slots n = free_slot slots (Suc n)"
      using assms(1) by (subst free_slot.simps) (simp add: slots_ok_def cell_def code_defs)
    then show ?thesis
      using Suc.hyps(1) [OF n(2,1)] by (auto simp: returns_def)
  qed
qed

section \<open>What a layout changes\<close>

text \<open>A layout chooses slots; it may also disable entries, but only when there are range
  breakpoints.\<close>

definition no_ranges :: "bp_table \<Rightarrow> bool" where
  "no_ranges tbl \<longleftrightarrow> (\<forall>i < length tbl. \<not> has_mask (bp_type (tbl ! i)))"

definition laid_out :: "breakpoint2 \<Rightarrow> breakpoint2 \<Rightarrow> bool" where
  "laid_out b c \<longleftrightarrow> address c = address b \<and> mask_pointer c = mask_pointer b \<and> bp_type c = bp_type b \<and>
     last_bp c = last_bp b \<and> icestatus c = icestatus b \<and> toremove c = toremove b \<and>
     (enabled c \<longrightarrow> enabled b) \<and> (toadd c \<longrightarrow> toadd b)"

definition layout_rel :: "bp_table \<Rightarrow> bp_table \<Rightarrow> bool" where
  "layout_rel tbl new \<longleftrightarrow> length new = length tbl \<and>
     (\<forall>i < length tbl. laid_out (tbl ! i) (new ! i) \<and>
        (no_ranges tbl \<longrightarrow> enabled (new ! i) = enabled (tbl ! i) \<and> toadd (new ! i) = toadd (tbl ! i)))"

lemma layout_rel_refl: "layout_rel tbl tbl"
  by (simp add: layout_rel_def laid_out_def)

lemma layout_rel_no_ranges: "layout_rel tbl new \<Longrightarrow> no_ranges new = no_ranges tbl"
  by (simp add: layout_rel_def laid_out_def no_ranges_def)

lemma layout_rel_trans: "layout_rel a b \<Longrightarrow> layout_rel b c \<Longrightarrow> layout_rel a c"
  using layout_rel_no_ranges [of a b] by (simp add: layout_rel_def laid_out_def)

lemma layout_rel_update:
  assumes "i < length tbl" "laid_out (tbl ! i) b"
    and "no_ranges tbl \<Longrightarrow> enabled b = enabled (tbl ! i) \<and> toadd b = toadd (tbl ! i)"
  shows "layout_rel tbl (tbl[i := b])"
  using assms by (auto simp: layout_rel_def nth_list_update laid_out_def)

definition place_post :: "bp_table \<Rightarrow> bp_table \<Rightarrow> bool" where
  "place_post tbl new \<longleftrightarrow> table_ok new \<and> layout_rel tbl new"

lemma place_post_trans: "place_post a b \<Longrightarrow> place_post b c \<Longrightarrow> place_post a c"
  by (auto simp: place_post_def intro: layout_rel_trans)

lemma place_post_refl: "table_ok tbl \<Longrightarrow> place_post tbl tbl"
  by (simp add: place_post_def layout_rel_refl)

lemma place_post_ok: "place_post a b \<Longrightarrow> table_ok b" "place_post a b \<Longrightarrow> layout_rel a b"
  by (simp_all add: place_post_def)

lemma returns_set_bpnum:
  assumes "table_ok tbl" "i < MAX_TOTAL_BREAKPOINTS2" "n \<le> MAX_BREAKPOINTS2"
  shows "returns (\<lambda>new. new = tbl[i := (tbl ! i)\<lparr>bpnum := of_nat n\<rparr>] \<and> place_post tbl new)
     (bp_set i (bpnum_update (\<lambda>_. of_nat n)) tbl)"
  using assms by (auto simp: bp_set_eq table_ok_length returns_def place_post_def laid_out_def
      intro!: table_ok_update layout_rel_update entry_ok_bpnum)

lemma returns_set_disable:
  assumes "table_ok tbl" "i < MAX_TOTAL_BREAKPOINTS2" "\<not> no_ranges tbl"
  shows "returns (place_post tbl) (bp_set i disable tbl)"
  using assms by (auto simp: bp_set_eq table_ok_length returns_def place_post_def laid_out_def disable_def [abs_def]
      intro!: table_ok_update layout_rel_update entry_ok_disable [unfolded disable_def])

lemma mark_stable_result:
  assumes "\<exists>i < length tbl. last_bp (tbl ! i)" "\<forall>i < length tbl. unat (bpnum (tbl ! i)) \<le> MAX_BREAKPOINTS2" "slots_ok slots"
  shows "returns slots_ok (mark_stable tbl slots)"
  using assms
proof (induction tbl arbitrary: slots)
  case (Cons b bs)
  show ?case
  proof (cases "last_bp b")
    case True
    with Cons.prems show ?thesis by (auto intro: returns)
  next
    case False
    then have l: "\<exists>i < length bs. last_bp (bs ! i)" "\<forall>i < length bs. unat (bpnum (bs ! i)) \<le> MAX_BREAKPOINTS2"
      using Cons.prems(1,2) by (auto simp: less_Suc_eq_0_disj)
    have "unat (bpnum b) < 6"
      using Cons.prems(2) by (auto simp: code_defs)
    with False Cons.IH [OF l] Cons.prems(3) show ?thesis
      by (auto intro!: returns returns_bind [OF slots_ok_store])
  qed
qed simp

lemma mask_entry:
  assumes "table_ok tbl" "i < MAX_TOTAL_BREAKPOINTS2" "has_mask (bp_type (tbl ! i))"
  shows "\<not> no_ranges tbl" "unat (mask_pointer (tbl ! i)) < MAX_TOTAL_BREAKPOINTS2"
  using assms by (auto simp: no_ranges_def table_ok_def entry_ok_def)

lemma place_data_at_result:
  assumes "table_ok tbl" "slots_ok slots" "i < MAX_TOTAL_BREAKPOINTS2"
  shows "returns (\<lambda>(p, slots', new). slots_ok slots' \<and> place_post tbl new) (place_data_at i (tbl ! i) slots tbl)"
proof (cases "enabled (tbl ! i) \<and> toadd (tbl ! i) \<and> is_data (bp_type (tbl ! i))")
  case False
  with assms show ?thesis
    by (auto simp: place_data_at_def intro!: returns place_post_refl)
next
  case True
  let ?b = "tbl ! i"
  have c: "cell slots BREAKPOINT2_DATA_MASK = Some (slots ! 3)" "cell slots BREAKPOINT2_FIRST_DATA = Some (slots ! 2)"
    using assms(2) by (simp_all add: cell_def slots_ok_def code_defs)
  define claim where "claim = (if has_mask (bp_type ?b) then do {
              slots \<leftarrow> store slots BREAKPOINT2_DATA_MASK False;
              tbl \<leftarrow> bp_set (unat (mask_pointer ?b)) (bpnum_update (\<lambda>_. of_nat BREAKPOINT2_DATA_MASK)) tbl;
              Some (slots, tbl) } else Some (slots, tbl))"
  have claim: "returns (\<lambda>(slots', new). slots_ok slots' \<and> place_post tbl new) claim"
  proof (cases "has_mask (bp_type ?b)")
    case True
    have dm: "BREAKPOINT2_DATA_MASK < 6" "BREAKPOINT2_DATA_MASK \<le> MAX_BREAKPOINTS2"
      by (simp_all add: code_defs)
    show ?thesis
      unfolding claim_def if_P [OF True]
      by (rule returns_bind [OF slots_ok_store [OF assms(2) dm(1)]],
          rule returns_bind [OF returns_set_bpnum [OF assms(1) mask_entry(2) [OF assms(1,3) True] dm(2)]])
        (auto intro: returns)
  qed (auto simp: claim_def intro!: returns place_post_refl assms)
  have rest: "returns (\<lambda>(p, slots', new). slots_ok slots' \<and> place_post tbl new)
     (do { (slots, tbl) \<leftarrow> claim;
          n \<leftarrow> free_slot slots BREAKPOINT2_FIRST_DATA;
          if n > MAX_BREAKPOINTS2 then Some (No_Room, slots, tbl)
          else do {
            tbl \<leftarrow> bp_set i (bpnum_update (\<lambda>_. of_nat n)) tbl;
            slots \<leftarrow> store slots n False;
            Some (Placed, slots, tbl) } })"
  proof (rule returns_bind [OF claim], clarify)
    fix slots' new assume *: "slots_ok slots'" "place_post tbl new"
    show "returns (\<lambda>(p, slots', new). slots_ok slots' \<and> place_post tbl new) (do {
          n \<leftarrow> free_slot slots' BREAKPOINT2_FIRST_DATA;
          if n > MAX_BREAKPOINTS2 then Some (No_Room, slots', new)
          else do {
            tbl \<leftarrow> bp_set i (bpnum_update (\<lambda>_. of_nat n)) new;
            slots \<leftarrow> store slots' n False;
            Some (Placed, slots, tbl) } })"
      by (rule returns_bind [OF free_slot_result [OF *(1)]])
        (use * assms(3) in \<open>auto simp: code_defs intro!: returns returns_bind [OF returns_set_bpnum]
            returns_bind [OF slots_ok_store] place_post_ok intro: place_post_trans\<close>)
  qed
  show ?thesis
  proof (cases "has_mask (bp_type ?b) \<and> (\<not> slots ! 3 \<or> \<not> slots ! 2)")
    case False
    then have "(has_mask (bp_type ?b) \<and> (\<not> slots ! 3 \<or> \<not> slots ! 2)) = False" by blast
    then show ?thesis
      unfolding place_data_at_def if_P [OF True] c using rest by (simp only: Option.bind.simps if_False claim_def)
  next
    case skip: True
    have "returns (place_post tbl) (do { tbl \<leftarrow> bp_set (unat (mask_pointer ?b)) disable tbl; bp_set i disable tbl })"
    proof (rule returns_bind [OF returns_set_disable])
      fix new assume "place_post tbl new"
      then show "returns (place_post tbl) (bp_set i disable new)"
        using mask_entry [OF assms(1,3)] skip assms(3)
        by (auto intro!: returns_mono [OF returns_set_disable] place_post_ok simp: layout_rel_no_ranges [OF place_post_ok(2)]
            intro: place_post_trans)
    qed (use mask_entry [OF assms(1,3)] skip assms in auto)
    then show ?thesis
      unfolding place_data_at_def if_P [OF True] c using skip assms(2) by (auto simp: returns_def Option.bind_eq_Some_conv)
  qed
qed

lemma cell_table: "table_ok tbl \<Longrightarrow> i < MAX_TOTAL_BREAKPOINTS2 \<Longrightarrow> cell tbl i = Some (tbl ! i)"
  by (simp add: cell_def table_ok_length)

lemma place_data_result:
  assumes "table_ok tbl" "slots_ok slots" "31 \<in> set is" "\<forall>i \<in> set is. i < MAX_TOTAL_BREAKPOINTS2"
  shows "returns (\<lambda>(room, slots', new). slots_ok slots' \<and> place_post tbl new) (place_data is hadroom slots tbl)"
  using assms
proof (induction "is" arbitrary: hadroom slots tbl)
  case (Cons i "is")
  have i: "i < MAX_TOTAL_BREAKPOINTS2"
    using Cons.prems(4) by simp
  note c = cell_table [OF Cons.prems(1) i]
  show ?case
  proof (cases "last_bp (tbl ! i)")
    case True
    then show ?thesis
      using c Cons.prems by (auto intro!: returns place_post_refl)
  next
    case False
    then have is31: "31 \<in> set is"
      using Cons.prems(3) table_ok_31(2) [OF Cons.prems(1)] by auto
    have loop: "returns (\<lambda>(room, slots', new). slots_ok slots' \<and> place_post tbl new)
        (case p of Placed \<Rightarrow> place_data is hadroom slots' new | Skipped \<Rightarrow> place_data is False slots' new
         | No_Room \<Rightarrow> Some (False, slots', new))" if "slots_ok slots'" "place_post tbl new" for p slots' new
      using that Cons.prems(4) is31
      by (cases p) (auto intro!: returns_mono [OF Cons.IH] returns dest: place_post_ok intro: place_post_trans)
    show ?thesis
      unfolding place_data.simps c Option.bind.simps if_not_P [OF False]
      by (rule returns_bind [OF place_data_at_result [OF Cons.prems(1,2) i]]) (use loop in auto)
  qed
qed simp

lemma place_code_result:
  assumes "table_ok tbl" "slots_ok slots" "31 \<in> set is" "\<forall>i \<in> set is. i < MAX_TOTAL_BREAKPOINTS2"
  shows "returns (\<lambda>(room, new). place_post tbl new) (place_code is soft hadroom slots tbl)"
  using assms
proof (induction "is" arbitrary: slots tbl)
  case (Cons i "is")
  have i: "i < MAX_TOTAL_BREAKPOINTS2"
    using Cons.prems(4) by simp
  note c = cell_table [OF Cons.prems(1) i]
  show ?case
  proof (cases "last_bp (tbl ! i)")
    case True
    then show ?thesis
      using c Cons.prems by (auto intro!: returns place_post_refl)
  next
    case False
    then have is31: "31 \<in> set is"
      using Cons.prems(3) table_ok_31(2) [OF Cons.prems(1)] by auto
    have loop: "returns (\<lambda>(room, new'). place_post tbl new') (place_code is soft hadroom slots' new)"
      if "slots_ok slots'" "place_post tbl new" for slots' new
      using that Cons.prems(4) is31
      by (auto intro!: returns_mono [OF Cons.IH] dest: place_post_ok intro: place_post_trans)
    have num: "returns (\<lambda>(room, new). place_post tbl new) (
       (if num = 0xFF then Some (False, tbl)
          else do {
            tbl \<leftarrow> bp_set i (bpnum_update (\<lambda>_. of_nat num)) tbl;
            slots \<leftarrow> store slots num False;
            place_code is soft hadroom slots tbl }))" if "num = 0xFF \<or> num \<le> MAX_BREAKPOINTS2" for num
    proof (cases "num = 0xFF")
      case True
      then show ?thesis
        using place_post_refl [OF Cons.prems(1)] by (auto intro: returns)
    next
      case False
      with that have n: "num \<le> MAX_BREAKPOINTS2" "num < 6" by (auto simp: code_defs)
      show ?thesis
        unfolding if_not_P [OF False]
        by (rule returns_bind [OF returns_set_bpnum [OF Cons.prems(1) i n(1)]],
            rule returns_bind [OF slots_ok_store [OF Cons.prems(2) n(2)]]) (auto intro: loop)
    qed
    have "returns (\<lambda>(room, new). place_post tbl new) (do {
       n \<leftarrow> free_slot slots 0;
       let num = (if n > MAX_BREAKPOINTS2 then if soft then 0 else 0xFF else n);
       if enabled (tbl ! i) \<and> toadd (tbl ! i) \<and> bp_type (tbl ! i) = CODE then
         (if num = 0xFF then Some (False, tbl)
          else do {
            tbl \<leftarrow> bp_set i (bpnum_update (\<lambda>_. of_nat num)) tbl;
            slots \<leftarrow> store slots num False;
            place_code is soft hadroom slots tbl })
       else place_code is soft hadroom slots tbl })"
      unfolding Let_def
      by (rule returns_bind [OF free_slot_result [OF Cons.prems(2)]])
        (use num loop [OF Cons.prems(2) place_post_refl [OF Cons.prems(1)]] in \<open>auto intro: returns_if\<close>)
    then show ?thesis
      unfolding place_code.simps c Option.bind.simps if_not_P [OF False] .
  qed
qed simp

lemma bp_indices_31: "31 \<in> set bp_indices" "\<forall>i \<in> set bp_indices. i < MAX_TOTAL_BREAKPOINTS2"
  by (simp_all add: code_defs)

text \<open>A layout never leaves the table, and does what \<open>layout_rel\<close> says.\<close>

lemma layout_result:
  assumes "table_ok tbl"
  shows "returns (\<lambda>(room, new). place_post tbl new) (layoutBreakpoints (Some flags) dw tbl)"
proof -
  have "\<exists>i < length tbl. last_bp (tbl ! i)"
    using table_ok_31 [OF assms] by blast
  moreover have "\<forall>i < length tbl. unat (bpnum (tbl ! i)) \<le> MAX_BREAKPOINTS2"
    using assms by (simp add: table_ok_def entry_ok_def)
  ultimately have m: "returns slots_ok (mark_stable tbl (slots_initial dw))"
    by (rule mark_stable_result) (rule slots_initial_ok)
  show ?thesis
    unfolding layoutBreakpoints_def option.map Option.bind.simps
  proof (rule returns_bind [OF m], rule returns_bind [OF place_data_result [OF assms _ bp_indices_31]], assumption, clarify)
    fix room slots new assume "slots_ok slots" "place_post tbl new"
    then show "returns (\<lambda>(room, new). place_post tbl new) (place_code bp_indices (flags \<noteq> DEVFL_NO_SOFTBP) room slots new)"
      by (intro returns_mono [OF place_code_result [OF _ _ bp_indices_31]]) (auto dest: place_post_ok intro: place_post_trans)
  qed
qed

lemma layout_table_ok: "table_ok tbl \<Longrightarrow> returns (\<lambda>(room, new). table_ok new) (layoutBreakpoints (Some flags) dw tbl)"
  by (rule returns_mono [OF layout_result]) (auto dest: place_post_ok)

lemma add_download_ok:
  assumes "table_ok tbl" "i < MAX_TOTAL_BREAKPOINTS2"
  shows "returns (\<lambda>(r, new). table_ok new) (add_download (Some flags) dw i tbl)"
  unfolding add_download_def
proof (rule returns_bind [OF returns_bp_set [OF assms]], force simp: entry_ok_def,
    rule returns_bind [OF layout_table_ok], assumption, clarify, rule returns_if)
  fix new assume new: "table_ok new"
  show "returns (\<lambda>(r, new). table_ok new) (do {
       tbl \<leftarrow> bp_set i disable new;
       b \<leftarrow> cell tbl i;
       if has_mask (bp_type b)
       then do { tbl \<leftarrow> bp_set (unat (mask_pointer b)) disable tbl; Some (True, tbl) }
       else Some (True, tbl) })"
    by (rule returns_bind [OF returns_bp_set [OF new assms(2) entry_ok_disable]], assumption,
        rule returns_bind [OF returns_cell [OF _ assms(2)]], assumption)
      (auto intro!: returns returns_bind [OF returns_bp_set] entry_ok_disable simp: entry_ok_def)
qed (auto intro: returns)

lemma add_fail_ok:
  "table_ok tbl \<Longrightarrow> i < MAX_TOTAL_BREAKPOINTS2 \<Longrightarrow> returns (\<lambda>(r, new). table_ok new) (add_fail i tbl)"
  unfolding add_fail_def
  by (rule returns_bind [OF returns_bp_set]) (auto simp: entry_ok_def intro: returns)

text \<open>The branch of \<open>addBreakpoint\<close> that takes a new entry, for the proofs.\<close>

definition add_entry :: "dev_flags option \<Rightarrow> bool \<Rightarrow> u32 \<Rightarrow> bpType \<Rightarrow> u32 \<Rightarrow> nat \<Rightarrow> bp_table \<Rightarrow> (bool \<times> bp_table) option" where
  "add_entry flags dw addr type len i tbl = do {
     b \<leftarrow> cell tbl i;
     tbl \<leftarrow> (if last_bp b
        then bp_set (Suc i) (\<lambda>b. b\<lparr>last_bp := True, enabled := False, address := 0, bp_type := NONE\<rparr>) tbl
        else Some tbl);
     tbl \<leftarrow> bp_set i (\<lambda>b. b\<lparr>last_bp := False, enabled := True, address := addr, bp_type := type\<rparr>) tbl;
     if len > 1 \<and> type \<noteq> CODE then
       (let mask = push_bit (ffs len - 1) 1 in
        if mask \<noteq> len then add_fail i tbl
        else if addr AND (mask - 1) \<noteq> 0 then add_fail i tbl
        else do {
          let mask = NOT (mask - 1);
          tbl \<leftarrow> bp_set i (bp_type_update (\<lambda>_. type OR HAS_MASK)) tbl;
          (added, tbl) \<leftarrow> addBreakpoint flags dw mask DATA_MASK 1 tbl;
          if \<not> added then add_fail i tbl
          else do {
            here \<leftarrow> cell tbl i;
            j \<leftarrow> bp_scan (\<lambda>b. bp_type b = DATA_MASK \<and> address here = mask) tbl;
            tbl \<leftarrow> bp_set i (mask_pointer_update (\<lambda>_. of_nat j)) tbl;
            add_download flags dw i tbl } })
     else add_download flags dw i tbl }"

lemma addBreakpoint_entry:
  "addBreakpoint flags dw addr type len tbl = do {
     i \<leftarrow> bp_scan (\<lambda>b. address b = addr \<and> bp_type b = type) tbl;
     b \<leftarrow> cell tbl i;
     tbl \<leftarrow> (if last_bp b then Some tbl else bp_set i (enabled_update (\<lambda>_. True)) tbl);
     b \<leftarrow> cell tbl i;
     if \<not> enabled b \<or> address b \<noteq> addr \<or> bp_type b = type then do {
       i \<leftarrow> (if Suc i = MAX_TOTAL_BREAKPOINTS2 then unused_scan tbl else Some i);
       if Suc i = MAX_TOTAL_BREAKPOINTS2 then Some (False, tbl)
       else add_entry flags dw addr type len i tbl }
     else add_download flags dw i tbl }"
  by (subst addBreakpoint.simps) (simp only: add_entry_def)

lemma add_entry_ok:
  assumes "\<And>mask new. len > 1 \<Longrightarrow> table_ok new \<Longrightarrow>
      returns (\<lambda>(r, new). table_ok new) (addBreakpoint (Some flags) dw mask DATA_MASK 1 new)"
    and "table_ok tbl" "i < MAX_TOTAL_BREAKPOINTS2" "Suc i \<noteq> MAX_TOTAL_BREAKPOINTS2"
  shows "returns (\<lambda>(r, new). table_ok new) (add_entry (Some flags) dw addr type len i tbl)"
  unfolding add_entry_def
proof (rule returns_bind [OF returns_cell [OF assms(2,3)]], rule returns_bind [where Q = table_ok])
  fix b
  show "returns table_ok (if last_bp b
        then bp_set (Suc i) (\<lambda>b. b\<lparr>last_bp := True, enabled := False, address := 0, bp_type := NONE\<rparr>) tbl
        else Some tbl)"
    using assms by (auto intro!: returns returns_bp_set simp: entry_ok_def)
next
  fix new assume new: "table_ok new"
  have set: "returns table_ok (bp_set i f new)"
    if "\<And>b. unat (bpnum (f b)) \<le> MAX_BREAKPOINTS2 \<longleftrightarrow> unat (bpnum b) \<le> MAX_BREAKPOINTS2"
      "\<And>b. mask_pointer (f b) = mask_pointer b" "table_ok new" for f new
    using that assms(3,4) by (intro returns_bp_set) (auto simp: entry_ok_def)
  have ptr: "returns table_ok (bp_set i (mask_pointer_update (\<lambda>_. of_nat j)) new)"
    if "table_ok new" "j < MAX_TOTAL_BREAKPOINTS2" for j new
    using that assms(3,4) by (intro returns_bp_set) (auto simp: entry_ok_def code_defs unat_of_nat take_bit_nat_eq_self)
  show "returns (\<lambda>(r, new). table_ok new) (do {
     tbl \<leftarrow> bp_set i (\<lambda>b. b\<lparr>last_bp := False, enabled := True, address := addr, bp_type := type\<rparr>) new;
     if len > 1 \<and> type \<noteq> CODE then
       (let mask = push_bit (ffs len - 1) 1 in
        if mask \<noteq> len then add_fail i tbl
        else if addr AND (mask - 1) \<noteq> 0 then add_fail i tbl
        else do {
          let mask = NOT (mask - 1);
          tbl \<leftarrow> bp_set i (bp_type_update (\<lambda>_. type OR HAS_MASK)) tbl;
          (added, tbl) \<leftarrow> addBreakpoint (Some flags) dw mask DATA_MASK 1 tbl;
          if \<not> added then add_fail i tbl
          else do {
            here \<leftarrow> cell tbl i;
            j \<leftarrow> bp_scan (\<lambda>b. bp_type b = DATA_MASK \<and> address here = mask) tbl;
            tbl \<leftarrow> bp_set i (mask_pointer_update (\<lambda>_. of_nat j)) tbl;
            add_download (Some flags) dw i tbl } })
     else add_download (Some flags) dw i tbl })"
    unfolding Let_def
    apply (rule returns_bind [OF set])
    apply simp_all [2]
    apply (rule new)
    apply (intro returns_if add_fail_ok add_download_ok assms(3))
    apply assumption+
    apply (rule returns_bind [OF set])
    apply simp_all [2]
    apply assumption
    apply (rule returns_bind [OF assms(1)])
    apply blast
    apply assumption
    apply (simp only: split_paired_all prod.case)
    apply (intro returns_if add_fail_ok assms(3))
    apply assumption
    apply (rule returns_bind [OF returns_cell [OF _ assms(3)]])
    apply assumption
    apply (rule returns_bind [OF bp_scan_result])
    apply assumption
    apply (rule returns_bind [OF ptr])
    apply assumption
    apply blast
    apply (rule add_download_ok [OF _ assms(3)])
    apply assumption+
    done
qed

lemma addBreakpoint_step_ok:
  assumes "\<And>mask new. len > 1 \<Longrightarrow> table_ok new \<Longrightarrow>
      returns (\<lambda>(r, new). table_ok new) (addBreakpoint (Some flags) dw mask DATA_MASK 1 new)"
    and "table_ok tbl"
  shows "returns (\<lambda>(r, new). table_ok new) (addBreakpoint (Some flags) dw addr type len tbl)"
  unfolding addBreakpoint_entry
proof (rule returns_bind [OF bp_scan_result [OF assms(2)]], elim conjE)
  fix i assume i: "i < MAX_TOTAL_BREAKPOINTS2"
  show "returns (\<lambda>(r, new). table_ok new) (do {
     b \<leftarrow> cell tbl i;
     tbl \<leftarrow> (if last_bp b then Some tbl else bp_set i (enabled_update (\<lambda>_. True)) tbl);
     b \<leftarrow> cell tbl i;
     if \<not> enabled b \<or> address b \<noteq> addr \<or> bp_type b = type then do {
       i \<leftarrow> (if Suc i = MAX_TOTAL_BREAKPOINTS2 then unused_scan tbl else Some i);
       if Suc i = MAX_TOTAL_BREAKPOINTS2 then Some (False, tbl)
       else add_entry (Some flags) dw addr type len i tbl }
     else add_download (Some flags) dw i tbl })"
  proof (rule returns_bind [OF returns_cell [OF assms(2) i]], rule returns_bind [where Q = table_ok])
    fix b assume b: "b = tbl ! i \<and> entry_ok i b"
    show "returns table_ok (if last_bp b then Some tbl else bp_set i (enabled_update (\<lambda>_. True)) tbl)"
      using b assms(2) i by (auto simp: bp_set_eq table_ok_length returns_def entry_ok_def intro!: table_ok_update)
  next
    fix new assume new: "table_ok new"
    show "returns (\<lambda>(r, new). table_ok new) (do {
     b \<leftarrow> cell new i;
     if \<not> enabled b \<or> address b \<noteq> addr \<or> bp_type b = type then do {
       i \<leftarrow> (if Suc i = MAX_TOTAL_BREAKPOINTS2 then unused_scan new else Some i);
       if Suc i = MAX_TOTAL_BREAKPOINTS2 then Some (False, new)
       else add_entry (Some flags) dw addr type len i new }
     else add_download (Some flags) dw i new })"
    proof (rule returns_bind [OF returns_cell [OF new i]], rule returns_if,
        rule returns_bind [where Q = "\<lambda>j. j < MAX_TOTAL_BREAKPOINTS2"])
      show "returns (\<lambda>j. j < MAX_TOTAL_BREAKPOINTS2) (if Suc i = MAX_TOTAL_BREAKPOINTS2 then unused_scan new else Some i)"
        using i by (auto intro!: returns returns_mono [OF unused_scan_result [OF new]])
    qed (use new i assms(1) in \<open>auto intro!: returns add_entry_ok add_download_ok\<close>)
  qed
qed

lemma addBreakpoint_ok:
  assumes "table_ok tbl"
  shows "returns (\<lambda>(r, new). table_ok new) (addBreakpoint (Some flags) dw addr type len tbl)"
  by (rule addBreakpoint_step_ok [OF addBreakpoint_step_ok assms]) simp_all

lemma deleteBreakpoint_ok:
  assumes "table_ok tbl"
  shows "returns (\<lambda>(r, new). table_ok new) (deleteBreakpoint (Some flags) dw addr type len tbl)"
  unfolding deleteBreakpoint_def
proof (rule returns_bind [OF bp_scan_result [OF assms]], elim conjE)
  fix i assume i: "i < MAX_TOTAL_BREAKPOINTS2"
  have set: "returns table_ok (bp_set i (\<lambda>b. b\<lparr>toadd := False, toremove := icestatus b\<rparr>) new)" if "table_ok new" for new
    using that i by (intro returns_bp_set) (auto simp: entry_ok_def)
  show "returns (\<lambda>(r, new). table_ok new) (do {
     b \<leftarrow> cell tbl i;
     tbl \<leftarrow> (if last_bp b then Some tbl else bp_set i (enabled_update (\<lambda>_. False)) tbl);
     b \<leftarrow> cell tbl i;
     if enabled b \<or> address b \<noteq> addr \<or> bp_type b \<noteq> type then Some (False, tbl)
     else do {
       tbl \<leftarrow> bp_set i (\<lambda>b. b\<lparr>toadd := False, toremove := icestatus b\<rparr>) tbl;
       (room, tbl) \<leftarrow> layoutBreakpoints (Some flags) dw tbl;
       Some (True, tbl) } })"
    apply (rule returns_bind [OF returns_cell [OF assms i]])
    apply (rule returns_bind [where Q = table_ok])
    apply (force intro!: returns returns_bp_set assms i simp: entry_ok_def)
    apply (rule returns_bind [OF returns_cell [OF _ i]])
    apply assumption
    apply (rule returns_if)
    apply (force intro: returns)
    apply (rule returns_bind [OF set])
    apply assumption
    apply (rule returns_bind [OF layout_table_ok])
    apply assumption
    apply (force intro: returns)
    done
qed

section \<open>Code breakpoints as a set\<close>

text \<open>The entries in use, and the one that holds the code breakpoint at an address.\<close>

definition live :: "bp_table \<Rightarrow> nat \<Rightarrow> bool" where
  "live tbl i \<longleftrightarrow> i < length tbl \<and> (\<forall>j \<le> i. \<not> last_bp (tbl ! j))"

definition code_at :: "u32 \<Rightarrow> bp_table \<Rightarrow> nat \<Rightarrow> bool" where
  "code_at addr tbl i \<longleftrightarrow> live tbl i \<and> address (tbl ! i) = addr \<and> bp_type (tbl ! i) = CODE"

lemma live_Cons: "live (b # bs) i \<longleftrightarrow> \<not> last_bp b \<and> (case i of 0 \<Rightarrow> True | Suc k \<Rightarrow> live bs k)"
  by (cases i) (auto simp add: live_def less_Suc_eq_le [symmetric] All_less_Suc2)

lemma ex_nat: "(\<exists>i :: nat. P i) \<longleftrightarrow> P 0 \<or> (\<exists>i. P (Suc i))"
  by (metis not0_implies_Suc)

lemma codeBreakpointAt_eq:
  "\<exists>i < length tbl. last_bp (tbl ! i) \<Longrightarrow>
     codeBreakpointAt addr tbl = Some (\<exists>i. code_at addr tbl i \<and> enabled (tbl ! i))"
proof (induction tbl)
  case (Cons b bs)
  show ?case
  proof (cases "last_bp b")
    case True
    then show ?thesis by (simp add: code_at_def live_Cons)
  next
    case False
    then have "\<exists>i < length bs. last_bp (bs ! i)"
      using Cons.prems by (auto simp: less_Suc_eq_0_disj)
    then have IH: "codeBreakpointAt addr bs = Some (\<exists>i. code_at addr bs i \<and> enabled (bs ! i))"
      by (rule Cons.IH)
    have "(\<exists>i. code_at addr (b # bs) i \<and> enabled ((b # bs) ! i)) \<longleftrightarrow>
        (address b = addr \<and> bp_type b = CODE \<and> enabled b) \<or> (\<exists>i. code_at addr bs i \<and> enabled (bs ! i))"
      using False by (subst ex_nat) (simp add: code_at_def live_Cons)
    with False IH show ?thesis by auto
  qed
qed simp

definition code_set :: "bp_table \<Rightarrow> u32 set" where
  "code_set tbl = {addr. \<exists>i. code_at addr tbl i \<and> enabled (tbl ! i)}"

definition code_types :: "bp_table \<Rightarrow> bool" where
  "code_types tbl \<longleftrightarrow> (\<forall>i < length tbl. (bp_type (tbl ! i) = NONE \<or> bp_type (tbl ! i) = CODE) \<and>
     (last_bp (tbl ! i) \<longrightarrow> \<not> enabled (tbl ! i)))"

text \<open>A table with code breakpoints only, each address at most once.\<close>

definition code_table :: "bp_table \<Rightarrow> bool" where
  "code_table tbl \<longleftrightarrow> table_ok tbl \<and> code_types tbl \<and>
     (\<forall>addr i j. code_at addr tbl i \<longrightarrow> code_at addr tbl j \<longrightarrow> i = j)"

lemma code_types_simps:
  assumes "code_types tbl" "i < length tbl"
  shows "\<not> is_data (bp_type (tbl ! i))" "\<not> has_mask (bp_type (tbl ! i))"
proof -
  have "\<not> is_data NONE" "\<not> is_data CODE" "\<not> has_mask NONE" "\<not> has_mask CODE"
    by (simp_all add: is_data_def has_mask_def code_defs)
  then show "\<not> is_data (bp_type (tbl ! i))" "\<not> has_mask (bp_type (tbl ! i))"
    using assms unfolding code_types_def by metis+
qed

lemma code_types_no_ranges: "code_types tbl \<Longrightarrow> no_ranges tbl"
  by (simp add: no_ranges_def code_types_simps)

lemma codeBreakpointAt_set: "table_ok tbl \<Longrightarrow> codeBreakpointAt addr tbl = Some (addr \<in> code_set tbl)"
  using codeBreakpointAt_eq [of tbl addr] table_ok_31 [of tbl] by (auto simp: code_set_def)

lemma place_data_code:
  "code_types tbl \<Longrightarrow> place_data is hadroom slots tbl = Some (r, slots', new) \<Longrightarrow> r = hadroom \<and> slots' = slots \<and> new = tbl"
proof (induction "is")
  case (Cons i "is")
  then show ?case
    by (auto simp: place_data_at_def cell_def code_types_simps Option.bind_eq_Some_conv split: if_splits)
qed simp

lemma place_code_soft: "place_code is True hadroom slots tbl = Some (r, new) \<Longrightarrow> r = hadroom"
proof (induction "is" arbitrary: slots tbl)
  case (Cons i "is")
  then show ?case
    by (auto simp: Let_def Option.bind_eq_Some_conv code_defs split: if_splits)
qed simp

lemma layout_code:
  assumes "table_ok tbl" "code_types tbl" "flags \<noteq> DEVFL_NO_SOFTBP"
  obtains new where "layoutBreakpoints (Some flags) dw tbl = Some (True, new)" "table_ok new" "layout_rel tbl new"
proof -
  obtain room new where new: "layoutBreakpoints (Some flags) dw tbl = Some (room, new)" "place_post tbl new"
    using layout_result [OF assms(1), of flags dw] by (auto simp: returns_def)
  then obtain slots room' slots' tbl' where "place_data bp_indices True slots tbl = Some (room', slots', tbl')"
      "place_code bp_indices True room' slots' tbl' = Some (room, new)"
    using assms(3) by (auto simp: layoutBreakpoints_def Option.bind_eq_Some_conv)
  then have "room"
    using place_data_code [OF assms(2)] place_code_soft by blast
  with new that show ?thesis
    by (auto dest: place_post_ok)
qed

lemma layout_rel_code:
  assumes "layout_rel tbl new"
  shows "live new i = live tbl i" "code_at addr new i = code_at addr tbl i" "code_types tbl \<Longrightarrow> code_types new"
    and "no_ranges tbl \<Longrightarrow> code_set new = code_set tbl"
proof -
  show l: "live new i = live tbl i" for i
    using assms by (auto simp: live_def layout_rel_def laid_out_def)
  show c: "code_at addr new i = code_at addr tbl i" for addr i
    using assms l [of i] by (auto simp: code_at_def live_def layout_rel_def laid_out_def)
  show "code_types new" if "code_types tbl"
    using assms that by (auto simp: code_types_def layout_rel_def laid_out_def)
  show "code_set new = code_set tbl" if "no_ranges tbl"
    using assms that unfolding code_set_def c by (auto simp: code_at_def live_def layout_rel_def)
qed

lemma code_table_layout: "code_table tbl \<Longrightarrow> table_ok new \<Longrightarrow> layout_rel tbl new \<Longrightarrow> code_table new"
  unfolding code_table_def by (simp add: layout_rel_code)

lemma code_table_ok: "code_table tbl \<Longrightarrow> table_ok tbl" "code_table tbl \<Longrightarrow> code_types tbl"
  by (simp_all add: code_table_def)

text \<open>The download flags agree with what is in the box: an enabled entry is either there or to be added,
  a disabled one is removed next when it is there.\<close>

definition in_step :: "breakpoint2 \<Rightarrow> bool" where
  "in_step b \<longleftrightarrow> (if enabled b then icestatus b \<noteq> toadd b \<and> \<not> toremove b else icestatus b = toremove b)"

definition flags_ok :: "bp_table \<Rightarrow> bool" where
  "flags_ok tbl \<longleftrightarrow> (\<forall>k. live tbl k \<longrightarrow> in_step (tbl ! k))"

lemma flags_ok_layout:
  assumes "layout_rel tbl new" "no_ranges tbl"
  shows "flags_ok new = flags_ok tbl"
  using assms layout_rel_code(1) [OF assms(1)] unfolding flags_ok_def
  by (auto simp: live_def layout_rel_def laid_out_def in_step_def)

text \<open>Changing the download flags of an entry.\<close>

text \<open>The core of an entry for the set of code breakpoints.\<close>

definition same_code :: "breakpoint2 \<Rightarrow> breakpoint2 \<Rightarrow> bool" where
  "same_code b c \<longleftrightarrow> address c = address b \<and> bp_type c = bp_type b \<and> last_bp c = last_bp b \<and> enabled c = enabled b"

lemma same_code_table:
  assumes "code_table tbl" "table_ok new" "\<forall>k < length tbl. same_code (tbl ! k) (new ! k)"
  shows "code_table new" "code_set new = code_set tbl"
proof -
  have len: "length new = length tbl"
    using assms(1,2) by (simp add: code_table_def table_ok_length)
  have l: "live new k = live tbl k" for k
    using assms(3) len by (auto simp: live_def same_code_def)
  have c: "code_at addr new k = code_at addr tbl k" for addr k
    using assms(3) len l by (auto simp: code_at_def live_def same_code_def)
  have "code_types new"
    using code_table_ok(2) [OF assms(1)] assms(3) len by (auto simp: code_types_def same_code_def)
  with assms(1,2) show "code_table new"
    unfolding code_table_def c by simp
  show "code_set new = code_set tbl"
    using assms(3) unfolding code_set_def c by (auto simp: code_at_def live_def same_code_def)
qed

lemma flags_update:
  assumes "code_table tbl" "i < length tbl" "entry_ok i (tbl ! i) \<Longrightarrow> entry_ok i b" "same_code (tbl ! i) b"
  shows "code_table (tbl[i := b])" "code_set (tbl[i := b]) = code_set tbl"
proof -
  have "table_ok (tbl[i := b])"
    using table_ok_update [OF code_table_ok(1) [OF assms(1)]] assms(3) by blast
  moreover have "\<forall>k < length tbl. same_code (tbl ! k) (tbl[i := b] ! k)"
    using assms(2,4) by (simp add: nth_list_update same_code_def)
  ultimately show "code_table (tbl[i := b])" "code_set (tbl[i := b]) = code_set tbl"
    by (rule same_code_table [OF assms(1)])+
qed

lemma add_download_code:
  assumes "code_table tbl" "flags \<noteq> DEVFL_NO_SOFTBP" "i < MAX_TOTAL_BREAKPOINTS2"
  obtains new where "add_download (Some flags) dw i tbl = Some (True, new)" "code_table new" "code_set new = code_set tbl"
    "enabled (tbl ! i) \<Longrightarrow> (\<And>k. live tbl k \<Longrightarrow> k \<noteq> i \<Longrightarrow> in_step (tbl ! k)) \<Longrightarrow> flags_ok new"
proof -
  let ?f = "\<lambda>b. b\<lparr>toadd := \<not> icestatus b, toremove := False\<rparr>"
  define t where "t = tbl[i := ?f (tbl ! i)]"
  have i: "i < length tbl"
    using assms by (simp add: code_table_def table_ok_length)
  have "entry_ok i (tbl ! i) \<Longrightarrow> entry_ok i (?f (tbl ! i))" "same_code (tbl ! i) (?f (tbl ! i))"
    by (simp_all add: entry_ok_def same_code_def)
  from flags_update [OF assms(1) i this] have t: "code_table t" "code_set t = code_set tbl"
    unfolding t_def by blast+
  obtain new where new: "layoutBreakpoints (Some flags) dw t = Some (True, new)" "table_ok new" "layout_rel t new"
    using layout_code [OF code_table_ok [OF t(1)] assms(2)] by blast
  have "add_download (Some flags) dw i tbl = Some (True, new)"
    using new(1) i by (simp add: add_download_def bp_set_eq t_def)
  moreover have nr: "no_ranges t"
    using code_types_no_ranges [OF code_table_ok(2)] t by simp
  then have "code_set new = code_set tbl"
    using layout_rel_code(4) [OF new(3)] t by simp
  moreover have "flags_ok new" if "enabled (tbl ! i)" "\<And>k. live tbl k \<Longrightarrow> k \<noteq> i \<Longrightarrow> in_step (tbl ! k)"
  proof -
    have "live t k = live tbl k" for k
      using i by (auto simp: live_def t_def nth_list_update)
    moreover have "in_step (t ! i)"
      using that(1) i by (simp add: t_def in_step_def)
    moreover have "t ! k = tbl ! k" if "k \<noteq> i" for k
      using that by (simp add: t_def)
    ultimately have "flags_ok t"
      using that(2) unfolding flags_ok_def by metis
    then show ?thesis
      using flags_ok_layout [OF new(3) nr] by simp
  qed
  ultimately show ?thesis
    using that code_table_layout [OF t(1) new(2,3)] by blast
qed

text \<open>Writing the breakpoint at \<open>addr\<close> into an entry that held it, that is free, or that is disabled
  while no other entry holds it.\<close>

lemma code_entry:
  assumes "code_table tbl" "table_ok new" "code_types new"
    and "\<And>k. live new k \<longleftrightarrow> live tbl k \<or> k = i" "\<And>k. live tbl k \<Longrightarrow> k \<noteq> i \<Longrightarrow> new ! k = tbl ! k"
    and "address (new ! i) = addr" "bp_type (new ! i) = CODE" "enabled (new ! i)"
    and "live tbl i \<Longrightarrow> code_at addr tbl i \<or> \<not> enabled (tbl ! i)"
    and "\<And>k. code_at addr tbl k \<Longrightarrow> k = i"
  shows "code_table new" "code_set new = insert addr (code_set tbl)"
proof -
  have c: "code_at b new k \<longleftrightarrow> (k \<noteq> i \<and> code_at b tbl k) \<or> (k = i \<and> b = addr)" for b k
    using assms(4-7) by (cases "k = i") (auto simp: code_at_def)
  show "code_table new"
    using assms(1-3,10) unfolding code_table_def c by blast
  show "code_set new = insert addr (code_set tbl)"
  proof (rule set_eqI)
    fix b
    have e: "new ! k = tbl ! k" if "k \<noteq> i" "code_at b tbl k" for k
      using that assms(5) by (simp add: code_at_def)
    have i: "code_at b tbl i \<Longrightarrow> enabled (tbl ! i) \<Longrightarrow> b = addr"
      using assms(9) by (auto simp: code_at_def)
    have "(\<exists>k. ((k \<noteq> i \<and> code_at b tbl k) \<or> (k = i \<and> b = addr)) \<and> enabled (new ! k)) \<longleftrightarrow>
        b = addr \<or> (\<exists>k. code_at b tbl k \<and> enabled (tbl ! k))"
      using e i assms(8) by metis
    then show "b \<in> code_set new \<longleftrightarrow> b \<in> insert addr (code_set tbl)"
      unfolding code_set_def c by simp
  qed
qed

lemma first_last_live: "\<forall>j < i. \<not> last_bp (tbl ! j) \<Longrightarrow> last_bp (tbl ! i) \<Longrightarrow> i < length tbl \<Longrightarrow> live tbl k \<longleftrightarrow> k < i"
  unfolding live_def by (meson leI le_less_trans less_imp_le_nat not_less order.strict_trans)

lemma addBreakpoint_code:
  assumes "code_table tbl" "flags \<noteq> DEVFL_NO_SOFTBP"
  shows "\<exists>r new. addBreakpoint (Some flags) dw addr CODE len tbl = Some (r, new) \<and> code_table new \<and>
    code_set new = (if r then insert addr (code_set tbl) else code_set tbl) \<and> (flags_ok tbl \<longrightarrow> flags_ok new)"
proof -
  let ?new = "\<lambda>b. b\<lparr>last_bp := False, enabled := True, address := addr, bp_type := CODE\<rparr>"
  let ?fin = "\<lambda>b. b\<lparr>last_bp := True, enabled := False, address := 0, bp_type := NONE\<rparr>"
  note ok = code_table_ok [OF assms(1)]
  note len = table_ok_length [OF ok(1)]
  obtain i where scan: "bp_scan (\<lambda>b. address b = addr \<and> bp_type b = CODE) tbl = Some i" "i < MAX_TOTAL_BREAKPOINTS2"
    "last_bp (tbl ! i) \<or> address (tbl ! i) = addr \<and> bp_type (tbl ! i) = CODE"
    "\<forall>j < i. \<not> last_bp (tbl ! j) \<and> \<not> (address (tbl ! j) = addr \<and> bp_type (tbl ! j) = CODE)"
    using bp_scan_result [OF ok(1), of "\<lambda>b. address b = addr \<and> bp_type b = CODE"] by (auto simp: returns_def)
  have ce: "cell tbl i = Some (tbl ! i)"
    using scan(2) by (simp add: cell_def len)
  have finish: ?thesis
    if "addBreakpoint (Some flags) dw addr CODE len tbl = add_download (Some flags) dw j t" "code_table t"
      "code_set t = insert addr (code_set tbl)" "j < MAX_TOTAL_BREAKPOINTS2"
      "enabled (t ! j)" "\<And>k. live t k \<Longrightarrow> k \<noteq> j \<Longrightarrow> live tbl k \<and> t ! k = tbl ! k" for j t
  proof (rule add_download_code [OF that(2) assms(2) that(4)])
    fix new assume new: "add_download (Some flags) dw j t = Some (True, new)" "code_table new" "code_set new = code_set t"
      "enabled (t ! j) \<Longrightarrow> (\<And>k. live t k \<Longrightarrow> k \<noteq> j \<Longrightarrow> in_step (t ! k)) \<Longrightarrow> flags_ok new"
    have "flags_ok new" if "flags_ok tbl"
      using new(4) that \<open>enabled (t ! j)\<close> \<open>\<And>k. live t k \<Longrightarrow> k \<noteq> j \<Longrightarrow> live tbl k \<and> t ! k = tbl ! k\<close>
      by (simp add: flags_ok_def)
    with new(1-3) that(1,3) show ?thesis
      by (intro exI [of _ True] exI [of _ new]) simp
  qed
  have new_ok: "table_ok (t[j := ?new (t ! j)])" "code_types (t[j := ?new (t ! j)])"
    if "table_ok t" "code_types t" "Suc j < MAX_TOTAL_BREAKPOINTS2" for j t
  proof -
    show "table_ok (t[j := ?new (t ! j)])"
      using that(1,3) by (intro table_ok_update) (auto simp: entry_ok_def)
    show "code_types (t[j := ?new (t ! j)])"
      using that by (auto simp: code_types_def nth_list_update table_ok_length)
  qed
  show ?thesis
  proof (cases "last_bp (tbl ! i)")
    case False
    then have at: "code_at addr tbl i" "Suc i < MAX_TOTAL_BREAKPOINTS2"
      using scan table_ok_last [OF ok(1), of i] by (auto simp: code_at_def live_def len le_less)
    define t where "t = tbl[i := ?new (tbl ! i)]"
    have t: "table_ok t" "code_types t"
      unfolding t_def by (rule new_ok [OF ok at(2)])+
    have l: "live t k \<longleftrightarrow> live tbl k \<or> k = i" for k
      using False at by (auto simp: live_def t_def code_at_def nth_list_update)
    have u: "k = i" if "code_at addr tbl k" for k
      using that at(1) assms(1) by (simp add: code_table_def)
    have "code_table t" "code_set t = insert addr (code_set tbl)"
      by (rule code_entry [OF assms(1) t l _ _ _ _ _ u, of addr]; use scan(2) at(1) in \<open>simp add: t_def len\<close>)+
    moreover have "addBreakpoint (Some flags) dw addr CODE len tbl = add_download (Some flags) dw i t"
      using False scan(1,2,3) ce at(2)
      by (simp add: addBreakpoint_entry bp_set_eq len cell_def add_entry_def t_def)
    moreover have "enabled (t ! i)" "\<And>k. live t k \<Longrightarrow> k \<noteq> i \<Longrightarrow> live tbl k \<and> t ! k = tbl ! k"
      using l scan(2) by (simp_all add: t_def len)
    ultimately show ?thesis
      using finish scan(2) by blast
  next
    case True
    have live: "live tbl k \<longleftrightarrow> k < i" for k
      by (rule first_last_live) (use scan(2,4) True len in auto)
    have none: "\<not> code_at addr tbl k" for k
      using live [of k] scan(4) by (auto simp: code_at_def)
    have "\<not> enabled (tbl ! i)"
      using ok(2) True scan(2) len by (simp add: code_types_def)
    then have e: "addBreakpoint (Some flags) dw addr CODE len tbl = (do {
         i \<leftarrow> (if Suc i = MAX_TOTAL_BREAKPOINTS2 then unused_scan tbl else Some i);
         if Suc i = MAX_TOTAL_BREAKPOINTS2 then Some (False, tbl)
         else add_entry (Some flags) dw addr CODE len i tbl })"
      using True scan(1,2) ce by (simp add: addBreakpoint_entry)
    show ?thesis
    proof (cases "Suc i = MAX_TOTAL_BREAKPOINTS2")
      case False
      then have si: "Suc i < MAX_TOTAL_BREAKPOINTS2" using scan(2) by simp
      define t1 where "t1 = tbl[Suc i := ?fin (tbl ! Suc i)]"
      have t1: "table_ok t1" "code_types t1"
        unfolding t1_def using ok si
        by (auto intro!: table_ok_update simp: entry_ok_def code_types_def nth_list_update len)
      define t where "t = t1[i := ?new (t1 ! i)]"
      have t: "table_ok t" "code_types t"
        unfolding t_def by (rule new_ok [OF t1 si])+
      have nth: "t ! k = (if k = i then ?new (tbl ! i) else if k = Suc i then ?fin (tbl ! Suc i) else tbl ! k)" for k
        using si by (simp add: t_def t1_def len nth_list_update)
      have l: "live t k \<longleftrightarrow> live tbl k \<or> k = i" for k
      proof -
        have "live t k \<longleftrightarrow> k < Suc i"
          by (rule first_last_live) (use scan(4) si in \<open>auto simp: nth t_def t1_def len less_Suc_eq\<close>)
        then show ?thesis unfolding live by auto
      qed
      have "code_table t" "code_set t = insert addr (code_set tbl)"
        by (rule code_entry [OF assms(1) t l, of addr]; use live none in \<open>simp add: nth\<close>)+
      moreover have "addBreakpoint (Some flags) dw addr CODE len tbl = add_download (Some flags) dw i t"
        using False True si by (simp add: e add_entry_def ce bp_set_eq len t_def t1_def)
      moreover have "enabled (t ! i)" "\<And>k. live t k \<Longrightarrow> k \<noteq> i \<Longrightarrow> live tbl k \<and> t ! k = tbl ! k"
        using l live by (simp_all add: nth)
      ultimately show ?thesis
        using finish scan(2) by blast
    next
      case full: True
      obtain j where j: "unused_scan tbl = Some j" "j < MAX_TOTAL_BREAKPOINTS2" "\<not> enabled (tbl ! j)"
        using unused_scan_result [OF ok(1)] by (auto simp: returns_def)
      show ?thesis
      proof (cases "Suc j = MAX_TOTAL_BREAKPOINTS2")
        case True
        then show ?thesis
          using e full j assms(1) by (intro exI [of _ False] exI [of _ tbl]) simp
      next
        case False
        then have sj: "Suc j < MAX_TOTAL_BREAKPOINTS2" "j < i" using j(2) full by simp_all
        have nl: "\<not> last_bp (tbl ! j)"
          using scan(4) sj(2) by blast
        define t where "t = tbl[j := ?new (tbl ! j)]"
        have t: "table_ok t" "code_types t"
          unfolding t_def by (rule new_ok [OF ok sj(1)])+
        have l: "live t k \<longleftrightarrow> live tbl k \<or> k = j" for k
          using nl live [of j] sj by (auto simp: live_def t_def nth_list_update)
        have "code_table t" "code_set t = insert addr (code_set tbl)"
          by (rule code_entry [OF assms(1) t l, of addr]; use j none in \<open>simp add: t_def len\<close>)+
        moreover have "addBreakpoint (Some flags) dw addr CODE len tbl = add_download (Some flags) dw j t"
          using False full j nl by (simp add: e add_entry_def cell_def bp_set_eq len t_def)
        moreover have "enabled (t ! j)" "\<And>k. live t k \<Longrightarrow> k \<noteq> j \<Longrightarrow> live tbl k \<and> t ! k = tbl ! k"
          using l j(2) by (simp_all add: t_def len)
        ultimately show ?thesis
          using finish j(2) by blast
      qed
    qed
  qed
qed

lemma deleteBreakpoint_code:
  assumes "code_table tbl" "flags \<noteq> DEVFL_NO_SOFTBP"
  shows "\<exists>r new. deleteBreakpoint (Some flags) dw addr CODE len tbl = Some (r, new) \<and> code_table new \<and>
    code_set new = code_set tbl - {addr} \<and> (\<not> r \<longrightarrow> addr \<notin> code_set tbl) \<and> (flags_ok tbl \<longrightarrow> flags_ok new)"
proof -
  note ok = code_table_ok [OF assms(1)]
  note len = table_ok_length [OF ok(1)]
  obtain i where scan: "bp_scan (\<lambda>b. address b = addr \<and> bp_type b = CODE) tbl = Some i" "i < MAX_TOTAL_BREAKPOINTS2"
    "last_bp (tbl ! i) \<or> address (tbl ! i) = addr \<and> bp_type (tbl ! i) = CODE"
    "\<forall>j < i. \<not> last_bp (tbl ! j) \<and> \<not> (address (tbl ! j) = addr \<and> bp_type (tbl ! j) = CODE)"
    using bp_scan_result [OF ok(1), of "\<lambda>b. address b = addr \<and> bp_type b = CODE"] by (auto simp: returns_def)
  define t where "t = (if last_bp (tbl ! i) then tbl else tbl[i := (tbl ! i)\<lparr>enabled := False\<rparr>])"
  have t: "code_table t \<and> code_set t = code_set tbl - {addr}"
  proof (cases "last_bp (tbl ! i)")
    case True
    then have "live tbl k \<longleftrightarrow> k < i" for k
      by (intro first_last_live) (use scan(2,4) len in auto)
    then have "\<not> code_at addr tbl k" for k
      using scan(4) by (auto simp: code_at_def)
    then have "addr \<notin> code_set tbl"
      by (simp add: code_set_def)
    with True assms(1) show ?thesis by (simp add: t_def)
  next
    case False
    then have at: "code_at addr tbl i"
      using scan by (auto simp: code_at_def live_def len le_less)
    have nth: "t ! k = (if k = i then (tbl ! i)\<lparr>enabled := False\<rparr> else tbl ! k)" for k
      using False scan(2) by (simp add: t_def len)
    have tl: "length t = length tbl" using False by (simp add: t_def)
    have c: "code_at b t k = code_at b tbl k" for b k
      using tl by (auto simp: code_at_def live_def nth)
    have "table_ok t"
      using False ok(1) by (auto simp: t_def entry_ok_def intro!: table_ok_update)
    moreover have "code_types t"
      using ok(2) tl by (auto simp: code_types_def nth)
    ultimately have "code_table t"
      using assms(1) unfolding code_table_def c by blast
    moreover have "code_set t = code_set tbl - {addr}"
    proof (rule set_eqI)
      fix b
      have u: "k = i" if "code_at addr tbl k" for k
        using that at assms(1) by (simp add: code_table_def)
      have b: "b = addr" if "code_at b tbl i"
        using that at by (simp add: code_at_def)
      have n: "\<not> enabled (t ! i)" "k \<noteq> i \<Longrightarrow> t ! k = tbl ! k" for k
        by (simp_all add: nth)
      show "b \<in> code_set t \<longleftrightarrow> b \<in> code_set tbl - {addr}"
        unfolding code_set_def c mem_Collect_eq Diff_iff singleton_iff using u b n by metis
    qed
    ultimately show ?thesis by blast
  qed
  note tok = code_table_ok [OF conjunct1 [OF t]]
  have tl: "length t = MAX_TOTAL_BREAKPOINTS2"
    by (rule table_ok_length [OF tok(1)])
  have run: "deleteBreakpoint (Some flags) dw addr CODE len tbl = do {
     b \<leftarrow> cell t i;
     if enabled b \<or> address b \<noteq> addr \<or> bp_type b \<noteq> CODE then Some (False, t)
     else do {
       tbl \<leftarrow> bp_set i (\<lambda>b. b\<lparr>toadd := False, toremove := icestatus b\<rparr>) t;
       (room, tbl) \<leftarrow> layoutBreakpoints (Some flags) dw tbl;
       Some (True, tbl) } }"
    using scan(1,2) len by (auto simp: deleteBreakpoint_def cell_def bp_set_eq t_def)
  show ?thesis
  proof (cases "enabled (t ! i) \<or> address (t ! i) \<noteq> addr \<or> bp_type (t ! i) \<noteq> CODE")
    case True
    have "last_bp (tbl ! i)"
      using True scan(2,3) len by (auto simp: t_def split: if_splits)
    then have "t = tbl" by (simp add: t_def)
    then have "addr \<notin> code_set tbl" using t by blast
    with True t \<open>t = tbl\<close> show ?thesis
      using run scan(2) tl by (intro exI [of _ False] exI [of _ t]) (simp add: cell_def)
  next
    case False
    let ?f = "\<lambda>b. b\<lparr>toadd := False, toremove := icestatus b\<rparr>"
    have i: "i < length t" using scan(2) tl by simp
    have u: "code_table (t[i := ?f (t ! i)])" "code_set (t[i := ?f (t ! i)]) = code_set t"
      by (rule flags_update [OF conjunct1 [OF t] i]; simp add: entry_ok_def same_code_def)+
    obtain new where new: "layoutBreakpoints (Some flags) dw (t[i := ?f (t ! i)]) = Some (True, new)" "table_ok new"
        "layout_rel (t[i := ?f (t ! i)]) new"
      using layout_code [OF code_table_ok [OF u(1)] assms(2)] by blast
    have "code_set new = code_set tbl - {addr}"
      using layout_rel_code(4) [OF new(3)] code_types_no_ranges [OF code_table_ok(2) [OF u(1)]] u(2) t by simp
    moreover have "flags_ok new" if f: "flags_ok tbl"
    proof -
      have "live (t[i := ?f (t ! i)]) k = live tbl k" for k
        using i scan(2) len by (auto simp: live_def t_def nth_list_update)
      moreover have "in_step (t[i := ?f (t ! i)] ! k)" if "live tbl k" for k
      proof (cases "k = i")
        case True
        with False i show ?thesis by (simp add: in_step_def)
      next
        case ne: False
        then have "t[i := ?f (t ! i)] ! k = tbl ! k"
          by (simp add: t_def)
        with f that show ?thesis
          unfolding flags_ok_def by metis
      qed
      ultimately have "flags_ok (t[i := ?f (t ! i)])"
        by (simp add: flags_ok_def)
      then show ?thesis
        using flags_ok_layout [OF new(3) code_types_no_ranges [OF code_table_ok(2) [OF u(1)]]] by simp
    qed
    ultimately show ?thesis using False run new(1) i code_table_layout [OF u(1) new(2,3)]
      by (intro exI [of _ True] exI [of _ new]) (simp add: cell_def bp_set_eq)
  qed
qed

text \<open>The mkII table provides the contract of the debugger.\<close>

interpretation mk2_bp: code_breakpoint_set code_table codeBreakpointAt
    "\<lambda>addr. addBreakpoint (Some DEVFL_NONE) dw addr CODE 0" "\<lambda>addr. deleteBreakpoint (Some DEVFL_NONE) dw addr CODE 0" id
  for dw
proof unfold_locales
  fix t u :: bp_table and a b r
  have nf: "DEVFL_NONE \<noteq> DEVFL_NO_SOFTBP" by simp
  assume inv: "code_table t"
  note at = codeBreakpointAt_set [OF code_table_ok(1)]
  show "\<exists>r. codeBreakpointAt b t = Some r"
    using at [OF inv] by blast
  obtain ra ua where add: "addBreakpoint (Some DEVFL_NONE) dw a CODE 0 t = Some (ra, ua)" "code_table ua"
      "code_set ua = (if ra then insert a (code_set t) else code_set t)"
    using addBreakpoint_code [OF inv nf] by blast
  obtain rd ud where del: "deleteBreakpoint (Some DEVFL_NONE) dw a CODE 0 t = Some (rd, ud)" "code_table ud"
      "code_set ud = code_set t - {a}" "\<not> rd \<longrightarrow> a \<notin> code_set t"
    using deleteBreakpoint_code [OF inv nf] by blast
  show "\<exists>r u. addBreakpoint (Some DEVFL_NONE) dw a CODE 0 t = Some (r, u) \<and> code_table u"
    using add by blast
  show "\<exists>r u. deleteBreakpoint (Some DEVFL_NONE) dw a CODE 0 t = Some (r, u) \<and> code_table u"
    using del by blast
  show "codeBreakpointAt b u = Some ((r \<and> id b = id a) \<or> codeBreakpointAt b t = Some True)"
    if "addBreakpoint (Some DEVFL_NONE) dw a CODE 0 t = Some (r, u)"
    using that add at [OF inv] at [OF add(2)] by auto
  show "codeBreakpointAt b u = codeBreakpointAt b t"
    if "deleteBreakpoint (Some DEVFL_NONE) dw a CODE 0 t = Some (r, u)" "\<not> r \<or> id b \<noteq> id a"
    using that del at [OF inv] at [OF del(2)] by auto
  show "codeBreakpointAt a t \<noteq> Some True"
    if "deleteBreakpoint (Some DEVFL_NONE) dw a CODE 0 t = Some (False, u)"
    using that del at [OF inv] by auto
  show "codeBreakpointAt b t = Some True"
    if "deleteBreakpoint (Some DEVFL_NONE) dw a CODE 0 t = Some (r, u)" "codeBreakpointAt b u = Some True"
    using that del at [OF inv] at [OF del(2)] by auto
  show "codeBreakpointAt b u = Some False"
    if "deleteBreakpoint (Some DEVFL_NONE) dw a CODE 0 t = Some (True, u)" "id b = id a"
    using that del at [OF inv] at [OF del(2)] by auto
qed

section \<open>Properties\<close>

lemma deleteAllBreakpoints_result:
  "\<exists>i < length tbl. last_bp (tbl ! i) \<Longrightarrow> \<exists>new. deleteAllBreakpoints tbl = Some new \<and> length new = length tbl \<and>
     (\<forall>i < length tbl. new ! i = (if live tbl i then (tbl ! i)
        \<lparr>toremove := (if enabled (tbl ! i) \<and> icestatus (tbl ! i) then True else toremove (tbl ! i)), enabled := False\<rparr>
        else tbl ! i))"
proof (induction tbl)
  case (Cons b bs)
  show ?case
  proof (cases "last_bp b")
    case True
    then show ?thesis by (auto simp: live_Cons)
  next
    case False
    then have "\<exists>i < length bs. last_bp (bs ! i)"
      using Cons.prems by (auto simp: less_Suc_eq_0_disj)
    from Cons.IH [OF this] False show ?thesis
      by (auto simp: live_Cons nth_Cons split: nat.split)
  qed
qed simp

lemma deleteAllBreakpoints_ok:
  assumes "table_ok tbl"
  shows "\<exists>new. deleteAllBreakpoints tbl = Some new \<and> table_ok new \<and> code_set new = {}"
proof -
  have "\<exists>i < length tbl. last_bp (tbl ! i)"
    using table_ok_31 [OF assms] by blast
  from deleteAllBreakpoints_result [OF this] obtain new where
    new: "deleteAllBreakpoints tbl = Some new" "length new = length tbl" and
    nth: "\<And>i. i < length tbl \<Longrightarrow> new ! i = (if live tbl i then (tbl ! i)
        \<lparr>toremove := (if enabled (tbl ! i) \<and> icestatus (tbl ! i) then True else toremove (tbl ! i)), enabled := False\<rparr>
        else tbl ! i)"
    by blast
  have "\<not> live tbl 31"
    using table_ok_31 [OF assms] by (auto simp: live_def)
  then have "entry_ok i (new ! i)" if "i < length tbl" for i
  proof -
    have "entry_ok i (tbl ! i)"
      using assms that by (simp add: table_ok_def)
    with nth [OF that] \<open>\<not> live tbl 31\<close> show ?thesis
      by (cases "i = 31") (auto simp: entry_ok_def code_defs)
  qed
  with new have "table_ok new"
    using assms by (simp add: table_ok_def)
  moreover have "last_bp (new ! j) = last_bp (tbl ! j)" if "j < length tbl" for j
    by (simp add: nth [OF that])
  then have "live new i = live tbl i" for i
    unfolding live_def new(2) by (meson order.strict_trans1)
  then have "code_set new = {}"
    using nth new(2) by (auto simp: code_set_def code_at_def live_def)
  ultimately show ?thesis
    using new by blast
qed

text \<open>C14: no operation on a well-formed breakpoint table accesses an entry, a slot or a mask pointer out
  of bounds, for any address, type and length, and each leaves a well-formed table.\<close>

theorem breakpoint_table_safe:
  assumes "table_ok tbl"
  shows "(\<exists>r new. addBreakpoint (Some flags) dw addr type len tbl = Some (r, new) \<and> table_ok new) \<and>
    (\<exists>r new. deleteBreakpoint (Some flags) dw addr type len tbl = Some (r, new) \<and> table_ok new) \<and>
    (\<exists>new. deleteAllBreakpoints tbl = Some new \<and> table_ok new) \<and>
    (\<exists>room new. layoutBreakpoints (Some flags) dw tbl = Some (room, new) \<and> table_ok new) \<and>
    (\<exists>r. codeBreakpointAt addr tbl = Some r)"
  using addBreakpoint_ok [OF assms, of flags dw addr type len] deleteBreakpoint_ok [OF assms, of flags dw addr type len]
    deleteAllBreakpoints_ok [OF assms] layout_table_ok [OF assms, of flags dw] codeBreakpointAt_set [OF assms]
  by (auto simp: returns_def)


text \<open>The table the constructor makes.\<close>

definition fresh_table :: bp_table where
  "fresh_table = replicate MAX_TOTAL_BREAKPOINTS2 default_bp"

lemma fresh_code_table: "code_table fresh_table"
proof -
  have e: "fresh_table ! i = default_bp" if "i < 32" for i
    using that by (simp add: fresh_table_def code_defs)
  have "entry_ok i default_bp" for i
    by (simp add: entry_ok_def default_bp_def code_defs)
  then show ?thesis
    using e by (auto simp: code_table_def table_ok_def code_types_def code_at_def live_def fresh_table_def default_bp_def code_defs)
qed

lemma fresh_flags_ok: "flags_ok fresh_table"
  by (auto simp: flags_ok_def live_def fresh_table_def default_bp_def code_defs)

text \<open>From the table of a new driver, every sequence of insert and remove requests is carried out, and
  what \<open>codeBreakpointAt\<close> reports at the end was inserted by a request that reported success.\<close>

lemma breakpoint_requests:
  "\<exists>oks tbl. bp_run (\<lambda>addr. addBreakpoint (Some DEVFL_NONE) dw addr CODE 0)
       (\<lambda>addr. deleteBreakpoint (Some DEVFL_NONE) dw addr CODE 0) requests fresh_table = Some (oks, tbl) \<and>
     length oks = length requests \<and>
     {addr. codeBreakpointAt addr tbl = Some True} \<subseteq> {addr. (Insert_BP addr, True) \<in> set (zip requests oks)}"
proof -
  obtain oks tbl where run: "bp_run (\<lambda>addr. addBreakpoint (Some DEVFL_NONE) dw addr CODE 0)
       (\<lambda>addr. deleteBreakpoint (Some DEVFL_NONE) dw addr CODE 0) requests fresh_table = Some (oks, tbl)"
      "length oks = length requests"
    using mk2_bp.run_defined [OF fresh_code_table] by blast
  have "codeBreakpointAt addr fresh_table \<noteq> Some True" for addr
    by (simp add: fresh_table_def default_bp_def code_defs eval_nat_numeral)
  then have "(Insert_BP addr, True) \<in> set (zip requests oks)" if "codeBreakpointAt addr tbl = Some True" for addr
    using mk2_bp.run_reported [OF fresh_code_table run(1) that] by auto
  with run show ?thesis by blast
qed

section \<open>Examples\<close>

lemma breakpoint_table_safe_witness:
  "\<exists>r new. addBreakpoint (Some DEVFL_NO_SOFTBP) True 0x100 READ_DATA 4 fresh_table = Some (r, new) \<and> table_ok new"
  using breakpoint_table_safe [OF code_table_ok(1) [OF fresh_code_table],
      where flags = DEVFL_NO_SOFTBP and dw = True and addr = "0x100" and type = READ_DATA and len = 4]
  by blast


text \<open>A device without software breakpoints has three slots for code. The fourth breakpoint is reported
  as added, but is not in the table.\<close>

definition full_table :: "bp_table option" where
  "full_table = do {
     (_, tbl) \<leftarrow> addBreakpoint (Some DEVFL_NO_SOFTBP) False 0x10 CODE 0 fresh_table;
     (_, tbl) \<leftarrow> addBreakpoint (Some DEVFL_NO_SOFTBP) False 0x20 CODE 0 tbl;
     (_, tbl) \<leftarrow> addBreakpoint (Some DEVFL_NO_SOFTBP) False 0x30 CODE 0 tbl;
     Some tbl }"

lemma full_table_fourth:
  "do { tbl \<leftarrow> full_table; (r, tbl) \<leftarrow> addBreakpoint (Some DEVFL_NO_SOFTBP) False 0x40 CODE 0 tbl;
        at \<leftarrow> codeBreakpointAt 0x40 tbl; Some (r, at) } = Some (True, False)"
  by code_simp

end
