(* ===== verification/Mk2_Download.thy ===== *)
theory Mk2_Download
  imports Mk2_Breakpoints
begin

text \<open>
  What the box is told about the breakpoints: \<open>layoutBreakpoints\<close> never gives a hardware slot to two
  breakpoints, and after \<open>updateBreakpoints\<close> of \<^verbatim>\<open>src/src/jtag2bp.cc\<close> the box holds exactly the
  enabled ones.
\<close>

section \<open>Slots are given out once\<close>

text \<open>The entries whose slots are taken: \<open>A\<close> is a set of indices.\<close>

definition slots_inv :: "nat set \<Rightarrow> bool list \<Rightarrow> bp_table \<Rightarrow> bool" where
  "slots_inv A slots tbl \<longleftrightarrow> slots_ok slots \<and> A \<subseteq> {..<length tbl} \<and>
     (\<forall>i \<in> A. unat (bpnum (tbl ! i)) < 6 \<and> \<not> slots ! unat (bpnum (tbl ! i))) \<and>
     (\<forall>i \<in> A. \<forall>j \<in> A. i \<noteq> j \<longrightarrow> bpnum (tbl ! i) = bpnum (tbl ! j) \<longrightarrow> bpnum (tbl ! i) = 0)"

definition stable :: "breakpoint2 \<Rightarrow> bool" where
  "stable b \<longleftrightarrow> enabled b \<and> \<not> toremove b \<and> icestatus b"

definition pending :: "breakpoint2 \<Rightarrow> bool" where
  "pending b \<longleftrightarrow> enabled b \<and> toadd b \<and> (is_data (bp_type b) \<or> bp_type b = CODE)"

lemma slots_inv_place:
  assumes "slots_inv A slots tbl" "i < length tbl" "n < 6" "n = 0 \<or> slots ! n"
  shows "slots_inv (insert i A) (slots[n := False]) (tbl[i := (tbl ! i)\<lparr>bpnum := of_nat n\<rparr>])"
proof -
  have n: "unat (of_nat n :: u8) = n"
    using assms(3) by (simp add: unat_of_nat take_bit_nat_eq_self)
  have s: "length slots = 6" "\<not> slots ! 0"
    using assms(1) by (simp_all add: slots_inv_def slots_ok_def)
  have fresh: "bpnum (tbl ! j) \<noteq> of_nat n \<or> n = 0" if "j \<in> A" for j
    using assms(1,4) that n by (auto simp: slots_inv_def)
  have nth: "tbl[i := (tbl ! i)\<lparr>bpnum := of_nat n\<rparr>] ! j = (if j = i then (tbl ! i)\<lparr>bpnum := of_nat n\<rparr> else tbl ! j)" for j
    using assms(2) by (simp add: nth_list_update)
  show ?thesis
    unfolding slots_inv_def
  proof (intro conjI)
    show "slots_ok (slots[n := False])"
      using s by (cases "n = 0") (simp_all add: slots_ok_def)
    show "insert i A \<subseteq> {..<length (tbl[i := (tbl ! i)\<lparr>bpnum := of_nat n\<rparr>])}"
      using assms(1,2) by (auto simp: slots_inv_def)
    show "\<forall>j \<in> insert i A. unat (bpnum (tbl[i := (tbl ! i)\<lparr>bpnum := of_nat n\<rparr>] ! j)) < 6 \<and>
        \<not> slots[n := False] ! unat (bpnum (tbl[i := (tbl ! i)\<lparr>bpnum := of_nat n\<rparr>] ! j))"
      using assms(1,3) s n by (auto simp: nth slots_inv_def nth_list_update)
    have d: "bpnum (tbl ! k) = 0" if "k \<in> A" "j \<in> A" "k \<noteq> j" "bpnum (tbl ! k) = bpnum (tbl ! j)" for j k
      using assms(1) that unfolding slots_inv_def by blast
    show "\<forall>k \<in> insert i A. \<forall>j \<in> insert i A. k \<noteq> j \<longrightarrow>
        bpnum (tbl[i := (tbl ! i)\<lparr>bpnum := of_nat n\<rparr>] ! k) = bpnum (tbl[i := (tbl ! i)\<lparr>bpnum := of_nat n\<rparr>] ! j) \<longrightarrow>
        bpnum (tbl[i := (tbl ! i)\<lparr>bpnum := of_nat n\<rparr>] ! k) = 0"
      unfolding nth
    proof (intro ballI impI)
      fix k j
      let ?b = "\<lambda>j. bpnum (if j = i then (tbl ! i)\<lparr>bpnum := of_nat n\<rparr> else tbl ! j)"
      assume *: "k \<in> insert i A" "j \<in> insert i A" "k \<noteq> j" "?b k = ?b j"
      consider "k = i" "j \<in> A" "j \<noteq> i" | "j = i" "k \<in> A" "k \<noteq> i" | "k \<in> A" "j \<in> A" "k \<noteq> i" "j \<noteq> i"
        using * by auto
      then show "?b k = 0"
      proof cases
        case 1
        with fresh [of j] *(4) show ?thesis by auto
      next
        case 2
        with fresh [of k] *(4) show ?thesis by auto
      next
        case 3
        with d [of k j] *(3,4) show ?thesis by simp
      qed
    qed
  qed
qed

lemma slots_inv_mono: "slots_inv A slots tbl \<Longrightarrow> B \<subseteq> A \<Longrightarrow> slots_inv B slots tbl"
  unfolding slots_inv_def by blast

lemma mark_stable_inv:
  assumes "mark_stable tbl slots = Some slots'" "slots_ok slots" "\<forall>b \<in> set tbl. unat (bpnum b) < 6"
  shows "slots_ok slots' \<and> (\<forall>n. n < 6 \<longrightarrow> \<not> slots ! n \<longrightarrow> \<not> slots' ! n) \<and>
     (\<forall>i. live tbl i \<longrightarrow> stable (tbl ! i) \<longrightarrow> \<not> slots' ! unat (bpnum (tbl ! i)))"
  using assms
proof (induction tbl arbitrary: slots)
  case (Cons b bs)
  show ?case
  proof (cases "last_bp b")
    case True
    then show ?thesis using Cons.prems by (auto simp: live_Cons)
  next
    case False
    have six: "unat (bpnum b) < 6" "\<forall>b \<in> set bs. unat (bpnum b) < 6"
      using Cons.prems(3) by simp_all
    define s where "s = (if stable b then slots[unat (bpnum b) := False] else slots)"
    have s: "slots_ok s" "\<forall>n. n < 6 \<longrightarrow> \<not> slots ! n \<longrightarrow> \<not> s ! n" "stable b \<Longrightarrow> \<not> s ! unat (bpnum b)"
      using Cons.prems(2) six(1) by (auto simp: s_def slots_ok_def nth_list_update)
    have "mark_stable bs s = Some slots'"
      using Cons.prems(1,2) False six(1)
      by (auto simp: s_def stable_def store_def slots_ok_def split: if_splits)
    note IH = Cons.IH [OF this s(1) six(2)]
    have "\<not> slots' ! unat (bpnum ((b # bs) ! i))" if "live (b # bs) i" "stable ((b # bs) ! i)" for i
    proof (cases i)
      case 0
      with that have "\<not> s ! unat (bpnum b)" by (intro s(3)) simp
      with 0 IH six(1) show ?thesis by simp
    next
      case (Suc k)
      with that IH show ?thesis by (simp add: live_Cons)
    qed
    with IH s(2) show ?thesis by blast
  qed
qed simp

text \<open>The entries from index \<open>i\<close> on that satisfy \<open>P\<close>.\<close>

definition from_on :: "(breakpoint2 \<Rightarrow> bool) \<Rightarrow> nat \<Rightarrow> bp_table \<Rightarrow> nat set" where
  "from_on P i tbl = {j. i \<le> j \<and> live tbl j \<and> P (tbl ! j)}"

definition wants_data :: "breakpoint2 \<Rightarrow> bool" where
  "wants_data b \<longleftrightarrow> enabled b \<and> toadd b \<and> is_data (bp_type b)"

definition wants_code :: "breakpoint2 \<Rightarrow> bool" where
  "wants_code b \<longleftrightarrow> enabled b \<and> toadd b \<and> bp_type b = CODE"

lemma from_on_step:
  assumes "\<forall>k < i. \<not> last_bp (tbl ! k)" "i < length tbl" "\<not> last_bp (tbl ! i)"
  shows "from_on P i tbl = (if P (tbl ! i) then {i} else {}) \<union> from_on P (Suc i) tbl"
proof -
  have "live tbl i"
    using assms by (auto simp: live_def le_less)
  then show ?thesis
    by (auto simp: from_on_def Suc_le_eq le_less)
qed

lemma from_on_last: "last_bp (tbl ! i) \<Longrightarrow> from_on P i tbl = {}"
  by (auto simp: from_on_def live_def)

lemma from_on_layout:
  assumes "layout_rel tbl new" "no_ranges tbl"
  shows "from_on wants_data i new = from_on wants_data i tbl" "from_on wants_code i new = from_on wants_code i tbl"
    "from_on stable i new = from_on stable i tbl"
  using assms layout_rel_code(1) [OF assms(1)]
  by (auto simp: from_on_def live_def layout_rel_def laid_out_def wants_data_def wants_code_def stable_def)

lemma place_data_at_slots:
  assumes "slots_inv A slots tbl" "table_ok tbl" "i < MAX_TOTAL_BREAKPOINTS2" "\<not> has_mask (bp_type (tbl ! i))"
    and "place_data_at i (tbl ! i) slots tbl = Some (p, slots', new)"
  shows "p \<noteq> Skipped \<and> (p = Placed \<longrightarrow> slots_inv (A \<union> (if wants_data (tbl ! i) then {i} else {})) slots' new)"
proof (cases "wants_data (tbl ! i)")
  case False
  with assms show ?thesis
    by (auto simp: place_data_at_def wants_data_def)
next
  case True
  have s: "slots_ok slots" using assms(1) by (simp add: slots_inv_def)
  obtain n where n: "free_slot slots BREAKPOINT2_FIRST_DATA = Some n" "n \<le> 5" "n \<le> MAX_BREAKPOINTS2 \<longrightarrow> slots ! n \<and> 0 < n"
    using free_slot_result [OF s, of BREAKPOINT2_FIRST_DATA] by (auto simp: returns_def code_defs)
  have "place_data_at i (tbl ! i) slots tbl = (if n > MAX_BREAKPOINTS2 then Some (No_Room, slots, tbl)
      else Some (Placed, slots[n := False], tbl[i := (tbl ! i)\<lparr>bpnum := of_nat n\<rparr>]))"
    using True assms(2,3,4) n(1,2) s
    by (simp add: place_data_at_def wants_data_def cell_def store_def slots_ok_def code_defs bp_set_eq table_ok_length)
  with assms(5) True show ?thesis
    using slots_inv_place [OF assms(1), of i n] assms(2,3) n by (auto simp: table_ok_length split: if_splits)
qed

lemma place_data_slots:
  assumes "slots_inv A slots tbl" "table_ok tbl" "no_ranges tbl" "\<forall>k < i. \<not> last_bp (tbl ! k)"
    and "place_data [i..<MAX_TOTAL_BREAKPOINTS2] hadroom slots tbl = Some (True, slots', new)"
  shows "hadroom \<and> slots_inv (A \<union> from_on wants_data i tbl) slots' new"
  using assms
proof (induction "MAX_TOTAL_BREAKPOINTS2 - i" arbitrary: i A hadroom slots tbl)
  case 0
  then show ?case by simp
next
  case (Suc d)
  then have i: "i < MAX_TOTAL_BREAKPOINTS2" and r: "[i..<MAX_TOTAL_BREAKPOINTS2] = i # [Suc i..<MAX_TOTAL_BREAKPOINTS2]"
    by (simp_all add: upt_conv_Cons)
  note run = Suc.prems(5) [unfolded r place_data.simps cell_table [OF Suc.prems(2) i] Option.bind.simps]
  show ?case
  proof (cases "last_bp (tbl ! i)")
    case True
    with run Suc.prems(1) show ?thesis by (simp add: from_on_last)
  next
    case False
    from run [unfolded if_not_P [OF False]] obtain p slots1 tbl1 where
      at: "place_data_at i (tbl ! i) slots tbl = Some (p, slots1, tbl1)" and
      k: "(case p of Placed \<Rightarrow> place_data [Suc i..<MAX_TOTAL_BREAKPOINTS2] hadroom slots1 tbl1
        | Skipped \<Rightarrow> place_data [Suc i..<MAX_TOTAL_BREAKPOINTS2] False slots1 tbl1
        | No_Room \<Rightarrow> Some (False, slots1, tbl1)) = Some (True, slots', new)"
      by (auto simp: Option.bind_eq_Some_conv)
    have nm: "\<not> has_mask (bp_type (tbl ! i))"
      using Suc.prems(2,3) i by (simp add: no_ranges_def table_ok_length)
    have p: "p = Placed" "slots_inv (A \<union> (if wants_data (tbl ! i) then {i} else {})) slots1 tbl1"
      using place_data_at_slots [OF Suc.prems(1,2) i nm at] k by (cases p; simp)+
    have "place_post tbl tbl1"
      using place_data_at_result [OF Suc.prems(2) _ i, of slots] Suc.prems(1) at by (simp add: returns_def slots_inv_def)
    note post = place_post_ok [OF this]
    have nr: "no_ranges tbl1"
      using Suc.prems(3) layout_rel_no_ranges [OF post(2)] by simp
    have "last_bp (tbl1 ! k) = last_bp (tbl ! k)" if "k < Suc i" for k
      using post(2) that i Suc.prems(2) by (simp add: layout_rel_def laid_out_def table_ok_length)
    then have nl: "\<forall>k < Suc i. \<not> last_bp (tbl1 ! k)"
      using Suc.prems(4) False by (simp add: less_Suc_eq)
    have "hadroom \<and> slots_inv ((A \<union> (if wants_data (tbl ! i) then {i} else {})) \<union> from_on wants_data (Suc i) tbl1) slots' new"
      by (rule Suc.hyps(1) [OF _ p(2) post(1) nr nl]) (use k p(1) Suc.hyps(2) in auto)
    then show ?thesis
      using from_on_step [OF Suc.prems(4) _ False, of wants_data] i Suc.prems(2) from_on_layout(1) [OF post(2) Suc.prems(3)]
      by (simp add: table_ok_length Un_assoc)
  qed
qed

lemma place_code_slots:
  assumes "slots_inv A slots tbl" "table_ok tbl" "no_ranges tbl" "\<forall>k < i. \<not> last_bp (tbl ! k)"
    and "place_code [i..<MAX_TOTAL_BREAKPOINTS2] soft hadroom slots tbl = Some (True, new)"
  shows "hadroom \<and> (\<exists>slots'. slots_inv (A \<union> from_on wants_code i tbl) slots' new) \<and>
    (\<forall>j < i. new ! j = tbl ! j) \<and> (\<not> soft \<longrightarrow> (\<forall>j \<in> from_on wants_code i tbl. bpnum (new ! j) \<noteq> 0))"
  using assms
proof (induction "MAX_TOTAL_BREAKPOINTS2 - i" arbitrary: i A slots tbl)
  case 0
  then show ?case by simp
next
  case (Suc d)
  then have i: "i < MAX_TOTAL_BREAKPOINTS2" and r: "[i..<MAX_TOTAL_BREAKPOINTS2] = i # [Suc i..<MAX_TOTAL_BREAKPOINTS2]"
    by (simp_all add: upt_conv_Cons)
  have il: "i < length tbl" using i Suc.prems(2) by (simp add: table_ok_length)
  note run = Suc.prems(5) [unfolded r place_code.simps cell_table [OF Suc.prems(2) i] Option.bind.simps]
  show ?case
  proof (cases "last_bp (tbl ! i)")
    case True
    with run Suc.prems(1) show ?thesis by (auto simp: from_on_last)
  next
    case False
    have s: "slots_ok slots" using Suc.prems(1) by (simp add: slots_inv_def)
    obtain n where n: "free_slot slots 0 = Some n" "n \<le> 5" "n \<le> MAX_BREAKPOINTS2 \<longrightarrow> slots ! n \<and> 0 < n"
      using free_slot_result [OF s, of 0] by (auto simp: returns_def)
    define num where "num = (if n > MAX_BREAKPOINTS2 then if soft then 0 else 0xFF else n)"
    note step = from_on_step [OF Suc.prems(4) il False, of wants_code]
    note run = run [unfolded if_not_P [OF False] n(1) Option.bind.simps Let_def num_def [symmetric]]
    show ?thesis
    proof (cases "wants_code (tbl ! i)")
      case no: False
      have k: "place_code [Suc i..<MAX_TOTAL_BREAKPOINTS2] soft hadroom slots tbl = Some (True, new)"
        using run unfolding if_not_P [OF no [unfolded wants_code_def]] .
      have nl: "\<forall>k < Suc i. \<not> last_bp (tbl ! k)"
        using Suc.prems(4) False by (simp add: less_Suc_eq)
      show ?thesis
        using Suc.hyps(1) [OF _ Suc.prems(1-3) nl k] Suc.hyps(2) no by (simp add: step)
    next
      case yes: True
      then have num: "num \<noteq> 0xFF" using run by (auto simp: wants_code_def)
      then have num6: "num \<le> MAX_BREAKPOINTS2" "num < 6" "num = 0 \<or> slots ! num" "\<not> soft \<longrightarrow> 0 < num"
        using n by (auto simp: num_def code_defs split: if_splits)
      define tbl1 where "tbl1 = tbl[i := (tbl ! i)\<lparr>bpnum := of_nat num\<rparr>]"
      have k: "place_code [Suc i..<MAX_TOTAL_BREAKPOINTS2] soft hadroom (slots[num := False]) tbl1 = Some (True, new)"
        using run yes num num6(2) il s by (simp add: wants_code_def bp_set_eq store_def slots_ok_def tbl1_def)
      have "place_post tbl tbl1"
        using returns_set_bpnum [OF Suc.prems(2) i num6(1)] il by (simp add: returns_def tbl1_def bp_set_eq)
      note post = place_post_ok [OF this]
      have nr: "no_ranges tbl1"
        using Suc.prems(3) layout_rel_no_ranges [OF post(2)] by simp
      have nl: "\<forall>k < Suc i. \<not> last_bp (tbl1 ! k)"
        using Suc.prems(4) False il by (simp add: less_Suc_eq tbl1_def)
      have inv: "slots_inv (insert i A) (slots[num := False]) tbl1"
        unfolding tbl1_def by (rule slots_inv_place [OF Suc.prems(1) il num6(2,3)])
      have f: "from_on wants_code (Suc i) tbl1 = from_on wants_code (Suc i) tbl"
        by (rule from_on_layout(2) [OF post(2) Suc.prems(3)])
      have rest: "hadroom" "\<exists>slots'. slots_inv (insert i A \<union> from_on wants_code (Suc i) tbl) slots' new"
          "\<forall>j < Suc i. new ! j = tbl1 ! j" "\<not> soft \<longrightarrow> (\<forall>j \<in> from_on wants_code (Suc i) tbl. bpnum (new ! j) \<noteq> 0)"
        using Suc.hyps(1) [OF _ inv post(1) nr nl k] Suc.hyps(2) unfolding f by simp_all
      have "new ! i = (tbl ! i)\<lparr>bpnum := of_nat num\<rparr>"
        using rest(3) il by (simp add: tbl1_def)
      moreover have "(of_nat num :: u8) \<noteq> 0" if "0 < num"
      proof -
        have "unat (of_nat num :: u8) = num"
          using num6(2) by (simp add: unat_of_nat take_bit_nat_eq_self)
        with that show ?thesis by auto
      qed
      ultimately have "\<not> soft \<longrightarrow> bpnum (new ! i) \<noteq> 0"
        using num6(4) by simp
      moreover have "\<forall>j < i. new ! j = tbl ! j"
        using rest(3) by (simp add: tbl1_def)
      ultimately show ?thesis
        using rest yes by (simp add: step)
    qed
  qed
qed

definition wanted :: "breakpoint2 \<Rightarrow> bool" where
  "wanted b \<longleftrightarrow> stable b \<or> wants_data b \<or> wants_code b"

definition stable_distinct :: "bp_table \<Rightarrow> bool" where
  "stable_distinct tbl \<longleftrightarrow> (\<forall>i j. live tbl i \<longrightarrow> live tbl j \<longrightarrow> stable (tbl ! i) \<longrightarrow> stable (tbl ! j) \<longrightarrow> i \<noteq> j \<longrightarrow>
     bpnum (tbl ! i) = bpnum (tbl ! j) \<longrightarrow> bpnum (tbl ! i) = 0)"

lemma layout_slots:
  assumes "table_ok tbl" "no_ranges tbl" "stable_distinct tbl"
    and "layoutBreakpoints (Some flags) dw tbl = Some (True, new)"
  shows "\<exists>slots. slots_inv (from_on stable 0 tbl \<union> from_on wants_data 0 tbl \<union> from_on wants_code 0 tbl) slots new"
    and "flags = DEVFL_NO_SOFTBP \<Longrightarrow> \<forall>j \<in> from_on wants_code 0 tbl. bpnum (new ! j) \<noteq> 0"
proof -
  from assms(4) obtain slots room slots1 tbl1 where m: "mark_stable tbl (slots_initial dw) = Some slots"
    and d: "place_data bp_indices True slots tbl = Some (room, slots1, tbl1)"
    and c: "place_code bp_indices (flags \<noteq> DEVFL_NO_SOFTBP) room slots1 tbl1 = Some (True, new)"
    by (auto simp: layoutBreakpoints_def Option.bind_eq_Some_conv)
  have six: "unat (bpnum (tbl ! i)) < 6" if "i < length tbl" for i
    using assms(1) that by (auto simp: table_ok_def entry_ok_def code_defs)
  then have "\<forall>b \<in> set tbl. unat (bpnum b) < 6"
    by (metis in_set_conv_nth)
  note ms = mark_stable_inv [OF m slots_initial_ok this]
  have inv: "slots_inv (from_on stable 0 tbl) slots tbl"
    using ms six assms(3) by (auto simp: slots_inv_def from_on_def stable_distinct_def live_def)
  have "returns (\<lambda>(room, slots', new). slots_ok slots' \<and> place_post tbl new) (place_data bp_indices True slots tbl)"
    by (rule place_data_result [OF assms(1) _ bp_indices_31]) (use ms in blast)
  then have "place_post tbl tbl1"
    using d by (simp add: returns_def)
  note post = place_post_ok [OF this]
  have nr: "no_ranges tbl1"
    using assms(2) layout_rel_no_ranges [OF post(2)] by simp
  have room: "room"
    using place_code_slots [of "{}" slots1 tbl1 0 _ room new] c d ms returns_def
      place_data_result [OF assms(1) _ bp_indices_31, of slots True] nr post(1)
    by (auto simp: returns_def slots_inv_def)
  have inv1: "slots_inv (from_on stable 0 tbl \<union> from_on wants_data 0 tbl) slots1 tbl1"
    using place_data_slots [OF inv assms(1,2), of 0 True slots1 tbl1] d room by simp
  from place_code_slots [OF inv1 post(1) nr, of 0, OF _ c]
  show "\<exists>slots. slots_inv (from_on stable 0 tbl \<union> from_on wants_data 0 tbl \<union> from_on wants_code 0 tbl) slots new"
    and "flags = DEVFL_NO_SOFTBP \<Longrightarrow> \<forall>j \<in> from_on wants_code 0 tbl. bpnum (new ! j) \<noteq> 0"
    unfolding from_on_layout(2) [OF post(2) assms(2)] by auto
qed

section \<open>What is sent to the box\<close>

text \<open>\<open>sent cs q out q'\<close>: the bytes \<open>out\<close> are the commands \<open>cs\<close> in this order, each repeated between
  once and ten times with a sequence number of its own, from \<open>q\<close> to \<open>q'\<close>.\<close>

inductive sent :: "u8 list list \<Rightarrow> u16 \<Rightarrow> u8 list \<Rightarrow> u16 \<Rightarrow> bool" where
  sent_none: "sent [] q [] q"
| sent_one: "1 \<le> k \<Longrightarrow> k \<le> MAX_JTAG_COMM_ATTEMPS \<Longrightarrow> sent cs (next_seq q) out q' \<Longrightarrow>
     sent (c # cs) q (concat (replicate k (frame q c)) @ out) q'"

inductive_simps sent_Nil: "sent [] q out q'"

lemma sent_append: "sent cs q out q' \<Longrightarrow> sent ds q' out' q'' \<Longrightarrow> sent (cs @ ds) q (out @ out') q''"
  by (induction rule: sent.induct) (auto intro: sent.intros)

definition downloads :: "u8 list list \<Rightarrow> 'z jtag2_scheme \<Rightarrow> 'z jtag2_scheme \<Rightarrow> bool" where
  "downloads cs s t \<longleftrightarrow> (\<exists>out. sent cs (command_sequence s) out (command_sequence t) \<and> tx t = tx s @ out)"

lemma downloads_none: "downloads [] s s"
  by (auto simp: downloads_def intro: sent_none)

lemma downloads_append: "downloads cs s t \<Longrightarrow> downloads ds t u \<Longrightarrow> downloads (cs @ ds) s u"
  unfolding downloads_def by (metis sent_append append_assoc)

lemma downloads_update: "downloads cs s t \<Longrightarrow> downloads cs s (t\<lparr>bps := b\<rparr>)" "downloads cs (s\<lparr>bps := b\<rparr>) t = downloads cs s t"
  by (simp_all add: downloads_def)

lemma command_positive:
  assumes "doJtagCommand c True s = Some (Inr (True, msg, n), t)"
  shows "downloads [c] s t" "bps t = bps s"
proof -
  from doJtagCommand_loop_result [OF assms [unfolded doJtagCommand_def]]
  obtain k where "1 \<le> k" "k \<le> MAX_JTAG_COMM_ATTEMPS" "tx t = tx s @ concat (replicate k (frame (command_sequence s) c))"
    "command_sequence t = next_seq (command_sequence s)"
    by (auto split: if_splits)
  then show "downloads [c] s t"
    unfolding downloads_def using sent_one [OF _ _ sent_none] by fastforce
  have "comm_closed (\<lambda>u. bps u = bps s)"
    by (simp add: comm_closed_def)
  from preservesD [OF comm_preserves_doJtagCommand [OF this] assms] show "bps t = bps s"
    by simp
qed

text \<open>The common form of the two loops of \<open>updateBreakpoints\<close>.\<close>

fun break_loop :: "(breakpoint2 \<Rightarrow> bool) \<Rightarrow> (breakpoint2 \<Rightarrow> u8 list option) \<Rightarrow> string \<Rightarrow> (breakpoint2 \<Rightarrow> breakpoint2) \<Rightarrow>
    nat list \<Rightarrow> ('z jtag2_scheme, unit) io" where
  "break_loop P cmd msg f [] = io_throw Undef"
| "break_loop P cmd msg f (i # is) =
     io_bind (io_get (\<lambda>s. cell (bps s) i)) (\<lambda>x. io_bind (io_defined x) (\<lambda>b.
       if last_bp b then io_ret ()
       else io_then
         (if P b then
            (case cmd b of
               None \<Rightarrow> io_throw (Thrown ''Invalid bp mode (for data bp)'')
             | Some c \<Rightarrow>
                 io_bind (doJtagCommand c True) (\<lambda>(ok, response, responseSize).
                 io_then (check ok msg) (bp_update i f)))
          else io_ret ())
         (break_loop P cmd msg f is)))"

lemma clear_breaks_loop: "clear_breaks is = break_loop toremove (\<lambda>b. Some (clear_break_command b))
    ''Failed to clear breakpoint'' (\<lambda>b. b\<lparr>icestatus := False, toremove := False\<rparr>) is"
  by (induction "is") (simp_all cong del: if_weak_cong)

lemma set_breaks_loop: "set_breaks is = break_loop (\<lambda>b. toadd b \<and> enabled b) set_break_command
    ''Failed to set breakpoint'' (\<lambda>b. b\<lparr>icestatus := True, toadd := False\<rparr>) is"
  by (induction "is") (simp_all cong del: if_weak_cong)

text \<open>A loop that returns has sent the command of every live entry that satisfies \<open>P\<close>, in order, and
  applied \<open>f\<close> to it.\<close>

definition hits :: "(breakpoint2 \<Rightarrow> bool) \<Rightarrow> nat \<Rightarrow> bp_table \<Rightarrow> nat list" where
  "hits P i tbl = filter (\<lambda>j. live tbl j \<and> P (tbl ! j)) [i..<length tbl]"

lemma hits_step:
  assumes "\<forall>k < i. \<not> last_bp (tbl ! k)" "i < length tbl" "\<not> last_bp (tbl ! i)"
  shows "hits P i tbl = (if P (tbl ! i) then [i] else []) @ hits P (Suc i) tbl"
proof -
  have "live tbl i"
    using assms by (auto simp: live_def le_less)
  then show ?thesis
    using assms(2) by (simp add: hits_def upt_conv_Cons)
qed

lemma hits_last: "last_bp (tbl ! i) \<Longrightarrow> hits P i tbl = []"
  by (auto simp: hits_def live_def filter_empty_conv)

lemma live_cong:
  "length new = length tbl \<Longrightarrow> (\<And>k. k < length tbl \<Longrightarrow> last_bp (new ! k) = last_bp (tbl ! k)) \<Longrightarrow> live new j = live tbl j"
  unfolding live_def by (metis order.strict_trans1)

lemma hits_cong:
  assumes "length new = length tbl" "\<And>k. k < length tbl \<Longrightarrow> last_bp (new ! k) = last_bp (tbl ! k)"
    and "\<And>k. i \<le> k \<Longrightarrow> k < length tbl \<Longrightarrow> new ! k = tbl ! k"
  shows "hits P i new = hits P i tbl"
proof -
  have "live new j = live tbl j" for j
    by (rule live_cong [OF assms(1,2)])
  then show ?thesis
    using assms(1,3) by (auto simp: hits_def intro!: filter_cong)
qed

definition entry_update :: "(breakpoint2 \<Rightarrow> breakpoint2) \<Rightarrow> bool" where
  "entry_update f \<longleftrightarrow> (\<forall>b. last_bp (f b) = last_bp b \<and> enabled (f b) = enabled b \<and> bpnum (f b) = bpnum b \<and>
     mask_pointer (f b) = mask_pointer b)"

lemma entry_update_ok: "entry_update f \<Longrightarrow> entry_ok i b \<Longrightarrow> \<not> last_bp b \<Longrightarrow> entry_ok i (f b)"
  by (auto simp: entry_update_def entry_ok_def)

lemma break_loop_result:
  assumes "break_loop P cmd msg f [i..<MAX_TOTAL_BREAKPOINTS2] s = Some (Inr (), t)" "table_ok (bps s)"
    and "\<forall>k < i. \<not> last_bp (bps s ! k)" "entry_update f"
  shows "(\<forall>j \<in> set (hits P i (bps s)). cmd (bps s ! j) \<noteq> None) \<and>
    downloads (map (\<lambda>j. the (cmd (bps s ! j))) (hits P i (bps s))) s t \<and>
    table_ok (bps t) \<and> (\<forall>j < MAX_TOTAL_BREAKPOINTS2. bps t ! j = (if j \<in> set (hits P i (bps s)) then f (bps s ! j) else bps s ! j))"
  using assms(1-3)
proof (induction "MAX_TOTAL_BREAKPOINTS2 - i" arbitrary: i s)
  case 0
  then show ?case by (simp add: io_simps)
next
  case (Suc d)
  then have i: "i < MAX_TOTAL_BREAKPOINTS2" and r: "[i..<MAX_TOTAL_BREAKPOINTS2] = i # [Suc i..<MAX_TOTAL_BREAKPOINTS2]"
    by (simp_all add: upt_conv_Cons)
  have il: "i < length (bps s)" using i Suc.prems(2) by (simp add: table_ok_length)
  note run = Suc.prems(1) [unfolded r break_loop.simps]
  show ?case
  proof (cases "last_bp (bps s ! i)")
    case True
    with run have "t = s"
      using cell_table [OF Suc.prems(2) i] by (simp add: io_simps)
    then show ?thesis
      using True Suc.prems(2) by (simp add: hits_last downloads_none)
  next
    case False
    note step = hits_step [OF Suc.prems(3) il False, of P]
    have nl: "\<forall>k < Suc i. \<not> last_bp (bps s ! k)"
      using Suc.prems(3) False by (simp add: less_Suc_eq)
    show ?thesis
    proof (cases "P (bps s ! i)")
      case no: False
      with run False have "break_loop P cmd msg f [Suc i..<MAX_TOTAL_BREAKPOINTS2] s = Some (Inr (), t)"
        using cell_table [OF Suc.prems(2) i] by (simp add: io_simps)
      from Suc.hyps(1) [OF _ this Suc.prems(2) nl] Suc.hyps(2) show ?thesis
        using no by (simp add: step)
    next
      case yes: True
      from run False yes obtain c ok resp n u where c: "cmd (bps s ! i) = Some c"
        and do: "doJtagCommand c True s = Some (Inr (True, resp, n), u)"
        and k: "io_then (bp_update i f) (break_loop P cmd msg f [Suc i..<MAX_TOTAL_BREAKPOINTS2]) u = Some (Inr (), t)"
        using cell_table [OF Suc.prems(2) i]
        by (auto simp: io_then_def io_bind_def io_get_def io_defined_def io_ret_def io_throw_def check_def
            split: option.splits sum.splits if_splits)
      have u: "downloads [c] s u" "bps u = bps s"
        using command_positive [OF do] by simp_all
      define v where "v = u\<lparr>bps := (bps s)[i := f (bps s ! i)]\<rparr>"
      have k: "break_loop P cmd msg f [Suc i..<MAX_TOTAL_BREAKPOINTS2] v = Some (Inr (), t)"
        using k il u(2) by (simp add: bp_update_def on_table_def bp_set_eq io_simps v_def)
      have nth: "bps v ! j = (if j = i then f (bps s ! i) else bps s ! j)" for j
        using il by (simp add: v_def)
      have vl: "length (bps v) = length (bps s)" by (simp add: v_def)
      have ok: "table_ok (bps v)"
        unfolding v_def using Suc.prems(2) False entry_update_ok [OF assms(4)]
        by (auto intro: table_ok_update)
      have last: "last_bp (bps v ! j) = last_bp (bps s ! j)" for j
        using assms(4) by (simp add: nth entry_update_def)
      have h: "hits P (Suc i) (bps v) = hits P (Suc i) (bps s)"
        by (rule hits_cong [OF vl]) (simp_all add: last, simp add: nth)
      have ni: "i \<notin> set (hits P (Suc i) (bps s))"
        by (simp add: hits_def)
      then have e: "bps v ! j = bps s ! j" if "j \<in> set (hits P (Suc i) (bps s))" for j
        using that by (auto simp: nth)
      have IH: "(\<forall>j \<in> set (hits P (Suc i) (bps v)). cmd (bps v ! j) \<noteq> None) \<and>
         downloads (map (\<lambda>j. the (cmd (bps v ! j))) (hits P (Suc i) (bps v))) v t \<and>
         table_ok (bps t) \<and> (\<forall>j < MAX_TOTAL_BREAKPOINTS2. bps t ! j =
            (if j \<in> set (hits P (Suc i) (bps v)) then f (bps v ! j) else bps v ! j))"
        by (rule Suc.hyps(1) [OF _ k ok]) (use Suc.hyps(2) nl last in auto)
      note IH = IH [unfolded h]
      have m: "map (\<lambda>j. the (cmd (bps v ! j))) (hits P (Suc i) (bps s)) =
          map (\<lambda>j. the (cmd (bps s ! j))) (hits P (Suc i) (bps s))"
        using e by simp
      have "downloads [c] s v"
        using u(1) by (simp add: v_def downloads_update)
      then have "downloads ([c] @ map (\<lambda>j. the (cmd (bps s ! j))) (hits P (Suc i) (bps s))) s t"
        using IH [unfolded m] by (blast intro: downloads_append)
      moreover have "\<forall>j \<in> set (hits P (Suc i) (bps s)). cmd (bps s ! j) \<noteq> None"
        using IH e by simp
      moreover have "bps t ! j = (if j \<in> set (hits P i (bps s)) then f (bps s ! j) else bps s ! j)"
        if "j < MAX_TOTAL_BREAKPOINTS2" for j
      proof -
        have "bps t ! j = (if j \<in> set (hits P (Suc i) (bps s)) then f (bps v ! j) else bps v ! j)"
          using IH that by blast
        then show ?thesis
          using e ni yes by (simp add: step nth)
      qed
      ultimately show ?thesis
        using yes c IH by (simp add: step)
    qed
  qed
qed

section \<open>Properties\<close>

abbreviation sets :: "breakpoint2 \<Rightarrow> bool" where
  "sets b \<equiv> toadd b \<and> enabled b"

text \<open>The commands for a laid out table: first the removals, then the additions, in table order.\<close>

definition update_commands :: "bp_table \<Rightarrow> u8 list list" where
  "update_commands tbl = map (\<lambda>j. clear_break_command (tbl ! j)) (hits toremove 0 tbl) @
     map (\<lambda>j. the (set_break_command (tbl ! j))) (hits sets 0 tbl)"

lemma updateBreakpoints_result:
  assumes "updateBreakpoints s = Some (Inr (), t)" "table_ok (bps s)"
  obtains room tbl where "layoutBreakpoints (map_option device_flags (p_device_def s)) (useDebugWire s) (bps s) = Some (room, tbl)"
    "table_ok tbl" "layout_rel (bps s) tbl" "downloads (update_commands tbl) s t" "table_ok (bps t)"
    "\<forall>j < MAX_TOTAL_BREAKPOINTS2. bps t ! j =
       (let b = (if live tbl j \<and> toremove (tbl ! j) then (tbl ! j)\<lparr>icestatus := False, toremove := False\<rparr> else tbl ! j)
        in if live tbl j \<and> sets (tbl ! j) then b\<lparr>icestatus := True, toadd := False\<rparr> else b)"
proof -
  from assms(1) obtain room tbl where lay: "layoutBreakpoints (map_option device_flags (p_device_def s)) (useDebugWire s) (bps s) =
      Some (room, tbl)" and run: "io_then (clear_breaks bp_indices) (set_breaks bp_indices) (s\<lparr>bps := tbl\<rparr>) = Some (Inr (), t)"
    by (auto simp: updateBreakpoints_def io_bind_def on_table_def split: option.splits)
  obtain f where "map_option device_flags (p_device_def s) = Some f"
    using lay by (cases "map_option device_flags (p_device_def s)") (simp_all add: layoutBreakpoints_def)
  with lay layout_result [OF assms(2), of f "useDebugWire s"] have ok: "table_ok tbl" "layout_rel (bps s) tbl"
    by (auto simp: returns_def place_post_def)
  from run obtain u where c: "clear_breaks bp_indices (s\<lparr>bps := tbl\<rparr>) = Some (Inr (), u)"
    and d: "set_breaks bp_indices u = Some (Inr (), t)"
    by (auto elim: io_then_InrE)
  let ?f = "\<lambda>b. b\<lparr>icestatus := False, toremove := False\<rparr>"
  have "entry_update ?f" "entry_update (\<lambda>b. b\<lparr>icestatus := True, toadd := False\<rparr>)"
    by (simp_all add: entry_update_def)
  note eu = this
  have C: "downloads (map (\<lambda>j. clear_break_command (tbl ! j)) (hits toremove 0 tbl)) s u" "table_ok (bps u)"
      "\<forall>j < MAX_TOTAL_BREAKPOINTS2. bps u ! j = (if j \<in> set (hits toremove 0 tbl) then ?f (tbl ! j) else tbl ! j)"
    using break_loop_result [OF c [unfolded clear_breaks_loop] _ _ eu(1)] ok(1) by (simp_all add: downloads_update)
  have D: "downloads (map (\<lambda>j. the (set_break_command (bps u ! j))) (hits sets 0 (bps u))) u t" "table_ok (bps t)"
      "\<forall>j < MAX_TOTAL_BREAKPOINTS2. bps t ! j = (if j \<in> set (hits sets 0 (bps u)) then (bps u ! j)\<lparr>icestatus := True, toadd := False\<rparr> else bps u ! j)"
    using break_loop_result [OF d [unfolded set_breaks_loop] C(2) _ eu(2)] by simp_all
  have u: "bps u ! j = (if live tbl j \<and> toremove (tbl ! j) then ?f (tbl ! j) else tbl ! j)" if "j < MAX_TOTAL_BREAKPOINTS2" for j
    using C(3) that ok(1) by (simp add: hits_def table_ok_length)
  have ul: "length (bps u) = length tbl"
    using C(2) ok(1) by (simp add: table_ok_length)
  have last: "live (bps u) j = live tbl j" for j
    by (rule live_cong [OF ul]) (use u ok(1) in \<open>simp add: table_ok_length\<close>)
  have h: "hits sets 0 (bps u) = hits sets 0 tbl"
    unfolding hits_def ul using u last ok(1) by (intro filter_cong) (auto simp: table_ok_length)
  have "set_break_command (bps u ! j) = set_break_command (tbl ! j)" if "j \<in> set (hits sets 0 tbl)" for j
    using that u [of j] ok(1) by (auto simp: hits_def set_break_command_def Let_def table_ok_length)
  then have "map (\<lambda>j. the (set_break_command (bps u ! j))) (hits sets 0 (bps u)) =
      map (\<lambda>j. the (set_break_command (tbl ! j))) (hits sets 0 tbl)"
    unfolding h by simp
  with C(1) D(1) have "downloads (update_commands tbl) s t"
    unfolding update_commands_def by (metis downloads_append)
  moreover have "bps t ! j =
       (let b = (if live tbl j \<and> toremove (tbl ! j) then (tbl ! j)\<lparr>icestatus := False, toremove := False\<rparr> else tbl ! j)
        in if live tbl j \<and> sets (tbl ! j) then b\<lparr>icestatus := True, toadd := False\<rparr> else b)"
    if "j < MAX_TOTAL_BREAKPOINTS2" for j
    using D(3) that u [OF that] ok(1) unfolding h by (simp add: hits_def table_ok_length Let_def)
  ultimately show ?thesis
    using that lay ok D(2) by blast
qed

lemma downloads_settled:
  assumes "table_ok (bps s)" "no_ranges (bps s)" "flags_ok (bps s)" "table_ok tbl" "layout_rel (bps s) tbl" "table_ok (bps t)"
    and "\<forall>j < MAX_TOTAL_BREAKPOINTS2. bps t ! j =
       (let b = (if live tbl j \<and> toremove (tbl ! j) then (tbl ! j)\<lparr>icestatus := False, toremove := False\<rparr> else tbl ! j)
        in if live tbl j \<and> sets (tbl ! j) then b\<lparr>icestatus := True, toadd := False\<rparr> else b)"
  shows "live (bps t) j = live (bps s) j \<and> (live (bps s) j \<longrightarrow>
         address (bps t ! j) = address (bps s ! j) \<and> bp_type (bps t ! j) = bp_type (bps s ! j) \<and>
         enabled (bps t ! j) = enabled (bps s ! j) \<and> icestatus (bps t ! j) = enabled (bps t ! j) \<and>
         \<not> toremove (bps t ! j) \<and> \<not> sets (bps t ! j))"
proof -
  have len: "length (bps t) = MAX_TOTAL_BREAKPOINTS2" "length tbl = MAX_TOTAL_BREAKPOINTS2" "length (bps s) = MAX_TOTAL_BREAKPOINTS2"
    using assms(1,4,6) by (simp_all add: table_ok_length)
  have "last_bp (bps t ! k) = last_bp (tbl ! k)" if "k < MAX_TOTAL_BREAKPOINTS2" for k
    using assms(7) that by (simp add: Let_def)
  then have live: "live (bps t) k = live tbl k" for k
    by (intro live_cong) (simp_all add: len)
  have "address (bps t ! j) = address (bps s ! j) \<and> bp_type (bps t ! j) = bp_type (bps s ! j) \<and>
         enabled (bps t ! j) = enabled (bps s ! j) \<and> icestatus (bps t ! j) = enabled (bps t ! j) \<and>
         \<not> toremove (bps t ! j) \<and> \<not> sets (bps t ! j)" if l: "live (bps s) j"
  proof -
    have j: "j < MAX_TOTAL_BREAKPOINTS2" "live tbl j"
      using l len layout_rel_code(1) [OF assms(5)] by (auto simp: live_def)
    have same: "address (tbl ! j) = address (bps s ! j)" "bp_type (tbl ! j) = bp_type (bps s ! j)"
      "enabled (tbl ! j) = enabled (bps s ! j)"
      using assms(2,5) j len by (simp_all add: layout_rel_def laid_out_def)
    have "in_step (tbl ! j)"
      using assms(3) flags_ok_layout [OF assms(5,2)] j(2) by (simp add: flags_ok_def)
    moreover have "bps t ! j =
       (let b = (if toremove (tbl ! j) then (tbl ! j)\<lparr>icestatus := False, toremove := False\<rparr> else tbl ! j)
        in if sets (tbl ! j) then b\<lparr>icestatus := True, toadd := False\<rparr> else b)"
      using assms(7) j by simp
    ultimately show ?thesis
      unfolding same [symmetric] in_step_def
      by (cases "enabled (tbl ! j)"; cases "toadd (tbl ! j)"; cases "toremove (tbl ! j)"; simp)
  qed
  moreover have "live (bps t) j = live (bps s) j"
    using live layout_rel_code(1) [OF assms(5)] by simp
  ultimately show ?thesis by blast
qed

text \<open>C16: on a well-formed table without range breakpoints, whose breakpoints that stay in the box have different
  hardware slots, a layout that reports room gives no hardware slot to two breakpoints, and on a device
  without software breakpoints no code breakpoint to be added is left in software. (Slot 0 is that of the
  software breakpoints. A layout without room stops at the first breakpoint that finds none, and leaves the numbers
  of the others as they were.)\<close>

theorem layout_slots_distinct:
  assumes "table_ok tbl" "no_ranges tbl" "stable_distinct tbl"
    and "layoutBreakpoints (Some flags) dw tbl = Some (True, new)"
  shows "inj_on (\<lambda>i. bpnum (new ! i)) {i. live new i \<and> wanted (new ! i) \<and> bpnum (new ! i) \<noteq> 0} \<and>
    (flags = DEVFL_NO_SOFTBP \<longrightarrow> (\<forall>i. live new i \<longrightarrow> wants_code (new ! i) \<longrightarrow> bpnum (new ! i) \<noteq> 0))"
proof -
  have rel: "layout_rel tbl new"
    using layout_result [OF assms(1), of flags dw] assms(4) by (simp add: returns_def place_post_def)
  note f = from_on_layout [OF rel assms(2), of 0]
  obtain slots where slots: "slots_inv (from_on stable 0 new \<union> from_on wants_data 0 new \<union> from_on wants_code 0 new) slots new"
    using layout_slots(1) [OF assms] unfolding f by blast
  have "{i. live new i \<and> wanted (new ! i)} = from_on stable 0 new \<union> from_on wants_data 0 new \<union> from_on wants_code 0 new"
    by (auto simp: from_on_def wanted_def)
  with slots have s: "slots_inv {i. live new i \<and> wanted (new ! i)} slots new"
    by simp
  have "inj_on (\<lambda>i. bpnum (new ! i)) {i. live new i \<and> wanted (new ! i) \<and> bpnum (new ! i) \<noteq> 0}"
    using s unfolding inj_on_def slots_inv_def by blast
  moreover have "bpnum (new ! i) \<noteq> 0" if "flags = DEVFL_NO_SOFTBP" "live new i" "wants_code (new ! i)" for i
    using layout_slots(2) [OF assms that(1)] that(2,3) unfolding f(2) [symmetric] by (auto simp: from_on_def)
  ultimately show ?thesis by blast
qed


section \<open>Examples\<close>

text \<open>Two code breakpoints that are not in the box yet.\<close>

definition new_code :: "u32 \<Rightarrow> breakpoint2" where
  "new_code addr = default_bp\<lparr>address := addr, bp_type := CODE, enabled := True, last_bp := False, toadd := True\<rparr>"

definition two_table :: bp_table where
  "two_table = new_code 0x10 # new_code 0x20 # replicate 30 default_bp"

lemma two_table_nth: "i < 32 \<Longrightarrow> two_table ! i = (if i = 0 then new_code 0x10 else if i = 1 then new_code 0x20 else default_bp)"
  by (auto simp: two_table_def nth_Cons split: nat.splits)

lemma two_table_ok: "table_ok two_table" "no_ranges two_table" "flags_ok two_table" "stable_distinct two_table"
proof -
  have len: "length two_table = 32" by (simp add: two_table_def)
  note defs = new_code_def default_bp_def code_defs
  show "table_ok two_table"
    using len two_table_nth by (auto simp: table_ok_def entry_ok_def defs)
  show "no_ranges two_table"
    using len two_table_nth by (auto simp: no_ranges_def has_mask_def defs)
  show "flags_ok two_table"
    using len two_table_nth by (auto simp: flags_ok_def live_def in_step_def defs)
  have "\<not> stable (two_table ! i)" if "i < 32" for i
    using two_table_nth [OF that] by (simp add: stable_def defs)
  then show "stable_distinct two_table"
    by (auto simp: stable_distinct_def live_def len)
qed

lemma two_table_layout: "layoutBreakpoints (Some DEVFL_NO_SOFTBP) False two_table =
    Some (True, (new_code 0x10)\<lparr>bpnum := 1\<rparr> # (new_code 0x20)\<lparr>bpnum := 2\<rparr> # replicate 30 default_bp)"
  by code_simp

lemma layout_slots_distinct_witness:
  "\<exists>new. layoutBreakpoints (Some DEVFL_NO_SOFTBP) False two_table = Some (True, new) \<and>
     (\<forall>i. live new i \<longrightarrow> wants_code (new ! i) \<longrightarrow> bpnum (new ! i) \<noteq> 0)"
  using layout_slots_distinct [OF two_table_ok(1,2,4) two_table_layout] two_table_layout by blast

text \<open>The box acknowledges the one breakpoint of the table.\<close>

definition one_box :: jtag2 where
  "one_box = (flash_box (frame 0 [RSP_OK]))\<lparr>bps := new_code 0x10 # replicate 31 default_bp\<rparr>"

lemma one_table_layout: "layoutBreakpoints (Some DEVFL_NONE) False (new_code 0x10 # replicate 31 default_bp) =
    Some (True, (new_code 0x10)\<lparr>bpnum := 1\<rparr> # replicate 31 default_bp)"
  by code_simp

lemma one_box_run: "\<exists>t. updateBreakpoints one_box = Some (Inr (), t)"
proof -
  define tbl where "tbl = (new_code 0x10)\<lparr>bpnum := 1\<rparr> # replicate 31 default_bp"
  define s where "s = one_box\<lparr>bps := tbl\<rparr>"
  obtain c where c: "set_break_command ((new_code 0x10)\<lparr>bpnum := 1\<rparr>) = Some c"
    by (simp add: set_break_command_def new_code_def default_bp_def code_defs Let_def)
  obtain msg t where do: "doJtagCommand c True s = Some (Inr (True, Some msg, 1), t)"
    using doJtagCommand_answer [of s "[RSP_OK]" "[]" "[]" c True]
    by (auto simp: s_def one_box_def code_defs frame_nonempty)
  have b: "bps t = tbl"
    using command_positive(2) [OF do] by (simp add: s_def)
  have ix: "bp_indices = 0 # 1 # [2..<MAX_TOTAL_BREAKPOINTS2]"
    by (simp add: code_defs upt_conv_Cons)
  have cells: "cell tbl 0 = Some ((new_code 0x10)\<lparr>bpnum := 1\<rparr>)" "cell tbl 1 = Some default_bp"
    by (simp_all add: tbl_def cell_def)
  have flags: "\<not> last_bp (new_code 0x10)" "toadd (new_code 0x10)" "enabled (new_code 0x10)" "\<not> toremove (new_code 0x10)" "last_bp default_bp"
    by (simp_all add: new_code_def default_bp_def)
  have "on_table layoutBreakpoints one_box = Some (Inr True, s)"
    using one_table_layout by (simp add: on_table_def one_box_def flash_box_def dev_atmega16_def s_def tbl_def quiet_box_def
        jtag2_new_def jtag.extend_def jtag2.fields_def)
  moreover have "clear_breaks bp_indices s = Some (Inr (), s)"
    unfolding ix using cells flags by (simp add: io_simps s_def)
  moreover have "set_breaks bp_indices s = Some (Inr (), t\<lparr>bps := tbl[0 := (new_code 0x10)\<lparr>bpnum := 1, icestatus := True, toadd := False\<rparr>]\<rparr>)"
  proof -
    have "bp_update 0 (\<lambda>b. b\<lparr>icestatus := True, toadd := False\<rparr>) t =
        Some (Inr (), t\<lparr>bps := tbl[0 := (new_code 0x10)\<lparr>bpnum := 1, icestatus := True, toadd := False\<rparr>]\<rparr>)"
      using cells by (simp add: bp_update_def on_table_def b bp_set_def store_def tbl_def)
    moreover have "cell (tbl[0 := x]) 1 = Some default_bp" for x
      by (simp add: tbl_def cell_def)
    moreover have "cell (bps s) 0 = Some ((new_code 0x10)\<lparr>bpnum := 1\<rparr>)"
      using cells by (simp add: s_def)
    ultimately show ?thesis
      unfolding ix using flags c do by (simp add: io_simps)
  qed
  ultimately show ?thesis
    by (simp add: updateBreakpoints_def io_simps)
qed


end
