(* ===== verification/Mk2_Run.thy ===== *)
theory Mk2_Run
  imports Mk2_Download
begin

text \<open>
  Target execution of the mkII driver (\<^verbatim>\<open>src/src/jtag2run.cc\<close>): the program counter, reset,
  stop and resume, the poll of the device for events and the loop that waits for one, the
  single step, and the list of events that are to be ignored.
\<close>

section \<open>Program counter\<close>

text \<open>\<open>check\<close> throws on a negative answer; an answer shorter than five bytes is read past what the
  frame carried, but inside the buffer (which has ten bytes more than the payload).\<close>

definition getProgramCounter :: "('z jtag2_scheme, u64) io" where
  "getProgramCounter =
     io_bind (doJtagCommand [CMND_READ_PC] True) (\<lambda>(ok, response, responseSize).
     io_then (check ok ''cannot read program counter'')
     (case response of
        Some r \<Rightarrow> io_bind (io_defined (b4_to_u32 (drop 1 r))) (\<lambda>result. io_ret (result * 2))
      | None \<Rightarrow> io_ret 0))"

definition setProgramCounter :: "u64 \<Rightarrow> ('z jtag2_scheme, bool) io" where
  "setProgramCounter pc =
     io_bind (doJtagCommand (CMND_WRITE_PC # u32_to_b4 (pc div 2)) True) (\<lambda>(ok, response, responseSize).
     io_then (check ok ''cannot write program counter'') (io_ret True))"

definition interruptProgram :: "('z jtag2_scheme, bool) io" where
  "interruptProgram =
     io_bind (doJtagCommand [CMND_FORCED_STOP, 0x01] True) (\<lambda>(rv, resp, respSize). io_ret rv)"

definition resumeProgram :: "('z jtag2_scheme, bool) io" where
  "resumeProgram = io_then (doSimpleJtagCommand CMND_GO) (io_ret True)"

section \<open>Events\<close>

text \<open>\<open>nonbreaking_events[evtbuf[8] - EVT_BREAK]\<close>: an index outside the array has no meaning.\<close>

definition event_ignored :: "bool list \<Rightarrow> u8 \<Rightarrow> bool option" where
  "event_ignored flags e =
     (if EVT_BREAK \<le> e then cell flags (unat e - unat EVT_BREAK) else None)"

text \<open>The switch on an event: the new values of \<open>*breakpoint\<close> and \<open>*gdbInterrupt\<close>. The cases that
  only differ in the text they print are one.\<close>

definition event_switch :: "u8 \<Rightarrow> bool \<Rightarrow> bool \<Rightarrow> bool \<times> bool" where
  "event_switch e breakpoint gdbInterrupt =
     (if e \<in> {EVT_BREAK, EVT_EXT_RESET, EVT_PDSB_BREAK, EVT_PDSMB_BREAK, EVT_PROGRAM_BREAK}
      then (True, gdbInterrupt)
      else if e \<in> {EVT_NONE, EVT_RUN} then (breakpoint, gdbInterrupt)
      else (breakpoint, True))"

text \<open>\<open>pollDevice\<close> has no \<open>return\<close> statement and its callers drop the value: the result is the pair of
  flags its arguments point to.\<close>

definition pollDevice :: "bool \<Rightarrow> bool \<Rightarrow> ('z jtag2_scheme, bool \<times> bool) io" where
  "pollDevice breakpoint gdbInterrupt =
     io_bind waitRead (\<lambda>numfds.
     io_then (unixCheck numfds ''GDB/JTAG ICE communications failure'')
     (if 0 < numfds then
        io_bind recvFrame (\<lambda>(evtSize, evtbuf, seqno).
        if 0 \<le> evtSize \<and> seqno = Some 0xffff then
          io_bind (io_defined (Option.bind evtbuf (\<lambda>b. cell b 8))) (\<lambda>e.
          io_bind (io_get nonbreaking_events) (\<lambda>flags.
          io_bind (io_defined (event_ignored flags e)) (\<lambda>ignored.
          if ignored then io_ret (breakpoint, gdbInterrupt)
          else if e = EVT_IDR_DIRTY then
            io_bind (io_defined (Option.bind evtbuf (\<lambda>b. cell b 9))) (\<lambda>_.
              io_ret (event_switch e breakpoint gdbInterrupt))
          else io_ret (event_switch e breakpoint gdbInterrupt))))
        else io_ret (breakpoint, gdbInterrupt))
      else io_ret (breakpoint, gdbInterrupt)))"

definition startPolling :: "('z jtag2_scheme, unit) io" where
  "startPolling = ctrl_write 0x70"

text \<open>The loop of \<open>eventLoop\<close> has no exit: only an exception ends it. The two flags are handed over
  in the other order than \<open>pollDevice\<close> declares them.\<close>

partial_function (option) event_loop :: "bool \<Rightarrow> bool \<Rightarrow> ('z jtag2_scheme, bool) io" where
  "event_loop gdbInterrupt breakpoint s =
     io_bind (pollDevice gdbInterrupt breakpoint)
       (\<lambda>flags t. event_loop (fst flags) (snd flags) t) s"

definition eventLoop :: "('z jtag2_scheme, bool) io" where
  "eventLoop = io_then startPolling (\<lambda>s. event_loop False False s)"

definition resetProgram :: "bool \<Rightarrow> ('z jtag2_scheme, bool) io" where
  "resetProgram possible_nSRST_ignored =
     io_bind (io_get useDebugWire) (\<lambda>dw.
     if dw then io_bind interruptProgram (\<lambda>ok. if ok then setProgramCounter 0 else io_ret False)
     else io_bind (doJtagCommand [CMND_RESET, 0x01] True) (\<lambda>(rv, resp, respSize).
          io_then eventLoop (io_ret rv)))"

text \<open>The tries of \<open>jtagSingleStep\<close>, \<open>i\<close> more after this one; \<open>resp[0]\<close> needs an answer.\<close>

fun step_loop :: "u8 list \<Rightarrow> nat \<Rightarrow> ('z jtag2_scheme, bool) io" where
  "step_loop cmd i =
     io_bind (doJtagCommand cmd True) (\<lambda>(rv, resp, respSize).
     io_bind (io_defined (Option.bind resp (\<lambda>r. cell r 0))) (\<lambda>stat.
     if rv \<or> stat \<noteq> RSP_ILLEGAL_MCU_STATE then io_ret rv
     else case i of 0 \<Rightarrow> io_ret rv | Suc i' \<Rightarrow> step_loop cmd i'))"

definition jtagSingleStep :: "bool \<Rightarrow> ('z jtag2_scheme, bool) io" where
  "jtagSingleStep useHLL =
     io_bind (step_loop [CMND_SINGLE_STEP, if useHLL then 0x02 else 0x01, if useHLL then 0x00 else 0x01] 2)
     (\<lambda>rv. if \<not> rv then io_ret False
           else io_bind eventLoop (\<lambda>go. if go then io_ret True else io_then interruptProgram (io_ret True)))"

definition jtagContinue :: "('z jtag2_scheme, bool) io" where
  "jtagContinue =
     io_then updateBreakpoints
    (io_bind (io_get haveHiddenBreakpoint) (\<lambda>hidden.
     io_then (if hidden then io_then (jtagSingleStep True) (io_ret ()) else doSimpleJtagCommand CMND_GO)
       eventLoop))"

section \<open>The list of ignored events\<close>

definition evttable :: "(u8 \<times> string) list" where
  "evttable =
    [(EVT_BREAK, ''break''),
     (EVT_DEBUG, ''debug''),
     (EVT_ERROR_PHY_FORCE_BREAK_TIMEOUT, ''error_phy_force_break_timeout''),
     (EVT_ERROR_PHY_MAX_BIT_LENGTH_DIFF, ''error_phy_max_bit_length_diff''),
     (EVT_ERROR_PHY_OPT_RECEIVE_TIMEOUT, ''error_phy_opt_receive_timeout''),
     (EVT_ERROR_PHY_OPT_RECEIVED_BREAK, ''error_phy_opt_received_break''),
     (EVT_ERROR_PHY_RECEIVED_BREAK, ''error_phy_received_break''),
     (EVT_ERROR_PHY_RECEIVE_TIMEOUT, ''error_phy_receive_timeout''),
     (EVT_ERROR_PHY_RELEASE_BREAK_TIMEOUT, ''error_phy_release_break_timeout''),
     (EVT_ERROR_PHY_SYNC_OUT_OF_RANGE, ''error_phy_sync_out_of_range''),
     (EVT_ERROR_PHY_SYNC_TIMEOUT, ''error_phy_sync_timeout''),
     (EVT_ERROR_PHY_SYNC_TIMEOUT_BAUD, ''error_phy_sync_timeout_baud''),
     (EVT_ERROR_PHY_SYNC_WAIT_TIMEOUT, ''error_phy_sync_wait_timeout''),
     (EVT_RESULT_PHY_NO_ACTIVITY, ''result_phy_no_activity''),
     (EVT_EXT_RESET, ''ext_reset''),
     (EVT_ICE_POWER_ERROR_STATE, ''ice_power_error_state''),
     (EVT_ICE_POWER_OK, ''ice_power_ok''),
     (EVT_IDR_DIRTY, ''idr_dirty''),
     (EVT_NONE, ''none''),
     (EVT_PDSB_BREAK, ''pdsb_break''),
     (EVT_PDSMB_BREAK, ''pdsmb_break''),
     (EVT_PROGRAM_BREAK, ''program_break''),
     (EVT_RUN, ''run''),
     (EVT_TARGET_POWER_OFF, ''target_power_off''),
     (EVT_TARGET_POWER_ON, ''target_power_on''),
     (EVT_TARGET_SLEEP, ''target_sleep''),
     (EVT_TARGET_WAKEUP, ''target_wakeup'')]"

text \<open>The two loops over the characters of the list.\<close>

definition is_separator :: "char \<Rightarrow> bool" where
  "is_separator c \<longleftrightarrow> c \<in> {CHR '' '', CHR 0x09, CHR 0x0A, CHR 0x0B, CHR 0x0C, CHR 0x0D} \<or> c = CHR '',''"

text \<open>\<open>strncmp(name, item, l) == 0\<close> for an item of length \<open>l\<close>: the item is a prefix of the name.
  The first entry that matches counts; \<open>evtval\<close> is 0 when there is none.\<close>

fun event_value :: "string \<Rightarrow> (u8 \<times> string) list \<Rightarrow> u8" where
  "event_value item [] = 0"
| "event_value item ((num, name) # entries) =
     (if take (length item) name = item then num else event_value item entries)"

text \<open>One round of the outer loop for every item; \<open>cp1\<close> is the rest of the list.\<close>

function event_items :: "string \<Rightarrow> bool list \<Rightarrow> bool list" where
  "event_items cp1 flags =
     (if cp1 = [] then flags
      else
        let item_on = dropWhile is_separator cp1;
            item = takeWhile (\<lambda>c. c \<noteq> CHR '','') item_on;
            evtval = event_value item evttable
        in event_items (drop (length item) item_on)
             (if evtval = 0 then flags else flags[unat evtval - unat EVT_BREAK := True]))"
  by pat_completeness auto

termination
proof (relation "measure (\<lambda>(cp1, flags). length cp1)", goal_cases)
  case (2 cp1 flags item_on item evtval)
  have "length item_on \<le> length cp1"
    using 2(2) by (simp add: length_dropWhile_le)
  moreover have "0 < length item" if "item_on \<noteq> []"
  proof -
    have "\<not> is_separator (hd item_on)"
      using that hd_dropWhile [of is_separator cp1] 2(2) by simp
    then have "hd item_on \<noteq> CHR '',''"
      by (auto simp: is_separator_def)
    then show ?thesis
      unfolding 2(3) using that by (cases item_on) simp_all
  qed
  moreover have "0 < length cp1"
    using 2(1) by simp
  ultimately have "length (drop (length item) item_on) < length cp1"
    unfolding length_drop by (cases "item_on = []") (simp, linarith)
  then show ?case by simp
qed simp

declare event_items.simps [simp del]

definition parseEvents :: "string \<Rightarrow> ('z jtag2_scheme, unit) io" where
  "parseEvents evtlist =
     io_put (\<lambda>s. s\<lparr>nonbreaking_events := event_items evtlist (replicate (length (nonbreaking_events s)) False)\<rparr>)"

section \<open>The program counter\<close>

lemma getProgramCounter_answer:
  assumes "wq s = []" "w < 2 ^ 32" "avail (rx s) = frame (command_sequence s) (RSP_PC # u32_to_b4 w) @ rest"
  shows "\<exists>t. getProgramCounter s = Some (Inr (2 * w), t) \<and> tx t = tx s @ frame (command_sequence s) [CMND_READ_PC]"
proof -
  have len: "length (u32_to_b4 w) = 4"
    by (simp add: u32_to_b4_def)
  then obtain msg t where t: "doJtagCommand [CMND_READ_PC] True s = Some (Inr (True, Some msg, 5), t)"
      "take 5 msg = RSP_PC # u32_to_b4 w"
      "line_only (s\<lparr>wq := [], tx := tx s @ frame (command_sequence s) [CMND_READ_PC],
         command_sequence := next_seq (command_sequence s)\<rparr>) t"
    using doJtagCommand_answer [of s "RSP_PC # u32_to_b4 w" "[]" rest "[CMND_READ_PC]" True] assms
    by (auto simp: code_defs)
  have "msg = (RSP_PC # u32_to_b4 w) @ drop 5 msg"
    using append_take_drop_id [of 5 msg] t(2) by simp
  then have "drop 1 msg = u32_to_b4 w @ drop 5 msg"
    by (metis append_Cons drop0 drop_Suc_Cons One_nat_def)
  then have "b4_to_u32 (drop 1 msg) = Some w"
    using b4_dec_enc [OF assms(2)] by simp
  then show ?thesis
    using t(1) line_only_simps(2) [OF t(3)]
    by (simp add: getProgramCounter_def io_simps)
qed

lemma setProgramCounter_answer:
  assumes "wq s = []" "avail (rx s) = frame (command_sequence s) [RSP_OK] @ rest"
  shows "\<exists>t. setProgramCounter pc s = Some (Inr True, t) \<and> avail (rx t) = rest \<and>
     line_only (s\<lparr>wq := [], tx := tx s @ frame (command_sequence s) (CMND_WRITE_PC # u32_to_b4 (pc div 2)),
         command_sequence := next_seq (command_sequence s)\<rparr>) t"
  using doJtagCommand_answer [of s "[RSP_OK]" "[]" rest "CMND_WRITE_PC # u32_to_b4 (pc div 2)" True] assms
  by (auto simp: code_defs setProgramCounter_def io_simps)

section \<open>The event loop never returns\<close>

lemma event_loop_result: "event_loop g b s = Some (r, t) \<Longrightarrow> \<exists>e. r = Inl e"
proof -
  assume "event_loop g b s = Some (r, t)"
  then have "\<exists>e. fst (r, t) = Inl e"
  proof (rule event_loop.raw_induct [where P = "\<lambda>_ _ _ y. \<exists>e. fst y = Inl e", rotated])
    fix loop :: "bool \<Rightarrow> bool \<Rightarrow> ('a jtag2_scheme, bool) io" and g b s y
    assume "\<And>g b s y. loop g b s = Some y \<Longrightarrow> \<exists>e. fst y = Inl e"
      and "io_bind (pollDevice g b) (\<lambda>flags t. loop (fst flags) (snd flags) t) s = Some y"
    then show "\<exists>e. fst y = Inl e"
      by (cases y) (fastforce elim: io_bind_SomeE)
  qed
  then show ?thesis by simp
qed

lemma eventLoop_result: "eventLoop s = Some (r, t) \<Longrightarrow> \<exists>e. r = Inl e"
  unfolding eventLoop_def io_then_def
  by (elim io_bind_SomeE) (auto dest: event_loop_result)

lemma pollDevice_silent: "rx s = [] \<Longrightarrow> pollDevice b g s = Some (Inr (b, g), s)"
  by (simp add: pollDevice_def waitRead_def io_simps)

lemma event_loop_silent: "rx s = [] \<Longrightarrow> event_loop g b s = None"
proof -
  have "rx s \<noteq> []" if "event_loop g b s = Some y" for g b and s :: "'a jtag2_scheme" and y
  proof (rule event_loop.raw_induct [where P = "\<lambda>g b s y. rx s \<noteq> []", OF _ that])
    fix loop :: "bool \<Rightarrow> bool \<Rightarrow> ('a jtag2_scheme, bool) io" and g b s y
    assume "\<And>g b s y. loop g b s = Some y \<Longrightarrow> rx s \<noteq> []"
      and "io_bind (pollDevice g b) (\<lambda>flags t. loop (fst flags) (snd flags) t) s = Some y"
    then show "rx s \<noteq> []"
      by (cases "rx s = []") (auto simp: io_bind_def pollDevice_silent)
  qed
  then show "rx s = [] \<Longrightarrow> ?thesis"
    by (cases "event_loop g b s") auto
qed

lemma io_then_not_Inr: "(\<And>u. k u \<noteq> Some (Inr x, t)) \<Longrightarrow> io_then m k s \<noteq> Some (Inr x, t)"
  by (auto elim: io_then_InrE)

lemma eventLoop_not_Inr: "eventLoop s \<noteq> Some (Inr x, t)"
  using eventLoop_result [of s "Inr x" t] by auto

lemma resetProgram_not_Inr: "\<not> useDebugWire s \<Longrightarrow> resetProgram p s \<noteq> Some (Inr r, t)"
  unfolding resetProgram_def io_then_def
  by (auto elim!: io_bind_InrE simp: eventLoop_not_Inr io_get_apply)

section \<open>Events\<close>

lemma pollDevice_frame:
  assumes "rx s = Chunk bs # evs" "bs \<noteq> []" "avail (rx s) = frame q (e # p) @ rest"
    and "Suc (length p) \<le> MAX_MESSAGE" "arrays_ok s"
  shows "\<exists>t. fed (ctrl_ready s) t rest \<and>
     pollDevice b g s = Some (if q \<noteq> 0xffff then Inr (b, g)
       else if e < EVT_BREAK then Inl Undef
       else if nonbreaking_events s ! (unat e - unat EVT_BREAK) then Inr (b, g)
       else Inr (event_switch e b g), t)"
proof -
  obtain t where t: "fed (ctrl_ready s) t rest"
    "recvFrame s = Some (Inr (int (length (e # p)), Some (frame q (e # p)), Some q), t)"
    using recvFrame_frame [of "[]" "e # p" s q rest] assms(3,4) by auto
  have nb: "nonbreaking_events t = nonbreaking_events s"
    using t(1) by (auto simp: fed_def ctrl_ready_def)
  have f: "cell (frame q (e # p)) 8 = Some e"
    by (simp add: cell_def frame_def Let_def nth_append frame_header_def u16_to_b2_def u32_to_b4_def)
  have f9: "\<exists>x. cell (frame q (e # p)) 9 = Some x"
    by (simp add: cell_def frame_def Let_def frame_header_def u16_to_b2_def u32_to_b4_def)
  have ign: "event_ignored (nonbreaking_events s) e =
      (if e < EVT_BREAK then None else Some (nonbreaking_events s ! (unat e - unat EVT_BREAK)))"
    using assms(5) unat_u8_less [of e]
    by (auto simp: event_ignored_def cell_def arrays_ok_def code_defs word_less_nat_alt word_le_nat_alt)
  have w: "waitRead s = Some (Inr 1, s)"
    using assms(1) by (simp add: waitRead_def)
  show ?thesis
    using t f f9 ign w by (intro exI [of _ t]) (auto simp: pollDevice_def io_simps nb)
qed

section \<open>The event list\<close>

text \<open>The items of the list, without the loop: the fields between commas, leading white space and
  empty fields dropped; a list that ends in a blank field has an empty item at its end.\<close>

function event_fields :: "string \<Rightarrow> string list" where
  "event_fields cs = takeWhile (\<lambda>c. c \<noteq> CHR '','') cs #
     (case dropWhile (\<lambda>c. c \<noteq> CHR '','') cs of [] \<Rightarrow> [] | _ # r \<Rightarrow> event_fields r)"
  by pat_completeness auto

termination
proof (relation "measure length", goal_cases)
  case (2 cs c r)
  then show ?case
    using length_dropWhile_le [of "\<lambda>c. c \<noteq> CHR '',''" cs] by simp
qed simp

declare event_fields.simps [simp del]

definition is_space :: "char \<Rightarrow> bool" where
  "is_space c \<longleftrightarrow> is_separator c \<and> c \<noteq> CHR '',''"

definition event_names :: "string \<Rightarrow> string list" where
  "event_names cs =
     (let fs = map (dropWhile is_space) (event_fields cs)
      in filter (\<lambda>f. f \<noteq> []) fs @ (if cs \<noteq> [] \<and> last fs = [] then [[]] else []))"

definition set_event :: "string \<Rightarrow> bool list \<Rightarrow> bool list" where
  "set_event item flags =
     (let v = event_value item evttable
      in if v = 0 then flags else flags[unat v - unat EVT_BREAK := True])"

lemma event_fields_Nil [simp]: "event_fields [] = [[]]"
  by (simp add: event_fields.simps)

lemma event_fields_comma [simp]: "event_fields (CHR '','' # cs) = [] # event_fields cs"
  by (simp add: event_fields.simps)

lemma event_fields_not_Nil [simp]: "event_fields cs \<noteq> []"
  by (simp add: event_fields.simps)

lemma event_fields_Cons: "c \<noteq> CHR '','' \<Longrightarrow> event_fields (c # cs) = (c # hd (event_fields cs)) # tl (event_fields cs)"
  by (simp add: event_fields.simps [of "c # cs"] event_fields.simps [of cs])

lemma event_names_Nil: "event_names [] = []"
  by (simp add: event_names_def)

text \<open>A separator at the front is not seen, unless nothing else follows.\<close>

lemma event_names_separator:
  assumes "is_separator c"
  shows "event_names (c # cs) = (if cs = [] then [[]] else event_names cs)"
proof (cases "c = CHR '',''")
  case True
  then show ?thesis by (auto simp: event_names_def Let_def)
next
  case False
  then have "is_space c" by (simp add: is_space_def assms)
  then have "map (dropWhile is_space) (event_fields (c # cs)) = map (dropWhile is_space) (event_fields cs)"
    using event_fields_not_Nil [of cs] by (cases "event_fields cs") (simp_all add: event_fields_Cons [OF False])
  then show ?thesis
    by (auto simp: event_names_def Let_def)
qed

text \<open>An item at the front.\<close>

lemma event_fields_item:
  "CHR '','' \<notin> set item \<Longrightarrow> event_fields (item @ cs) = (item @ hd (event_fields cs)) # tl (event_fields cs)"
  by (induction item) (auto simp: event_fields_Cons)

lemma event_names_item:
  assumes "CHR '','' \<notin> set item" "item \<noteq> []" "\<not> is_separator (hd item)" "cs = [] \<or> hd cs = CHR '',''"
  shows "event_names (item @ cs) = item # event_names cs"
proof -
  have item: "dropWhile is_space item = item"
    using assms(2,3) by (cases item) (auto simp: is_space_def)
  show ?thesis
  proof (cases cs)
    case Nil
    then show ?thesis
      using event_fields_item [OF assms(1), of "[]"] item assms(2) by (simp add: event_names_def)
  next
    case (Cons c r)
    with assms(4) have c: "cs = CHR '','' # r" by simp
    then have "event_fields (item @ cs) = item # event_fields r"
      using event_fields_item [OF assms(1), of cs] by simp
    then show ?thesis
      using item assms(2) c by (auto simp: event_names_def Let_def)
  qed
qed

lemma event_items_fold: "event_items cp1 flags = fold set_event (event_names cp1) flags"
proof (induction cp1 flags rule: event_items.induct)
  case (1 cp1 flags)
  show ?case
  proof (cases "cp1 = []")
    case True
    then show ?thesis by (simp add: event_items.simps event_names_Nil)
  next
    case False
    define item_on where "item_on = dropWhile is_separator cp1"
    define item where "item = takeWhile (\<lambda>c. c \<noteq> CHR '','') item_on"
    have "event_items cp1 flags = event_items (drop (length item) item_on) (set_event item flags)"
      using False by (subst event_items.simps) (simp add: item_on_def item_def set_event_def Let_def)
    also have "\<dots> = fold set_event (event_names (drop (length item) item_on)) (set_event item flags)"
      using "1.IH" [OF False item_on_def item_def refl] by (simp only: set_event_def [of item] Let_def)
    finally have step: "event_items cp1 flags = fold set_event (event_names (drop (length item) item_on)) (set_event item flags)" .
    have skip: "event_names cp1 = (if item_on = [] then [[]] else event_names item_on)"
      unfolding item_on_def using False
      by (induction cp1) (auto simp: event_names_separator)
    show ?thesis
    proof (cases "item_on = []")
      case True
      then show ?thesis using step skip by (simp add: item_def event_names_Nil)
    next
      case on: False
      then have "\<not> is_separator (hd item_on)"
        unfolding item_on_def by (rule hd_dropWhile)
      then have hd: "\<not> is_separator (hd item)" "item \<noteq> []"
        using on by (cases item_on; auto simp: item_def is_separator_def)+
      have split: "item_on = item @ drop (length item) item_on"
        unfolding item_def by (simp add: dropWhile_eq_drop [symmetric])
      moreover have "CHR '','' \<notin> set item"
        by (auto simp: item_def dest: set_takeWhileD)
      moreover have "drop (length item) item_on = dropWhile (\<lambda>c. c \<noteq> CHR '','') item_on"
        by (simp add: item_def dropWhile_eq_drop)
      then have "drop (length item) item_on = [] \<or> hd (drop (length item) item_on) = CHR '',''"
        using hd_dropWhile [of "\<lambda>c. c \<noteq> CHR '',''" item_on] by metis
      ultimately have "event_names item_on = item # event_names (drop (length item) item_on)"
        using event_names_item [of item "drop (length item) item_on"] hd by simp
      then show ?thesis using step skip on by simp
    qed
  qed
qed

lemma evttable_range: "(v, name) \<in> set evttable \<Longrightarrow> EVT_BREAK \<le> v \<and> v \<noteq> 0"
  by (auto simp: evttable_def code_defs)

lemma event_value_cases: "event_value item entries = 0 \<or> event_value item entries \<in> fst ` set entries"
  by (induction item entries rule: event_value.induct) auto

lemma event_value_range:
  "event_value item evttable \<noteq> 0 \<Longrightarrow> 224 \<le> unat (event_value item evttable) \<and> unat (event_value item evttable) < 256"
  using event_value_cases [of item evttable] evttable_range unat_u8_less [of "event_value item evttable"]
  by (auto simp: code_defs word_le_nat_alt)

lemma set_event_nth:
  assumes "length flags = 32" "i < 32"
  shows "set_event item flags ! i \<longleftrightarrow> flags ! i \<or> event_value item evttable = of_nat (224 + i)"
proof -
  have un: "unat (of_nat (224 + i) :: u8) = 224 + i"
    using assms(2) by (simp add: unat_of_nat del: of_nat_add)
  show ?thesis
  proof (cases "event_value item evttable = 0")
    case True
    moreover have "(of_nat (224 + i) :: u8) \<noteq> 0"
    proof
      assume "(of_nat (224 + i) :: u8) = 0"
      with un show False by simp
    qed
    ultimately show ?thesis by (simp add: set_event_def)
  next
    case False
    then have v: "224 \<le> unat (event_value item evttable)" "unat (event_value item evttable) < 256"
      using event_value_range [of item] by blast+
    have "event_value item evttable = of_nat (224 + i) \<longleftrightarrow> unat (event_value item evttable) = 224 + i"
      unfolding word_unat_eq_iff un ..
    then show ?thesis
      using v assms False by (auto simp: set_event_def Let_def nth_list_update code_defs)
  qed
qed

lemma fold_set_event:
  assumes "length flags = 32"
  shows "length (fold set_event items flags) = 32 \<and> (\<forall>i < 32. fold set_event items flags ! i \<longleftrightarrow>
     flags ! i \<or> (\<exists>item \<in> set items. event_value item evttable = of_nat (224 + i)))"
  using assms
proof (induction items arbitrary: flags)
  case (Cons item items)
  have "length (set_event item flags) = 32"
    using Cons.prems by (simp add: set_event_def Let_def)
  from Cons.IH [OF this] show ?case
    using set_event_nth [OF Cons.prems] by auto
qed simp

text \<open>A list that ends in a comma has an empty item, and an empty item is a prefix of every name.\<close>

lemma event_fields_last: "event_fields (cs @ [CHR '','']) = event_fields cs @ [[]]"
proof (induction cs)
  case (Cons c cs)
  then show ?case
    by (cases "c = CHR '',''"; cases "event_fields cs") (auto simp: event_fields_Cons)
qed simp

lemma trailing_comma: "[] \<in> set (event_names (cs @ [CHR '','']))"
proof -
  have "last (map (dropWhile is_space) (event_fields (cs @ [CHR '',''])) ) = []"
    by (simp add: last_map event_fields_last)
  then show ?thesis
    by (simp add: event_names_def Let_def)
qed

lemma event_value_empty: "event_value [] evttable = EVT_BREAK"
  by (simp add: evttable_def)

section \<open>Invariants\<close>

lemma comm_preserves_run [preserve]:
  assumes "comm_closed I"
  shows "preserves I getProgramCounter" "preserves I (setProgramCounter pc)" "preserves I interruptProgram"
    "preserves I resumeProgram"
  unfolding getProgramCounter_def setProgramCounter_def interruptProgram_def resumeProgram_def
  by (intro preserve assms)+

lemma comm_preserves_pollDevice: "comm_closed I \<Longrightarrow> preserves I (pollDevice b g)"
  unfolding pollDevice_def by (intro preserve preserves_waitRead preserves_recvFrame) (auto simp: comm_closed_def)

lemma comm_preserves_event_loop:
  assumes "comm_closed I"
  shows "event_loop g b s = Some (r, t) \<Longrightarrow> I s \<Longrightarrow> I t"
proof -
  assume "event_loop g b s = Some (r, t)" "I s"
  then have "I s \<longrightarrow> I (snd (r, t))"
  proof (elim event_loop.raw_induct [where P = "\<lambda>_ _ s y. I s \<longrightarrow> I (snd y)", rotated])
    fix loop :: "bool \<Rightarrow> bool \<Rightarrow> ('a jtag2_scheme, bool) io" and g b s y
    assume IH: "\<And>g b s y. loop g b s = Some y \<Longrightarrow> I s \<longrightarrow> I (snd y)"
      and run: "io_bind (pollDevice g b) (\<lambda>flags t. loop (fst flags) (snd flags) t) s = Some y"
    obtain r' t' where y: "y = (r', t')" by (cases y)
    from run [unfolded y] show "I s \<longrightarrow> I (snd y)"
      unfolding y snd_conv
      by (cases rule: io_bind_SomeE) (auto dest!: IH dest: preservesD [OF comm_preserves_pollDevice [OF assms]])
  qed
  with \<open>I s\<close> show ?thesis by simp
qed

lemma comm_preserves_eventLoop [preserve]: "comm_closed I \<Longrightarrow> preserves I eventLoop"
  unfolding eventLoop_def startPolling_def
  by (intro preserve comm_preserves_ctrl) (auto simp: preserves_def dest: comm_preserves_event_loop)

lemma comm_preserves_resetProgram [preserve]: "comm_closed I \<Longrightarrow> preserves I (resetProgram p)"
  unfolding resetProgram_def by (intro preserve)

lemma comm_preserves_step_loop [preserve]:
  assumes "comm_closed I"
  shows "preserves I (step_loop cmd i)"
proof (induction i)
  case 0
  show ?case
    unfolding step_loop.simps [of cmd 0] nat.case by (intro preserve assms)
next
  case (Suc i)
  show ?case
    unfolding step_loop.simps [of cmd "Suc i"] nat.case by (intro preserve assms Suc.IH)
qed

lemma comm_preserves_jtagSingleStep [preserve]: "comm_closed I \<Longrightarrow> preserves I (jtagSingleStep h)"
  unfolding jtagSingleStep_def by (intro preserve)

section \<open>Properties\<close>

text \<open>A program counter that was written and is reported back by the box is read as what was
  written, its lowest bit cleared: the driver doubles the word addresses of the box. One command
  is sent for each.\<close>

lemma program_counter_roundtrip:
  assumes "wq s = []" "pc < 2 ^ 33"
    and "avail (rx s) = frame (command_sequence s) [RSP_OK] @
           frame (next_seq (command_sequence s)) (RSP_PC # u32_to_b4 (pc div 2)) @ rest"
  shows "\<exists>t u. setProgramCounter pc s = Some (Inr True, t) \<and> getProgramCounter t = Some (Inr (pc AND NOT 1), u) \<and>
     tx u = tx s @ frame (command_sequence s) (CMND_WRITE_PC # u32_to_b4 (pc div 2)) @
       frame (next_seq (command_sequence s)) [CMND_READ_PC]"
proof -
  obtain t where t: "setProgramCounter pc s = Some (Inr True, t)"
      "avail (rx t) = frame (next_seq (command_sequence s)) (RSP_PC # u32_to_b4 (pc div 2)) @ rest"
      "line_only (s\<lparr>wq := [], tx := tx s @ frame (command_sequence s) (CMND_WRITE_PC # u32_to_b4 (pc div 2)),
         command_sequence := next_seq (command_sequence s)\<rparr>) t"
    using setProgramCounter_answer [OF assms(1,3)] by blast
  note st = line_only_simps(1-3) [OF t(3)]
  have "unat pc < 2 ^ 33"
    using assms(2) by (simp add: word_less_nat_alt)
  then have "pc div 2 < 2 ^ 32"
    by (simp add: word_less_nat_alt unat_div)
  then obtain u where u: "getProgramCounter t = Some (Inr (2 * (pc div 2)), u)"
      "tx u = tx t @ frame (command_sequence t) [CMND_READ_PC]"
    using getProgramCounter_answer [of t "pc div 2" rest] t(2) st by auto
  have "2 * (pc div 2) = pc AND NOT 1"
    using halve_double [of pc] by (simp add: mult.commute)
  then show ?thesis
    using t(1) u st by auto
qed

text \<open>A frame that arrives while the driver polls: one that is not an event changes nothing; an event
  in the list of ignored ones changes nothing; any other sets the flag of its class. An event byte
  below \<open>EVT_BREAK\<close> is looked up outside the array.\<close>

lemma pollDevice_event:
  assumes "rx s = Chunk bs # evs" "bs \<noteq> []" "avail (rx s) = frame q (e # p) @ rest"
    and "Suc (length p) \<le> MAX_MESSAGE" "arrays_ok s"
  shows "\<exists>t. avail (rx t) = rest \<and>
     pollDevice b g s = Some (if q \<noteq> 0xffff then Inr (b, g)
       else if e < EVT_BREAK then Inl Undef
       else if nonbreaking_events s ! (unat e - unat EVT_BREAK) then Inr (b, g)
       else Inr (event_switch e b g), t)"
  using pollDevice_frame [OF assms, of b g] fed_avail by blast

text \<open>C18: whatever arrives, the event loop does not return: it runs for ever (as on a silent line) or
  ends with an exception. So \<open>jtagContinue\<close> never returns, a single step never reports success,
  and neither does \<open>resetProgram\<close> return, except in debugWire mode, where it does not wait.\<close>

theorem eventLoop_never_returns:
  "eventLoop s \<noteq> Some (Inr r, t) \<and> eventLoop (s\<lparr>rx := []\<rparr>) = None \<and>
   jtagContinue s \<noteq> Some (Inr r, t) \<and> jtagSingleStep h s \<noteq> Some (Inr True, t) \<and>
   (if useDebugWire s then True else resetProgram p s \<noteq> Some (Inr r, t))"
proof (intro conjI)
  show "eventLoop s \<noteq> Some (Inr r, t)"
    by (rule eventLoop_not_Inr)
  show "eventLoop (s\<lparr>rx := []\<rparr>) = None"
    by (simp add: eventLoop_def startPolling_def ctrl_write_def io_then_def io_bind_def event_loop_silent)
  show "jtagContinue s \<noteq> Some (Inr r, t)"
    unfolding jtagContinue_def io_then_def
    by (auto elim!: io_bind_InrE simp: eventLoop_not_Inr)
  show "jtagSingleStep h s \<noteq> Some (Inr True, t)"
    unfolding jtagSingleStep_def
    by (auto elim!: io_bind_InrE simp: eventLoop_not_Inr io_ret_def split: if_splits)
  show "if useDebugWire s then True else resetProgram p s \<noteq> Some (Inr r, t)"
    by (simp add: resetProgram_not_Inr)
qed

text \<open>\<open>parseEvents\<close> sets exactly the flags of the events that the items of the list name, an item
  naming the first event it is a prefix of; a list that ends in a comma has an empty item, which
  names \<open>EVT_BREAK\<close>, and so the break event is ignored.\<close>

lemma parseEvents_items:
  assumes "arrays_ok s"
  shows "\<exists>t. parseEvents evtlist s = Some (Inr (), t) \<and> arrays_ok t \<and>
     (\<forall>i < 32. nonbreaking_events t ! i \<longleftrightarrow>
        (\<exists>item \<in> set (event_names evtlist). event_value item evttable = of_nat (unat EVT_BREAK + i))) \<and>
     (evtlist \<noteq> [] \<and> last evtlist = CHR '','' \<longrightarrow> nonbreaking_events t ! 0)"
proof -
  define fs where "fs = fold set_event (event_names evtlist) (replicate 32 False)"
  have fs: "length fs = 32" "\<forall>i < 32. fs ! i \<longleftrightarrow>
     (\<exists>item \<in> set (event_names evtlist). event_value item evttable = of_nat (224 + i))"
    using fold_set_event [of "replicate 32 False" "event_names evtlist"] by (auto simp: fs_def)
  have "fs ! 0" if "evtlist \<noteq> []" "last evtlist = CHR '',''"
  proof -
    from that have "[] \<in> set (event_names evtlist)"
      using trailing_comma [of "butlast evtlist"] append_butlast_last_id [of evtlist] by simp
    then show ?thesis
      using fs(2) event_value_empty by (auto simp: code_defs)
  qed
  then show ?thesis
    using assms fs by (auto simp: parseEvents_def io_simps event_items_fold arrays_ok_def fs_def [symmetric] code_defs)
qed

section \<open>Examples\<close>

lemma program_counter_roundtrip_witness:
  "\<exists>t u. setProgramCounter 0x101 (quiet_box [Chunk (frame 0 [RSP_OK] @ frame 1 (RSP_PC # u32_to_b4 0x80))]) = Some (Inr True, t) \<and>
     getProgramCounter t = Some (Inr 0x100, u)"
  using program_counter_roundtrip [of "quiet_box [Chunk (frame 0 [RSP_OK] @ frame 1 (RSP_PC # u32_to_b4 0x80))]" "0x101" "[]"]
  by (auto simp: frame_nonempty next_seq_def)

lemma quiet_box_arrays: "arrays_ok (quiet_box evs)"
  using jtag2_inv_new by (simp add: jtag2_inv_def quiet_box_def)

lemma pollDevice_event_witness:
  "\<exists>t. pollDevice False False (quiet_box [Chunk (frame 0xffff [0x00])]) = Some (Inl Undef, t)"
  using pollDevice_event [of "quiet_box [Chunk (frame 0xffff [0x00])]" "frame 0xffff [0x00]" "[]" "0xffff" 0 "[]" "[]" False False]
  by (auto simp: frame_nonempty quiet_box_arrays code_defs)

lemma parseEvents_items_witness:
  "\<exists>t. parseEvents ''run,'' (quiet_box []) = Some (Inr (), t) \<and> nonbreaking_events t ! 0"
  using parseEvents_items [of "quiet_box []" "''run,''"]
  by (auto simp: quiet_box_arrays)

end
