(* ===== verification/Device_Lookup.thy ===== *)
theory Device_Lookup
  imports Device_Table
begin

text \<open>
  The choice of a device from the table, by the id the target reports or by the name the user
  gave: the loops that \<open>deviceAutoConfig\<close> has in both drivers (\<^verbatim>\<open>src/src/jtag2io.cc\<close> and
  \<^verbatim>\<open>src/src/jtagio.cc\<close>).
\<close>

section \<open>Lookup\<close>

text \<open>The walk through the device table up to its end mark, the entry without a name.\<close>

fun find_device :: "(jtag_device_def \<Rightarrow> bool) \<Rightarrow> jtag_device_def list \<Rightarrow> jtag_device_def option" where
  "find_device P [] = None"
| "find_device P (d # ds) =
     (if dev_name d = None then None else if P d then Some d else find_device P ds)"

text \<open>\<open>strcasecmp(a, b) == 0\<close>.\<close>

definition to_lower :: "char \<Rightarrow> char" where
  "to_lower c = (if 65 \<le> (of_char c :: nat) \<and> (of_char c :: nat) \<le> 90 then char_of ((of_char c :: nat) + 32) else c)"

definition same_name :: "string \<Rightarrow> string \<Rightarrow> bool" where
  "same_name a b \<longleftrightarrow> map to_lower a = map to_lower b"

definition device_named :: "string \<Rightarrow> jtag_device_def \<Rightarrow> bool" where
  "device_named n d \<longleftrightarrow> (case dev_name d of None \<Rightarrow> False | Some m \<Rightarrow> same_name m n)"

text \<open>The device id is in bits 12 to 27 of the JTAG id, whose bytes come least significant first.\<close>

definition jtag_device_id :: "u8 list \<Rightarrow> u32" where
  "jtag_device_id b = drop_bit 12 ((ucast (b ! 0) OR push_bit 8 (ucast (b ! 1)) OR push_bit 16 (ucast (b ! 2)) OR
     push_bit 24 (ucast (b ! 3))) AND 0x0FFFF000)"

section \<open>Devices and their ids\<close>

definition device_ids :: "(string option \<times> u32) list" where
  "device_ids = map (\<lambda>d. (dev_name d, device_id d)) deviceDefinitions"

fun find_id :: "u32 \<Rightarrow> (string option \<times> u32) list \<Rightarrow> string option" where
  "find_id i [] = None"
| "find_id i ((n, j) # ds) = (if n = None then None else if j = i then n else find_id i ds)"

lemma find_device_id:
  "Option.bind (find_device (\<lambda>d. device_id d = i) ds) dev_name = find_id i (map (\<lambda>d. (dev_name d, device_id d)) ds)"
  by (induction ds) auto

lemma find_device_result:
  "find_device P ds = Some d \<Longrightarrow> d \<in> set ds \<and> P d \<and> dev_name d \<noteq> None"
  by (induction ds) (auto split: if_splits)

lemmas device_ids_list = device_ids_def [unfolded deviceDefinitions_def list.map device_entry_defs jtag_device_def.simps]

section \<open>Properties\<close>

text \<open>The device that is found by the id a part reports is the part itself, except for the second
  device of each pair that shares an id: those can only be selected by name.\<close>

lemma devices_detected:
  "map dev_name (filter (\<lambda>d. dev_name d \<noteq> None \<and>
      Option.bind (find_device (\<lambda>e. device_id e = device_id d) deviceDefinitions) dev_name \<noteq> dev_name d) deviceDefinitions) =
   map Some [''at90pwm3'', ''at90pwm3b'', ''at90pwm316'', ''at90usb647'', ''atmega165p'', ''atmega329p'']"
proof -
  have "map dev_name (filter (\<lambda>d. dev_name d \<noteq> None \<and>
      Option.bind (find_device (\<lambda>e. device_id e = device_id d) deviceDefinitions) dev_name \<noteq> dev_name d) ds) =
    map fst (filter (\<lambda>(n, i). n \<noteq> None \<and> find_id i device_ids \<noteq> n) (map (\<lambda>d. (dev_name d, device_id d)) ds))" for ds
    by (induction ds) (simp_all add: find_device_id device_ids_def)
  also have "map fst (filter (\<lambda>(n, i). n \<noteq> None \<and> find_id i device_ids \<noteq> n) (map (\<lambda>d. (dev_name d, device_id d)) deviceDefinitions)) =
     map Some [''at90pwm3'', ''at90pwm3b'', ''at90pwm316'', ''at90usb647'', ''atmega165p'', ''atmega329p'']"
    unfolding device_ids_def [symmetric] device_ids_list by code_simp
  finally show ?thesis .
qed

end
