(* ===== verification/Mk2_Init.thy ===== *)
theory Mk2_Init
  imports Mk2_Run Device_Lookup
begin

text \<open>
  Connecting to the box and to the target with the mkII driver (\<^verbatim>\<open>src/src/jtag2io.cc\<close>): the
  sign-on at the possible bit rates, the choice of the device descriptor, the preparation of the
  target for on-chip debugging, and the sign-off.
\<close>

section \<open>Bit rates and descriptors\<close>

definition baud_code :: "int \<Rightarrow> u8 option" where
  "baud_code newBitRate =
     (if newBitRate = 9600 then Some PAR_BAUD_9600
      else if newBitRate = 19200 then Some PAR_BAUD_19200
      else if newBitRate = 38400 then Some PAR_BAUD_38400
      else if newBitRate = 57600 then Some PAR_BAUD_57600
      else if newBitRate = 115200 then Some PAR_BAUD_115200
      else None)"

text \<open>For another rate \<open>jtagrate\<close> is not initialised.\<close>

definition changeBitRate :: "int \<Rightarrow> ('z jtag2_scheme, unit) io" where
  "changeBitRate newBitRate =
     io_bind (io_get (\<lambda>s. (is_usb s, case baud_code newBitRate of Some c \<Rightarrow> c | None \<Rightarrow> fresh s 0)))
     (\<lambda>(usb, jtagrate).
     if usb then io_ret ()
     else io_then (setJtagParameter PAR_BAUD_RATE [jtagrate]) (changeLocalBitRate newBitRate))"

text \<open>The first \<open>devdescrlen\<close> bytes of the descriptor are the command.\<close>

definition setDeviceDescriptor :: "jtag_device_def \<Rightarrow> ('z jtag2_scheme, unit) io" where
  "setDeviceDescriptor dev =
     io_bind (io_get devdescrlen) (\<lambda>n.
     io_bind (io_defined (if 0 \<le> n then load_many (desc2_bytes (dev_desc2 dev)) 0 (nat n) else None)) (\<lambda>command.
     io_bind (doJtagCommand command True) (\<lambda>(ok, response, respSize).
     check ok ''JTAG ICE: Failed to set device description'')))"

section \<open>Sign-on\<close>

definition FWVER :: "nat \<Rightarrow> nat \<Rightarrow> nat" where
  "FWVER major minor = 256 * major + minor"

text \<open>What is done with the answer to the sign-on command: only a JTAG ICE mkII with firmware before
  4.0 takes the short descriptor.\<close>

definition sign_on_message :: "u8 list option \<Rightarrow> int \<Rightarrow> ('z jtag2_scheme, bool) io" where
  "sign_on_message signonmsg msgsize =
     io_bind (io_defined signonmsg) (\<lambda>m.
     io_bind (io_defined (cell m 0)) (\<lambda>c.
     io_then (check (c = RSP_SIGN_ON \<and> msgsize > 17) ''Unexpected response to sign-on command'')
    (io_bind (io_defined (store m (nat (msgsize - 1)) 0)) (\<lambda>m.
     io_bind (io_defined (load_many m 1 15)) (\<lambda>info.
     io_then (io_put (\<lambda>s.
         if emu_type s = EMULATOR_JTAGICE \<and> unat (m ! 8) * 256 + unat (m ! 7) < FWVER 4 0
         then s\<lparr>devdescrlen := devdescrlen s - 2\<rparr> else s))
       (io_ret True))))))"

function synchronise_loop :: "nat \<Rightarrow> ('z jtag2_scheme, bool) io" where
  "synchronise_loop tries s =
     (if tries < MAX_JTAG_SYNC_ATTEMPS then
        io_bind (sendJtagCommand [CMND_GET_SIGN_ON] tries False) (\<lambda>(ok, msgsize, signonmsg, tries') t.
          if ok then sign_on_message signonmsg msgsize t
          else synchronise_loop tries' t) s
      else Some (Inr False, s))"
  by pat_completeness auto

termination
  by (relation "measure (\<lambda>(tries, s). MAX_JTAG_SYNC_ATTEMPS - tries)")
    (auto dest!: sendJtagCommand_tries)

declare synchronise_loop.simps [simp del]

definition synchroniseAt :: "int \<Rightarrow> ('z jtag2_scheme, bool) io" where
  "synchroniseAt bitrate = io_then (changeLocalBitRate bitrate) (synchronise_loop 0)"

definition emulator_mode :: "'z jtag2_scheme \<Rightarrow> u8" where
  "emulator_mode s =
     (if useDebugWire s then EMULATOR_MODE_DEBUGWIRE
      else if is_xmega s then EMULATOR_MODE_JTAG_XMEGA else EMULATOR_MODE_JTAG)"

fun start_link :: "int list \<Rightarrow> ('z jtag2_scheme, unit) io" where
  "start_link [] = check False ''Failed to synchronise with the JTAG ICE (is it connected and powered?)''"
| "start_link (bitrate # bitrates) =
     io_bind (synchroniseAt bitrate) (\<lambda>ok.
     if ok then
       io_bind (io_get (\<lambda>s. (apply_nSRST s, emulator_mode s))) (\<lambda>(nsrst, mode).
       io_then (if nsrst then setJtagParameter PAR_EXTERNAL_RESET [0x01] else io_ret ())
      (io_then (setJtagParameter PAR_EMULATOR_MODE [mode])
         (io_put (\<lambda>s. s\<lparr>signedIn := True\<rparr>))))
     else start_link bitrates)"

definition bitrates :: "int list" where
  "bitrates = [19200, 115200, 57600, 38400, 9600]"

definition startJtagLink :: "('z jtag2_scheme, unit) io" where
  "startJtagLink = start_link bitrates"

text \<open>The destructor. \<open>doJtagCommand\<close> may throw, and then the box is not signed off.\<close>

definition jtag2_close :: "('z jtag2_scheme, unit) io" where
  "jtag2_close =
     io_bind (io_get signedIn) (\<lambda>signed.
     if signed then
       io_bind (doJtagCommand [CMND_RESTORE_TARGET] True) (\<lambda>_.
       io_then (doSimpleJtagCommand CMND_SIGN_OFF)
         (io_put (\<lambda>s. s\<lparr>signedIn := False\<rparr>)))
     else io_ret ())"

section \<open>The device\<close>

definition configDaisyChain :: "('z jtag2_scheme, unit) io" where
  "configDaisyChain =
     io_bind (io_get (\<lambda>s. [units_before s, units_after s, bits_before s, bits_after s])) (\<lambda>buf.
     if \<exists>b \<in> set buf. 0 < b then setJtagParameter PAR_DAISY_CHAIN_INFO buf else io_ret ())"

text \<open>The id the box reports: the signature of a debugWire target, or bits 12 to 27 of the JTAG id.
  \<open>jtagCheck(respSize == 2)\<close> is called with a truth value and never fails.\<close>

definition reported_device_id :: "('z jtag2_scheme, u32) io" where
  "reported_device_id =
     io_bind (io_get useDebugWire) (\<lambda>dw.
     if dw then
       io_bind (getJtagParameter PAR_TARGET_SIGNATURE) (\<lambda>(resp, respSize).
       io_then (jtagCheck (if respSize = 2 then 1 else 0))
      (io_bind (io_defined (load_many resp 1 2)) (\<lambda>b.
       io_ret (ucast (b ! 0) OR push_bit 8 (ucast (b ! 1))))))
     else
       io_bind (getJtagParameter PAR_JTAGID) (\<lambda>(resp, respSize).
       io_then (jtagCheck (if respSize = 4 then 1 else 0))
      (io_bind (io_defined (load_many resp 1 4)) (\<lambda>b.
       io_ret (jtag_device_id b)))))"

definition deviceAutoConfig :: "('z jtag2_scheme, unit) io" where
  "deviceAutoConfig =
     io_then configDaisyChain
    (io_bind reported_device_id (\<lambda>device_id_reported.
     io_bind (io_get device_name) (\<lambda>name.
     io_bind (case name of
         None \<Rightarrow>
           (case find_device (\<lambda>d. device_id d = device_id_reported) deviceDefinitions of
              None \<Rightarrow> io_throw (Thrown (''No configuration available for device ID: %0x'' @ [CHR 0x0A]))
            | Some d \<Rightarrow> io_ret d)
       | Some n \<Rightarrow>
           (case find_device (device_named n) deviceDefinitions of
              None \<Rightarrow> io_throw (Thrown (''No configuration available for Device: %s'' @ [CHR 0x0A]))
            | Some d \<Rightarrow> io_ret d)) (\<lambda>pDevice.
     io_then (io_put (\<lambda>s. s\<lparr>device_name := dev_name pDevice, p_device_def := Some pDevice\<rparr>))
       (setDeviceDescriptor pDevice)))))"

definition initJtagBox :: "('z jtag2_scheme, unit) io" where
  "initJtagBox =
     io_then (io_put (\<lambda>s. case device_name s of
         None \<Rightarrow> s
       | Some n \<Rightarrow> (case find_device (device_named n) deviceDefinitions of
            None \<Rightarrow> s
          | Some d \<Rightarrow> s\<lparr>is_xmega := dev_is_xmega d\<rparr>)))
    (io_then startJtagLink
    (io_then (changeBitRate 115200)
    (io_then interruptProgram
    (io_then deviceAutoConfig
       (jtag2_deleteAllBreakpoints)))))"

section \<open>On-chip debugging\<close>

text \<open>The quotient of the \<open>double\<close> 5.35e6 is truncated; it is at most 255 here.\<close>

definition jtag_clock :: "u64 \<Rightarrow> u8" where
  "jtag_clock bitrate =
     (if 6400000 \<le> bitrate then 0
      else if 2800000 \<le> bitrate then 1
      else if 20900 \<le> bitrate then ucast (5350000 div bitrate)
      else 255)"

text \<open>Clear the lock bits and enable the on-chip debug fuse, each only when needed.\<close>

definition unlock_bits :: "('z jtag2_scheme, unit) io" where
  "unlock_bits =
     io_bind (jtagRead (LOCK_SPACE_ADDR_OFFSET + 0) 1) (\<lambda>lockBits.
     io_bind (io_defined (cell lockBits 0)) (\<lambda>b.
     if b \<noteq> LOCK_BITS_ALL_UNLOCKED
     then io_then (jtagWrite (LOCK_SPACE_ADDR_OFFSET + 0) 1 [LOCK_BITS_ALL_UNLOCKED]) (io_ret ())
     else io_ret ()))"

definition enable_ocd_fuse :: "('z jtag2_scheme, unit) io" where
  "enable_ocd_fuse =
     io_bind (jtagRead (FUSE_SPACE_ADDR_OFFSET + 0) 3) (\<lambda>fuseBits.
     io_bind (io_defined (load_many fuseBits 0 3)) (\<lambda>f.
     if f ! 1 AND FUSE_OCDEN = FUSE_OCDEN
     then io_then (jtagWrite (FUSE_SPACE_ADDR_OFFSET + 1) 1 [f ! 1 AND NOT FUSE_OCDEN]) (io_ret ())
     else io_ret ()))"

definition initJtagOnChipDebugging :: "u64 \<Rightarrow> ('z jtag2_scheme, unit) io" where
  "initJtagOnChipDebugging bitrate =
     io_bind (io_get useDebugWire) (\<lambda>dw.
     io_then (if \<not> dw then
         io_then (setJtagParameter PAR_OCD_JTAG_CLK [jtag_clock bitrate])
        (io_then enableProgramming
        (io_then unlock_bits
        (io_then enable_ocd_fuse disableProgramming)))
       else io_ret ())
    (io_then (resetProgram False)
    (io_bind (io_get is_xmega) (\<lambda>xmega.
     io_then (if \<not> xmega then setJtagParameter PAR_TIMERS_RUNNING [0] else io_ret ())
    (io_then (resetProgram False) (io_ret ()))))))"

section \<open>Answers to parameter commands\<close>

lemma getJtagParameter_answer:
  assumes "wq s = []" "0 < length v" "Suc (length v) \<le> MAX_MESSAGE"
    and "avail (rx s) = frame (command_sequence s) (RSP_PARAMETER # v) @ rest"
  shows "\<exists>msg t. getJtagParameter item s = Some (Inr (RSP_PARAMETER # v @ msg, int (Suc (length v))), t) \<and>
     avail (rx t) = rest \<and> line_only (s\<lparr>wq := [], tx := tx s @ frame (command_sequence s) [CMND_GET_PARAMETER, item],
       command_sequence := next_seq (command_sequence s)\<rparr>) t"
proof -
  obtain msg t where t: "doJtagCommand [CMND_GET_PARAMETER, item] True s =
        Some (Inr (True, Some msg, int (Suc (length v))), t)" "take (Suc (length v)) msg = RSP_PARAMETER # v"
      "avail (rx t) = rest" "line_only (s\<lparr>wq := [], tx := tx s @ frame (command_sequence s) [CMND_GET_PARAMETER, item],
       command_sequence := next_seq (command_sequence s)\<rparr>) t"
    using doJtagCommand_answer [of s "RSP_PARAMETER # v" "[]" rest "[CMND_GET_PARAMETER, item]" True] assms
    by (auto simp: code_defs)
  have msg: "msg = RSP_PARAMETER # v @ drop (Suc (length v)) msg"
    using append_take_drop_id [of "Suc (length v)" msg] t(2) by simp
  then have "cell msg 0 = Some RSP_PARAMETER"
    by (metis cell_def length_greater_0_conv list.discI nth_Cons_0)
  then have "getJtagParameter item s = Some (Inr (msg, int (Suc (length v))), t)"
    using t(1) assms(2) by (simp add: getJtagParameter_def io_simps)
  then show ?thesis
    using msg t(3,4) by metis
qed

lemma setJtagParameter_answer:
  assumes "wq s = []" "length v \<le> 4" "avail (rx s) = frame (command_sequence s) [RSP_OK] @ rest"
  shows "\<exists>t. setJtagParameter item v s = Some (Inr (), t) \<and> avail (rx t) = rest \<and>
     line_only (s\<lparr>wq := [], tx := tx s @ frame (command_sequence s) ([CMND_SET_PARAMETER, item] @ v),
       command_sequence := next_seq (command_sequence s)\<rparr>) t"
  using doJtagCommand_answer [of s "[RSP_OK]" "[]" rest "[CMND_SET_PARAMETER, item] @ v" True] assms
  by (auto simp: code_defs setJtagParameter_def io_simps)

section \<open>Sign-on\<close>

text \<open>The firmware version of an answer to the sign-on command.\<close>

definition short_descriptor :: "'z jtag2_scheme \<Rightarrow> u8 list \<Rightarrow> bool" where
  "short_descriptor s answer \<longleftrightarrow>
     emu_type s = EMULATOR_JTAGICE \<and> unat (answer ! 8) * 256 + unat (answer ! 7) < FWVER 4 0"

lemma synchronise_answer:
  assumes "wq s = []" "17 < length answer" "length answer \<le> MAX_MESSAGE" "answer ! 0 = RSP_SIGN_ON"
    and "avail (rx s) = frame (command_sequence s) answer @ rest"
  shows "\<exists>t. synchronise_loop 0 s = Some (Inr True, t) \<and> avail (rx t) = rest \<and>
     tx t = tx s @ frame (command_sequence s) [CMND_GET_SIGN_ON] \<and>
     devdescrlen t = (if short_descriptor s answer then devdescrlen s - 2 else devdescrlen s) \<and>
     line_only (s\<lparr>wq := [], tx := tx t, command_sequence := next_seq (command_sequence s), devdescrlen := devdescrlen t\<rparr>) t"
proof -
  define cmd where "cmd = [CMND_GET_SIGN_ON]"
  define u where "u = s\<lparr>wq := [], tx := tx s @ frame (command_sequence s) cmd\<rparr>"
  have u: "sendFrame cmd s = Some (Inr (), u)"
    using sendFrame_all [OF assms(1)] by (simp add: u_def)
  have ne: "answer \<noteq> []"
    using assms(2) by auto
  obtain m t where t: "recv u = Some (Inr (int (length answer), Some m), t)" "take (length answer) m = answer"
      "avail (rx t) = rest" "line_only (u\<lparr>command_sequence := next_seq (command_sequence u)\<rparr>) t"
    using recv_skips [of u "[]" answer rest] assms(2,3,5) ne by (auto simp: u_def)
  note st = line_only_simps [OF t(4)]
  have m: "m = answer @ drop (length answer) m"
    using append_take_drop_id [of "length answer" m] t(2) by simp
  have lm: "length answer \<le> length m"
    using t(2) by (metis length_take min.cobounded1)
  then have len: "17 < length m"
    using assms(2) by simp
  then have mne: "m \<noteq> []"
    by auto
  have nth: "m ! i = answer ! i" if "i < 18" for i
  proof -
    have "i < length answer" using that assms(2) by simp
    from nth_take [OF this, of m] show ?thesis unfolding t(2) by simp
  qed
  have send: "sendJtagCommand cmd 0 False s = Some (Inr (True, int (length answer), Some m, 1), t)"
    using u t(1) mne ne nth [of 0] assms(2,4) by (simp add: sendJtagCommand_def io_simps cell_def code_defs)
  have dd: "devdescrlen t = devdescrlen s" "emu_type t = emu_type s"
    using t(4) by (auto simp: line_only_def u_def)
  have "length answer - 1 < length m"
    using lm assms(2) by simp
  then have "sign_on_message (Some m) (int (length answer)) t =
      Some (Inr True, if short_descriptor s answer then t\<lparr>devdescrlen := devdescrlen t - 2\<rparr> else t)"
    using len mne assms(2,4) nth [of 0] nth [of 7] nth [of 8] dd
    by (simp add: sign_on_message_def io_simps cell_def store_def load_many_def short_descriptor_def nat_diff_distrib)
  then have "synchronise_loop 0 s =
      Some (Inr True, if short_descriptor s answer then t\<lparr>devdescrlen := devdescrlen t - 2\<rparr> else t)"
    using send by (simp add: synchronise_loop.simps [of 0] io_simps cmd_def code_defs)
  moreover obtain evs l where t_eq: "t = u\<lparr>command_sequence := next_seq (command_sequence u), rx := evs, ctrl_log := l\<rparr>"
    using t(4) by (auto simp: line_only_def)
  have only: "line_only (s\<lparr>wq := [], tx := tx t, command_sequence := next_seq (command_sequence s), devdescrlen := n\<rparr>)
      (t\<lparr>devdescrlen := n\<rparr>)" for n
    unfolding line_only_def t_eq u_def
    by (intro exI [of _ evs] exI [of _ l], rule jtag2.equality) simp_all
  note only [of "devdescrlen t - 2"] only [of "devdescrlen t", simplified]
  ultimately show ?thesis
    using t(3) st(2) dd by (cases "short_descriptor s answer") (simp_all add: u_def cmd_def)
qed

section \<open>Invariants\<close>

text \<open>The state predicates that making the connection and choosing the device cannot falsify.\<close>

definition link_closed :: "('z jtag2_scheme \<Rightarrow> bool) \<Rightarrow> bool" where
  "link_closed I \<longleftrightarrow> comm_closed I \<and> (\<forall>s. I s \<longrightarrow> (\<forall>r. I (s\<lparr>local_rate := r\<rparr>)) \<and> (\<forall>a b. I (s\<lparr>rx := a, flq := b\<rparr>)) \<and>
     (\<forall>n. I (s\<lparr>devdescrlen := n\<rparr>)) \<and> (\<forall>b. I (s\<lparr>signedIn := b\<rparr>)) \<and> (\<forall>b. I (s\<lparr>is_xmega := b\<rparr>)) \<and>
     (\<forall>n d. I (s\<lparr>device_name := n, p_device_def := Some d\<rparr>)))"

lemma link_closed_comm: "link_closed I \<Longrightarrow> comm_closed I"
  by (simp add: link_closed_def)

lemma link_closed_inv: "link_closed jtag2_inv"
  by (simp add: link_closed_def comm_closed_inv)

lemma link_preserves_changeBitRate:
  assumes "link_closed I"
  shows "preserves I (changeLocalBitRate r)" "preserves I (changeBitRate r)"
proof -
  show c: "preserves I (changeLocalBitRate r)"
    using assms by (intro preserve) (auto simp: link_closed_def)
  show "preserves I (changeBitRate r)"
    unfolding changeBitRate_def by (intro preserve c link_closed_comm assms)
qed

lemma link_preserves_setDeviceDescriptor: "link_closed I \<Longrightarrow> preserves I (setDeviceDescriptor d)"
  unfolding setDeviceDescriptor_def by (intro preserve link_closed_comm)

lemma link_preserves_sign_on_message: "link_closed I \<Longrightarrow> preserves I (sign_on_message m n)"
  unfolding sign_on_message_def by (intro preserve preserves_put) (simp add: link_closed_def)

lemma link_preserves_synchronise_loop:
  assumes "link_closed I"
  shows "synchronise_loop n s = Some (r, t) \<Longrightarrow> I s \<Longrightarrow> I t"
proof (induction n s rule: synchronise_loop.induct)
  case (1 n s)
  note send = preservesD [OF comm_preserves_sendJtagCommand [OF link_closed_comm [OF assms]]]
  show ?case
  proof (cases "n < MAX_JTAG_SYNC_ATTEMPS")
    case False
    with "1.prems" show ?thesis by (simp add: synchronise_loop.simps [of n])
  next
    case True
    with "1.prems"(1) have "io_bind (sendJtagCommand [CMND_GET_SIGN_ON] n False) (\<lambda>(ok, msgsize, signonmsg, n') u.
          if ok then sign_on_message signonmsg msgsize u else synchronise_loop n' u) s = Some (r, t)"
      by (simp add: synchronise_loop.simps [of n])
    then show ?thesis
    proof (cases rule: io_bind_SomeE)
      case (err e)
      then show ?thesis using send "1.prems"(2) by blast
    next
      case (ok x u)
      obtain a m msg n' where x: "x = (a, m, msg, n')" by (cases x)
      have u: "I u" using send ok(1) "1.prems"(2) by blast
      show ?thesis
        using "1.IH" [OF True ok(1) x [symmetric] refl refl] ok(2) x u
          preservesD [OF link_preserves_sign_on_message [OF assms]] by (cases a) auto
    qed
  qed
qed

lemma link_preserves_synchroniseAt: "link_closed I \<Longrightarrow> preserves I (synchroniseAt r)"
  unfolding synchroniseAt_def
  by (intro preserve link_preserves_changeBitRate) (auto simp: preserves_def dest: link_preserves_synchronise_loop)

lemma link_preserves_startJtagLink: "link_closed I \<Longrightarrow> preserves I startJtagLink"
proof -
  assume I: "link_closed I"
  then have put: "preserves I (io_put (\<lambda>s. s\<lparr>signedIn := True\<rparr>))"
    by (intro preserves_put) (simp add: link_closed_def)
  have "preserves I (start_link rates)" for rates
  proof (induction rates)
    case (Cons r rates)
    show ?case
      unfolding start_link.simps
      by (intro preserve link_preserves_synchroniseAt I put Cons.IH link_closed_comm)
  qed (simp add: preserve del: check_simps)
  then show "preserves I startJtagLink"
    by (simp add: startJtagLink_def)
qed

lemma comm_preserves_device_id:
  assumes "comm_closed I"
  shows "preserves I configDaisyChain" "preserves I reported_device_id"
  unfolding configDaisyChain_def reported_device_id_def by (intro preserve assms)+

lemma link_preserves_deviceAutoConfig:
  assumes "link_closed I"
  shows "preserves I deviceAutoConfig"
proof -
  have "preserves I (io_put (\<lambda>s. s\<lparr>device_name := dev_name d, p_device_def := Some d\<rparr>))" for d
    using assms by (intro preserves_put) (simp add: link_closed_def)
  then show ?thesis
    unfolding deviceAutoConfig_def
    by (intro preserve comm_preserves_device_id link_preserves_setDeviceDescriptor link_closed_comm assms)
qed

lemma length_deleteAllBreakpoints: "deleteAllBreakpoints tbl = Some new \<Longrightarrow> length new = length tbl"
  by (induction tbl arbitrary: new) (auto split: if_splits)

lemma link_preserves_initJtagBox:
  assumes "link_closed I" "preserves I jtag2_deleteAllBreakpoints"
  shows "preserves I initJtagBox"
proof -
  have "preserves I (io_put (\<lambda>s. case device_name s of
         None \<Rightarrow> s
       | Some n \<Rightarrow> (case find_device (device_named n) deviceDefinitions of
            None \<Rightarrow> s
          | Some d \<Rightarrow> s\<lparr>is_xmega := dev_is_xmega d\<rparr>)))"
    using assms(1) by (intro preserves_put) (simp add: link_closed_def split: option.split)
  then show ?thesis
    unfolding initJtagBox_def
    by (intro preserve link_preserves_startJtagLink link_preserves_changeBitRate link_preserves_deviceAutoConfig link_closed_comm assms)
qed

text \<open>After the device is chosen it is known.\<close>

lemma deviceAutoConfig_device: "deviceAutoConfig s = Some (Inr (), t) \<Longrightarrow> p_device_def t \<noteq> None"
proof -
  assume "deviceAutoConfig s = Some (Inr (), t)"
  then obtain d u where u: "setDeviceDescriptor d u = Some (Inr (), t)" "p_device_def u = Some d"
    unfolding deviceAutoConfig_def by (elim io_bind_InrE io_then_InrE) (auto simp: io_put_def)
  have "preserves (\<lambda>s. p_device_def s = Some d) (setDeviceDescriptor d)"
    unfolding setDeviceDescriptor_def by (intro preserve) (auto simp: comm_closed_def)
  from preservesD [OF this u] show ?thesis by simp
qed

text \<open>Preparing a JTAG target waits for events after the reset, and so it does not return.\<close>

lemma initJtagOnChipDebugging_result:
  "initJtagOnChipDebugging r s = Some (Inr (), t) \<Longrightarrow> useDebugWire s"
proof (rule ccontr)
  assume run: "initJtagOnChipDebugging r s = Some (Inr (), t)" and dw: "\<not> useDebugWire s"
  define I :: "'a jtag2_scheme \<Rightarrow> bool" where "I u \<longleftrightarrow> \<not> useDebugWire u" for u
  have comm: "comm_closed I"
    by (simp add: comm_closed_def I_def)
  have fill: "fill_closed I"
    unfolding fill_closed_def I_def by (intro allI impI, rename_tac u c d a, case_tac c) simp_all
  have mode: "I u \<Longrightarrow> I (u\<lparr>programmingEnabled := b\<rparr>)" for u b
    by (simp add: I_def)
  have "preserves I (io_then (setJtagParameter PAR_OCD_JTAG_CLK [jtag_clock r])
      (io_then enableProgramming (io_then unlock_bits (io_then enable_ocd_fuse disableProgramming))))"
    unfolding unlock_bits_def enable_ocd_fuse_def
    by (intro preserve comm preserves_jtagRead preserves_jtagWrite fill mode comm_preserves_enableProgramming
        comm_preserves_disableProgramming)
  moreover from run dw obtain u v w where
    "io_then (setJtagParameter PAR_OCD_JTAG_CLK [jtag_clock r])
      (io_then enableProgramming (io_then unlock_bits (io_then enable_ocd_fuse disableProgramming))) s = Some (Inr (), u)"
    "resetProgram False u = Some (Inr v, w)"
    unfolding initJtagOnChipDebugging_def by (auto simp: io_get_apply elim!: io_bind_InrE io_then_InrE)
  ultimately show False
    using dw resetProgram_not_Inr [of u False v w] preservesD [of I _ s _ u] by (auto simp: I_def)
qed

section \<open>Properties\<close>

lemma setDeviceDescriptor_answer:
  assumes "wq s = []" "0 \<le> devdescrlen s" "devdescrlen s \<le> int sizeof_desc2" "d \<in> set deviceDefinitions"
    and "avail (rx s) = frame (command_sequence s) [RSP_OK] @ rest"
  shows "\<exists>t. setDeviceDescriptor d s = Some (Inr (), t) \<and> avail (rx t) = rest \<and>
     line_only (s\<lparr>wq := [], tx := tx s @ frame (command_sequence s) (take (nat (devdescrlen s)) (desc2_bytes (dev_desc2 d))),
       command_sequence := next_seq (command_sequence s)\<rparr>) t"
proof -
  have "length (desc2_bytes (dev_desc2 d)) = sizeof_desc2"
    using devices_sized assms(4) by (auto simp: list_all_iff)
  then have "load_many (desc2_bytes (dev_desc2 d)) 0 (nat (devdescrlen s)) =
      Some (take (nat (devdescrlen s)) (desc2_bytes (dev_desc2 d)))"
    using assms(2,3) by (simp add: load_many_def nat_le_iff)
  then show ?thesis
    using doJtagCommand_answer [of s "[RSP_OK]" "[]" rest "take (nat (devdescrlen s)) (desc2_bytes (dev_desc2 d))" True]
      assms(1,2,5)
    by (auto simp: code_defs setDeviceDescriptor_def io_simps)
qed

lemma deviceAutoConfig_answer:
  assumes "wq s = []" "\<not> useDebugWire s" "device_name s = None" "0 \<le> devdescrlen s" "devdescrlen s \<le> int sizeof_desc2"
    and "units_before s = 0" "units_after s = 0" "bits_before s = 0" "bits_after s = 0"
    and "length b = 4" "find_device (\<lambda>d. device_id d = jtag_device_id b) deviceDefinitions = Some d"
    and "avail (rx s) = frame (command_sequence s) (RSP_PARAMETER # b) @ frame (next_seq (command_sequence s)) [RSP_OK] @ rest"
  shows "\<exists>t. deviceAutoConfig s = Some (Inr (), t) \<and> p_device_def t = Some d \<and> device_name t = dev_name d \<and>
     bps t = bps s \<and> avail (rx t) = rest \<and>
     tx t = tx s @ frame (command_sequence s) [CMND_GET_PARAMETER, PAR_JTAGID] @
       frame (next_seq (command_sequence s)) (take (nat (devdescrlen s)) (desc2_bytes (dev_desc2 d)))"
proof -
  have chain: "configDaisyChain s = Some (Inr (), s)"
    using assms(6-9) by (simp add: configDaisyChain_def io_simps)
  obtain m u where u: "getJtagParameter PAR_JTAGID s = Some (Inr (RSP_PARAMETER # b @ m, int (Suc (length b))), u)"
      "avail (rx u) = frame (next_seq (command_sequence s)) [RSP_OK] @ rest"
      "line_only (s\<lparr>wq := [], tx := tx s @ frame (command_sequence s) [CMND_GET_PARAMETER, PAR_JTAGID],
         command_sequence := next_seq (command_sequence s)\<rparr>) u"
    using getJtagParameter_answer [of s b _ PAR_JTAGID] assms(1,10,12) by (fastforce simp: code_defs)
  obtain evs l where ueq: "u = s\<lparr>wq := [], tx := tx s @ frame (command_sequence s) [CMND_GET_PARAMETER, PAR_JTAGID],
         command_sequence := next_seq (command_sequence s), rx := evs, ctrl_log := l\<rparr>"
    using u(3) by (auto simp: line_only_def)
  have id: "reported_device_id s = Some (Inr (jtag_device_id b), u)"
    using u(1) assms(2,10) by (simp add: reported_device_id_def io_simps jtagCheck_simps load_many_def jtag_device_id_def)
  define v where "v = u\<lparr>device_name := dev_name d, p_device_def := Some d\<rparr>"
  have "d \<in> set deviceDefinitions"
    using find_device_result [OF assms(11)] by blast
  then obtain t where t: "setDeviceDescriptor d v = Some (Inr (), t)" "avail (rx t) = rest"
      "line_only (v\<lparr>wq := [], tx := tx v @ frame (command_sequence v) (take (nat (devdescrlen v)) (desc2_bytes (dev_desc2 d))),
       command_sequence := next_seq (command_sequence v)\<rparr>) t"
    using setDeviceDescriptor_answer [of v d rest] assms(4,5) u(2) by (auto simp: v_def ueq)
  have "device_name u = None"
    using assms(3) by (simp add: ueq)
  then have "deviceAutoConfig s = Some (Inr (), t)"
    using chain id t(1) assms(11) by (simp add: deviceAutoConfig_def io_simps v_def)
  then show ?thesis
    using t(2,3) by (auto simp: line_only_def v_def ueq)
qed

text \<open>A JTAG target without daisy chain that reports its id is configured as the first device of the
  table with that id: the box gets the first \<open>devdescrlen\<close> bytes of its descriptor, and the driver
  remembers the device and its name.\<close>

lemma deviceAutoConfig_detects:
  assumes "wq s = []" "\<not> useDebugWire s" "device_name s = None" "0 \<le> devdescrlen s" "devdescrlen s \<le> int sizeof_desc2"
    and "units_before s = 0" "units_after s = 0" "bits_before s = 0" "bits_after s = 0"
    and "length b = 4" "find_device (\<lambda>d. device_id d = jtag_device_id b) deviceDefinitions = Some d"
    and "avail (rx s) = frame (command_sequence s) (RSP_PARAMETER # b) @ frame (next_seq (command_sequence s)) [RSP_OK] @ rest"
  shows "\<exists>t. deviceAutoConfig s = Some (Inr (), t) \<and> p_device_def t = Some d \<and> device_name t = dev_name d \<and>
     tx t = tx s @ frame (command_sequence s) [CMND_GET_PARAMETER, PAR_JTAGID] @
       frame (next_seq (command_sequence s)) (take (nat (devdescrlen s)) (desc2_bytes (dev_desc2 d)))"
  using deviceAutoConfig_answer [OF assms] by blast

text \<open>An answer to the sign-on command ends the synchronisation at this bit rate with success; the
  length of the descriptor is reduced by two bytes exactly for a JTAG ICE mkII whose firmware is
  older than 4.0.\<close>

lemma synchroniseAt_signs_on:
  assumes "wq s = []" "17 < length answer" "length answer \<le> MAX_MESSAGE" "answer ! 0 = RSP_SIGN_ON"
    and "is_usb s \<or> tty_ok s \<and> bitrate \<in> {9600, 19200, 38400, 57600, 115200} \<and> flq s = []"
    and "avail (rx s) = frame (command_sequence s) answer @ rest"
  shows "\<exists>t. synchroniseAt bitrate s = Some (Inr True, t) \<and> avail (rx t) = rest \<and>
     tx t = tx s @ frame (command_sequence s) [CMND_GET_SIGN_ON] \<and>
     devdescrlen t = (if emu_type s = EMULATOR_JTAGICE \<and> unat (answer ! 8) * 256 + unat (answer ! 7) < FWVER 4 0
       then devdescrlen s - 2 else devdescrlen s)"
proof -
  define u where "u = (if is_usb s then s else s\<lparr>local_rate := bitrate\<rparr>)"
  have "changeLocalBitRate bitrate s = Some (Inr (), u)"
    using assms(5) by (auto simp: changeLocalBitRate_def io_simps jtagCheck_simps tcflush_input_def u_def)
  moreover have "\<exists>t. synchronise_loop 0 u = Some (Inr True, t) \<and> avail (rx t) = rest \<and>
     tx t = tx u @ frame (command_sequence u) [CMND_GET_SIGN_ON] \<and>
     devdescrlen t = (if short_descriptor u answer then devdescrlen u - 2 else devdescrlen u)"
    using synchronise_answer [of u answer rest] assms by (auto simp: u_def simp del: line_only_def)
  ultimately show ?thesis
    by (auto simp: synchroniseAt_def io_simps short_descriptor_def u_def)
qed

section \<open>Examples\<close>

lemma deviceAutoConfig_detects_witness:
  "\<exists>t. deviceAutoConfig (quiet_box [Chunk (frame 0 [RSP_PARAMETER, 0x3f, 0x30, 0x40, 0x09]), Chunk (frame 1 [RSP_OK])]) =
     Some (Inr (), t) \<and> device_name t = Some ''atmega16''"
proof -
  let ?s = "quiet_box [Chunk (frame 0 [RSP_PARAMETER, 0x3f, 0x30, 0x40, 0x09]), Chunk (frame 1 [RSP_OK])]"
  have "find_device (\<lambda>d. device_id d = jtag_device_id [0x3f, 0x30, 0x40, 0x09]) deviceDefinitions = Some dev_atmega16"
    by (simp add: jtag_device_id_def deviceDefinitions_def device_entry_defs)
  moreover have "\<not> useDebugWire ?s" "device_name ?s = None" "devdescrlen ?s = int sizeof_desc2"
      "units_before ?s = 0" "units_after ?s = 0" "bits_before ?s = 0" "bits_after ?s = 0"
    by (simp_all add: quiet_box_def jtag2_new_def jtag.extend_def jtag2.fields_def)
  ultimately have "\<exists>t. deviceAutoConfig ?s = Some (Inr (), t) \<and> p_device_def t = Some dev_atmega16 \<and>
      device_name t = dev_name dev_atmega16 \<and> tx t = tx ?s @ frame (command_sequence ?s) [CMND_GET_PARAMETER, PAR_JTAGID] @
       frame (next_seq (command_sequence ?s)) (take (nat (devdescrlen ?s)) (desc2_bytes (dev_desc2 dev_atmega16)))"
    by (intro deviceAutoConfig_detects [where b = "[0x3f, 0x30, 0x40, 0x09]" and rest = "[]"])
      (simp_all add: frame_nonempty next_seq_def)
  then show ?thesis
    by (auto simp: dev_atmega16_def)
qed

lemma synchroniseAt_signs_on_witness:
  "\<exists>t. synchroniseAt 19200 (quiet_box [Chunk (frame 0 (RSP_SIGN_ON # replicate 20 1))]) = Some (Inr True, t) \<and>
     devdescrlen t = 297"
proof -
  let ?s = "quiet_box [Chunk (frame 0 (RSP_SIGN_ON # replicate 20 1))]"
  have "tty_ok ?s" "flq ?s = []" "emu_type ?s = EMULATOR_JTAGICE" "devdescrlen ?s = 299"
    by (simp_all add: quiet_box_def jtag2_new_def jtag.extend_def jtag2.fields_def sizeof_desc2_def)
  moreover have "(RSP_SIGN_ON # replicate 20 1) ! 7 = 1" "(RSP_SIGN_ON # replicate 20 1) ! 8 = 1"
    by simp_all
  ultimately show ?thesis
    using synchroniseAt_signs_on [of ?s "RSP_SIGN_ON # replicate 20 1" 19200 "[]"]
    by (auto simp: frame_nonempty FWVER_def code_defs)
qed

end
