(* ===== verification/Mk1_Command.thy ===== *)
theory Mk1_Command
  imports Channel
begin

text \<open>
  The mkI driver: the state of \<open>class jtag1\<close> (\<^verbatim>\<open>src/src/jtag1.h\<close>), its command layer
  (\<^verbatim>\<open>src/src/jtagio.cc\<close>) and the parameters (\<^verbatim>\<open>src/src/jtagmisc.cc\<close>). A command is a string of
  bytes without a frame; the box answers \<open>JTAG_R_OK\<close> and the bytes of the response. After any other
  answer the driver asks for a sign of life until it gets one, and repeats the command; all the
  messages of one command together are at most \<open>MAX_JTAG_COMM_ATTEMPS\<close>.
\<close>

section \<open>State\<close>

definition MAX_BREAKPOINTS_CODE :: nat where "MAX_BREAKPOINTS_CODE = 4"
definition MAX_BREAKPOINTS_DATA :: nat where "MAX_BREAKPOINTS_DATA = 2"
definition MAX_BREAKPOINTS :: nat where "MAX_BREAKPOINTS = 4"

record breakpoint1 =
  bp1_address :: u32
  bp1_type :: bpType

text \<open>The breakpoint members of the class.\<close>

record bp1_table =
  bpCode :: "breakpoint1 list"
  bpData :: "breakpoint1 list"
  numBreakpointsCode :: int
  numBreakpointsData :: int

record jtag1 = jtag +
  bp1 :: bp1_table

text \<open>The constructor does not set the breakpoint members: they hold what the memory held.\<close>

definition jtag1_new :: "jtag \<Rightarrow> bool \<Rightarrow> bp1_table \<Rightarrow> jtag1" where
  "jtag1_new base nsrst garbage =
     jtag.extend (base\<lparr>apply_nSRST := nsrst\<rparr>) (jtag1.fields garbage)"

section \<open>Addresses\<close>

definition JTAG_EOM :: "u8 list" where "JTAG_EOM = [0x20, 0x20]"

definition decodeAddress :: "u8 list \<Rightarrow> u64 option" where
  "decodeAddress buf =
     (case buf of b0 # b1 # b2 # _ \<Rightarrow> Some (push_bit 16 (ucast b0) OR push_bit 8 (ucast b1) OR ucast b2)
      | _ \<Rightarrow> None)"

definition encodeAddress :: "u64 \<Rightarrow> u8 list" where
  "encodeAddress x = [ucast (drop_bit 16 x), ucast (drop_bit 8 x), ucast x]"

section \<open>Messages\<close>

text \<open>\<open>(SendResult)(mcu_data + infobuf[0])\<close> is never one of the first two values.\<close>

datatype SendResult = send_failed | send_ok | mcu_data u8

definition read_status :: "('z jtag_scheme, SendResult) io" where
  "read_status =
     io_bind (timeout_read 1) (\<lambda>bs.
     case bs of
       [] \<Rightarrow> io_ret send_failed
     | ok # _ \<Rightarrow>
         if ok = JTAG_R_OK then io_ret send_ok
         else if ok = JTAG_R_INFO then
           io_bind (timeout_read 2) (\<lambda>infobuf.
             io_ret (if length infobuf \<noteq> 2 \<or> infobuf ! 1 \<noteq> JTAG_R_OK then send_failed
                     else mcu_data (infobuf ! 0)))
         else io_ret send_failed)"

definition tty_check :: "('z jtag_scheme, unit) io" where
  "tty_check = io_bind (io_get tty_ok) (\<lambda>ok. jtagCheck (if ok then 0 else -1))"

definition jtag1_sendJtagCommand :: "u8 list \<Rightarrow> nat \<Rightarrow> ('z jtag_scheme, SendResult \<times> nat) io" where
  "jtag1_sendJtagCommand command tries =
     io_then (check (tries < MAX_JTAG_COMM_ATTEMPS) ''JTAG ICE: Cannot synchronise'')
    (io_then tty_check
    (io_then tcflush_input
    (io_bind (safewrite command) (\<lambda>count.
     io_then (if count < 0 then jtagCheck count else check (count = int (length command)) JTAG_CAUSE)
    (io_then tty_check
    (io_bind read_status (\<lambda>r. io_ret (r, tries + 1))))))))"

text \<open>The response with its terminating zero; \<open>None\<close> when it did not come in full.\<close>

definition getJtagResponse :: "nat \<Rightarrow> ('z jtag_scheme, u8 list option) io" where
  "getJtagResponse responseSize =
     io_bind (timeout_read responseSize) (\<lambda>response.
       io_ret (if length response < responseSize then None else Some (response @ [0])))"

lemma jtag1_sendJtagCommand_tries:
  "jtag1_sendJtagCommand command tries s = Some (Inr (r, tries'), t) \<Longrightarrow>
     tries < MAX_JTAG_COMM_ATTEMPS \<and> tries' = Suc tries"
  unfolding jtag1_sendJtagCommand_def
  by (auto simp: check_def io_throw_def io_ret_def split: if_splits elim!: io_then_InrE io_bind_InrE)

text \<open>\<open>while (sendJtagCommand(sync, sizeof sync, &tryCount) != send_ok);\<close>\<close>

function resync_loop :: "nat \<Rightarrow> ('z jtag_scheme, nat) io" where
  "resync_loop tries s =
     io_bind (jtag1_sendJtagCommand [0x20] tries) (\<lambda>(r, tries') t.
       if r = send_ok then Some (Inr tries', t) else resync_loop tries' t) s"
  by pat_completeness auto

termination
  by (relation "measure (\<lambda>(tries, s). MAX_JTAG_COMM_ATTEMPS - tries)")
    (auto dest!: jtag1_sendJtagCommand_tries)

declare resync_loop.simps [simp del]

lemma resync_loop_tries: "resync_loop tries s = Some (Inr tries', t) \<Longrightarrow> tries < tries' \<and> tries' \<le> MAX_JTAG_COMM_ATTEMPS"
proof (induction tries s rule: resync_loop.induct)
  case (1 tries s)
  from "1.prems" obtain r n u where n: "jtag1_sendJtagCommand [0x20] tries s = Some (Inr (r, n), u)"
    "(if r = send_ok then Some (Inr n, u) else resync_loop n u) = Some (Inr tries', t)"
    by (subst (asm) resync_loop.simps) (auto elim!: io_bind_InrE)
  note k = jtag1_sendJtagCommand_tries [OF n(1)]
  show ?case
    using n(2) k by (cases "r = send_ok") (auto dest: "1.IH" [OF n(1) refl])
qed

function jtag1_doJtagCommand_loop :: "u8 list \<Rightarrow> nat \<Rightarrow> nat \<Rightarrow> ('z jtag_scheme, u8 list) io" where
  "jtag1_doJtagCommand_loop command responseSize tryCount s =
     io_bind (jtag1_sendJtagCommand command tryCount) (\<lambda>(r, tryCount1) t.
       case r of
         send_ok \<Rightarrow>
           io_bind (getJtagResponse responseSize) (\<lambda>response.
             io_then (check (response \<noteq> None) JTAG_CAUSE) (io_ret (the response))) t
       | send_failed \<Rightarrow>
           io_bind (resync_loop tryCount1)
             (\<lambda>tryCount2 u. jtag1_doJtagCommand_loop command responseSize tryCount2 u) t
       | mcu_data _ \<Rightarrow>
           io_bind (jtag1_sendJtagCommand (0x53 # JTAG_EOM) tryCount1) (\<lambda>(r', tryCount2) u.
             io_then (if r' = send_ok then io_then (getJtagResponse 8) (io_ret ()) else io_ret ())
               (\<lambda>v. jtag1_doJtagCommand_loop command responseSize tryCount2 v) u) t) s"
  by pat_completeness auto

termination
  by (relation "measure (\<lambda>(command, n, tries, s). MAX_JTAG_COMM_ATTEMPS - tries)")
    (auto dest!: jtag1_sendJtagCommand_tries resync_loop_tries)

declare jtag1_doJtagCommand_loop.simps [simp del]

definition jtag1_doJtagCommand :: "u8 list \<Rightarrow> nat \<Rightarrow> ('z jtag_scheme, u8 list) io" where
  "jtag1_doJtagCommand command responseSize = jtag1_doJtagCommand_loop command responseSize 0"

definition jtag1_doSimpleJtagCommand :: "u8 \<Rightarrow> nat \<Rightarrow> ('z jtag_scheme, bool) io" where
  "jtag1_doSimpleJtagCommand cmd responseSize =
     io_bind (jtag1_doJtagCommand (cmd # JTAG_EOM) responseSize) (\<lambda>response.
     if responseSize = 0 then io_ret True
     else io_bind (io_defined (cell response (responseSize - 1))) (\<lambda>c. io_ret (c = JTAG_R_OK)))"

section \<open>Parameters\<close>

definition jtag1_setJtagParameter :: "u8 \<Rightarrow> u8 \<Rightarrow> ('z jtag_scheme, unit) io" where
  "jtag1_setJtagParameter item newValue =
     io_bind (jtag1_doJtagCommand ([0x42, item, newValue] @ JTAG_EOM) 1) (\<lambda>response.
     io_bind (io_defined (cell response 0)) (\<lambda>c.
     check (c = JTAG_R_OK) (''JTAG ICE: Unknown parameter'' @ [CHR 0x0A])))"

definition jtag1_getJtagParameter :: "u8 \<Rightarrow> ('z jtag_scheme, u8) io" where
  "jtag1_getJtagParameter item =
     io_bind (jtag1_doJtagCommand ([0x71, item] @ JTAG_EOM) 2) (\<lambda>response.
     io_bind (io_defined (load_many response 0 2)) (\<lambda>r.
     io_then (check (r ! 1 = JTAG_R_OK) (''JTAG ICE: Unknown parameter'' @ [CHR 0x0A]))
       (io_ret (r ! 0))))"

section \<open>Invariants\<close>

text \<open>The state predicates that no communication can falsify.\<close>

definition line_closed :: "('z jtag_scheme \<Rightarrow> bool) \<Rightarrow> bool" where
  "line_closed I \<longleftrightarrow> (\<forall>s. I s \<longrightarrow> (\<forall>e. I (s\<lparr>rx := e\<rparr>)) \<and> (\<forall>e k. I (s\<lparr>rx := e, flq := k\<rparr>)) \<and>
     (\<forall>w out. I (s\<lparr>wq := w, tx := out\<rparr>)))"

lemma line_preserves_io:
  "line_closed I \<Longrightarrow> preserves I (timeout_read n)"
  "line_closed I \<Longrightarrow> preserves I tcflush_input"
  "line_closed I \<Longrightarrow> preserves I (safewrite b)"
  by (rule preserves_timeout_read preserves_tcflush_input preserves_safewrite; auto simp: line_closed_def)+

declare preserves_timeout_read [preserve del] preserves_tcflush_input [preserve del] preserves_safewrite [preserve del]
declare line_preserves_io [preserve]

lemma preserves_list_case [preserve]:
  "preserves I m \<Longrightarrow> (\<And>y ys. preserves I (f y ys)) \<Longrightarrow> preserves I (case xs of [] \<Rightarrow> m | y # ys \<Rightarrow> f y ys)"
  by (cases xs) auto

lemma line_preserves_send [preserve]:
  "line_closed I \<Longrightarrow> preserves I (jtag1_sendJtagCommand command tries)"
  unfolding jtag1_sendJtagCommand_def tty_check_def read_status_def by (intro preserve)

lemma line_preserves_response [preserve]: "line_closed I \<Longrightarrow> preserves I (getJtagResponse n)"
  unfolding getJtagResponse_def by (intro preserve)

lemma line_preserves_resync:
  assumes "line_closed I"
  shows "resync_loop n s = Some (r, t) \<Longrightarrow> I s \<Longrightarrow> I t"
proof (induction n s rule: resync_loop.induct)
  case (1 n s)
  note send = preservesD [OF line_preserves_send [OF assms]]
  from "1.prems"(1) show ?case
    unfolding resync_loop.simps [of n s]
  proof (cases rule: io_bind_SomeE)
    case (err e)
    then show ?thesis using send "1.prems"(2) by blast
  next
    case (ok x u)
    obtain a k where x: "x = (a, k)" by (cases x)
    show ?thesis
      using "1.IH" [OF ok(1) x [symmetric]] ok(2) x send [OF ok(1) "1.prems"(2)]
      by (cases "a = send_ok") auto
  qed
qed

lemma line_preserves_do_loop:
  assumes "line_closed I"
  shows "jtag1_doJtagCommand_loop c n k s = Some (r, t) \<Longrightarrow> I s \<Longrightarrow> I t"
proof (induction c n k s rule: jtag1_doJtagCommand_loop.induct)
  case (1 c n k s)
  note send = preservesD [OF line_preserves_send [OF assms]]
  have resync: "preserves I (resync_loop j)" for j
    using line_preserves_resync [OF assms] by (auto simp: preserves_def)
  from "1.prems"(1) show ?case
    unfolding jtag1_doJtagCommand_loop.simps [of c n k s]
  proof (cases rule: io_bind_SomeE)
    case (err e)
    then show ?thesis using send "1.prems"(2) by blast
  next
    case (ok x u)
    obtain a j where x: "x = (a, j)" by (cases x)
    have u: "I u" using send [OF ok(1) "1.prems"(2)] .
    show ?thesis
    proof (cases a)
      case send_ok
      have "preserves I (io_bind (getJtagResponse n) (\<lambda>response.
             io_then (check (response \<noteq> None) JTAG_CAUSE) (io_ret (the response))))"
        by (intro preserve assms)
      with ok(2) x send_ok u show ?thesis by (auto dest: preservesD)
    next
      case send_failed
      with ok(2) x have "io_bind (resync_loop j) (\<lambda>i u. jtag1_doJtagCommand_loop c n i u) u = Some (r, t)"
        by simp
      then show ?thesis
        by (cases rule: io_bind_SomeE)
          (use "1.IH"(1) [OF ok(1) x [symmetric] send_failed] preservesD [OF resync _ u] in blast)+
    next
      case (mcu_data d)
      with ok(2) x have "io_bind (jtag1_sendJtagCommand (0x53 # JTAG_EOM) j) (\<lambda>(r', i) u.
             io_then (if r' = send_ok then io_then (getJtagResponse 8) (io_ret ()) else io_ret ())
               (\<lambda>v. jtag1_doJtagCommand_loop c n i v) u) u = Some (r, t)"
        by simp
      then show ?thesis
      proof (cases rule: io_bind_SomeE)
        case (err e)
        then show ?thesis using send u by blast
      next
        case (ok y v)
        note run = this
        obtain b i where y: "y = (b, i)" by (cases y)
        have v: "I v" using send run(1) u by blast
        have "preserves I (if b = send_ok then io_then (getJtagResponse 8) (io_ret ()) else io_ret ())"
          by (intro preserve assms)
        note rest = preservesD [OF this _ v]
        from run(2) y have "io_then (if b = send_ok then io_then (getJtagResponse 8) (io_ret ()) else io_ret ())
               (\<lambda>v. jtag1_doJtagCommand_loop c n i v) v = Some (r, t)"
          by simp
        then show ?thesis
          unfolding io_then_def [of _ "\<lambda>v. jtag1_doJtagCommand_loop c n i v"]
          by (cases rule: io_bind_SomeE)
            (use "1.IH"(2) [OF \<open>jtag1_sendJtagCommand c k s = Some (Inr x, u)\<close> x [symmetric] mcu_data run(1) y [symmetric]] rest in blast)+
      qed
    qed
  qed
qed

lemma line_preserves_do [preserve]: "line_closed I \<Longrightarrow> preserves I (jtag1_doJtagCommand c n)"
  unfolding jtag1_doJtagCommand_def using line_preserves_do_loop by (auto simp: preserves_def)

lemma line_preserves_doSimple [preserve]: "line_closed I \<Longrightarrow> preserves I (jtag1_doSimpleJtagCommand c n)"
  unfolding jtag1_doSimpleJtagCommand_def by (intro preserve)

lemma line_preserves_setParameter [preserve]: "line_closed I \<Longrightarrow> preserves I (jtag1_setJtagParameter i v)"
  unfolding jtag1_setJtagParameter_def by (intro preserve)

lemma line_preserves_getParameter [preserve]: "line_closed I \<Longrightarrow> preserves I (jtag1_getJtagParameter i)"
  unfolding jtag1_getJtagParameter_def by (intro preserve)

section \<open>Messages of a command\<close>

lemma tcflush_none: "flq s = [] \<Longrightarrow> tcflush_input s = Some (Inr (), s)"
  by (simp add: tcflush_input_def io_simps)

lemma safewrite_plain:
  "wq s = [] \<Longrightarrow> safewrite b s = Some (Inr (int (length b)), s\<lparr>wq := [], tx := tx s @ b\<rparr>)"
  by (cases b) (simp_all add: safewrite_def)

lemma send_writes:
  assumes "jtag1_sendJtagCommand command tries s = Some (Inr x, t)"
  shows "tx t = tx s @ command"
proof -
  have quiet: "preserves (\<lambda>u. tx u = out) read_status" "preserves (\<lambda>u. tx u = out) tty_check"
      "preserves (\<lambda>u. tx u = out) tcflush_input" for out
    unfolding read_status_def tty_check_def
    by (intro preserve preserves_timeout_read preserves_tcflush_input; simp)+
  have c: "tries < MAX_JTAG_COMM_ATTEMPS"
    using assms by (auto simp: jtag1_sendJtagCommand_def check_def io_then_def io_bind_def io_throw_def split: if_splits)
  from assms obtain u v w w' n where
    "tty_check s = Some (Inr (), u)" "tcflush_input u = Some (Inr (), v)" "safewrite command v = Some (Inr n, w)"
    and n: "(if n < 0 then jtagCheck n else check (n = int (length command)) JTAG_CAUSE) w = Some (Inr (), w')"
    and r: "io_then tty_check (io_bind read_status (\<lambda>r. io_ret (r, tries + 1))) w' = Some (Inr x, t)"
    unfolding jtag1_sendJtagCommand_def using c
    by (auto simp: io_simps elim!: io_then_InrE io_bind_InrE)
  then have "tx v = tx s" "w' = w"
    using quiet(2,3) by (auto dest: preservesD simp: check_def jtagCheck_def unixCheck_def io_ret_def io_throw_def split: if_splits)
  moreover have "tx w = tx v @ command"
    using \<open>safewrite command v = Some (Inr n, w)\<close> n
    by (cases command v rule: safewrite_cases) (auto simp: jtagCheck_simps io_throw_def)
  moreover have "tx t = tx w'"
    using r quiet by (auto elim!: io_then_InrE io_bind_InrE dest: preservesD simp: io_ret_def)
  ultimately show ?thesis by simp
qed

lemma resync_writes:
  "resync_loop n s = Some (Inr k, t) \<Longrightarrow> tx t = tx s @ replicate (k - n) 0x20 \<and> n < k"
proof (induction n s rule: resync_loop.induct)
  case (1 n s)
  from "1.prems" obtain r j u where u: "jtag1_sendJtagCommand [0x20] n s = Some (Inr (r, j), u)"
    "(if r = send_ok then Some (Inr j, u) else resync_loop j u) = Some (Inr k, t)"
    by (subst (asm) resync_loop.simps) (auto elim!: io_bind_InrE)
  note j = jtag1_sendJtagCommand_tries [OF u(1)] and w = send_writes [OF u(1)]
  show ?case
  proof (cases "r = send_ok")
    case True
    then show ?thesis using u(2) j w by auto
  next
    case False
    then have "tx t = tx u @ replicate (k - j) 0x20 \<and> j < k"
      using "1.IH" [OF u(1) refl] u(2) by simp
    moreover from this have "k - n = Suc (k - j)"
      using j by auto
    ultimately show ?thesis
      using j w by simp
  qed
qed

text \<open>The messages of a whole command: the command, questions and stops, and at last the command that
  was answered.\<close>

lemma do_loop_writes:
  "jtag1_doJtagCommand_loop c n k s = Some (Inr resp, t) \<Longrightarrow>
     length resp = Suc n \<and> last resp = 0 \<and>
     (\<exists>ms. tx t = tx s @ concat ms @ c \<and> k + length ms < MAX_JTAG_COMM_ATTEMPS \<and>
        set ms \<subseteq> {c, [0x20], 0x53 # JTAG_EOM})"
proof (induction c n k s rule: jtag1_doJtagCommand_loop.induct)
  case (1 c n k s)
  from "1.prems" obtain a j u where u: "jtag1_sendJtagCommand c k s = Some (Inr (a, j), u)"
    and rest: "(case a of
         send_ok \<Rightarrow>
           io_bind (getJtagResponse n) (\<lambda>response.
             io_then (check (response \<noteq> None) JTAG_CAUSE) (io_ret (the response))) u
       | send_failed \<Rightarrow>
           io_bind (resync_loop j) (\<lambda>i u. jtag1_doJtagCommand_loop c n i u) u
       | mcu_data _ \<Rightarrow>
           io_bind (jtag1_sendJtagCommand (0x53 # JTAG_EOM) j) (\<lambda>(r', i) u.
             io_then (if r' = send_ok then io_then (getJtagResponse 8) (io_ret ()) else io_ret ())
               (\<lambda>v. jtag1_doJtagCommand_loop c n i v) u) u) = Some (Inr resp, t)"
    by (subst (asm) jtag1_doJtagCommand_loop.simps) (auto elim!: io_bind_InrE)
  note j = jtag1_sendJtagCommand_tries [OF u(1)] and w = send_writes [OF u(1)]
  have quiet: "preserves (\<lambda>u. tx u = out) (getJtagResponse m)" for out m
    unfolding getJtagResponse_def by (intro preserve preserves_timeout_read) simp
  show ?case
  proof (cases a)
    case send_ok
    with rest obtain r v where v: "getJtagResponse n u = Some (Inr r, v)"
      "io_then (check (r \<noteq> None) JTAG_CAUSE) (io_ret (the r)) v = Some (Inr resp, t)"
      by (auto elim!: io_bind_InrE)
    then have r: "r = Some resp" "v = t"
      by (auto simp: io_then_def io_bind_def check_def io_ret_def io_throw_def split: if_splits)
    obtain bs where "timeout_read n u = Some (Inr bs, t)" "r = (if length bs < n then None else Some (bs @ [0]))"
      using v(1) r(2) by (auto simp: getJtagResponse_def io_ret_def elim!: io_bind_InrE)
    then have "length resp = Suc n" "last resp = 0"
      using timeout_read_size(2) [of n u bs t] r(1) by (auto split: if_splits)
    moreover have "tx t = tx u"
      using v(1) r(2) quiet by (auto dest: preservesD)
    ultimately show ?thesis
      using w j by (intro conjI exI [of _ "[]"]) auto
  next
    case send_failed
    with rest obtain i v where v: "resync_loop j u = Some (Inr i, v)" "jtag1_doJtagCommand_loop c n i v = Some (Inr resp, t)"
      by (auto elim!: io_bind_InrE)
    note x = resync_writes [OF v(1)]
    from "1.IH"(1) [OF u(1) refl send_failed v] obtain ms where
      ms: "length resp = Suc n" "last resp = 0" "tx t = tx v @ concat ms @ c"
        "i + length ms < MAX_JTAG_COMM_ATTEMPS" "set ms \<subseteq> {c, [0x20], 0x53 # JTAG_EOM}"
      by blast
    have "concat (replicate (i - j) [0x20]) = replicate (i - j) (0x20 :: u8)"
      by (induction "i - j") auto
    then show ?thesis
      using ms x w j by (intro conjI exI [of _ "c # replicate (i - j) [0x20] @ ms"]) auto
  next
    case (mcu_data d)
    with rest obtain b i v where v: "jtag1_sendJtagCommand (0x53 # JTAG_EOM) j u = Some (Inr (b, i), v)"
      and rest': "io_then (if b = send_ok then io_then (getJtagResponse 8) (io_ret ()) else io_ret ())
               (\<lambda>v. jtag1_doJtagCommand_loop c n i v) v = Some (Inr resp, t)"
      by (auto elim!: io_bind_InrE)
    note j' = jtag1_sendJtagCommand_tries [OF v] and w' = send_writes [OF v]
    from rest' obtain x where x: "(if b = send_ok then io_then (getJtagResponse 8) (io_ret ()) else io_ret ()) v = Some (Inr (), x)"
      "jtag1_doJtagCommand_loop c n i x = Some (Inr resp, t)"
      by (auto elim!: io_then_InrE)
    have "preserves (\<lambda>u. tx u = tx v) (if b = send_ok then io_then (getJtagResponse 8) (io_ret ()) else io_ret ())"
      by (intro preserve quiet)
    then have tx: "tx x = tx v"
      using x(1) by (auto dest: preservesD)
    from "1.IH"(2) [OF u(1) refl mcu_data v refl x(2)] obtain ms where
      ms: "length resp = Suc n" "last resp = 0" "tx t = tx x @ concat ms @ c"
        "i + length ms < MAX_JTAG_COMM_ATTEMPS" "set ms \<subseteq> {c, [0x20], 0x53 # JTAG_EOM}"
      by blast
    then show ?thesis
      using tx w w' j j' by (intro conjI exI [of _ "c # (0x53 # JTAG_EOM) # ms"]) auto
  qed
qed

section \<open>Answers\<close>

text \<open>The box is ready: writes are complete and nothing is flushed.\<close>

definition ready1 :: "'z jtag_scheme \<Rightarrow> bool" where
  "ready1 s \<longleftrightarrow> wq s = [] \<and> flq s = [] \<and> tty_ok s"

definition answers :: "'z jtag_scheme \<Rightarrow> u8 list \<Rightarrow> u8 list \<Rightarrow> 'z jtag_scheme \<Rightarrow> bool" where
  "answers s out rest t \<longleftrightarrow> (\<exists>evs. t = s\<lparr>rx := evs, tx := tx s @ out\<rparr> \<and> avail evs = rest \<and> stop evs = stop (rx s))"

lemma answers_trans: "answers s o1 r1 t \<Longrightarrow> answers t o2 r2 u \<Longrightarrow> answers s (o1 @ o2) r2 u"
  by (auto simp: answers_def)

lemma answers_simps:
  assumes "answers s out rest t"
  shows "avail (rx t) = rest" "tx t = tx s @ out" "ready1 t = ready1 s" "stop (rx t) = stop (rx s)"
  using assms by (auto simp: answers_def ready1_def)

lemma send_answer:
  assumes "ready1 s" "tries < MAX_JTAG_COMM_ATTEMPS" "avail (rx s) = b # rest" "b \<noteq> JTAG_R_INFO"
  shows "\<exists>t. jtag1_sendJtagCommand c tries s =
      Some (Inr (if b = JTAG_R_OK then send_ok else send_failed, Suc tries), t) \<and> answers s c rest t"
proof -
  define u where "u = s\<lparr>wq := [], tx := tx s @ c\<rparr>"
  have w: "safewrite c s = Some (Inr (int (length c)), u)"
    using safewrite_plain [of s c] assms(1) by (simp add: ready1_def u_def)
  obtain evs where evs: "timeout_read 1 u = Some (Inr [b], u\<lparr>rx := evs\<rparr>)" "avail evs = rest" "stop evs = stop (rx s)"
    using timeout_read_enough [of 1 u] assms(3) by (auto simp: u_def)
  have "jtag1_sendJtagCommand c tries s =
      Some (Inr (if b = JTAG_R_OK then send_ok else send_failed, Suc tries), u\<lparr>rx := evs\<rparr>)"
    using assms w evs(1)
    by (simp add: jtag1_sendJtagCommand_def tty_check_def read_status_def io_simps jtagCheck_simps tcflush_none ready1_def u_def)
  moreover have "answers s c rest (u\<lparr>rx := evs\<rparr>)"
    using evs(2,3) assms(1) unfolding answers_def by (intro exI [of _ evs]) (simp add: u_def ready1_def)
  ultimately show ?thesis by blast
qed

lemma response_answer:
  assumes "avail (rx s) = resp @ rest"
  shows "\<exists>t. getJtagResponse (length resp) s = Some (Inr (Some (resp @ [0])), t) \<and> answers s [] rest t"
proof -
  obtain evs where "timeout_read (length resp) s = Some (Inr resp, s\<lparr>rx := evs\<rparr>)" "avail evs = rest" "stop evs = stop (rx s)"
    using timeout_read_enough [of "length resp" s] assms by auto
  then show ?thesis
    by (intro exI [of _ "s\<lparr>rx := evs\<rparr>"]) (auto simp: getJtagResponse_def io_simps answers_def intro!: exI [of _ evs])
qed

lemma resync_answer:
  assumes "ready1 s" "tries + length bads < MAX_JTAG_COMM_ATTEMPS" "avail (rx s) = bads @ JTAG_R_OK # rest"
    and "JTAG_R_OK \<notin> set bads" "JTAG_R_INFO \<notin> set bads"
  shows "\<exists>t. resync_loop tries s = Some (Inr (Suc (tries + length bads)), t) \<and>
     answers s (replicate (Suc (length bads)) 0x20) rest t"
  using assms
proof (induction bads arbitrary: tries s)
  case Nil
  then obtain t where "jtag1_sendJtagCommand [0x20] tries s = Some (Inr (send_ok, Suc tries), t)" "answers s [0x20] rest t"
    using send_answer [of s tries JTAG_R_OK rest "[0x20]"] by (auto simp: code_defs)
  then show ?case
    by (simp add: resync_loop.simps [of tries s] io_simps)
next
  case (Cons b bads)
  then obtain t where t: "jtag1_sendJtagCommand [0x20] tries s = Some (Inr (send_failed, Suc tries), t)"
    "answers s [0x20] (bads @ JTAG_R_OK # rest) t"
    using send_answer [of s tries b "bads @ JTAG_R_OK # rest" "[0x20]"] by auto
  note st = answers_simps [OF t(2)]
  obtain u where u: "resync_loop (Suc tries) t = Some (Inr (Suc (Suc tries + length bads)), u)"
    "answers t (replicate (Suc (length bads)) 0x20) rest u"
    using Cons.IH [of t "Suc tries"] st Cons.prems by auto
  then show ?case
    using t(1) answers_trans [OF t(2) u(2)] by (simp add: resync_loop.simps [of tries s] io_simps)
qed

lemma do_loop_answer:
  assumes "ready1 s" "tries < MAX_JTAG_COMM_ATTEMPS" "avail (rx s) = JTAG_R_OK # resp @ rest"
  shows "\<exists>t. jtag1_doJtagCommand_loop c (length resp) tries s = Some (Inr (resp @ [0]), t) \<and> answers s c rest t"
proof -
  obtain t where t: "jtag1_sendJtagCommand c tries s = Some (Inr (send_ok, Suc tries), t)" "answers s c (resp @ rest) t"
    using send_answer [OF assms(1-3)] by (auto simp: code_defs)
  obtain u where u: "getJtagResponse (length resp) t = Some (Inr (Some (resp @ [0])), u)" "answers t [] rest u"
    using response_answer answers_simps(1) [OF t(2)] by blast
  then show ?thesis
    using t(1) answers_trans [OF t(2) u(2)]
    by (simp add: jtag1_doJtagCommand_loop.simps [of c _ tries s] io_simps)
qed

lemma doJtagCommand1_answer:
  assumes "ready1 s" "avail (rx s) = JTAG_R_OK # resp @ rest" "n = length resp"
  shows "\<exists>t. jtag1_doJtagCommand c n s = Some (Inr (resp @ [0]), t) \<and> answers s c rest t"
  using do_loop_answer [of s 0 resp rest c] assms by (simp add: jtag1_doJtagCommand_def code_defs)

section \<open>Properties\<close>

text \<open>C19: a mkI command that returns has its response of the requested length, and a terminating zero. It
  wrote at most ten messages, each the command itself, a question or a sign-on, the last one the
  command.\<close>

theorem jtag1_doJtagCommand_outcome:
  assumes "jtag1_doJtagCommand command responseSize s = Some (Inr resp, t)"
  shows "length resp = Suc responseSize \<and> last resp = 0 \<and>
     (\<exists>ms. tx t = tx s @ concat ms @ command \<and> length ms < MAX_JTAG_COMM_ATTEMPS \<and>
        set ms \<subseteq> {command, [0x20], 0x53 # JTAG_EOM})"
  using do_loop_writes [OF assms [unfolded jtag1_doJtagCommand_def]] by simp

text \<open>C20: out of step, the mkI driver gets back in step: after a wrong first answer it asks until it gets
  \<open>JTAG_R_OK\<close>, over up to seven further wrong answers, and then repeats the command and returns
  its response.\<close>

theorem jtag1_resynchronises:
  assumes "wq s = []" "flq s = []" "tty_ok s" "length bads \<le> 7"
    and "set (bad # bads) \<inter> {JTAG_R_OK, JTAG_R_INFO} = {}"
    and "avail (rx s) = bad # bads @ JTAG_R_OK # JTAG_R_OK # resp @ rest"
  shows "\<exists>t. jtag1_doJtagCommand command (length resp) s = Some (Inr (resp @ [0]), t) \<and> avail (rx t) = rest \<and>
     tx t = tx s @ command @ replicate (Suc (length bads)) 0x20 @ command"
proof -
  have r: "ready1 s" using assms(1-3) by (simp add: ready1_def)
  have bad: "bad \<noteq> JTAG_R_OK" "bad \<noteq> JTAG_R_INFO" "JTAG_R_OK \<notin> set bads" "JTAG_R_INFO \<notin> set bads"
    using assms(5) by auto
  obtain t where t: "jtag1_sendJtagCommand command 0 s = Some (Inr (send_failed, 1), t)"
    "answers s command (bads @ JTAG_R_OK # JTAG_R_OK # resp @ rest) t"
    using send_answer [OF r _ assms(6) bad(2), of 0 command] bad(1) by (auto simp: code_defs)
  obtain u where u: "resync_loop 1 t = Some (Inr (Suc (1 + length bads)), u)"
    "answers t (replicate (Suc (length bads)) 0x20) (JTAG_R_OK # resp @ rest) u"
    using resync_answer [of t 1 bads "JTAG_R_OK # resp @ rest"] answers_simps [OF t(2)] r assms(4) bad
    by (auto simp: code_defs)
  obtain v where v: "jtag1_doJtagCommand_loop command (length resp) (Suc (1 + length bads)) u = Some (Inr (resp @ [0]), v)"
    "answers u command rest v"
    using do_loop_answer [of u "Suc (1 + length bads)" resp rest command] answers_simps [OF t(2)] answers_simps [OF u(2)] r assms(4)
    by (auto simp: code_defs)
  have "jtag1_doJtagCommand command (length resp) s = Some (Inr (resp @ [0]), v)"
    using t(1) u(1) v(1)
    by (simp add: jtag1_doJtagCommand_def jtag1_doJtagCommand_loop.simps [of command _ 0 s] io_simps)
  then show ?thesis
    using answers_simps [OF answers_trans [OF answers_trans [OF t(2) u(2)] v(2)]] by simp
qed

section \<open>Examples\<close>

definition mk1_box :: "rxev list \<Rightarrow> jtag1" where
  "mk1_box evs = jtag1_new
     \<lparr>rx = evs, wq = [], flq = [], tx = [], ctrl_log = [], fresh = (\<lambda>_. 0), tty_ok = True, local_rate = 19200,
      is_usb = False, ctrlPipe = -1, emu_type = EMULATOR_JTAGICE, apply_nSRST = False,
      programmingEnabled = False, device_name = None, units_before = 0, units_after = 0,
      bits_before = 0, bits_after = 0, p_device_def = None\<rparr> False
     \<lparr>bpCode = replicate 4 \<lparr>bp1_address = 0, bp1_type = NONE\<rparr>, bpData = replicate 2 \<lparr>bp1_address = 0, bp1_type = NONE\<rparr>,
      numBreakpointsCode = 0, numBreakpointsData = 0\<rparr>"

lemma mk1_box_simps [simp]:
  "rx (mk1_box evs) = evs" "wq (mk1_box evs) = []" "flq (mk1_box evs) = []" "tx (mk1_box evs) = []"
  "tty_ok (mk1_box evs)" "\<not> programmingEnabled (mk1_box evs)"
  by (simp_all add: mk1_box_def jtag1_new_def jtag.extend_def jtag1.fields_def)

lemma mk1_box_ready: "ready1 (mk1_box evs)"
  by (simp add: ready1_def)

lemma jtag1_doJtagCommand_outcome_witness:
  "\<exists>t ms. jtag1_doJtagCommand [0x32, 0x20, 0x20] 1 (mk1_box [Chunk [JTAG_R_OK, 7]]) = Some (Inr [7, 0], t) \<and>
     tx t = concat ms @ [0x32, 0x20, 0x20] \<and> length ms < (10 :: nat)"
proof -
  obtain t where t: "jtag1_doJtagCommand [0x32, 0x20, 0x20] 1 (mk1_box [Chunk [JTAG_R_OK, 7]]) = Some (Inr [7, 0], t)"
    using doJtagCommand1_answer [OF mk1_box_ready, of "[Chunk [JTAG_R_OK, 7]]" "[7]" "[]" 1] by auto
  then show ?thesis
    using jtag1_doJtagCommand_outcome [OF t] by (auto simp: code_defs)
qed

lemma jtag1_resynchronises_witness:
  "\<exists>t. jtag1_doJtagCommand [0x32, 0x20, 0x20] 1 (mk1_box [Chunk [0, 1, JTAG_R_OK, JTAG_R_OK, 7]]) = Some (Inr [7, 0], t) \<and>
     tx t = [0x32, 0x20, 0x20] @ [0x20, 0x20] @ [0x32, 0x20, 0x20]"
  using jtag1_resynchronises [of "mk1_box [Chunk [0, 1, JTAG_R_OK, JTAG_R_OK, 7]]" "[1]" 0 "[7]" "[]" "[0x32, 0x20, 0x20]"]
  by (auto simp: code_defs)

end
