(* ===== verification/Mk1_Memory.thy ===== *)
theory Mk1_Memory
  imports Mk1_Command
begin

text \<open>
  Programming mode and access to the memories of the target with the mkI driver
  (\<^verbatim>\<open>src/src/jtagprog.cc\<close>, \<^verbatim>\<open>src/src/jtagrw.cc\<close>). Program memory is addressed in 16-bit words,
  whose bytes the box swaps outside programming mode.
\<close>

section \<open>Programming mode\<close>

definition jtag1_enableProgramming :: "('z jtag_scheme, unit) io" where
  "jtag1_enableProgramming =
     io_then (io_put (\<lambda>s. s\<lparr>programmingEnabled := True\<rparr>))
    (io_bind (jtag1_doSimpleJtagCommand 0xa3 1) (\<lambda>ok.
     check ok ''JTAG ICE: Failed to enable programming''))"

definition jtag1_disableProgramming :: "('z jtag_scheme, unit) io" where
  "jtag1_disableProgramming =
     io_then (io_put (\<lambda>s. s\<lparr>programmingEnabled := False\<rparr>))
    (io_bind (jtag1_doSimpleJtagCommand 0xa4 1) (\<lambda>ok.
     check ok ''JTAG ICE: Failed to disable programming''))"

definition jtag1_eraseProgramMemory :: "('z jtag_scheme, unit) io" where
  "jtag1_eraseProgramMemory =
     io_bind (jtag1_doSimpleJtagCommand 0xa5 1) (\<lambda>ok.
     check ok ''JTAG ICE: Failed to erase program memory'')"

definition jtag1_eraseProgramPage :: "u64 \<Rightarrow> ('z jtag_scheme, unit) io" where
  "jtag1_eraseProgramPage addr =
     io_bind (jtag1_doJtagCommand ([0xa1, ucast (drop_bit 8 addr), ucast addr, 0] @ JTAG_EOM) 1) (\<lambda>response.
     io_bind (io_defined (cell response 0)) (\<lambda>c.
     check (c = JTAG_R_OK) (''Page erase failed'' @ [CHR 0x0A])))"

section \<open>Memory spaces\<close>

text \<open>The code of the memory space (0 is program memory) and the address in it.\<close>

definition jtag1_memorySpace :: "u64 \<Rightarrow> u8 \<times> u64" where
  "jtag1_memorySpace addr =
     (let mask = (if addr AND DATA_SPACE_ADDR_OFFSET \<noteq> 0 then addr AND ADDR_SPACE_MASK else 0);
          addr' = (if addr AND DATA_SPACE_ADDR_OFFSET \<noteq> 0 then addr AND NOT ADDR_SPACE_MASK else addr)
      in (if mask = EEPROM_SPACE_ADDR_OFFSET then ADDR_EEPROM_SPACE
          else if mask = FUSE_SPACE_ADDR_OFFSET then ADDR_FUSE_SPACE
          else if mask = LOCK_SPACE_ADDR_OFFSET then ADDR_LOCK_SPACE
          else if mask = SIG_SPACE_ADDR_OFFSET then ADDR_SIG_SPACE
          else if mask = BREAKPOINT_SPACE_ADDR_OFFSET then ADDR_BREAKPOINT_SPACE
          else if mask = DATA_SPACE_ADDR_OFFSET then ADDR_DATA_SPACE
          else 0, addr'))"

text \<open>\<open>swapBytes(buffer, count)\<close>: the assertion fails for an odd count.\<close>

fun swapBytes :: "u8 list \<Rightarrow> nat \<Rightarrow> u8 list option" where
  "swapBytes buffer 0 = Some buffer"
| "swapBytes (x # y # buffer) (Suc (Suc count)) = map_option (\<lambda>r. y # x # r) (swapBytes buffer count)"
| "swapBytes _ _ = None"

section \<open>Reading and writing\<close>

text \<open>\<open>None\<close> is a null pointer. The response to a read holds the bytes and two more, the last of
  them \<open>JTAG_R_OK\<close>.\<close>

definition jtag1_jtagRead :: "u64 \<Rightarrow> u32 \<Rightarrow> ('z jtag_scheme, u8 list option) io" where
  "jtag1_jtagRead addr0 numBytes =
     (if numBytes = 0 then io_ret (Some [0])
      else
        let (whichSpace, addr) = jtag1_memorySpace addr0 in
        if whichSpace \<noteq> 0 then
          (if 256 < numBytes then io_ret None
           else
             io_bind (jtag1_doJtagCommand ([0x52, whichSpace, ucast (numBytes - 1)] @ encodeAddress addr @ JTAG_EOM)
               (unat numBytes + 2)) (\<lambda>response.
             io_bind (io_defined (cell response (unat numBytes + 1))) (\<lambda>c.
             io_ret (if c = JTAG_R_OK then Some response else None))))
        else
          io_bind (io_get programmingEnabled) (\<lambda>prog.
          let numLocations = unat (if addr AND 1 \<noteq> 0 then (numBytes + 2) div 2 else (numBytes + 1) div 2) in
          if 256 < numLocations then io_ret None
          else
            io_bind (jtag1_doJtagCommand ([0x52,
                if prog then ADDR_PROG_SPACE_PROG_ENABLED else ADDR_PROG_SPACE_PROG_DISABLED,
                of_nat numLocations - 1] @ encodeAddress (addr div 2) @ JTAG_EOM) (numLocations * 2 + 2)) (\<lambda>response.
            io_bind (io_defined (cell response (numLocations * 2 + 1))) (\<lambda>c.
            if c = JTAG_R_OK then
              io_bind (io_get programmingEnabled) (\<lambda>prog'.
              io_bind (io_defined (if \<not> prog' then swapBytes response (numLocations * 2) else Some response)) (\<lambda>response.
              io_bind (io_defined (if addr AND 1 \<noteq> 0
                  then Option.bind (load_many response 1 (unat numBytes)) (store_many response 0)
                  else Some response)) (\<lambda>response.
              io_ret (Some response))))
            else io_ret None))))"

text \<open>Writing program memory outside programming mode swaps the bytes in the caller's buffer: the
  result is the truth value and the buffer after the call.\<close>

definition jtag1_jtagWrite :: "u64 \<Rightarrow> u32 \<Rightarrow> u8 list \<Rightarrow> ('z jtag_scheme, bool \<times> u8 list) io" where
  "jtag1_jtagWrite addr0 numBytes0 buffer0 =
     (if numBytes0 = 0 then io_ret (True, buffer0)
      else
        let (space, addr1) = jtag1_memorySpace addr0 in
        if space = 0 \<and> addr1 AND 1 \<noteq> 0 then io_ret (False, buffer0)
        else
          io_bind (io_get programmingEnabled) (\<lambda>prog.
          let numBytes = (if space = 0 \<and> numBytes0 AND 1 \<noteq> 0 then numBytes0 + 1 else numBytes0);
              addr = (if space = 0 then addr1 div 2 else addr1);
              numLocations = (if space = 0 then numBytes div 2 else numBytes);
              whichSpace = (if space \<noteq> 0 then space
                else if prog then ADDR_PROG_SPACE_PROG_ENABLED else ADDR_PROG_SPACE_PROG_DISABLED) in
          io_bind (io_defined (if space = 0 \<and> \<not> prog then swapBytes buffer0 (unat numBytes) else Some buffer0)) (\<lambda>buffer.
          if 256 < numLocations then io_ret (False, buffer)
          else
            io_bind (jtag1_doJtagCommand ([0x57, whichSpace, ucast (numLocations - 1)] @ encodeAddress addr @ JTAG_EOM) 0) (\<lambda>_.
            io_bind (io_defined (load_many buffer 0 (unat numBytes))) (\<lambda>bytes.
            io_bind (jtag1_doJtagCommand (0x68 # bytes @ [0x20, 0x20]) 1) (\<lambda>_.
            io_ret (True, buffer)))))))"

section \<open>Invariants\<close>

lemma line_preserves_enable:
  assumes "line_closed I" "\<And>s b. I s \<Longrightarrow> I (s\<lparr>programmingEnabled := b\<rparr>)"
  shows "preserves I jtag1_enableProgramming"
  unfolding jtag1_enableProgramming_def by (intro preserve preserves_put assms)

lemma line_preserves_disable:
  assumes "line_closed I" "\<And>s b. I s \<Longrightarrow> I (s\<lparr>programmingEnabled := b\<rparr>)"
  shows "preserves I jtag1_disableProgramming"
  unfolding jtag1_disableProgramming_def by (intro preserve preserves_put assms)

lemma line_preserves_erase [preserve]:
  "line_closed I \<Longrightarrow> preserves I jtag1_eraseProgramMemory"
  "line_closed I \<Longrightarrow> preserves I (jtag1_eraseProgramPage a)"
  unfolding jtag1_eraseProgramMemory_def jtag1_eraseProgramPage_def by (intro preserve; assumption)+

lemma line_preserves_jtagRead [preserve]: "line_closed I \<Longrightarrow> preserves I (jtag1_jtagRead a n)"
  unfolding jtag1_jtagRead_def by (intro preserve)

lemma line_preserves_jtagWrite [preserve]: "line_closed I \<Longrightarrow> preserves I (jtag1_jtagWrite a n b)"
  unfolding jtag1_jtagWrite_def by (intro preserve)

section \<open>Program memory\<close>

text \<open>The bytes of \<open>k\<close> locations from \<open>w\<close> on, as the box sends them for a memory \<open>mem\<close>.\<close>

fun location_bytes :: "bool \<Rightarrow> (nat \<Rightarrow> u8) \<Rightarrow> nat \<Rightarrow> nat \<Rightarrow> u8 list" where
  "location_bytes prog mem w 0 = []"
| "location_bytes prog mem w (Suc k) =
     (if prog then [mem (2 * w), mem (2 * w + 1)] else [mem (2 * w + 1), mem (2 * w)]) @ location_bytes prog mem (Suc w) k"

lemma length_location_bytes [simp]: "length (location_bytes prog mem w k) = 2 * k"
  by (induction k arbitrary: w) auto

lemma location_bytes_map: "location_bytes True mem w k = map mem [2 * w..<2 * (w + k)]"
proof (induction k arbitrary: w)
  case (Suc k)
  have "[2 * w..<2 * (w + Suc k)] = 2 * w # (2 * w + 1) # [2 * Suc w..<2 * (Suc w + k)]"
    by (simp add: upt_rec)
  then show ?case
    using Suc.IH [of "Suc w"] by simp
qed simp

lemma swapBytes_locations:
  "swapBytes (location_bytes False mem w k @ r) (2 * k) = Some (location_bytes True mem w k @ r)"
  by (induction k arbitrary: w) auto

lemma memorySpace1_code: "addr AND 0x800000 = 0 \<Longrightarrow> jtag1_memorySpace addr = (0, addr)"
  by (simp add: jtag1_memorySpace_def code_defs)

text \<open>The number of locations that cover \<open>n\<close> bytes from \<open>addr\<close>.\<close>

definition locations :: "u64 \<Rightarrow> u32 \<Rightarrow> nat" where
  "locations addr n = (unat addr mod 2 + unat n + 1) div 2"

lemma unat_odd: "odd (unat w) \<longleftrightarrow> odd (w :: u64)"
  using bit_unsigned_iff [of w 0, where ?'a = nat] by (simp add: bit_0)

lemma odd_addr: "w AND 1 \<noteq> (0 :: u64) \<longleftrightarrow> unat w mod 2 = 1"
  using unat_odd [of w] by (simp add: and_one_eq mod2_eq_if)

lemma locations_word:
  assumes "unat n \<le> 512"
  shows "unat (if addr AND 1 \<noteq> 0 then (n + 2) div 2 else (n + 1) div 2) = locations addr n"
proof -
  have *: "unat (n + 2) = unat n + 2" "unat (n + 1) = unat n + 1"
    using assms by (simp_all add: unat_word_ariths)
  show ?thesis
    using * odd_addr [of addr] by (auto simp: locations_def unat_div mod2_eq_if)
qed

lemma jtag1_read_locations:
  assumes "ready1 s" "addr AND 0x800000 = 0" "n \<noteq> 0" "locations addr n \<le> 256"
    and "avail (rx s) = JTAG_R_OK # location_bytes (programmingEnabled s) mem (unat addr div 2) (locations addr n) @
           [c, JTAG_R_OK] @ rest"
  shows "\<exists>bytes t. jtag1_jtagRead addr n s = Some (Inr (Some bytes), t) \<and>
     take (unat n) bytes = map mem [unat addr..<unat addr + unat n] \<and>
     answers s ([0x52, if programmingEnabled s then ADDR_PROG_SPACE_PROG_ENABLED else ADDR_PROG_SPACE_PROG_DISABLED,
       of_nat (locations addr n) - 1] @ encodeAddress (addr div 2) @ JTAG_EOM) rest t"
proof -
  define k where "k = locations addr n"
  define w where "w = unat addr div 2"
  define data where "data = location_bytes (programmingEnabled s) mem w k"
  define command where "command = [0x52, if programmingEnabled s then ADDR_PROG_SPACE_PROG_ENABLED else ADDR_PROG_SPACE_PROG_DISABLED,
       of_nat k - 1] @ encodeAddress (addr div 2) @ JTAG_EOM"
  have n: "unat n \<le> 512"
    using assms(4) by (simp add: locations_def)
  have loc: "unat (if addr AND 1 \<noteq> 0 then (n + 2) div 2 else (n + 1) div 2) = k"
    using locations_word [OF n] by (simp add: k_def)
  have len: "length data = 2 * k"
    by (simp add: data_def)
  obtain t where t: "jtag1_doJtagCommand command (k * 2 + 2) s = Some (Inr (data @ [c, JTAG_R_OK, 0]), t)" "answers s command rest t"
    using doJtagCommand1_answer [OF assms(1), of "data @ [c, JTAG_R_OK]" rest "k * 2 + 2" command] assms(5) len
    by (auto simp: data_def w_def k_def)
  have mode: "programmingEnabled t = programmingEnabled s"
    using t(2) by (auto simp: answers_def)
  have c: "cell (data @ [c, JTAG_R_OK, 0]) (k * 2 + 1) = Some JTAG_R_OK"
    by (simp add: cell_def nth_append len)
  define good where "good = location_bytes True mem w k @ [c, JTAG_R_OK, 0]"
  have swap: "(if \<not> programmingEnabled t then swapBytes (data @ [c, JTAG_R_OK, 0]) (k * 2) else Some (data @ [c, JTAG_R_OK, 0])) = Some good"
    using swapBytes_locations [of mem w k "[c, JTAG_R_OK, 0]"] by (simp add: data_def mode good_def mult.commute)
  note par = odd_addr [of addr]
  have cover: "unat addr + unat n \<le> 2 * (w + k)"
    unfolding w_def k_def locations_def by presburger
  define result where "result = (if addr AND 1 \<noteq> 0 then take (unat n) (drop 1 good) @ drop (unat n) good else good)"
  have lg: "length good = 2 * k + 3"
    by (simp add: good_def)
  have bound: "1 + unat n \<le> 2 * k" if "addr AND 1 \<noteq> 0"
    using cover that par by (simp add: w_def) presburger
  have move: "(if addr AND 1 \<noteq> 0 then Option.bind (load_many good 1 (unat n)) (store_many good 0) else Some good) = Some result"
    using lg bound by (cases "addr AND 1 \<noteq> 0") (simp_all add: result_def load_many_def store_many_def)
  have bytes: "take (unat n) result = map mem [unat addr..<unat addr + unat n]"
  proof (cases "addr AND 1 \<noteq> 0")
    case True
    then have "2 * w + 1 = unat addr"
      using par by (simp add: w_def) presburger
    moreover have "take (unat n) result = take (unat n) (drop 1 (location_bytes True mem w k))"
      using True bound lg by (simp add: result_def good_def)
    ultimately show ?thesis
      using bound [OF True] by (simp add: location_bytes_map drop_map take_map take_upt)
  next
    case False
    then have "2 * w = unat addr"
      using par by (simp add: w_def) presburger
    moreover have "unat n \<le> 2 * k"
      using cover calculation by simp
    ultimately show ?thesis
      using False by (simp add: result_def good_def location_bytes_map take_map take_upt)
  qed
  have "jtag1_jtagRead addr n s = Some (Inr (Some result), t)"
    unfolding jtag1_jtagRead_def
    using assms(3,4) t(1) c swap move loc
    by (cases "addr AND 1 = 0"; cases "programmingEnabled s")
      (simp_all add: memorySpace1_code [OF assms(2)] io_simps Let_def command_def k_def [symmetric] mode)
  then show ?thesis
    using bytes t(2) by (auto simp: command_def k_def)
qed

lemma swapBytes_out:
  "swapBytes (location_bytes True mem w k @ r) (2 * k) = Some (location_bytes False mem w k @ r)"
  by (induction k arbitrary: w) auto

lemma ucast_of_nat_u8: "ucast (of_nat j :: u32) = (of_nat j :: u8)"
  by (simp add: word_unat_eq_iff unat_of_nat unsigned_ucast_eq take_bit_eq_mod mod_mod_cancel)

lemma jtag1_write_locations:
  assumes "ready1 s" "addr AND 0x800000 = 0" "addr AND 1 = 0" "n \<noteq> 0" "n AND 1 = 0" "unat n \<le> 512"
    and "avail (rx s) = [JTAG_R_OK, JTAG_R_OK, x] @ rest"
  shows "\<exists>buf t. jtag1_jtagWrite addr n (map mem [unat addr..<unat addr + unat n]) s = Some (Inr (True, buf), t) \<and>
     answers s (([0x57, if programmingEnabled s then ADDR_PROG_SPACE_PROG_ENABLED else ADDR_PROG_SPACE_PROG_DISABLED,
       of_nat (unat n div 2) - 1] @ encodeAddress (addr div 2) @ JTAG_EOM) @
       0x68 # location_bytes (programmingEnabled s) mem (unat addr div 2) (unat n div 2) @ [0x20, 0x20]) rest t"
proof -
  define k where "k = unat n div 2"
  define w where "w = unat addr div 2"
  note a = assms(2,3)
  have "even n"
    using assms(5) by (simp add: and_one_eq mod2_eq_if split: if_splits)
  then have "even (unat n)"
    using bit_unsigned_iff [of n 0, where ?'a = nat] by (simp add: bit_0)
  then have n: "2 * k = unat n"
    by (simp add: k_def)
  have w: "2 * w = unat addr"
    using odd_addr [of addr] a(2) by (simp add: w_def) presburger
  define data where "data = location_bytes (programmingEnabled s) mem w k"
  have buf: "map mem [unat addr..<unat addr + unat n] = location_bytes True mem w k"
    using n w by (simp add: location_bytes_map distrib_left)
  have swap: "(if \<not> programmingEnabled s then swapBytes (location_bytes True mem w k) (unat n) else Some (location_bytes True mem w k)) =
      Some data"
    using swapBytes_out [of mem w k "[]"] by (simp add: data_def n)
  have load: "load_many data 0 (unat n) = Some data"
    by (simp add: load_many_def data_def n)
  have nk: "n div 2 = of_nat k"
  proof -
    have "k < 2 ^ 32" using assms(6) by (simp add: k_def)
    then show ?thesis by (simp add: word_unat_eq_iff unat_div unat_of_nat k_def)
  qed
  have "k \<le> 256"
    using assms(6) by (simp add: k_def)
  then have "(of_nat k :: u32) \<le> 256"
    by (simp add: word_le_nat_alt unat_of_nat take_bit_eq_mod)
  moreover define command where "command = [0x57, if programmingEnabled s then ADDR_PROG_SPACE_PROG_ENABLED else ADDR_PROG_SPACE_PROG_DISABLED,
       of_nat k - 1] @ encodeAddress (addr div 2) @ JTAG_EOM"
  obtain t where t: "jtag1_doJtagCommand command 0 s = Some (Inr [0], t)" "answers s command ([JTAG_R_OK, x] @ rest) t"
    using doJtagCommand1_answer [OF assms(1), of "[]" "[JTAG_R_OK, x] @ rest" 0 command] assms(7) by auto
  have "ready1 t"
    using answers_simps(3) [OF t(2)] assms(1) by simp
  then obtain u where u: "jtag1_doJtagCommand (0x68 # data @ [0x20, 0x20]) 1 t = Some (Inr [x, 0], u)"
    "answers t (0x68 # data @ [0x20, 0x20]) rest u"
    using doJtagCommand1_answer [of t "[x]" rest 1 "0x68 # data @ [0x20, 0x20]"] answers_simps(1) [OF t(2)] by auto
  have cast: "(ucast ((of_nat k :: u32) - 1) :: u8) = of_nat k - 1"
  proof -
    obtain j where "k = Suc j"
      using n assms(4) by (cases k) (auto simp: unat_eq_0)
    then show ?thesis
      by (simp add: ucast_of_nat_u8)
  qed
  have "jtag1_jtagWrite addr n (location_bytes True mem w k) s = Some (Inr (True, data), u)"
    using t(1) u(1) swap load assms(4,5) \<open>(of_nat k :: u32) \<le> 256\<close>
    by (cases "programmingEnabled s")
      (simp_all add: jtag1_jtagWrite_def memorySpace1_code [OF a(1)] a(2) io_simps Let_def command_def nk cast)
  then show ?thesis
    using answers_trans [OF t(2) u(2)] by (auto simp: buf command_def data_def k_def w_def)
qed

section \<open>Properties\<close>

text \<open>C21: reading program memory with the mkI driver gives the bytes of the memory from the address on, for
  even and odd addresses and lengths, in and outside programming mode: one command is sent, for
  the words that cover them, and the byte order of the box is undone.\<close>

theorem jtag1_jtagRead_program:
  assumes "wq s = []" "flq s = []" "tty_ok s" "addr AND 0x800000 = 0" "n \<noteq> 0" "locations addr n \<le> 256"
    and "avail (rx s) = JTAG_R_OK # location_bytes (programmingEnabled s) mem (unat addr div 2) (locations addr n) @
           [c, JTAG_R_OK] @ rest"
  shows "\<exists>bytes t. jtag1_jtagRead addr n s = Some (Inr (Some bytes), t) \<and>
     take (unat n) bytes = map mem [unat addr..<unat addr + unat n] \<and> avail (rx t) = rest \<and>
     tx t = tx s @ [0x52, if programmingEnabled s then ADDR_PROG_SPACE_PROG_ENABLED else ADDR_PROG_SPACE_PROG_DISABLED,
       of_nat (locations addr n) - 1] @ encodeAddress (addr div 2) @ JTAG_EOM"
proof -
  have "ready1 s" using assms(1-3) by (simp add: ready1_def)
  from jtag1_read_locations [OF this assms(4-7)] show ?thesis
    using answers_simps(1,2) by blast
qed

text \<open>Writing whole words of program memory with the mkI driver sends the address and then the bytes in
  the order in which a read of that memory returns them.\<close>

lemma jtag1_jtagWrite_program:
  assumes "wq s = []" "flq s = []" "tty_ok s" "addr AND 0x800000 = 0" "addr AND 1 = 0" "n \<noteq> 0" "n AND 1 = 0" "unat n \<le> 512"
    and "avail (rx s) = [JTAG_R_OK, JTAG_R_OK, x] @ rest"
  shows "\<exists>buf t. jtag1_jtagWrite addr n (map mem [unat addr..<unat addr + unat n]) s = Some (Inr (True, buf), t) \<and>
     tx t = tx s @ [0x57, if programmingEnabled s then ADDR_PROG_SPACE_PROG_ENABLED else ADDR_PROG_SPACE_PROG_DISABLED,
       of_nat (unat n div 2) - 1] @ encodeAddress (addr div 2) @ JTAG_EOM @
       0x68 # location_bytes (programmingEnabled s) mem (unat addr div 2) (unat n div 2) @ [0x20, 0x20]"
proof -
  have "ready1 s" using assms(1-3) by (simp add: ready1_def)
  from jtag1_write_locations [OF this assms(4-9), of mem] obtain buf t where
    "jtag1_jtagWrite addr n (map mem [unat addr..<unat addr + unat n]) s = Some (Inr (True, buf), t)"
    "answers s (([0x57, if programmingEnabled s then ADDR_PROG_SPACE_PROG_ENABLED else ADDR_PROG_SPACE_PROG_DISABLED,
       of_nat (unat n div 2) - 1] @ encodeAddress (addr div 2) @ JTAG_EOM) @
       0x68 # location_bytes (programmingEnabled s) mem (unat addr div 2) (unat n div 2) @ [0x20, 0x20]) rest t"
    by blast
  then show ?thesis
    using answers_simps(2) by fastforce
qed

section \<open>Examples\<close>

lemma example_locations:
  "locations 1 2 = 2" "location_bytes False of_nat 0 2 = [1, 0, 3, 2]" "location_bytes False of_nat 1 1 = [3, 2]"
  "map of_nat [1..<3] = [1, 2 :: u8]" "map of_nat [2..<4] = [2, 3 :: u8]"
proof -
  show "locations 1 2 = 2" by (simp add: locations_def)
  show "location_bytes False of_nat 0 2 = [1, 0, 3, 2]" "location_bytes False of_nat 1 1 = [3, 2]"
    "map of_nat [1..<3] = [1, 2 :: u8]" "map of_nat [2..<4] = [2, 3 :: u8]"
    by (simp_all add: numeral_2_eq_2 upt_rec)
qed

lemma jtag1_jtagRead_program_witness:
  "\<exists>bytes t. jtag1_jtagRead 1 2 (mk1_box [Chunk [JTAG_R_OK, 1, 0, 3, 2, 9, JTAG_R_OK]]) = Some (Inr (Some bytes), t) \<and>
     take 2 bytes = [1, 2]"
  using jtag1_jtagRead_program [of "mk1_box [Chunk [JTAG_R_OK, 1, 0, 3, 2, 9, JTAG_R_OK]]" 1 2 of_nat 9 "[]"]
  by (auto simp: example_locations)

lemma jtag1_jtagWrite_program_witness:
  "\<exists>buf t. jtag1_jtagWrite 2 2 [2, 3] (mk1_box [Chunk [JTAG_R_OK, JTAG_R_OK, 9]]) = Some (Inr (True, buf), t) \<and>
     drop 8 (tx t) = [0x68, 3, 2, 0x20, 0x20]"
  using jtag1_jtagWrite_program [of "mk1_box [Chunk [JTAG_R_OK, JTAG_R_OK, 9]]" 2 2 9 "[]" of_nat]
  by (auto simp: example_locations encodeAddress_def JTAG_EOM_def)

end
