(* ===== verification/Mk1_Breakpoints.thy ===== *)
theory Mk1_Breakpoints
  imports Mk1_Memory Breakpoint_Contract "HOL-Library.Multiset"
begin

text \<open>
  The breakpoints of the mkI driver (\<^verbatim>\<open>src/src/jtagbp.cc\<close>): an array of code and one of data
  breakpoints, with the number in use, and their download. A code address is kept as a word
  address; the same address may be there several times. The operations are functions on the
  members, \<open>None\<close> when an array is left; the methods of the class apply them to the driver's state.
\<close>

section \<open>The arrays\<close>

text \<open>A loop over the first \<open>n\<close> elements that looks for \<open>P\<close>: the index found.\<close>

fun bp1_find :: "(breakpoint1 \<Rightarrow> bool) \<Rightarrow> nat \<Rightarrow> breakpoint1 list \<Rightarrow> nat option option" where
  "bp1_find P 0 bs = Some None"
| "bp1_find P (Suc n) [] = None"
| "bp1_find P (Suc n) (b # bs) =
     (if P b then Some (Some 0) else map_option (map_option Suc) (bp1_find P n bs))"

definition codeBreakpointAt1 :: "u32 \<Rightarrow> bp1_table \<Rightarrow> bool option" where
  "codeBreakpointAt1 addr t =
     map_option (\<lambda>r. r \<noteq> None)
       (bp1_find (\<lambda>b. bp1_address b = addr div 2) (nat (numBreakpointsCode t)) (bpCode t))"

definition codeBreakpointBetween1 :: "u32 \<Rightarrow> u32 \<Rightarrow> bp1_table \<Rightarrow> bool option" where
  "codeBreakpointBetween1 start finish t =
     map_option (\<lambda>r. r \<noteq> None)
       (bp1_find (\<lambda>b. start div 2 \<le> bp1_address b \<and> bp1_address b < finish div 2)
         (nat (numBreakpointsCode t)) (bpCode t))"

definition deleteAllBreakpoints1 :: "bp1_table \<Rightarrow> bp1_table" where
  "deleteAllBreakpoints1 t = t\<lparr>numBreakpointsCode := 0, numBreakpointsData := 0\<rparr>"

text \<open>\<open>bp[n] = value\<close> for an \<open>int\<close> index.\<close>

definition bp1_store :: "breakpoint1 list \<Rightarrow> int \<Rightarrow> breakpoint1 \<Rightarrow> breakpoint1 list option" where
  "bp1_store bs i b = (if i < 0 then None else store bs (nat i) b)"

definition addBreakpoint1 :: "u32 \<Rightarrow> bpType \<Rightarrow> bp1_table \<Rightarrow> (bool \<times> bp1_table) option" where
  "addBreakpoint1 addr type t =
     (if numBreakpointsCode t + numBreakpointsData t = int MAX_BREAKPOINTS then Some (False, t)
      else if type = CODE then
        (if numBreakpointsCode t = int MAX_BREAKPOINTS_CODE then Some (False, t)
         else map_option (\<lambda>bs. (True, t\<lparr>bpCode := bs, numBreakpointsCode := numBreakpointsCode t + 1\<rparr>))
           (bp1_store (bpCode t) (numBreakpointsCode t) \<lparr>bp1_address = addr div 2, bp1_type = type\<rparr>))
      else
        (if numBreakpointsData t = int MAX_BREAKPOINTS_DATA then Some (False, t)
         else map_option (\<lambda>bs. (True, t\<lparr>bpData := bs, numBreakpointsData := numBreakpointsData t + 1\<rparr>))
           (bp1_store (bpData t) (numBreakpointsData t) \<lparr>bp1_address = addr, bp1_type = type\<rparr>)))"

text \<open>Find the breakpoint and move the ones behind it down: the new array and whether it was found.\<close>

definition bp1_squash :: "u32 \<Rightarrow> bpType \<Rightarrow> nat \<Rightarrow> breakpoint1 list \<Rightarrow> (bool \<times> breakpoint1 list) option" where
  "bp1_squash addr type n bs =
     Option.bind (bp1_find (\<lambda>b. bp1_type b = type \<and> bp1_address b = addr) n bs) (\<lambda>r.
     case r of
       None \<Rightarrow> Some (False, bs)
     | Some i \<Rightarrow>
         Option.bind (load_many bs (i + 1) (n - 1 - i)) (\<lambda>moved.
         map_option (\<lambda>bs'. (True, bs')) (store_many bs i moved)))"

definition deleteBreakpoint1 :: "u32 \<Rightarrow> bpType \<Rightarrow> bp1_table \<Rightarrow> (bool \<times> bp1_table) option" where
  "deleteBreakpoint1 addr type t =
     (if type = CODE then
        map_option (\<lambda>(ok, bs). (ok, t\<lparr>bpCode := bs,
            numBreakpointsCode := numBreakpointsCode t - (if ok then 1 else 0)\<rparr>))
          (bp1_squash (addr div 2) type (nat (numBreakpointsCode t)) (bpCode t))
      else
        map_option (\<lambda>(ok, bs). (ok, t\<lparr>bpData := bs,
            numBreakpointsData := numBreakpointsData t - (if ok then 1 else 0)\<rparr>))
          (bp1_squash addr type (nat (numBreakpointsData t)) (bpData t)))"

section \<open>Methods and download\<close>

definition on_table1 :: "(bp1_table \<Rightarrow> ('a \<times> bp1_table) option) \<Rightarrow> ('z jtag1_scheme, 'a) io" where
  "on_table1 f = (\<lambda>s. case f (bp1 s) of
       None \<Rightarrow> Some (Inl Undef, s)
     | Some (x, t) \<Rightarrow> Some (Inr x, s\<lparr>bp1 := t\<rparr>))"

definition jtag1_codeBreakpointAt :: "u32 \<Rightarrow> ('z jtag1_scheme, bool) io" where
  "jtag1_codeBreakpointAt addr = on_table1 (\<lambda>t. map_option (\<lambda>r. (r, t)) (codeBreakpointAt1 addr t))"

definition jtag1_codeBreakpointBetween :: "u32 \<Rightarrow> u32 \<Rightarrow> ('z jtag1_scheme, bool) io" where
  "jtag1_codeBreakpointBetween start finish =
     on_table1 (\<lambda>t. map_option (\<lambda>r. (r, t)) (codeBreakpointBetween1 start finish t))"

definition jtag1_deleteAllBreakpoints :: "('z jtag1_scheme, unit) io" where
  "jtag1_deleteAllBreakpoints = on_table1 (\<lambda>t. Some ((), deleteAllBreakpoints1 t))"

definition jtag1_addBreakpoint :: "u32 \<Rightarrow> bpType \<Rightarrow> u32 \<Rightarrow> ('z jtag1_scheme, bool) io" where
  "jtag1_addBreakpoint addr type len = on_table1 (addBreakpoint1 addr type)"

definition jtag1_deleteBreakpoint :: "u32 \<Rightarrow> bpType \<Rightarrow> u32 \<Rightarrow> ('z jtag1_scheme, bool) io" where
  "jtag1_deleteBreakpoint addr type len = on_table1 (deleteBreakpoint1 addr type)"

text \<open>\<open>stopAt\<close> has no \<open>return\<close> statement: its result is whatever the caller finds.\<close>

definition jtag1_stopAt :: "u32 \<Rightarrow> ('z jtag1_scheme, bool) io" where
  "jtag1_stopAt addr =
     io_then (jtag1_jtagWrite (ucast (ucast BREAKPOINT_SPACE_ADDR_OFFSET + addr div 2)) 1 [0])
       (io_get (\<lambda>s. fresh s 0 \<noteq> 0))"

text \<open>The bits of a breakpoint type in the mode byte, for breakpoint X (\<open>shift\<close> 2) and Y (0).\<close>

definition bp1_mode_bits :: "nat \<Rightarrow> bpType \<Rightarrow> u8" where
  "bp1_mode_bits shift type = push_bit shift
     (if type = READ_DATA then 0x00 else if type = WRITE_DATA then 0x01 else if type = ACCESS_DATA then 0x02
      else if type = CODE then 0x03 else 0x00)"

text \<open>The next breakpoint for X or Y, code breakpoints first, and the new \<open>bpC\<close> and \<open>bpD\<close>; the first
  \<open>option\<close> is an access outside the arrays, the second the null pointer.\<close>

definition bp1_next :: "bp1_table \<Rightarrow> nat \<Rightarrow> nat \<Rightarrow> (breakpoint1 option \<times> nat \<times> nat) option" where
  "bp1_next t bpC bpD =
     (if int bpC < numBreakpointsCode t then map_option (\<lambda>b. (Some b, bpC + 1, bpD)) (cell (bpCode t) bpC)
      else if int bpD < numBreakpointsData t then map_option (\<lambda>b. (Some b, bpC, bpD + 1)) (cell (bpData t) bpD)
      else Some (None, bpC, bpD))"

text \<open>Breakpoints Z0 and Z1: written to the breakpoint address space.\<close>

definition set_z_break :: "nat \<Rightarrow> u8 \<Rightarrow> ('z jtag1_scheme, unit) io" where
  "set_z_break bpC v =
     io_bind (io_get bp1) (\<lambda>t.
     if int bpC < numBreakpointsCode t then
       io_bind (io_defined (cell (bpCode t) bpC)) (\<lambda>b.
       io_then (jtag1_jtagWrite (ucast (ucast BREAKPOINT_SPACE_ADDR_OFFSET + bp1_address b)) 1 [v]) (io_ret ()))
     else io_ret ())"

text \<open>Breakpoints X and Y, from the \<open>bpC\<close>-th code breakpoint on.\<close>

definition set_xy_breaks :: "bp1_table \<Rightarrow> nat \<Rightarrow> ('z jtag1_scheme, unit) io" where
  "set_xy_breaks t bpC =
     io_bind (io_defined (bp1_next t bpC 0)) (\<lambda>(bp, bpC, bpD).
     case bp of
       None \<Rightarrow> io_ret ()
     | Some x \<Rightarrow>
         io_then (jtag1_setJtagParameter JTAG_P_BP_X_HIGH (ucast (drop_bit 8 (bp1_address x))))
        (io_then (jtag1_setJtagParameter JTAG_P_BP_X_LOW (ucast (bp1_address x AND 0xff)))
        (io_bind (io_defined (bp1_next t bpC bpD)) (\<lambda>(bp, _).
         io_bind (case bp of
             None \<Rightarrow> io_ret (0x20 OR bp1_mode_bits 2 (bp1_type x))
           | Some y \<Rightarrow>
               io_then (jtag1_setJtagParameter JTAG_P_BP_Y_HIGH (ucast (drop_bit 8 (bp1_address y))))
              (io_then (jtag1_setJtagParameter JTAG_P_BP_Y_LOW (ucast (bp1_address y AND 0xff)))
                (io_ret (0x20 OR bp1_mode_bits 2 (bp1_type x) OR 0x10 OR bp1_mode_bits 0 (bp1_type y))))) (\<lambda>bpMode.
         jtag1_setJtagParameter JTAG_P_BP_MODE bpMode)))))"

definition jtag1_updateBreakpoints :: "('z jtag1_scheme, unit) io" where
  "jtag1_updateBreakpoints =
     io_then (set_z_break 0 0)
    (io_then (set_z_break 1 1)
    (io_bind (io_get bp1) (\<lambda>t. set_xy_breaks t (nat (min 2 (numBreakpointsCode t))))))"

section \<open>The breakpoints as a multiset\<close>

definition bp1_ok :: "bp1_table \<Rightarrow> bool" where
  "bp1_ok t \<longleftrightarrow> length (bpCode t) = MAX_BREAKPOINTS_CODE \<and> length (bpData t) = MAX_BREAKPOINTS_DATA \<and>
     0 \<le> numBreakpointsCode t \<and> 0 \<le> numBreakpointsData t \<and> numBreakpointsData t \<le> int MAX_BREAKPOINTS_DATA \<and>
     numBreakpointsCode t + numBreakpointsData t \<le> int MAX_BREAKPOINTS \<and>
     (\<forall>b \<in> set (take (nat (numBreakpointsCode t)) (bpCode t)). bp1_type b = CODE) \<and>
     (\<forall>b \<in> set (take (nat (numBreakpointsData t)) (bpData t)). bp1_type b \<noteq> CODE)"

definition live_code :: "bp1_table \<Rightarrow> breakpoint1 multiset" where
  "live_code t = mset (take (nat (numBreakpointsCode t)) (bpCode t))"

definition live_data :: "bp1_table \<Rightarrow> breakpoint1 multiset" where
  "live_data t = mset (take (nat (numBreakpointsData t)) (bpData t))"

definition live1 :: "bp1_table \<Rightarrow> breakpoint1 multiset" where
  "live1 t = live_code t + live_data t"

text \<open>What the box can hold: four breakpoints, at most two of them for data.\<close>

definition bp1_entry :: "u32 \<Rightarrow> bpType \<Rightarrow> breakpoint1" where
  "bp1_entry addr type = \<lparr>bp1_address = (if type = CODE then addr div 2 else addr), bp1_type = type\<rparr>"

definition spec_add :: "breakpoint1 \<Rightarrow> breakpoint1 multiset \<Rightarrow> bool \<times> breakpoint1 multiset" where
  "spec_add e M =
     (if size M = MAX_BREAKPOINTS \<or>
         bp1_type e \<noteq> CODE \<and> size (filter_mset (\<lambda>b. bp1_type b \<noteq> CODE) M) = MAX_BREAKPOINTS_DATA
      then (False, M) else (True, add_mset e M))"

definition spec_del :: "breakpoint1 \<Rightarrow> breakpoint1 multiset \<Rightarrow> bool \<times> breakpoint1 multiset" where
  "spec_del e M = (e \<in># M, M - {#e#})"

lemmas bp1_consts = MAX_BREAKPOINTS_CODE_def MAX_BREAKPOINTS_DATA_def MAX_BREAKPOINTS_def

lemma bp1_find_spec:
  assumes "n \<le> length bs"
  obtains (found) i where "bp1_find P n bs = Some (Some i)" "i < n" "P (bs ! i)" "\<forall>j < i. \<not> P (bs ! j)"
    | (absent) "bp1_find P n bs = Some None" "\<forall>b \<in> set (take n bs). \<not> P b"
proof -
  have "(\<exists>i. bp1_find P n bs = Some (Some i) \<and> i < n \<and> P (bs ! i) \<and> (\<forall>j < i. \<not> P (bs ! j))) \<or>
      bp1_find P n bs = Some None \<and> (\<forall>b \<in> set (take n bs). \<not> P b)"
    using assms
  proof (induction P n bs rule: bp1_find.induct)
    case (3 P n b bs)
    show ?case
    proof (cases "P b")
      case True
      then show ?thesis by (intro disjI1 exI [of _ 0]) simp
    next
      case False
      with 3 consider i where "bp1_find P n bs = Some (Some i)" "i < n" "P (bs ! i)" "\<forall>j < i. \<not> P (bs ! j)"
        | "bp1_find P n bs = Some None" "\<forall>b \<in> set (take n bs). \<not> P b"
        by auto
      then show ?thesis
      proof cases
        case 1
        then show ?thesis
          using False by (intro disjI1 exI [of _ "Suc i"]) (auto simp: nth_Cons split: nat.split)
      next
        case 2
        then show ?thesis using False by simp
      qed
    qed
  qed auto
  then show ?thesis using that by blast
qed

lemma bp1_find_exists:
  assumes "n \<le> length bs"
  shows "map_option (\<lambda>r. r \<noteq> None) (bp1_find P n bs) = Some (\<exists>b \<in> set (take n bs). P b)"
  using assms
proof (cases rule: bp1_find_spec [where P = P])
  case (found i)
  then have "bs ! i \<in> set (take n bs)"
    using assms by (auto simp: in_set_conv_nth intro!: exI [of _ i])
  then show ?thesis using found by auto
qed auto

lemma take_store: "n < length bs \<Longrightarrow> take (Suc n) (bs[n := b]) = take n bs @ [b]"
  by (simp add: take_Suc_conv_app_nth)

text \<open>Squashing removes one occurrence of the entry.\<close>

lemma squash_mset:
  assumes "n \<le> length bs"
  obtains bs' where "bp1_squash addr type n bs = Some (\<lparr>bp1_address = addr, bp1_type = type\<rparr> \<in> set (take n bs), bs')"
    "length bs' = length bs"
    "mset (take (n - (if \<lparr>bp1_address = addr, bp1_type = type\<rparr> \<in> set (take n bs) then 1 else 0)) bs') =
       mset (take n bs) - {#\<lparr>bp1_address = addr, bp1_type = type\<rparr>#}"
proof -
  let ?e = "\<lparr>bp1_address = addr, bp1_type = type\<rparr>"
  have eq: "bp1_type b = type \<and> bp1_address b = addr \<longleftrightarrow> b = ?e" for b
    by (cases b) auto
  from assms show ?thesis
  proof (cases rule: bp1_find_spec [where P = "\<lambda>b. bp1_type b = type \<and> bp1_address b = addr"])
    case absent
    then have "?e \<notin> set (take n bs)" unfolding eq by blast
    then show ?thesis
      using that [of bs] absent(1) by (simp add: bp1_squash_def diff_single_trivial)
  next
    case (found i)
    have e: "bs ! i = ?e" using found(3) unfolding eq .
    have split: "take n bs = take i bs @ ?e # take (n - 1 - i) (drop (Suc i) bs)"
      using id_take_nth_drop [of i "take n bs"] found(2) assms e by (simp add: min_absorb1 drop_take)
    then have mem: "?e \<in> set (take n bs)" by simp
    define moved where "moved = take (n - 1 - i) (drop (Suc i) bs)"
    define bs' where "bs' = take i bs @ moved @ drop (i + length moved) bs"
    have lm: "length moved = n - 1 - i"
      using found(2) assms by (simp add: moved_def)
    have "load_many bs (i + 1) (n - 1 - i) = Some moved" "store_many bs i moved = Some bs'"
      using found(2) assms lm by (simp_all add: load_many_def store_many_def moved_def bs'_def)
    then have "bp1_squash addr type n bs = Some (True, bs')"
      using found(1) by (simp add: bp1_squash_def)
    moreover have "length bs' = length bs"
      using found(2) assms lm by (simp add: bs'_def)
    moreover have "take (n - 1) bs' = take i bs @ moved"
      using found(2) assms lm by (simp add: bs'_def)
    then have "mset (take (n - 1) bs') = mset (take n bs) - {#?e#}"
      using split by (simp add: moved_def)
    ultimately show ?thesis using that [of bs'] mem by simp
  qed
qed

lemma bp1_ok_lengths:
  assumes "bp1_ok t"
  shows "nat (numBreakpointsCode t) \<le> length (bpCode t)" "nat (numBreakpointsData t) \<le> length (bpData t)"
    "size (live_code t) = nat (numBreakpointsCode t)" "size (live_data t) = nat (numBreakpointsData t)"
    "filter_mset (\<lambda>b. bp1_type b \<noteq> CODE) (live1 t) = live_data t"
    "filter_mset (\<lambda>b. bp1_type b = CODE) (live1 t) = live_code t"
proof -
  show l: "nat (numBreakpointsCode t) \<le> length (bpCode t)" "nat (numBreakpointsData t) \<le> length (bpData t)"
    using assms by (auto simp: bp1_ok_def bp1_consts)
  then show "size (live_code t) = nat (numBreakpointsCode t)" "size (live_data t) = nat (numBreakpointsData t)"
    by (simp_all add: live_code_def live_data_def)
  have "\<forall>b \<in># live_code t. bp1_type b = CODE" "\<forall>b \<in># live_data t. bp1_type b \<noteq> CODE"
    using assms by (auto simp: bp1_ok_def live_code_def live_data_def)
  then show "filter_mset (\<lambda>b. bp1_type b \<noteq> CODE) (live1 t) = live_data t"
    "filter_mset (\<lambda>b. bp1_type b = CODE) (live1 t) = live_code t"
    by (auto simp: live1_def intro!: multiset_eqI) (meson count_inI)+
qed

lemma addBreakpoint1_refines:
  assumes "bp1_ok t"
  shows "\<exists>r u. addBreakpoint1 addr type t = Some (r, u) \<and> bp1_ok u \<and> (r, live1 u) = spec_add (bp1_entry addr type) (live1 t)"
proof -
  note len = bp1_ok_lengths [OF assms]
  have sizes: "size (live1 t) = nat (numBreakpointsCode t) + nat (numBreakpointsData t)"
    using len by (simp add: live1_def)
  have full: "size (live1 t) = MAX_BREAKPOINTS \<longleftrightarrow> numBreakpointsCode t + numBreakpointsData t = int MAX_BREAKPOINTS"
    using assms unfolding sizes bp1_ok_def by linarith
  show ?thesis
  proof (cases "numBreakpointsCode t + numBreakpointsData t = int MAX_BREAKPOINTS")
    case True
    then show ?thesis
      using assms full by (intro exI [of _ False] exI [of _ t]) (simp add: addBreakpoint1_def spec_add_def)
  next
    case free: False
    show ?thesis
    proof (cases "type = CODE")
      case True
      define n where "n = nat (numBreakpointsCode t)"
      have n: "n < length (bpCode t)" "numBreakpointsCode t = int n"
        using assms free by (auto simp: bp1_ok_def bp1_consts n_def)
      define u where "u = t\<lparr>bpCode := (bpCode t)[n := bp1_entry addr type], numBreakpointsCode := numBreakpointsCode t + 1\<rparr>"
      have "addBreakpoint1 addr type t = Some (True, u)"
        using free True n assms
        by (simp add: addBreakpoint1_def bp1_store_def store_def u_def bp1_entry_def bp1_ok_def bp1_consts)
      moreover have "take (nat (int n + 1)) ((bpCode t)[n := bp1_entry addr type]) = take n (bpCode t) @ [bp1_entry addr type]"
        using take_store [OF n(1)] by (simp add: nat_add_distrib)
      then have "live1 u = add_mset (bp1_entry addr type) (live1 t)" "bp1_ok u"
        using assms free n True
        by (auto simp: live1_def live_code_def live_data_def u_def bp1_ok_def bp1_consts bp1_entry_def)
      ultimately show ?thesis
        using full free True by (auto simp: spec_add_def bp1_entry_def)
    next
      case False
      define n where "n = nat (numBreakpointsData t)"
      have n: "numBreakpointsData t = int n" "size (live_data t) = n"
        using assms len by (auto simp: bp1_ok_def n_def)
      show ?thesis
      proof (cases "n = MAX_BREAKPOINTS_DATA")
        case True
        then show ?thesis
          using assms free False n len(5)
          by (intro exI [of _ False] exI [of _ t]) (simp add: addBreakpoint1_def spec_add_def bp1_entry_def)
      next
        case room: False
        then have lt: "n < length (bpData t)"
          using assms n by (auto simp: bp1_ok_def)
        define u where "u = t\<lparr>bpData := (bpData t)[n := bp1_entry addr type], numBreakpointsData := numBreakpointsData t + 1\<rparr>"
        have "addBreakpoint1 addr type t = Some (True, u)"
          using free False room n lt
          by (simp add: addBreakpoint1_def bp1_store_def store_def u_def bp1_entry_def)
        moreover have "take (nat (int n + 1)) ((bpData t)[n := bp1_entry addr type]) = take n (bpData t) @ [bp1_entry addr type]"
          using take_store [OF lt] by (simp add: nat_add_distrib)
        then have "live1 u = add_mset (bp1_entry addr type) (live1 t)" "bp1_ok u"
          using assms free n False room
          by (auto simp: live1_def live_code_def live_data_def u_def bp1_ok_def bp1_consts bp1_entry_def)
        ultimately show ?thesis
          using full free False room n len(5) by (auto simp: spec_add_def bp1_entry_def)
      qed
    qed
  qed
qed

lemma deleteBreakpoint1_refines:
  assumes "bp1_ok t"
  shows "\<exists>r u. deleteBreakpoint1 addr type t = Some (r, u) \<and> bp1_ok u \<and> (r, live1 u) = spec_del (bp1_entry addr type) (live1 t)"
proof -
  note len = bp1_ok_lengths [OF assms]
  define e where "e = bp1_entry addr type"
  have types: "\<forall>b \<in># live_code t. bp1_type b = CODE" "\<forall>b \<in># live_data t. bp1_type b \<noteq> CODE"
    using assms by (auto simp: bp1_ok_def live_code_def live_data_def)
  show ?thesis
  proof (cases "type = CODE")
    case True
    define n where "n = nat (numBreakpointsCode t)"
    define r where "r \<longleftrightarrow> e \<in> set (take n (bpCode t))"
    have e: "e = \<lparr>bp1_address = addr div 2, bp1_type = type\<rparr>"
      using True by (simp add: e_def bp1_entry_def)
    obtain bs where bs: "bp1_squash (addr div 2) type n (bpCode t) = Some (r, bs)" "length bs = length (bpCode t)"
      "mset (take (n - (if r then 1 else 0)) bs) = live_code t - {#e#}"
      using squash_mset [of n "bpCode t" "addr div 2" type] len(1) unfolding r_def e n_def live_code_def by auto
    define u where "u = t\<lparr>bpCode := bs, numBreakpointsCode := numBreakpointsCode t - (if r then 1 else 0)\<rparr>"
    have run: "deleteBreakpoint1 addr type t = Some (r, u)"
      using bs(1) True by (simp add: deleteBreakpoint1_def n_def u_def)
    have r: "r \<longleftrightarrow> e \<in># live1 t"
      using types(2) by (auto simp: r_def live1_def live_code_def n_def e True)
    have "0 < n" if r using that by (cases n) (auto simp: r_def)
    then have nu: "nat (numBreakpointsCode u) = n - (if r then 1 else 0)" "0 \<le> numBreakpointsCode u"
      using assms by (auto simp: u_def n_def bp1_ok_def)
    have lc: "live_code u = live_code t - {#e#}"
      using bs(3) nu(1) by (simp add: live_code_def u_def)
    have ld: "live_data u = live_data t" "e \<notin># live_data t"
      using types(2) True by (auto simp: live_data_def u_def e)
    have "bp1_ok u"
    proof -
      have "\<forall>b \<in># live_code u. bp1_type b = CODE"
        unfolding lc using types(1) by (meson in_diffD)
      then show ?thesis
        using assms bs(2) nu by (auto simp: bp1_ok_def live_code_def u_def)
    qed
    moreover have "live1 u = live1 t - {#e#}"
      using lc ld by (cases "e \<in># live_code t") (auto simp: live1_def diff_single_trivial)
    ultimately show ?thesis
      using run r by (auto simp: spec_del_def e_def)
  next
    case False
    define n where "n = nat (numBreakpointsData t)"
    define r where "r \<longleftrightarrow> e \<in> set (take n (bpData t))"
    have e: "e = \<lparr>bp1_address = addr, bp1_type = type\<rparr>"
      using False by (simp add: e_def bp1_entry_def)
    obtain bs where bs: "bp1_squash addr type n (bpData t) = Some (r, bs)" "length bs = length (bpData t)"
      "mset (take (n - (if r then 1 else 0)) bs) = live_data t - {#e#}"
      using squash_mset [of n "bpData t" addr type] len(2) unfolding r_def e n_def live_data_def by auto
    define u where "u = t\<lparr>bpData := bs, numBreakpointsData := numBreakpointsData t - (if r then 1 else 0)\<rparr>"
    have run: "deleteBreakpoint1 addr type t = Some (r, u)"
      using bs(1) False by (simp add: deleteBreakpoint1_def n_def u_def)
    have r: "r \<longleftrightarrow> e \<in># live1 t"
      using types(1) False by (auto simp: r_def live1_def live_data_def n_def e)
    have "0 < n" if r using that by (cases n) (auto simp: r_def)
    then have nu: "nat (numBreakpointsData u) = n - (if r then 1 else 0)" "0 \<le> numBreakpointsData u"
      using assms by (auto simp: u_def n_def bp1_ok_def)
    have ld: "live_data u = live_data t - {#e#}"
      using bs(3) nu(1) by (simp add: live_data_def u_def)
    have lc: "live_code u = live_code t" "e \<notin># live_code t"
      using types(1) False by (auto simp: live_code_def u_def e)
    have "bp1_ok u"
    proof -
      have "\<forall>b \<in># live_data u. bp1_type b \<noteq> CODE"
        unfolding ld using types(2) by (meson in_diffD)
      then show ?thesis
        using assms bs(2) nu by (auto simp: bp1_ok_def live_data_def u_def)
    qed
    moreover have "live1 u = live1 t - {#e#}"
      using lc ld by (cases "e \<in># live_data t") (auto simp: live1_def diff_single_trivial)
    ultimately show ?thesis
      using run r by (auto simp: spec_del_def e_def)
  qed
qed

lemma codeBreakpointAt1_live:
  assumes "bp1_ok t"
  shows "codeBreakpointAt1 addr t = Some (bp1_entry addr CODE \<in># live1 t)"
proof -
  have "(\<exists>b \<in> set (take (nat (numBreakpointsCode t)) (bpCode t)). bp1_address b = addr div 2) \<longleftrightarrow> bp1_entry addr CODE \<in># live1 t"
  proof -
    have "b = bp1_entry addr CODE" if "b \<in># live_code t" "bp1_address b = addr div 2" for b
      using that assms by (cases b) (auto simp: bp1_entry_def bp1_ok_def live_code_def)
    moreover have "bp1_entry addr CODE \<notin># live_data t"
      using assms by (auto simp: bp1_ok_def live_data_def bp1_entry_def)
    moreover have "bp1_address (bp1_entry addr CODE) = addr div 2"
      by (simp add: bp1_entry_def)
    ultimately show ?thesis
      by (auto simp: live1_def live_code_def)
  qed
  then show ?thesis
    using bp1_find_exists [OF bp1_ok_lengths(1) [OF assms], where P = "\<lambda>b. bp1_address b = addr div 2"]
    by (simp only: codeBreakpointAt1_def)
qed

section \<open>The contract\<close>

text \<open>Word addresses: the two byte addresses of a word are the same breakpoint.\<close>

interpretation mk1_bp: code_breakpoints bp1_ok codeBreakpointAt1
    "\<lambda>addr. addBreakpoint1 addr CODE" "\<lambda>addr. deleteBreakpoint1 addr CODE" "\<lambda>addr. addr div 2"
proof unfold_locales
  fix t u :: bp1_table and a b r
  assume inv: "bp1_ok t"
  note at = codeBreakpointAt1_live
  have entry: "bp1_entry a CODE = bp1_entry b CODE \<longleftrightarrow> b div 2 = a div 2"
    by (auto simp: bp1_entry_def)
  obtain ra ua where add: "addBreakpoint1 a CODE t = Some (ra, ua)" "bp1_ok ua"
      "(ra, live1 ua) = spec_add (bp1_entry a CODE) (live1 t)"
    using addBreakpoint1_refines [OF inv] by blast
  obtain rd ud where del: "deleteBreakpoint1 a CODE t = Some (rd, ud)" "bp1_ok ud"
      "(rd, live1 ud) = spec_del (bp1_entry a CODE) (live1 t)"
    using deleteBreakpoint1_refines [OF inv] by blast
  show "\<exists>r. codeBreakpointAt1 b t = Some r"
    using at [OF inv] by blast
  show "\<exists>r u. addBreakpoint1 a CODE t = Some (r, u) \<and> bp1_ok u"
    using add by blast
  show "\<exists>r u. deleteBreakpoint1 a CODE t = Some (r, u) \<and> bp1_ok u"
    using del by blast
  show "codeBreakpointAt1 b u = Some ((r \<and> b div 2 = a div 2) \<or> codeBreakpointAt1 b t = Some True)"
    if "addBreakpoint1 a CODE t = Some (r, u)"
    using that add at [OF inv] at [OF add(2)] entry by (auto simp: spec_add_def split: if_splits)
  show "codeBreakpointAt1 b u = codeBreakpointAt1 b t"
    if "deleteBreakpoint1 a CODE t = Some (r, u)" "\<not> r \<or> b div 2 \<noteq> a div 2"
  proof -
    have "bp1_entry b CODE \<in># live1 ud \<longleftrightarrow> bp1_entry b CODE \<in># live1 t"
      using del(3) that(2) entry that(1) del(1)
      by (cases "b div 2 = a div 2") (auto simp: spec_del_def in_diff_count diff_single_trivial)
    then show ?thesis
      using at [OF inv] at [OF del(2)] that(1) del(1) by simp
  qed
  show "codeBreakpointAt1 a t \<noteq> Some True" if "deleteBreakpoint1 a CODE t = Some (False, u)"
    using that del at [OF inv] by (auto simp: spec_del_def)
  show "codeBreakpointAt1 b t = Some True"
    if "deleteBreakpoint1 a CODE t = Some (r, u)" "codeBreakpointAt1 b u = Some True"
    using that del at [OF inv] at [OF del(2)] by (auto simp: spec_del_def dest: in_diffD)
qed

section \<open>Download\<close>

definition z_message :: "breakpoint1 \<Rightarrow> u8 \<Rightarrow> u8 list" where
  "z_message b v = [0x57, ADDR_BREAKPOINT_SPACE, 0] @ encodeAddress (ucast (bp1_address b)) @ JTAG_EOM @ [0x68, v, 0x20, 0x20]"

definition param_message :: "u8 \<Rightarrow> u8 \<Rightarrow> u8 list" where
  "param_message i v = [0x42, i, v] @ JTAG_EOM"

text \<open>The breakpoints in the order of the download.\<close>

definition bp1_list :: "bp1_table \<Rightarrow> breakpoint1 list" where
  "bp1_list t = take (nat (numBreakpointsCode t)) (bpCode t) @ take (nat (numBreakpointsData t)) (bpData t)"

definition z_list :: "bp1_table \<Rightarrow> breakpoint1 list" where
  "z_list t = take 2 (take (nat (numBreakpointsCode t)) (bpCode t))"

definition xy_list :: "bp1_table \<Rightarrow> breakpoint1 list" where
  "xy_list t = drop 2 (take (nat (numBreakpointsCode t)) (bpCode t)) @ take (nat (numBreakpointsData t)) (bpData t)"

lemma z_xy_live: "mset (z_list t) + mset (xy_list t) = live1 t"
proof -
  have "mset (take 2 xs) + mset (drop 2 xs) = mset xs" for xs :: "breakpoint1 list"
    by (metis append_take_drop_id mset_append)
  then show ?thesis
    by (simp add: z_list_def xy_list_def live1_def live_code_def live_data_def add.assoc [symmetric] del: take_take)
qed

lemma xy_list_length: "bp1_ok t \<Longrightarrow> length (z_list t) \<le> 2 \<and> length (xy_list t) \<le> 2"
  by (auto simp: bp1_ok_def z_list_def xy_list_def bp1_consts)

lemma setParameter1_answer:
  assumes "ready1 s" "avail (rx s) = JTAG_R_OK # JTAG_R_OK # rest"
  shows "\<exists>t. jtag1_setJtagParameter i v s = Some (Inr (), t) \<and> answers s (param_message i v) rest t"
  using doJtagCommand1_answer [OF assms(1), of "[JTAG_R_OK]" rest 1 "param_message i v"] assms(2)
  by (auto simp: jtag1_setJtagParameter_def io_simps param_message_def cell_def)

lemma masked_or:
  fixes c x m :: u64
  assumes "\<And>n. bit x n \<Longrightarrow> \<not> bit m n"
  shows "(c OR x) AND m = c AND m" "(c OR x) AND NOT m = (c AND NOT m) OR x"
  by (rule bit_eqI; use assms in \<open>auto simp: bit_simps\<close>)+

lemma breakpoint_space:
  assumes "x < 0x10000"
  shows "jtag1_memorySpace (ucast (ucast BREAKPOINT_SPACE_ADDR_OFFSET + x)) = (ADDR_BREAKPOINT_SPACE, ucast (x :: u32))"
proof -
  have "take_bit 16 x = x"
    using assms by (simp add: word_unat_eq_iff unsigned_take_bit_eq take_bit_nat_eq_self_iff word_less_nat_alt)
  then have x: "n < 16" if "bit x n" for n
    using that by (metis bit_take_bit_iff)
  have hi: "16 \<le> n" if "bit (push_bit 16 y) n" for y :: u64 and n
    using that by (simp add: bit_push_bit_iff)
  have hi32: "16 \<le> n" if "bit (push_bit 16 y) n" for y :: u32 and n
    using that by (simp add: bit_push_bit_iff)
  have "(ucast BREAKPOINT_SPACE_ADDR_OFFSET :: u32) = push_bit 16 0x90"
    by (simp add: code_defs)
  then have "ucast BREAKPOINT_SPACE_ADDR_OFFSET + x = ucast BREAKPOINT_SPACE_ADDR_OFFSET OR x"
    by (intro add_disjoint) (metis x hi32 linorder_not_less)
  moreover have "(ucast ((ucast BREAKPOINT_SPACE_ADDR_OFFSET :: u32) OR x) :: u64) = 0x900000 OR ucast x"
    by (simp add: unsigned_or_eq code_defs)
  moreover have bit: "\<not> bit m n" if "bit (ucast x :: u64) n" "m = push_bit 16 k" for m k :: u64 and n
    using that x hi by (fastforce simp: bit_ucast_iff)
  have "(0x900000 OR ucast x) AND (0x970000 :: u64) = 0x900000" "(0x900000 OR ucast x) AND NOT (0x970000 :: u64) = ucast x"
    "(0x900000 OR ucast x) AND (0x800000 :: u64) = 0x800000"
    using masked_or [of "ucast x" "0x970000" "0x900000", OF bit [of _ _ "0x97"]]
      masked_or(1) [of "ucast x" "0x800000" "0x900000", OF bit [of _ _ "0x80"]] by simp_all
  ultimately show ?thesis
    by (simp add: jtag1_memorySpace_def code_defs)
qed

lemma z_write_answer:
  assumes "ready1 s" "bp1_address b < 0x10000" "avail (rx s) = JTAG_R_OK # JTAG_R_OK # JTAG_R_OK # rest"
  shows "\<exists>r t. jtag1_jtagWrite (ucast (ucast BREAKPOINT_SPACE_ADDR_OFFSET + bp1_address b)) 1 [v] s = Some (Inr r, t) \<and>
     answers s (z_message b v) rest t"
proof -
  define a :: u64 where "a = ucast (bp1_address b)"
  have space: "jtag1_memorySpace (ucast (ucast BREAKPOINT_SPACE_ADDR_OFFSET + bp1_address b)) = (ADDR_BREAKPOINT_SPACE, a)"
    unfolding a_def by (rule breakpoint_space [OF assms(2)])
  obtain t where t: "jtag1_doJtagCommand ([0x57, ADDR_BREAKPOINT_SPACE, 0] @ encodeAddress a @ JTAG_EOM) 0 s = Some (Inr [0], t)"
    "answers s ([0x57, ADDR_BREAKPOINT_SPACE, 0] @ encodeAddress a @ JTAG_EOM) (JTAG_R_OK # JTAG_R_OK # rest) t"
    using doJtagCommand1_answer [OF assms(1), of "[]" "JTAG_R_OK # JTAG_R_OK # rest" 0] assms(3) by auto
  have "ready1 t"
    using answers_simps(3) [OF t(2)] assms(1) by simp
  then obtain u where u: "jtag1_doJtagCommand [0x68, v, 0x20, 0x20] 1 t = Some (Inr [JTAG_R_OK, 0], u)"
    "answers t [0x68, v, 0x20, 0x20] rest u"
    using doJtagCommand1_answer [of t "[JTAG_R_OK]" rest 1 "[0x68, v, 0x20, 0x20]"] answers_simps(1) [OF t(2)] by auto
  have sp: "ADDR_BREAKPOINT_SPACE \<noteq> 0" by (simp add: code_defs)
  have "jtag1_jtagWrite (ucast (ucast BREAKPOINT_SPACE_ADDR_OFFSET + bp1_address b)) 1 [v] s = Some (Inr (True, [v]), u)"
    using t(1) u(1) sp by (simp add: jtag1_jtagWrite_def space Let_def io_simps load_many_def)
  then show ?thesis
    using answers_trans [OF t(2) u(2)] by (auto simp: z_message_def a_def)
qed

lemma answers_bp1: "answers s out rest t \<Longrightarrow> bp1 t = bp1 s"
  by (auto simp: answers_def)

lemma answers_refl: "avail (rx s) = rest \<Longrightarrow> answers s [] rest s"
  unfolding answers_def by (intro exI [of _ "rx s"]) simp

lemma set_z_break_answer:
  assumes "ready1 s" "bp1_ok (bp1 s)" "i < 2" "\<forall>b \<in> set (z_list (bp1 s)). bp1_address b < 0x10000"
    and "avail (rx s) = (if i < length (z_list (bp1 s)) then [JTAG_R_OK, JTAG_R_OK, JTAG_R_OK] else []) @ rest"
  shows "\<exists>t. set_z_break i v s = Some (Inr (), t) \<and>
     answers s (if i < length (z_list (bp1 s)) then z_message (z_list (bp1 s) ! i) v else []) rest t"
proof -
  have len: "i < length (z_list (bp1 s)) \<longleftrightarrow> int i < numBreakpointsCode (bp1 s)"
    using assms(2,3) by (auto simp: z_list_def bp1_ok_def bp1_consts)
  show ?thesis
  proof (cases "i < length (z_list (bp1 s))")
    case False
    then show ?thesis
      using assms(5) len answers_refl by (fastforce simp: set_z_break_def io_simps)
  next
    case True
    have "i < length (bpCode (bp1 s))" "z_list (bp1 s) ! i = bpCode (bp1 s) ! i"
      using True by (auto simp: z_list_def)
    moreover have "bp1_address (z_list (bp1 s) ! i) < 0x10000"
      using assms(4) True by simp
    from z_write_answer [OF assms(1) this, of rest v] assms(5) True
    obtain r t where "jtag1_jtagWrite (ucast (ucast BREAKPOINT_SPACE_ADDR_OFFSET + bp1_address (z_list (bp1 s) ! i))) 1 [v] s =
        Some (Inr r, t)" "answers s (z_message (z_list (bp1 s) ! i) v) rest t"
      by auto
    ultimately show ?thesis
      using True len by (auto simp: set_z_break_def io_simps cell_def)
  qed
qed

text \<open>\<open>bp1_next\<close> takes the head of the breakpoints that are left.\<close>

definition bp1_left :: "bp1_table \<Rightarrow> nat \<Rightarrow> nat \<Rightarrow> breakpoint1 list" where
  "bp1_left t c d = drop c (take (nat (numBreakpointsCode t)) (bpCode t)) @ drop d (take (nat (numBreakpointsData t)) (bpData t))"

lemma bp1_next_Nil:
  assumes "bp1_ok t" "bp1_left t c d = []"
  shows "bp1_next t c d = Some (None, c, d)"
  using assms bp1_ok_lengths(1,2) [OF assms(1)] by (auto simp: bp1_next_def bp1_left_def bp1_ok_def)

lemma bp1_next_Cons:
  assumes "bp1_ok t" "bp1_left t c d = b # r"
  shows "\<exists>c' d'. bp1_next t c d = Some (Some b, c', d') \<and> bp1_left t c' d' = r"
proof -
  note len = bp1_ok_lengths(1,2) [OF assms(1)]
  define cs where "cs = take (nat (numBreakpointsCode t)) (bpCode t)"
  define ds where "ds = take (nat (numBreakpointsData t)) (bpData t)"
  have n: "length cs = nat (numBreakpointsCode t)" "length ds = nat (numBreakpointsData t)"
    using len by (simp_all add: cs_def ds_def)
  have eq: "drop c cs @ drop d ds = b # r"
    using assms(2) by (simp add: bp1_left_def cs_def ds_def)
  show ?thesis
  proof (cases "c < length cs")
    case True
    then have "cs ! c = b" "drop (Suc c) cs @ drop d ds = r"
      using eq by (metis append_Cons Cons_nth_drop_Suc list.inject)+
    moreover have "c < length (bpCode t)" "cs ! c = bpCode t ! c" "int c < numBreakpointsCode t"
      using True n len by (auto simp: cs_def)
    ultimately show ?thesis
      by (auto simp: bp1_next_def cell_def bp1_left_def cs_def ds_def)
  next
    case False
    then have d: "drop d ds = b # r"
      using eq by simp
    then have lt: "d < length ds"
      by (metis drop_all linorder_not_less list.discI)
    then have "ds ! d = b" "drop (Suc d) ds = r"
      using d by (metis Cons_nth_drop_Suc list.inject)+
    moreover have "d < length (bpData t)" "ds ! d = bpData t ! d" "int d < numBreakpointsData t" "\<not> int c < numBreakpointsCode t"
      using lt False n len by (auto simp: ds_def)
    moreover have "drop c cs = []"
      using False by simp
    ultimately show ?thesis
      by (auto simp: bp1_next_def cell_def bp1_left_def cs_def ds_def)
  qed
qed

text \<open>Setting several parameters.\<close>

fun set_params :: "(u8 \<times> u8) list \<Rightarrow> ('z jtag_scheme, unit) io" where
  "set_params [] = io_ret ()"
| "set_params ((i, v) # ps) = io_then (jtag1_setJtagParameter i v) (set_params ps)"

lemma set_params_answer:
  assumes "ready1 s" "avail (rx s) = replicate (2 * length ps) JTAG_R_OK @ rest"
  shows "\<exists>t. set_params ps s = Some (Inr (), t) \<and> answers s (concat (map (\<lambda>(i, v). param_message i v) ps)) rest t"
  using assms
proof (induction ps arbitrary: s)
  case Nil
  then show ?case using answers_refl [of s rest] by (auto simp: io_simps)
next
  case (Cons p ps)
  obtain i v where p: "p = (i, v)" by (cases p)
  have "avail (rx s) = JTAG_R_OK # JTAG_R_OK # replicate (2 * length ps) JTAG_R_OK @ rest"
    using Cons.prems(2) by simp
  then obtain t where t: "jtag1_setJtagParameter i v s = Some (Inr (), t)"
    "answers s (param_message i v) (replicate (2 * length ps) JTAG_R_OK @ rest) t"
    using setParameter1_answer [OF Cons.prems(1)] by blast
  obtain u where u: "set_params ps t = Some (Inr (), u)"
    "answers t (concat (map (\<lambda>(i, v). param_message i v) ps)) rest u"
    using Cons.IH [of t] answers_simps(1,3) [OF t(2)] Cons.prems(1) by auto
  show ?case
    using t(1) u(1) answers_trans [OF t(2) u(2)] by (simp add: p io_simps)
qed

definition xy_params :: "breakpoint1 list \<Rightarrow> (u8 \<times> u8) list" where
  "xy_params bs =
     (case bs of
        [] \<Rightarrow> []
      | [x] \<Rightarrow>
          [(JTAG_P_BP_X_HIGH, ucast (drop_bit 8 (bp1_address x))), (JTAG_P_BP_X_LOW, ucast (bp1_address x AND 0xff)),
           (JTAG_P_BP_MODE, 0x20 OR bp1_mode_bits 2 (bp1_type x))]
      | x # y # _ \<Rightarrow>
          [(JTAG_P_BP_X_HIGH, ucast (drop_bit 8 (bp1_address x))), (JTAG_P_BP_X_LOW, ucast (bp1_address x AND 0xff)),
           (JTAG_P_BP_Y_HIGH, ucast (drop_bit 8 (bp1_address y))), (JTAG_P_BP_Y_LOW, ucast (bp1_address y AND 0xff)),
           (JTAG_P_BP_MODE, 0x20 OR bp1_mode_bits 2 (bp1_type x) OR 0x10 OR bp1_mode_bits 0 (bp1_type y))])"

lemma set_xy_breaks_params:
  assumes "bp1_ok t"
  shows "set_xy_breaks t c s = set_params (xy_params (bp1_left t c 0)) s"
proof (cases "bp1_left t c 0")
  case Nil
  then show ?thesis
    using bp1_next_Nil [OF assms, of c 0] by (simp add: set_xy_breaks_def io_simps xy_params_def)
next
  case (Cons x ys)
  then obtain c' d' where x: "bp1_next t c 0 = Some (Some x, c', d')" "bp1_left t c' d' = ys"
    using bp1_next_Cons [OF assms] by blast
  show ?thesis
  proof (cases ys)
    case Nil
    then have "bp1_next t c' d' = Some (None, c', d')"
      using bp1_next_Nil [OF assms] x(2) by simp
    then show ?thesis
      using x(1) \<open>bp1_left t c 0 = x # ys\<close> Nil
      by (simp add: set_xy_breaks_def io_simps xy_params_def io_then_def io_bind_ret_left io_bind_ret_right)
  next
    case (Cons y zs)
    then obtain c2 d2 where "bp1_next t c' d' = Some (Some y, c2, d2)"
      using bp1_next_Cons [OF assms] x(2) by blast
    then show ?thesis
      using x(1) \<open>bp1_left t c 0 = x # ys\<close> Cons
      by (simp add: set_xy_breaks_def io_simps xy_params_def io_then_def io_bind_ret_left io_bind_ret_right io_bind_assoc)
  qed
qed

text \<open>The number of acknowledgements of a whole download.\<close>

definition update_acks :: "bp1_table \<Rightarrow> nat" where
  "update_acks t = 3 * length (z_list t) + 2 * length (xy_params (xy_list t))"

definition update_messages1 :: "bp1_table \<Rightarrow> u8 list" where
  "update_messages1 t = concat (map2 z_message (z_list t) [0, 1]) @
     concat (map (\<lambda>(i, v). param_message i v) (xy_params (xy_list t)))"

lemma updateBreakpoints1_answer:
  assumes "ready1 s" "bp1_ok (bp1 s)" "\<forall>b \<in> set (z_list (bp1 s)). bp1_address b < 0x10000"
    and "avail (rx s) = replicate (update_acks (bp1 s)) JTAG_R_OK @ rest"
  shows "\<exists>t. jtag1_updateBreakpoints s = Some (Inr (), t) \<and> answers s (update_messages1 (bp1 s)) rest t"
proof -
  define tb where "tb = bp1 s"
  define z where "z = z_list tb"
  define tail where "tail = replicate (2 * length (xy_params (xy_list tb))) JTAG_R_OK @ rest"
  have zs: "z_list (bp1 s) = z"
    by (simp add: z_def tb_def)
  have lz: "length z \<le> 2"
    using xy_list_length assms(2) by (simp add: z_def tb_def)
  have av: "avail (rx s) = replicate (3 * length z) JTAG_R_OK @ tail"
    using assms(4) by (simp add: update_acks_def tail_def z_def tb_def replicate_add)
  have ack: "replicate (3 * length z) JTAG_R_OK =
      (if 0 < length z then [JTAG_R_OK, JTAG_R_OK, JTAG_R_OK] else []) @
      (if 1 < length z then [JTAG_R_OK, JTAG_R_OK, JTAG_R_OK] else [])"
    using lz by (cases "length z") (auto simp: le_Suc_eq eval_nat_numeral)
  obtain s1 where s1: "set_z_break 0 0 s = Some (Inr (), s1)"
    "answers s (if 0 < length z then z_message (z ! 0) 0 else []) ((if 1 < length z then [JTAG_R_OK, JTAG_R_OK, JTAG_R_OK] else []) @ tail) s1"
    using set_z_break_answer [OF assms(1,2) _ assms(3), of 0 _ 0] av ack unfolding zs by auto
  have b1: "bp1 s1 = tb" "ready1 s1"
    using answers_bp1 [OF s1(2)] answers_simps(3) [OF s1(2)] assms(1) by (simp_all add: tb_def)
  obtain s2 where s2: "set_z_break 1 1 s1 = Some (Inr (), s2)"
    "answers s1 (if 1 < length z then z_message (z ! 1) 1 else []) tail s2"
    using set_z_break_answer [OF b1(2), of 1 tail 1] assms(2,3) answers_simps(1) [OF s1(2)]
    unfolding b1(1) tb_def zs by auto
  have b2: "bp1 s2 = tb" "ready1 s2" "avail (rx s2) = tail"
    using answers_bp1 [OF s2(2)] answers_simps(1,3) [OF s2(2)] b1 by simp_all
  have left: "bp1_left tb (nat (min 2 (numBreakpointsCode tb))) 0 = xy_list tb"
    using assms(2) by (auto simp: bp1_left_def xy_list_def tb_def min_def)
  obtain s3 where s3: "set_params (xy_params (xy_list tb)) s2 = Some (Inr (), s3)"
    "answers s2 (concat (map (\<lambda>(i, v). param_message i v) (xy_params (xy_list tb)))) rest s3"
    using set_params_answer [OF b2(2)] b2(3) by (auto simp: tail_def)
  have "jtag1_updateBreakpoints s = Some (Inr (), s3)"
    using s1(1) s2(1) s3(1) b2(1) set_xy_breaks_params [of tb "nat (min 2 (numBreakpointsCode tb))" s2] assms(2)
    unfolding left by (simp add: jtag1_updateBreakpoints_def io_simps tb_def)
  moreover have "(if 0 < length z then z_message (z ! 0) 0 else []) @ (if 1 < length z then z_message (z ! 1) 1 else []) =
      concat (map2 z_message z [0, 1])"
    using lz by (cases z; cases "tl z") auto
  ultimately show ?thesis
    using answers_trans [OF answers_trans [OF s1(2) s2(2)] s3(2)]
    by (auto simp: update_messages1_def z_def tb_def)
qed

lemma bp_run_append:
  "bp_run add del (rs @ rs') t =
     Option.bind (bp_run add del rs t) (\<lambda>(oks, u). map_option (\<lambda>(oks', v). (oks @ oks', v)) (bp_run add del rs' u))"
proof (induction rs arbitrary: t)
  case Nil
  show ?case by (cases "bp_run add del rs' t") auto
next
  case (Cons r rs)
  show ?case
    by (cases "case r of Insert_BP a \<Rightarrow> add a t | Remove_BP a \<Rightarrow> del a t")
      (auto simp: Cons.IH split: option.split bind_splits)
qed

section \<open>Properties\<close>


text \<open>From empty arrays, every sequence of insert and remove requests is carried out; a breakpoint
  that was accepted is reported at both bytes of its word until one of them is removed.\<close>

lemma mk1_breakpoint_requests:
  assumes "bp1_ok t"
  shows "\<exists>oks u. bp_run (\<lambda>addr. addBreakpoint1 addr CODE) (\<lambda>addr. deleteBreakpoint1 addr CODE)
       (before @ Insert_BP addr # after) (deleteAllBreakpoints1 t) = Some (oks, u) \<and> bp1_ok u \<and>
     length oks = length before + 1 + length after \<and>
     (oks ! length before \<and> (\<forall>c. Remove_BP c \<in> set after \<longrightarrow> c div 2 \<noteq> addr div 2) \<longrightarrow>
        codeBreakpointAt1 addr u = Some True)"
proof -
  have "bp1_ok (deleteAllBreakpoints1 t)"
    using assms by (auto simp: deleteAllBreakpoints1_def bp1_ok_def)
  from mk1_bp.run_defined [OF this, of before] obtain oks1 v where
    v: "bp_run (\<lambda>addr. addBreakpoint1 addr CODE) (\<lambda>addr. deleteBreakpoint1 addr CODE) before
      (deleteAllBreakpoints1 t) = Some (oks1, v)" "bp1_ok v" "length oks1 = length before"
    by blast
  obtain r w where w: "addBreakpoint1 addr CODE v = Some (r, w)" "bp1_ok w"
    using mk1_bp.add_defined [OF v(2)] by blast
  from mk1_bp.run_defined [OF w(2), of after] obtain oks2 u where
    u: "bp_run (\<lambda>addr. addBreakpoint1 addr CODE) (\<lambda>addr. deleteBreakpoint1 addr CODE) after w = Some (oks2, u)"
      "bp1_ok u" "length oks2 = length after"
    by blast
  have "codeBreakpointAt1 addr u = Some True" if "r" "\<forall>c. Remove_BP c \<in> set after \<longrightarrow> c div 2 \<noteq> addr div 2"
    using mk1_bp.add_then_at [OF v(2) _ u(1)] w(1) that by simp
  then show ?thesis
    using v(1,3) w(1) u by (intro exI [of _ "oks1 @ r # oks2"] exI [of _ u]) (auto simp: bp_run_append nth_append)
qed


section \<open>Examples\<close>

definition example_table1 :: bp1_table where
  "example_table1 =
     \<lparr>bpCode = [bp1_entry 0x100 CODE, bp1_entry 0x200 CODE, bp1_entry 0x300 CODE, bp1_entry 0x400 CODE],
      bpData = [bp1_entry 0x60 WRITE_DATA, bp1_entry 0x61 READ_DATA],
      numBreakpointsCode = 3, numBreakpointsData = 1\<rparr>"

lemma example_table1_ok: "bp1_ok example_table1"
  by (simp add: bp1_ok_def example_table1_def bp1_consts bp1_entry_def code_defs eval_nat_numeral)


lemma mk1_breakpoint_requests_witness:
  "\<exists>oks u. bp_run (\<lambda>addr. addBreakpoint1 addr CODE) (\<lambda>addr. deleteBreakpoint1 addr CODE)
     ([Insert_BP 0x100] @ Insert_BP 0x200 # [Remove_BP 0x100]) (deleteAllBreakpoints1 example_table1) = Some (oks, u) \<and>
     length oks = 3"
  using mk1_breakpoint_requests [OF example_table1_ok, of "[Insert_BP 0x100]" "0x200" "[Remove_BP 0x100]"] by auto


end
