(* ===== verification/Mk1_Target.thy ===== *)
theory Mk1_Target
  imports Mk1_Breakpoints Device_Lookup
begin

text \<open>
  The rest of the mkI driver: running the target (\<^verbatim>\<open>src/src/jtagrun.cc\<close>), and connecting to the
  box and to the target (\<^verbatim>\<open>src/src/jtagio.cc\<close>). The bodies of \<open>pollDevice\<close> and most of that of
  \<open>jtagContinue\<close> are under \<open>#ifdef GDB_FUNCTIONALITY_XXX\<close>, which nothing defines.
\<close>

section \<open>Running the target\<close>

definition jtag1_getProgramCounter :: "('z jtag_scheme, u64) io" where
  "jtag1_getProgramCounter =
     io_bind (jtag1_doJtagCommand (0x32 # JTAG_EOM) 4) (\<lambda>response.
     io_bind (io_defined (cell response 3)) (\<lambda>c.
     if c \<noteq> JTAG_R_OK then io_ret PC_INVALID
     else io_bind (io_defined (decodeAddress response)) (\<lambda>result. io_ret ((result - 1) * 2))))"

definition jtag1_setProgramCounter :: "u64 \<Rightarrow> ('z jtag_scheme, bool) io" where
  "jtag1_setProgramCounter pc =
     io_bind (jtag1_doJtagCommand (0x33 # encodeAddress (pc div 2 + 1) @ JTAG_EOM) 1) (\<lambda>response.
     io_bind (io_defined (cell response 0)) (\<lambda>c. io_ret (c = JTAG_R_OK)))"

definition jtag1_resetProgram :: "bool \<Rightarrow> ('z jtag_scheme, bool) io" where
  "jtag1_resetProgram possible_nSRST =
     io_bind (io_get apply_nSRST) (\<lambda>nsrst.
     io_then (if possible_nSRST \<and> nsrst then jtag1_setJtagParameter JTAG_P_EXTERNAL_RESET 0x01 else io_ret ())
    (io_bind (jtag1_doSimpleJtagCommand 0x78 1) (\<lambda>result.
     io_bind (io_get apply_nSRST) (\<lambda>nsrst'.
     io_then (if possible_nSRST \<and> nsrst' then jtag1_setJtagParameter JTAG_P_EXTERNAL_RESET 0x00 else io_ret ())
       (io_ret result)))))"

definition jtag1_interruptProgram :: "('z jtag_scheme, bool) io" where
  "jtag1_interruptProgram = jtag1_doSimpleJtagCommand 0x46 4"

definition jtag1_resumeProgram :: "('z jtag_scheme, bool) io" where
  "jtag1_resumeProgram = jtag1_doSimpleJtagCommand 0x47 0"

definition jtag1_jtagSingleStep :: "bool \<Rightarrow> ('z jtag_scheme, bool) io" where
  "jtag1_jtagSingleStep useHLL = jtag1_doSimpleJtagCommand 0x31 1"

definition jtag1_parseEvents :: "string \<Rightarrow> ('z jtag_scheme, unit) io" where
  "jtag1_parseEvents evtlist = io_ret ()"

definition jtag1_startPolling :: "('z jtag_scheme, unit) io" where
  "jtag1_startPolling = io_ret ()"

text \<open>Neither function reaches a \<open>return\<close>: the flags stay as they are, and the value is whatever the
  caller finds.\<close>

definition jtag1_pollDevice :: "bool \<Rightarrow> bool \<Rightarrow> ('z jtag_scheme, bool \<times> bool \<times> bool) io" where
  "jtag1_pollDevice gdbInterrupt breakpoint = io_get (\<lambda>s. (fresh s 0 \<noteq> 0, gdbInterrupt, breakpoint))"

definition jtag1_jtagContinue :: "('z jtag_scheme, bool) io" where
  "jtag1_jtagContinue = io_get (\<lambda>s. fresh s 0 \<noteq> 0)"

section \<open>Connecting to the box\<close>

definition baud_code1 :: "int \<Rightarrow> u8 option" where
  "baud_code1 newBitRate =
     (if newBitRate = 9600 then Some BIT_RATE_9600
      else if newBitRate = 19200 then Some BIT_RATE_19200
      else if newBitRate = 38400 then Some BIT_RATE_38400
      else if newBitRate = 57600 then Some BIT_RATE_57600
      else if newBitRate = 115200 then Some BIT_RATE_115200
      else None)"

text \<open>For another rate \<open>jtagrate\<close> is not initialised.\<close>

definition jtag1_changeBitRate :: "int \<Rightarrow> ('z jtag_scheme, unit) io" where
  "jtag1_changeBitRate newBitRate =
     io_bind (io_get (\<lambda>s. case baud_code1 newBitRate of Some c \<Rightarrow> c | None \<Rightarrow> fresh s 0)) (\<lambda>jtagrate.
     io_then (jtag1_setJtagParameter JTAG_P_BITRATE jtagrate) (changeLocalBitRate newBitRate))"

definition jtag1_setDeviceDescriptor :: "jtag_device_def \<Rightarrow> ('z jtag_scheme, unit) io" where
  "jtag1_setDeviceDescriptor dev =
     io_bind (jtag1_doJtagCommand (desc1_bytes (dev_desc1 dev)) 1) (\<lambda>response.
     io_bind (io_defined (cell response 0)) (\<lambda>c.
     check (c = JTAG_R_OK) ''JTAG ICE: Failed to set device description''))"

text \<open>The name of the box, "AVRNOCDA", which \<open>strcmp\<close> compares with the response up to its first zero.\<close>

definition AVRNOCDA :: "u8 list" where
  "AVRNOCDA = [0x41, 0x56, 0x52, 0x4e, 0x4f, 0x43, 0x44, 0x41]"

definition checkForEmulator :: "('z jtag_scheme, bool) io" where
  "checkForEmulator =
     io_bind (jtag1_sendJtagCommand (0x53 # JTAG_EOM) 0) (\<lambda>(r, tries).
     if r = send_failed then io_ret False
     else io_bind (getJtagResponse 8) (\<lambda>response.
       io_ret (case response of None \<Rightarrow> False | Some r \<Rightarrow> takeWhile (\<lambda>c. c \<noteq> 0) r = AVRNOCDA)))"

function synchronise_loop1 :: "nat \<Rightarrow> ('z jtag_scheme, bool) io" where
  "synchronise_loop1 tries s =
     (if tries < MAX_JTAG_SYNC_ATTEMPS then
        io_bind (jtag1_sendJtagCommand [0x53, 0x45, 0x20, 0x20] tries) (\<lambda>(r, tries') t.
          io_bind (io_then tty_check (io_then tcflush_input checkForEmulator)) (\<lambda>found u.
            if found then Some (Inr True, u) else synchronise_loop1 tries' u) t) s
      else Some (Inr False, s))"
  by pat_completeness auto

termination
  by (relation "measure (\<lambda>(tries, s). MAX_JTAG_SYNC_ATTEMPS - tries)")
    (auto dest!: jtag1_sendJtagCommand_tries)

declare synchronise_loop1.simps [simp del]

definition jtag1_synchroniseAt :: "int \<Rightarrow> ('z jtag_scheme, bool) io" where
  "jtag1_synchroniseAt bitrate = io_then (changeLocalBitRate bitrate) (synchronise_loop1 0)"

fun start_link1 :: "int list \<Rightarrow> ('z jtag_scheme, unit) io" where
  "start_link1 [] = check False ''Failed to synchronise with the JTAG ICE (is it connected and powered?)''"
| "start_link1 (bitrate # bitrates) =
     io_bind (jtag1_synchroniseAt bitrate) (\<lambda>ok. if ok then io_ret () else start_link1 bitrates)"

definition bitrates1 :: "int list" where
  "bitrates1 = [115200, 19200, 57600, 38400, 9600]"

definition jtag1_startJtagLink :: "('z jtag_scheme, unit) io" where
  "jtag1_startJtagLink = start_link1 bitrates1"

section \<open>The device\<close>

definition jtag1_configDaisyChain :: "('z jtag_scheme, unit) io" where
  "jtag1_configDaisyChain =
     io_bind (io_get (\<lambda>s. (units_before s, units_after s, bits_before s, bits_after s))) (\<lambda>(ub, ua, bb, ba).
     io_then (if 0 < ub then jtag1_setJtagParameter JTAG_P_UNITS_BEFORE ub else io_ret ())
    (io_then (if 0 < ua then jtag1_setJtagParameter JTAG_P_UNITS_AFTER ua else io_ret ())
    (io_then (if 0 < bb then jtag1_setJtagParameter JTAG_P_BIT_BEFORE bb else io_ret ())
             (if 0 < ba then jtag1_setJtagParameter JTAG_P_BIT_AFTER ba else io_ret ()))))"

text \<open>The four bytes of the JTAG id; reading the first resumes the program, which is stopped again. The
  calls inside the sum are taken in the order of the source.\<close>

definition reported_device_id1 :: "('z jtag_scheme, u32) io" where
  "reported_device_id1 =
     io_bind (jtag1_getJtagParameter JTAG_P_JTAGID_BYTE0) (\<lambda>b0.
     io_then jtag1_interruptProgram
    (io_bind (jtag1_getJtagParameter JTAG_P_JTAGID_BYTE1) (\<lambda>b1.
     io_bind (jtag1_getJtagParameter JTAG_P_JTAGID_BYTE2) (\<lambda>b2.
     io_bind (jtag1_getJtagParameter JTAG_P_JTAGID_BYTE3) (\<lambda>b3.
     io_ret (drop_bit 12 ((ucast b0 + (push_bit 8 (ucast b1) + push_bit 16 (ucast b2) + push_bit 24 (ucast b3)))
       AND 0x0FFFF000)))))))"

text \<open>A device that only the mkII supports is refused; the end mark of the table has no flags.\<close>

definition select_device1 :: "string option \<Rightarrow> u32 \<Rightarrow> ('z jtag_scheme, jtag_device_def) io" where
  "select_device1 name dev_id =
     (case find_device (case name of None \<Rightarrow> \<lambda>d. device_id d = dev_id | Some n \<Rightarrow> device_named n) deviceDefinitions of
        None \<Rightarrow> io_throw (Thrown (case name of
            None \<Rightarrow> ''No configuration available for device ID: %0x'' @ [CHR 0x0A]
          | Some n \<Rightarrow> ''No configuration available for Device: %s'' @ [CHR 0x0A]))
      | Some d \<Rightarrow> io_then (check (device_flags d \<noteq> DEVFL_MKII_ONLY) ''Device is not supported by JTAG ICE mkI'')
          (io_ret d))"

definition jtag1_deviceAutoConfig :: "('z jtag_scheme, unit) io" where
  "jtag1_deviceAutoConfig =
     io_then jtag1_configDaisyChain
    (io_bind reported_device_id1 (\<lambda>dev_id.
     io_bind (io_get device_name) (\<lambda>name.
     io_bind (select_device1 name dev_id) (\<lambda>pDevice.
     io_then (io_put (\<lambda>s. s\<lparr>device_name := dev_name pDevice, p_device_def := Some pDevice\<rparr>))
       (jtag1_setDeviceDescriptor pDevice)))))"

definition jtag1_initJtagBox :: "('z jtag1_scheme, unit) io" where
  "jtag1_initJtagBox =
     io_then jtag1_startJtagLink
    (io_then (jtag1_changeBitRate 115200)
    (io_then (jtag1_getJtagParameter JTAG_P_HW_VERSION)
    (io_then (jtag1_getJtagParameter JTAG_P_SW_VERSION)
    (io_then jtag1_interruptProgram
    (io_then jtag1_deviceAutoConfig
       jtag1_deleteAllBreakpoints)))))"

section \<open>On-chip debugging\<close>

definition jtag1_clock :: "u64 \<Rightarrow> u8" where
  "jtag1_clock bitrate =
     (if 1000000 \<le> bitrate then JTAG_BITRATE_1_MHz
      else if 500000 \<le> bitrate then JTAG_BITRATE_500_KHz
      else if 250000 \<le> bitrate then JTAG_BITRATE_250_KHz
      else JTAG_BITRATE_125_KHz)"

definition jtag1_unlock_bits :: "('z jtag_scheme, unit) io" where
  "jtag1_unlock_bits =
     io_bind (jtag1_jtagRead (LOCK_SPACE_ADDR_OFFSET + 0) 1) (\<lambda>lockBits.
     io_bind (io_defined (Option.bind lockBits (\<lambda>b. cell b 0))) (\<lambda>b.
     if b \<noteq> LOCK_BITS_ALL_UNLOCKED
     then io_then (jtag1_jtagWrite (LOCK_SPACE_ADDR_OFFSET + 0) 1 [LOCK_BITS_ALL_UNLOCKED]) (io_ret ())
     else io_ret ()))"

definition jtag1_enable_ocd_fuse :: "('z jtag_scheme, unit) io" where
  "jtag1_enable_ocd_fuse =
     io_bind (jtag1_jtagRead (FUSE_SPACE_ADDR_OFFSET + 0) 3) (\<lambda>fuseBits.
     io_bind (io_defined (Option.bind fuseBits (\<lambda>b. load_many b 0 3))) (\<lambda>f.
     if f ! 1 AND FUSE_OCDEN = FUSE_OCDEN
     then io_then (jtag1_jtagWrite (FUSE_SPACE_ADDR_OFFSET + 1) 1 [f ! 1 AND NOT FUSE_OCDEN]) (io_ret ())
     else io_ret ()))"

definition jtag1_initJtagOnChipDebugging :: "u64 \<Rightarrow> ('z jtag_scheme, unit) io" where
  "jtag1_initJtagOnChipDebugging bitrate =
     io_then (jtag1_setJtagParameter JTAG_P_CLOCK (jtag1_clock bitrate))
    (io_then jtag1_enableProgramming
    (io_then jtag1_unlock_bits
    (io_then jtag1_enable_ocd_fuse
    (io_then jtag1_disableProgramming
    (io_then (jtag1_resetProgram False)
    (io_then (jtag1_setJtagParameter JTAG_P_TIMERS_RUNNING 0x00)
    (io_then (jtag1_resetProgram True) (io_ret ()))))))))"

section \<open>Invariants\<close>

lemma line_preserves_run [preserve]:
  assumes "line_closed I"
  shows "preserves I jtag1_getProgramCounter" "preserves I (jtag1_setProgramCounter pc)"
    "preserves I (jtag1_resetProgram b)" "preserves I jtag1_interruptProgram"
    "preserves I jtag1_resumeProgram" "preserves I (jtag1_jtagSingleStep h)"
    "preserves I (jtag1_pollDevice g p)" "preserves I jtag1_jtagContinue"
  unfolding jtag1_getProgramCounter_def jtag1_setProgramCounter_def jtag1_resetProgram_def
    jtag1_interruptProgram_def jtag1_resumeProgram_def jtag1_jtagSingleStep_def
    jtag1_pollDevice_def jtag1_jtagContinue_def
  by (intro preserve assms)+

lemma line_preserves_device [preserve]:
  assumes "line_closed I"
  shows "preserves I jtag1_configDaisyChain" "preserves I reported_device_id1"
    "preserves I (select_device1 n i)" "preserves I (jtag1_setDeviceDescriptor d)"
  unfolding jtag1_configDaisyChain_def reported_device_id1_def select_device1_def jtag1_setDeviceDescriptor_def
  by (intro preserve assms)+

section \<open>The program counter\<close>

lemma decode_encode:
  assumes "x < 2 ^ 24"
  shows "decodeAddress (encodeAddress x @ r) = Some x"
proof -
  have "take_bit 24 x = x"
    using assms by (simp add: word_less_nat_alt word_unat_eq_iff unsigned_take_bit_eq take_bit_nat_eq_self)
  then have lt: "bit x n \<Longrightarrow> n < 24" for n
    by (metis bit_take_bit_iff)
  have "push_bit 16 (ucast (ucast (drop_bit 16 x) :: u8)) OR push_bit 8 (ucast (ucast (drop_bit 8 x) :: u8)) OR
      ucast (ucast x :: u8) = x"
  proof (rule bit_eqI)
    fix n
    show "bit (push_bit 16 (ucast (ucast (drop_bit 16 x) :: u8)) OR push_bit 8 (ucast (ucast (drop_bit 8 x) :: u8)) OR
      (ucast (ucast x :: u8) :: u64)) n = bit x n"
      using lt [of n] by (cases "n < 8"; cases "n < 16") (auto simp: bit_simps)
  qed
  then show ?thesis
    by (simp add: decodeAddress_def encodeAddress_def)
qed

lemma setProgramCounter1_answer:
  assumes "ready1 s" "avail (rx s) = JTAG_R_OK # JTAG_R_OK # rest"
  shows "\<exists>t. jtag1_setProgramCounter pc s = Some (Inr True, t) \<and>
     answers s (0x33 # encodeAddress (pc div 2 + 1) @ JTAG_EOM) rest t"
  using doJtagCommand1_answer [OF assms(1), of "[JTAG_R_OK]" rest 1 "0x33 # encodeAddress (pc div 2 + 1) @ JTAG_EOM"] assms(2)
  by (auto simp: jtag1_setProgramCounter_def io_simps cell_def)

lemma getProgramCounter1_answer:
  assumes "ready1 s" "x < 2 ^ 24" "avail (rx s) = JTAG_R_OK # encodeAddress x @ JTAG_R_OK # rest"
  shows "\<exists>t. jtag1_getProgramCounter s = Some (Inr ((x - 1) * 2), t) \<and> answers s (0x32 # JTAG_EOM) rest t"
proof -
  have "4 = length (encodeAddress x @ [JTAG_R_OK])"
    by (simp add: encodeAddress_def)
  with assms(3) obtain t where t: "jtag1_doJtagCommand (0x32 # JTAG_EOM) 4 s = Some (Inr (encodeAddress x @ [JTAG_R_OK, 0]), t)"
      "answers s (0x32 # JTAG_EOM) rest t"
    using doJtagCommand1_answer [OF assms(1), of "encodeAddress x @ [JTAG_R_OK]" rest 4 "0x32 # JTAG_EOM"] by auto
  have "cell (encodeAddress x @ [JTAG_R_OK, 0]) 3 = Some JTAG_R_OK"
    by (simp add: encodeAddress_def cell_def)
  then show ?thesis
    using t decode_encode [OF assms(2), of "[JTAG_R_OK, 0]"] by (simp add: jtag1_getProgramCounter_def io_simps)
qed

section \<open>The device\<close>

lemma line_closed_name: "line_closed (\<lambda>s. device_name s = n)"
  and line_closed_pdef: "line_closed (\<lambda>s. p_device_def s = d)"
  by (simp_all add: line_closed_def)

lemma select_device1_result:
  "select_device1 name i s = Some (Inr d, t) \<Longrightarrow> t = s \<and> d \<in> set deviceDefinitions \<and>
     device_flags d \<noteq> DEVFL_MKII_ONLY \<and> (case name of None \<Rightarrow> device_id d = i | Some n \<Rightarrow> device_named n d)"
  by (auto simp: select_device1_def check_def io_throw_def io_ret_def io_then_def io_bind_def
      split: option.splits if_splits dest!: find_device_result)

lemma getJtagParameter1_answer:
  assumes "ready1 s" "avail (rx s) = JTAG_R_OK # v # JTAG_R_OK # rest"
  shows "\<exists>t. jtag1_getJtagParameter item s = Some (Inr v, t) \<and> answers s ([0x71, item] @ JTAG_EOM) rest t"
  using doJtagCommand1_answer [OF assms(1), of "[v, JTAG_R_OK]" rest 2 "[0x71, item] @ JTAG_EOM"] assms(2)
  by (auto simp: jtag1_getJtagParameter_def io_simps load_many_def)

lemma interruptProgram1_answer:
  assumes "ready1 s" "avail (rx s) = [JTAG_R_OK, a, b, c, JTAG_R_OK] @ rest"
  shows "\<exists>t. jtag1_interruptProgram s = Some (Inr True, t) \<and> answers s (0x46 # JTAG_EOM) rest t"
  using doJtagCommand1_answer [OF assms(1), of "[a, b, c, JTAG_R_OK]" rest 4 "0x46 # JTAG_EOM"] assms(2)
  by (auto simp: jtag1_interruptProgram_def jtag1_doSimpleJtagCommand_def io_simps cell_def)

lemma setDeviceDescriptor1_answer:
  assumes "ready1 s" "avail (rx s) = JTAG_R_OK # JTAG_R_OK # rest"
  shows "\<exists>t. jtag1_setDeviceDescriptor d s = Some (Inr (), t) \<and> answers s (desc1_bytes (dev_desc1 d)) rest t"
  using doJtagCommand1_answer [OF assms(1), of "[JTAG_R_OK]" rest 1 "desc1_bytes (dev_desc1 d)"] assms(2)
  by (auto simp: jtag1_setDeviceDescriptor_def io_simps cell_def)

text \<open>The messages of the box while it is asked for its id.\<close>

definition id_answers :: "u8 \<Rightarrow> u8 \<Rightarrow> u8 \<Rightarrow> u8 \<Rightarrow> u8 list" where
  "id_answers b0 b1 b2 b3 =
     [JTAG_R_OK, b0, JTAG_R_OK] @ [JTAG_R_OK, 0, 0, 0, JTAG_R_OK] @ [JTAG_R_OK, b1, JTAG_R_OK] @
     [JTAG_R_OK, b2, JTAG_R_OK] @ [JTAG_R_OK, b3, JTAG_R_OK]"

lemma reported_device_id1_answer:
  assumes "ready1 s" "avail (rx s) = id_answers b0 b1 b2 b3 @ rest"
  shows "\<exists>t out. reported_device_id1 s = Some (Inr (drop_bit 12 ((ucast b0 + (push_bit 8 (ucast b1) + push_bit 16 (ucast b2) +
       push_bit 24 (ucast b3))) AND 0x0FFFF000)), t) \<and> answers s out rest t"
proof -
  obtain t0 where t0: "jtag1_getJtagParameter JTAG_P_JTAGID_BYTE0 s = Some (Inr b0, t0)"
      "answers s ([0x71, JTAG_P_JTAGID_BYTE0] @ JTAG_EOM)
        ([JTAG_R_OK, 0, 0, 0, JTAG_R_OK, JTAG_R_OK, b1, JTAG_R_OK, JTAG_R_OK, b2, JTAG_R_OK, JTAG_R_OK, b3, JTAG_R_OK] @ rest) t0"
    using getJtagParameter1_answer [OF assms(1)] assms(2) by (fastforce simp: id_answers_def)
  obtain t1 where t1: "jtag1_interruptProgram t0 = Some (Inr True, t1)" "answers t0 (0x46 # JTAG_EOM)
        ([JTAG_R_OK, b1, JTAG_R_OK, JTAG_R_OK, b2, JTAG_R_OK, JTAG_R_OK, b3, JTAG_R_OK] @ rest) t1"
    using interruptProgram1_answer [of t0] answers_simps [OF t0(2)] assms(1) by fastforce
  obtain t2 where t2: "jtag1_getJtagParameter JTAG_P_JTAGID_BYTE1 t1 = Some (Inr b1, t2)"
      "answers t1 ([0x71, JTAG_P_JTAGID_BYTE1] @ JTAG_EOM) ([JTAG_R_OK, b2, JTAG_R_OK, JTAG_R_OK, b3, JTAG_R_OK] @ rest) t2"
    using getJtagParameter1_answer [of t1] answers_simps [OF t1(2)] answers_simps(3) [OF t0(2)] assms(1) by fastforce
  have r2: "ready1 t2"
    using answers_simps(3) [OF t2(2)] answers_simps(3) [OF t1(2)] answers_simps(3) [OF t0(2)] assms(1) by simp
  obtain t3 where t3: "jtag1_getJtagParameter JTAG_P_JTAGID_BYTE2 t2 = Some (Inr b2, t3)"
      "answers t2 ([0x71, JTAG_P_JTAGID_BYTE2] @ JTAG_EOM) ([JTAG_R_OK, b3, JTAG_R_OK] @ rest) t3"
    using getJtagParameter1_answer [OF r2] answers_simps [OF t2(2)] by fastforce
  obtain t4 where t4: "jtag1_getJtagParameter JTAG_P_JTAGID_BYTE3 t3 = Some (Inr b3, t4)"
      "answers t3 ([0x71, JTAG_P_JTAGID_BYTE3] @ JTAG_EOM) rest t4"
    using getJtagParameter1_answer [of t3] answers_simps [OF t3(2)] r2 by fastforce
  show ?thesis
    using t0(1) t1(1) t2(1) t3(1) t4(1)
      answers_trans [OF answers_trans [OF answers_trans [OF answers_trans [OF t0(2) t1(2)] t2(2)] t3(2)] t4(2)]
    by (auto simp: reported_device_id1_def io_simps)
qed

section \<open>Properties\<close>

text \<open>A program counter that was written with the mkI driver and is reported back by the box is read
  as what was written, its lowest bit cleared: the box counts in words and one ahead.\<close>

lemma jtag1_program_counter_roundtrip:
  assumes "wq s = []" "flq s = []" "tty_ok s" "pc < 2 ^ 24"
    and "avail (rx s) = [JTAG_R_OK, JTAG_R_OK] @ JTAG_R_OK # encodeAddress (pc div 2 + 1) @ JTAG_R_OK # rest"
  shows "\<exists>t u. jtag1_setProgramCounter pc s = Some (Inr True, t) \<and>
     jtag1_getProgramCounter t = Some (Inr (pc AND NOT 1), u) \<and> avail (rx u) = rest \<and>
     tx u = tx s @ (0x33 # encodeAddress (pc div 2 + 1) @ JTAG_EOM) @ (0x32 # JTAG_EOM)"
proof -
  have r: "ready1 s" using assms(1-3) by (simp add: ready1_def)
  obtain t where t: "jtag1_setProgramCounter pc s = Some (Inr True, t)"
      "answers s (0x33 # encodeAddress (pc div 2 + 1) @ JTAG_EOM) (JTAG_R_OK # encodeAddress (pc div 2 + 1) @ JTAG_R_OK # rest) t"
    using setProgramCounter1_answer [OF r] assms(5) by auto
  have "unat (pc div 2 + 1) = unat pc div 2 + 1" "unat pc < 2 ^ 24"
    using assms(4) by (simp_all add: unat_word_ariths unat_div word_less_nat_alt)
  then have "pc div 2 + 1 < 2 ^ 24"
    by (simp add: word_less_nat_alt)
  moreover have "(pc div 2 + 1 - 1) * 2 = pc AND NOT 1"
    by (simp add: halve_double)
  ultimately obtain u where u: "jtag1_getProgramCounter t = Some (Inr (pc AND NOT 1), u)" "answers t (0x32 # JTAG_EOM) rest u"
    using getProgramCounter1_answer [of t "pc div 2 + 1" rest] answers_simps [OF t(2)] r by auto
  show ?thesis
    using t(1) u(1) answers_simps [OF u(2)] answers_simps [OF t(2)] by simp
qed

text \<open>C24: the mkI driver never configures a device that only the mkII supports: whatever the box answers,
  when the configuration returns, the chosen device is one of the table that the mkI supports, the one the user
  named if there was a name, and its descriptor was the last message to the box.\<close>

theorem jtag1_deviceAutoConfig_supported:
  assumes "jtag1_deviceAutoConfig s = Some (Inr (), t)"
  shows "\<exists>d. p_device_def t = Some d \<and> d \<in> set deviceDefinitions \<and> device_flags d \<noteq> DEVFL_MKII_ONLY \<and>
     device_name t = dev_name d \<and> (\<forall>n. device_name s = Some n \<longrightarrow> device_named n d) \<and>
     (\<exists>sent. tx t = sent @ desc1_bytes (dev_desc1 d))"
proof -
  obtain a u i v d where steps: "jtag1_configDaisyChain s = Some (Inr a, u)" "reported_device_id1 u = Some (Inr i, v)"
      "select_device1 (device_name v) i v = Some (Inr d, v)"
      "jtag1_setDeviceDescriptor d (v\<lparr>device_name := dev_name d, p_device_def := Some d\<rparr>) = Some (Inr (), t)"
    using assms unfolding jtag1_deviceAutoConfig_def
    by (auto simp: io_get_def io_put_def elim!: io_then_InrE io_bind_InrE) (metis select_device1_result)
  have "device_name v = device_name s"
    using preservesD [OF line_preserves_device(1) [OF line_closed_name] steps(1), of "device_name s"]
      preservesD [OF line_preserves_device(2) [OF line_closed_name] steps(2), of "device_name s"] by simp
  moreover have "p_device_def t = Some d" "device_name t = dev_name d"
    using preservesD [OF line_preserves_device(4) [OF line_closed_pdef] steps(4), of "Some d"]
      preservesD [OF line_preserves_device(4) [OF line_closed_name] steps(4), of "dev_name d"] by simp_all
  moreover obtain resp c w where "jtag1_doJtagCommand (desc1_bytes (dev_desc1 d)) 1
      (v\<lparr>device_name := dev_name d, p_device_def := Some d\<rparr>) = Some (Inr resp, w)" "t = w"
    using steps(4) unfolding jtag1_setDeviceDescriptor_def
    by (auto simp: check_def io_defined_def io_throw_def io_ret_def elim!: io_bind_InrE split: if_splits option.splits)
  then have "\<exists>sent. tx t = sent @ desc1_bytes (dev_desc1 d)"
    using do_loop_writes [of "desc1_bytes (dev_desc1 d)" 1 0] by (fastforce simp: jtag1_doJtagCommand_def)
  ultimately show ?thesis
    using select_device1_result [OF steps(3)] by (intro exI [of _ d]) (auto split: option.splits)
qed

section \<open>Examples\<close>

lemma jtag1_program_counter_roundtrip_witness:
  "\<exists>t u. jtag1_setProgramCounter 0x101 (mk1_box [Chunk [JTAG_R_OK, JTAG_R_OK, JTAG_R_OK, 0, 0, 0x81, JTAG_R_OK]]) = Some (Inr True, t) \<and>
     jtag1_getProgramCounter t = Some (Inr 0x100, u)"
  using jtag1_program_counter_roundtrip [of "mk1_box [Chunk [JTAG_R_OK, JTAG_R_OK, JTAG_R_OK, 0, 0, 0x81, JTAG_R_OK]]" "0x101" "[]"]
  by (auto simp: encodeAddress_def)

lemma jtag1_deviceAutoConfig_supported_witness:
  "\<exists>t. jtag1_deviceAutoConfig (mk1_box [Chunk (id_answers 0x3f 0x30 0x40 0x09), Chunk [JTAG_R_OK, JTAG_R_OK]]) =
     Some (Inr (), t) \<and> device_name t = Some ''atmega16'' \<and>
     (\<exists>d. p_device_def t = Some d \<and> device_flags d \<noteq> DEVFL_MKII_ONLY \<and> device_name t = dev_name d)"
proof -
  let ?s = "mk1_box [Chunk (id_answers 0x3f 0x30 0x40 0x09), Chunk [JTAG_R_OK, JTAG_R_OK]]"
  have chain: "jtag1_configDaisyChain ?s = Some (Inr (), ?s)" and name: "device_name ?s = None"
    by (simp_all add: jtag1_configDaisyChain_def io_simps mk1_box_def jtag1_new_def jtag.extend_def jtag1.fields_def)
  have "id_answers 0x3f 0x30 0x40 0x09 \<noteq> []"
    by (simp add: id_answers_def)
  then obtain u out where u: "reported_device_id1 ?s = Some (Inr 0x9403, u)" "answers ?s out [JTAG_R_OK, JTAG_R_OK] u"
    using reported_device_id1_answer [of ?s "0x3f" "0x30" "0x40" "0x09" "[JTAG_R_OK, JTAG_R_OK]"] mk1_box_ready
    by (auto simp: push_bit_eq_mult drop_bit_eq_div)
  have un: "device_name u = None"
    using u(2) name by (auto simp: answers_def)
  have find: "find_device (\<lambda>d. device_id d = 0x9403) deviceDefinitions = Some dev_atmega16"
    by (simp add: deviceDefinitions_def device_entry_defs)
  define v where "v = u\<lparr>device_name := dev_name dev_atmega16, p_device_def := Some dev_atmega16\<rparr>"
  have "ready1 v" "avail (rx v) = [JTAG_R_OK, JTAG_R_OK]"
    using answers_simps [OF u(2)] mk1_box_ready [of "[Chunk (id_answers 0x3f 0x30 0x40 0x09), Chunk [JTAG_R_OK, JTAG_R_OK]]"]
    by (simp_all add: v_def ready1_def)
  then obtain t where t: "jtag1_setDeviceDescriptor dev_atmega16 v = Some (Inr (), t)"
      "answers v (desc1_bytes (dev_desc1 dev_atmega16)) [] t"
    using setDeviceDescriptor1_answer by blast
  have sel: "select_device1 None 0x9403 u = Some (Inr dev_atmega16, u)"
    using find by (simp add: select_device1_def io_simps dev_atmega16_def)
  have run: "jtag1_deviceAutoConfig ?s = Some (Inr (), t)"
    using chain u(1) un sel t(1) by (simp add: jtag1_deviceAutoConfig_def io_simps v_def)
  have "device_name t = dev_name dev_atmega16"
    using t(2) by (auto simp: answers_def v_def)
  then show ?thesis
    using run jtag1_deviceAutoConfig_supported [OF run] by (auto simp: dev_atmega16_def)
qed

end
