(* ===== verification/Debug_Target.thy ===== *)
theory Debug_Target
  imports Mk2_Init Mk1_Target
begin

text \<open>
  The interface that the rest of the program has to an emulator: the virtual methods of
  \<open>class jtag\<close> (\<^verbatim>\<open>src/src/jtag.h\<close>) through the global pointer \<open>theJtagICE\<close>. A table of methods is
  a record; \<open>mk1_ops\<close> and \<open>mk2_ops\<close> are those of the two drivers. The contract that the users of
  the interface rely on is the locale \<open>debug_target\<close>, which both drivers satisfy.
\<close>

section \<open>The methods\<close>

record 'j target_ops =
  op_getProgramCounter :: "('j, u64) io"
  op_setProgramCounter :: "u64 \<Rightarrow> ('j, bool) io"
  op_resetProgram :: "bool \<Rightarrow> ('j, bool) io"
  op_interruptProgram :: "('j, bool) io"
  op_resumeProgram :: "('j, bool) io"
  op_jtagSingleStep :: "bool \<Rightarrow> ('j, bool) io"
  op_jtagContinue :: "('j, bool) io"
  op_jtagRead :: "u64 \<Rightarrow> u32 \<Rightarrow> ('j, u8 list option) io"
  op_jtagWrite :: "u64 \<Rightarrow> u32 \<Rightarrow> u8 list \<Rightarrow> ('j, bool) io"
  op_addBreakpoint :: "u32 \<Rightarrow> bpType \<Rightarrow> u32 \<Rightarrow> ('j, bool) io"
  op_deleteBreakpoint :: "u32 \<Rightarrow> bpType \<Rightarrow> u32 \<Rightarrow> ('j, bool) io"
  op_codeBreakpointAt :: "u32 \<Rightarrow> ('j, bool) io"
  op_enableProgramming :: "('j, unit) io"
  op_disableProgramming :: "('j, unit) io"
  op_close :: "('j, unit) io"
  op_device :: "'j \<Rightarrow> jtag_device_def option"

text \<open>A read of the mkII driver never returns a null pointer. The buffer that a write of the mkI driver
  may swap is not looked at again by any caller. The destructor of the mkI driver only restores the
  terminal. \<open>op_device\<close> is the global \<open>global_p_device_def\<close>.\<close>

definition mk2_ops :: "'z jtag2_scheme target_ops" where
  "mk2_ops = \<lparr>op_getProgramCounter = getProgramCounter, op_setProgramCounter = setProgramCounter,
     op_resetProgram = resetProgram, op_interruptProgram = interruptProgram, op_resumeProgram = resumeProgram,
     op_jtagSingleStep = jtagSingleStep, op_jtagContinue = jtagContinue,
     op_jtagRead = (\<lambda>addr n. io_bind (jtagRead addr n) (\<lambda>response. io_ret (Some response))),
     op_jtagWrite = jtagWrite,
     op_addBreakpoint = jtag2_addBreakpoint, op_deleteBreakpoint = jtag2_deleteBreakpoint,
     op_codeBreakpointAt = jtag2_codeBreakpointAt,
     op_enableProgramming = enableProgramming, op_disableProgramming = disableProgramming,
     op_close = jtag2_close, op_device = p_device_def\<rparr>"

definition mk1_ops :: "'z jtag1_scheme target_ops" where
  "mk1_ops = \<lparr>op_getProgramCounter = jtag1_getProgramCounter, op_setProgramCounter = jtag1_setProgramCounter,
     op_resetProgram = jtag1_resetProgram, op_interruptProgram = jtag1_interruptProgram,
     op_resumeProgram = jtag1_resumeProgram,
     op_jtagSingleStep = jtag1_jtagSingleStep, op_jtagContinue = jtag1_jtagContinue,
     op_jtagRead = jtag1_jtagRead,
     op_jtagWrite = (\<lambda>addr n buf. io_bind (jtag1_jtagWrite addr n buf) (\<lambda>(ok, _). io_ret ok)),
     op_addBreakpoint = jtag1_addBreakpoint, op_deleteBreakpoint = jtag1_deleteBreakpoint,
     op_codeBreakpointAt = jtag1_codeBreakpointAt,
     op_enableProgramming = jtag1_enableProgramming, op_disableProgramming = jtag1_disableProgramming,
     op_close = io_ret (), op_device = p_device_def\<rparr>"

section \<open>The contract\<close>

text \<open>Every method keeps the invariant of the driver, on normal and on exceptional return, whatever the
  emulator answers.\<close>

locale debug_target =
  fixes ops :: "'j target_ops" and inv :: "'j \<Rightarrow> bool"
  assumes inv_getProgramCounter: "preserves inv (op_getProgramCounter ops)"
    and inv_setProgramCounter: "preserves inv (op_setProgramCounter ops pc)"
    and inv_resetProgram: "preserves inv (op_resetProgram ops b)"
    and inv_interruptProgram: "preserves inv (op_interruptProgram ops)"
    and inv_resumeProgram: "preserves inv (op_resumeProgram ops)"
    and inv_jtagSingleStep: "preserves inv (op_jtagSingleStep ops h)"
    and inv_jtagContinue: "preserves inv (op_jtagContinue ops)"
    and inv_jtagRead: "preserves inv (op_jtagRead ops addr n)"
    and inv_jtagWrite: "preserves inv (op_jtagWrite ops addr n buf)"
    and inv_addBreakpoint: "preserves inv (op_addBreakpoint ops a type len)"
    and inv_deleteBreakpoint: "preserves inv (op_deleteBreakpoint ops a type len)"
    and inv_codeBreakpointAt: "preserves inv (op_codeBreakpointAt ops a)"
    and inv_enableProgramming: "preserves inv (op_enableProgramming ops)"
    and inv_disableProgramming: "preserves inv (op_disableProgramming ops)"
    and inv_close: "preserves inv (op_close ops)"
begin

lemmas inv_ops = inv_getProgramCounter inv_setProgramCounter inv_resetProgram inv_interruptProgram
  inv_resumeProgram inv_jtagSingleStep inv_jtagContinue inv_jtagRead inv_jtagWrite inv_addBreakpoint
  inv_deleteBreakpoint inv_codeBreakpointAt inv_enableProgramming inv_disableProgramming inv_close

end

section \<open>The mkII driver\<close>

definition mk2_ok :: "'z jtag2_scheme \<Rightarrow> bool" where
  "mk2_ok s \<longleftrightarrow> jtag2_inv s \<and> table_ok (bps s) \<and> p_device_def s \<noteq> None"

lemma mk2_ok_comm: "comm_closed mk2_ok"
  using comm_closed_inv by (auto simp: comm_closed_def mk2_ok_def)

lemma mk2_ok_fill: "fill_closed mk2_ok"
  unfolding fill_closed_def
proof (intro allI impI)
  fix s :: "'a jtag2_scheme" and c a and d :: "u8 list"
  assume "mk2_ok s" "length d = length (cache_data c s)"
  moreover from this have "jtag2_inv (cache_fill c d a s)"
    using fill_closed_inv unfolding fill_closed_def mk2_ok_def by blast
  ultimately show "mk2_ok (cache_fill c d a s)"
    by (cases c) (simp_all add: mk2_ok_def)
qed

text \<open>A method that works on the table of breakpoints keeps it well-formed.\<close>

lemma mk2_ok_table:
  assumes "\<And>flags dw tbl. table_ok tbl \<Longrightarrow> returns (\<lambda>(r, new). table_ok new) (f (Some flags) dw tbl)"
  shows "preserves mk2_ok (on_table f)"
proof
  fix s r s'
  assume ok: "mk2_ok s" and run: "on_table f s = Some (r, s')"
  obtain d where "p_device_def s = Some d"
    using ok by (auto simp: mk2_ok_def)
  then obtain x tbl where x: "f (map_option device_flags (p_device_def s)) (useDebugWire s) (bps s) = Some (x, tbl)" "table_ok tbl"
    using assms [of "bps s" "device_flags d" "useDebugWire s"] ok by (auto simp: mk2_ok_def returns_def)
  then have "s' = s\<lparr>bps := tbl\<rparr>"
    using run by (simp add: on_table_def)
  then show "mk2_ok s'"
    using ok x(2) by (simp add: mk2_ok_def jtag2_inv_def arrays_ok_def seq_ok_def table_ok_def)
qed

lemma mk2_ok_bp_update:
  assumes "mk2_ok s" "bp_update i f s = Some (r, s')" "entry_ok i (bps s ! i) \<Longrightarrow> entry_ok i (f (bps s ! i))"
  shows "mk2_ok s'"
proof -
  note ok = assms(1) and run = assms(2)
  have "s' = s \<or> (\<exists>b. i < length (bps s) \<and> s' = s\<lparr>bps := (bps s)[i := f (bps s ! i)]\<rparr>)"
    using run by (auto simp: bp_update_def on_table_def bp_set_def cell_def store_def split: option.splits if_splits)
  then show ?thesis
    using ok table_ok_update [of "bps s" i "f (bps s ! i)"] assms(3)
    by (auto simp: mk2_ok_def jtag2_inv_def arrays_ok_def seq_ok_def)
qed

lemma mk2_ok_update: "(\<And>b. entry_ok i b \<Longrightarrow> entry_ok i (f b)) \<Longrightarrow> preserves mk2_ok (bp_update i f)"
  unfolding preserves_def using mk2_ok_bp_update by blast

lemma mk2_ok_clear: "preserves mk2_ok (clear_breaks is)"
  by (induction "is")
    (auto intro!: preserve mk2_ok_comm mk2_ok_update simp: entry_ok_def simp del: check_simps)

text \<open>The last entry is never marked as being in the box: the loop stops at it.\<close>

lemma mk2_ok_set_one:
  assumes "mk2_ok s" "cell (bps s) i = Some b" "\<not> last_bp b"
    and "io_bind (doJtagCommand cmd True) (\<lambda>(ok, response, responseSize).
       io_then (check ok msg) (bp_update i (\<lambda>b. b\<lparr>icestatus := True, toadd := False\<rparr>))) s = Some (r, t)"
  shows "mk2_ok t"
proof -
  have "comm_closed (\<lambda>s. mk2_ok s \<and> cell (bps s) i = Some b)"
    using mk2_ok_comm by (auto simp: comm_closed_def)
  note keep = preservesD [OF comm_preserves_doJtagCommand [OF this] _ conjI [OF assms(1,2)]]
  from assms(4) show ?thesis
  proof (cases rule: io_bind_SomeE)
    case (err e)
    then show ?thesis using keep by blast
  next
    case (ok x u)
    then have u: "mk2_ok u" "cell (bps u) i = Some b"
      using keep by blast+
    obtain a resp n where x: "x = (a, resp, n)" by (cases x)
    show ?thesis
    proof (cases a)
      case True
      then have "bp_update i (\<lambda>b. b\<lparr>icestatus := True, toadd := False\<rparr>) u = Some (r, t)"
        using ok(2) x by (simp add: io_simps)
      moreover have "bps u ! i = b"
        using u(2) by (simp add: cell_def split: if_splits)
      ultimately show ?thesis
        using assms(3) mk2_ok_bp_update [OF u(1), of i "\<lambda>b. b\<lparr>icestatus := True, toadd := False\<rparr>" r t]
        by (auto simp: entry_ok_def)
    next
      case False
      then show ?thesis
        using ok(2) x u(1) by (simp add: io_simps)
    qed
  qed
qed

lemma mk2_ok_set: "preserves mk2_ok (set_breaks is :: ('z jtag2_scheme, unit) io)"
proof (induction "is")
  case (Cons i "is")
  show ?case
  proof
    fix s s' :: "'z jtag2_scheme" and r
    assume ok: "mk2_ok s" and run: "set_breaks (i # is) s = Some (r, s')"
    show "mk2_ok s'"
    proof (cases "cell (bps s) i")
      case None
      then show ?thesis using ok run by (simp add: io_simps)
    next
      case (Some b)
      let ?one = "if toadd b \<and> enabled b then
            (case set_break_command b of
               None \<Rightarrow> io_throw (Thrown ''Invalid bp mode (for data bp)'')
             | Some cmd \<Rightarrow>
                 io_bind (doJtagCommand cmd True) (\<lambda>(ok, response, responseSize).
                 io_then (check ok ''Failed to set breakpoint'')
                   (bp_update i (\<lambda>b. b\<lparr>icestatus := True, toadd := False\<rparr>))))
          else io_ret ()"
      have one: "?one s = Some (r', u) \<Longrightarrow> \<not> last_bp b \<Longrightarrow> mk2_ok u" for r' u
        using mk2_ok_set_one [OF ok Some] ok by (auto simp: io_simps split: if_splits option.splits)
      show ?thesis
      proof (cases "last_bp b")
        case True
        then show ?thesis using ok run Some by (simp add: io_simps)
      next
        case False
        then have "io_bind ?one (\<lambda>_. set_breaks is) s = Some (r, s')"
          using run Some by (simp add: io_simps io_then_def)
        then show ?thesis
        proof (cases rule: io_bind_SomeE)
          case (err e)
          show ?thesis by (rule one [OF err(1) False])
        next
          case (ok x u)
          show ?thesis by (rule preservesD [OF Cons.IH ok(2) one [OF ok(1) False]])
        qed
      qed
    qed
  qed
qed (simp add: preserve)

lemma mk2_ok_updateBreakpoints: "preserves mk2_ok updateBreakpoints"
  unfolding updateBreakpoints_def
  by (intro preserve mk2_ok_clear mk2_ok_set mk2_ok_table layout_table_ok)

lemma mk2_ok_jtagContinue: "preserves mk2_ok jtagContinue"
  unfolding jtagContinue_def by (intro preserve mk2_ok_updateBreakpoints mk2_ok_comm)

lemma mk2_ok_programming: "mk2_ok s \<Longrightarrow> mk2_ok (s\<lparr>programmingEnabled := b\<rparr>)"
  by (simp add: mk2_ok_def)

lemma mk2_ok_close: "preserves mk2_ok jtag2_close"
  unfolding jtag2_close_def by (intro preserve mk2_ok_comm preserves_put) (simp add: mk2_ok_def)

lemma mk2_ok_at: "preserves mk2_ok (jtag2_codeBreakpointAt a)"
  unfolding jtag2_codeBreakpointAt_def
  by (rule mk2_ok_table) (auto simp: codeBreakpointAt_set returns_def)

interpretation mk2_target: debug_target mk2_ops mk2_ok
  by unfold_locales
    (simp_all add: mk2_ops_def jtag2_addBreakpoint_def jtag2_deleteBreakpoint_def,
     (intro preserve preserves_jtagRead preserves_jtagWrite mk2_ok_comm mk2_ok_fill mk2_ok_programming mk2_ok_jtagContinue
       mk2_ok_close mk2_ok_at mk2_ok_table addBreakpoint_ok deleteBreakpoint_ok
       comm_preserves_enableProgramming comm_preserves_disableProgramming; assumption?)+)

section \<open>The mkI driver\<close>

definition mk1_ok :: "'z jtag1_scheme \<Rightarrow> bool" where
  "mk1_ok s \<longleftrightarrow> bp1_ok (bp1 s)"

lemma mk1_ok_line: "line_closed mk1_ok"
  by (simp add: line_closed_def mk1_ok_def)

lemma mk1_ok_table:
  assumes "\<And>t. bp1_ok t \<Longrightarrow> \<exists>r u. f t = Some (r, u) \<and> bp1_ok u"
  shows "preserves mk1_ok (on_table1 f)"
  using assms by (fastforce simp: preserves_def on_table1_def mk1_ok_def split: option.splits)

lemma mk1_ok_breakpoints:
  "preserves mk1_ok (jtag1_addBreakpoint a type len)" "preserves mk1_ok (jtag1_deleteBreakpoint a type len)"
  "preserves mk1_ok (jtag1_codeBreakpointAt a)"
  unfolding jtag1_addBreakpoint_def jtag1_deleteBreakpoint_def jtag1_codeBreakpointAt_def
  using addBreakpoint1_refines deleteBreakpoint1_refines codeBreakpointAt1_live
  by (intro mk1_ok_table; fastforce)+

interpretation mk1_target: debug_target mk1_ops mk1_ok
  by unfold_locales
    (simp_all add: mk1_ops_def,
     (intro preserve mk1_ok_line mk1_ok_breakpoints line_preserves_enable line_preserves_disable;
       simp add: mk1_ok_def)+)

section \<open>Code breakpoints\<close>

text \<open>The part of the contract about code breakpoints: adding and deleting change exactly what
  \<open>codeBreakpointAt\<close> reports for the addresses of the same location.\<close>

definition reports :: "'j target_ops \<Rightarrow> u32 \<Rightarrow> 'j \<Rightarrow> bool" where
  "reports ops b s \<longleftrightarrow> op_codeBreakpointAt ops b s = Some (Inr True, s)"

locale code_target =
  fixes ops :: "'j target_ops" and cinv :: "'j \<Rightarrow> bool" and key :: "u32 \<Rightarrow> u32"
  assumes code_at: "cinv s \<Longrightarrow> \<exists>r. op_codeBreakpointAt ops b s = Some (Inr r, s)"
    and code_add: "cinv s \<Longrightarrow> \<exists>r t. op_addBreakpoint ops a CODE len s = Some (Inr r, t) \<and> cinv t \<and>
      (\<forall>b. reports ops b t \<longleftrightarrow> r \<and> key b = key a \<or> reports ops b s)"
    and code_del: "cinv s \<Longrightarrow> \<exists>r t. op_deleteBreakpoint ops a CODE len s = Some (Inr r, t) \<and> cinv t \<and>
      (reports ops a s \<longrightarrow> r) \<and> (\<forall>b. reports ops b t \<longrightarrow> reports ops b s) \<and>
      (\<forall>b. key b \<noteq> key a \<longrightarrow> reports ops b t = reports ops b s)"
begin

lemma reports_iff: "cinv s \<Longrightarrow> op_codeBreakpointAt ops b s = Some (Inr r, t) \<longleftrightarrow> t = s \<and> r = reports ops b s"
  using code_at [of s b] by (auto simp: reports_def)

lemma added: "cinv s \<Longrightarrow> op_addBreakpoint ops a CODE len s = Some (Inr True, t) \<Longrightarrow> reports ops a t"
  using code_add [of s a len] by auto

end

definition mk2_code_ok :: "'z jtag2_scheme \<Rightarrow> bool" where
  "mk2_code_ok s \<longleftrightarrow> mk2_ok s \<and> code_table (bps s) \<and> map_option device_flags (p_device_def s) \<noteq> Some DEVFL_NO_SOFTBP"

lemma mk2_reports: "mk2_code_ok s \<Longrightarrow> op_codeBreakpointAt mk2_ops b s = Some (Inr (b \<in> code_set (bps s)), s)"
  using codeBreakpointAt_set [of "bps s" b]
  by (simp add: mk2_code_ok_def mk2_ok_def mk2_ops_def jtag2_codeBreakpointAt_def on_table_def)

lemma mk2_code_ok_step:
  assumes "mk2_code_ok s" "code_table tbl"
  shows "mk2_code_ok (s\<lparr>bps := tbl\<rparr>)"
  using assms code_table_ok(1) [OF assms(2)] code_table_ok(1) [of "bps s"]
  by (auto simp: mk2_code_ok_def mk2_ok_def jtag2_inv_def arrays_ok_def seq_ok_def table_ok_length)

interpretation mk2_code: code_target mk2_ops mk2_code_ok id
proof unfold_locales
  fix s :: "'z jtag2_scheme" and a b len :: u32
  assume s: "mk2_code_ok s"
  obtain d where d: "p_device_def s = Some d" "device_flags d \<noteq> DEVFL_NO_SOFTBP" and tbl: "code_table (bps s)"
    using s by (auto simp: mk2_code_ok_def mk2_ok_def)
  have rep: "reports mk2_ops b t = (b \<in> code_set (bps t))" if "mk2_code_ok t" for b and t :: "'z jtag2_scheme"
    using mk2_reports [OF that, of b] by (simp add: reports_def)
  show "\<exists>r. op_codeBreakpointAt mk2_ops b s = Some (Inr r, s)"
    using mk2_reports [OF s] by blast
  obtain r new where new: "addBreakpoint (Some (device_flags d)) (useDebugWire s) a CODE len (bps s) = Some (r, new)"
      "code_table new" "code_set new = (if r then insert a (code_set (bps s)) else code_set (bps s))"
    using addBreakpoint_code [OF tbl d(2)] by blast
  have "op_addBreakpoint mk2_ops a CODE len s = Some (Inr r, s\<lparr>bps := new\<rparr>)"
    using new(1) d(1) by (simp add: mk2_ops_def jtag2_addBreakpoint_def on_table_def)
  then show "\<exists>r t. op_addBreakpoint mk2_ops a CODE len s = Some (Inr r, t) \<and> mk2_code_ok t \<and>
      (\<forall>b. reports mk2_ops b t \<longleftrightarrow> r \<and> id b = id a \<or> reports mk2_ops b s)"
    using mk2_code_ok_step [OF s new(2)] rep [OF mk2_code_ok_step [OF s new(2)]] rep [OF s] new(3) by auto
  obtain r' new' where new': "deleteBreakpoint (Some (device_flags d)) (useDebugWire s) a CODE len (bps s) = Some (r', new')"
      "code_table new'" "code_set new' = code_set (bps s) - {a}" "\<not> r' \<longrightarrow> a \<notin> code_set (bps s)"
    using deleteBreakpoint_code [OF tbl d(2)] by blast
  have "op_deleteBreakpoint mk2_ops a CODE len s = Some (Inr r', s\<lparr>bps := new'\<rparr>)"
    using new'(1) d(1) by (simp add: mk2_ops_def jtag2_deleteBreakpoint_def on_table_def)
  then show "\<exists>r t. op_deleteBreakpoint mk2_ops a CODE len s = Some (Inr r, t) \<and> mk2_code_ok t \<and>
      (reports mk2_ops a s \<longrightarrow> r) \<and> (\<forall>b. reports mk2_ops b t \<longrightarrow> reports mk2_ops b s) \<and>
      (\<forall>b. id b \<noteq> id a \<longrightarrow> reports mk2_ops b t = reports mk2_ops b s)"
    using mk2_code_ok_step [OF s new'(2)] rep [OF mk2_code_ok_step [OF s new'(2)]] rep [OF s] new'(3,4) by auto
qed

interpretation mk1_code: code_target mk1_ops mk1_ok "\<lambda>a. a div 2"
proof unfold_locales
  fix s :: "'z jtag1_scheme" and a b len :: u32
  assume "mk1_ok s"
  then have inv: "bp1_ok (bp1 s)" by (simp add: mk1_ok_def)
  have ok: "mk1_ok (s\<lparr>bp1 := u\<rparr>) = bp1_ok u" for u
    by (simp add: mk1_ok_def)
  have rep: "reports mk1_ops b t = (codeBreakpointAt1 b (bp1 t) = Some True)" for b and t :: "'z jtag1_scheme"
    by (auto simp: reports_def mk1_ops_def jtag1_codeBreakpointAt_def on_table1_def split: option.splits)
  obtain x where "codeBreakpointAt1 b (bp1 s) = Some x"
    using mk1_bp.at_defined [OF inv] by blast
  then show "\<exists>r. op_codeBreakpointAt mk1_ops b s = Some (Inr r, s)"
    by (simp add: mk1_ops_def jtag1_codeBreakpointAt_def on_table1_def)
  obtain r u where u: "addBreakpoint1 a CODE (bp1 s) = Some (r, u)" "bp1_ok u"
    using mk1_bp.add_defined [OF inv] by blast
  have "op_addBreakpoint mk1_ops a CODE len s = Some (Inr r, s\<lparr>bp1 := u\<rparr>)"
    using u(1) by (simp add: mk1_ops_def jtag1_addBreakpoint_def on_table1_def)
  then show "\<exists>r t. op_addBreakpoint mk1_ops a CODE len s = Some (Inr r, t) \<and> mk1_ok t \<and>
      (\<forall>b. reports mk1_ops b t \<longleftrightarrow> r \<and> b div 2 = a div 2 \<or> reports mk1_ops b s)"
    using u(2) mk1_bp.add_at [OF inv u(1)] by (intro exI [of _ r] exI [of _ "s\<lparr>bp1 := u\<rparr>"]) (simp add: ok rep)
  obtain r' u' where u': "deleteBreakpoint1 a CODE (bp1 s) = Some (r', u')" "bp1_ok u'"
    using mk1_bp.del_defined [OF inv] by blast
  have "op_deleteBreakpoint mk1_ops a CODE len s = Some (Inr r', s\<lparr>bp1 := u'\<rparr>)"
    using u'(1) by (simp add: mk1_ops_def jtag1_deleteBreakpoint_def on_table1_def)
  moreover have "codeBreakpointAt1 a (bp1 s) = Some True \<longrightarrow> r'"
    using mk1_bp.del_refused [OF inv] u'(1) by (cases r') auto
  ultimately show "\<exists>r t. op_deleteBreakpoint mk1_ops a CODE len s = Some (Inr r, t) \<and> mk1_ok t \<and>
      (reports mk1_ops a s \<longrightarrow> r) \<and> (\<forall>b. reports mk1_ops b t \<longrightarrow> reports mk1_ops b s) \<and>
      (\<forall>b. b div 2 \<noteq> a div 2 \<longrightarrow> reports mk1_ops b t = reports mk1_ops b s)"
    using u'(2) mk1_bp.del_sub [OF inv u'(1)] mk1_bp.del_at [OF inv u'(1)]
    by (intro exI [of _ r'] exI [of _ "s\<lparr>bp1 := u'\<rparr>"]) (simp add: ok rep)
qed

end
