(* ===== verification/Gdb_Packet.thy ===== *)
theory Gdb_Packet
  imports Debug_Target
begin

text \<open>
  The lower half of \<^verbatim>\<open>src/src/remote.cc\<close>: single characters to and from GDB, and the packets
  \<open>$data#checksum\<close>. The answers of the operating system for the descriptor of GDB are scripts in
  the state, as for the emulator: a read that finds nothing in the script waits for ever.
\<close>

section \<open>State\<close>

text \<open>What a \<open>read\<close> finds: a character, the end of file, \<open>EAGAIN\<close>, another error, or the \<open>select\<close>
  before it fails. What a \<open>write\<close> of one character does: it is sent, \<open>write\<close> returns 0, it fails
  with \<open>EAGAIN\<close> and \<open>select\<close> returns \<open>n\<close>, or it fails otherwise.\<close>

datatype gdbin = GChar u8 | GEof | GAgain | GReadError | GSelectError

datatype gdbwr = GSent | GZero | GFull int | GWriteError

text \<open>The members of \<open>class GdbRemote\<close>, the \<open>static\<close> variables of its functions, the global
  \<open>ignoreInterrupts\<close>, and the object \<open>theJtagICE\<close> points to.\<close>

record 'j gdb =
  ice :: 'j
  gdb_in :: "gdbin list"
  gdb_wr :: "gdbwr list"
  gdb_out :: "u8 list"
  gdbFileDescriptor :: int
  remcomInBuffer :: "u8 list"
  remcomOutBuffer :: "u8 list"
  reentered :: bool
  last_cmd :: u8
  last_orphan_pending :: bool
  last_orphan :: u8
  ignoreInterrupts :: bool

definition BUFMAX :: nat where "BUFMAX = 400"
definition NUMREGS :: nat where "NUMREGS = 32"
definition SREG :: nat where "SREG = 32"
definition SP :: nat where "SP = 33"
definition PC :: nat where "PC = 34"

definition GDB_CAUSE :: string where
  "GDB_CAUSE = ''gdb communications failure''"

text \<open>A method of the emulator, run on the part of the state that is its own.\<close>

definition on_ice :: "('j, 'a) io \<Rightarrow> ('j gdb, 'a) io" where
  "on_ice m = (\<lambda>g. case m (ice g) of None \<Rightarrow> None | Some (r, j) \<Rightarrow> Some (r, g\<lparr>ice := j\<rparr>))"

definition gdb_check :: "int \<Rightarrow> ('s, unit) io" where
  "gdb_check status = unixCheck status GDB_CAUSE"

text \<open>The characters of a string constant.\<close>

definition chars :: "string \<Rightarrow> u8 list" where
  "chars s = map of_char s"

section \<open>Characters\<close>

fun write_char :: "gdbwr list \<Rightarrow> (err + unit) \<times> gdbwr list" where
  "write_char [] = (Inr (), [])"
| "write_char (GSent # ws) = (Inr (), ws)"
| "write_char (GZero # ws) = (Inl (Thrown GDB_CAUSE), ws)"
| "write_char (GFull numfds # ws) =
     (if numfds < 0 then (Inl (Thrown GDB_CAUSE), ws) else write_char ws)"
| "write_char (GWriteError # ws) = (Inl (Thrown GDB_CAUSE), ws)"

definition putDebugChar :: "u8 \<Rightarrow> ('j gdb, unit) io" where
  "putDebugChar c = (\<lambda>g. case write_char (gdb_wr g) of
       (Inl e, ws) \<Rightarrow> Some (Inl e, g\<lparr>gdb_wr := ws\<rparr>)
     | (Inr _, ws) \<Rightarrow> Some (Inr (), g\<lparr>gdb_wr := ws, gdb_out := gdb_out g @ [c]\<rparr>))"

text \<open>The loop of \<open>getDebugChar\<close>: \<open>Inr None\<close> is the end of file, which stays.\<close>

fun read_char :: "gdbin list \<Rightarrow> ((err + u8 option) \<times> gdbin list) option" where
  "read_char [] = None"
| "read_char (GChar c # es) = Some (Inr (Some c), es)"
| "read_char (GEof # es) = Some (Inr None, GEof # es)"
| "read_char (GAgain # es) = read_char es"
| "read_char (GReadError # es) = Some (Inl (Thrown GDB_CAUSE), es)"
| "read_char (GSelectError # es) = Some (Inl (Thrown GDB_CAUSE), es)"

definition gdb_read :: "('j gdb, u8 option) io" where
  "gdb_read = (\<lambda>g. case read_char (gdb_in g) of
       None \<Rightarrow> None | Some (r, es) \<Rightarrow> Some (r, g\<lparr>gdb_in := es\<rparr>))"

definition getDebugChar :: "'j target_ops \<Rightarrow> ('j gdb, u8) io" where
  "getDebugChar ops =
     io_bind gdb_read (\<lambda>result. case result of
       Some c \<Rightarrow> io_ret c
     | None \<Rightarrow> io_then (on_ice (op_resumeProgram ops))
        (io_then (on_ice (op_close ops)) (io_throw (Exited 0))))"

text \<open>The same without waiting: -1 when nothing is there, and the object is not deleted.\<close>

fun poll_char :: "gdbin list \<Rightarrow> (err + int option) \<times> gdbin list" where
  "poll_char [] = (Inr (Some (-1)), [])"
| "poll_char (GChar c # es) = (Inr (Some (uint c)), es)"
| "poll_char (GEof # es) = (Inr None, GEof # es)"
| "poll_char (GAgain # es) = (Inr (Some (-1)), es)"
| "poll_char (GReadError # es) = (Inl (Thrown GDB_CAUSE), es)"
| "poll_char (GSelectError # es) = poll_char es"

definition checkForDebugChar :: "'j target_ops \<Rightarrow> ('j gdb, int) io" where
  "checkForDebugChar ops = (\<lambda>g. case poll_char (gdb_in g) of
       (Inl e, es) \<Rightarrow> Some (Inl e, g\<lparr>gdb_in := es\<rparr>)
     | (Inr (Some c), es) \<Rightarrow> Some (Inr c, g\<lparr>gdb_in := es\<rparr>)
     | (Inr None, es) \<Rightarrow> io_then (on_ice (op_resumeProgram ops)) (io_throw (Exited 0)) (g\<lparr>gdb_in := es\<rparr>))"

section \<open>Sending packets\<close>

fun put_chars :: "u8 list \<Rightarrow> ('j gdb, unit) io" where
  "put_chars [] = io_ret ()"
| "put_chars (c # cs) = io_then (putDebugChar c) (put_chars cs)"

definition checksum :: "u8 list \<Rightarrow> u8" where
  "checksum data = sum_list data"

definition packet :: "u8 list \<Rightarrow> u8 list" where
  "packet data = 0x24 # data @ [0x23, hexchars ! unat (drop_bit 4 (checksum data)), hexchars ! unat (checksum data mod 16)]"

text \<open>The characters up to the NUL; none before the end of the object has no meaning.\<close>

definition c_string :: "u8 list \<Rightarrow> u8 list option" where
  "c_string p = (if 0 \<in> set p then Some (takeWhile (\<lambda>c. c \<noteq> 0) p) else None)"

lemma read_char_shorter: "read_char es = Some (Inr (Some c), es') \<Longrightarrow> length es' < length es"
  by (induction es rule: read_char.induct) auto

lemma getDebugChar_shorter:
  "getDebugChar ops g = Some (Inr c, g') \<Longrightarrow> length (gdb_in g') < length (gdb_in g)"
  by (auto simp: getDebugChar_def gdb_read_def io_bind_def io_then_def io_throw_def io_ret_def
      split: option.splits sum.splits dest!: read_char_shorter)

lemma putDebugChar_in: "putDebugChar c g = Some (r, g') \<Longrightarrow> gdb_in g' = gdb_in g"
  by (auto simp: putDebugChar_def split: sum.splits prod.splits)

lemma put_chars_in: "put_chars cs g = Some (r, g') \<Longrightarrow> gdb_in g' = gdb_in g"
  by (induction cs arbitrary: g)
    (auto simp: io_ret_def io_then_def dest: putDebugChar_in elim!: io_bind_SomeE)

text \<open>The packet is repeated until GDB acknowledges it.\<close>

function putpacket_loop :: "'j target_ops \<Rightarrow> u8 list \<Rightarrow> ('j gdb, unit) io" where
  "putpacket_loop ops data g =
     io_bind (put_chars (packet data)) (\<lambda>_ t.
       io_bind (getDebugChar ops) (\<lambda>c u.
         if c \<noteq> 0x2b then putpacket_loop ops data u else Some (Inr (), u)) t) g"
  by pat_completeness auto

termination
  by (relation "measure (\<lambda>(ops, data, g). length (gdb_in g))")
    (auto dest!: getDebugChar_shorter put_chars_in)

declare putpacket_loop.simps [simp del]

definition putpacket :: "'j target_ops \<Rightarrow> u8 list \<Rightarrow> ('j gdb, unit) io" where
  "putpacket ops buffer = io_bind (io_defined (c_string buffer)) (putpacket_loop ops)"

text \<open>\<open>vgdbOut\<close> is given the formatted text; \<open>vsnprintf\<close> cuts it to the buffer.\<close>

definition gdbOut :: "'j target_ops \<Rightarrow> u8 list \<Rightarrow> ('j gdb, unit) io" where
  "gdbOut ops txt =
     io_bind (io_get (\<lambda>g. 0 \<le> gdbFileDescriptor g \<and> \<not> reentered g)) (\<lambda>report.
     if report then
       io_then (io_put (\<lambda>g. g\<lparr>reentered := True\<rparr>))
      (io_then (putpacket ops (0x4f # concat (map byteToHex (takeWhile (\<lambda>c. c \<noteq> 0) (take (BUFMAX - 1) txt))) @ [0]))
        (io_put (\<lambda>g. g\<lparr>reentered := False\<rparr>)))
     else io_ret ())"

section \<open>Receiving packets\<close>

text \<open>The inner loop of \<open>getpacket\<close>, from the label \<open>retry\<close> on: the last character, the sum and the
  number of the characters.\<close>

function read_data :: "'j target_ops \<Rightarrow> u8 \<Rightarrow> u8 \<Rightarrow> nat \<Rightarrow> ('j gdb, u8 \<times> u8 \<times> nat) io" where
  "read_data ops ch csum n g =
     (if n < BUFMAX - 1 then
        io_bind (getDebugChar ops) (\<lambda>ch t.
          if ch = 0x24 then read_data ops ch 0 0 t
          else if ch = 0x23 then Some (Inr (ch, csum, n), t)
          else (case store (remcomInBuffer t) n ch of
              None \<Rightarrow> Some (Inl Undef, t)
            | Some buf \<Rightarrow> read_data ops ch (csum + ch) (n + 1) (t\<lparr>remcomInBuffer := buf\<rparr>))) g
      else Some (Inr (ch, csum, n), g))"
  by pat_completeness auto

termination
  by (relation "measure (\<lambda>(ops, ch, csum, n, g). length (gdb_in g))")
    (auto dest!: getDebugChar_shorter)

declare read_data.simps [simp del]

lemma read_data_shorter:
  "read_data ops ch csum n g = Some (Inr x, g') \<Longrightarrow> length (gdb_in g') \<le> length (gdb_in g)"
proof (induction ops ch csum n g rule: read_data.induct)
  case (1 ops ch csum n g)
  show ?case
  proof (cases "n < BUFMAX - 1")
    case False
    then show ?thesis using "1.prems" by (simp add: read_data.simps [of ops ch])
  next
    case True
    with "1.prems" obtain c t where c: "getDebugChar ops g = Some (Inr c, t)"
      and rest: "(if c = 0x24 then read_data ops c 0 0 t
          else if c = 0x23 then Some (Inr (c, csum, n), t)
          else (case store (remcomInBuffer t) n c of
              None \<Rightarrow> Some (Inl Undef, t)
            | Some buf \<Rightarrow> read_data ops c (csum + c) (n + 1) (t\<lparr>remcomInBuffer := buf\<rparr>))) = Some (Inr x, g')"
      by (subst (asm) read_data.simps) (auto elim!: io_bind_InrE)
    note IH = "1.IH" [OF True c]
    show ?thesis
      using rest getDebugChar_shorter [OF c] IH
      by (auto split: if_splits option.splits)
  qed
qed

text \<open>\<open>*ptr++ = value\<close> at the start of a buffer, and setting the whole answer.\<close>

definition set_in :: "nat \<Rightarrow> u8 \<Rightarrow> ('j gdb, unit) io" where
  "set_in i v = (\<lambda>g. case store (remcomInBuffer g) i v of
       None \<Rightarrow> Some (Inl Undef, g) | Some buf \<Rightarrow> Some (Inr (), g\<lparr>remcomInBuffer := buf\<rparr>))"

definition in_cell :: "nat \<Rightarrow> ('j gdb, u8) io" where
  "in_cell i = io_bind (io_get (\<lambda>g. cell (remcomInBuffer g) i)) io_defined"

text \<open>The characters after the \<open>#\<close>: \<open>Some p\<close> is the pointer that \<open>getpacket\<close> returns, \<open>None\<close> another
  round. \<open>mem2hex(&checksum, buf, 4)\<close> reads four bytes from a variable of one.\<close>

definition end_packet :: "'j target_ops \<Rightarrow> u8 \<Rightarrow> ('j gdb, u8 list option) io" where
  "end_packet ops csum =
     io_bind (getDebugChar ops) (\<lambda>c1.
     io_bind (getDebugChar ops) (\<lambda>c2.
     let xmitcsum = word_of_int (hex c1 * 16) + word_of_int (hex c2) in
     if csum \<noteq> xmitcsum then
       io_bind (io_defined (mem2hex [csum] 4)) (\<lambda>buf.
       io_then (gdbOut ops (chars ''Bad checksum: my count = '' @ buf @ chars '', ''))
      (io_bind (io_defined (mem2hex [xmitcsum] 4)) (\<lambda>buf.
       io_then (gdbOut ops (chars ''sent count = '' @ buf @ [0x0a]))
      (io_bind (io_get remcomInBuffer) (\<lambda>buffer.
       io_bind (io_defined (c_string buffer)) (\<lambda>bad.
       io_then (gdbOut ops (chars '' -- Bad buffer: '' @ [0x22] @ bad @ [0x22, 0x0a]))
      (io_then (putDebugChar 0x2d) (io_ret None))))))))
     else
       io_then (putDebugChar 0x2b)
      (io_bind (in_cell 2) (\<lambda>c.
       if c = 0x3a then
         io_bind (in_cell 0) (\<lambda>c0. io_then (putDebugChar c0)
        (io_bind (in_cell 1) (\<lambda>c1. io_then (putDebugChar c1)
        (io_get (\<lambda>g. Some (drop 3 (remcomInBuffer g)))))))
       else io_get (\<lambda>g. Some (remcomInBuffer g))))))"

lemma mem2hex_variable: "mem2hex [c] 4 = None"
  by (simp add: numeral_eq_Suc)

lemma gdb_in_keeps:
  "putDebugChar c g = Some (r, g') \<Longrightarrow> gdb_in g' = gdb_in g"
  "in_cell i g = Some (r', g') \<Longrightarrow> gdb_in g' = gdb_in g"
  "set_in i v g = Some (r'', g') \<Longrightarrow> gdb_in g' = gdb_in g"
  by (auto simp: in_cell_def set_in_def io_simps io_bind_def io_get_def io_defined_def io_ret_def io_throw_def
      split: option.splits sum.splits dest: putDebugChar_in)

lemma set_in_length: "set_in i v g = Some (r, g') \<Longrightarrow> length (gdb_in g') = length (gdb_in g)"
  by (simp add: gdb_in_keeps(3))

lemma end_packet_shorter:
  "end_packet ops csum g = Some (Inr x, g') \<Longrightarrow> length (gdb_in g') < length (gdb_in g)"
  unfolding end_packet_def Let_def mem2hex_variable
  by (auto simp: io_get_def io_ret_def io_defined_def io_throw_def split: if_splits
      elim!: io_bind_InrE io_then_InrE dest!: getDebugChar_shorter gdb_in_keeps)

text \<open>The characters between \<open>$\<close> and \<open>#\<close>, with a NUL behind them.\<close>

definition read_packet :: "'j target_ops \<Rightarrow> u8 \<Rightarrow> ('j gdb, u8 \<times> u8) io" where
  "read_packet ops ch =
     io_bind (read_data ops ch 0 0) (\<lambda>(ch, csum, n). io_then (set_in n 0) (io_ret (ch, csum)))"

lemma read_packet_shorter:
  "read_packet ops ch g = Some (Inr x, g') \<Longrightarrow> length (gdb_in g') \<le> length (gdb_in g)"
  unfolding read_packet_def
  by (auto simp: io_ret_def elim!: io_bind_InrE io_then_InrE dest!: read_data_shorter set_in_length split: prod.splits)

function getpacket :: "'j target_ops \<Rightarrow> ('j gdb, u8 list) io" where
  "getpacket ops g =
     io_bind (getDebugChar ops) (\<lambda>ch t.
       if ch \<noteq> 0x24 then getpacket ops t
       else io_bind (read_packet ops ch) (\<lambda>p u.
           if fst p = 0x23 then
             io_bind (end_packet ops (snd p)) (\<lambda>r v. case r of
               Some p \<Rightarrow> Some (Inr p, v) | None \<Rightarrow> getpacket ops v) u
           else getpacket ops u) t) g"
  by pat_completeness auto

termination
  by (relation "measure (\<lambda>(ops, g). length (gdb_in g))")
    (auto dest!: getDebugChar_shorter read_packet_shorter end_packet_shorter)

declare getpacket.simps [simp del]

section \<open>A clear line\<close>

lemma getDebugChar_char: "gdb_in g = GChar c # es \<Longrightarrow> getDebugChar ops g = Some (Inr c, g\<lparr>gdb_in := es\<rparr>)"
  by (simp add: getDebugChar_def gdb_read_def io_simps)

lemma putDebugChar_clear: "gdb_wr g = [] \<Longrightarrow> putDebugChar c g = Some (Inr (), g\<lparr>gdb_out := gdb_out g @ [c]\<rparr>)"
  by (simp add: putDebugChar_def)

lemma put_chars_clear: "gdb_wr g = [] \<Longrightarrow> put_chars cs g = Some (Inr (), g\<lparr>gdb_out := gdb_out g @ cs\<rparr>)"
  by (induction cs arbitrary: g) (simp_all add: io_simps putDebugChar_clear)

lemma putpacket_acknowledged:
  assumes "gdb_wr g = []" "gdb_in g = GChar 0x2b # es" "c_string buffer = Some data"
  shows "putpacket ops buffer g = Some (Inr (), g\<lparr>gdb_in := es, gdb_out := gdb_out g @ packet data\<rparr>)"
  using assms put_chars_clear [OF assms(1), of "packet data"]
    getDebugChar_char [of "g\<lparr>gdb_out := gdb_out g @ packet data\<rparr>" "0x2b" es ops]
  by (simp add: putpacket_def putpacket_loop.simps [of ops data g] io_simps)

lemma c_string_terminated: "0 \<notin> set data \<Longrightarrow> c_string (data @ 0 # r) = Some data"
  by (induction data) (auto simp: c_string_def)

lemma mod16: "(x :: u8) mod 16 = x AND 0xf"
proof -
  have "x mod 2 ^ 4 = x AND mask 4"
    by (simp only: take_bit_eq_mod [symmetric] take_bit_eq_mask)
  then show ?thesis
    by (simp add: mask_eq_exp_minus_1)
qed

lemma packet_hex: "packet data = 0x24 # data @ 0x23 # byteToHex (checksum data)"
  by (simp add: packet_def byteToHex_def mod16)

lemma checksum_hex:
  assumes "byteToHex x = [c1, c2]"
  shows "word_of_int (hex c1 * 16) + word_of_int (hex c2) = x"
  using hex_byteToHex [of x] u8_nibbles [of x] assms by simp

text \<open>The data of a packet go into the buffer, the rest of which stays.\<close>

lemma read_data_clear:
  assumes "gdb_in g = map GChar (data @ [0x23]) @ es" "set data \<inter> {0x23, 0x24} = {}"
    and "n + length data < BUFMAX - 1" "length (remcomInBuffer g) = BUFMAX"
  shows "read_data ops ch csum n g = Some (Inr (0x23, csum + checksum data, n + length data),
    g\<lparr>gdb_in := es, remcomInBuffer := take n (remcomInBuffer g) @ data @ drop (n + length data) (remcomInBuffer g)\<rparr>)"
  using assms
proof (induction data arbitrary: g ch csum n)
  case Nil
  then have "getDebugChar ops g = Some (Inr 0x23, g\<lparr>gdb_in := es\<rparr>)"
    by (intro getDebugChar_char) simp
  then show ?case
    using Nil by (simp add: read_data.simps [of ops ch csum n g] io_simps checksum_def)
next
  case (Cons c data)
  let ?t = "g\<lparr>gdb_in := map GChar (data @ [0x23]) @ es\<rparr>"
  let ?u = "?t\<lparr>remcomInBuffer := (remcomInBuffer g)[n := c]\<rparr>"
  have c: "c \<noteq> 0x24" "c \<noteq> 0x23" "n < BUFMAX - 1" "n < length (remcomInBuffer g)"
    using Cons.prems by auto
  have "getDebugChar ops g = Some (Inr c, ?t)"
    using Cons.prems(1) by (intro getDebugChar_char) simp
  then have "read_data ops ch csum n g = read_data ops c (csum + c) (n + 1) ?u"
    using c by (simp add: read_data.simps [of ops ch csum n g] io_simps store_def)
  also have "\<dots> = Some (Inr (0x23, csum + c + checksum data, n + 1 + length data),
      ?u\<lparr>gdb_in := es, remcomInBuffer := take (n + 1) (remcomInBuffer ?u) @ data @ drop (n + 1 + length data) (remcomInBuffer ?u)\<rparr>)"
    by (rule Cons.IH) (use Cons.prems in auto)
  also have "take (n + 1) (remcomInBuffer ?u) @ data @ drop (n + 1 + length data) (remcomInBuffer ?u) =
      take n (remcomInBuffer g) @ (c # data) @ drop (n + length (c # data)) (remcomInBuffer g)"
    using c(4) by (simp add: take_Suc_conv_app_nth)
  finally show ?case
    by (simp add: checksum_def add.assoc)
qed

lemma getpacket_noise:
  "0x24 \<notin> set noise \<Longrightarrow> gdb_in g = map GChar noise @ es \<Longrightarrow> getpacket ops g = getpacket ops (g\<lparr>gdb_in := es\<rparr>)"
proof (induction noise arbitrary: g)
  case (Cons c noise)
  then have "getDebugChar ops g = Some (Inr c, g\<lparr>gdb_in := map GChar noise @ es\<rparr>)"
    by (intro getDebugChar_char) simp
  then have "getpacket ops g = getpacket ops (g\<lparr>gdb_in := map GChar noise @ es\<rparr>)"
    using Cons.prems(1) by (simp add: getpacket.simps [of ops g] io_simps)
  then show ?case
    using Cons.IH [of "g\<lparr>gdb_in := map GChar noise @ es\<rparr>"] Cons.prems(1) by simp
next
  case Nil
  then have "g\<lparr>gdb_in := es\<rparr> = g" by auto
  then show ?case by simp
qed

text \<open>A packet that arrives: its data with a NUL behind them are in the buffer when its end is read.\<close>

definition with_packet :: "u8 list \<Rightarrow> u8 list \<Rightarrow> u8 list" where
  "with_packet data buffer = data @ 0 # drop (Suc (length data)) buffer"

lemma read_packet_clear:
  assumes "gdb_in g = map GChar (data @ [0x23]) @ es" "set data \<inter> {0x23, 0x24} = {}"
    and "length data < BUFMAX - 1" "length (remcomInBuffer g) = BUFMAX"
  shows "read_packet ops ch g = Some (Inr (0x23, checksum data),
    g\<lparr>gdb_in := es, remcomInBuffer := with_packet data (remcomInBuffer g)\<rparr>)"
proof -
  let ?buf = "data @ drop (length data) (remcomInBuffer g)"
  have "length data < BUFMAX"
    using assms(3) by simp
  then have "store ?buf (length data) 0 = Some (with_packet data (remcomInBuffer g))"
    using assms(4) by (auto simp: store_def with_packet_def list_update_append drop_update_swap
        Cons_nth_drop_Suc [symmetric])
  then show ?thesis
    using read_data_clear [OF assms(1,2), of 0 ops ch 0] assms(3,4)
    by (simp add: read_packet_def io_simps set_in_def)
qed

lemma getpacket_packet:
  assumes "gdb_in g = map GChar (noise @ 0x24 # data @ [0x23]) @ es" "0x24 \<notin> set noise" "set data \<inter> {0x23, 0x24} = {}"
    and "length data < BUFMAX - 1" "length (remcomInBuffer g) = BUFMAX"
  shows "getpacket ops g = io_bind (end_packet ops (checksum data)) (\<lambda>r v. case r of
      Some p \<Rightarrow> Some (Inr p, v) | None \<Rightarrow> getpacket ops v)
    (g\<lparr>gdb_in := es, remcomInBuffer := with_packet data (remcomInBuffer g)\<rparr>)"
proof -
  let ?t = "g\<lparr>gdb_in := map GChar (0x24 # data @ [0x23]) @ es\<rparr>"
  let ?u = "g\<lparr>gdb_in := map GChar (data @ [0x23]) @ es\<rparr>"
  have "getpacket ops g = getpacket ops ?t"
    by (rule getpacket_noise [OF assms(2)]) (use assms(1) in simp)
  moreover have "getDebugChar ops ?t = Some (Inr 0x24, ?u)"
    by (subst getDebugChar_char [where es = "map GChar (data @ [0x23]) @ es"]) simp_all
  moreover have "read_packet ops 0x24 ?u = Some (Inr (0x23, checksum data),
      ?u\<lparr>gdb_in := es, remcomInBuffer := with_packet data (remcomInBuffer ?u)\<rparr>)"
    by (rule read_packet_clear) (use assms in simp_all)
  ultimately show ?thesis
    by (simp only:) (subst getpacket.simps, simp add: io_simps)
qed

text \<open>The end of a packet whose sum is right.\<close>

lemma end_packet_good:
  assumes "gdb_in g = map GChar (byteToHex csum) @ es" "gdb_wr g = []" "2 < length (remcomInBuffer g)"
  shows "end_packet ops csum g = Some (Inr (Some (if remcomInBuffer g ! 2 = 0x3a then drop 3 (remcomInBuffer g) else remcomInBuffer g)),
    g\<lparr>gdb_in := es, gdb_out := gdb_out g @ 0x2b #
       (if remcomInBuffer g ! 2 = 0x3a then take 2 (remcomInBuffer g) else [])\<rparr>)"
proof -
  obtain c1 c2 where c: "byteToHex csum = [c1, c2]"
    by (simp add: byteToHex_def)
  let ?t = "g\<lparr>gdb_in := GChar c2 # es\<rparr>"
  have chars: "getDebugChar ops g = Some (Inr c1, ?t)" "getDebugChar ops ?t = Some (Inr c2, ?t\<lparr>gdb_in := es\<rparr>)"
    using assms(1) c by (simp_all add: getDebugChar_char)
  obtain b0 b1 b2 rest where buf: "remcomInBuffer g = b0 # b1 # b2 # rest"
    using assms(3) by (auto simp: numeral_2_eq_2 Suc_le_length_iff simp flip: Suc_le_eq)
  show ?thesis
    using chars assms(2) checksum_hex [OF c] buf
    by (simp add: end_packet_def io_simps Let_def in_cell_def putDebugChar_clear cell_def)
qed

lemma end_packet_bad:
  assumes "gdb_in g = GChar c1 # GChar c2 # es" "word_of_int (hex c1 * 16) + word_of_int (hex c2) \<noteq> csum"
  shows "end_packet ops csum g = Some (Inl Undef, g\<lparr>gdb_in := es\<rparr>)"
proof -
  let ?t = "g\<lparr>gdb_in := GChar c2 # es\<rparr>"
  have "getDebugChar ops g = Some (Inr c1, ?t)" "getDebugChar ops ?t = Some (Inr c2, ?t\<lparr>gdb_in := es\<rparr>)"
    using assms(1) by (simp_all add: getDebugChar_char)
  then show ?thesis
    using assms(2) by (auto simp: end_packet_def io_simps Let_def mem2hex_variable)
qed

text \<open>A packet with the right sum.\<close>

lemma getpacket_good:
  assumes "gdb_in g = map GChar (noise @ packet data) @ es" "0x24 \<notin> set noise" "set data \<inter> {0x23, 0x24} = {}"
    and "length data < BUFMAX - 1" "length (remcomInBuffer g) = BUFMAX" "gdb_wr g = []"
  shows "getpacket ops g = (let buf = with_packet data (remcomInBuffer g) in
     Some (Inr (if buf ! 2 = 0x3a then drop 3 buf else buf),
       g\<lparr>gdb_in := es, remcomInBuffer := buf, gdb_out := gdb_out g @ 0x2b # (if buf ! 2 = 0x3a then take 2 buf else [])\<rparr>))"
proof -
  let ?buf = "with_packet data (remcomInBuffer g)"
  let ?v = "g\<lparr>gdb_in := map GChar (byteToHex (checksum data)) @ es, remcomInBuffer := ?buf\<rparr>"
  have "length ?buf = BUFMAX"
    using assms(4,5) by (simp add: with_packet_def)
  then have "end_packet ops (checksum data) ?v = Some (Inr (Some (if ?buf ! 2 = 0x3a then drop 3 ?buf else ?buf)),
      ?v\<lparr>gdb_in := es, gdb_out := gdb_out g @ 0x2b # (if ?buf ! 2 = 0x3a then take 2 ?buf else [])\<rparr>)"
    using end_packet_good [of ?v "checksum data" es ops] assms(6) by (simp add: BUFMAX_def)
  then show ?thesis
    using getpacket_packet [of g noise data "map GChar (byteToHex (checksum data)) @ es" ops] assms
    by (simp add: io_simps packet_hex Let_def)
qed

text \<open>After an empty packet the buffer holds the previous one from its second character on: when its
  third character was a colon, \<open>getpacket\<close> sends two characters of it to GDB and returns what followed
  the colon, and the tail of an old packet is taken as a new command.\<close>

lemma getpacket_stale:
  assumes "gdb_in g = map GChar (packet []) @ es" "length (remcomInBuffer g) = BUFMAX" "gdb_wr g = []" "remcomInBuffer g ! 2 = 0x3a"
  shows "\<exists>g'. getpacket ops g = Some (Inr (drop 3 (remcomInBuffer g)), g') \<and> gdb_in g' = es \<and>
     gdb_out g' = gdb_out g @ [0x2b, 0, remcomInBuffer g ! 1]"
proof -
  obtain b0 b1 b2 r where buf: "remcomInBuffer g = b0 # b1 # b2 # r"
    using assms(2) by (auto simp: BUFMAX_def numeral_eq_Suc length_Suc_conv)
  then show ?thesis
    using getpacket_good [of g "[]" "[]" es ops] assms by (simp add: with_packet_def Let_def BUFMAX_def)
qed

section \<open>Properties\<close>

text \<open>C25: what \<open>putpacket\<close> sends is what \<open>getpacket\<close> at the other end receives, whatever noise without a dollar
  comes before it: the receiver acknowledges the packet, returns its data as a C string and leaves what follows.
  The data is at most 398 characters, without NUL, dollar and hash, and its third character is not a
  colon (such a packet has a sequence number; of shorter data, what the buffer held there).\<close>

theorem packet_roundtrip:
  assumes "set data \<inter> {0, 0x23, 0x24} = {}" "length data < BUFMAX - 1"
    and "putpacket ops (data @ 0 # junk) s = Some (Inr (), s')" "gdb_wr s = []" "gdb_in s = GChar 0x2b # acks"
    and "gdb_in g = map GChar (noise @ drop (length (gdb_out s)) (gdb_out s')) @ rest" "0x24 \<notin> set noise"
    and "gdb_wr g = []" "length (remcomInBuffer g) = BUFMAX"
    and "(data @ 0 # drop (Suc (length data)) (remcomInBuffer g)) ! 2 \<noteq> 0x3a"
  shows "\<exists>p g'. getpacket ops' g = Some (Inr p, g') \<and> c_string p = Some data \<and> gdb_in g' = rest \<and>
     gdb_out g' = gdb_out g @ [0x2b] \<and> ice g' = ice g"
proof -
  have "gdb_out s' = gdb_out s @ packet data"
    using putpacket_acknowledged [OF assms(4,5) c_string_terminated, of data ops junk] assms(1,3) by auto
  then have "gdb_in g = map GChar (noise @ packet data) @ rest"
    using assms(6) by simp
  then show ?thesis
    using getpacket_good [of g noise data rest ops'] assms(1,2,7-10)
    by (auto simp: with_packet_def c_string_terminated Let_def)
qed

text \<open>C26: a packet whose check digits are not its sum is not asked for again: to report it, \<open>getpacket\<close> reads
  three bytes past the variable that holds the sum.\<close>

theorem getpacket_bad_checksum:
  assumes "gdb_in g = map GChar (noise @ 0x24 # data @ [0x23, c1, c2]) @ es" "0x24 \<notin> set noise" "set data \<inter> {0x23, 0x24} = {}"
    and "length data < BUFMAX - 1" "length (remcomInBuffer g) = BUFMAX"
    and "word_of_int (hex c1 * 16) + word_of_int (hex c2) \<noteq> checksum data"
  shows "\<exists>g'. getpacket ops g = Some (Inl Undef, g') \<and> gdb_in g' = es \<and> gdb_out g' = gdb_out g"
  using getpacket_packet [of g noise data "GChar c1 # GChar c2 # es" ops] assms
    end_packet_bad [of "g\<lparr>gdb_in := GChar c1 # GChar c2 # es, remcomInBuffer := with_packet data (remcomInBuffer g)\<rparr>" c1 c2 es "checksum data" ops]
  by (simp add: io_simps)

section \<open>Examples\<close>

definition gdb_link :: "'j \<Rightarrow> gdbin list \<Rightarrow> 'j gdb" where
  "gdb_link j input = \<lparr>ice = j, gdb_in = input, gdb_wr = [], gdb_out = [], gdbFileDescriptor = 3,
     remcomInBuffer = replicate BUFMAX 0, remcomOutBuffer = replicate BUFMAX 0, reentered = False, last_cmd = 0,
     last_orphan_pending = False, last_orphan = 0xff, ignoreInterrupts = False\<rparr>"

lemma packet_roundtrip_witness:
  "\<exists>s' p g'. putpacket mk1_ops [0x4f, 0x4b, 0] (gdb_link (mk1_box []) [GChar 0x2b]) = Some (Inr (), s') \<and>
     getpacket mk1_ops (gdb_link (mk1_box []) (map GChar (gdb_out s'))) = Some (Inr p, g') \<and> c_string p = Some [0x4f, 0x4b]"
proof -
  let ?s = "gdb_link (mk1_box []) [GChar 0x2b]"
  obtain s' where s': "putpacket mk1_ops ([0x4f, 0x4b] @ 0 # []) ?s = Some (Inr (), s')"
    using putpacket_acknowledged [of ?s "[]" "[0x4f, 0x4b, 0]" "[0x4f, 0x4b]" mk1_ops]
    by (auto simp: gdb_link_def c_string_def)
  show ?thesis
    using packet_roundtrip [OF _ _ s', of "[]" "gdb_link (mk1_box []) (map GChar (gdb_out s'))" "[]" "[]" mk1_ops] s'
    by (auto simp: gdb_link_def BUFMAX_def)
qed

lemma getpacket_bad_checksum_witness:
  "\<exists>g'. getpacket mk1_ops (gdb_link (mk1_box []) (map GChar (0x24 # [0x3f] @ [0x23, 0x30, 0x30]))) = Some (Inl Undef, g')"
  using getpacket_bad_checksum [of "gdb_link (mk1_box []) (map GChar (0x24 # [0x3f] @ [0x23, 0x30, 0x30]))" "[]" "[0x3f]" "0x30" "0x30" "[]"]
  by (auto simp: gdb_link_def BUFMAX_def hex_def checksum_def)

end
