(* ===== verification/Gdb_Command.thy ===== *)
theory Gdb_Command
  imports Gdb_Packet
begin

text \<open>
  The upper half of \<^verbatim>\<open>src/src/remote.cc\<close>: the commands of the GDB remote protocol, carried out on
  an emulator through its table of methods \<open>ops\<close>. The commands are one definition each; \<open>talkToGdb\<close>
  reads a packet, carries out its command and sends the answer. A pointer into the packet is the
  list of the bytes from there to the end of the buffer.
\<close>

section \<open>Answers\<close>

text \<open>\<open>gdb_ok\<close> and \<open>gdb_error\<close> are \<open>GdbRemote::ok\<close> and \<open>GdbRemote::error\<close>.\<close>

definition SIGHUP :: u32 where "SIGHUP = 1"
definition SIGINT :: u8 where "SIGINT = 2"
definition SIGTRAP :: u8 where "SIGTRAP = 5"

text \<open>A C string is put at the start of \<open>remcomOutBuffer\<close>.\<close>

definition set_out :: "u8 list \<Rightarrow> ('j gdb, unit) io" where
  "set_out txt = (\<lambda>g. case store_many (remcomOutBuffer g) 0 (txt @ [0]) of
       None \<Rightarrow> Some (Inl Undef, g) | Some buf \<Rightarrow> Some (Inr (), g\<lparr>remcomOutBuffer := buf\<rparr>))"

text \<open>\<open>sprintf\<close> to the end of the string that is there.\<close>

definition append_out :: "u8 list \<Rightarrow> ('j gdb, unit) io" where
  "append_out txt =
     io_bind (io_get (\<lambda>g. c_string (remcomOutBuffer g))) (\<lambda>x.
     io_bind (io_defined x) (\<lambda>old. set_out (old @ txt)))"

definition gdb_ok :: "('j gdb, unit) io" where
  "gdb_ok = set_out (chars ''OK'')"

definition gdb_error :: "u8 \<Rightarrow> ('j gdb, unit) io" where
  "gdb_error n = set_out (0x45 # byteToHex n)"

definition reportStatus :: "u8 \<Rightarrow> ('j gdb, unit) io" where
  "reportStatus sigval = set_out (0x53 # byteToHex sigval)"

definition status_text :: "u8 \<Rightarrow> u8 list \<Rightarrow> u64 \<Rightarrow> u8 list" where
  "status_text sigval m pc =
     chars ''T'' @ byteToHex sigval @ chars ''20:'' @ byteToHex (m ! 2) @ chars '';21:'' @ byteToHex (m ! 0) @
     byteToHex (m ! 1) @ chars '';22:'' @ concat (map byteToHex (u32_to_b4 pc)) @ chars '';''"

definition reportStatusExtended :: "'j target_ops \<Rightarrow> u8 \<Rightarrow> ('j gdb, unit) io" where
  "reportStatusExtended ops sigval =
     io_bind (on_ice (op_getProgramCounter ops)) (\<lambda>pc.
     io_bind (on_ice (op_jtagRead ops (0x5D + DATA_SPACE_ADDR_OFFSET) 3)) (\<lambda>jtagBuffer.
     case jtagBuffer of
       None \<Rightarrow> gdb_error 1
     | Some b \<Rightarrow> io_bind (io_defined (load_many b 0 3)) (\<lambda>m. set_out (status_text sigval m pc))))"

definition repStatus :: "'j target_ops \<Rightarrow> bool \<Rightarrow> ('j gdb, unit) io" where
  "repStatus ops breaktime =
     (if breaktime then reportStatusExtended ops SIGTRAP
      else io_then (on_ice (op_interruptProgram ops)) (reportStatusExtended ops SIGINT))"

section \<open>Single steps\<close>

text \<open>Words of data memory; a failed read counts as 0.\<close>

definition read_word :: "'j target_ops \<Rightarrow> u32 \<Rightarrow> ('j gdb, u8 list) io" where
  "read_word ops addr =
     io_bind (on_ice (op_jtagRead ops (ucast (ucast DATA_SPACE_ADDR_OFFSET + addr :: u32)) 2)) (\<lambda>mem.
     case mem of None \<Rightarrow> io_ret [0, 0] | Some b \<Rightarrow> io_defined (load_many b 0 2))"

definition readLWord :: "'j target_ops \<Rightarrow> u32 \<Rightarrow> ('j gdb, u32) io" where
  "readLWord ops addr = io_bind (read_word ops addr) (\<lambda>m. io_ret (ucast (m ! 0) OR push_bit 8 (ucast (m ! 1))))"

definition readBWord :: "'j target_ops \<Rightarrow> u32 \<Rightarrow> ('j gdb, u32) io" where
  "readBWord ops addr = io_bind (read_word ops addr) (\<lambda>m. io_ret (push_bit 8 (ucast (m ! 0)) OR ucast (m ! 1)))"

definition readSP :: "'j target_ops \<Rightarrow> ('j gdb, u32) io" where
  "readSP ops = readLWord ops 0x5d"

text \<open>The loop of \<open>handleInterrupt\<close> ends when the program is back at \<open>retPC\<close> with a higher stack pointer, or on
  a user interrupt or breakpoint.\<close>

partial_function (option) interrupt_loop :: "'j target_ops \<Rightarrow> u32 \<Rightarrow> u32 \<Rightarrow> bool \<Rightarrow> 'j gdb \<Rightarrow> ((err + bool) \<times> 'j gdb) option" where
  "interrupt_loop ops intrSP retPC needBP g =
     io_bind (if needBP then on_ice (op_addBreakpoint ops retPC CODE 0) else io_ret True) (\<lambda>added t.
       if \<not> added then Some (Inr False, t)
       else io_bind (io_bind (on_ice (op_jtagContinue ops)) (\<lambda>result.
              io_then (if needBP then io_then (on_ice (op_deleteBreakpoint ops retPC CODE 0)) (io_ret ()) else io_ret ())
             (if \<not> result \<or> \<not> needBP then io_ret (Some result)
              else io_bind (readSP ops) (\<lambda>sp. io_ret (if intrSP < sp then Some result else None)))))
            (\<lambda>r u. case r of Some result \<Rightarrow> Some (Inr result, u) | None \<Rightarrow> interrupt_loop ops intrSP retPC needBP u) t) g"

definition handleInterrupt :: "'j target_ops \<Rightarrow> ('j gdb, bool) io" where
  "handleInterrupt ops =
     io_bind (readSP ops) (\<lambda>intrSP.
     io_bind (readBWord ops (intrSP + 1)) (\<lambda>w.
     io_bind (on_ice (op_codeBreakpointAt ops (push_bit 1 w))) (\<lambda>there.
     interrupt_loop ops intrSP (push_bit 1 w) (\<not> there))))"

definition singleStep :: "'j target_ops \<Rightarrow> ('j gdb, bool) io" where
  "singleStep ops =
     io_bind (on_ice (op_jtagSingleStep ops False)) (\<lambda>stepped.
     io_then (if \<not> stepped then gdbOut ops (chars ''Failed to single-step'') else io_ret ())
    (io_bind (on_ice (op_getProgramCounter ops)) (\<lambda>pc.
     let newPC = ucast pc :: u32 in
     io_bind (on_ice (op_codeBreakpointAt ops newPC)) (\<lambda>there.
     if there then io_ret True
     else io_bind (io_get ignoreInterrupts) (\<lambda>skip.
       if \<not> skip then io_ret True
       else io_bind (io_get (\<lambda>g. op_device ops (ice g))) (\<lambda>d.
            io_bind (io_defined d) (\<lambda>dev.
            if newPC < vectors_end dev then handleInterrupt ops else io_ret True)))))))"

section \<open>Parsing\<close>

text \<open>\<open>hexToInt(&ptr, &value)\<close> as a condition, \<open>*(ptr++) == c\<close> as one: the number and the rest of the packet,
  the rest of the packet, or \<open>None\<close> when the condition is false.\<close>

definition parse_number :: "u8 list \<Rightarrow> (u32 \<times> u8 list) option" where
  "parse_number p = (case hexToInt p of (n, v, r) \<Rightarrow> if n = 0 then None else Some (v, r))"

definition parse_char :: "u8 \<Rightarrow> u8 list \<Rightarrow> ('j gdb, u8 list option) io" where
  "parse_char c p = io_bind (io_defined (cell p 0)) (\<lambda>d. io_ret (if d = c then Some (tl p) else None))"

text \<open>A number and the character behind it.\<close>

definition parse_field :: "u8 \<Rightarrow> u8 list \<Rightarrow> ('j gdb, (u32 \<times> u8 list) option) io" where
  "parse_field c p =
     (case parse_number p of
        None \<Rightarrow> io_ret None
      | Some (v, r) \<Rightarrow> io_bind (parse_char c r) (\<lambda>r'. io_ret (map_option (Pair v) r')))"

text \<open>An \<open>int\<close> used as an address of the emulator.\<close>

definition int_addr :: "u32 \<Rightarrow> u64" where
  "int_addr a = scast a"

section \<open>Memory\<close>

definition cmd_m :: "'j target_ops \<Rightarrow> u8 list \<Rightarrow> ('j gdb, unit) io" where
  "cmd_m ops ptr =
     io_then (gdb_error 1)
    (io_bind (parse_field 0x2c ptr) (\<lambda>f. case f of
       None \<Rightarrow> io_ret ()
     | Some (addr, p) \<Rightarrow> (case parse_number p of
         None \<Rightarrow> io_ret ()
       | Some (len, _) \<Rightarrow>
           io_bind (on_ice (op_jtagRead ops (int_addr addr) len)) (\<lambda>jtagBuffer.
           case jtagBuffer of
             None \<Rightarrow> io_ret ()
           | Some b \<Rightarrow> io_bind (io_defined (mem2hex b (nat (sint len)))) set_out))))"

text \<open>The write itself: an odd address after an odd write to program memory takes the byte that was held
  back (\<open>lead\<close>), an odd length to program memory holds its last byte back.\<close>

definition write_bytes :: "'j target_ops \<Rightarrow> u32 \<Rightarrow> u32 \<Rightarrow> u8 list \<Rightarrow> ('j gdb, unit) io" where
  "write_bytes ops addr0 len0 ptr =
     io_bind (io_get (\<lambda>g. addr0 AND 1 \<noteq> 0 \<and> last_cmd g = 0x4d \<and> last_orphan_pending g)) (\<lambda>lead.
     let len = (if lead then len0 + 1 else len0); addr = (if lead then addr0 - 1 else addr0) in
     io_then (io_put (\<lambda>g. g\<lparr>last_orphan_pending := False\<rparr>))
    (io_bind (io_get last_orphan) (\<lambda>orphan.
     io_bind (io_defined (Option.bind (hex2mem ptr (nat (sint len)))
        (store_many (replicate (unat len) 0) (if lead then 1 else 0)))) (\<lambda>buf.
     io_bind (io_defined (if lead then store buf 0 orphan else Some buf)) (\<lambda>jtagBuffer.
     io_bind (if addr <s ucast DATA_SPACE_ADDR_OFFSET \<and> len AND 1 \<noteq> 0 then
         io_then (io_put (\<lambda>g. g\<lparr>last_orphan_pending := True\<rparr>))
        (io_bind (io_defined (cell jtagBuffer (unat len))) (\<lambda>b.
         io_then (io_put (\<lambda>g. g\<lparr>last_orphan := b\<rparr>)) (io_ret (len - 1))))
       else io_ret len) (\<lambda>len.
     io_bind (on_ice (op_jtagWrite ops (int_addr addr) len jtagBuffer)) (\<lambda>written.
     if written then gdb_ok else io_ret ())))))))"

definition cmd_M :: "'j target_ops \<Rightarrow> u8 list \<Rightarrow> ('j gdb, unit) io" where
  "cmd_M ops ptr =
     io_then (gdb_error 1)
    (io_bind (parse_field 0x2c ptr) (\<lambda>f. case f of
       None \<Rightarrow> io_ret ()
     | Some (addr, p) \<Rightarrow>
         io_bind (parse_field 0x3a p) (\<lambda>f. case f of
           None \<Rightarrow> io_ret ()
         | Some (len, q) \<Rightarrow> if 0 <s len then write_bytes ops addr len q else io_ret ())))"

section \<open>Registers\<close>

definition cmd_g :: "'j target_ops \<Rightarrow> ('j gdb, unit) io" where
  "cmd_g ops =
     io_bind (on_ice (op_jtagRead ops (0x00 + DATA_SPACE_ADDR_OFFSET) 0x20)) (\<lambda>gprs.
     case gprs of
       None \<Rightarrow> gdb_error 1
     | Some b \<Rightarrow>
         io_bind (io_defined (load_many b 0 0x20)) (\<lambda>r.
         io_bind (on_ice (op_jtagRead ops (0x5D + DATA_SPACE_ADDR_OFFSET) 3)) (\<lambda>jtagBuffer.
         case jtagBuffer of
           None \<Rightarrow> gdb_error 1
         | Some c \<Rightarrow>
             io_bind (io_defined (load_many c 0 3)) (\<lambda>m.
             io_bind (on_ice (op_getProgramCounter ops)) (\<lambda>pc.
             let newPC = ucast pc :: u32 in
             if ucast newPC = PC_INVALID then gdb_error 1
             else io_bind (io_defined (mem2hex (r @ [m ! 2, m ! 0, m ! 1] @ u32_to_b4 (ucast newPC) @ [0]) (32 + 1 + 2 + 4)))
               set_out)))))"

definition write_register :: "'j target_ops \<Rightarrow> u8 list \<Rightarrow> u64 \<Rightarrow> nat \<Rightarrow> ('j gdb, unit) io" where
  "write_register ops p a n =
     io_bind (io_defined (hex2mem p n)) (\<lambda>reg.
     io_bind (on_ice (op_jtagWrite ops a (of_nat n) (reg @ replicate (4 - n) 0))) (\<lambda>written.
     if written then gdb_ok else io_ret ()))"

definition cmd_P :: "'j target_ops \<Rightarrow> u8 list \<Rightarrow> ('j gdb, unit) io" where
  "cmd_P ops ptr =
     io_then (gdb_error 1)
    (io_bind (parse_field 0x3d ptr) (\<lambda>f. case f of
       None \<Rightarrow> io_ret ()
     | Some (regno, p) \<Rightarrow>
         if 0 \<le> sint regno \<and> sint regno < int NUMREGS then write_register ops p (int_addr (regno + ucast DATA_SPACE_ADDR_OFFSET)) 1
         else if sint regno = int SREG then write_register ops p (0x5f + DATA_SPACE_ADDR_OFFSET) 1
         else if sint regno = int SP then write_register ops p (0x5d + DATA_SPACE_ADDR_OFFSET) 2
         else if sint regno = int PC then
           io_bind (io_defined (hex2mem p 4)) (\<lambda>reg.
           io_bind (on_ice (op_setProgramCounter ops (int_addr (ucast (reg ! 0) OR push_bit 8 (ucast (reg ! 1)) OR
               push_bit 16 (ucast (reg ! 2)) OR push_bit 24 (ucast (reg ! 3)))))) (\<lambda>set.
           if set then gdb_ok else io_ret ()))
         else io_ret ()))"

section \<open>I/O registers\<close>

text \<open>\<open>sprintf\<close> of a number with \<open>%02x\<close>.\<close>

fun hex_number :: "nat \<Rightarrow> u8 list" where
  "hex_number n = (if n < 16 then [] else hex_number (n div 16)) @ [hexchars ! (n mod 16)]"

definition hex02 :: "nat \<Rightarrow> u8 list" where
  "hex02 n = (if n < 16 then [0x30] else []) @ hex_number n"

text \<open>The number of registers before the end mark of the table.\<close>

fun reg_count :: "gdb_io_reg_def list \<Rightarrow> nat option" where
  "reg_count [] = None"
| "reg_count (r # rs) = (if reg_name r = None then Some 0 else map_option Suc (reg_count rs))"

text \<open>The registers from here on that have no side effects and consecutive addresses, at most \<open>j\<close>.\<close>

fun reg_run :: "gdb_io_reg_def list \<Rightarrow> u32 \<Rightarrow> nat \<Rightarrow> nat option" where
  "reg_run rs addr 0 = Some 0"
| "reg_run [] addr (Suc j) = None"
| "reg_run (r # rs) addr (Suc j) =
     (if reg_name r = None \<or> reg_flags r \<noteq> 0 \<or> ucast (reg_addr r) \<noteq> addr then Some 0
      else map_option Suc (reg_run rs (addr + 1) j))"

fun append_regs :: "gdb_io_reg_def list \<Rightarrow> u8 list \<Rightarrow> ('j gdb, unit) io" where
  "append_regs (r # rs) (b # bs) =
     io_then (append_out (chars (the (reg_name r)) @ [0x2c] @ byteToHex b @ [0x3b])) (append_regs rs bs)"
| "append_regs _ _ = io_ret ()"

text \<open>\<open>j\<close> registers from the \<open>i\<close>-th on. When a read fails it is tried again for ever.\<close>

partial_function (option) reg_loop :: "'j target_ops \<Rightarrow> gdb_io_reg_def list \<Rightarrow> nat \<Rightarrow> int \<Rightarrow> int \<Rightarrow> 'j gdb \<Rightarrow> ((err + unit) \<times> 'j gdb) option" where
  "reg_loop ops defs regcount i j g =
     (if 0 < j \<and> i < int regcount then
        io_bind (io_defined (if i < 0 then None else cell defs (nat i))) (\<lambda>r t.
          if reg_name r \<noteq> None \<and> reg_flags r \<noteq> 0 then
            io_bind (append_out (chars ''[-- '' @ chars (the (reg_name r)) @ chars '' --],00;'')) (\<lambda>_ u.
              reg_loop ops defs regcount (i + 1) (j - 1) u) t
          else
            io_bind (io_defined (reg_run (drop (nat i) defs) (ucast (reg_addr r)) (nat j))) (\<lambda>n u.
              if n = 0 then reg_loop ops defs regcount i j u
              else io_bind (on_ice (op_jtagRead ops (DATA_SPACE_ADDR_OFFSET + ucast (reg_addr r)) (of_nat n))) (\<lambda>jtagBuffer v.
                case jtagBuffer of
                  None \<Rightarrow> reg_loop ops defs regcount i j v
                | Some b \<Rightarrow> io_bind (io_bind (io_defined (load_many b 0 n)) (append_regs (drop (nat i) defs))) (\<lambda>_ w.
                    reg_loop ops defs regcount (i + int n) (j - int n) w) v) u) t) g
      else Some (Inr (), g))"

definition cmd_q :: "'j target_ops \<Rightarrow> u8 list \<Rightarrow> ('j gdb, unit) io" where
  "cmd_q ops ptr =
     (let name = chars ''Ravr.io_reg''; p = drop (length name) ptr in
     if take (length name) ptr \<noteq> name then io_ret ()
     else io_bind (io_get (\<lambda>g. op_device ops (ice g))) (\<lambda>d.
       io_bind (io_defined d) (\<lambda>dev.
       case io_reg_defs dev of
         None \<Rightarrow> io_ret ()
       | Some defs \<Rightarrow>
           io_bind (io_defined (reg_count defs)) (\<lambda>regcount.
           io_bind (io_defined (cell p 0)) (\<lambda>c.
           if c = 0 then set_out (hex02 regcount)
           else if c = 0x3a then
             (case hexToInt (tl p) of (_, i, q) \<Rightarrow>
                io_bind (io_defined (cell q 0)) (\<lambda>c.
                let j = (if c = 0x2c then (case hexToInt (tl q) of (_, j, _) \<Rightarrow> j) else 0) in
                reg_loop ops defs regcount (sint i) (sint j)))
           else io_ret ())))))"

section \<open>Running\<close>

definition set_pc :: "'j target_ops \<Rightarrow> u8 list \<Rightarrow> ('j gdb, unit) io" where
  "set_pc ops ptr =
     (case parse_number ptr of
        None \<Rightarrow> io_ret ()
      | Some (addr, _) \<Rightarrow>
          io_bind (on_ice (op_setProgramCounter ops (int_addr addr))) (\<lambda>set.
          if set then io_ret () else gdbOut ops (chars ''Failed to set PC'')))"

definition cmd_s :: "'j target_ops \<Rightarrow> u8 list \<Rightarrow> ('j gdb, unit) io" where
  "cmd_s ops ptr = io_then (set_pc ops ptr) (io_bind (singleStep ops) (repStatus ops))"

definition cmd_c :: "'j target_ops \<Rightarrow> u8 list \<Rightarrow> ('j gdb, unit) io" where
  "cmd_c ops ptr = io_then (set_pc ops ptr) (io_bind (on_ice (op_jtagContinue ops)) (repStatus ops))"

definition cmd_C :: "'j target_ops \<Rightarrow> u8 list \<Rightarrow> ('j gdb, unit) io" where
  "cmd_C ops ptr =
     (case parse_number ptr of
        None \<Rightarrow> io_ret ()
      | Some (sig, _) \<Rightarrow>
          if sig = SIGHUP then
            io_bind (on_ice (op_resetProgram ops False)) (\<lambda>done.
            if done then reportStatusExtended ops SIGTRAP else io_ret ())
          else io_ret ())"

definition cmd_D :: "'j target_ops \<Rightarrow> ('j gdb, unit) io" where
  "cmd_D ops = io_bind (on_ice (op_resumeProgram ops)) (\<lambda>done. if done then gdb_ok else gdb_error 1)"

definition cmd_R :: "'j target_ops \<Rightarrow> ('j gdb, unit) io" where
  "cmd_R ops = io_bind (on_ice (op_resetProgram ops False)) (\<lambda>done.
     if done then io_ret () else gdbOut ops (chars ''reset failed'' @ [0x0a]))"

section \<open>Breakpoints\<close>

definition bp_mode :: "u32 \<Rightarrow> bpType option" where
  "bp_mode i =
     (if i = 0 \<or> i = 1 then Some CODE
      else if i = 2 then Some WRITE_DATA
      else if i = 3 then Some READ_DATA
      else if i = 4 then Some ACCESS_DATA
      else None)"

definition cmd_Z :: "'j target_ops \<Rightarrow> bool \<Rightarrow> u8 list \<Rightarrow> ('j gdb, unit) io" where
  "cmd_Z ops adding ptr =
     io_then (gdb_error 1)
    (io_bind (parse_field 0x2c ptr) (\<lambda>f. case f of
       None \<Rightarrow> io_ret ()
     | Some (i, p) \<Rightarrow>
         io_bind (parse_field 0x2c p) (\<lambda>f. case f of
           None \<Rightarrow> io_ret ()
         | Some (addr, q) \<Rightarrow>
             (case parse_number q of
                None \<Rightarrow> io_ret ()
              | Some (len, _) \<Rightarrow>
                  (case bp_mode i of
                     None \<Rightarrow> io_then (on_ice (op_close ops)) (io_throw (Exited 1))
                   | Some mode \<Rightarrow>
                       io_bind (on_ice (if adding then op_addBreakpoint ops addr mode len
                           else op_deleteBreakpoint ops addr mode len)) (\<lambda>done.
                       if done then gdb_ok else io_ret ()))))))"

section \<open>The interpreter\<close>

text \<open>One command: the result is whether an answer is sent.\<close>

definition gdb_command :: "'j target_ops \<Rightarrow> u8 \<Rightarrow> u8 list \<Rightarrow> ('j gdb, bool) io" where
  "gdb_command ops cmd ptr =
     (let run = (\<lambda>m. io_then m (io_ret True)) in
      if cmd = of_char CHR ''k'' then io_ret False
      else if cmd = of_char CHR ''R'' then io_then (cmd_R ops) (io_ret False)
      else if cmd = of_char CHR ''!'' then run gdb_ok
      else if cmd = of_char CHR ''M'' then run (cmd_M ops ptr)
      else if cmd = of_char CHR ''m'' then run (cmd_m ops ptr)
      else if cmd = of_char CHR ''?'' then run (reportStatus SIGTRAP)
      else if cmd = of_char CHR ''g'' then run (cmd_g ops)
      else if cmd = of_char CHR ''q'' then run (cmd_q ops ptr)
      else if cmd = of_char CHR ''P'' then run (cmd_P ops ptr)
      else if cmd = of_char CHR ''G'' then run (gdb_error 1)
      else if cmd = of_char CHR ''s'' then run (cmd_s ops ptr)
      else if cmd = of_char CHR ''C'' then run (cmd_C ops ptr)
      else if cmd = of_char CHR ''c'' then run (cmd_c ops ptr)
      else if cmd = of_char CHR ''D'' then run (cmd_D ops)
      else if cmd = of_char CHR ''Z'' then run (cmd_Z ops True ptr)
      else if cmd = of_char CHR ''z'' then run (cmd_Z ops False ptr)
      else io_ret True)"

definition talkToGdb :: "'j target_ops \<Rightarrow> ('j gdb, unit) io" where
  "talkToGdb ops =
     io_bind (getpacket ops) (\<lambda>ptr.
     io_then (set_out [])
    (io_bind (io_defined (cell ptr 0)) (\<lambda>cmd.
     io_bind (gdb_command ops cmd (tl ptr)) (\<lambda>reply.
     io_then (io_put (\<lambda>g. g\<lparr>last_cmd := cmd\<rparr>))
       (if reply then io_bind (io_get remcomOutBuffer) (putpacket ops) else io_ret ())))))"

section \<open>The invariant of the buffers and of the emulator\<close>

definition buffers_ok :: "'j gdb \<Rightarrow> bool" where
  "buffers_ok g \<longleftrightarrow> length (remcomInBuffer g) = BUFMAX \<and> length (remcomOutBuffer g) = BUFMAX"

definition gdb_inv :: "('j \<Rightarrow> bool) \<Rightarrow> 'j gdb \<Rightarrow> bool" where
  "gdb_inv I g \<longleftrightarrow> I (ice g) \<and> buffers_ok g"

lemma gdb_inv_simps [simp]:
  "gdb_inv I (g\<lparr>gdb_in := a\<rparr>) = gdb_inv I g" "gdb_inv I (g\<lparr>gdb_wr := b\<rparr>) = gdb_inv I g"
  "gdb_inv I (g\<lparr>gdb_out := c\<rparr>) = gdb_inv I g" "gdb_inv I (g\<lparr>reentered := d\<rparr>) = gdb_inv I g"
  "gdb_inv I (g\<lparr>last_cmd := e\<rparr>) = gdb_inv I g" "gdb_inv I (g\<lparr>last_orphan_pending := d\<rparr>) = gdb_inv I g"
  "gdb_inv I (g\<lparr>last_orphan := e\<rparr>) = gdb_inv I g"
  by (simp_all add: gdb_inv_def buffers_ok_def)

lemma preserves_on_ice [preserve]:
  assumes "preserves I m"
  shows "preserves (gdb_inv I) (on_ice m)"
proof
  fix g r g'
  assume g: "gdb_inv I g" "on_ice m g = Some (r, g')"
  then obtain j where j: "m (ice g) = Some (r, j)" "g' = g\<lparr>ice := j\<rparr>"
    by (auto simp: on_ice_def split: option.splits)
  then show "gdb_inv I g'"
    using preservesD [OF assms j(1)] g(1) by (simp add: gdb_inv_def buffers_ok_def)
qed

lemma preserves_gdb_put [preserve]:
  "preserves (gdb_inv I) (io_put (reentered_update f))" "preserves (gdb_inv I) (io_put (last_cmd_update h))"
  "preserves (gdb_inv I) (io_put (last_orphan_pending_update f))" "preserves (gdb_inv I) (io_put (last_orphan_update h))"
  by (rule preserves_put; simp add: gdb_inv_def buffers_ok_def)+

lemma preserves_put_chars [preserve]:
  "preserves (gdb_inv I) (putDebugChar c)" "preserves (gdb_inv I) (put_chars cs)"
  "preserves (gdb_inv I) gdb_read" "preserves (gdb_inv I) (set_in i v)" "preserves (gdb_inv I) (set_out txt)"
proof -
  show c: "preserves (gdb_inv I) (putDebugChar c)" for c
    by (auto simp: preserves_def putDebugChar_def split: sum.splits prod.splits)
  show "preserves (gdb_inv I) (put_chars cs)"
    by (induction cs) (simp_all add: preserve c)
  show "preserves (gdb_inv I) gdb_read"
    by (auto simp: preserves_def gdb_read_def split: option.splits)
  show "preserves (gdb_inv I) (set_in i v)"
    by (auto simp: preserves_def set_in_def store_def gdb_inv_def buffers_ok_def split: option.splits if_splits)
  show "preserves (gdb_inv I) (set_out txt)"
    by (auto simp: preserves_def set_out_def gdb_inv_def buffers_ok_def length_store_many split: option.splits)
qed

text \<open>The loops over the characters of GDB keep what their steps keep.\<close>

lemma putpacket_loop_keeps:
  assumes "\<And>cs. preserves J (put_chars cs)" "preserves J (getDebugChar ops)"
  shows "preserves J (putpacket_loop ops data)"
proof -
  have "putpacket_loop ops data g = Some (r, g') \<Longrightarrow> preserves J (getDebugChar ops) \<Longrightarrow> J g \<Longrightarrow> J g'" for g r g'
  proof (induction ops data g rule: putpacket_loop.induct)
    case (1 ops data g)
    from "1.prems"(1) show ?case
      unfolding putpacket_loop.simps [of ops data g]
    proof (cases rule: io_bind_SomeE)
      case (err e)
      then show ?thesis using preservesD [OF assms(1)] "1.prems"(3) by blast
    next
      case sent: (ok x t)
      then have t: "J t" using preservesD [OF assms(1)] "1.prems"(3) by blast
      from sent(2) show ?thesis
      proof (cases rule: io_bind_SomeE)
        case (err e)
        then show ?thesis using preservesD [OF "1.prems"(2)] t by blast
      next
        case (ok c u)
        then have "J u" using preservesD [OF "1.prems"(2)] t by blast
        with ok "1.IH" [OF sent(1) ok(1)] "1.prems"(2) show ?thesis
          by (cases "c = 0x2b") auto
      qed
    qed
  qed
  then show ?thesis using assms(2) by (blast intro: preservesI)
qed

lemma read_data_keeps:
  assumes "preserves J (getDebugChar ops)" "\<And>g buf. J g \<Longrightarrow> length buf = length (remcomInBuffer g) \<Longrightarrow> J (g\<lparr>remcomInBuffer := buf\<rparr>)"
  shows "preserves J (read_data ops ch csum n)"
proof -
  have "read_data ops ch csum n g = Some (r, g') \<Longrightarrow> preserves J (getDebugChar ops) \<Longrightarrow> J g \<Longrightarrow> J g'" for g r g'
  proof (induction ops ch csum n g rule: read_data.induct)
    case (1 ops ch csum n g)
    show ?case
    proof (cases "n < BUFMAX - 1")
      case False
      then show ?thesis using "1.prems" by (simp add: read_data.simps [of ops ch])
    next
      case True
      note IH = "1.IH" [OF True]
      from True "1.prems"(1) have "io_bind (getDebugChar ops) (\<lambda>ch t.
          if ch = 0x24 then read_data ops ch 0 0 t
          else if ch = 0x23 then Some (Inr (ch, csum, n), t)
          else (case store (remcomInBuffer t) n ch of
              None \<Rightarrow> Some (Inl Undef, t)
            | Some buf \<Rightarrow> read_data ops ch (csum + ch) (n + 1) (t\<lparr>remcomInBuffer := buf\<rparr>))) g = Some (r, g')"
        by (simp add: read_data.simps [of ops ch])
      then show ?thesis
      proof (cases rule: io_bind_SomeE)
        case (err e)
        then show ?thesis using preservesD [OF "1.prems"(2)] "1.prems"(3) by blast
      next
        case (ok c t)
        then have t: "J t" using preservesD [OF "1.prems"(2)] "1.prems"(3) by blast
        then show ?thesis
          using ok(2) IH(1) [OF ok(1)] IH(2) [OF ok(1)] "1.prems"(2) assms(2) [OF t]
          by (auto simp: store_def split: if_splits)
      qed
    qed
  qed
  then show ?thesis using assms(1) by (blast intro: preservesI)
qed

lemma getpacket_keeps:
  assumes "preserves J (getDebugChar ops)" "\<And>ch. preserves J (read_packet ops ch)" "\<And>csum. preserves J (end_packet ops csum)"
  shows "preserves J (getpacket ops)"
proof -
  have "getpacket ops g = Some (r, g') \<Longrightarrow> preserves J (getDebugChar ops) \<Longrightarrow> (\<And>ch. preserves J (read_packet ops ch)) \<Longrightarrow>
      (\<And>csum. preserves J (end_packet ops csum)) \<Longrightarrow> J g \<Longrightarrow> J g'" for g r g'
  proof (induction ops g rule: getpacket.induct)
    case (1 ops g)
    from "1.prems"(1) show ?case
      unfolding getpacket.simps [of ops g]
    proof (cases rule: io_bind_SomeE)
      case (err e)
      then show ?thesis using preservesD [OF "1.prems"(2)] "1.prems"(5) by blast
    next
      case char: (ok ch t)
      then have t: "J t" using preservesD [OF "1.prems"(2)] "1.prems"(5) by blast
      show ?thesis
      proof (cases "ch = 0x24")
        case False
        with char "1.IH"(1) [OF char(1) False _ "1.prems"(2-4) t] show ?thesis by simp
      next
        case True
        with char(2) have "io_bind (read_packet ops ch) (\<lambda>p u.
           if fst p = 0x23 then
             io_bind (end_packet ops (snd p)) (\<lambda>r v. case r of
               Some p \<Rightarrow> Some (Inr p, v) | None \<Rightarrow> getpacket ops v) u
           else getpacket ops u) t = Some (r, g')"
          by simp
        then show ?thesis
        proof (cases rule: io_bind_SomeE)
          case (err e)
          then show ?thesis using preservesD [OF "1.prems"(3)] t by blast
        next
          case data: (ok p u)
          then have u: "J u" using preservesD [OF "1.prems"(3)] t by blast
          show ?thesis
          proof (cases "fst p = 0x23")
            case False
            with data(2) "1.IH"(3) [OF char(1) _ data(1) False _ "1.prems"(2-4) u] True show ?thesis by simp
          next
            case hash: True
            with data(2) have "io_bind (end_packet ops (snd p)) (\<lambda>r v. case r of
               Some p \<Rightarrow> Some (Inr p, v) | None \<Rightarrow> getpacket ops v) u = Some (r, g')"
              by simp
            then show ?thesis
            proof (cases rule: io_bind_SomeE)
              case (err e)
              then show ?thesis using preservesD [OF "1.prems"(4)] u by blast
            next
              case last: (ok q v)
              then have "J v" using preservesD [OF "1.prems"(4)] u by blast
              with last(2) "1.IH"(2) [OF char(1) _ data(1) hash last(1)] "1.prems"(2-4) True show ?thesis
                by (cases q) auto
            qed
          qed
        qed
      qed
    qed
  qed
  then show ?thesis using assms by (blast intro: preservesI)
qed

text \<open>A loop that may not end keeps what each round keeps. The rounds are written with the state as an
  argument.\<close>

lemma preserves_state_fun:
  "preserves I (\<lambda>t. Some (x, t))"
  "(c \<Longrightarrow> preserves I f) \<Longrightarrow> (\<not> c \<Longrightarrow> preserves I k) \<Longrightarrow> preserves I (\<lambda>t. if c then f t else k t)"
  "(o' = None \<Longrightarrow> preserves I f) \<Longrightarrow> (\<And>y. o' = Some y \<Longrightarrow> preserves I (h y)) \<Longrightarrow>
     preserves I (\<lambda>t. case o' of None \<Rightarrow> f t | Some y \<Rightarrow> h y t)"
  by (auto simp: preserves_def split: option.split)

lemma preserves_eq: "m s = Some y \<Longrightarrow> I s \<Longrightarrow> preserves I m \<Longrightarrow> I (snd y)"
  by (cases y) (auto simp: preserves_def)

lemma interrupt_loop_keeps:
  fixes ops :: "'j target_ops"
  assumes "\<And>a. preserves J (on_ice (op_addBreakpoint ops a CODE 0))" "preserves J (on_ice (op_jtagContinue ops))"
    and "\<And>a. preserves J (on_ice (op_deleteBreakpoint ops a CODE 0))" "preserves J (readSP ops)"
  shows "preserves J (interrupt_loop ops intrSP retPC needBP)"
proof
  fix g r g'
  assume "J g" "interrupt_loop ops intrSP retPC needBP g = Some (r, g')"
  then have "preserves J (on_ice (op_addBreakpoint ops retPC CODE 0)) \<and> preserves J (on_ice (op_jtagContinue ops)) \<and>
      preserves J (on_ice (op_deleteBreakpoint ops retPC CODE 0)) \<and> preserves J (readSP ops) \<longrightarrow> J g \<longrightarrow> J (snd (r, g'))"
  proof (elim interrupt_loop.raw_induct [where P = "\<lambda>ops _ retPC _ g y. preserves J (on_ice (op_addBreakpoint ops retPC CODE 0)) \<and>
      preserves J (on_ice (op_jtagContinue ops)) \<and> preserves J (on_ice (op_deleteBreakpoint ops retPC CODE 0)) \<and>
      preserves J (readSP ops) \<longrightarrow> J g \<longrightarrow> J (snd y)", rotated], intro impI, elim conjE)
    fix loop :: "'j target_ops \<Rightarrow> u32 \<Rightarrow> u32 \<Rightarrow> bool \<Rightarrow> 'j gdb \<Rightarrow> ((err + bool) \<times> 'j gdb) option"
      and ops :: "'j target_ops" and intrSP retPC needBP g y
    assume IH: "\<And>ops intrSP retPC needBP g y. loop ops intrSP retPC needBP g = Some y \<Longrightarrow>
        preserves J (on_ice (op_addBreakpoint ops retPC CODE 0)) \<and>
      preserves J (on_ice (op_jtagContinue ops)) \<and> preserves J (on_ice (op_deleteBreakpoint ops retPC CODE 0)) \<and>
      preserves J (readSP ops) \<longrightarrow> J g \<longrightarrow> J (snd y)"
      and keep: "preserves J (on_ice (op_addBreakpoint ops retPC CODE 0))" "preserves J (on_ice (op_jtagContinue ops))"
        "preserves J (on_ice (op_deleteBreakpoint ops retPC CODE 0))" "preserves J (readSP ops)"
      and g: "J g"
    have loop: "preserves J (loop ops intrSP retPC needBP)"
    proof
      fix s r s'
      assume "J s" "loop ops intrSP retPC needBP s = Some (r, s')"
      then show "J s'" using IH [of ops intrSP retPC needBP s "(r, s')"] keep by simp
    qed
    assume "io_bind (if needBP then on_ice (op_addBreakpoint ops retPC CODE 0) else io_ret True) (\<lambda>added t.
       if \<not> added then Some (Inr False, t)
       else io_bind (io_bind (on_ice (op_jtagContinue ops)) (\<lambda>result.
              io_then (if needBP then io_then (on_ice (op_deleteBreakpoint ops retPC CODE 0)) (io_ret ()) else io_ret ())
             (if \<not> result \<or> \<not> needBP then io_ret (Some result)
              else io_bind (readSP ops) (\<lambda>sp. io_ret (if intrSP < sp then Some result else None)))))
            (\<lambda>r u. case r of Some result \<Rightarrow> Some (Inr result, u) | None \<Rightarrow> loop ops intrSP retPC needBP u) t) g = Some y"
    then show "J (snd y)"
      by (rule preserves_eq [where I = J and s = g, OF _ g]) (intro preserve preserves_state_fun keep loop)
  qed
  then show "J g'"
    using \<open>J g\<close> assms by simp
qed

lemma append_regs_keeps: "(\<And>txt. preserves J (append_out txt)) \<Longrightarrow> preserves J (append_regs rs bs)"
  by (induction rs bs rule: append_regs.induct) (simp_all add: preserve)

lemma reg_loop_keeps:
  fixes ops :: "'j target_ops"
  assumes "\<And>txt. preserves J (append_out txt)" "\<And>a n. preserves J (on_ice (op_jtagRead ops a n))"
  shows "preserves J (reg_loop ops defs k i j)"
proof
  fix g r g'
  assume "J g" "reg_loop ops defs k i j g = Some (r, g')"
  then have "(\<forall>a n. preserves J (on_ice (op_jtagRead ops a n))) \<longrightarrow> J g \<longrightarrow> J (snd (r, g'))"
  proof (elim reg_loop.raw_induct [where P = "\<lambda>ops _ _ _ _ g y. (\<forall>a n. preserves J (on_ice (op_jtagRead ops a n))) \<longrightarrow>
      J g \<longrightarrow> J (snd y)", rotated], intro impI)
    fix loop :: "'j target_ops \<Rightarrow> gdb_io_reg_def list \<Rightarrow> nat \<Rightarrow> int \<Rightarrow> int \<Rightarrow> 'j gdb \<Rightarrow> ((err + unit) \<times> 'j gdb) option"
      and ops :: "'j target_ops" and defs k i j g y
    assume IH: "\<And>ops defs k i j g y. loop ops defs k i j g = Some y \<Longrightarrow>
        (\<forall>a n. preserves J (on_ice (op_jtagRead ops a n))) \<longrightarrow> J g \<longrightarrow> J (snd y)"
      and keep: "\<forall>a n. preserves J (on_ice (op_jtagRead ops a n))" and g: "J g"
    have loop: "preserves J (loop ops defs k i j)" for i j
    proof
      fix s r s'
      assume "J s" "loop ops defs k i j s = Some (r, s')"
      then show "J s'" using IH [of ops defs k i j s "(r, s')"] keep by simp
    qed
    assume "(if 0 < j \<and> i < int k then
        io_bind (io_defined (if i < 0 then None else cell defs (nat i))) (\<lambda>r t.
          if reg_name r \<noteq> None \<and> reg_flags r \<noteq> 0 then
            io_bind (append_out (chars ''[-- '' @ chars (the (reg_name r)) @ chars '' --],00;'')) (\<lambda>_ u.
              loop ops defs k (i + 1) (j - 1) u) t
          else
            io_bind (io_defined (reg_run (drop (nat i) defs) (ucast (reg_addr r)) (nat j))) (\<lambda>n u.
              if n = 0 then loop ops defs k i j u
              else io_bind (on_ice (op_jtagRead ops (DATA_SPACE_ADDR_OFFSET + ucast (reg_addr r)) (of_nat n))) (\<lambda>jtagBuffer v.
                case jtagBuffer of
                  None \<Rightarrow> loop ops defs k i j v
                | Some b \<Rightarrow> io_bind (io_bind (io_defined (load_many b 0 n)) (append_regs (drop (nat i) defs))) (\<lambda>_ w.
                    loop ops defs k (i + int n) (j - int n) w) v) u) t) g
      else Some (Inr (), g)) = Some y"
    then show "J (snd y)"
      by (rule preserves_eq [where I = J and s = g, OF _ g])
        (intro preserve preserves_state_fun loop append_regs_keeps assms(1) keep [THEN spec, THEN spec])
  qed
  then show "J g'"
    using \<open>J g\<close> assms by simp
qed

context debug_target
begin

lemmas gdb_rules = preserve inv_ops

lemma keeps_char: "preserves (gdb_inv inv) (getDebugChar ops)"
  unfolding getDebugChar_def by (intro gdb_rules)

lemma keeps_putpacket: "preserves (gdb_inv inv) (putpacket ops buffer)"
  unfolding putpacket_def by (intro gdb_rules putpacket_loop_keeps keeps_char)

lemma keeps_gdbOut: "preserves (gdb_inv inv) (gdbOut ops txt)"
  unfolding gdbOut_def by (intro gdb_rules keeps_putpacket)

lemma keeps_read_packet: "preserves (gdb_inv inv) (read_packet ops ch)"
  unfolding read_packet_def
  by (intro gdb_rules read_data_keeps keeps_char) (simp add: gdb_inv_def buffers_ok_def)

lemma keeps_end_packet: "preserves (gdb_inv inv) (end_packet ops csum)"
  unfolding end_packet_def in_cell_def by (intro gdb_rules keeps_char keeps_gdbOut)

lemma keeps_getpacket: "preserves (gdb_inv inv) (getpacket ops)"
  by (intro getpacket_keeps keeps_char keeps_read_packet keeps_end_packet)

lemma keeps_status:
  "preserves (gdb_inv inv) (reportStatusExtended ops sig)" "preserves (gdb_inv inv) (repStatus ops b)"
  unfolding repStatus_def reportStatusExtended_def gdb_error_def by (intro gdb_rules)+

lemma keeps_read_word: "preserves (gdb_inv inv) (readSP ops)" "preserves (gdb_inv inv) (readBWord ops a)"
  unfolding readSP_def readLWord_def readBWord_def read_word_def by (intro gdb_rules)+

lemma keeps_memory:
  "preserves (gdb_inv inv) (cmd_m ops ptr)" "preserves (gdb_inv inv) (cmd_M ops ptr)"
  "preserves (gdb_inv inv) (cmd_g ops)" "preserves (gdb_inv inv) (cmd_P ops ptr)"
  unfolding cmd_m_def cmd_M_def write_bytes_def cmd_g_def cmd_P_def write_register_def parse_field_def parse_char_def gdb_error_def gdb_ok_def
  by (intro gdb_rules)+

lemma keeps_breakpoints: "preserves (gdb_inv inv) (cmd_Z ops b ptr)"
  unfolding cmd_Z_def parse_field_def parse_char_def gdb_error_def gdb_ok_def by (intro gdb_rules)

lemma keeps_append: "preserves (gdb_inv inv) (append_out txt)"
  unfolding append_out_def by (intro gdb_rules)

lemma keeps_query: "preserves (gdb_inv inv) (cmd_q ops ptr)"
  unfolding cmd_q_def Let_def by (intro gdb_rules reg_loop_keeps keeps_append)

lemma keeps_singleStep: "preserves (gdb_inv inv) (singleStep ops)"
  unfolding singleStep_def handleInterrupt_def Let_def
  by (intro gdb_rules keeps_gdbOut keeps_read_word interrupt_loop_keeps)

lemma keeps_running:
  "preserves (gdb_inv inv) (cmd_s ops ptr)" "preserves (gdb_inv inv) (cmd_c ops ptr)"
  "preserves (gdb_inv inv) (cmd_C ops ptr)" "preserves (gdb_inv inv) (cmd_D ops)" "preserves (gdb_inv inv) (cmd_R ops)"
  unfolding cmd_s_def cmd_c_def cmd_C_def cmd_D_def cmd_R_def set_pc_def gdb_ok_def gdb_error_def
  by (intro gdb_rules keeps_gdbOut keeps_status keeps_singleStep)+

lemma keeps_command: "preserves (gdb_inv inv) (gdb_command ops cmd ptr)"
  unfolding gdb_command_def Let_def gdb_ok_def gdb_error_def reportStatus_def
  by (intro gdb_rules keeps_memory keeps_query keeps_running keeps_breakpoints)

lemma keeps_talkToGdb: "preserves (gdb_inv inv) (talkToGdb ops)"
  unfolding talkToGdb_def by (intro gdb_rules keeps_getpacket keeps_command keeps_putpacket)

end

section \<open>Properties\<close>

text \<open>Whatever GDB sends and whatever the emulator and the operating system answer, one round of the
  interpreter keeps the invariant of the driver (the table of breakpoints, the page caches and the
  sequence number of the mkII, the breakpoint arrays of the mkI) and the sizes of the two packet
  buffers, on normal and on exceptional return.\<close>

lemma talkToGdb_keeps_invariants:
  "preserves (gdb_inv mk2_ok) (talkToGdb mk2_ops) \<and> preserves (gdb_inv mk1_ok) (talkToGdb mk1_ops)"
  using mk2_target.keeps_talkToGdb mk1_target.keeps_talkToGdb by blast

end
