(* ===== verification/Gdb_Session.thy ===== *)
theory Gdb_Session
  imports Gdb_Command
begin

text \<open>
  What GDB gets for its packets: the exchange of one command and its answer over a clear line, for
  the packets that read and write memory, set and clear breakpoints, and continue the program.
\<close>

section \<open>One exchange\<close>

text \<open>GDB has sent the packet of \<open>data\<close> and will acknowledge the answer.\<close>

definition gdb_request :: "u8 list \<Rightarrow> gdbin list \<Rightarrow> 'j gdb \<Rightarrow> bool" where
  "gdb_request data rest g \<longleftrightarrow>
     gdb_in g = map GChar (packet data) @ GChar 0x2b # rest \<and> gdb_wr g = [] \<and> buffers_ok g"

text \<open>The answer \<open>txt\<close> has been sent, acknowledged, and nothing else.\<close>

definition gdb_answered :: "u8 list \<Rightarrow> gdbin list \<Rightarrow> 'j gdb \<Rightarrow> 'j gdb \<Rightarrow> bool" where
  "gdb_answered txt rest g g' \<longleftrightarrow> gdb_in g' = rest \<and> gdb_out g' = gdb_out g @ 0x2b # packet txt \<and> buffers_ok g'"

text \<open>The state in which a command starts.\<close>

definition received :: "u8 list \<Rightarrow> gdbin list \<Rightarrow> 'j gdb \<Rightarrow> 'j gdb" where
  "received data rest g = g\<lparr>gdb_in := GChar 0x2b # rest, remcomInBuffer := with_packet data (remcomInBuffer g),
     gdb_out := gdb_out g @ [0x2b], remcomOutBuffer := (remcomOutBuffer g)[0 := 0]\<rparr>"

lemma received_simps [simp]:
  "ice (received data rest g) = ice g" "gdb_wr (received data rest g) = gdb_wr g"
  "gdb_in (received data rest g) = GChar 0x2b # rest" "gdb_out (received data rest g) = gdb_out g @ [0x2b]"
  "last_cmd (received data rest g) = last_cmd g" "last_orphan_pending (received data rest g) = last_orphan_pending g"
  "length (remcomOutBuffer (received data rest g)) = length (remcomOutBuffer g)"
  by (simp_all add: received_def)

lemma received_ok: "buffers_ok g \<Longrightarrow> length data < BUFMAX \<Longrightarrow> buffers_ok (received data rest g)"
  by (simp add: buffers_ok_def received_def with_packet_def)

text \<open>A packet whose third character is not a colon is taken as a command.\<close>

lemma talkToGdb_command:
  assumes "gdb_request (cmd # args) rest g" "set (cmd # args) \<inter> {0x23, 0x24} = {}" "Suc (length args) < BUFMAX - 1"
    and "(args @ [0]) ! 1 \<noteq> 0x3a" "args \<noteq> []"
  obtains junk where "talkToGdb ops g = io_bind (gdb_command ops cmd (args @ 0 # junk)) (\<lambda>reply.
     io_then (io_put (\<lambda>g. g\<lparr>last_cmd := cmd\<rparr>))
       (if reply then io_bind (io_get remcomOutBuffer) (putpacket ops) else io_ret ())) (received (cmd # args) rest g)"
proof
  let ?buf = "with_packet (cmd # args) (remcomInBuffer g)"
  let ?t = "g\<lparr>gdb_in := GChar 0x2b # rest, remcomInBuffer := ?buf, gdb_out := gdb_out g @ [0x2b]\<rparr>"
  have g: "gdb_in g = map GChar ([] @ packet (cmd # args)) @ GChar 0x2b # rest" "gdb_wr g = []" "length (remcomInBuffer g) = BUFMAX"
      "length (remcomOutBuffer g) = BUFMAX"
    using assms(1) by (auto simp: gdb_request_def buffers_ok_def)
  have third: "?buf ! 2 \<noteq> 0x3a"
    using assms(4,5) by (cases args) (auto simp: with_packet_def nth_append nth_Cons' less_Suc_eq split: if_splits)
  have "getpacket ops g = Some (Inr ?buf, ?t)"
    using getpacket_good [OF g(1) _ assms(2) _ g(3,2), of ops] assms(3) third by (simp add: Let_def)
  moreover have "set_out [] ?t = Some (Inr (), received (cmd # args) rest g)"
    using g(4) by (cases "remcomOutBuffer g") (simp_all add: set_out_def store_many_def received_def BUFMAX_def)
  moreover have "cell ?buf 0 = Some cmd"
    by (simp add: with_packet_def cell_def)
  moreover have "tl ?buf = args @ 0 # drop (Suc (length (cmd # args))) (remcomInBuffer g)"
    by (simp add: with_packet_def)
  ultimately show "talkToGdb ops g = io_bind (gdb_command ops cmd (args @ 0 # drop (Suc (length (cmd # args))) (remcomInBuffer g))) (\<lambda>reply.
     io_then (io_put (\<lambda>g. g\<lparr>last_cmd := cmd\<rparr>))
       (if reply then io_bind (io_get remcomOutBuffer) (putpacket ops) else io_ret ())) (received (cmd # args) rest g)"
    by (simp add: talkToGdb_def io_simps)
qed

text \<open>The command ends with \<open>txt\<close> in the answer buffer.\<close>

lemma talkToGdb_answer:
  assumes "talkToGdb ops g = io_bind m (\<lambda>reply.
     io_then (io_put (\<lambda>g. g\<lparr>last_cmd := cmd\<rparr>))
       (if reply then io_bind (io_get remcomOutBuffer) (putpacket ops) else io_ret ())) (received data rest g)"
    and "m (received data rest g) = Some (Inr True, t)" "remcomOutBuffer t = txt @ 0 # junk" "0 \<notin> set txt"
    and "gdb_wr t = []" "gdb_in t = GChar 0x2b # rest" "gdb_out t = gdb_out g @ [0x2b]" "buffers_ok t"
  shows "\<exists>g'. talkToGdb ops g = Some (Inr (), g') \<and> gdb_answered txt rest g g' \<and> ice g' = ice t \<and> last_cmd g' = cmd"
  using assms putpacket_acknowledged [of "t\<lparr>last_cmd := cmd\<rparr>" rest "txt @ 0 # junk" "txt" ops] c_string_terminated [of "txt" junk]
  by (simp add: io_simps gdb_answered_def buffers_ok_def)

section \<open>Numbers in packets\<close>

definition hex_digits :: "u8 list \<Rightarrow> bool" where
  "hex_digits ds \<longleftrightarrow> ds \<noteq> [] \<and> list_all (\<lambda>c. 0 \<le> hex c) ds"

lemma hexToInt_digits:
  assumes "hex_digits ds" "hex c < 0"
  shows "parse_number (ds @ c # r) = Some (word_of_int (hex_value ds), c # r)"
proof -
  have "takeWhile (\<lambda>c. 0 \<le> hex c) (ds @ c # r) = ds"
    using assms by (simp add: takeWhile_append hex_digits_def list_all_iff)
  then show ?thesis
    using assms(1) by (simp add: hex_digits_def parse_number_def hexToInt_spec Let_def)
qed

lemma parse_field_digits:
  assumes "hex_digits ds" "hex c < 0"
  shows "parse_field c (ds @ c # r) = io_ret (Some (word_of_int (hex_value ds), r))"
  using hexToInt_digits [OF assms, of r]
  by (simp add: parse_field_def parse_char_def io_defined_Some cell_def io_bind_ret_left)

lemma separators: "hex 0 < 0" "hex 0x2c < 0" "hex 0x3a < 0" "hex 0x3d < 0"
  by (simp_all add: hex_def)

lemma hex_digit: "0 \<le> hex c \<Longrightarrow> c \<noteq> 0 \<and> c \<noteq> 0x23 \<and> c \<noteq> 0x24 \<and> c \<noteq> 0x3a \<and> c \<noteq> 0x2c"
  by (auto simp: hex_def)

text \<open>Digits and a separator other than a colon are data of a packet without a sequence number.\<close>

lemma hex_digits_data: "hex_digits ds \<Longrightarrow> set ds \<inter> {0, 0x23, 0x24} = {}"
  by (auto simp: hex_digits_def list_all_iff dest!: hex_digit)

lemma hex_digits_second:
  assumes "hex_digits ds" "c \<noteq> 0x3a"
  shows "(ds @ c # r) ! 1 \<noteq> 0x3a"
proof (cases ds)
  case (Cons d es)
  then show ?thesis
    using assms by (cases es) (auto simp: hex_digits_def hex_digit)
qed (use assms in \<open>simp add: hex_digits_def\<close>)

lemma set_out_text:
  assumes "buffers_ok g" "length txt < BUFMAX"
  obtains junk where "set_out txt g = Some (Inr (), g\<lparr>remcomOutBuffer := txt @ 0 # junk\<rparr>)"
    "buffers_ok (g\<lparr>remcomOutBuffer := txt @ 0 # junk\<rparr>)"
  using assms that [of "drop (Suc (length txt)) (remcomOutBuffer g)"]
  by (auto simp: set_out_def store_many_def buffers_ok_def)

lemma set_out_overflow: "buffers_ok g \<Longrightarrow> BUFMAX \<le> length txt \<Longrightarrow> set_out txt g = Some (Inl Undef, g)"
  by (simp add: set_out_def store_many_def buffers_ok_def)

section \<open>Commands\<close>

lemma gdb_commands:
  "gdb_command ops 0x6d ptr = io_then (cmd_m ops ptr) (io_ret True)"
  "gdb_command ops 0x4d ptr = io_then (cmd_M ops ptr) (io_ret True)"
  "gdb_command ops 0x5a ptr = io_then (cmd_Z ops True ptr) (io_ret True)"
  "gdb_command ops 0x7a ptr = io_then (cmd_Z ops False ptr) (io_ret True)"
  "gdb_command ops 0x63 ptr = io_then (cmd_c ops ptr) (io_ret True)"
  by (simp_all add: gdb_command_def Let_def)

lemma answers_text [simp]:
  "0 \<notin> set (chars ''OK'')" "0 \<notin> set (chars ''E01'')" "length (chars ''OK'') < BUFMAX" "length (chars ''E01'') < BUFMAX"
  by (simp_all add: chars_def BUFMAX_def)

lemma gdb_error_1: "gdb_error 1 = set_out (chars ''E01'')"
  by (simp add: gdb_error_def byteToHex_def hexchars_def chars_def)

text \<open>The answer is \<open>E01\<close> until the command succeeds.\<close>

lemmas answer_default = set_out_text [OF _ answers_text(4), folded gdb_error_1]
lemmas answer_ok = set_out_text [OF _ answers_text(3), folded gdb_ok_def]

lemma on_ice_Inr: "m (ice g) = Some (Inr x, j) \<Longrightarrow> on_ice m g = Some (Inr x, g\<lparr>ice := j\<rparr>)"
  by (simp add: on_ice_def)

lemma hex_text: "length (concat (map byteToHex bs)) = 2 * length bs" "0 \<notin> set (concat (map byteToHex bs))"
  "set (concat (map byteToHex bs)) \<inter> {0x23, 0x24} = {}"
proof -
  show "length (concat (map byteToHex bs)) = 2 * length bs"
    by (induction bs) (simp_all add: byteToHex_def)
  have "set (byteToHex b) \<inter> {0, 0x23, 0x24} = {}" for b
    using hex_byteToHex [of b] hex_digit [of "byteToHex b ! 0"] hex_digit [of "byteToHex b ! 1"] by (auto simp: byteToHex_def)
  then show "0 \<notin> set (concat (map byteToHex bs))" "set (concat (map byteToHex bs)) \<inter> {0x23, 0x24} = {}"
    by auto
qed

lemma talkToGdb_set_out:
  assumes "talkToGdb ops g = io_bind m (\<lambda>reply.
     io_then (io_put (\<lambda>g. g\<lparr>last_cmd := cmd\<rparr>))
       (if reply then io_bind (io_get remcomOutBuffer) (putpacket ops) else io_ret ())) (received data rest g)"
    and "m (received data rest g) = io_then (set_out txt) (io_ret True) u" "length txt < BUFMAX" "0 \<notin> set txt"
    and "gdb_wr u = []" "gdb_in u = GChar 0x2b # rest" "gdb_out u = gdb_out g @ [0x2b]" "buffers_ok u"
  shows "\<exists>g'. talkToGdb ops g = Some (Inr (), g') \<and> gdb_answered txt rest g g' \<and> ice g' = ice u \<and> last_cmd g' = cmd"
proof -
  obtain r where r: "set_out txt u = Some (Inr (), u\<lparr>remcomOutBuffer := txt @ 0 # r\<rparr>)" "buffers_ok (u\<lparr>remcomOutBuffer := txt @ 0 # r\<rparr>)"
    by (rule set_out_text [OF assms(8,3)])
  then have "m (received data rest g) = Some (Inr True, u\<lparr>remcomOutBuffer := txt @ 0 # r\<rparr>)"
    using assms(2) by (simp add: io_simps)
  from talkToGdb_answer [OF assms(1) this _ assms(4) _ _ _ r(2)] assms(5-7) show ?thesis
    by simp
qed

text \<open>The commands that answer \<open>OK\<close> when an operation of the emulator succeeds and \<open>E01\<close> otherwise.\<close>

lemma ok_or_error:
  assumes "gdb_request (cmd # args) rest g" "set (cmd # args) \<inter> {0x23, 0x24} = {}" "Suc (length args) < BUFMAX - 1"
    and "(args @ [0]) ! 1 \<noteq> 0x3a" "args \<noteq> []"
    and "\<And>junk. gdb_command ops cmd (args @ 0 # junk) = io_then (io_then (gdb_error 1) (body junk)) (io_ret True)"
    and "\<And>junk t. ice t = ice g \<Longrightarrow> last_cmd t = last_cmd g \<Longrightarrow> last_orphan_pending t = last_orphan_pending g \<Longrightarrow>
      body junk t = (if r then gdb_ok else io_ret ()) (t\<lparr>ice := j, last_orphan_pending := b\<rparr>)"
  shows "\<exists>g'. talkToGdb ops g = Some (Inr (), g') \<and> gdb_answered (chars (if r then ''OK'' else ''E01'')) rest g g' \<and> ice g' = j"
proof -
  let ?t = "received (cmd # args) rest g"
  have g: "buffers_ok ?t" "gdb_wr g = []"
    using assms(1,3) by (auto simp: gdb_request_def intro!: received_ok)
  obtain junk where run: "talkToGdb ops g = io_bind (gdb_command ops cmd (args @ 0 # junk)) (\<lambda>reply.
     io_then (io_put (\<lambda>g. g\<lparr>last_cmd := cmd\<rparr>))
       (if reply then io_bind (io_get remcomOutBuffer) (putpacket ops) else io_ret ())) ?t"
    by (rule talkToGdb_command [OF assms(1-5)])
  obtain e where e: "gdb_error 1 ?t = Some (Inr (), ?t\<lparr>remcomOutBuffer := chars ''E01'' @ 0 # e\<rparr>)" "buffers_ok (?t\<lparr>remcomOutBuffer := chars ''E01'' @ 0 # e\<rparr>)"
    using answer_default [OF g(1)] by blast
  let ?u = "?t\<lparr>remcomOutBuffer := chars ''E01'' @ 0 # e, ice := j, last_orphan_pending := b\<rparr>"
  have u: "buffers_ok ?u"
    using e(2) by (simp add: buffers_ok_def)
  have cmd: "gdb_command ops cmd (args @ 0 # junk) ?t = io_then (if r then gdb_ok else io_ret ()) (io_ret True) ?u"
    using e(1) assms(7) [of "?t\<lparr>remcomOutBuffer := chars ''E01'' @ 0 # e\<rparr>" junk]
    by (simp add: assms(6) io_then_def io_bind_def)
  show ?thesis
  proof (cases r)
    case True
    with talkToGdb_set_out [OF run cmd [unfolded if_P [OF True] gdb_ok_def] answers_text(3,1) _ _ _ u] g(2) show ?thesis
      by auto
  next
    case False
    then have "gdb_command ops cmd (args @ 0 # junk) ?t = Some (Inr True, ?u)"
      using cmd by (simp add: io_simps)
    from talkToGdb_answer [OF run this _ answers_text(2) _ _ _ u] False g(2) show ?thesis
      by auto
  qed
qed

lemma undefined_command:
  assumes "gdb_request (cmd # args) rest g" "set (cmd # args) \<inter> {0x23, 0x24} = {}" "Suc (length args) < BUFMAX - 1"
    and "(args @ [0]) ! 1 \<noteq> 0x3a" "args \<noteq> []"
    and "\<And>junk. gdb_command ops cmd (args @ 0 # junk) = io_then (io_then (gdb_error 1) (body junk)) (io_ret True)"
    and "\<And>junk t. ice t = ice g \<Longrightarrow> last_cmd t = last_cmd g \<Longrightarrow> last_orphan_pending t = last_orphan_pending g \<Longrightarrow>
      body junk t = Some (Inl Undef, t\<lparr>last_orphan_pending := b\<rparr>)"
  shows "\<exists>g'. talkToGdb ops g = Some (Inl Undef, g') \<and> ice g' = ice g"
proof -
  let ?t = "received (cmd # args) rest g"
  have "buffers_ok ?t"
    using assms(1,3) by (auto simp: gdb_request_def intro!: received_ok)
  then obtain e where e: "gdb_error 1 ?t = Some (Inr (), ?t\<lparr>remcomOutBuffer := e\<rparr>)"
    using answer_default by blast
  obtain junk where "talkToGdb ops g = io_bind (gdb_command ops cmd (args @ 0 # junk)) (\<lambda>reply.
     io_then (io_put (\<lambda>g. g\<lparr>last_cmd := cmd\<rparr>))
       (if reply then io_bind (io_get remcomOutBuffer) (putpacket ops) else io_ret ())) ?t"
    by (rule talkToGdb_command [OF assms(1-5)])
  then show ?thesis
    using e assms(7) [of "?t\<lparr>remcomOutBuffer := e\<rparr>" junk] by (simp add: io_simps assms(6))
qed

section \<open>Breakpoints\<close>

definition bp_request :: "u8 \<Rightarrow> u8 list \<Rightarrow> u8 list \<Rightarrow> u8 list \<Rightarrow> u8 list" where
  "bp_request cmd k a l = cmd # k @ 0x2c # a @ 0x2c # l"

definition bp_op :: "'j target_ops \<Rightarrow> u8 \<Rightarrow> u32 \<Rightarrow> bpType \<Rightarrow> u32 \<Rightarrow> ('j, bool) io" where
  "bp_op ops cmd = (if cmd = 0x5a then op_addBreakpoint ops else op_deleteBreakpoint ops)"

lemma breakpoint_answer:
  assumes "gdb_request (bp_request cmd k a l) rest g" "cmd = 0x5a \<or> cmd = 0x7a" "hex_digits k" "hex_digits a" "hex_digits l"
    and "length k + length a + length l < BUFMAX - 4" "bp_mode (word_of_int (hex_value k)) = Some mode"
    and "bp_op ops cmd (word_of_int (hex_value a)) mode (word_of_int (hex_value l)) (ice g) = Some (Inr r, j)"
  shows "\<exists>g'. talkToGdb ops g = Some (Inr (), g') \<and> gdb_answered (chars (if r then ''OK'' else ''E01'')) rest g g' \<and> ice g' = j"
proof (rule ok_or_error [OF assms(1) [unfolded bp_request_def]])
  let ?args = "k @ 0x2c # a @ 0x2c # l"
  show "set (cmd # ?args) \<inter> {0x23, 0x24} = {}" "(?args @ [0]) ! 1 \<noteq> 0x3a" "Suc (length ?args) < BUFMAX - 1" "?args \<noteq> []"
    using hex_digits_data [OF assms(3)] hex_digits_data [OF assms(4)] hex_digits_data [OF assms(5)]
      hex_digits_second [OF assms(3), of "0x2c" "a @ 0x2c # l @ [0]"] assms(2,6) by auto
  show "gdb_command ops cmd (?args @ 0 # junk) = io_then (io_then (gdb_error 1)
      (io_bind (on_ice (bp_op ops cmd (word_of_int (hex_value a)) mode (word_of_int (hex_value l)))) (\<lambda>done.
       if done then gdb_ok else io_ret ()))) (io_ret True)" for junk
    using assms(2,7)
    by (auto simp: gdb_commands cmd_Z_def io_bind_ret_left parse_field_digits hexToInt_digits separators assms(3-5) bp_op_def)
  fix t :: "'a gdb" assume t: "ice t = ice g" "last_orphan_pending t = last_orphan_pending g"
  then have "t\<lparr>ice := j, last_orphan_pending := last_orphan_pending g\<rparr> = t\<lparr>ice := j\<rparr>"
    by (cases t) simp
  then show "io_bind (on_ice (bp_op ops cmd (word_of_int (hex_value a)) mode (word_of_int (hex_value l)))) (\<lambda>done.
       if done then gdb_ok else io_ret ()) t = (if r then gdb_ok else io_ret ()) (t\<lparr>ice := j, last_orphan_pending := last_orphan_pending g\<rparr>)"
    using assms(8) t(1) by (simp add: io_simps on_ice_Inr)
qed

text \<open>What a packet for a code breakpoint at \<open>addr\<close> does, for a driver whose breakpoints at addresses with the
  same \<open>key\<close> are one.\<close>

definition bp_served :: "'j target_ops \<Rightarrow> (u32 \<Rightarrow> u32) \<Rightarrow> u8 \<Rightarrow> u32 \<Rightarrow> gdbin list \<Rightarrow> 'j gdb \<Rightarrow> 'j gdb \<Rightarrow> bool" where
  "bp_served ops key cmd addr rest g g' \<longleftrightarrow> talkToGdb ops g = Some (Inr (), g') \<and>
     (if gdb_answered (chars ''OK'') rest g g' then
        (if cmd = 0x5a then \<forall>b. reports ops b (ice g') \<longleftrightarrow> key b = key addr \<or> reports ops b (ice g)
         else \<forall>b. reports ops b (ice g') \<longrightarrow> reports ops b (ice g)) \<and>
        (\<forall>b. key b \<noteq> key addr \<longrightarrow> reports ops b (ice g') = reports ops b (ice g))
      else gdb_answered (chars ''E01'') rest g g' \<and> (cmd = 0x7a \<longrightarrow> \<not> reports ops addr (ice g)) \<and>
        (\<forall>b. cmd = 0x5a \<or> key b \<noteq> key addr \<longrightarrow> reports ops b (ice g') = reports ops b (ice g)))"

context code_target
begin

lemma breakpoint_served:
  assumes "gdb_request (bp_request cmd k a l) rest g" "cmd = 0x5a \<or> cmd = 0x7a" "hex_digits k" "hex_digits a" "hex_digits l"
    and "length k + length a + length l < BUFMAX - 4" "bp_mode (word_of_int (hex_value k)) = Some CODE" "cinv (ice g)"
  shows "\<exists>g'. bp_served ops key cmd (word_of_int (hex_value a)) rest g g' \<and> cinv (ice g')"
proof -
  let ?a = "word_of_int (hex_value a) :: u32"
  obtain r j where j: "bp_op ops cmd ?a CODE (word_of_int (hex_value l)) (ice g) = Some (Inr r, j)" "cinv j"
    and effect: "if cmd = 0x5a then \<forall>b. reports ops b j \<longleftrightarrow> r \<and> key b = key ?a \<or> reports ops b (ice g)
      else (reports ops ?a (ice g) \<longrightarrow> r) \<and> (\<forall>b. reports ops b j \<longrightarrow> reports ops b (ice g)) \<and>
      (\<forall>b. key b \<noteq> key ?a \<longrightarrow> reports ops b j = reports ops b (ice g))"
    using code_add [OF assms(8), of ?a "word_of_int (hex_value l)"] code_del [OF assms(8), of ?a "word_of_int (hex_value l)"]
    by (cases "cmd = 0x5a") (auto simp: bp_op_def)
  obtain g' where g': "talkToGdb ops g = Some (Inr (), g')" "gdb_answered (chars (if r then ''OK'' else ''E01'')) rest g g'" "ice g' = j"
    using breakpoint_answer [OF assms(1-7) j(1)] by blast
  have "gdb_answered (chars ''OK'') rest g g' = r"
    using g'(2) by (cases r) (simp_all add: gdb_answered_def packet_def chars_def)
  then show ?thesis
    using g' j(2) effect assms(2) by (intro exI [of _ g']) (cases r; auto simp: bp_served_def)
qed

end

section \<open>Properties\<close>

text \<open>C27: the packet \<open>m<addr>,<length>\<close> is served: GDB gets the bytes that \<open>jtagRead\<close> returns for the address
  and the length, in hexadecimal. There is no check of the length: from 200 bytes on the digits and
  their NUL do not fit into the answer buffer of 400 characters.\<close>

theorem memory_read_served:
  assumes "gdb_request (0x6d # a @ 0x2c # l) rest g" "hex_digits a" "hex_digits l"
    and "length a + length l < BUFMAX - 3"
    and "op_jtagRead ops (int_addr (word_of_int (hex_value a))) (word_of_int (hex_value l)) (ice g) = Some (Inr (Some (bs @ pad)), j)"
    and "length bs = nat (sint (word_of_int (hex_value l) :: u32))"
  shows "if length bs < 200
     then \<exists>g'. talkToGdb ops g = Some (Inr (), g') \<and> gdb_answered (concat (map byteToHex bs)) rest g g' \<and> ice g' = j
     else \<exists>g'. talkToGdb ops g = Some (Inl Undef, g')"
proof -
  let ?args = "a @ 0x2c # l"
  let ?t = "received (0x6d # ?args) rest g"
  have g: "buffers_ok ?t" "gdb_wr g = []"
    using assms(1,4) by (auto simp: gdb_request_def BUFMAX_def intro!: received_ok)
  have "set (0x6d # ?args) \<inter> {0x23, 0x24} = {}" "(?args @ [0]) ! 1 \<noteq> 0x3a"
    using hex_digits_data [OF assms(2)] hex_digits_data [OF assms(3)] hex_digits_second [OF assms(2), of "0x2c" "l @ [0]"] by auto
  then obtain junk where run: "talkToGdb ops g = io_bind (gdb_command ops 0x6d (?args @ 0 # junk)) (\<lambda>reply.
     io_then (io_put (\<lambda>g. g\<lparr>last_cmd := 0x6d\<rparr>))
       (if reply then io_bind (io_get remcomOutBuffer) (putpacket ops) else io_ret ())) ?t"
    using talkToGdb_command [OF assms(1), of ops] assms(4) by (auto simp: BUFMAX_def)
  obtain e where e: "gdb_error 1 ?t = Some (Inr (), ?t\<lparr>remcomOutBuffer := e\<rparr>)" "buffers_ok (?t\<lparr>remcomOutBuffer := e\<rparr>)"
    using answer_default [OF g(1)] by blast
  let ?u = "?t\<lparr>remcomOutBuffer := e, ice := j\<rparr>"
  let ?hex = "concat (map byteToHex bs)"
  have u: "buffers_ok ?u"
    using e(2) by (simp add: buffers_ok_def)
  have "cmd_m ops (?args @ 0 # junk) ?t = set_out ?hex ?u"
    using e(1)
      on_ice_Inr [of "op_jtagRead ops (int_addr (word_of_int (hex_value a))) (word_of_int (hex_value l))" "?t\<lparr>remcomOutBuffer := e\<rparr>"]
      assms(5) mem2hex_append [of bs pad]
    by (simp add: cmd_m_def io_simps parse_field_digits hexToInt_digits separators assms(2,3) assms(6) [symmetric])
  then have cmd: "gdb_command ops 0x6d (?args @ 0 # junk) ?t = io_then (set_out ?hex) (io_ret True) ?u"
    by (simp add: gdb_commands io_then_def io_bind_def)
  show ?thesis
  proof (cases "length bs < 200")
    case True
    with talkToGdb_set_out [OF run cmd _ hex_text(2) _ _ _ u] g(2) show ?thesis
      by (simp add: hex_text(1) BUFMAX_def) blast
  next
    case False
    then have "set_out ?hex ?u = Some (Inl Undef, ?u)"
      by (intro set_out_overflow [OF u]) (simp add: hex_text(1) BUFMAX_def)
    then show ?thesis
      using run cmd False by (simp add: io_simps)
  qed
qed

text \<open>C29: the packets \<open>Z0\<close>, \<open>Z1\<close>, \<open>z0\<close> and \<open>z1\<close> on both drivers, on the mkII as long as its table holds code
  breakpoints only and the device has software breakpoints: GDB gets \<open>OK\<close> or \<open>E01\<close>. A breakpoint set with \<open>OK\<close> is
  then reported at its address (on the mkI at both bytes of its word) and no other changes; one that is
  refused with \<open>E01\<close> changes nothing. Clearing changes no other address and adds none, and for a
  breakpoint that is reported it is answered \<open>OK\<close>.\<close>

theorem breakpoint_packets_served:
  fixes g2 :: "'y jtag2_scheme gdb" and g1 :: "'z jtag1_scheme gdb"
  assumes "cmd = 0x5a \<or> cmd = 0x7a" "k = [0x30] \<or> k = [0x31]" "hex_digits a" "hex_digits l" "length a + length l < BUFMAX - 5"
    and "gdb_request (bp_request cmd k a l) rest g2" "mk2_code_ok (ice g2)"
    and "gdb_request (bp_request cmd k a l) rest g1" "mk1_ok (ice g1)"
  shows "(\<exists>g'. bp_served mk2_ops id cmd (word_of_int (hex_value a)) rest g2 g' \<and> mk2_code_ok (ice g')) \<and>
     (\<exists>g'. bp_served mk1_ops (\<lambda>b. b div 2) cmd (word_of_int (hex_value a)) rest g1 g' \<and> mk1_ok (ice g'))"
proof -
  have k: "hex_digits k" "bp_mode (word_of_int (hex_value k)) = Some CODE" "length k + length a + length l < BUFMAX - 4"
    using assms(2,5) by (auto simp: hex_digits_def hex_value_def bp_mode_def hex_def BUFMAX_def)
  show ?thesis
    using mk2_code.breakpoint_served [OF assms(6,1) k(1) assms(3,4) k(3,2) assms(7)]
      mk1_code.breakpoint_served [OF assms(8,1) k(1) assms(3,4) k(3,2) assms(9)] by blast
qed

text \<open>The packet that writes memory: the bytes are decoded and written. An odd number of bytes to program
  memory is not: the code looks for the last byte one place behind the end of its array.\<close>

lemma hex2mem_bytes: "hex2mem (concat (map byteToHex bs) @ r) (length bs) = Some bs"
  by (induction bs) (simp_all add: hex2mem_byteToHex)

lemma small_int:
  assumes "n < 400"
  shows "unat (of_nat n :: u32) = n" "sint (of_nat n :: u32) = int n"
    "(of_nat n :: u32) AND 1 = 0 \<longleftrightarrow> even n"
proof -
  show n: "unat (of_nat n :: u32) = n" "sint (of_nat n :: u32) = int n"
    using assms by (simp_all add: unat_of_nat signed_of_nat signed_take_bit_int_eq_self take_bit_nat_eq_self)
  have "unat ((of_nat n :: u32) AND 1) = n mod 2"
    using n(1) by (simp add: and_one_eq unat_mod)
  then show "(of_nat n :: u32) AND 1 = 0 \<longleftrightarrow> even n"
    by (simp only: word_unat_eq_iff even_iff_mod_2_eq_zero unsigned_0)
qed

lemma write_bytes_plain:
  assumes "\<not> (addr AND 1 \<noteq> 0 \<and> last_cmd g = 0x4d \<and> last_orphan_pending g)" "length bs < 400"
  shows "write_bytes ops addr (of_nat (length bs)) (concat (map byteToHex bs) @ r) g =
     (if addr <s ucast DATA_SPACE_ADDR_OFFSET \<and> odd (length bs) then Some (Inl Undef, g\<lparr>last_orphan_pending := True\<rparr>)
      else io_bind (on_ice (op_jtagWrite ops (int_addr addr) (of_nat (length bs)) bs)) (\<lambda>written. if written then gdb_ok else io_ret ())
        (g\<lparr>last_orphan_pending := False\<rparr>))"
proof -
  note n = small_int [OF assms(2)]
  have buf: "Option.bind (hex2mem (concat (map byteToHex bs) @ r) (length bs)) (store_many (replicate (length bs) 0) 0) = Some bs"
    by (simp add: hex2mem_bytes store_many_def)
  have lead: "io_get (\<lambda>g. addr AND 1 \<noteq> 0 \<and> last_cmd g = 0x4d \<and> last_orphan_pending g) g = Some (Inr False, g)"
    using assms(1) by (simp add: io_get_def)
  show ?thesis
    unfolding write_bytes_def io_bind_Inr [where m = "io_get (\<lambda>g. addr AND 1 \<noteq> 0 \<and> last_cmd g = 0x4d \<and> last_orphan_pending g)", OF lead]
    using n buf by (simp add: io_simps cell_def Let_def)
qed

definition write_request :: "u8 list \<Rightarrow> u8 list \<Rightarrow> u8 list \<Rightarrow> u8 list" where
  "write_request a l bs = 0x4d # a @ 0x2c # l @ 0x3a # concat (map byteToHex bs)"

text \<open>C28: the packet \<open>M<addr>,<length>:<bytes>\<close> is served, unless it begins at an odd address while a byte is
  held back: \<open>jtagWrite\<close> gets the address, the length and exactly the bytes, and GDB gets \<open>OK\<close> when it
  succeeds and \<open>E01\<close> otherwise. An odd number of bytes to program memory is never written: the code
  takes the byte to hold back from one place behind the end of its array.\<close>

theorem memory_write_served:
  assumes "gdb_request (write_request a l bs) rest g" "hex_digits a" "hex_digits l" "hex_value l = int (length bs)" "bs \<noteq> []"
    and "length (write_request a l bs) < BUFMAX - 1" "addr = word_of_int (hex_value a)"
    and "\<not> (addr AND 1 \<noteq> 0 \<and> last_cmd g = 0x4d \<and> last_orphan_pending g)"
    and "op_jtagWrite ops (int_addr addr) (of_nat (length bs)) bs (ice g) = Some (Inr written, j)"
  shows "if addr <s ucast DATA_SPACE_ADDR_OFFSET \<and> odd (length bs) then \<exists>g'. talkToGdb ops g = Some (Inl Undef, g') \<and> ice g' = ice g
     else \<exists>g'. talkToGdb ops g = Some (Inr (), g') \<and> gdb_answered (chars (if written then ''OK'' else ''E01'')) rest g g' \<and> ice g' = j"
proof -
  let ?args = "a @ 0x2c # l @ 0x3a # concat (map byteToHex bs)"
  have data: "set (0x4d # ?args) \<inter> {0x23, 0x24} = {}" "(?args @ [0]) ! 1 \<noteq> 0x3a" "Suc (length ?args) < BUFMAX - 1" "?args \<noteq> []"
    using hex_digits_data [OF assms(2)] hex_digits_data [OF assms(3)] hex_text(3) [of bs] assms(6)
      hex_digits_second [OF assms(2), of "0x2c" "l @ 0x3a # concat (map byteToHex bs) @ [0]"]
    by (auto simp: write_request_def simp del: set_concat set_map)
  have small: "length bs < 400"
    using assms(6) hex_text(1) [of bs] by (simp add: write_request_def BUFMAX_def)
  have "0 <s (of_nat (length bs) :: u32)"
    using small_int(2) [OF small] assms(5) by (simp add: word_sless_alt)
  then have cmd: "gdb_command ops 0x4d (?args @ 0 # junk) = io_then (io_then (gdb_error 1)
      (write_bytes ops addr (of_nat (length bs)) (concat (map byteToHex bs) @ 0 # junk))) (io_ret True)" for junk
    using assms(2,3) by (simp add: gdb_commands cmd_M_def io_bind_ret_left parse_field_digits separators assms(4,7))
  show ?thesis
  proof (cases "addr <s ucast DATA_SPACE_ADDR_OFFSET \<and> odd (length bs)")
    case True
    have "\<exists>g'. talkToGdb ops g = Some (Inl Undef, g') \<and> ice g' = ice g"
    proof (rule undefined_command [OF assms(1) [unfolded write_request_def] data(1,3,2,4) cmd])
      fix junk and t :: "'a gdb" assume "ice t = ice g" "last_cmd t = last_cmd g" "last_orphan_pending t = last_orphan_pending g"
      then show "write_bytes ops addr (of_nat (length bs)) (concat (map byteToHex bs) @ 0 # junk) t =
          Some (Inl Undef, t\<lparr>last_orphan_pending := True\<rparr>)"
        using write_bytes_plain [of addr t bs ops "0 # junk"] assms(8) small True by simp
    qed
    then show ?thesis by (simp only: if_P [OF True])
  next
    case False
    have "\<exists>g'. talkToGdb ops g = Some (Inr (), g') \<and> gdb_answered (chars (if written then ''OK'' else ''E01'')) rest g g' \<and> ice g' = j"
    proof (rule ok_or_error [OF assms(1) [unfolded write_request_def] data(1,3,2,4) cmd])
      fix junk and t :: "'a gdb" assume "ice t = ice g" "last_cmd t = last_cmd g" "last_orphan_pending t = last_orphan_pending g"
      then have "write_bytes ops addr (of_nat (length bs)) (concat (map byteToHex bs) @ 0 # junk) t =
          (if written then gdb_ok else io_ret ()) (t\<lparr>last_orphan_pending := False, ice := j\<rparr>)"
        using write_bytes_plain [of addr t bs ops "0 # junk"] assms(8,9) small False
        by (simp add: io_simps on_ice_Inr)
      moreover have "t\<lparr>ice := j, last_orphan_pending := False\<rparr> = t\<lparr>last_orphan_pending := False, ice := j\<rparr>"
        by simp
      ultimately show "write_bytes ops addr (of_nat (length bs)) (concat (map byteToHex bs) @ 0 # junk) t =
          (if written then gdb_ok else io_ret ()) (t\<lparr>ice := j, last_orphan_pending := False\<rparr>)"
        by (simp only:)
    qed
    then show ?thesis by (simp only: if_not_P [OF False])
  qed
qed

lemma jtagContinue_not_Inr: "jtagContinue s \<noteq> Some (Inr r, t)"
  unfolding jtagContinue_def io_then_def by (auto elim!: io_bind_InrE simp: eventLoop_not_Inr)

lemma last_cmd_rules:
  "preserves (\<lambda>g. last_cmd g = c) (on_ice m)" "preserves (\<lambda>g. last_cmd g = c) (putDebugChar ch)"
  "preserves (\<lambda>g. last_cmd g = c) gdb_read"
  by (auto simp: preserves_def on_ice_def putDebugChar_def gdb_read_def split: option.splits sum.splits prod.splits)

lemma last_cmd_putpacket: "preserves (\<lambda>g. last_cmd g = c) (putpacket ops b)"
proof -
  have "preserves (\<lambda>g. last_cmd g = c) (put_chars cs)" for cs
    by (induction cs) (simp_all add: preserve last_cmd_rules)
  moreover have "preserves (\<lambda>g. last_cmd g = c) (getDebugChar ops)"
    unfolding getDebugChar_def by (intro preserve last_cmd_rules)
  ultimately show ?thesis
    unfolding putpacket_def by (intro preserve putpacket_loop_keeps)
qed

lemma mk2_continue_not_Inr: "gdb_command mk2_ops 0x63 ptr g \<noteq> Some (Inr r, t)"
proof
  assume "gdb_command mk2_ops 0x63 ptr g = Some (Inr r, t)"
  then show False
    unfolding gdb_commands cmd_c_def
    by (elim io_bind_InrE io_then_InrE) (auto simp: on_ice_def mk2_ops_def jtagContinue_not_Inr split: option.splits)
qed

text \<open>C30: on the mkII the packet \<open>c\<close> is never answered: a round of the interpreter that returns was not for
  that command, because \<open>jtagContinue\<close> does not return.\<close>

theorem mk2_continue_not_answered:
  assumes "talkToGdb mk2_ops g = Some (Inr u, g')"
  shows "last_cmd g' \<noteq> 0x63"
proof -
  obtain cmd ptr h reply t where t: "gdb_command mk2_ops cmd ptr h = Some (Inr reply, t)"
      "(if reply then io_bind (io_get remcomOutBuffer) (putpacket mk2_ops) else io_ret ()) (t\<lparr>last_cmd := cmd\<rparr>) = Some (Inr u, g')"
    using assms unfolding talkToGdb_def by (elim io_bind_InrE io_then_InrE) (simp add: io_put_def that)
  from t(2) have "last_cmd g' = cmd"
    by (rule preservesD [rotated]) (simp_all add: preserve last_cmd_putpacket)
  moreover have "cmd \<noteq> 0x63"
    using t(1) mk2_continue_not_Inr by blast
  ultimately show ?thesis by blast
qed

section \<open>Examples\<close>

definition example_ii :: "u8 list \<Rightarrow> jtag2 gdb" where
  "example_ii data = gdb_link ((quiet_box [])\<lparr>p_device_def := Some dev_atmega16\<rparr>) (map GChar (packet data) @ [GChar 0x2b])"

definition example_i :: "rxev list \<Rightarrow> u8 list \<Rightarrow> jtag1 gdb" where
  "example_i evs data = gdb_link (mk1_box evs) (map GChar (packet data) @ [GChar 0x2b])"

lemma example_request: "gdb_request data [] (example_ii data)" "gdb_request data [] (example_i evs data)"
  by (simp_all add: gdb_request_def example_ii_def example_i_def gdb_link_def buffers_ok_def)

lemma example_states: "mk2_code_ok (ice (example_ii data))" "mk1_ok (ice (example_i evs data))" "ice (example_i evs data) = mk1_box evs"
proof -
  have "jtag2_inv ((quiet_box [])\<lparr>p_device_def := Some dev_atmega16\<rparr>)"
    by (simp add: quiet_box_def jtag2_inv_new)
  moreover have "bps (quiet_box []) = fresh_table"
    by (simp add: quiet_box_def jtag2_new_def jtag.extend_def jtag2.fields_def fresh_table_def)
  ultimately show "mk2_code_ok (ice (example_ii data))"
    using fresh_code_table code_table_ok(1) [OF fresh_code_table]
    by (simp add: example_ii_def gdb_link_def mk2_code_ok_def mk2_ok_def dev_atmega16_def code_defs)
  show "mk1_ok (ice (example_i evs data))" "ice (example_i evs data) = mk1_box evs"
    by (simp_all add: example_i_def gdb_link_def mk1_ok_def mk1_box_def jtag1_new_def jtag.extend_def jtag1.fields_def
        bp1_ok_def bp1_consts bp1_entry_def code_defs eval_nat_numeral)
qed

lemma example_numbers: "hex_digits [0x31]" "hex_digits [0x32]" "hex_value [0x31] = 1" "hex_value [0x32] = 2"
  by (simp_all add: hex_digits_def hex_value_def hex_def)

lemma breakpoint_packets_served_witness:
  "\<exists>g'. bp_served mk2_ops id 0x5a 1 [] (example_ii (bp_request 0x5a [0x30] [0x31] [0x32])) g'"
  using breakpoint_packets_served [of "0x5a" "[0x30]" "[0x31]" "[0x32]" "[]" "example_ii (bp_request 0x5a [0x30] [0x31] [0x32])"
      "example_i [] (bp_request 0x5a [0x30] [0x31] [0x32])"] example_request example_states example_numbers
  by (auto simp: BUFMAX_def)

lemma memory_read_served_witness:
  "\<exists>g'. talkToGdb mk1_ops (example_i [Chunk [JTAG_R_OK, 1, 0, 3, 2, 9, JTAG_R_OK]] (0x6d # [0x31] @ 0x2c # [0x32])) = Some (Inr (), g') \<and>
     gdb_out g' = 0x2b # packet [0x30, 0x31, 0x30, 0x32]"
proof -
  let ?s = "mk1_box [Chunk [JTAG_R_OK, 1, 0, 3, 2, 9, JTAG_R_OK]]"
  let ?g = "example_i [Chunk [JTAG_R_OK, 1, 0, 3, 2, 9, JTAG_R_OK]] (0x6d # [0x31] @ 0x2c # [0x32])"
  obtain bytes t where t: "jtag1_jtagRead 1 2 ?s = Some (Inr (Some bytes), t)" "take 2 bytes = [1, 2]"
    using jtag1_read_locations [of ?s 1 2 of_nat 9 "[]"] by (auto simp: example_locations ready1_def)
  then have "bytes = [1, 2] @ drop 2 bytes"
    by (metis append_take_drop_id)
  then have "op_jtagRead mk1_ops (int_addr 1) 2 (ice ?g) = Some (Inr (Some ([1, 2] @ drop 2 bytes)), t)"
    using t(1) by (simp add: mk1_ops_def int_addr_def example_states)
  from memory_read_served [of "[0x31]" "[0x32]" "[]" ?g mk1_ops "[1, 2]" "drop 2 bytes" t] this
  show ?thesis
    using example_request example_numbers
    by (auto simp: BUFMAX_def gdb_answered_def example_i_def gdb_link_def byteToHex_def hexchars_def)
qed

lemma memory_write_served_witness:
  "\<exists>g'. talkToGdb mk1_ops (example_i [Chunk [JTAG_R_OK, JTAG_R_OK, 9]] (write_request [0x32] [0x32] [2, 3])) = Some (Inr (), g') \<and>
     gdb_out g' = 0x2b # packet (chars ''OK'')"
proof -
  let ?s = "mk1_box [Chunk [JTAG_R_OK, JTAG_R_OK, 9]]"
  let ?g = "example_i [Chunk [JTAG_R_OK, JTAG_R_OK, 9]] (write_request [0x32] [0x32] [2, 3])"
  obtain buf t where "jtag1_jtagWrite 2 2 [2, 3] ?s = Some (Inr (True, buf), t)"
    using jtag1_write_locations [of ?s 2 2 9 "[]" of_nat] by (auto simp: example_locations ready1_def)
  then have "op_jtagWrite mk1_ops (int_addr 2) (of_nat (length [2, 3 :: u8])) [2, 3] (ice ?g) = Some (Inr True, t)"
    by (simp add: mk1_ops_def int_addr_def example_states io_simps)
  moreover have "length (write_request [0x32] [0x32] [2, 3]) < BUFMAX - 1"
    by (simp add: write_request_def byteToHex_def BUFMAX_def)
  ultimately show ?thesis
    using memory_write_served [of "[0x32]" "[0x32]" "[2, 3]" "[]" ?g 2 mk1_ops True t] example_request(2) example_numbers
    by (auto simp: gdb_answered_def example_i_def gdb_link_def)
qed

lemma mk2_continue_not_answered_witness:
  "\<exists>g'. talkToGdb mk2_ops (example_ii (bp_request 0x5a [0x30] [0x31] [0x32])) = Some (Inr (), g') \<and> last_cmd g' \<noteq> 0x63"
proof -
  let ?g = "example_ii (bp_request 0x5a [0x30] [0x31] [0x32])"
  obtain g' where "bp_served mk2_ops id 0x5a (word_of_int (hex_value [0x31])) [] ?g g'"
    using mk2_code.breakpoint_served [of "0x5a" "[0x30]" "[0x31]" "[0x32]" "[]" ?g] example_request(1) example_states(1)
    by (auto simp: hex_digits_def hex_def hex_value_def bp_mode_def BUFMAX_def)
  then have "talkToGdb mk2_ops ?g = Some (Inr (), g')"
    by (simp add: bp_served_def)
  with mk2_continue_not_answered [OF this] show ?thesis by blast
qed

end
