(* ===== verification/Mem_Image.thy ===== *)
theory Mem_Image
  imports Debug_Target
begin

text \<open>
  The memory image of a file: \<open>BFDimage\<close> of \<^verbatim>\<open>src/src/jtag.h\<close> and the \<open>static\<close> functions that
  \<^verbatim>\<open>src/src/jtagprog.cc\<close> and \<^verbatim>\<open>src/src/jtag2prog.cc\<close> both contain. What the BFD library
  reports of a file is a value of the record \<open>bfd_file\<close>.
\<close>

section \<open>Sections and images\<close>

text \<open>A section: the flags \<open>SEC_HAS_CONTENTS\<close>, \<open>SEC_ALLOC\<close> and \<open>SEC_LOAD\<close>, its load address and size, and the
  bytes that the buffer holds after \<open>bfd_get_section_contents\<close>.\<close>

record asection =
  sec_contents_flag :: bool
  sec_alloc :: bool
  sec_load :: bool
  lma :: u64
  sec_size :: u64
  sec_bytes :: "nat \<Rightarrow> u8"

definition MAX_IMAGE_SIZE :: nat where "MAX_IMAGE_SIZE = 1000000"

record AVRMemoryByte =
  byte_val :: u8
  byte_used :: bool

text \<open>The array \<open>image\<close> is a function of the index; an index from \<open>MAX_IMAGE_SIZE\<close> on is outside it.\<close>

record BFDimage =
  image_at :: "nat \<Rightarrow> AVRMemoryByte"
  last_address :: u32
  first_address :: u32
  first_address_ok :: bool
  has_data :: bool

definition initImage :: BFDimage where
  "initImage = \<lparr>image_at = (\<lambda>i. \<lparr>byte_val = 0, byte_used = False\<rparr>), last_address = 0, first_address = 0,
     first_address_ok = False, has_data = False\<rparr>"

text \<open>\<open>None\<close> for a load address from 0x820000 on: \<open>sectmemtype\<close> is compared without a value.\<close>

definition get_section_addr :: "asection \<Rightarrow> BFDmemoryType \<Rightarrow> u32 option" where
  "get_section_addr s memtype =
     (if sec_contents_flag s \<and> (sec_alloc s \<or> sec_load s) then
        let sectmemtype = (if lma s < DATA_SPACE_ADDR_OFFSET then Some MEM_FLASH
          else if lma s < EEPROM_SPACE_ADDR_OFFSET then Some MEM_RAM
          else if lma s < FUSE_SPACE_ADDR_OFFSET then Some MEM_EEPROM
          else None)
        in (case sectmemtype of
              None \<Rightarrow> None
            | Some t \<Rightarrow> Some (if memtype = t then ucast (if t = MEM_FLASH then lma s else lma s AND NOT ADDR_SPACE_MASK)
                else 0xffffff))
      else Some 0xffffff)"

primrec copy_section :: "(nat \<Rightarrow> u8) \<Rightarrow> u32 \<Rightarrow> nat \<Rightarrow> (nat \<Rightarrow> AVRMemoryByte) \<Rightarrow> (nat \<Rightarrow> AVRMemoryByte) option" where
  "copy_section buf addr 0 img = Some img"
| "copy_section buf addr (Suc i) img =
     Option.bind (copy_section buf addr i img) (\<lambda>im.
       let c = unat (of_nat i + addr) in
       if c < MAX_IMAGE_SIZE then Some (im(c := \<lparr>byte_val = buf i, byte_used = True\<rparr>)) else None)"

definition jtag_create_image :: "asection \<Rightarrow> BFDmemoryType \<Rightarrow> BFDimage \<Rightarrow> BFDimage option" where
  "jtag_create_image s memtype img =
     (let size = ucast (sec_size s) :: u32 in
      Option.bind (get_section_addr s memtype) (\<lambda>addr.
      if addr = 0xffffff then Some img
      else if MAX_IMAGE_SIZE < unat size then None
      else Option.bind (copy_section (sec_bytes s) addr (unat size) (image_at img)) (\<lambda>cells.
        let img = img\<lparr>image_at := cells\<rparr>;
            img = (if last_address img < addr + size then img\<lparr>last_address := addr + size\<rparr> else img);
            img = (if \<not> first_address_ok img \<or> addr < first_address img
              then img\<lparr>first_address := addr, first_address_ok := True\<rparr> else img)
        in Some (img\<lparr>has_data := True\<rparr>))))"

text \<open>The loop over the sections of the file, for both images.\<close>

fun create_images :: "asection list \<Rightarrow> BFDimage \<times> BFDimage \<Rightarrow> (BFDimage \<times> BFDimage) option" where
  "create_images [] imgs = Some imgs"
| "create_images (p # ps) (flashimg, eepromimg) =
     Option.bind (jtag_create_image p MEM_FLASH flashimg) (\<lambda>flashimg.
     Option.bind (jtag_create_image p MEM_EEPROM eepromimg) (\<lambda>eepromimg.
     create_images ps (flashimg, eepromimg)))"

section \<open>The file\<close>

datatype bfd_error = file_not_recognized | file_ambiguously_recognized | other_error

record bfd_file =
  is_archive :: bool
  is_object :: bool
  format_error :: bfd_error
  is_core :: bool
  sections :: "asection list"
  close_status :: int

definition check_file_format :: "bfd_file \<Rightarrow> int" where
  "check_file_format f =
     (if is_archive f then 1
      else if is_object f then 0
      else if format_error f = file_ambiguously_recognized then 1
      else if format_error f \<noteq> file_not_recognized then 1
      else if is_core f then 0
      else 1)"

text \<open>\<open>bfd_openr(filename, target)\<close>, where \<open>None\<close> is the null pointer, for the file named on the command line,
  and the result of \<open>stat\<close>.\<close>

record host =
  stat_status :: int
  bfd_openr :: "string option \<Rightarrow> bfd_file option"

partial_function (option) open_file :: "host \<Rightarrow> string option \<Rightarrow> (err + bfd_file) option" where
  "open_file h target =
     (case bfd_openr h target of
        None \<Rightarrow> Some (Inl (Exited (-1)))
      | Some f \<Rightarrow> if check_file_format f \<noteq> 0 then open_file h (Some ''binary'') else Some (Inr f))"

text \<open>The comment says that the loop runs at most twice; a file that the target \<open>binary\<close> does not recognise
  either is opened for ever.\<close>

lemma open_file_loops:
  assumes "bfd_openr h (Some ''binary'') = Some b" "check_file_format b \<noteq> 0"
  shows "open_file h (Some ''binary'') = None"
proof -
  have "open_file h t = Some r \<Longrightarrow> t \<noteq> Some ''binary''" for t r
    by (erule open_file.raw_induct [where P = "\<lambda>h' t r. h' = h \<longrightarrow> t \<noteq> Some ''binary''", rotated, THEN mp])
      (use assms in \<open>auto split: option.splits if_splits\<close>)
  then show ?thesis by (metis not_None_eq)
qed

section \<open>What the image holds\<close>

text \<open>The byte that a section puts at the address \<open>c\<close>, and the one that the file has there: a later section
  replaces an earlier one.\<close>

definition section_byte :: "BFDmemoryType \<Rightarrow> asection \<Rightarrow> nat \<Rightarrow> u8 option" where
  "section_byte memtype s c =
     (case get_section_addr s memtype of
        None \<Rightarrow> None
      | Some a \<Rightarrow> if a \<noteq> 0xffffff \<and> unat a \<le> c \<and> c < unat a + unat (ucast (sec_size s) :: u32)
          then Some (sec_bytes s (c - unat a)) else None)"

definition file_byte :: "BFDmemoryType \<Rightarrow> asection list \<Rightarrow> nat \<Rightarrow> u8 option" where
  "file_byte memtype ps c =
     foldl (\<lambda>r s. case section_byte memtype s c of None \<Rightarrow> r | Some v \<Rightarrow> Some v) None ps"

definition memory_cell :: "u8 option \<Rightarrow> AVRMemoryByte" where
  "memory_cell b = (case b of None \<Rightarrow> \<lparr>byte_val = 0, byte_used = False\<rparr> | Some v \<Rightarrow> \<lparr>byte_val = v, byte_used = True\<rparr>)"

text \<open>The used cells lie between the first and the last address and in the array.\<close>

definition image_ok :: "BFDimage \<Rightarrow> bool" where
  "image_ok img \<longleftrightarrow> has_data img = first_address_ok img \<and>
     (\<forall>c. byte_used (image_at img c) \<longrightarrow> first_address_ok img \<and> unat (first_address img) \<le> c \<and> c < unat (last_address img) \<and> c < MAX_IMAGE_SIZE)"

lemma section_addr_bound:
  assumes "get_section_addr s memtype = Some a"
  shows "unat a < 0x1000000"
proof -
  have "lma s AND NOT ADDR_SPACE_MASK \<le> lma s"
    by (rule word_and_le2)
  then show ?thesis
    using assms
    by (auto simp: get_section_addr_def Let_def code_defs word_le_nat_alt word_less_nat_alt unsigned_ucast_eq take_bit_nat_eq_self
        split: if_splits option.splits intro!: le_less_trans [OF take_bit_nat_less_eq_self])
qed

lemma copy_section_spec:
  assumes "copy_section buf addr n img = Some im" "unat addr + n < 2 ^ 32"
  shows "(n = 0 \<or> unat addr + n \<le> MAX_IMAGE_SIZE) \<and>
    im = (\<lambda>c. if unat addr \<le> c \<and> c < unat addr + n then \<lparr>byte_val = buf (c - unat addr), byte_used = True\<rparr> else img c)"
  using assms
proof (induction n arbitrary: im)
  case (Suc n)
  then obtain im' where im': "copy_section buf addr n img = Some im'"
    by (auto split: bind_splits)
  have "unat (of_nat n + addr) = unat addr + n"
    using Suc.prems(2) by (simp add: unat_word_ariths unat_of_nat)
  then have "unat addr + n < MAX_IMAGE_SIZE" "im = im'(unat addr + n := \<lparr>byte_val = buf n, byte_used = True\<rparr>)"
    using Suc.prems(1) im' by (auto simp: Let_def split: if_splits)
  then show ?case
    using Suc.IH [OF im'] Suc.prems(2) by (auto simp: fun_eq_iff)
qed (auto simp: fun_eq_iff)

lemma copy_section_defined: "unat addr + n \<le> MAX_IMAGE_SIZE \<Longrightarrow> \<exists>im. copy_section buf addr n img = Some im"
proof (induction n)
  case (Suc n)
  then have "unat (of_nat n + addr) = unat addr + n"
    by (simp add: unat_word_ariths unat_of_nat MAX_IMAGE_SIZE_def)
  with Suc show ?case by (auto simp: Let_def)
qed simp

text \<open>A section fits: its load address belongs to a memory type, and its bytes are inside the array.\<close>

definition section_fits :: "BFDmemoryType \<Rightarrow> asection \<Rightarrow> bool" where
  "section_fits memtype s =
     (case get_section_addr s memtype of
        None \<Rightarrow> False
      | Some a \<Rightarrow> a = 0xffffff \<or> unat (ucast (sec_size s) :: u32) = 0 \<or> unat a + unat (ucast (sec_size s) :: u32) \<le> MAX_IMAGE_SIZE)"

lemma create_image_defined: "jtag_create_image s memtype img \<noteq> None \<longleftrightarrow> section_fits memtype s"
proof (cases "get_section_addr s memtype")
  case (Some a)
  define n where "n = unat (ucast (sec_size s) :: u32)"
  have "unat a + n < 2 ^ 32" if "n \<le> MAX_IMAGE_SIZE"
    using section_addr_bound [OF Some] that by (simp add: MAX_IMAGE_SIZE_def)
  then have "(n \<le> MAX_IMAGE_SIZE \<and> copy_section (sec_bytes s) a n (image_at img) \<noteq> None) = (n = 0 \<or> unat a + n \<le> MAX_IMAGE_SIZE)"
    using copy_section_spec [of "sec_bytes s" a n "image_at img"] copy_section_defined [of a n "sec_bytes s" "image_at img"]
    by (cases "n = 0") auto
  then show ?thesis
    by (auto simp: jtag_create_image_def section_fits_def Some Let_def n_def [symmetric] not_less)
qed (simp add: jtag_create_image_def section_fits_def)

lemma create_image_spec:
  assumes "jtag_create_image s memtype img = Some img'" "image_ok img"
  shows "image_ok img' \<and> image_at img' c = (case section_byte memtype s c of None \<Rightarrow> image_at img c | Some v \<Rightarrow> memory_cell (Some v))"
proof -
  define n where "n = unat (ucast (sec_size s) :: u32)"
  obtain a where a: "get_section_addr s memtype = Some a"
    using assms(1) by (auto simp: jtag_create_image_def Let_def split: bind_splits)
  note bound = section_addr_bound [OF a]
  show ?thesis
  proof (cases "a = 0xffffff")
    case True
    then show ?thesis
      using assms a by (simp add: jtag_create_image_def section_byte_def)
  next
    case False
    then obtain cells where cells: "copy_section (sec_bytes s) a n (image_at img) = Some cells" "n \<le> MAX_IMAGE_SIZE"
      using assms(1) a by (auto simp: jtag_create_image_def Let_def n_def split: bind_splits if_splits)
    have "unat a + n < 2 ^ 32"
      using bound cells(2) by (simp add: MAX_IMAGE_SIZE_def)
    note spec = copy_section_spec [OF cells(1) this]
    let ?size = "ucast (sec_size s) :: u32"
    have img': "image_at img' = cells" "has_data img'" "first_address_ok img'"
      "last_address img' = (if last_address img < a + ?size then a + ?size else last_address img)"
      "first_address img' = (if \<not> first_address_ok img \<or> a < first_address img then a else first_address img)"
      using assms(1) a cells False by (auto simp: jtag_create_image_def Let_def n_def)
    have "unat (a + ?size) = unat a + n"
      using bound cells(2) by (simp add: unat_word_ariths n_def MAX_IMAGE_SIZE_def)
    then have "image_ok img'"
      using spec assms(2) by (auto simp: image_ok_def img' word_less_nat_alt split: if_splits)
    then show ?thesis
      using spec a False by (simp add: section_byte_def img' memory_cell_def n_def)
  qed
qed

lemma create_images_spec:
  assumes "create_images ps (flash, eeprom) = Some (flash', eeprom')" "image_ok flash" "image_ok eeprom"
    and "image_at flash c = memory_cell bf" "image_at eeprom c = memory_cell be"
  shows "image_ok flash' \<and> image_ok eeprom' \<and>
     image_at flash' c = memory_cell (foldl (\<lambda>r s. case section_byte MEM_FLASH s c of None \<Rightarrow> r | Some v \<Rightarrow> Some v) bf ps) \<and>
     image_at eeprom' c = memory_cell (foldl (\<lambda>r s. case section_byte MEM_EEPROM s c of None \<Rightarrow> r | Some v \<Rightarrow> Some v) be ps)"
  using assms
proof (induction ps arbitrary: flash eeprom bf be)
  case (Cons p ps)
  then obtain f e where fe: "jtag_create_image p MEM_FLASH flash = Some f" "jtag_create_image p MEM_EEPROM eeprom = Some e"
      "create_images ps (f, e) = Some (flash', eeprom')"
    by (auto split: bind_splits)
  note step = create_image_spec [OF fe(1) Cons.prems(2), of c] create_image_spec [OF fe(2) Cons.prems(3), of c]
  have "image_at f c = memory_cell (case section_byte MEM_FLASH p c of None \<Rightarrow> bf | Some v \<Rightarrow> Some v)"
    "image_at e c = memory_cell (case section_byte MEM_EEPROM p c of None \<Rightarrow> be | Some v \<Rightarrow> Some v)"
    using step Cons.prems(4,5) by (auto split: option.splits)
  from Cons.IH [OF fe(3) _ _ this] step show ?case by simp
qed simp

lemma create_images_defined:
  "create_images ps imgs \<noteq> None \<longleftrightarrow> (\<forall>p \<in> set ps. section_fits MEM_FLASH p \<and> section_fits MEM_EEPROM p)"
proof (induction ps arbitrary: imgs)
  case (Cons p ps)
  show ?case
    using create_image_defined [of p MEM_FLASH "fst imgs"] create_image_defined [of p MEM_EEPROM "snd imgs"] Cons.IH
    by (cases imgs; cases "jtag_create_image p MEM_FLASH (fst imgs)"; cases "jtag_create_image p MEM_EEPROM (snd imgs)") auto
qed simp

section \<open>The first and the last address\<close>

text \<open>The extents of the sections of a memory: the address of the first byte and the one behind the last.\<close>

definition extent :: "BFDmemoryType \<Rightarrow> asection \<Rightarrow> (nat \<times> nat) set" where
  "extent memtype s = (case get_section_addr s memtype of
       None \<Rightarrow> {}
     | Some a \<Rightarrow> if a = 0xffffff then {} else {(unat a, unat a + unat (ucast (sec_size s) :: u32))})"

definition extents :: "BFDmemoryType \<Rightarrow> asection list \<Rightarrow> (nat \<times> nat) set" where
  "extents memtype ps = (\<Union>p \<in> set ps. extent memtype p)"

text \<open>An image knows the least first and the greatest last address of the sections of its memory, or that there are none.\<close>

definition image_spans :: "BFDimage \<Rightarrow> (nat \<times> nat) set \<Rightarrow> bool" where
  "image_spans img es \<longleftrightarrow>
     (if es = {} then \<not> has_data img \<and> \<not> first_address_ok img \<and> last_address img = 0
      else has_data img \<and> first_address_ok img \<and> unat (first_address img) = Min (fst ` es) \<and> unat (last_address img) = Max (snd ` es))"

lemma finite_extent [simp]: "finite (extent memtype s)"
  by (simp add: extent_def split: option.split)

lemma image_spans_step:
  assumes "jtag_create_image s memtype img = Some img'" "image_spans img es" "finite es"
  shows "image_spans img' (es \<union> extent memtype s)"
proof -
  define n where "n = unat (ucast (sec_size s) :: u32)"
  obtain a where a: "get_section_addr s memtype = Some a"
    using assms(1) by (auto simp: jtag_create_image_def Let_def split: bind_splits)
  show ?thesis
  proof (cases "a = 0xffffff")
    case True
    then show ?thesis
      using assms(1,2) a by (simp add: jtag_create_image_def extent_def)
  next
    case False
    let ?behind = "a + ucast (sec_size s)"
    have n: "n \<le> MAX_IMAGE_SIZE"
      using assms(1) a False by (auto simp: jtag_create_image_def Let_def n_def split: bind_splits if_splits)
    have img': "has_data img'" "first_address_ok img'"
      "last_address img' = (if last_address img < ?behind then ?behind else last_address img)"
      "first_address img' = (if \<not> first_address_ok img \<or> a < first_address img then a else first_address img)"
      using assms(1) a False by (auto simp: jtag_create_image_def Let_def split: bind_splits if_splits)
    have stop: "unat ?behind = unat a + n"
      using section_addr_bound [OF a] n by (simp add: unat_word_ariths n_def MAX_IMAGE_SIZE_def)
    have es: "es \<union> extent memtype s = insert (unat a, unat a + n) es"
      using a False by (simp add: extent_def n_def)
    show ?thesis
    proof (cases "es = {}")
      case True
      then show ?thesis
        using assms(2) stop unfolding es by (auto simp: image_spans_def img' word_less_nat_alt)
    next
      case ne: False
      then have "Min (fst ` insert (unat a, unat a + n) es) = min (unat a) (Min (fst ` es))"
        "Max (snd ` insert (unat a, unat a + n) es) = max (unat a + n) (Max (snd ` es))"
        using assms(3) by (simp_all del: Min_insert2)
      moreover have "first_address_ok img" "unat (first_address img) = Min (fst ` es)" "unat (last_address img) = Max (snd ` es)"
        using assms(2) ne by (simp_all add: image_spans_def)
      ultimately show ?thesis
        unfolding es image_spans_def word_less_nat_alt by (simp add: img' stop word_less_nat_alt min_def max_def)
    qed
  qed
qed

lemma create_images_spans:
  assumes "create_images ps (flash, eeprom) = Some (flash', eeprom')"
    and "image_spans flash fs" "image_spans eeprom es" "finite fs" "finite es"
  shows "image_spans flash' (fs \<union> extents MEM_FLASH ps) \<and> image_spans eeprom' (es \<union> extents MEM_EEPROM ps)"
  using assms
proof (induction ps arbitrary: flash eeprom fs es)
  case (Cons p ps)
  then obtain f e where fe: "jtag_create_image p MEM_FLASH flash = Some f" "jtag_create_image p MEM_EEPROM eeprom = Some e"
      "create_images ps (f, e) = Some (flash', eeprom')"
    by (auto split: bind_splits)
  have "image_spans f (fs \<union> extent MEM_FLASH p)" "image_spans e (es \<union> extent MEM_EEPROM p)"
    using image_spans_step fe(1,2) Cons.prems(2-5) by blast+
  from Cons.IH [OF fe(3) this] Cons.prems(4,5) show ?case
    by (simp add: extents_def Un_assoc)
qed (simp add: extents_def)

section \<open>Properties\<close>

text \<open>C31: the images of a file are built exactly when each of its sections fits: its load address is below
  0x820000 and its bytes lie within the array of 1000000 cells; otherwise the code reads a variable
  without a value or writes behind the array. The images then hold exactly the bytes of the sections:
  a cell of the flash image is used exactly when a section for program memory covers its address, and
  has the byte of the last such section; so for the EEPROM. The first and the last address of an image are the
  least address at which a section of its memory begins and the greatest behind one (a section
  without bytes counts), so that the used cells lie between them; without such a section it has no data.\<close>

theorem images_hold_sections:
  "case create_images ps (initImage, initImage) of
     None \<Rightarrow> \<not> list_all (\<lambda>p. section_fits MEM_FLASH p \<and> section_fits MEM_EEPROM p) ps
   | Some (flash, eeprom) \<Rightarrow> list_all (\<lambda>p. section_fits MEM_FLASH p \<and> section_fits MEM_EEPROM p) ps \<and>
       image_at flash c = memory_cell (file_byte MEM_FLASH ps c) \<and> image_at eeprom c = memory_cell (file_byte MEM_EEPROM ps c) \<and>
       image_ok flash \<and> image_ok eeprom \<and> image_spans flash (extents MEM_FLASH ps) \<and> image_spans eeprom (extents MEM_EEPROM ps)"
proof (cases "create_images ps (initImage, initImage)")
  case None
  then show ?thesis
    using create_images_defined [of ps "(initImage, initImage)"] by (simp add: list_all_iff)
next
  case (Some imgs)
  then obtain flash eeprom where imgs: "create_images ps (initImage, initImage) = Some (flash, eeprom)"
    by (cases imgs) auto
  have "image_ok initImage" "image_at initImage c = memory_cell None"
    by (simp_all add: image_ok_def initImage_def memory_cell_def)
  moreover have "image_spans initImage {}"
    by (simp add: image_spans_def initImage_def)
  ultimately show ?thesis
    using create_images_spec [OF imgs, of c None None] create_images_spans [OF imgs, of "{}" "{}"]
      imgs create_images_defined [of ps "(initImage, initImage)"] by (simp add: file_byte_def list_all_iff)
qed

end
