(* ===== verification/Flash_Download.thy ===== *)
theory Flash_Download
  imports Mem_Image
begin

text \<open>
  Programming and verifying a target: the functions of \<open>class jtag\<close> in \<^verbatim>\<open>src/src/jtaggeneric.cc\<close>
  for memory images, fuses and lock bits, written against the table of methods of a driver, and
  \<open>downloadToTarget\<close> of both drivers. The texts and dots on the console are left out.
\<close>

lemma unat_u32_less: "unat (w :: u32) < 4294967296"
  using unsigned_less [of w] by simp

section \<open>Pages\<close>

definition get_page_size :: "'j target_ops \<Rightarrow> BFDmemoryType \<Rightarrow> ('j, u32) io" where
  "get_page_size ops memtype =
     io_bind (io_get (op_device ops)) (\<lambda>d.
     io_defined (case memtype of
         MEM_FLASH \<Rightarrow> map_option flash_page_size d
       | MEM_EEPROM \<Rightarrow> map_option (\<lambda>d. ucast (eeprom_page_size d)) d
       | MEM_RAM \<Rightarrow> Some 1))"

definition page_addr :: "u32 \<Rightarrow> u32 \<Rightarrow> u32" where
  "page_addr page_size addr = addr AND NOT (page_size - 1)"

text \<open>\<open>None\<close> is an access outside the array of the image.\<close>

definition image_cell :: "BFDimage \<Rightarrow> u32 \<Rightarrow> AVRMemoryByte option" where
  "image_cell img c = (if unat c < MAX_IMAGE_SIZE then Some (image_at img (unat c)) else None)"

function pageIsEmpty_loop :: "BFDimage \<Rightarrow> BFDmemoryType \<Rightarrow> u32 \<Rightarrow> u32 \<Rightarrow> bool option" where
  "pageIsEmpty_loop img memtype idx bound =
     (if \<not> idx < bound then Some True
      else if last_address img \<le> idx then Some True
      else Option.bind (image_cell img idx) (\<lambda>b.
        if byte_used b \<and> \<not> (memtype = MEM_FLASH \<and> byte_val b = 0xff) then Some False
        else pageIsEmpty_loop img memtype (idx + 1) bound))"
  by pat_completeness auto

termination
proof (relation "measure (\<lambda>(img, memtype, idx, bound). unat bound - unat idx)")
  fix idx bound :: u32
  assume "\<not> \<not> idx < bound"
  then have "unat (idx + 1) = unat idx + 1" "unat idx < unat bound"
    using unat_u32_less [of bound] by (auto simp: word_less_nat_alt unat_word_ariths)
  then show "((img, memtype, idx + 1, bound), img, memtype, idx, bound) \<in> measure (\<lambda>(img, memtype, idx, bound). unat bound - unat idx)" for img memtype
    by simp
qed simp

declare pageIsEmpty_loop.simps [simp del]

definition pageIsEmpty :: "BFDimage \<Rightarrow> u32 \<Rightarrow> u32 \<Rightarrow> BFDmemoryType \<Rightarrow> bool option" where
  "pageIsEmpty img addr page_size memtype = pageIsEmpty_loop img memtype addr (addr + page_size)"

text \<open>The raw data of a page: \<open>buf[i] = image->image[i + addr].val\<close>.\<close>

primrec page_buffer :: "BFDimage \<Rightarrow> u32 \<Rightarrow> nat \<Rightarrow> u8 list option" where
  "page_buffer img addr 0 = Some []"
| "page_buffer img addr (Suc i) =
     Option.bind (page_buffer img addr i) (\<lambda>buf.
       if i < MAX_IMAGE_SIZE then map_option (\<lambda>b. buf @ [byte_val b]) (image_cell img (of_nat i + addr)) else None)"

section \<open>Programming\<close>

definition write_page :: "'j target_ops \<Rightarrow> BFDimage \<Rightarrow> BFDmemoryType \<Rightarrow> u32 \<Rightarrow> u32 \<Rightarrow> ('j, unit) io" where
  "write_page ops img memtype page_size addr =
     io_bind (io_defined (page_buffer img addr (unat page_size))) (\<lambda>buf.
     io_bind (op_jtagWrite ops (ucast (ucast (BFDmemorySpaceOffset memtype) + addr)) page_size buf) (\<lambda>written.
     check written ''Error writing to target''))"

partial_function (option) program_loop :: "'j target_ops \<Rightarrow> BFDimage \<Rightarrow> BFDmemoryType \<Rightarrow> u32 \<Rightarrow> u32 \<Rightarrow> 'j \<Rightarrow> ((err + unit) \<times> 'j) option" where
  "program_loop ops img memtype page_size addr s =
     (if addr < last_address img then
        io_bind (io_bind (io_defined (pageIsEmpty img addr page_size memtype)) (\<lambda>empty.
            if \<not> empty then write_page ops img memtype page_size addr else io_ret ()))
          (\<lambda>_ t. program_loop ops img memtype page_size (addr + page_size) t) s
      else Some (Inr (), s))"

section \<open>Verifying\<close>

text \<open>The bytes of one page from the \<open>i\<close>-th on; a null pointer has no bytes.\<close>

primrec verify_bytes :: "BFDimage \<Rightarrow> u8 list option \<Rightarrow> u32 \<Rightarrow> nat \<Rightarrow> bool \<Rightarrow> bool option" where
  "verify_bytes img response addr 0 verified = Some verified"
| "verify_bytes img response addr (Suc i) verified =
     Option.bind (verify_bytes img response addr i verified) (\<lambda>v.
     Option.bind (image_cell img (of_nat i + addr)) (\<lambda>b.
       if byte_used b then Option.bind response (\<lambda>r. map_option (\<lambda>x. v \<and> byte_val b = x) (cell r i))
       else Some v))"

partial_function (option) verify_loop :: "'j target_ops \<Rightarrow> BFDimage \<Rightarrow> BFDmemoryType \<Rightarrow> u32 \<Rightarrow> u32 \<Rightarrow> bool \<Rightarrow> 'j \<Rightarrow> ((err + bool) \<times> 'j) option" where
  "verify_loop ops img memtype page_size addr verified s =
     (if addr < last_address img then
        io_bind (io_bind (op_jtagRead ops (ucast (ucast (BFDmemorySpaceOffset memtype) + addr)) page_size) (\<lambda>response.
            io_defined (verify_bytes img response addr (unat page_size) verified)))
          (\<lambda>v t. verify_loop ops img memtype page_size (addr + page_size) v t) s
      else Some (Inr verified, s))"

definition jtag_flash_image :: "'j target_ops \<Rightarrow> BFDimage \<Rightarrow> BFDmemoryType \<Rightarrow> bool \<Rightarrow> bool \<Rightarrow> ('j, unit) io" where
  "jtag_flash_image ops img memtype program verify =
     io_bind (get_page_size ops memtype) (\<lambda>page_size.
     if \<not> has_data img then io_throw (Exited (-1))
     else
       io_then (if program then program_loop ops img memtype page_size (page_addr page_size (first_address img)) else io_ret ())
      (if verify then
         io_bind (verify_loop ops img memtype page_size (page_addr page_size (first_address img)) True) (\<lambda>is_verified.
         check is_verified (CHR 0x0A # ''Verification failed!''))
       else io_ret ()))"

section \<open>Downloading a file\<close>

definition download_images :: "'j target_ops \<Rightarrow> bfd_file \<Rightarrow> bool \<Rightarrow> bool \<Rightarrow> ('j, unit) io" where
  "download_images ops file program verify =
     io_bind (io_defined (create_images (sections file) (initImage, initImage))) (\<lambda>(flashimg, eepromimg).
     io_then (op_enableProgramming ops)
    (io_then (if has_data flashimg then jtag_flash_image ops flashimg MEM_FLASH program verify else io_ret ())
    (io_then (if has_data eepromimg then jtag_flash_image ops eepromimg MEM_EEPROM program verify else io_ret ())
    (io_then (op_disableProgramming ops)
      (unixCheck (close_status file) ''Error closing %s'')))))"

definition jtag1_downloadToTarget :: "host \<Rightarrow> bool \<Rightarrow> bool \<Rightarrow> ('z jtag1_scheme, unit) io" where
  "jtag1_downloadToTarget h program verify =
     io_then (unixCheck (stat_status h) ''Can't stat() file %s'')
    (io_bind (\<lambda>s. map_option (\<lambda>r. (r, s)) (open_file h None)) (\<lambda>file.
     io_bind (get_page_size mk1_ops MEM_FLASH) (\<lambda>page_size.
     io_bind (get_page_size mk1_ops MEM_EEPROM) (\<lambda>eeprom_size.
     io_then (jtag1_setJtagParameter JTAG_P_FLASH_PAGESIZE_LOW (ucast (page_size AND 0xff)))
    (io_then (jtag1_setJtagParameter JTAG_P_FLASH_PAGESIZE_HIGH (ucast (drop_bit 8 page_size)))
    (io_then (jtag1_setJtagParameter JTAG_P_EEPROM_PAGESIZE (ucast eeprom_size))
      (download_images mk1_ops file program verify)))))))"

definition jtag2_downloadToTarget :: "host \<Rightarrow> bool \<Rightarrow> bool \<Rightarrow> ('z jtag2_scheme, unit) io" where
  "jtag2_downloadToTarget h program verify =
     io_then (unixCheck (stat_status h) ''Can't stat() file %s'')
    (io_bind (\<lambda>s. map_option (\<lambda>r. (r, s)) (open_file h None)) (\<lambda>file.
     io_bind (get_page_size mk2_ops MEM_FLASH) (\<lambda>page_size.
     io_bind (get_page_size mk2_ops MEM_EEPROM) (\<lambda>eeprom_size.
       download_images mk2_ops file program verify))))"

section \<open>The pages of an image\<close>

text \<open>The addresses of the pages from \<open>addr\<close> on that begin below the last address.\<close>

definition page_count :: "BFDimage \<Rightarrow> u32 \<Rightarrow> u32 \<Rightarrow> nat" where
  "page_count img page_size addr = (unat (last_address img) - unat addr + unat page_size - 1) div unat page_size"

definition page_list :: "BFDimage \<Rightarrow> u32 \<Rightarrow> u32 \<Rightarrow> u32 list" where
  "page_list img page_size addr = map (\<lambda>k. addr + of_nat k * page_size) [0..<page_count img page_size addr]"

lemma count_step:
  assumes "0 < p" "a < (l :: nat)"
  shows "(l - a + p - 1) div p = Suc ((l - (a + p) + p - 1) div p)"
proof (cases "a + p \<le> l")
  case True
  then have "l - a + p - 1 = (l - (a + p) + p - 1) + p"
    using assms by simp
  then show ?thesis
    using assms(1) by (simp only: div_add_self2)
next
  case False
  then have "l - a + p - 1 = (l - a - 1) + p" "l - a - 1 < p" "l - (a + p) + p - 1 < p"
    using assms by auto
  then show ?thesis
    using assms(1) by (simp only: div_add_self2) simp
qed

lemma page_list_rec:
  assumes "page_size \<noteq> 0" "unat (last_address img) + unat page_size < 2 ^ 32"
  shows "page_list img page_size addr =
    (if addr < last_address img then addr # page_list img page_size (addr + page_size) else [])"
proof (cases "addr < last_address img")
  case True
  have p: "0 < unat page_size"
    using assms(1) by (simp add: unat_gt_0)
  have next_addr: "unat (addr + page_size) = unat addr + unat page_size"
    using True assms(2) by (simp add: unat_word_ariths word_less_nat_alt)
  have "page_count img page_size addr = Suc (page_count img page_size (addr + page_size))"
    using True p unfolding page_count_def next_addr word_less_nat_alt by (intro count_step)
  then have "[0..<page_count img page_size addr] = 0 # map Suc [0..<page_count img page_size (addr + page_size)]"
    by (simp only: map_Suc_upt) (simp add: upt_conv_Cons)
  then show ?thesis
    using True by (simp add: page_list_def algebra_simps)
next
  case False
  then have "unat (last_address img) - unat addr = 0"
    by (simp add: word_less_nat_alt)
  moreover have "0 < unat page_size"
    using assms(1) by (simp add: unat_gt_0)
  ultimately have "page_count img page_size addr = 0"
    by (simp add: page_count_def)
  then show ?thesis
    using False by (simp add: page_list_def)
qed

text \<open>An empty page has no used byte, or only used bytes of flash that are 0xff.\<close>

definition needs_write :: "BFDmemoryType \<Rightarrow> AVRMemoryByte \<Rightarrow> bool" where
  "needs_write memtype b \<longleftrightarrow> byte_used b \<and> \<not> (memtype = MEM_FLASH \<and> byte_val b = 0xff)"

definition page_needed :: "BFDimage \<Rightarrow> BFDmemoryType \<Rightarrow> u32 \<Rightarrow> u32 \<Rightarrow> bool" where
  "page_needed img memtype page_size addr \<longleftrightarrow>
     list_ex (\<lambda>c. needs_write memtype (image_at img c)) [unat addr..<min (unat addr + unat page_size) (unat (last_address img))]"

lemma pageIsEmpty_loop_spec:
  "unat (last_address img) \<le> MAX_IMAGE_SIZE \<Longrightarrow> pageIsEmpty_loop img memtype idx bound =
    Some (\<not> list_ex (\<lambda>c. needs_write memtype (image_at img c)) [unat idx..<min (unat bound) (unat (last_address img))])"
proof (induction img memtype idx bound rule: pageIsEmpty_loop.induct)
  case (1 img memtype idx bound)
  show ?case
  proof (cases "idx < bound \<and> idx < last_address img")
    case True
    let ?stop = "min (unat bound) (unat (last_address img))"
    have step: "unat (idx + 1) = Suc (unat idx)" "unat idx < ?stop"
      using True unat_u32_less [of bound] by (auto simp: word_less_nat_alt unat_word_ariths)
    then have "[unat idx..<?stop] = unat idx # [unat (idx + 1)..<?stop]"
      by (simp add: upt_conv_Cons)
    moreover have "image_cell img idx = Some (image_at img (unat idx))"
      using step(2) "1.prems" by (simp add: image_cell_def)
    ultimately show ?thesis
      using True "1.IH" "1.prems" by (subst pageIsEmpty_loop.simps) (auto simp: needs_write_def not_le)
  next
    case False
    then have "[unat idx..<min (unat bound) (unat (last_address img))] = []"
      by (auto simp: word_less_nat_alt)
    then show ?thesis
      using False by (subst pageIsEmpty_loop.simps) auto
  qed
qed

lemma pageIsEmpty_spec:
  assumes "unat (last_address img) \<le> MAX_IMAGE_SIZE" "unat addr + unat page_size < 2 ^ 32"
  shows "pageIsEmpty img addr page_size memtype = Some (\<not> page_needed img memtype page_size addr)"
proof -
  have "unat (addr + page_size) = unat addr + unat page_size"
    using assms(2) by (simp add: unat_word_ariths)
  then show ?thesis
    using pageIsEmpty_loop_spec [OF assms(1)] by (simp add: pageIsEmpty_def page_needed_def)
qed

text \<open>The pages in ascending order.\<close>

fun write_pages :: "'j target_ops \<Rightarrow> BFDimage \<Rightarrow> BFDmemoryType \<Rightarrow> u32 \<Rightarrow> u32 list \<Rightarrow> ('j, unit) io" where
  "write_pages ops img memtype page_size [] = io_ret ()"
| "write_pages ops img memtype page_size (a # as) =
     io_then (write_page ops img memtype page_size a) (write_pages ops img memtype page_size as)"

lemma program_loop_pages:
  assumes "page_size \<noteq> 0" "unat (last_address img) \<le> MAX_IMAGE_SIZE" "unat page_size < 0x10000"
  shows "program_loop ops img memtype page_size addr s =
    write_pages ops img memtype page_size (filter (page_needed img memtype page_size) (page_list img page_size addr)) s"
proof (induction "page_list img page_size addr" arbitrary: addr s)
  case Nil
  have fits: "unat (last_address img) + unat page_size < 2 ^ 32"
    using assms(2,3) by (simp add: MAX_IMAGE_SIZE_def)
  show ?case
    using Nil page_list_rec [OF assms(1) fits, of addr]
    by (auto simp: program_loop.simps [of ops img] io_simps split: if_splits)
next
  case (Cons a as)
  have fits: "unat (last_address img) + unat page_size < 2 ^ 32"
    using assms(2,3) by (simp add: MAX_IMAGE_SIZE_def)
  have addr: "addr < last_address img" "a = addr" "as = page_list img page_size (addr + page_size)"
    using Cons.hyps(2) page_list_rec [OF assms(1) fits, of addr] by (auto split: if_splits)
  have "unat addr + unat page_size < 2 ^ 32"
    using addr(1) fits by (simp add: word_less_nat_alt)
  then have empty: "pageIsEmpty img addr page_size memtype = Some (\<not> page_needed img memtype page_size addr)"
    by (rule pageIsEmpty_spec [OF assms(2)])
  have tail: "program_loop ops img memtype page_size (addr + page_size) = write_pages ops img memtype page_size (filter (page_needed img memtype page_size) as)"
    using Cons.hyps(1) [OF addr(3)] addr(3) by (simp add: fun_eq_iff)
  have "program_loop ops img memtype page_size addr s = io_then (if page_needed img memtype page_size addr
      then write_page ops img memtype page_size addr else io_ret ()) (program_loop ops img memtype page_size (addr + page_size)) s"
    using addr(1) empty by (subst program_loop.simps) (simp add: io_then_def io_simps io_bind_ret_left)
  then show ?case
    using Cons.hyps(2) [symmetric] addr(2) by (simp add: tail io_then_def io_bind_ret_left)
qed

lemma page_buffer_spec:
  assumes "unat addr + n \<le> MAX_IMAGE_SIZE"
  shows "page_buffer img addr n = Some (map (\<lambda>c. byte_val (image_at img c)) [unat addr..<unat addr + n])"
  using assms
proof (induction n)
  case (Suc n)
  then have "unat (of_nat n + addr) = unat addr + n"
    by (simp add: unat_word_ariths unat_of_nat MAX_IMAGE_SIZE_def)
  with Suc show ?case by (simp add: image_cell_def)
qed simp

text \<open>What programming an image comes to: the pages, in ascending order, each with the bytes of the image.\<close>

fun put_pages :: "'j target_ops \<Rightarrow> BFDimage \<Rightarrow> BFDmemoryType \<Rightarrow> u32 \<Rightarrow> u32 list \<Rightarrow> ('j, unit) io" where
  "put_pages ops img memtype page_size [] = io_ret ()"
| "put_pages ops img memtype page_size (a # as) =
     io_bind (op_jtagWrite ops (BFDmemorySpaceOffset memtype + ucast a) page_size
       (map (\<lambda>c. byte_val (image_at img c)) [unat a..<unat a + unat page_size])) (\<lambda>written.
     if written then put_pages ops img memtype page_size as else io_throw (Thrown ''Error writing to target''))"

lemma space_offset:
  assumes "unat a < 0x1000000"
  shows "(ucast (ucast (BFDmemorySpaceOffset memtype) + a :: u32) :: u64) = BFDmemorySpaceOffset memtype + ucast a"
  using assms
  by (cases memtype; simp add: BFDmemorySpaceOffset_def code_defs word_unat_eq_iff unat_word_ariths unsigned_ucast_eq take_bit_nat_eq_self)

lemma write_pages_put:
  assumes "list_all (\<lambda>a. unat a + unat page_size \<le> MAX_IMAGE_SIZE) as"
  shows "write_pages ops img memtype page_size as = put_pages ops img memtype page_size as"
  using assms
proof (induction "as")
  case (Cons a "as")
  then have "unat a < 0x1000000" "page_buffer img a (unat page_size) = Some (map (\<lambda>c. byte_val (image_at img c)) [unat a..<unat a + unat page_size])"
    by (simp_all add: page_buffer_spec MAX_IMAGE_SIZE_def)
  then show ?case
    using Cons space_offset [of a memtype]
    by (simp add: write_page_def io_then_def io_bind_ret_left io_bind_assoc io_defined_Some check_def fun_eq_iff io_bind_def io_throw_def
        io_ret_def split: option.splits sum.splits)
qed simp

lemma page_list_nth:
  assumes "k < page_count img page_size addr" "unat (last_address img) + unat page_size < 2 ^ 32"
  shows "unat (addr + of_nat k * page_size) = unat addr + k * unat page_size" "unat addr + k * unat page_size < unat (last_address img)"
proof -
  let ?l = "unat (last_address img)" and ?a = "unat addr" and ?p = "unat page_size"
  have "0 < ?p"
    using assms(1) by (cases "?p = 0") (simp_all add: page_count_def)
  have "Suc k \<le> (?l - ?a + ?p - 1) div ?p"
    using assms(1) by (simp add: page_count_def)
  then have "Suc k * ?p \<le> (?l - ?a + ?p - 1) div ?p * ?p"
    by (rule mult_le_mono1)
  also have "\<dots> \<le> ?l - ?a + ?p - 1"
    by (rule div_times_less_eq_dividend)
  finally show less: "?a + k * ?p < ?l"
    using \<open>0 < ?p\<close> by simp
  then have "?a + k * ?p < 2 ^ 32"
    using assms(2) by simp
  moreover have "k * 1 \<le> k * ?p"
    using \<open>0 < ?p\<close> by (intro mult_le_mono2) simp
  ultimately have "k < 2 ^ 32" "k * ?p < 2 ^ 32"
    by linarith+
  then show "unat (addr + of_nat k * page_size) = ?a + k * ?p"
    using \<open>?a + k * ?p < 2 ^ 32\<close> by (simp add: unat_word_ariths unat_of_nat)
qed

lemma page_list_bound:
  assumes "a \<in> set (page_list img page_size addr)" "unat (last_address img) + unat page_size < 2 ^ 32"
  shows "unat a < unat (last_address img)"
  using assms page_list_nth [OF _ assms(2)] by (auto simp: page_list_def)

lemma page_list_covers:
  assumes "page_size \<noteq> 0" "unat (last_address img) + unat page_size < 2 ^ 32" "unat addr \<le> c" "c < unat (last_address img)"
  shows "\<exists>a \<in> set (page_list img page_size addr). unat a \<le> c \<and> c < unat a + unat page_size"
  using assms(3)
proof (induction "page_list img page_size addr" arbitrary: addr)
  case Nil
  then show ?case
    using page_list_rec [OF assms(1,2), of addr] assms(4) by (auto simp: word_less_nat_alt split: if_splits)
next
  case (Cons b bs)
  have b: "addr < last_address img" "b = addr" "bs = page_list img page_size (addr + page_size)"
    using Cons.hyps(2) page_list_rec [OF assms(1,2), of addr] by (auto split: if_splits)
  then have next_addr: "unat (addr + page_size) = unat addr + unat page_size"
    using assms(2) by (simp add: unat_word_ariths word_less_nat_alt)
  show ?case
  proof (cases "c < unat addr + unat page_size")
    case True
    then show ?thesis using Cons.prems Cons.hyps(2) b(2) by (metis list.set_intros(1))
  next
    case False
    with Cons.hyps(1) [OF b(3)] next_addr show ?thesis
      using Cons.hyps(2) [symmetric] b(3) by auto
  qed
qed

section \<open>Verifying against a memory\<close>

definition agrees :: "BFDimage \<Rightarrow> (nat \<Rightarrow> u8) \<Rightarrow> nat \<Rightarrow> bool" where
  "agrees img mem c \<longleftrightarrow> (byte_used (image_at img c) \<longrightarrow> byte_val (image_at img c) = mem c)"

lemma verify_bytes_spec:
  assumes "unat addr + n \<le> MAX_IMAGE_SIZE" "take n bytes = map mem [unat addr..<unat addr + n]"
  shows "verify_bytes img (Some bytes) addr n v = Some (v \<and> list_all (agrees img mem) [unat addr..<unat addr + n])"
  using assms
proof (induction n)
  case (Suc n)
  have "length (take (Suc n) bytes) = Suc n"
    using Suc.prems(2) by simp
  then have len: "n < length bytes" by simp
  then have "take n bytes @ [bytes ! n] = map mem [unat addr..<unat addr + n] @ [mem (unat addr + n)]"
    using Suc.prems(2) by (simp add: take_Suc_conv_app_nth)
  then have bytes: "take n bytes = map mem [unat addr..<unat addr + n]" "cell bytes n = Some (mem (unat addr + n))"
    using len by (simp_all add: cell_def)
  have "unat (of_nat n + addr) = unat addr + n"
    using Suc.prems(1) by (simp add: unat_word_ariths unat_of_nat MAX_IMAGE_SIZE_def)
  then have "image_cell img (of_nat n + addr) = Some (image_at img (unat addr + n))"
    using Suc.prems(1) by (simp add: image_cell_def)
  then show ?case
    using Suc.IH [OF _ bytes(1)] Suc.prems(1) bytes(2) by (auto simp: agrees_def)
qed simp

text \<open>\<open>R as\<close>: the state in which the pages \<open>as\<close> are still to be read.\<close>

lemma verify_loop_reads:
  assumes "page_size \<noteq> 0" "unat (last_address img) + unat page_size \<le> MAX_IMAGE_SIZE" "R (page_list img page_size addr) s"
    and "\<And>a as s. R (a # as) s \<Longrightarrow> unat a < MAX_IMAGE_SIZE \<Longrightarrow>
      \<exists>bytes t. op_jtagRead ops (BFDmemorySpaceOffset memtype + ucast a) page_size s = Some (Inr (Some bytes), t) \<and>
        take (unat page_size) bytes = map mem [unat a..<unat a + unat page_size] \<and> R as t"
  shows "\<exists>t. verify_loop ops img memtype page_size addr v s = Some (Inr (v \<and>
     list_all (\<lambda>a. list_all (agrees img mem) [unat a..<unat a + unat page_size]) (page_list img page_size addr)), t) \<and> R [] t"
  using assms(3)
proof (induction "page_list img page_size addr" arbitrary: addr v s)
  case Nil
  have "unat (last_address img) + unat page_size < 2 ^ 32"
    using assms(2) by (simp add: MAX_IMAGE_SIZE_def)
  then show ?case
    using Nil page_list_rec [OF assms(1), of img addr]
    by (auto simp: verify_loop.simps [of ops img] split: if_splits)
next
  case (Cons a as)
  have fits: "unat (last_address img) + unat page_size < 2 ^ 32"
    using assms(2) by (simp add: MAX_IMAGE_SIZE_def)
  have addr: "addr < last_address img" "a = addr" "as = page_list img page_size (addr + page_size)"
    using Cons.hyps(2) page_list_rec [OF assms(1) fits, of addr] by (auto split: if_splits)
  then have small: "unat addr + unat page_size \<le> MAX_IMAGE_SIZE" "unat addr < MAX_IMAGE_SIZE"
    using assms(2) by (simp_all add: word_less_nat_alt)
  obtain bytes t where t: "op_jtagRead ops (BFDmemorySpaceOffset memtype + ucast addr) page_size s = Some (Inr (Some bytes), t)"
      "take (unat page_size) bytes = map mem [unat addr..<unat addr + unat page_size]" "R as t"
    using assms(4) [of a "as" s] Cons.prems Cons.hyps(2) [symmetric] addr(2) small(2) by auto
  have offset: "ucast (ucast (BFDmemorySpaceOffset memtype) + addr :: u32) = BFDmemorySpaceOffset memtype + ucast addr"
    using small(2) by (intro space_offset) (simp add: MAX_IMAGE_SIZE_def)
  obtain u where u: "verify_loop ops img memtype page_size (addr + page_size) (v \<and> list_all (agrees img mem) [unat addr..<unat addr + unat page_size]) t =
      Some (Inr ((v \<and> list_all (agrees img mem) [unat addr..<unat addr + unat page_size]) \<and>
        list_all (\<lambda>a. list_all (agrees img mem) [unat a..<unat a + unat page_size]) as), u)" "R [] u"
    using Cons.hyps(1) [OF addr(3), of t "v \<and> list_all (agrees img mem) [unat addr..<unat addr + unat page_size]"] t(3) addr(3) by auto
  have "verify_loop ops img memtype page_size addr v s =
      verify_loop ops img memtype page_size (addr + page_size) (v \<and> list_all (agrees img mem) [unat addr..<unat addr + unat page_size]) t"
    using addr(1) t(1) verify_bytes_spec [OF small(1) t(2), of img v]
    by (subst verify_loop.simps) (simp add: offset io_simps)
  then show ?case
    using u Cons.hyps(2) [symmetric] addr(2) by (auto simp: conj_assoc)
qed

section \<open>Properties\<close>

definition device_page_size :: "jtag_device_def \<Rightarrow> BFDmemoryType \<Rightarrow> u32" where
  "device_page_size d memtype =
     (case memtype of MEM_FLASH \<Rightarrow> flash_page_size d | MEM_EEPROM \<Rightarrow> ucast (eeprom_page_size d) | MEM_RAM \<Rightarrow> 1)"

lemma get_page_size_device: "op_device ops s = Some d \<Longrightarrow> get_page_size ops memtype s = Some (Inr (device_page_size d memtype), s)"
  by (cases memtype) (simp_all add: get_page_size_def device_page_size_def io_simps)

text \<open>C32: programming an image ends, and comes to writing, in ascending order and once each, exactly the pages
  that hold a byte to be written (a used byte, in flash other than 0xff), with the bytes of the image,
  until a write fails; and each byte to be written lies in one of them.\<close>

theorem program_puts_needed_pages:
  fixes ops :: "'j target_ops"
  assumes "op_device ops s = Some d" "page_size = device_page_size d memtype" "page_size \<noteq> 0" "unat page_size < 0x10000"
    and "has_data img" "image_ok img" "unat (last_address img) + unat page_size \<le> MAX_IMAGE_SIZE"
    and "pages = filter (page_needed img memtype page_size) (page_list img page_size (page_addr page_size (first_address img)))"
  shows "jtag_flash_image ops img memtype True False s = put_pages ops img memtype page_size pages s \<and>
     (if needs_write memtype (image_at img c) then list_ex (\<lambda>a. unat a \<le> c \<and> c < unat a + unat page_size) pages else True)"
proof
  let ?start = "page_addr page_size (first_address img)"
  have fits: "unat (last_address img) + unat page_size < 2 ^ 32"
    using assms(7) by (simp add: MAX_IMAGE_SIZE_def)
  have "list_all (\<lambda>a. unat a + unat page_size \<le> MAX_IMAGE_SIZE) pages"
    using page_list_bound [OF _ fits] assms(7,8) by (fastforce simp: list_all_iff)
  from write_pages_put [OF this, of ops img memtype]
  have "put_pages ops img memtype page_size pages = program_loop ops img memtype page_size ?start"
    using program_loop_pages [OF assms(3) _ assms(4), of img ops memtype ?start] assms(7,8)
    by (simp add: fun_eq_iff)
  moreover have "io_then m (io_ret ()) = m" for m :: "('j, unit) io"
    unfolding io_then_def using io_bind_ret_right [of m] by simp
  ultimately show "jtag_flash_image ops img memtype True False s = put_pages ops img memtype page_size pages s"
    using get_page_size_device [OF assms(1), of memtype] assms(2,5) by (simp add: jtag_flash_image_def io_simps)
  show "if needs_write memtype (image_at img c) then list_ex (\<lambda>a. unat a \<le> c \<and> c < unat a + unat page_size) pages else True"
  proof (cases "needs_write memtype (image_at img c)")
    case True
    then have c: "unat (first_address img) \<le> c" "c < unat (last_address img)"
      using assms(6) by (auto simp: needs_write_def image_ok_def)
    have "unat ?start \<le> unat (first_address img)"
      unfolding page_addr_def by (simp add: word_and_le2 flip: word_le_nat_alt)
    then obtain a where a: "a \<in> set (page_list img page_size ?start)" "unat a \<le> c" "c < unat a + unat page_size"
      using page_list_covers [OF assms(3) fits, of ?start c] c by auto
    then have "page_needed img memtype page_size a"
      using True c(2) by (auto simp: page_needed_def list_ex_iff intro!: bexI [of _ c])
    then show ?thesis
      using True a assms(8) by (auto simp: list_ex_iff)
  qed simp
qed

lemma high_bit_clear:
  assumes "unat (w :: u64) < 0x800000"
  shows "w AND 0x800000 = 0"
proof -
  have "w = take_bit 23 w"
    using assms by (simp add: word_unat_eq_iff unsigned_take_bit_eq take_bit_nat_eq_self)
  then have "w AND 0x800000 = w AND (mask 23 AND 0x800000)"
    by (metis and.assoc take_bit_eq_mask)
  then show ?thesis
    by (simp add: mask_eq_exp_minus_1)
qed

text \<open>The answers of a mkI box with the memory \<open>mem\<close> to the reads of the pages.\<close>

definition page_answers :: "bool \<Rightarrow> (nat \<Rightarrow> u8) \<Rightarrow> u32 \<Rightarrow> u32 list \<Rightarrow> u8 list" where
  "page_answers prog mem page_size pages = concat (map (\<lambda>a.
     JTAG_R_OK # location_bytes prog mem (unat a div 2) (unat page_size div 2) @ [0, JTAG_R_OK]) pages)"

text \<open>The messages that ask for the pages: the command to read, the memory space of the mode, the number of words less
  one, and the word address of the page.\<close>

definition page_reads :: "bool \<Rightarrow> u32 \<Rightarrow> u32 list \<Rightarrow> u8 list" where
  "page_reads prog page_size pages = concat (map (\<lambda>a.
     [0x52, if prog then ADDR_PROG_SPACE_PROG_ENABLED else ADDR_PROG_SPACE_PROG_DISABLED, of_nat (unat page_size div 2) - 1] @
     encodeAddress (ucast a div 2) @ JTAG_EOM) pages)"

text \<open>The state in which \<open>pages\<close> are still to be read; at the end \<open>final\<close> will have been written.\<close>

definition mk1_reading :: "bool \<Rightarrow> (nat \<Rightarrow> u8) \<Rightarrow> u32 \<Rightarrow> u8 list \<Rightarrow> u8 list \<Rightarrow> u32 list \<Rightarrow> 'z jtag1_scheme \<Rightarrow> bool" where
  "mk1_reading prog mem page_size rest final pages s \<longleftrightarrow> ready1 s \<and> programmingEnabled s = prog \<and> list_all (\<lambda>a. even (unat a)) pages \<and>
     avail (rx s) = page_answers prog mem page_size pages @ rest \<and> tx s @ page_reads prog page_size pages = final"

lemma mk1_page_read:
  assumes "mk1_reading prog mem page_size rest final (a # as) s" "unat a < MAX_IMAGE_SIZE" "even (unat page_size)" "page_size \<noteq> 0" "unat page_size \<le> 512"
  shows "\<exists>bytes t. op_jtagRead mk1_ops (BFDmemorySpaceOffset MEM_FLASH + ucast a) page_size s = Some (Inr (Some bytes), t) \<and>
     take (unat page_size) bytes = map mem [unat a..<unat a + unat page_size] \<and> mk1_reading prog mem page_size rest final as t"
proof -
  have ua: "unat (ucast a :: u64) = unat a"
    using unat_u32_less [of a] by (simp add: unsigned_ucast_eq take_bit_nat_eq_self)
  have space: "(ucast a :: u64) AND 0x800000 = 0"
    using assms(2) by (intro high_bit_clear) (simp add: ua MAX_IMAGE_SIZE_def)
  have s: "ready1 s" "programmingEnabled s = prog" "even (unat a)"
    "avail (rx s) = page_answers prog mem page_size (a # as) @ rest" "list_all (\<lambda>a. even (unat a)) as"
    "tx s @ page_reads prog page_size (a # as) = final"
    using assms(1) by (simp_all add: mk1_reading_def)
  have loc: "locations (ucast a) page_size = unat page_size div 2"
    using s(3) assms(3) by (simp add: locations_def ua)
  have few: "locations (ucast a) page_size \<le> 256"
    using loc assms(5) by linarith
  have "avail (rx s) = JTAG_R_OK # location_bytes (programmingEnabled s) mem (unat (ucast a :: u64) div 2) (locations (ucast a) page_size) @
      [0, JTAG_R_OK] @ (page_answers prog mem page_size as @ rest)"
    unfolding loc ua s(2,4) by (simp add: page_answers_def)
  from jtag1_read_locations [OF s(1) space assms(4) few this]
  obtain bytes t where t: "jtag1_jtagRead (ucast a) page_size s = Some (Inr (Some bytes), t)"
      "take (unat page_size) bytes = map mem [unat a..<unat a + unat page_size]"
      "answers s (page_reads prog page_size [a]) (page_answers prog mem page_size as @ rest) t"
    unfolding ua loc s(2) by (auto simp: page_reads_def)
  have "programmingEnabled t = prog"
    using t(3) s(2) by (auto simp: answers_def)
  then have "mk1_reading prog mem page_size rest final as t"
    using answers_simps [OF t(3)] s(1,5,6) by (simp add: mk1_reading_def page_reads_def)
  with t(1,2) show ?thesis
    by (auto simp: mk1_ops_def BFDmemorySpaceOffset_def code_defs)
qed

lemma page_list_even:
  assumes "a \<in> set (page_list img page_size (page_addr page_size first))" "even (unat page_size)"
    and "unat (last_address img) + unat page_size < 2 ^ 32"
  shows "even (unat a)"
proof -
  let ?start = "page_addr page_size first"
  obtain k where k: "k < page_count img page_size ?start" "a = ?start + of_nat k * page_size"
    using assms(1) by (auto simp: page_list_def)
  have "\<not> bit page_size 0"
    using assms(2) bit_unsigned_iff [of page_size 0, where ?'a = nat] by (simp add: bit_0)
  then have "bit (page_size - 1) 0"
    by (metis bit_0 diff_add_cancel even_plus_one_iff)
  then have "\<not> bit ?start 0"
    by (simp only: page_addr_def bit_and_iff bit_not_iff) blast
  then have "even (unat ?start)"
    using bit_unsigned_iff [of ?start 0, where ?'a = nat] by (simp add: bit_0)
  then show ?thesis
    using page_list_nth(1) [OF k(1) assms(3)] assms(2) k(2) by simp
qed

text \<open>C33: the mkI driver verifies the flash image of a file: it asks for the pages from that of the first address to that of the
  last one, in ascending order, each with one message that names its word address and its size, and when the box
  answers them from its memory, verifying ends; it succeeds exactly when the memory has every byte that
  the sections of the file have for program memory, and otherwise throws.\<close>

theorem mk1_verify_compares:
  assumes "create_images ps (initImage, initImage) = Some (img, eeprom)" "has_data img"
    and "p_device_def s = Some d" "page_size = flash_page_size d" "page_size \<noteq> 0" "even (unat page_size)" "unat page_size \<le> 512"
    and "unat (last_address img) + unat page_size \<le> MAX_IMAGE_SIZE" "wq s = []" "flq s = []" "tty_ok s"
    and "pages = page_list img page_size (page_addr page_size (first_address img))"
    and "avail (rx s) = page_answers (programmingEnabled s) mem page_size pages @ rest"
  shows "\<exists>t. jtag_flash_image mk1_ops img MEM_FLASH False True s =
     Some (if \<forall>c. file_byte MEM_FLASH ps c \<in> {None, Some (mem c)} then Inr () else Inl (Thrown (CHR 0x0A # ''Verification failed!'')), t) \<and>
     tx t = tx s @ page_reads (programmingEnabled s) page_size pages \<and> avail (rx t) = rest"
proof -
  let ?start = "page_addr page_size (first_address img)"
  let ?pages = "page_list img page_size ?start"
  have fits: "unat (last_address img) + unat page_size < 2 ^ 32"
    using assms(8) by (simp add: MAX_IMAGE_SIZE_def)
  have "image_ok initImage" "image_at initImage c = memory_cell None" for c
    by (simp_all add: image_ok_def initImage_def memory_cell_def)
  note built = create_images_spec [OF assms(1) this(1,1,2,2)]
  have ok: "image_ok img" and cells: "image_at img c = memory_cell (file_byte MEM_FLASH ps c)" for c
    using built by (simp_all add: file_byte_def)
  have "list_all (\<lambda>a. even (unat a)) ?pages"
    using page_list_even [OF _ assms(6) fits] by (simp add: list_all_iff)
  then have "mk1_reading (programmingEnabled s) mem page_size rest (tx s @ page_reads (programmingEnabled s) page_size ?pages) ?pages s"
    using assms(9-13) by (simp add: mk1_reading_def ready1_def)
  from verify_loop_reads [where R = "mk1_reading (programmingEnabled s) mem page_size rest (tx s @ page_reads (programmingEnabled s) page_size ?pages)",
      OF assms(5,8) this mk1_page_read [OF _ _ assms(6,5,7)], of True]
  obtain t where t: "verify_loop mk1_ops img MEM_FLASH page_size ?start True s =
      Some (Inr (list_all (\<lambda>a. list_all (agrees img mem) [unat a..<unat a + unat page_size]) ?pages), t)"
      "tx t = tx s @ page_reads (programmingEnabled s) page_size pages" "avail (rx t) = rest"
    by (auto simp: mk1_reading_def page_answers_def page_reads_def assms(12))
  have "list_all (\<lambda>a. list_all (agrees img mem) [unat a..<unat a + unat page_size]) ?pages \<longleftrightarrow> (\<forall>c. agrees img mem c)"
  proof
    assume pages: "list_all (\<lambda>a. list_all (agrees img mem) [unat a..<unat a + unat page_size]) ?pages"
    show "\<forall>c. agrees img mem c"
    proof
      fix c
      show "agrees img mem c"
      proof (cases "byte_used (image_at img c)")
        case True
        then have c: "unat (first_address img) \<le> c" "c < unat (last_address img)"
          using ok by (auto simp: image_ok_def)
        moreover have "unat ?start \<le> unat (first_address img)"
          unfolding page_addr_def by (simp add: word_and_le2 flip: word_le_nat_alt)
        ultimately show ?thesis
          using page_list_covers [OF assms(5) fits, of ?start c] pages by (auto simp: list_all_iff)
      qed (simp add: agrees_def)
    qed
  qed (simp add: list_all_iff)
  also have "\<dots> \<longleftrightarrow> (\<forall>c. file_byte MEM_FLASH ps c \<in> {None, Some (mem c)})"
  proof -
    have "agrees img mem c \<longleftrightarrow> file_byte MEM_FLASH ps c \<in> {None, Some (mem c)}" for c
      by (cases "file_byte MEM_FLASH ps c") (auto simp: agrees_def cells memory_cell_def)
    then show ?thesis by blast
  qed
  finally have "list_all (\<lambda>a. list_all (agrees img mem) [unat a..<unat a + unat page_size]) ?pages \<longleftrightarrow>
      (\<forall>c. file_byte MEM_FLASH ps c \<in> {None, Some (mem c)})" .
  then show ?thesis
    using t get_page_size_device [of mk1_ops s d MEM_FLASH] assms(2-4)
    by (simp add: jtag_flash_image_def io_simps mk1_ops_def device_page_size_def check_def)
qed

section \<open>Examples\<close>

definition example_section :: "asection" where
  "example_section = \<lparr>sec_contents_flag = True, sec_alloc = True, sec_load = True, lma = 130, sec_size = 1, sec_bytes = (\<lambda>_. 7)\<rparr>"

definition example_image :: BFDimage where
  "example_image = \<lparr>image_at = (\<lambda>_. memory_cell None)(130 := memory_cell (Some 7)), last_address = 131, first_address = 130,
     first_address_ok = True, has_data = True\<rparr>"

definition flash_box1 :: "rxev list \<Rightarrow> jtag1" where
  "flash_box1 evs = (mk1_box evs)\<lparr>p_device_def := Some dev_atmega16\<rparr>"

lemma example_images: "create_images [example_section] (initImage, initImage) = Some (example_image, initImage)"
  by (simp add: jtag_create_image_def get_section_addr_def example_section_def example_image_def initImage_def code_defs Let_def
      MAX_IMAGE_SIZE_def memory_cell_def fun_eq_iff)

lemma example_pages:
  "device_page_size dev_atmega16 MEM_FLASH = 128" "image_ok example_image" "page_addr 128 130 = 128"
  "page_list example_image 128 128 = [128]" "page_needed example_image MEM_FLASH 128 128"
proof -
  show "device_page_size dev_atmega16 MEM_FLASH = 128"
    by (simp add: device_page_size_def dev_atmega16_def)
  show "image_ok example_image"
    by (auto simp: image_ok_def example_image_def memory_cell_def MAX_IMAGE_SIZE_def)
  show "page_addr 128 130 = 128"
    by (simp add: page_addr_def)
  show "page_list example_image 128 128 = [128]"
    by (simp add: page_list_def page_count_def example_image_def)
  show "page_needed example_image MEM_FLASH 128 128"
    by (auto simp: page_needed_def example_image_def list_ex_iff needs_write_def memory_cell_def intro!: bexI [of _ 130])
qed

lemma example_fields:
  "has_data example_image" "first_address example_image = 130" "unat (last_address example_image) + unat (128 :: u32) \<le> MAX_IMAGE_SIZE"
  "op_device mk1_ops (flash_box1 evs) = Some dev_atmega16" "p_device_def (flash_box1 evs) = Some dev_atmega16"
  "flash_page_size dev_atmega16 = 128"
  by (simp_all add: example_image_def MAX_IMAGE_SIZE_def mk1_ops_def flash_box1_def dev_atmega16_def)

lemma program_puts_needed_pages_witness:
  "jtag_flash_image mk1_ops example_image MEM_FLASH True False (flash_box1 []) = put_pages mk1_ops example_image MEM_FLASH 128 [128] (flash_box1 [])"
proof -
  have "[128] = filter (page_needed example_image MEM_FLASH 128) (page_list example_image 128 (page_addr 128 (first_address example_image)))"
    by (simp add: example_fields example_pages)
  from program_puts_needed_pages [OF example_fields(4) example_pages(1) [symmetric] _ _ example_fields(1) example_pages(2) example_fields(3) this]
  show ?thesis by simp
qed

lemma mk1_verify_compares_witness:
  "\<exists>t. jtag_flash_image mk1_ops example_image MEM_FLASH False True (flash_box1 [Chunk (page_answers False (\<lambda>_. 7) 128 [128])]) = Some (Inr (), t) \<and>
     tx t = [0x52, ADDR_PROG_SPACE_PROG_DISABLED, 63] @ encodeAddress 64 @ JTAG_EOM"
proof -
  let ?s = "flash_box1 [Chunk (page_answers False (\<lambda>_. 7) 128 [128])]"
  have s: "wq ?s = []" "flq ?s = []" "tty_ok ?s" "programmingEnabled ?s = False" "tx ?s = []"
    by (simp_all add: flash_box1_def)
  have size: "(128 :: u32) = flash_page_size dev_atmega16" "(128 :: u32) \<noteq> 0" "even (unat (128 :: u32))" "unat (128 :: u32) \<le> 512"
    by (simp_all add: example_fields)
  have pages: "[128] = page_list example_image 128 (page_addr 128 (first_address example_image))"
    by (simp add: example_fields example_pages)
  have line: "avail (rx ?s) = page_answers (programmingEnabled ?s) (\<lambda>_. 7) 128 [128] @ []"
    unfolding s by (simp add: flash_box1_def page_answers_def)
  have same: "\<forall>c. file_byte MEM_FLASH [example_section] c \<in> {None, Some 7}"
    by (simp add: file_byte_def section_byte_def example_section_def split: option.split)
  have reads: "page_reads False 128 [128] = [0x52, ADDR_PROG_SPACE_PROG_DISABLED, 63] @ encodeAddress 64 @ JTAG_EOM"
    by (simp add: page_reads_def)
  show ?thesis
    using mk1_verify_compares [OF example_images example_fields(1,5) size example_fields(3) s(1-3) pages line] same
    unfolding s reads by auto
qed

end
