(* ===== verification/Fuse_Bits.thy ===== *)
theory Fuse_Bits
  imports Debug_Target
begin

text \<open>
  Fuses and lock bits: \<open>jtagWriteFuses\<close>, \<open>jtagReadFuses\<close>, \<open>jtagWriteLockBits\<close> and \<open>jtagReadLockBits\<close> of
  \<^verbatim>\<open>src/src/jtaggeneric.cc\<close>. The result of reading is the bytes that are displayed; the texts on the
  console are left out.
\<close>

section \<open>\<open>sscanf\<close>\<close>

text \<open>The conversion \<open>%02x\<close>: white space is skipped, then at most two characters are used: a sign, a prefix
  \<open>0x\<close>, digits. \<open>None\<close> is a matching failure. The argument is a C string without its NUL.\<close>

definition is_space :: "u8 \<Rightarrow> bool" where
  "is_space c \<longleftrightarrow> c = 0x20 \<or> 9 \<le> c \<and> c \<le> 13"

definition scan_digits :: "nat \<Rightarrow> u8 list \<Rightarrow> (u32 \<times> u8 list) option" where
  "scan_digits width p =
     (let ds = takeWhile (\<lambda>c. 0 \<le> hex c) (take width p) in
      if ds = [] then None else Some (word_of_int (hex_value ds), drop (length ds) p))"

definition scan_hex2 :: "u8 list \<Rightarrow> (u32 \<times> u8 list) option" where
  "scan_hex2 p =
     (case dropWhile is_space p of
        [] \<Rightarrow> None
      | c # cs \<Rightarrow>
          if c = 0x2d then map_option (\<lambda>(v, r). (- v, r)) (scan_digits 1 cs)
          else if c = 0x2b then scan_digits 1 cs
          else if c = 0x30 \<and> cs \<noteq> [] \<and> hd cs \<in> {0x78, 0x58} then None
          else scan_digits 2 (c # cs))"

text \<open>\<open>sscanf\<close> with \<open>n\<close> conversions: the values of those that succeed before the first failure.\<close>

fun scan_many :: "nat \<Rightarrow> u8 list \<Rightarrow> u32 list" where
  "scan_many 0 p = []"
| "scan_many (Suc n) p = (case scan_hex2 p of None \<Rightarrow> [] | Some (v, r) \<Rightarrow> v # scan_many n r)"

section \<open>Fuses\<close>

text \<open>The bytes of a response; a null pointer has none.\<close>

definition response_bytes :: "u8 list option \<Rightarrow> nat \<Rightarrow> ('j, u8 list) io" where
  "response_bytes r n = io_defined (Option.bind r (\<lambda>b. load_many b 0 n))"

definition jtagWriteFuses :: "'j target_ops \<Rightarrow> u8 list option \<Rightarrow> ('j, unit) io" where
  "jtagWriteFuses ops fuses =
     (case fuses of
        None \<Rightarrow> check False ''Error: No fuses string given''
      | Some txt \<Rightarrow>
          (let temp = scan_many 3 txt; fuseBits = map ucast (rev temp) in
           io_then (check (length temp = 3) ''Error: Fuses specified are not in hexidecimal'')
          (io_then (op_enableProgramming ops)
          (io_bind (op_jtagWrite ops FUSE_SPACE_ADDR_OFFSET 3 fuseBits) (\<lambda>written.
           io_then (check written ''Error writing fuses'')
          (io_bind (op_jtagRead ops FUSE_SPACE_ADDR_OFFSET 3) (\<lambda>readfuseBits.
           io_then (op_disableProgramming ops)
          (io_bind (response_bytes readfuseBits 3) (\<lambda>bits.
           check (fuseBits = bits) ''Error verifying written fuses'')))))))))"

definition jtagReadFuses :: "'j target_ops \<Rightarrow> ('j, u8 list) io" where
  "jtagReadFuses ops =
     io_then (op_enableProgramming ops)
    (io_bind (op_jtagRead ops FUSE_SPACE_ADDR_OFFSET 3) (\<lambda>fuseBits.
     io_then (op_disableProgramming ops)
    (io_then (check (fuseBits \<noteq> None) ''Error reading fuses'') (response_bytes fuseBits 3))))"

section \<open>Lock bits\<close>

definition jtagWriteLockBits :: "'j target_ops \<Rightarrow> u8 list option \<Rightarrow> ('j, unit) io" where
  "jtagWriteLockBits ops lock =
     (case lock of
        None \<Rightarrow> check False ''Error: No lock bit string given''
      | Some txt \<Rightarrow>
          (let temp = scan_many 1 txt; lockBits = map ucast temp in
           io_then (check (length txt = 2) ''Error: Fuses must be one byte exactly'')
          (io_then (check (length temp = 1) ''Error: Fuses specified are not in hexidecimal'')
          (io_then (op_enableProgramming ops)
          (io_bind (op_jtagWrite ops LOCK_SPACE_ADDR_OFFSET 1 lockBits) (\<lambda>written.
           io_then (check written ''Error writing lockbits'')
          (io_bind (op_jtagRead ops LOCK_SPACE_ADDR_OFFSET 1) (\<lambda>readlockBits.
           io_then (op_disableProgramming ops)
          (io_bind (response_bytes readlockBits 1) (\<lambda>bits.
           check (lockBits = bits) ''Error verifying written lock bits''))))))))))"

definition jtagReadLockBits :: "'j target_ops \<Rightarrow> ('j, u8 list) io" where
  "jtagReadLockBits ops =
     io_then (op_enableProgramming ops)
    (io_bind (op_jtagRead ops LOCK_SPACE_ADDR_OFFSET 1) (\<lambda>lockBits.
     io_then (op_disableProgramming ops)
    (io_then (check (lockBits \<noteq> None) ''Error reading lock bits'') (response_bytes lockBits 1))))"

section \<open>Strings and bytes\<close>

lemma byte_digits:
  obtains h l where "byteToHex x = [h, l]" "0 \<le> hex h" "0 \<le> hex l" "hex h * 16 + hex l = uint x"
proof
  show "byteToHex x = [byteToHex x ! 0, byteToHex x ! 1]"
    by (simp add: byteToHex_def)
  show "0 \<le> hex (byteToHex x ! 0)" "0 \<le> hex (byteToHex x ! 1)"
    unfolding hex_byteToHex by simp_all
  show "hex (byteToHex x ! 0) * 16 + hex (byteToHex x ! 1) = uint x"
    unfolding hex_byteToHex uint_high uint_low by simp
qed

lemma digit_not_special: "0 \<le> hex c \<Longrightarrow> \<not> is_space c \<and> c \<noteq> 0x2d \<and> c \<noteq> 0x2b \<and> c \<notin> {0x78, 0x58}"
  by (auto simp: hex_def is_space_def word_le_nat_alt split: if_splits)

lemma scan_hex2_byte: "scan_hex2 (byteToHex x @ r) = Some (ucast x, r)"
proof -
  obtain h l where x: "byteToHex x = [h, l]" "0 \<le> hex h" "0 \<le> hex l" "hex h * 16 + hex l = uint x"
    by (rule byte_digits)
  have "(word_of_int (uint x) :: u32) = ucast x"
    by (simp only: unsigned_of_int ucast_eq)
  then show ?thesis
    using x(2-4) digit_not_special [OF x(2)] digit_not_special [OF x(3)]
    by (simp add: x(1) scan_hex2_def scan_digits_def hex_value_def numeral_2_eq_2)
qed

text \<open>The string on the command line has the extended, the high and the low fuse byte in this order; they are
  written and compared in the opposite order.\<close>

lemma fuses_written:
  assumes "op_enableProgramming ops s = Some (Inr (), t)" "op_jtagWrite ops FUSE_SPACE_ADDR_OFFSET 3 [l, h, e] t = Some (Inr True, u)"
    and "op_jtagRead ops FUSE_SPACE_ADDR_OFFSET 3 u = Some (Inr (Some ([l', h', e'] @ pad)), v)"
    and "op_disableProgramming ops v = Some (Inr (), w)"
  shows "jtagWriteFuses ops (Some (concat (map byteToHex [e, h, l]))) s =
     Some (if [l', h', e'] = [l, h, e] then Inr () else Inl (Thrown ''Error verifying written fuses''), w)"
proof -
  have "scan_many 3 (concat (map byteToHex [e, h, l])) = [ucast e, ucast h, ucast l]"
    using scan_hex2_byte [of l "[]"] by (simp add: numeral_3_eq_3 scan_hex2_byte)
  moreover have "ucast (ucast b :: u32) = b" for b :: u8
    by (rule bit_eqI) (simp add: bit_simps)
  ultimately show ?thesis
    using assms by (simp add: jtagWriteFuses_def io_simps response_bytes_def load_many_def check_def Let_def numeral_3_eq_3)
qed

end
