(* ===== verification/Command_Line.thy ===== *)
theory Command_Line
  imports Prelude Utils
begin

text \<open>
  The command line of \<^verbatim>\<open>src/src/main.cc\<close>: \<open>parseJtagBitrate\<close>, the loop over the options and the
  argument \<open>[host]:port\<close>. The vendored \<open>getopt_long\<close> is a parameter: its results are a list of
  the option characters with their arguments. Help texts and lists on the console are left out; what
  remains of \<open>usage\<close> and \<open>knownParts\<close> is their \<open>exit\<close>.
\<close>

section \<open>Numbers\<close>

text \<open>\<open>strtoul\<close> and \<open>strtol\<close>: white space, a sign, digits. The result is the value and the rest of the string,
  which is the whole string when there are no digits; \<open>None\<close> for the value means that.\<close>

definition is_space_char :: "char \<Rightarrow> bool" where
  "is_space_char c \<longleftrightarrow> c = CHR '' '' \<or> (9 \<le> (of_char c :: nat) \<and> (of_char c :: nat) \<le> 13)"

definition digit_value :: "char \<Rightarrow> nat" where
  "digit_value c =
     (let n = (of_char c :: nat) in
      if 48 \<le> n \<and> n \<le> 57 then n - 48
      else if 97 \<le> n \<and> n \<le> 122 then n - 87
      else if 65 \<le> n \<and> n \<le> 90 then n - 55
      else 99)"

definition number :: "nat \<Rightarrow> string \<Rightarrow> nat" where
  "number base ds = foldl (\<lambda>v c. v * base + digit_value c) 0 ds"

definition scan_number :: "nat \<Rightarrow> string \<Rightarrow> (nat \<times> string) option" where
  "scan_number base p =
     (let ds = takeWhile (\<lambda>c. digit_value c < base) p in
      if ds = [] then None else Some (number base ds, drop (length ds) p))"

definition scan_sign :: "string \<Rightarrow> bool \<times> string" where
  "scan_sign p =
     (case dropWhile is_space_char p of
        [] \<Rightarrow> (False, [])
      | c # cs \<Rightarrow> if c = CHR ''-'' then (True, cs) else if c = CHR ''+'' then (False, cs) else (False, c # cs))"

definition ULONG_MAX :: nat where "ULONG_MAX = 2 ^ 64 - 1"

definition strtoul10 :: "string \<Rightarrow> u64 \<times> string" where
  "strtoul10 p =
     (case scan_sign p of (neg, q) \<Rightarrow>
        (case scan_number 10 q of
           None \<Rightarrow> (0, p)
         | Some (n, r) \<Rightarrow>
             (if ULONG_MAX < n then of_nat ULONG_MAX else if neg then - of_nat n else of_nat n, r)))"

text \<open>Base 0: a prefix \<open>0x\<close> before a digit means 16, another leading 0 means 8.\<close>

definition strtol0 :: "string \<Rightarrow> (int \<times> string) option" where
  "strtol0 p =
     (case scan_sign p of (neg, q) \<Rightarrow>
        map_option (\<lambda>(n, r).
            (if neg then max (- (2 ^ 63)) (- int n) else min (2 ^ 63 - 1) (int n), r))
          (case q of
             z # x # d # r \<Rightarrow>
               if z = CHR ''0'' \<and> (x = CHR ''x'' \<or> x = CHR ''X'') \<and> digit_value d < 16 then scan_number 16 (d # r)
               else scan_number (if z = CHR ''0'' then 8 else 10) q
           | _ \<Rightarrow> scan_number (if q \<noteq> [] \<and> hd q = CHR ''0'' then 8 else 10) q))"

definition parseJtagBitrate :: "string \<Rightarrow> err + u64" where
  "parseJtagBitrate val =
     (if val = [] then Inl (Thrown ''invalid number in JTAG bit rate'')
      else (case strtoul10 val of (v, endptr) \<Rightarrow>
        if endptr = [] then Inr v
        else let endptr = dropWhile is_space_char endptr; c = (case endptr of [] \<Rightarrow> CHR 0x00 | c # _ \<Rightarrow> c) in
          if c = CHR ''k'' \<or> c = CHR ''K'' then Inr (v * 1000)
          else if c = CHR ''m'' \<or> c = CHR ''M'' then Inr (v * 1000000)
          else if endptr = ''Hz'' then Inr v
          else Inl (Thrown ''invalid number in JTAG bit rate'')))"

text \<open>\<open>sscanf(p, "%u,%u,%u,%u", ...)\<close> with all four conversions.\<close>

definition scan_u :: "string \<Rightarrow> (u32 \<times> string) option" where
  "scan_u p =
     (case scan_sign p of (neg, q) \<Rightarrow>
        map_option (\<lambda>(n, r). (ucast (if ULONG_MAX < n then of_nat ULONG_MAX else if neg then - of_nat n else of_nat n :: u64), r))
          (scan_number 10 q))"

fun scan_us :: "nat \<Rightarrow> string \<Rightarrow> u32 list option" where
  "scan_us 0 p = Some []"
| "scan_us (Suc n) p =
     (case scan_u p of
        None \<Rightarrow> None
      | Some (v, r) \<Rightarrow>
          if n = 0 then Some [v]
          else (case r of [] \<Rightarrow> None | c # cs \<Rightarrow> if c = CHR '','' then map_option (Cons v) (scan_us n cs) else None))"

section \<open>Options\<close>

datatype protocol = MKI | MKII | MKII_DW

record options =
  opt_protocol :: protocol
  jtagBitrate :: u64
  opt_capture :: bool
  chain :: "u32 list"
  opt_detach :: bool
  opt_erase :: bool
  eventlist :: string
  inFileName :: "string option"
  is_dragon :: bool
  ignore_intr :: bool
  jtagDeviceName :: "string option"
  lockBits :: "string option"
  readLockBits :: bool
  opt_part :: "string option"
  opt_program :: bool
  apply_nsrst :: bool
  readFuses :: bool
  opt_verify :: bool
  opt_fuses :: "string option"
  opt_xmega :: bool

definition no_options :: options where
  "no_options = \<lparr>opt_protocol = MKI, jtagBitrate = 0, opt_capture = False, chain = [0, 0, 0, 0], opt_detach = False,
     opt_erase = False, eventlist = ''none,run,target_power_on,target_sleep,target_wakeup'', inFileName = None,
     is_dragon = False, ignore_intr = False, jtagDeviceName = None, lockBits = None, readLockBits = False, opt_part = None,
     opt_program = False, apply_nsrst = False, readFuses = False, opt_verify = False, opt_fuses = None, opt_xmega = False\<rparr>"

text \<open>One result of \<open>getopt_long\<close>.\<close>

definition set_option :: "char \<Rightarrow> string \<Rightarrow> options \<Rightarrow> err + options" where
  "set_option c optarg opts =
     (if c = CHR ''h'' \<or> c = CHR ''?'' then Inl (Exited 0)
      else if c = CHR ''k'' then Inl (Exited 1)
      else if c = CHR ''1'' then Inr (opts\<lparr>opt_protocol := MKI\<rparr>)
      else if c = CHR ''2'' then Inr (if opt_protocol opts \<noteq> MKII_DW then opts\<lparr>opt_protocol := MKII\<rparr> else opts)
      else if c = CHR ''B'' then (case parseJtagBitrate optarg of Inl e \<Rightarrow> Inl e | Inr v \<Rightarrow> Inr (opts\<lparr>jtagBitrate := v\<rparr>))
      else if c = CHR ''C'' then Inr (opts\<lparr>opt_capture := True\<rparr>)
      else if c = CHR ''c'' then
        (case scan_us 4 optarg of
           Some [ub, ua, bb, ba] \<Rightarrow>
             if bb < ub \<or> ba < ua \<or> 32 < bb \<or> 32 < ba then Inl (Exited 1) else Inr (opts\<lparr>chain := [ub, ua, bb, ba]\<rparr>)
         | _ \<Rightarrow> Inl (Exited 0))
      else if c = CHR ''D'' then Inr (opts\<lparr>opt_detach := True\<rparr>)
      else if c = CHR ''d'' then Inr opts
      else if c = CHR ''e'' then Inr (opts\<lparr>opt_erase := True\<rparr>)
      else if c = CHR ''E'' then Inr (opts\<lparr>eventlist := optarg\<rparr>)
      else if c = CHR ''f'' then Inr (opts\<lparr>inFileName := Some optarg\<rparr>)
      else if c = CHR ''g'' then
        Inr (if opt_protocol opts \<noteq> MKII_DW then opts\<lparr>opt_protocol := MKII, is_dragon := True\<rparr> else opts\<lparr>is_dragon := True\<rparr>)
      else if c = CHR ''I'' then Inr (opts\<lparr>ignore_intr := True\<rparr>)
      else if c = CHR ''j'' then Inr (opts\<lparr>jtagDeviceName := Some optarg\<rparr>)
      else if c = CHR ''L'' then Inr (opts\<lparr>lockBits := Some optarg\<rparr>)
      else if c = CHR ''l'' then Inr (opts\<lparr>readLockBits := True\<rparr>)
      else if c = CHR ''P'' then Inr (opts\<lparr>opt_part := Some optarg\<rparr>)
      else if c = CHR ''p'' then Inr (opts\<lparr>opt_program := True\<rparr>)
      else if c = CHR ''R'' then Inr (opts\<lparr>apply_nsrst := True\<rparr>)
      else if c = CHR ''r'' then Inr (opts\<lparr>readFuses := True\<rparr>)
      else if c = CHR ''V'' then Inl (Exited 0)
      else if c = CHR ''v'' then Inr (opts\<lparr>opt_verify := True\<rparr>)
      else if c = CHR ''w'' then Inr (opts\<lparr>opt_protocol := MKII_DW\<rparr>)
      else if c = CHR ''W'' then Inr (opts\<lparr>opt_fuses := Some optarg\<rparr>)
      else if c = CHR ''x'' then Inr (opts\<lparr>opt_xmega := True\<rparr>)
      else Inl (Exited 1))"

fun set_options :: "(char \<times> string) list \<Rightarrow> options \<Rightarrow> err + options" where
  "set_options [] opts = Inr opts"
| "set_options ((c, optarg) # cs) opts =
     (case set_option c optarg opts of Inl e \<Rightarrow> Inl e | Inr opts' \<Rightarrow> set_options cs opts')"

text \<open>The argument \<open>[host]:port\<close>.\<close>

definition parse_server :: "string \<Rightarrow> err + string \<times> int" where
  "parse_server arg =
     (let host = takeWhile (\<lambda>c. c \<noteq> CHR '':'') arg;
          rest = drop (length host) arg;
          port = (case rest of [] \<Rightarrow> [] | c # cs \<Rightarrow> cs) in
      if port = [] then Inl (Exited 1)
      else (case strtol0 port of
              None \<Rightarrow> Inl (Exited 1)
            | Some (n, _) \<Rightarrow>
                (let hostPortNumber = sint (word_of_int n :: u32) in
                 if hostPortNumber < 1024 \<or> 0xffff < hostPortNumber then Inl (Exited 1)
                 else Inr (if host = [] then ''0.0.0.0'' else host, hostPortNumber))))"

text \<open>The options and what is left of the command line: the server to be opened, if any, and the defaults for
  the bit rate and the device (\<open>jtag_dev\<close> is the environment variable \<open>JTAG_DEV\<close>).\<close>

definition parse_command_line :: "(char \<times> string) list \<Rightarrow> string list \<Rightarrow> string option \<Rightarrow> err + options \<times> (string \<times> int) option" where
  "parse_command_line getopts args jtag_dev =
     (case set_options getopts no_options of
        Inl e \<Rightarrow> Inl e
      | Inr opts \<Rightarrow>
          (case (case args of [] \<Rightarrow> Inr None
                 | [arg] \<Rightarrow> (case parse_server arg of Inl e \<Rightarrow> Inl e | Inr s \<Rightarrow> Inr (Some s))
                 | _ \<Rightarrow> Inl (Exited 0)) of
             Inl e \<Rightarrow> Inl e
           | Inr server \<Rightarrow>
               (let opts = (if jtagBitrate opts = 0 \<and> opt_protocol opts \<noteq> MKII_DW then opts\<lparr>jtagBitrate := 250000\<rparr> else opts);
                    opts = (case jtagDeviceName opts of
                        Some _ \<Rightarrow> opts
                      | None \<Rightarrow> opts\<lparr>jtagDeviceName := Some (case jtag_dev of
                            Some cp \<Rightarrow> cp
                          | None \<Rightarrow> if is_dragon opts then ''usb'' else ''/dev/avrjtag'')\<rparr>)
                in Inr (opts, server))))"

section \<open>What the rest of the program relies on\<close>

text \<open>The daisy chain: units before and after are at most the bits, and those at most 32.\<close>

definition chain_ok :: "u32 list \<Rightarrow> bool" where
  "chain_ok us \<longleftrightarrow> length us = 4 \<and> us ! 0 \<le> us ! 2 \<and> us ! 1 \<le> us ! 3 \<and> us ! 2 \<le> 32 \<and> us ! 3 \<le> 32"

lemma set_option_chain:
  assumes "set_option c optarg opts = Inr opts'" "chain_ok (chain opts)"
  shows "chain_ok (chain opts')"
proof (cases "c = CHR ''c''")
  case True
  then obtain ub ua bb ba where "scan_us 4 optarg = Some [ub, ua, bb, ba]" "\<not> (bb < ub \<or> ba < ua \<or> 32 < bb \<or> 32 < ba)"
      "opts' = opts\<lparr>chain := [ub, ua, bb, ba]\<rparr>"
    using assms(1) by (auto simp: set_option_def split: option.splits list.splits if_splits)
  then show ?thesis
    by (simp add: chain_ok_def not_less numeral_2_eq_2 numeral_3_eq_3)
next
  case False
  then have "chain opts' = chain opts"
    using assms(1) by (auto simp: set_option_def split: if_splits sum.splits)
  then show ?thesis using assms(2) by simp
qed

lemma set_options_chain: "set_options cs opts = Inr opts' \<Longrightarrow> chain_ok (chain opts) \<Longrightarrow> chain_ok (chain opts')"
  by (induction cs opts rule: set_options.induct) (auto split: sum.splits dest: set_option_chain)

lemma parse_server_ok: "parse_server arg = Inr (host, port) \<Longrightarrow> host \<noteq> [] \<and> 1024 \<le> port \<and> port \<le> 0xffff"
  by (auto simp: parse_server_def Let_def split: if_splits option.splits)

text \<open>C34: a command line that is accepted gives a daisy chain within its bounds, a device to open, a bit rate
  unless debugWire is used, and a server with a host and an unprivileged port.\<close>

theorem command_line_ok:
  assumes "parse_command_line getopts args jtag_dev = Inr (opts, server)"
  shows "chain_ok (chain opts) \<and> jtagDeviceName opts \<noteq> None \<and> (jtagBitrate opts = 0 \<longrightarrow> opt_protocol opts = MKII_DW) \<and>
     (case server of None \<Rightarrow> args = [] | Some (host, port) \<Rightarrow> host \<noteq> [] \<and> 1024 \<le> port \<and> port \<le> 0xffff)"
proof -
  obtain o1 where o1: "set_options getopts no_options = Inr o1"
    using assms by (auto simp: parse_command_line_def split: sum.splits)
  have "chain_ok (chain no_options)"
    by (simp add: chain_ok_def no_options_def numeral_2_eq_2 numeral_3_eq_3)
  then have "chain_ok (chain o1)"
    by (rule set_options_chain [OF o1])
  then show ?thesis
    using assms by (auto simp: parse_command_line_def o1 Let_def dest: parse_server_ok split: sum.splits list.splits option.splits if_splits)
qed

lemma command_line_ok_witness:
  "\<exists>opts. parse_command_line [(CHR ''2'', []), (CHR ''B'', ''1M'')] [''localhost:4242''] None = Inr (opts, Some (''localhost'', 4242)) \<and>
     jtagDeviceName opts \<noteq> None"
proof -
  obtain opts where opts: "parse_command_line [(CHR ''2'', []), (CHR ''B'', ''1M'')] [''localhost:4242''] None = Inr (opts, Some (''localhost'', 4242))"
    by (simp add: parse_command_line_def set_option_def parseJtagBitrate_def strtoul10_def scan_sign_def scan_number_def number_def
        digit_value_def is_space_char_def ULONG_MAX_def parse_server_def strtol0_def Let_def no_options_def)
  with command_line_ok [OF opts] show ?thesis by blast
qed

end
