(* ===== verification/Avarice_Main.thy ===== *)
theory Avarice_Main
  imports Gdb_Session Flash_Download Fuse_Bits Command_Line
begin

text \<open>
  The function \<open>main\<close> of \<^verbatim>\<open>src/src/main.cc\<close> behind the command line: it opens the box, carries out
  the requests of the options in their order, and then resumes the target or serves GDB for ever.
\<close>

section \<open>The other methods of an emulator\<close>

text \<open>The methods of \<open>class jtag\<close> that only \<open>main\<close> calls.\<close>

record 'j main_ops =
  methods :: "'j target_ops"
  op_dchain :: "u32 list \<Rightarrow> ('j, unit) io"
  op_parseEvents :: "string \<Rightarrow> ('j, unit) io"
  op_initJtagBox :: "('j, unit) io"
  op_initJtagOnChipDebugging :: "u64 \<Rightarrow> ('j, unit) io"
  op_eraseProgramMemory :: "('j, unit) io"
  op_downloadToTarget :: "host \<Rightarrow> bool \<Rightarrow> bool \<Rightarrow> ('j, unit) io"

definition set_dchain :: "u32 list \<Rightarrow> ('z jtag_scheme, unit) io" where
  "set_dchain us = io_put (\<lambda>s. s\<lparr>units_before := ucast (us ! 0), units_after := ucast (us ! 1),
     bits_before := ucast (us ! 2), bits_after := ucast (us ! 3)\<rparr>)"

definition mk1_main :: "'z jtag1_scheme main_ops" where
  "mk1_main = \<lparr>methods = mk1_ops, op_dchain = set_dchain, op_parseEvents = jtag1_parseEvents, op_initJtagBox = jtag1_initJtagBox,
     op_initJtagOnChipDebugging = jtag1_initJtagOnChipDebugging, op_eraseProgramMemory = jtag1_eraseProgramMemory,
     op_downloadToTarget = jtag1_downloadToTarget\<rparr>"

definition mk2_main :: "'z jtag2_scheme main_ops" where
  "mk2_main = \<lparr>methods = mk2_ops, op_dchain = set_dchain, op_parseEvents = parseEvents, op_initJtagBox = initJtagBox,
     op_initJtagOnChipDebugging = initJtagOnChipDebugging, op_eraseProgramMemory = eraseProgramMemory,
     op_downloadToTarget = jtag2_downloadToTarget\<rparr>"

section \<open>The session\<close>

text \<open>Saying hello to the box: an exception is caught, and \<open>main\<close> returns 1.\<close>

definition hello :: "'j main_ops \<Rightarrow> options \<Rightarrow> ('j, bool) io" where
  "hello ops opts = (\<lambda>s. case io_then (op_dchain ops (chain opts)) (io_then (op_parseEvents ops (eventlist opts)) (op_initJtagBox ops)) s of
       None \<Rightarrow> None
     | Some (Inl (Thrown msg), t) \<Rightarrow> Some (Inr False, t)
     | Some (Inl e, t) \<Rightarrow> Some (Inl e, t)
     | Some (Inr _, t) \<Rightarrow> Some (Inr True, t))"

definition erase_target :: "'j main_ops \<Rightarrow> ('j, unit) io" where
  "erase_target ops =
     io_then (op_enableProgramming (methods ops)) (io_then (op_eraseProgramMemory ops) (op_disableProgramming (methods ops)))"

definition download_file :: "'j main_ops \<Rightarrow> options \<Rightarrow> host \<Rightarrow> ('j, unit) io" where
  "download_file ops opts h =
     (case inFileName opts of
        None \<Rightarrow> check (\<not> opt_program opts \<and> \<not> opt_verify opts)
          (CHR 0x0A # ''ERROR: Filename not specified. Use the --file option.'' @ [CHR 0x0A])
      | Some _ \<Rightarrow>
          io_then (op_downloadToTarget ops h (opt_program opts \<or> \<not> opt_verify opts) (opt_verify opts))
         (io_then (op_resetProgram (methods ops) False) (io_ret ())))"

text \<open>The requests of the command line, between saying hello and quitting or serving GDB.\<close>

definition requests :: "'j main_ops \<Rightarrow> options \<Rightarrow> host \<Rightarrow> bool \<Rightarrow> ('j, unit) io" where
  "requests ops opts h gdbServerMode =
     io_then (if opt_erase opts \<and> opt_protocol opts \<noteq> MKII_DW then erase_target ops else io_ret ())
    (io_then (if readFuses opts then io_then (jtagReadFuses (methods ops)) (io_ret ()) else io_ret ())
    (io_then (if readLockBits opts then io_then (jtagReadLockBits (methods ops)) (io_ret ()) else io_ret ())
    (io_then (if opt_fuses opts \<noteq> None then jtagWriteFuses (methods ops) (map_option chars (opt_fuses opts)) else io_ret ())
    (io_then (if gdbServerMode \<and> \<not> opt_capture opts then op_initJtagOnChipDebugging ops (jtagBitrate opts) else io_ret ())
    (io_then (download_file ops opts h)
      (if lockBits opts \<noteq> None then jtagWriteLockBits (methods ops) (map_option chars (lockBits opts)) else io_ret ()))))))"

partial_function (option) serve_gdb :: "'j target_ops \<Rightarrow> 'j gdb \<Rightarrow> ((err + int) \<times> 'j gdb) option" where
  "serve_gdb ops g = io_bind (talkToGdb ops) (\<lambda>_ t. serve_gdb ops t) g"

text \<open>\<open>GdbRemote::setFile\<close>, for the descriptor of the connection; \<open>status\<close> is what \<open>fcntl\<close> returns.\<close>

definition setFile :: "int \<Rightarrow> int \<Rightarrow> ('j gdb, unit) io" where
  "setFile fd status = io_then (io_put (\<lambda>g. g\<lparr>gdbFileDescriptor := fd\<rparr>)) (gdb_check status)"

text \<open>\<open>connection\<close> is the outcome of opening the server socket and waiting for GDB: an exception or exit, or
  the descriptor and the status of \<open>fcntl\<close>. The result is the exit status.\<close>

definition main_session :: "'j main_ops \<Rightarrow> options \<Rightarrow> host \<Rightarrow> (err + int \<times> int) option \<Rightarrow> ('j gdb, int) io" where
  "main_session ops opts h connection =
     io_then (io_put (\<lambda>g. g\<lparr>ignoreInterrupts := ignore_intr opts\<rparr>))
    (io_bind (on_ice (hello ops opts)) (\<lambda>ok.
     if \<not> ok then io_ret 1
     else
       io_then (on_ice (requests ops opts h (connection \<noteq> None)))
      (case connection of
         None \<Rightarrow> io_then (on_ice (op_resumeProgram (methods ops))) (io_then (on_ice (op_close (methods ops))) (io_ret 0))
       | Some (Inl e) \<Rightarrow> io_throw e
       | Some (Inr (gfd, status)) \<Rightarrow> io_then (setFile gfd status) (serve_gdb (methods ops)))))"

section \<open>Programming keeps the invariant\<close>

lemma program_loop_keeps:
  fixes ops :: "'j target_ops"
  assumes "\<And>a. preserves J (write_page ops img memtype page_size a)"
  shows "preserves J (program_loop ops img memtype page_size addr)"
proof
  fix s r s'
  assume "J s" "program_loop ops img memtype page_size addr s = Some (r, s')"
  then have "(\<forall>a. preserves J (write_page ops img memtype page_size a)) \<longrightarrow> J s \<longrightarrow> J (snd (r, s'))"
  proof (elim program_loop.raw_induct [where P = "\<lambda>ops img memtype page_size addr s y.
      (\<forall>a. preserves J (write_page ops img memtype page_size a)) \<longrightarrow> J s \<longrightarrow> J (snd y)", rotated], intro impI)
    fix loop :: "'j target_ops \<Rightarrow> BFDimage \<Rightarrow> BFDmemoryType \<Rightarrow> u32 \<Rightarrow> u32 \<Rightarrow> 'j \<Rightarrow> ((err + unit) \<times> 'j) option"
      and ops :: "'j target_ops" and img memtype page_size addr s y
    assume IH: "\<And>ops img memtype page_size addr s y. loop ops img memtype page_size addr s = Some y \<Longrightarrow>
        (\<forall>a. preserves J (write_page ops img memtype page_size a)) \<longrightarrow> J s \<longrightarrow> J (snd y)"
      and keep: "\<forall>a. preserves J (write_page ops img memtype page_size a)" and s: "J s"
    have loop: "preserves J (loop ops img memtype page_size a)" for a
    proof
      fix t r t'
      assume "J t" "loop ops img memtype page_size a t = Some (r, t')"
      then show "J t'" using IH [of ops img memtype page_size a t "(r, t')"] keep by simp
    qed
    assume "(if addr < last_address img then
        io_bind (io_bind (io_defined (pageIsEmpty img addr page_size memtype)) (\<lambda>empty.
            if \<not> empty then write_page ops img memtype page_size addr else io_ret ()))
          (\<lambda>_ t. loop ops img memtype page_size (addr + page_size) t) s
      else Some (Inr (), s)) = Some y"
    then show "J (snd y)"
      by (rule preserves_eq [where I = J and s = s, OF _ s]) (intro preserve preserves_state_fun loop keep [THEN spec])
  qed
  then show "J s'"
    using \<open>J s\<close> assms by simp
qed

lemma verify_loop_keeps:
  fixes ops :: "'j target_ops"
  assumes "\<And>a n. preserves J (op_jtagRead ops a n)"
  shows "preserves J (verify_loop ops img memtype page_size addr v)"
proof
  fix s r s'
  assume "J s" "verify_loop ops img memtype page_size addr v s = Some (r, s')"
  then have "(\<forall>a n. preserves J (op_jtagRead ops a n)) \<longrightarrow> J s \<longrightarrow> J (snd (r, s'))"
  proof (elim verify_loop.raw_induct [where P = "\<lambda>ops img memtype page_size addr v s y.
      (\<forall>a n. preserves J (op_jtagRead ops a n)) \<longrightarrow> J s \<longrightarrow> J (snd y)", rotated], intro impI)
    fix loop :: "'j target_ops \<Rightarrow> BFDimage \<Rightarrow> BFDmemoryType \<Rightarrow> u32 \<Rightarrow> u32 \<Rightarrow> bool \<Rightarrow> 'j \<Rightarrow> ((err + bool) \<times> 'j) option"
      and ops :: "'j target_ops" and img memtype page_size addr v s y
    assume IH: "\<And>ops img memtype page_size addr v s y. loop ops img memtype page_size addr v s = Some y \<Longrightarrow>
        (\<forall>a n. preserves J (op_jtagRead ops a n)) \<longrightarrow> J s \<longrightarrow> J (snd y)"
      and keep: "\<forall>a n. preserves J (op_jtagRead ops a n)" and s: "J s"
    have loop: "preserves J (loop ops img memtype page_size a w)" for a w
    proof
      fix t r t'
      assume "J t" "loop ops img memtype page_size a w t = Some (r, t')"
      then show "J t'" using IH [of ops img memtype page_size a w t "(r, t')"] keep by simp
    qed
    assume "(if addr < last_address img then
        io_bind (io_bind (op_jtagRead ops (ucast (ucast (BFDmemorySpaceOffset memtype) + addr)) page_size) (\<lambda>response.
            io_defined (verify_bytes img response addr (unat page_size) v)))
          (\<lambda>v t. loop ops img memtype page_size (addr + page_size) v t) s
      else Some (Inr v, s)) = Some y"
    then show "J (snd y)"
      by (rule preserves_eq [where I = J and s = s, OF _ s]) (intro preserve preserves_state_fun loop keep [THEN spec, THEN spec])
  qed
  then show "J s'"
    using \<open>J s\<close> assms by simp
qed

context debug_target
begin

lemma keeps_page_size: "preserves inv (get_page_size ops memtype)"
  unfolding get_page_size_def by (intro preserve)

lemma keeps_flash_image: "preserves inv (jtag_flash_image ops img memtype p v)"
  unfolding jtag_flash_image_def write_page_def
  by (intro preserve keeps_page_size program_loop_keeps verify_loop_keeps inv_ops) (auto simp: write_page_def intro!: preserve inv_ops)

lemma keeps_download_images: "preserves inv (download_images ops file p v)"
  unfolding download_images_def by (intro preserve keeps_flash_image inv_ops)

lemma keeps_fuses:
  "preserves inv (jtagReadFuses ops)" "preserves inv (jtagWriteFuses ops f)"
  "preserves inv (jtagReadLockBits ops)" "preserves inv (jtagWriteLockBits ops f)"
  unfolding jtagReadFuses_def jtagWriteFuses_def jtagReadLockBits_def jtagWriteLockBits_def response_bytes_def Let_def
  by (intro preserve inv_ops)+

end

lemma preserves_open_file [preserve]: "preserves I (\<lambda>s. map_option (\<lambda>r. (r, s)) (open_file h t))"
  by (auto simp: preserves_def)

text \<open>A driver as \<open>main\<close> uses it: \<open>pre\<close> holds after the constructor, and \<open>inv\<close> once the box has answered.\<close>

locale main_target = debug_target "methods ops" inv for ops :: "'j main_ops" and inv :: "'j \<Rightarrow> bool" +
  fixes pre :: "'j \<Rightarrow> bool"
  assumes init_establishes: "pre s \<Longrightarrow>
      io_then (op_dchain ops us) (io_then (op_parseEvents ops evs) (op_initJtagBox ops)) s = Some (Inr (), t) \<Longrightarrow> inv t"
    and inv_erase: "preserves inv (op_eraseProgramMemory ops)"
    and inv_ocd: "preserves inv (op_initJtagOnChipDebugging ops r)"
    and inv_download: "preserves inv (op_downloadToTarget ops h p v)"
begin

lemma keeps_requests: "preserves inv (requests ops opts h b)"
  unfolding requests_def erase_target_def download_file_def
  by (intro preserve inv_ops inv_erase inv_ocd inv_download keeps_fuses)

lemma hello_establishes: "pre s \<Longrightarrow> hello ops opts s = Some (Inr True, t) \<Longrightarrow> inv t"
  by (auto simp: hello_def split: option.splits sum.splits err.splits dest: init_establishes)

end

section \<open>The whole session keeps the invariant\<close>

text \<open>GDB is served for ever: there is no normal return.\<close>

lemma serve_gdb_result:
  assumes "preserves J (talkToGdb ops)"
  shows "serve_gdb ops g = Some (r, g') \<Longrightarrow> (\<exists>e. r = Inl e) \<and> (J g \<longrightarrow> J g')"
proof -
  assume "serve_gdb ops g = Some (r, g')"
  then have "preserves J (talkToGdb ops) \<longrightarrow> (\<exists>e. fst (r, g') = Inl e) \<and> (J g \<longrightarrow> J (snd (r, g')))"
  proof (elim serve_gdb.raw_induct [where P = "\<lambda>ops g y. preserves J (talkToGdb ops) \<longrightarrow>
      (\<exists>e. fst y = Inl e) \<and> (J g \<longrightarrow> J (snd y))", rotated], intro impI)
    fix loop :: "'a target_ops \<Rightarrow> 'a gdb \<Rightarrow> ((err + int) \<times> 'a gdb) option" and ops :: "'a target_ops" and g y
    assume IH: "\<And>ops g y. loop ops g = Some y \<Longrightarrow> preserves J (talkToGdb ops) \<longrightarrow>
        (\<exists>e. fst y = Inl e) \<and> (J g \<longrightarrow> J (snd y))"
      and keep: "preserves J (talkToGdb ops)" and run: "io_bind (talkToGdb ops) (\<lambda>_. loop ops) g = Some y"
    obtain q u where y: "y = (q, u)" by (cases y)
    from run [unfolded y] show "(\<exists>e. fst y = Inl e) \<and> (J g \<longrightarrow> J (snd y))"
    proof (cases rule: io_bind_SomeE)
      case (err e)
      then show ?thesis using preservesD [OF keep err(1)] by (simp add: y)
    next
      case (ok x t)
      then show ?thesis using IH [OF ok(2)] keep preservesD [OF keep ok(1)] by (simp add: y)
    qed
  qed
  then show ?thesis
    using assms by simp
qed

lemma preserves_sum [preserve]:
  "(\<And>e. preserves J (f e)) \<Longrightarrow> (\<And>x. preserves J (k x)) \<Longrightarrow> preserves J (case y of Inl e \<Rightarrow> f e | Inr x \<Rightarrow> k x)"
  by (cases y) simp_all

lemma preserves_setFile: "preserves (gdb_inv J) (setFile fd status)"
  unfolding setFile_def gdb_check_def
  by (intro preserve preserves_put) (simp add: gdb_inv_def buffers_ok_def)

text \<open>\<open>main_session\<close> after the greeting.\<close>

definition after_hello :: "'j main_ops \<Rightarrow> options \<Rightarrow> host \<Rightarrow> (err + int \<times> int) option \<Rightarrow> ('j gdb, int) io" where
  "after_hello ops opts h connection =
       io_then (on_ice (requests ops opts h (connection \<noteq> None)))
      (case connection of
         None \<Rightarrow> io_then (on_ice (op_resumeProgram (methods ops))) (io_then (on_ice (op_close (methods ops))) (io_ret 0))
       | Some (Inl e) \<Rightarrow> io_throw e
       | Some (Inr (gfd, status)) \<Rightarrow> io_then (setFile gfd status) (serve_gdb (methods ops)))"

lemma main_session_cases:
  assumes "main_session ops opts h connection g = Some (r, g')"
  obtains (failed) t where "hello ops opts (ice g) = Some (Inr False, t)" "r = Inr 1"
      "g' = g\<lparr>ignoreInterrupts := ignore_intr opts, ice := t\<rparr>"
    | (error) e t where "hello ops opts (ice g) = Some (Inl e, t)" "r = Inl e"
      "g' = g\<lparr>ignoreInterrupts := ignore_intr opts, ice := t\<rparr>"
    | (ready) t where "hello ops opts (ice g) = Some (Inr True, t)"
      "after_hello ops opts h connection (g\<lparr>ignoreInterrupts := ignore_intr opts, ice := t\<rparr>) = Some (r, g')"
proof -
  have run: "io_bind (on_ice (hello ops opts)) (\<lambda>ok. if \<not> ok then io_ret 1 else after_hello ops opts h connection)
      (g\<lparr>ignoreInterrupts := ignore_intr opts\<rparr>) = Some (r, g')"
    using assms unfolding main_session_def after_hello_def by (simp add: io_then_def [of "io_put _"] io_simps)
  then obtain x t where x: "hello ops opts (ice g) = Some (x, t)"
    by (auto simp: on_ice_def io_bind_def split: option.splits)
  then have "on_ice (hello ops opts) (g\<lparr>ignoreInterrupts := ignore_intr opts\<rparr>) =
      Some (x, g\<lparr>ignoreInterrupts := ignore_intr opts, ice := t\<rparr>)"
    by (simp add: on_ice_def)
  with run x show thesis
    by (cases x; cases "projr x") (auto simp: io_bind_def io_ret_def intro: that)
qed

context main_target
begin

lemma keeps_serve_gdb: "preserves (gdb_inv inv) (serve_gdb (methods ops))"
  using serve_gdb_result [OF keeps_talkToGdb] by (auto simp: preserves_def)

lemma keeps_after_hello: "preserves (gdb_inv inv) (after_hello ops opts h connection)"
  unfolding after_hello_def
  by (intro preserve keeps_requests inv_ops preserves_setFile keeps_serve_gdb)

lemma session_keeps:
  assumes "pre (ice g)" "buffers_ok g" "main_session ops opts h connection g = Some (r, g')"
    and "hello ops opts (ice g) = Some (Inr True, t)"
  shows "gdb_inv inv g'"
  using assms(3)
proof (cases rule: main_session_cases)
  case (ready u)
  have "inv u"
    by (rule hello_establishes [OF assms(1) ready(1)])
  then have "gdb_inv inv (g\<lparr>ignoreInterrupts := ignore_intr opts, ice := u\<rparr>)"
    using assms(2) by (simp add: gdb_inv_def buffers_ok_def)
  then show ?thesis
    by (rule preservesD [OF keeps_after_hello ready(2)])
qed (simp_all add: assms(4))

end

section \<open>The mkI driver\<close>

text \<open>After the constructor only the sizes of the arrays of breakpoints are known.\<close>

definition mk1_sized :: "'z jtag1_scheme \<Rightarrow> bool" where
  "mk1_sized s \<longleftrightarrow> length (bpCode (bp1 s)) = MAX_BREAKPOINTS_CODE \<and> length (bpData (bp1 s)) = MAX_BREAKPOINTS_DATA"

text \<open>The state predicates that connecting with the mkI driver cannot falsify.\<close>

definition link_closed1 :: "('z jtag_scheme \<Rightarrow> bool) \<Rightarrow> bool" where
  "link_closed1 I \<longleftrightarrow> line_closed I \<and> (\<forall>s. I s \<longrightarrow> (\<forall>r. I (s\<lparr>local_rate := r\<rparr>)) \<and> (\<forall>a b. I (s\<lparr>rx := a, flq := b\<rparr>)) \<and>
     (\<forall>n d. I (s\<lparr>device_name := n, p_device_def := Some d\<rparr>)))"

lemma link_closed1_line: "link_closed1 I \<Longrightarrow> line_closed I"
  by (simp add: link_closed1_def)

lemma link_closed1_sized: "link_closed1 mk1_sized"
  by (simp add: link_closed1_def line_closed_def mk1_sized_def)

lemma link1_preserves_changeBitRate:
  assumes "link_closed1 I"
  shows "preserves I (changeLocalBitRate r)" "preserves I (jtag1_changeBitRate r)"
proof -
  show c: "preserves I (changeLocalBitRate r)"
    using assms by (intro preserve) (auto simp: link_closed1_def)
  show "preserves I (jtag1_changeBitRate r)"
    unfolding jtag1_changeBitRate_def by (intro preserve c link_closed1_line assms)
qed

lemma line_preserves_synchronise_loop1:
  assumes "line_closed I"
  shows "synchronise_loop1 n s = Some (r, t) \<Longrightarrow> I s \<Longrightarrow> I t"
proof (induction n s rule: synchronise_loop1.induct)
  case (1 n s)
  have check: "preserves I (io_then tty_check (io_then tcflush_input checkForEmulator))"
    unfolding tty_check_def checkForEmulator_def by (intro preserve assms)
  show ?case
  proof (cases "n < MAX_JTAG_SYNC_ATTEMPS")
    case False
    with "1.prems" show ?thesis by (simp add: synchronise_loop1.simps [of n])
  next
    case True
    with "1.prems"(1) have "io_bind (jtag1_sendJtagCommand [0x53, 0x45, 0x20, 0x20] n) (\<lambda>(q, n') t.
          io_bind (io_then tty_check (io_then tcflush_input checkForEmulator)) (\<lambda>found u.
            if found then Some (Inr True, u) else synchronise_loop1 n' u) t) s = Some (r, t)"
      by (simp add: synchronise_loop1.simps [of n])
    then show ?thesis
    proof (cases rule: io_bind_SomeE)
      case (err e)
      then show ?thesis using preservesD [OF line_preserves_send [OF assms]] "1.prems"(2) by blast
    next
      case (ok x u)
      obtain q n' where x: "x = (q, n')" by (cases x)
      have u: "I u" using preservesD [OF line_preserves_send [OF assms]] ok(1) "1.prems"(2) by blast
      from ok(2) have "io_bind (io_then tty_check (io_then tcflush_input checkForEmulator)) (\<lambda>found v.
            if found then Some (Inr True, v) else synchronise_loop1 n' v) u = Some (r, t)"
        by (simp add: x)
      then show ?thesis
      proof (cases rule: io_bind_SomeE)
        case (err e)
        then show ?thesis using preservesD [OF check] u by blast
      next
        case (ok found v)
        then show ?thesis
          using "1.IH" [OF True _ x [symmetric]] \<open>jtag1_sendJtagCommand _ _ s = _\<close> preservesD [OF check ok(1) u]
          by (cases found) auto
      qed
    qed
  qed
qed

lemma link1_preserves_startJtagLink: "link_closed1 I \<Longrightarrow> preserves I jtag1_startJtagLink"
proof -
  assume I: "link_closed1 I"
  have sync: "preserves I (jtag1_synchroniseAt r)" for r
    unfolding jtag1_synchroniseAt_def
    by (intro preserve link1_preserves_changeBitRate I)
      (auto simp: preserves_def dest: line_preserves_synchronise_loop1 [OF link_closed1_line [OF I]])
  have "preserves I (start_link1 rates)" for rates
  proof (induction rates)
    case (Cons r rates)
    show ?case
      unfolding start_link1.simps by (intro preserve sync Cons.IH)
  qed (simp add: preserve del: check_simps)
  then show "preserves I jtag1_startJtagLink"
    by (simp add: jtag1_startJtagLink_def)
qed

lemma link1_preserves_deviceAutoConfig:
  assumes "link_closed1 I"
  shows "preserves I jtag1_deviceAutoConfig"
proof -
  have "preserves I (io_put (\<lambda>s. s\<lparr>device_name := dev_name d, p_device_def := Some d\<rparr>))" for d
    using assms by (intro preserves_put) (simp add: link_closed1_def)
  then show ?thesis
    unfolding jtag1_deviceAutoConfig_def by (intro preserve link_closed1_line assms)
qed

lemma mk1_init:
  assumes "mk1_sized s"
    and "io_then (set_dchain us) (io_then (jtag1_parseEvents evs) jtag1_initJtagBox) s = Some (Inr (), t)"
  shows "mk1_ok t"
proof -
  have set: "preserves mk1_sized (set_dchain us)"
    unfolding set_dchain_def by (rule preserves_put) (simp add: mk1_sized_def)
  obtain u where u: "mk1_sized u" "jtag1_deleteAllBreakpoints u = Some (Inr (), t)"
    using assms(2) unfolding jtag1_parseEvents_def jtag1_initJtagBox_def
    by (elim io_then_InrE) (auto simp: io_ret_def
      dest!: preservesD [OF set _ assms(1)]
        preservesD [OF link1_preserves_startJtagLink [OF link_closed1_sized]]
        preservesD [OF link1_preserves_changeBitRate(2) [OF link_closed1_sized]]
        preservesD [OF line_preserves_getParameter [OF link_closed1_line [OF link_closed1_sized]]]
        preservesD [OF line_preserves_run(4) [OF link_closed1_line [OF link_closed1_sized]]]
        preservesD [OF link1_preserves_deviceAutoConfig [OF link_closed1_sized]])
  then show ?thesis
    by (auto simp: jtag1_deleteAllBreakpoints_def on_table1_def deleteAllBreakpoints1_def mk1_ok_def bp1_ok_def mk1_sized_def)
qed

lemma mk1_ok_programming: "mk1_ok s \<Longrightarrow> mk1_ok (s\<lparr>programmingEnabled := b\<rparr>)"
  by (simp add: mk1_ok_def)

lemma mk1_ok_ocd: "preserves mk1_ok (jtag1_initJtagOnChipDebugging r)"
  unfolding jtag1_initJtagOnChipDebugging_def jtag1_unlock_bits_def jtag1_enable_ocd_fuse_def
  by (intro preserve mk1_ok_line line_preserves_enable line_preserves_disable mk1_ok_programming; assumption?)

lemma mk1_ok_download: "preserves mk1_ok (jtag1_downloadToTarget h p v)"
  unfolding jtag1_downloadToTarget_def get_page_size_def
  by (intro preserve mk1_ok_line mk1_target.keeps_download_images)

interpretation mk1_driver: main_target mk1_main mk1_ok mk1_sized
proof -
  have methods: "methods mk1_main = mk1_ops"
    by (simp add: mk1_main_def)
  show "main_target mk1_main mk1_ok mk1_sized"
    unfolding main_target_def methods main_target_axioms_def
    by (intro conjI allI impI mk1_target.debug_target_axioms)
      (auto simp: mk1_main_def mk1_ok_ocd mk1_ok_download mk1_ok_line line_preserves_erase dest: mk1_init)
qed

section \<open>The mkII driver\<close>

definition mk2_made :: "'z jtag2_scheme \<Rightarrow> bool" where
  "mk2_made s \<longleftrightarrow> jtag2_inv s \<and> table_ok (bps s)"

lemma link_closed_made: "link_closed mk2_made"
  using link_closed_inv by (auto simp: link_closed_def comm_closed_def mk2_made_def)

lemma mk2_made_deleteAll: "mk2_made s \<Longrightarrow> jtag2_deleteAllBreakpoints s = Some (r, t) \<Longrightarrow> mk2_made t \<and> p_device_def t = p_device_def s"
  using deleteAllBreakpoints_ok [of "bps s"]
  by (auto simp: mk2_made_def jtag2_deleteAllBreakpoints_def on_table_def jtag2_inv_def arrays_ok_def seq_ok_def table_ok_length)

lemma mk2_made_parseEvents: "preserves mk2_made (parseEvents evs)"
proof -
  have "arrays_ok s \<Longrightarrow> arrays_ok (s\<lparr>nonbreaking_events := event_items evs (replicate (length (nonbreaking_events s)) False)\<rparr>)"
    for s :: "'a jtag2_scheme"
    using fold_set_event [of "replicate 32 False" "event_names evs"] by (auto simp: arrays_ok_def event_items_fold)
  then show ?thesis
    unfolding parseEvents_def by (intro preserves_put) (auto simp: mk2_made_def jtag2_inv_def seq_ok_def)
qed

lemma mk2_init:
  assumes "mk2_made s" "io_then (set_dchain us) (io_then (parseEvents evs) initJtagBox) s = Some (Inr (), t)"
  shows "mk2_ok t"
proof -
  have set: "preserves mk2_made (set_dchain us)"
    unfolding set_dchain_def by (rule preserves_put) (simp add: mk2_made_def jtag2_inv_def arrays_ok_def seq_ok_def)
  have name: "preserves mk2_made (io_put (\<lambda>s. case device_name s of
         None \<Rightarrow> s
       | Some n \<Rightarrow> (case find_device (device_named n) deviceDefinitions of
            None \<Rightarrow> s
          | Some d \<Rightarrow> s\<lparr>is_xmega := dev_is_xmega d\<rparr>)))"
    by (rule preserves_put) (simp add: mk2_made_def split: option.split)
  have link: "preserves mk2_made (io_then startJtagLink (io_then (changeBitRate 115200) interruptProgram))"
    by (intro preserve link_preserves_startJtagLink link_preserves_changeBitRate link_closed_comm link_closed_made)
  from assms(2) obtain w1 w2 w3 w4 w5 w6 u v where steps: "set_dchain us s = Some (Inr (), w1)" "parseEvents evs w1 = Some (Inr (), w2)"
      "io_put (\<lambda>s. case device_name s of
         None \<Rightarrow> s
       | Some n \<Rightarrow> (case find_device (device_named n) deviceDefinitions of
            None \<Rightarrow> s
          | Some d \<Rightarrow> s\<lparr>is_xmega := dev_is_xmega d\<rparr>)) w2 = Some (Inr (), w3)"
      "startJtagLink w3 = Some (Inr (), w4)" "changeBitRate 115200 w4 = Some (Inr (), w5)" "interruptProgram w5 = Some (Inr w6, u)"
    and u: "deviceAutoConfig u = Some (Inr (), v)" "jtag2_deleteAllBreakpoints v = Some (Inr (), t)"
    unfolding initJtagBox_def by (elim io_then_InrE) simp
  have "io_then startJtagLink (io_then (changeBitRate 115200) interruptProgram) w3 = Some (Inr w6, u)"
    using steps by (simp add: io_then_def io_bind_def)
  then have "mk2_made u"
    using preservesD [OF link] preservesD [OF name steps(3)] preservesD [OF mk2_made_parseEvents steps(2)]
      preservesD [OF set steps(1) assms(1)] by blast
  have "mk2_made v"
    by (rule preservesD [OF link_preserves_deviceAutoConfig [OF link_closed_made] u(1) \<open>mk2_made u\<close>])
  then show ?thesis
    using mk2_made_deleteAll [OF _ u(2)] deviceAutoConfig_device [OF u(1)] by (simp add: mk2_ok_def mk2_made_def)
qed

lemma mk2_ok_ocd: "preserves mk2_ok (initJtagOnChipDebugging r)"
  unfolding initJtagOnChipDebugging_def unlock_bits_def enable_ocd_fuse_def
  by (intro preserve preserves_jtagRead preserves_jtagWrite mk2_ok_comm mk2_ok_fill mk2_ok_programming
      comm_preserves_enableProgramming comm_preserves_disableProgramming; assumption?)

lemma mk2_ok_download: "preserves mk2_ok (jtag2_downloadToTarget h p v)"
  unfolding jtag2_downloadToTarget_def get_page_size_def
  by (intro preserve mk2_target.keeps_download_images)

interpretation mk2_driver: main_target mk2_main mk2_ok mk2_made
proof -
  have methods: "methods mk2_main = mk2_ops"
    by (simp add: mk2_main_def)
  show "main_target mk2_main mk2_ok mk2_made"
    unfolding main_target_def methods main_target_axioms_def
    by (intro conjI allI impI mk2_target.debug_target_axioms)
      (auto simp: mk2_main_def mk2_ok_ocd mk2_ok_download mk2_ok_comm comm_preserves_eraseMemory dest: mk2_init)
qed

end
