(* ===== verification/Session.thy ===== *)
theory Session
  imports Avarice_Main
begin

text \<open>
  Whole runs of the program: what the greeting of either box leads to, that a session keeps the invariant of
  its driver, how it ends, and when a GDB server gets to serve.
\<close>

section \<open>Connecting with the mkI driver\<close>

text \<open>The messages of a box at 115200 baud: the status of the first synchronisation, the sign-on, the bit
  rate, the two versions, the stop of the program, and the id and descriptor of the device.\<close>

definition greeting1 :: "u8 \<Rightarrow> u8 \<Rightarrow> u8 \<Rightarrow> u8 list \<Rightarrow> u8 list" where
  "greeting1 b hw sw ids =
     b # JTAG_R_OK # AVRNOCDA @ [JTAG_R_OK, JTAG_R_OK] @ [JTAG_R_OK, hw, JTAG_R_OK] @ [JTAG_R_OK, sw, JTAG_R_OK] @
     [JTAG_R_OK, 0, 0, 0, JTAG_R_OK] @ id_answers (ids ! 0) (ids ! 1) (ids ! 2) (ids ! 3) @ [JTAG_R_OK, JTAG_R_OK]"

definition rate_of :: "'z jtag_scheme \<Rightarrow> int \<Rightarrow> 'z jtag_scheme" where
  "rate_of s r = s\<lparr>local_rate := (if is_usb s then local_rate s else r)\<rparr>"

lemma changeLocalBitRate_ready: "ready1 s \<Longrightarrow> changeLocalBitRate 115200 s = Some (Inr (), rate_of s 115200)"
  by (simp add: changeLocalBitRate_def ready1_def rate_of_def io_simps jtagCheck_simps tcflush_none)

lemma ready1_updates [simp]:
  "ready1 (rate_of s r) = ready1 s" "ready1 (s\<lparr>device_name := n, p_device_def := d\<rparr>) = ready1 s"
  "ready1 (s\<lparr>units_before := a, units_after := b, bits_before := c, bits_after := e\<rparr>) = ready1 s"
  by (simp_all add: ready1_def rate_of_def)

lemma AVRNOCDA_length: "length AVRNOCDA = 8"
  by (simp add: AVRNOCDA_def)

lemma answers_device:
  assumes "answers s out rest u"
  shows "answers (s\<lparr>device_name := n, p_device_def := d\<rparr>) out rest (u\<lparr>device_name := n, p_device_def := d\<rparr>)"
proof -
  obtain evs where evs: "u = s\<lparr>rx := evs, tx := tx s @ out\<rparr>" "avail evs = rest" "stop evs = stop (rx s)"
    using assms by (auto simp: answers_def)
  then have "u\<lparr>device_name := n, p_device_def := d\<rparr> =
      s\<lparr>device_name := n, p_device_def := d, rx := evs, tx := tx (s\<lparr>device_name := n, p_device_def := d\<rparr>) @ out\<rparr>"
    by (intro jtag.equality) simp_all
  then show ?thesis
    using evs unfolding answers_def by (intro exI [of _ evs]) simp
qed

lemma synchroniseAt1_answer:
  assumes "ready1 s" "avail (rx s) = b # JTAG_R_OK # AVRNOCDA @ rest" "b \<noteq> JTAG_R_INFO"
  shows "\<exists>t out. jtag1_synchroniseAt 115200 s = Some (Inr True, t) \<and> answers (rate_of s 115200) out rest t"
proof -
  let ?s = "rate_of s 115200"
  have "ready1 ?s" "avail (rx ?s) = b # JTAG_R_OK # AVRNOCDA @ rest"
    using assms by (simp_all add: rate_of_def ready1_def)
  then obtain t x where t: "jtag1_sendJtagCommand [0x53, 0x45, 0x20, 0x20] 0 ?s = Some (Inr x, t)" "snd x = 1"
      "answers ?s [0x53, 0x45, 0x20, 0x20] (JTAG_R_OK # AVRNOCDA @ rest) t"
    using send_answer [of ?s 0 b "JTAG_R_OK # AVRNOCDA @ rest" "[0x53, 0x45, 0x20, 0x20]"] assms(3) that by (auto simp: code_defs)
  note st = answers_simps [OF t(3)]
  have rt: "ready1 t" using st(3) \<open>ready1 ?s\<close> by simp
  obtain u where u: "jtag1_sendJtagCommand (0x53 # JTAG_EOM) 0 t = Some (Inr (send_ok, 1), u)" "answers t (0x53 # JTAG_EOM) (AVRNOCDA @ rest) u"
    using send_answer [OF rt _ st(1), of 0 "0x53 # JTAG_EOM"] by (auto simp: code_defs)
  obtain v where v: "getJtagResponse 8 u = Some (Inr (Some (AVRNOCDA @ [0])), v)" "answers u [] rest v"
    using response_answer [OF answers_simps(1) [OF u(2)]] by (auto simp: AVRNOCDA_length)
  have "takeWhile (\<lambda>c. c \<noteq> 0) (AVRNOCDA @ [0]) = AVRNOCDA"
    by (simp add: AVRNOCDA_def)
  then have "io_then tty_check (io_then tcflush_input checkForEmulator) t = Some (Inr True, v)"
    using rt u(1) v(1) by (simp add: tty_check_def checkForEmulator_def io_simps jtagCheck_simps tcflush_none ready1_def)
  then have "synchronise_loop1 0 ?s = Some (Inr True, v)"
    using t(1,2) by (cases x) (simp add: synchronise_loop1.simps [of 0] io_simps code_defs)
  then show ?thesis
    using changeLocalBitRate_ready [OF assms(1)] answers_trans [OF answers_trans [OF t(3) u(2)] v(2)]
    by (auto simp: jtag1_synchroniseAt_def io_simps)
qed

lemma deviceAutoConfig1_answer:
  assumes "ready1 s" "avail (rx s) = id_answers b0 b1 b2 b3 @ [JTAG_R_OK, JTAG_R_OK] @ rest" "device_name s = None"
    and "units_before s = 0" "units_after s = 0" "bits_before s = 0" "bits_after s = 0"
    and "find_device (\<lambda>d. device_id d = drop_bit 12 ((ucast b0 + (push_bit 8 (ucast b1) + push_bit 16 (ucast b2) +
       push_bit 24 (ucast b3))) AND 0x0FFFF000)) deviceDefinitions = Some d" "device_flags d \<noteq> DEVFL_MKII_ONLY"
  shows "\<exists>t out. jtag1_deviceAutoConfig s = Some (Inr (), t) \<and>
     answers (s\<lparr>device_name := dev_name d, p_device_def := Some d\<rparr>) out rest t"
proof -
  have chain: "jtag1_configDaisyChain s = Some (Inr (), s)"
    using assms(4-7) by (simp add: jtag1_configDaisyChain_def io_simps)
  let ?id = "drop_bit 12 ((ucast b0 + (push_bit 8 (ucast b1) + push_bit 16 (ucast b2) + push_bit 24 (ucast b3))) AND 0x0FFFF000) :: u32"
  obtain u out where u: "reported_device_id1 s = Some (Inr ?id, u)" "answers s out ([JTAG_R_OK, JTAG_R_OK] @ rest) u"
    using reported_device_id1_answer [OF assms(1,2)] by blast
  have un: "device_name u = None"
    using u(2) assms(3) by (auto simp: answers_def)
  have sel: "select_device1 None ?id u = Some (Inr d, u)"
    using assms(8,9) by (simp add: select_device1_def io_simps)
  let ?v = "u\<lparr>device_name := dev_name d, p_device_def := Some d\<rparr>"
  have "ready1 ?v" "avail (rx ?v) = JTAG_R_OK # JTAG_R_OK # rest"
    using answers_simps [OF u(2)] assms(1) by simp_all
  from setDeviceDescriptor1_answer [OF this] obtain t where t: "jtag1_setDeviceDescriptor d ?v = Some (Inr (), t)"
      "answers ?v (desc1_bytes (dev_desc1 d)) rest t"
    by blast
  have "answers (s\<lparr>device_name := dev_name d, p_device_def := Some d\<rparr>) out ([JTAG_R_OK, JTAG_R_OK] @ rest) ?v"
    by (rule answers_device [OF u(2)])
  then show ?thesis
    using chain u(1) un sel t answers_trans by (fastforce simp: jtag1_deviceAutoConfig_def io_simps)
qed

text \<open>A box that is not configured yet, before the messages \<open>ms\<close>.\<close>

definition unconfigured :: "u8 list \<Rightarrow> 'z jtag_scheme \<Rightarrow> bool" where
  "unconfigured ms s \<longleftrightarrow> ready1 s \<and> avail (rx s) = ms \<and> device_name s = None \<and>
     units_before s = 0 \<and> units_after s = 0 \<and> bits_before s = 0 \<and> bits_after s = 0"

lemma unconfigured_step:
  "unconfigured ms s \<Longrightarrow> answers s out rest t \<Longrightarrow> unconfigured rest t"
  "unconfigured ms (rate_of s r) = unconfigured ms s"
  by (auto simp: unconfigured_def answers_def ready1_def rate_of_def)

lemma startJtagLink1_answer:
  assumes "unconfigured (b # JTAG_R_OK # AVRNOCDA @ rest) s" "b \<noteq> JTAG_R_INFO"
  shows "\<exists>t. jtag1_startJtagLink s = Some (Inr (), t) \<and> unconfigured rest t"
proof -
  obtain t out where "jtag1_synchroniseAt 115200 s = Some (Inr True, t)" "answers (rate_of s 115200) out rest t"
    using synchroniseAt1_answer [of s b rest] assms by (auto simp: unconfigured_def)
  then show ?thesis
    using unconfigured_step(1) [of _ "rate_of s 115200"] assms(1)
    by (auto simp: jtag1_startJtagLink_def bitrates1_def io_simps unconfigured_step(2))
qed

lemma changeBitRate1_answer:
  assumes "unconfigured (JTAG_R_OK # JTAG_R_OK # rest) s"
  shows "\<exists>t. jtag1_changeBitRate 115200 s = Some (Inr (), t) \<and> unconfigured rest t"
proof -
  obtain t where t: "jtag1_setJtagParameter JTAG_P_BITRATE BIT_RATE_115200 s = Some (Inr (), t)" "unconfigured rest t"
    using setParameter1_answer [of s rest JTAG_P_BITRATE BIT_RATE_115200] assms unconfigured_step(1) [OF assms]
    by (auto simp: unconfigured_def)
  then have "changeLocalBitRate 115200 t = Some (Inr (), rate_of t 115200)"
    by (intro changeLocalBitRate_ready) (simp add: unconfigured_def)
  then show ?thesis
    using t by (auto simp: jtag1_changeBitRate_def baud_code1_def io_simps unconfigured_step(2))
qed

lemma getJtagParameter1_step:
  assumes "unconfigured (JTAG_R_OK # v # JTAG_R_OK # rest) s"
  shows "\<exists>t. jtag1_getJtagParameter item s = Some (Inr v, t) \<and> unconfigured rest t"
  using getJtagParameter1_answer [of s v rest item] assms unconfigured_step(1) [OF assms]
  by (auto simp: unconfigured_def)

text \<open>The mkI driver adds the bytes of the id, the mkII driver takes their disjunction.\<close>

lemma device_id_sum:
  fixes a b c e :: u8
  shows "(ucast a + (push_bit 8 (ucast b) + push_bit 16 (ucast c) + push_bit 24 (ucast e)) :: u32) =
     ucast a OR push_bit 8 (ucast b) OR push_bit 16 (ucast c) OR push_bit 24 (ucast e)"
  by (simp add: u32_bytes_or [symmetric] add.assoc)

lemma hello1_answer:
  assumes "wq s = []" "flq s = []" "tty_ok s" "device_name s = None" "chain opts = [0, 0, 0, 0]"
    and "b \<noteq> JTAG_R_INFO" "length ids = 4" "avail (rx s) = greeting1 b hw sw ids @ rest"
    and "find_device (\<lambda>d. device_id d = jtag_device_id ids) deviceDefinitions = Some d" "device_flags d \<noteq> DEVFL_MKII_ONLY"
  shows "\<exists>t. hello mk1_main opts s = Some (Inr True, t) \<and> p_device_def t = Some d \<and> device_name t = dev_name d \<and>
     avail (rx t) = rest \<and> numBreakpointsCode (bp1 t) = 0 \<and> numBreakpointsData (bp1 t) = 0"
proof -
  define s0 where "s0 = s\<lparr>units_before := 0, units_after := 0, bits_before := 0, bits_after := 0\<rparr>"
  have dchain: "set_dchain (chain opts) s = Some (Inr (), s0)"
    by (simp add: set_dchain_def assms(5) io_simps s0_def numeral_2_eq_2 numeral_3_eq_3)
  define r3 where "r3 = id_answers (ids ! 0) (ids ! 1) (ids ! 2) (ids ! 3) @ [JTAG_R_OK, JTAG_R_OK] @ rest"
  define r2 where "r2 = [JTAG_R_OK, 0, 0, 0, JTAG_R_OK] @ r3"
  define r1 where "r1 = JTAG_R_OK # hw # JTAG_R_OK # JTAG_R_OK # sw # JTAG_R_OK # r2"
  have "unconfigured (b # JTAG_R_OK # AVRNOCDA @ JTAG_R_OK # JTAG_R_OK # r1) s0"
    using assms(1-4,8) by (simp add: unconfigured_def s0_def ready1_def greeting1_def r1_def r2_def r3_def)
  then obtain s1 where s1: "jtag1_startJtagLink s0 = Some (Inr (), s1)" "unconfigured (JTAG_R_OK # JTAG_R_OK # r1) s1"
    using startJtagLink1_answer assms(6) by blast
  obtain s2 where s2: "jtag1_changeBitRate 115200 s1 = Some (Inr (), s2)" "unconfigured r1 s2"
    using changeBitRate1_answer [OF s1(2)] by blast
  obtain s3 where s3: "jtag1_getJtagParameter JTAG_P_HW_VERSION s2 = Some (Inr hw, s3)"
      "unconfigured (JTAG_R_OK # sw # JTAG_R_OK # r2) s3"
    using getJtagParameter1_step [OF s2(2) [unfolded r1_def]] by blast
  obtain s4 where s4: "jtag1_getJtagParameter JTAG_P_SW_VERSION s3 = Some (Inr sw, s4)" "unconfigured r2 s4"
    using getJtagParameter1_step [OF s3(2)] by blast
  obtain s5 where s5: "jtag1_interruptProgram s4 = Some (Inr True, s5)" "unconfigured r3 s5"
    using interruptProgram1_answer [of s4 0 0 0 r3] s4(2) unconfigured_step(1) [OF s4(2)]
    by (auto simp: unconfigured_def r2_def)
  obtain t out where t: "jtag1_deviceAutoConfig s5 = Some (Inr (), t)"
      "answers (s5\<lparr>device_name := dev_name d, p_device_def := Some d\<rparr>) out rest t"
    using deviceAutoConfig1_answer [of s5, unfolded device_id_sum, OF _ _ _ _ _ _ _ assms(9) [unfolded jtag_device_id_def] assms(10)] s5(2)
    unfolding unconfigured_def r3_def by (elim conjE) blast
  have "hello mk1_main opts s = Some (Inr True, t\<lparr>bp1 := deleteAllBreakpoints1 (bp1 t)\<rparr>)"
    using dchain s1(1) s2(1) s3(1) s4(1) s5(1) t(1)
    by (simp add: hello_def mk1_main_def jtag1_parseEvents_def jtag1_initJtagBox_def jtag1_deleteAllBreakpoints_def
        on_table1_def io_simps)
  then show ?thesis
    using t(2) by (auto simp: answers_def deleteAllBreakpoints1_def)
qed


section \<open>Connecting with the mkII driver\<close>

text \<open>A message of the box with the number of the command it answers, command by command.\<close>

fun numbered :: "u16 \<Rightarrow> u8 list list \<Rightarrow> u8 list" where
  "numbered q [] = []"
| "numbered q (m # ms) = frame q m @ numbered (next_seq q) ms"

text \<open>The answers of a box on a serial line at 19200 baud to the sign-on, the mode of the emulator, the bit rate, the
  forced stop, the request for the id, and the descriptor.\<close>

definition greeting2 :: "u8 list \<Rightarrow> u8 list \<Rightarrow> u8 list list" where
  "greeting2 sign_on ids = [sign_on, [RSP_OK], [RSP_OK], [RSP_OK], RSP_PARAMETER # ids, [RSP_OK]]"

definition unconfigured2 :: "u8 list list \<Rightarrow> u8 list \<Rightarrow> 'z jtag2_scheme \<Rightarrow> bool" where
  "unconfigured2 ms rest s \<longleftrightarrow> wq s = [] \<and> flq s = [] \<and> tty_ok s \<and> \<not> is_usb s \<and> device_name s = None \<and>
     avail (rx s) = numbered (command_sequence s) ms @ rest \<and> \<not> useDebugWire s \<and> \<not> apply_nSRST s \<and>
     units_before s = 0 \<and> units_after s = 0 \<and> bits_before s = 0 \<and> bits_after s = 0 \<and>
     2 \<le> devdescrlen s \<and> devdescrlen s \<le> int sizeof_desc2 \<and> table_ok (bps s)"

lemma unconfigured2_step:
  assumes "unconfigured2 (m # ms) rest s" "avail (rx t) = numbered (next_seq (command_sequence s)) ms @ rest"
    and "line_only (s\<lparr>wq := [], tx := out, command_sequence := next_seq (command_sequence s)\<rparr>) t"
  shows "unconfigured2 ms rest t"
  using assms by (auto simp: unconfigured2_def line_only_def)

lemma setJtagParameter_step:
  assumes "unconfigured2 ([RSP_OK] # ms) rest s" "length v \<le> 4"
  shows "\<exists>t. setJtagParameter item v s = Some (Inr (), t) \<and> unconfigured2 ms rest t"
proof -
  obtain t where t: "setJtagParameter item v s = Some (Inr (), t)"
      "avail (rx t) = numbered (next_seq (command_sequence s)) ms @ rest"
      "line_only (s\<lparr>wq := [], tx := tx s @ frame (command_sequence s) ([CMND_SET_PARAMETER, item] @ v),
       command_sequence := next_seq (command_sequence s)\<rparr>) t"
    using setJtagParameter_answer [of s v "numbered (next_seq (command_sequence s)) ms @ rest" item] assms
    by (auto simp: unconfigured2_def)
  then show ?thesis
    using unconfigured2_step [OF assms(1)] by blast
qed

lemma interruptProgram_step:
  assumes "unconfigured2 ([RSP_OK] # ms) rest s"
  shows "\<exists>t. interruptProgram s = Some (Inr True, t) \<and> unconfigured2 ms rest t"
proof -
  obtain msg n t where t: "doJtagCommand [CMND_FORCED_STOP, 0x01] True s = Some (Inr (True, msg, n), t)"
      "avail (rx t) = numbered (next_seq (command_sequence s)) ms @ rest"
      "line_only (s\<lparr>wq := [], tx := tx s @ frame (command_sequence s) [CMND_FORCED_STOP, 0x01],
       command_sequence := next_seq (command_sequence s)\<rparr>) t"
    using doJtagCommand_answer [of s "[RSP_OK]" "[]" "numbered (next_seq (command_sequence s)) ms @ rest" "[CMND_FORCED_STOP, 0x01]" True]
      assms by (auto simp: unconfigured2_def code_defs)
  then show ?thesis
    using unconfigured2_step [OF assms] by (auto simp: interruptProgram_def io_simps)
qed

lemma startJtagLink_step:
  assumes "unconfigured2 (sign_on # [RSP_OK] # ms) rest s" "devdescrlen s = int sizeof_desc2"
    and "17 < length sign_on" "length sign_on \<le> MAX_MESSAGE" "sign_on ! 0 = RSP_SIGN_ON"
  shows "\<exists>t. startJtagLink s = Some (Inr (), t) \<and> unconfigured2 ms rest t"
proof -
  define u where "u = s\<lparr>local_rate := 19200\<rparr>"
  have rate: "changeLocalBitRate 19200 s = Some (Inr (), u)"
    using assms(1) by (simp add: unconfigured2_def changeLocalBitRate_def io_simps jtagCheck_simps tcflush_input_def u_def)
  obtain v where v: "synchronise_loop 0 u = Some (Inr True, v)"
      "avail (rx v) = numbered (next_seq (command_sequence s)) ([RSP_OK] # ms) @ rest"
      "devdescrlen v = (if short_descriptor u sign_on then devdescrlen u - 2 else devdescrlen u)"
      "line_only (u\<lparr>wq := [], tx := tx v, command_sequence := next_seq (command_sequence u), devdescrlen := devdescrlen v\<rparr>) v"
    using synchronise_answer [of u sign_on "numbered (next_seq (command_sequence s)) ([RSP_OK] # ms) @ rest"] assms
    by (auto simp: unconfigured2_def u_def)
  then obtain out n where n: "line_only (u\<lparr>wq := [], tx := out, command_sequence := next_seq (command_sequence u), devdescrlen := n\<rparr>) v"
      "2 \<le> n" "n \<le> int sizeof_desc2"
    using assms(2) by (force simp: u_def sizeof_desc2_def)
  have "unconfigured2 ([RSP_OK] # ms) rest v"
    using assms(1) v(2) n by (auto simp: unconfigured2_def line_only_def u_def)
  from setJtagParameter_step [OF this, of "[emulator_mode v]" PAR_EMULATOR_MODE] obtain w where
    w: "setJtagParameter PAR_EMULATOR_MODE [emulator_mode v] v = Some (Inr (), w)" "unconfigured2 ms rest w"
    by auto
  have nsrst: "\<not> apply_nSRST v"
    using \<open>unconfigured2 _ _ v\<close> by (simp add: unconfigured2_def)
  have "startJtagLink s = Some (Inr (), w\<lparr>signedIn := True\<rparr>)"
    using rate v(1) w(1) nsrst by (simp add: startJtagLink_def bitrates_def synchroniseAt_def io_simps)
  moreover have "unconfigured2 ms rest (w\<lparr>signedIn := True\<rparr>)"
    using w(2) by (simp add: unconfigured2_def)
  ultimately show ?thesis by blast
qed

lemma changeBitRate_step:
  assumes "unconfigured2 ([RSP_OK] # ms) rest s"
  shows "\<exists>t. changeBitRate 115200 s = Some (Inr (), t) \<and> unconfigured2 ms rest t"
proof -
  obtain t where t: "setJtagParameter PAR_BAUD_RATE [PAR_BAUD_115200] s = Some (Inr (), t)" "unconfigured2 ms rest t"
    using setJtagParameter_step [OF assms, of "[PAR_BAUD_115200]" PAR_BAUD_RATE] by auto
  have "\<not> is_usb s"
    using assms by (simp add: unconfigured2_def)
  moreover have "changeLocalBitRate 115200 t = Some (Inr (), t\<lparr>local_rate := 115200\<rparr>)"
    using t(2) by (simp add: unconfigured2_def changeLocalBitRate_def io_simps jtagCheck_simps tcflush_input_def)
  moreover have "unconfigured2 ms rest (t\<lparr>local_rate := 115200\<rparr>)"
    using t(2) by (simp add: unconfigured2_def)
  ultimately show ?thesis
    using t(1) by (auto simp: changeBitRate_def baud_code_def io_simps)
qed

lemma hello2_answer:
  assumes "wq s = []" "flq s = []" "tty_ok s" "\<not> is_usb s" "\<not> useDebugWire s" "\<not> apply_nSRST s" "device_name s = None"
    and "devdescrlen s = int sizeof_desc2" "table_ok (bps s)" "chain opts = [0, 0, 0, 0]"
    and "17 < length sign_on" "length sign_on \<le> MAX_MESSAGE" "sign_on ! 0 = RSP_SIGN_ON" "length ids = 4"
    and "find_device (\<lambda>d. device_id d = jtag_device_id ids) deviceDefinitions = Some d"
    and "avail (rx s) = numbered (command_sequence s) (greeting2 sign_on ids) @ rest"
  shows "\<exists>t. hello mk2_main opts s = Some (Inr True, t) \<and> p_device_def t = Some d \<and> device_name t = dev_name d \<and>
     avail (rx t) = rest \<and> code_set (bps t) = {}"
proof -
  define s0 where "s0 = s\<lparr>units_before := 0, units_after := 0, bits_before := 0, bits_after := 0\<rparr>"
  have dchain: "set_dchain (chain opts) s = Some (Inr (), s0)"
    by (simp add: set_dchain_def assms(10) io_simps s0_def numeral_2_eq_2 numeral_3_eq_3)
  obtain s1 where s1: "parseEvents (eventlist opts) s0 = Some (Inr (), s1)" "unconfigured2 (greeting2 sign_on ids) rest s1"
      "devdescrlen s1 = int sizeof_desc2"
    using assms by (auto simp: parseEvents_def io_simps unconfigured2_def s0_def sizeof_desc2_def)
  obtain s2 where s2: "startJtagLink s1 = Some (Inr (), s2)" "unconfigured2 ([RSP_OK] # [RSP_OK] # [RSP_PARAMETER # ids, [RSP_OK]]) rest s2"
    using startJtagLink_step [OF s1(2) [unfolded greeting2_def] s1(3) assms(11-13)] by blast
  obtain s3 where s3: "changeBitRate 115200 s2 = Some (Inr (), s3)" "unconfigured2 ([RSP_OK] # [RSP_PARAMETER # ids, [RSP_OK]]) rest s3"
    using changeBitRate_step [OF s2(2)] by blast
  obtain s4 where s4: "interruptProgram s3 = Some (Inr True, s4)" "unconfigured2 [RSP_PARAMETER # ids, [RSP_OK]] rest s4"
    using interruptProgram_step [OF s3(2)] by blast
  obtain t where t: "deviceAutoConfig s4 = Some (Inr (), t)" "p_device_def t = Some d" "device_name t = dev_name d"
      "bps t = bps s4" "avail (rx t) = rest"
    using deviceAutoConfig_answer [of s4 ids d rest] s4(2) assms(14,15) by (auto simp: unconfigured2_def)
  obtain new where new: "deleteAllBreakpoints (bps t) = Some new" "code_set new = {}"
    using deleteAllBreakpoints_ok [of "bps t"] s4(2) t(4) by (auto simp: unconfigured2_def)
  have "device_name s1 = None"
    using s1(2) by (simp add: unconfigured2_def)
  then have "hello mk2_main opts s = Some (Inr True, t\<lparr>bps := new\<rparr>)"
    using dchain s1(1) s2(1) s3(1) s4(1) t(1) new(1)
    by (simp add: hello_def mk2_main_def initJtagBox_def jtag2_deleteAllBreakpoints_def on_table_def io_simps)
  then show ?thesis
    using t new(2) by auto
qed


section \<open>Properties of the session\<close>

text \<open>The exit status, for any driver: 1 when the greeting failed, 0 at the end of a session without server; a server
  never returns.\<close>

lemma preserves_True: "preserves (\<lambda>_. True) m"
  by (simp add: preserves_def)

lemma main_session_status:
  assumes "main_session ops opts h connection g = Some (Inr n, g')"
  shows "n = 1 \<and> (\<exists>t. hello ops opts (ice g) = Some (Inr False, t)) \<or> n = 0 \<and> connection = None"
  using assms
proof (cases rule: main_session_cases)
  case (ready t)
  then show ?thesis
    unfolding after_hello_def using serve_gdb_result [OF preserves_True]
    by (cases connection; elim io_then_InrE)
      (fastforce simp: io_throw_def io_ret_def elim!: io_then_InrE split: sum.splits prod.splits)+
qed auto

text \<open>Whatever the options, the file, GDB and the box do, once the greeting has succeeded a session ends, normally,
  by an exception or by \<open>exit\<close>, with the invariant of its driver and with packet buffers of their size. For the mkI
  driver the invariant is that of the two arrays of breakpoints, for the mkII driver also that of the page caches and
  of the numbering of the commands, and the device is known.\<close>

lemma session_keeps_invariants:
  assumes "mk1_sized (ice g)" "buffers_ok g" "main_session mk1_main opts h connection g = Some (r, g')"
    and "hello mk1_main opts (ice g) = Some (Inr True, t)"
    and "mk2_made (ice k)" "buffers_ok k" "main_session mk2_main opts2 h2 connection2 k = Some (r2, k')"
    and "hello mk2_main opts2 (ice k) = Some (Inr True, t2)"
  shows "gdb_inv mk1_ok g' \<and> gdb_inv mk2_ok k'"
  using mk1_driver.session_keeps [OF assms(1-4)] mk2_driver.session_keeps [OF assms(5-8)] by blast

text \<open>Up to the preparation for debugging no request changes \<open>useDebugWire\<close>.\<close>

definition jtag_mode :: "'z jtag2_scheme \<Rightarrow> bool" where
  "jtag_mode s \<longleftrightarrow> \<not> useDebugWire s"

lemma link_closed_jtag_mode: "link_closed jtag_mode"
  by (simp add: link_closed_def comm_closed_def jtag_mode_def)

lemma jtag_mode_hello: "preserves jtag_mode (hello mk2_main opts)"
proof -
  have "preserves jtag_mode (set_dchain us)" "preserves jtag_mode (parseEvents evs)" for us evs
    unfolding set_dchain_def parseEvents_def by (rule preserves_put; simp add: jtag_mode_def)+
  moreover have "preserves jtag_mode jtag2_deleteAllBreakpoints"
    unfolding jtag2_deleteAllBreakpoints_def by (auto simp: preserves_def on_table_def jtag_mode_def split: option.splits)
  ultimately have "preserves jtag_mode (io_then (set_dchain us) (io_then (parseEvents evs) initJtagBox))" for us evs
    by (intro preserve link_preserves_initJtagBox link_closed_jtag_mode)
  from preservesD [OF this] show ?thesis
    by (auto simp: preserves_def hello_def mk2_main_def split: option.splits sum.splits err.splits)
qed

lemma jtag_mode_programming:
  "preserves jtag_mode (op_enableProgramming mk2_ops)" "preserves jtag_mode (op_disableProgramming mk2_ops)"
  "preserves jtag_mode (op_jtagRead mk2_ops a n)" "preserves jtag_mode (op_jtagWrite mk2_ops a n b)"
proof -
  have comm: "comm_closed jtag_mode" and mode: "\<And>s b. jtag_mode s \<Longrightarrow> jtag_mode (s\<lparr>programmingEnabled := b\<rparr>)"
    by (simp_all add: comm_closed_def jtag_mode_def)
  have fill: "fill_closed jtag_mode"
    unfolding fill_closed_def jtag_mode_def by (intro allI impI, rename_tac u c d a, case_tac c) simp_all
  show "preserves jtag_mode (op_enableProgramming mk2_ops)" "preserves jtag_mode (op_disableProgramming mk2_ops)"
    "preserves jtag_mode (op_jtagRead mk2_ops a n)" "preserves jtag_mode (op_jtagWrite mk2_ops a n b)"
    unfolding mk2_ops_def
    by (simp_all, (intro preserve preserves_jtagRead preserves_jtagWrite comm fill mode
          comm_preserves_enableProgramming comm_preserves_disableProgramming; assumption?)+)
qed

lemma jtag_mode_fuses:
  "preserves jtag_mode (erase_target mk2_main)" "preserves jtag_mode (jtagReadFuses mk2_ops)"
  "preserves jtag_mode (jtagWriteFuses mk2_ops f)" "preserves jtag_mode (jtagReadLockBits mk2_ops)"
proof -
  have m: "methods mk2_main = mk2_ops" "op_eraseProgramMemory mk2_main = eraseProgramMemory"
    by (simp_all add: mk2_main_def)
  show "preserves jtag_mode (erase_target mk2_main)"
    unfolding erase_target_def m by (intro preserve jtag_mode_programming link_closed_comm link_closed_jtag_mode)
  show "preserves jtag_mode (jtagReadFuses mk2_ops)" "preserves jtag_mode (jtagWriteFuses mk2_ops f)"
    "preserves jtag_mode (jtagReadLockBits mk2_ops)"
    unfolding jtagReadFuses_def jtagWriteFuses_def jtagReadLockBits_def response_bytes_def Let_def
    by (intro preserve jtag_mode_programming)+
qed

lemma requests_not_Inr:
  fixes s :: "'z jtag2_scheme"
  assumes "requests mk2_main opts h True s = Some (Inr (), t)" "jtag_mode s" "\<not> opt_capture opts"
  shows False
proof -
  have m: "methods mk2_main = mk2_ops" "op_initJtagOnChipDebugging mk2_main = initJtagOnChipDebugging"
    by (simp_all add: mk2_main_def)
  define before :: "('z jtag2_scheme, unit) io" where "before = io_then (if opt_erase opts \<and> opt_protocol opts \<noteq> MKII_DW then erase_target mk2_main else io_ret ())
      (io_then (if readFuses opts then io_then (jtagReadFuses mk2_ops) (io_ret ()) else io_ret ())
      (io_then (if readLockBits opts then io_then (jtagReadLockBits mk2_ops) (io_ret ()) else io_ret ())
         (if opt_fuses opts \<noteq> None then jtagWriteFuses mk2_ops (map_option chars (opt_fuses opts)) else io_ret ())))"
  have keep: "preserves jtag_mode before"
    unfolding before_def by (intro preserve jtag_mode_fuses)
  obtain u v where u: "before s = Some (Inr (), u)" "initJtagOnChipDebugging (jtagBitrate opts) u = Some (Inr (), v)"
    using assms(1,3) unfolding requests_def before_def m
    by (elim io_then_InrE) (simp add: io_then_def io_bind_def)
  then show False
    using preservesD [OF keep u(1) assms(2)] initJtagOnChipDebugging_result [OF u(2)] by (simp add: jtag_mode_def)
qed

text \<open>C37: with the mkII driver on a JTAG target, a GDB server that is to prepare the target itself never serves: whatever
  the box does, the session does not return, or the greeting fails with exit status 1, or it ends by an exception or
  \<open>exit\<close>; and in no case has a character been read from GDB or written to it. Attaching to a running target
  (\<open>--capture\<close>) is the only way to debug it.\<close>

theorem mk2_jtag_server_never_serves:
  assumes "main_session mk2_main opts h (Some connected) g = Some (r, g')" "\<not> useDebugWire (ice g)" "\<not> opt_capture opts"
  shows "(r = Inr 1 \<or> (\<exists>e. r = Inl e)) \<and> gdb_in g' = gdb_in g \<and> gdb_out g' = gdb_out g"
  using assms(1)
proof (cases rule: main_session_cases)
  case (ready t)
  have "jtag_mode t"
    using preservesD [OF jtag_mode_hello ready(1)] assms(2) by (simp add: jtag_mode_def)
  then have none: "\<forall>u. requests mk2_main opts h True t \<noteq> Some (Inr (), u)"
    using requests_not_Inr assms(3) by blast
  show ?thesis
    using ready(2) none unfolding after_hello_def
    by (auto simp: io_then_def io_bind_def on_ice_def split: option.splits sum.splits)
qed auto

section \<open>Examples\<close>

definition example_ids :: "u8 list" where
  "example_ids = [0x3f, 0x30, 0x40, 0x09]"

definition example_mk1 :: jtag1 where
  "example_mk1 = mk1_box [Chunk (greeting1 0 1 2 example_ids)]"

definition example_mk2 :: jtag2 where
  "example_mk2 = quiet_box [Chunk (numbered 0 (greeting2 (RSP_SIGN_ON # replicate 20 1) example_ids))]"

lemma example_device:
  "find_device (\<lambda>d. device_id d = jtag_device_id example_ids) deviceDefinitions = Some dev_atmega16" "length example_ids = 4"
  by (simp_all add: jtag_device_id_def example_ids_def deviceDefinitions_def device_entry_defs)

lemma example_chain: "chain no_options = [0, 0, 0, 0]"
  by (simp add: no_options_def)

lemma example_mk1_state:
  "wq example_mk1 = []" "flq example_mk1 = []" "tty_ok example_mk1" "device_name example_mk1 = None"
  "avail (rx example_mk1) = greeting1 0 1 2 example_ids"
  by (simp_all add: example_mk1_def greeting1_def) (simp add: mk1_box_def jtag1_new_def jtag.extend_def jtag1.fields_def)

lemma example_mk2_state:
  "wq example_mk2 = []" "flq example_mk2 = []" "tty_ok example_mk2" "\<not> is_usb example_mk2" "\<not> useDebugWire example_mk2"
  "\<not> apply_nSRST example_mk2" "device_name example_mk2 = None" "devdescrlen example_mk2 = int sizeof_desc2"
  "avail (rx example_mk2) = numbered (command_sequence example_mk2) (greeting2 (RSP_SIGN_ON # replicate 20 1) example_ids)"
  by (simp_all add: example_mk2_def greeting2_def frame_nonempty)
    (simp_all add: quiet_box_def jtag2_new_def jtag.extend_def jtag2.fields_def)

lemma example_mk2_made: "mk2_made example_mk2"
proof -
  have "bps example_mk2 = fresh_table"
    by (simp add: example_mk2_def quiet_box_def jtag2_new_def jtag.extend_def jtag2.fields_def fresh_table_def)
  then show ?thesis
    using code_table_ok(1) [OF fresh_code_table] by (simp add: mk2_made_def example_mk2_def quiet_box_def jtag2_inv_new)
qed



lemma example_hello:
  "\<exists>t. hello mk1_main opts example_mk1 = Some (Inr True, t)" "\<exists>t. hello mk2_main opts example_mk2 = Some (Inr True, t)"
  if "chain opts = [0, 0, 0, 0]"
  using hello1_answer [of example_mk1 opts 0 example_ids 1 2 "[]" dev_atmega16] example_mk1_state
    hello2_answer [of example_mk2 opts "RSP_SIGN_ON # replicate 20 1" example_ids dev_atmega16 "[]"] example_mk2_state
    example_device example_mk2_made that
  by (auto simp: dev_atmega16_def mk2_made_def code_defs)

text \<open>A session without requests that is to attach to the running target, and whose server socket cannot be opened.\<close>

lemma idle_session:
  assumes "hello ops opts (ice g) = Some (Inr True, t)" "\<not> opt_erase opts" "\<not> readFuses opts" "\<not> readLockBits opts"
    and "opt_fuses opts = None" "lockBits opts = None" "inFileName opts = None" "\<not> opt_program opts" "\<not> opt_verify opts" "opt_capture opts"
  shows "\<exists>g'. main_session ops opts h (Some (Inl e)) g = Some (Inl e, g')"
  using assms by (simp add: main_session_def requests_def download_file_def on_ice_def io_simps)

definition attach :: options where
  "attach = no_options\<lparr>opt_capture := True\<rparr>"

lemma attach_session:
  assumes "hello ops attach (ice g) = Some (Inr True, t)"
  shows "\<exists>g'. main_session ops attach h (Some (Inl (Exited 1))) g = Some (Inl (Exited 1), g')"
  by (rule idle_session [OF assms]) (simp_all add: attach_def no_options_def)

definition no_file :: host where
  "no_file = \<lparr>stat_status = -1, bfd_openr = (\<lambda>_. None)\<rparr>"

lemma session_keeps_invariants_witness:
  "\<exists>g' k'. main_session mk1_main attach no_file (Some (Inl (Exited 1))) (gdb_link example_mk1 []) = Some (Inl (Exited 1), g') \<and>
     main_session mk2_main attach no_file (Some (Inl (Exited 1))) (gdb_link example_mk2 []) = Some (Inl (Exited 1), k') \<and>
     gdb_inv mk1_ok g' \<and> gdb_inv mk2_ok k'"
proof -
  have chain: "chain attach = [0, 0, 0, 0]"
    by (simp add: attach_def no_options_def)
  obtain t u where hello: "hello mk1_main attach (ice (gdb_link example_mk1 [])) = Some (Inr True, t)"
      "hello mk2_main attach (ice (gdb_link example_mk2 [])) = Some (Inr True, u)"
    using example_hello [OF chain] by (auto simp: gdb_link_def)
  obtain g' k' where run: "main_session mk1_main attach no_file (Some (Inl (Exited 1))) (gdb_link example_mk1 []) = Some (Inl (Exited 1), g')"
      "main_session mk2_main attach no_file (Some (Inl (Exited 1))) (gdb_link example_mk2 []) = Some (Inl (Exited 1), k')"
    using attach_session [OF hello(1)] attach_session [OF hello(2)] by blast
  have "mk1_sized (ice (gdb_link example_mk1 []))" "mk2_made (ice (gdb_link example_mk2 []))"
    using example_mk2_made
    by (simp_all add: gdb_link_def mk1_sized_def example_mk1_def mk1_box_def jtag1_new_def jtag.extend_def jtag1.fields_def bp1_consts)
  moreover have "buffers_ok (gdb_link example_mk1 [])" "buffers_ok (gdb_link example_mk2 [])"
    by (simp_all add: gdb_link_def buffers_ok_def)
  ultimately show ?thesis
    using session_keeps_invariants [OF _ _ run(1) hello(1) _ _ run(2) hello(2)] run by blast
qed

lemma mk2_jtag_server_never_serves_witness:
  "\<exists>e g'. main_session mk2_main (no_options\<lparr>opt_fuses := Some ''zz''\<rparr>) no_file (Some (Inr (5, 0))) (gdb_link example_mk2 [GChar 0x24]) = Some (Inl e, g') \<and>
     gdb_in g' = [GChar 0x24] \<and> gdb_out g' = []"
proof -
  let ?opts = "no_options\<lparr>opt_fuses := Some ''zz''\<rparr>" and ?g = "gdb_link example_mk2 [GChar 0x24]"
  obtain t where "hello mk2_main ?opts (ice ?g) = Some (Inr True, t)"
    using example_hello(2) [of ?opts] by (auto simp: gdb_link_def no_options_def)
  moreover have "scan_many 3 (chars ''zz'') = []"
    by (simp add: chars_def numeral_3_eq_3 scan_hex2_def scan_digits_def is_space_def hex_def)
  ultimately obtain e g' where run: "main_session mk2_main ?opts no_file (Some (Inr (5, 0))) ?g = Some (Inl e, g')"
    by (auto simp: main_session_def requests_def jtagWriteFuses_def on_ice_def io_simps Let_def no_options_def)
  have "\<not> useDebugWire (ice ?g)" "\<not> opt_capture ?opts"
    using example_mk2_state by (simp_all add: gdb_link_def no_options_def)
  then show ?thesis
    using mk2_jtag_server_never_serves [OF run] run by (simp add: gdb_link_def)
qed

end
