(* ===== verification/Usb_Daemon.thy ===== *)
theory Usb_Daemon
  imports Mk2_Frame
begin

text \<open>
  The USB side of the connection (\<^verbatim>\<open>src/src/jtag2usb.cc\<close>): the choice of the device by \<open>opendev\<close>, and
  \<open>usb_daemon\<close>, the child process that passes bytes between the program and the emulator. What \<open>libusb\<close>, the
  pipes and the signals do is the script of the rounds of its loop.
\<close>

section \<open>The device\<close>

definition USB_VENDOR_ATMEL :: u16 where "USB_VENDOR_ATMEL = 1003"
definition USB_DEVICE_JTAGICEMKII :: u16 where "USB_DEVICE_JTAGICEMKII = 0x2103"
definition USB_DEVICE_AVRDRAGON :: u16 where "USB_DEVICE_AVRDRAGON = 0x2107"

text \<open>What \<open>libusb\<close> reports of a device; \<open>serial\<close> is \<open>None\<close> when its string cannot be read. The last three
  members are whether it has a configuration, and whether that is set and its interface claimed.\<close>

record usb_device =
  opens :: bool
  idVendor :: u16
  idProduct :: u16
  serial :: "string option"
  has_config :: bool
  config_set :: bool
  claimed :: bool

definition usb_pid :: "emulator \<Rightarrow> u16" where
  "usb_pid emu = (case emu of EMULATOR_JTAGICE \<Rightarrow> USB_DEVICE_JTAGICEMKII | EMULATOR_DRAGON \<Rightarrow> USB_DEVICE_AVRDRAGON)"

text \<open>The loop that drops the colons from the serial number in place: one at a time, from the place of the last.\<close>

fun drop_colons :: "string \<Rightarrow> string" where
  "drop_colons [] = []"
| "drop_colons (c # cs) = (if c = CHR '':'' then drop_colons cs else c # drop_colons cs)"

text \<open>The part of the name behind the first colon.\<close>

definition requested_serial :: "string \<Rightarrow> string option" where
  "requested_serial name =
     (case dropWhile (\<lambda>c. c \<noteq> CHR '':'') name of [] \<Rightarrow> None | _ # cs \<Rightarrow> Some (drop_colons cs))"

definition to_lower :: "char \<Rightarrow> char" where
  "to_lower c = (if 65 \<le> (of_char c :: nat) \<and> (of_char c :: nat) \<le> 90 then char_of ((of_char c :: nat) + 32) else c)"

text \<open>The comparison from the right; with a longer request it begins before the string.\<close>

definition serial_matches :: "string \<Rightarrow> string \<Rightarrow> bool option" where
  "serial_matches str serno =
     (if length serno \<le> length str
      then Some (List.map to_lower (drop (length str - length serno) str) = List.map to_lower serno)
      else None)"

text \<open>\<open>unixCheck(strlen(serno) <= 12, ...)\<close> and \<open>unixCheck(rv >= 0, ...)\<close> are called with truth values and never fail.\<close>

fun find_usb :: "u16 \<Rightarrow> string option \<Rightarrow> usb_device list \<Rightarrow> err + usb_device option" where
  "find_usb pid serno [] = Inr None"
| "find_usb pid serno (dev # devs) =
     (if opens dev \<and> idVendor dev = USB_VENDOR_ATMEL \<and> idProduct dev = pid then
        (case serno of
           None \<Rightarrow> Inr (Some dev)
         | Some sn \<Rightarrow>
             (case Option.bind (serial dev) (\<lambda>str. serial_matches str sn) of
                None \<Rightarrow> Inl Undef
              | Some ok \<Rightarrow> if ok then Inr (Some dev) else find_usb pid serno devs))
      else find_usb pid serno devs)"

definition opendev :: "string \<Rightarrow> emulator \<Rightarrow> usb_device list list \<Rightarrow> err + usb_device option" where
  "opendev jtagDeviceName emu busses =
     (case find_usb (usb_pid emu) (requested_serial jtagDeviceName) (concat busses) of
        Inl e \<Rightarrow> Inl e
      | Inr None \<Rightarrow> Inr None
      | Inr (Some dev) \<Rightarrow> Inr (if has_config dev \<and> config_set dev \<and> claimed dev then Some dev else None))"

section \<open>The daemon\<close>

definition JTAGICE_MAX_XFER :: nat where "JTAGICE_MAX_XFER = 65536"

text \<open>A read from a pipe: bytes, the end of file, a temporary failure, an error. A bulk read from the device: bytes
  (none for a length of zero), a temporary failure, one in which \<open>SIGTERM\<close> has arrived, an error.\<close>

datatype pipe_read = Got "u8 list" | Pipe_closed | Pipe_again | Pipe_error
datatype bulk_read = Usb_data "u8 list" | Usb_again | Usb_term | Usb_error

text \<open>What one round of the loop meets: the signals that arrive before its test of \<open>exiting\<close>, the descriptors that
  are ready and what their reads return, whether the bulk write and the writes to the pipe are complete, the
  results of the bulk reads in their order, and what the stack holds where \<open>buf\<close> is.\<close>

record usb_input =
  sigterm :: bool
  sigalrm :: bool
  fd_read :: "pipe_read option"
  cfd_read :: "pipe_read option"
  bulk_write_ok :: bool
  pipe_write_ok :: bool
  bulk_reads :: "bulk_read list"
  stack_bytes :: "nat \<Rightarrow> u8"

text \<open>The flags of the daemon, and what it has done: the bulk writes, the bytes passed to the program, and how often
  it has reset the two endpoints.\<close>

record usb_state =
  usb_polling :: bool
  usb_exiting :: bool
  usb_signalled :: bool
  to_usb :: "u8 list list"
  to_avarice :: "u8 list"
  ep_resets :: nat

text \<open>How a round ends: the loop goes on, the process has exited with status 1, or it still waits for the device.\<close>

datatype usb_end = Looping | Exit_1 | Waiting

text \<open>The length field of the header in \<open>buf\<close>, of which the read has filled the beginning.\<close>

definition buf_byte :: "(nat \<Rightarrow> u8) \<Rightarrow> u8 list \<Rightarrow> nat \<Rightarrow> u8" where
  "buf_byte stack bs i = (if i < length bs then bs ! i else stack i)"

definition packet_length :: "(nat \<Rightarrow> u8) \<Rightarrow> u8 list \<Rightarrow> u32" where
  "packet_length stack bs =
     ucast (buf_byte stack bs 3) + push_bit 8 (ucast (buf_byte stack bs 4)) +
     push_bit 16 (ucast (buf_byte stack bs 5)) + push_bit 24 (ucast (buf_byte stack bs 6))"

text \<open>The loop over the rest of a packet. A packet longer than what is asked for is an error of the read.\<close>

fun relay_rest :: "bool \<Rightarrow> u32 \<Rightarrow> bulk_read list \<Rightarrow> usb_state \<Rightarrow> usb_end \<times> usb_state" where
  "relay_rest ok pkt_len reads d =
     (if usb_exiting d \<or> pkt_len = 0 then (Looping, d)
      else case reads of
        [] \<Rightarrow> (Waiting, d)
      | Usb_again # reads \<Rightarrow> relay_rest ok pkt_len reads d
      | Usb_term # reads \<Rightarrow> relay_rest ok pkt_len reads (d\<lparr>usb_exiting := True\<rparr>)
      | Usb_error # reads \<Rightarrow> (Exit_1, d)
      | Usb_data bs # reads \<Rightarrow>
          if bs = [] \<or> min (unat pkt_len) JTAGICE_MAX_XFER < length bs \<or> \<not> ok then (Exit_1, d)
          else relay_rest ok (pkt_len - of_nat (length bs)) reads (d\<lparr>to_avarice := to_avarice d @ bs\<rparr>))"

declare relay_rest.simps [simp del]

definition usb_relay :: "usb_input \<Rightarrow> bool \<Rightarrow> usb_state \<Rightarrow> usb_end \<times> usb_state" where
  "usb_relay r do_read d =
     (if \<not> usb_exiting d \<and> (do_read \<or> usb_polling d) then
        (case bulk_reads r of
           [] \<Rightarrow> (Waiting, d)
         | Usb_again # reads \<Rightarrow> (Looping, d)
         | Usb_term # reads \<Rightarrow> (Looping, d\<lparr>usb_exiting := True\<rparr>)
         | Usb_error # reads \<Rightarrow> (Exit_1, d)
         | Usb_data bs # reads \<Rightarrow>
             if bs = [] then (Looping, d)
             else if JTAGICE_MAX_XFER < length bs \<or> \<not> pipe_write_ok r then (Exit_1, d\<lparr>usb_polling := False\<rparr>)
             else relay_rest (pipe_write_ok r) (packet_length (stack_bytes r) bs + (8 + 2) - of_nat (length bs)) reads
               (d\<lparr>usb_polling := False, to_avarice := to_avarice d @ bs\<rparr>))
      else (Looping, d))"

text \<open>A command of the program: the new state, and whether to read once.\<close>

definition usb_command :: "u8 \<Rightarrow> usb_state \<Rightarrow> bool \<times> usb_state" where
  "usb_command c d =
     (if c = 0x72 then (True, d\<lparr>usb_polling := False\<rparr>)
      else if c = 0x70 then (False, d\<lparr>usb_polling := True\<rparr>)
      else if c = 0x63 then (False, d\<lparr>ep_resets := ep_resets d + 1\<rparr>)
      else (False, d))"

definition usb_control :: "usb_input \<Rightarrow> usb_state \<Rightarrow> usb_end \<times> usb_state" where
  "usb_control r d =
     (case cfd_read r of
        Some Pipe_error \<Rightarrow> (Exit_1, d)
      | Some (Got (c # cs)) \<Rightarrow> (case usb_command c d of (do_read, d) \<Rightarrow> usb_relay r do_read d)
      | _ \<Rightarrow> usb_relay r False d)"

definition usb_round :: "usb_input \<Rightarrow> usb_state \<Rightarrow> usb_end \<times> usb_state" where
  "usb_round r d =
     (let d = d\<lparr>usb_exiting := usb_exiting d \<or> sigterm r, usb_signalled := usb_signalled d \<or> sigalrm r\<rparr> in
      if usb_exiting d then usb_relay r False d
      else
        (case fd_read r of
           Some (Got (b # bs)) \<Rightarrow>
             if bulk_write_ok r then (Looping, d\<lparr>to_usb := to_usb d @ [b # bs]\<rparr>) else (Exit_1, d)
         | Some Pipe_error \<Rightarrow> (Exit_1, d)
         | _ \<Rightarrow> usb_control r d))"

text \<open>The daemon over the rounds of a script; \<open>None\<close> is an orderly end, after the alarm.\<close>

fun usb_daemon :: "usb_input list \<Rightarrow> usb_state \<Rightarrow> usb_end option \<times> usb_state" where
  "usb_daemon [] d = (if usb_signalled d then None else Some Waiting, d)"
| "usb_daemon (r # rs) d =
     (if usb_signalled d then (None, d)
      else case usb_round r d of
        (Looping, d) \<Rightarrow> usb_daemon rs d
      | (e, d) \<Rightarrow> (Some e, d))"

section \<open>Packets\<close>

lemma u32_of_b4:
  assumes "u32_to_b4 l = [b0, b1, b2, b3]"
  shows "(ucast b0 + push_bit 8 (ucast b1) + push_bit 16 (ucast b2) + push_bit 24 (ucast b3) :: u32) = ucast l"
  unfolding u32_bytes_or
proof (rule bit_eqI)
  fix n
  assume "possible_bit TYPE(u32) n"
  then have "n < 32" by simp
  moreover have "b0 = ucast (l AND mask 8)" "b1 = ucast (drop_bit 8 l AND mask 8)" "b2 = ucast (drop_bit 16 l AND mask 8)"
      "b3 = ucast (drop_bit 24 l AND mask 8)"
    using assms by (simp_all add: u32_to_b4_def mask8)
  moreover have "n < 8 \<or> 8 \<le> n \<and> n < 16 \<or> 16 \<le> n \<and> n < 24 \<or> 24 \<le> n" by auto
  ultimately show "bit (ucast b0 OR push_bit 8 (ucast b1) OR push_bit 16 (ucast b2) OR push_bit 24 (ucast b3) :: u32) n = bit (ucast l :: u32) n"
    by (elim disjE) (auto simp: bit_simps)
qed

lemma packet_length_frame:
  assumes "bs @ rest = frame q m" "7 \<le> length bs"
  shows "packet_length stack bs = of_nat (length m)"
proof -
  have nth: "buf_byte stack bs i = frame q m ! i" if "i < 7" for i
    using that assms by (simp add: buf_byte_def nth_append flip: assms(1))
  obtain x y where "u16_to_b2 q = [x, y]"
    by (simp add: u16_to_b2_def)
  then have f: "frame q m ! (i + 3) = u32_to_b4 (of_nat (length m)) ! i" if "i < 4" for i
    using that by (auto simp: frame_def Let_def frame_header_def nth_append nth_Cons split: nat.split)
  obtain b0 b1 b2 b3 where b: "u32_to_b4 (of_nat (length m)) = [b0, b1, b2, b3]"
    by (simp add: u32_to_b4_def)
  have "buf_byte stack bs 3 = b0" "buf_byte stack bs 4 = b1" "buf_byte stack bs 5 = b2" "buf_byte stack bs 6 = b3"
    using nth [of 3] nth [of 4] nth [of 5] nth [of 6] f [of 0] f [of 1] f [of 2] f [of 3] b by simp_all
  then have "packet_length stack bs = ucast (of_nat (length m) :: u64)"
    using u32_of_b4 [OF b] by (simp add: packet_length_def)
  then show ?thesis
    by (simp add: word_unat_eq_iff unsigned_of_nat take_bit_take_bit)
qed

text \<open>The bytes of a list of results of bulk reads.\<close>

fun usb_bytes :: "bulk_read list \<Rightarrow> u8 list" where
  "usb_bytes [] = []"
| "usb_bytes (Usb_data bs # reads) = bs @ usb_bytes reads"
| "usb_bytes (_ # reads) = usb_bytes reads"

text \<open>Results of an undisturbed transfer.\<close>

definition usb_transfer :: "bulk_read list \<Rightarrow> bool" where
  "usb_transfer reads \<longleftrightarrow> (\<forall>x \<in> set reads. x = Usb_again \<or> (\<exists>bs. x = Usb_data bs \<and> bs \<noteq> [] \<and> length bs \<le> JTAGICE_MAX_XFER))"

lemma relay_rest_exact:
  assumes "usb_transfer reads" "\<not> usb_exiting d" "length (usb_bytes reads) < 2 ^ 32"
  shows "relay_rest True (of_nat (length (usb_bytes reads))) reads d = (Looping, d\<lparr>to_avarice := to_avarice d @ usb_bytes reads\<rparr>)"
  using assms
proof (induction reads arbitrary: d)
  case Nil
  then show ?case by (simp add: relay_rest.simps [of _ 0])
next
  case (Cons x reads)
  then have tail: "usb_transfer reads"
    by (simp add: usb_transfer_def)
  show ?case
  proof (cases "usb_bytes (x # reads) = []")
    case True
    then show ?thesis by (simp add: relay_rest.simps [of _ 0])
  next
    case False
    let ?n = "length (usb_bytes (x # reads))"
    have un: "unat (of_nat ?n :: u32) = ?n"
      using Cons.prems(3) by (simp add: unat_of_nat take_bit_nat_eq_self)
    then have n0: "(of_nat ?n :: u32) \<noteq> 0"
      using False by (metis length_0_conv unat_0)
    from Cons.prems(1) consider "x = Usb_again" | bs where "x = Usb_data bs" "bs \<noteq> []" "length bs \<le> JTAGICE_MAX_XFER"
      by (auto simp: usb_transfer_def)
    then show ?thesis
    proof cases
      case 1
      then show ?thesis
        using Cons.IH [OF tail Cons.prems(2)] Cons.prems(2,3) n0 by (simp add: relay_rest.simps [of _ "of_nat _" "Usb_again # reads"])
    next
      case (2 bs)
      have "(of_nat ?n :: u32) - of_nat (length bs) = of_nat (length (usb_bytes reads))"
        by (simp add: 2(1))
      moreover have "length bs \<le> ?n"
        by (simp add: 2(1))
      ultimately show ?thesis
        using Cons.IH [OF tail, of "d\<lparr>to_avarice := to_avarice d @ bs\<rparr>"] Cons.prems(2,3) n0 un 2
        by (subst relay_rest.simps) (simp add: min_def)
    qed
  qed
qed

text \<open>While bytes are missing the loop does not end by itself.\<close>

lemma relay_rest_short:
  assumes "length (usb_bytes reads) < unat n" "Usb_term \<notin> set reads" "\<not> usb_exiting d"
  shows "fst (relay_rest ok n reads d) \<noteq> Looping"
  using assms
proof (induction ok n reads d rule: relay_rest.induct)
  case (1 ok n reads d)
  have n: "n \<noteq> 0"
    using "1.prems"(1) by auto
  have step: "\<not> (usb_exiting d \<or> n = 0)"
    using n "1.prems"(3) by simp
  show ?case
  proof (cases reads)
    case Nil
    then show ?thesis
      using step by (simp add: relay_rest.simps [of ok n])
  next
    case (Cons x rest)
    show ?thesis
    proof (cases x)
      case (Usb_data bs)
      show ?thesis
      proof (cases "bs = [] \<or> min (unat n) JTAGICE_MAX_XFER < length bs \<or> \<not> ok")
        case True
        then show ?thesis
          using step Cons Usb_data by (simp add: relay_rest.simps [of ok n])
      next
        case False
        then have "length bs \<le> unat n" by (simp add: not_less)
        moreover from this have "unat (of_nat (length bs) :: u32) = length bs"
          using unsigned_less [of n, where 'a = nat] by (simp add: unat_of_nat)
        ultimately have "unat (n - of_nat (length bs)) = unat n - length bs"
          using unat_sub [of "of_nat (length bs)" n] by (simp add: word_le_nat_alt)
        then have "length (usb_bytes rest) < unat (n - of_nat (length bs))"
          using "1.prems"(1) Cons Usb_data by simp
        then have "fst (relay_rest ok (n - of_nat (length bs)) rest (d\<lparr>to_avarice := to_avarice d @ bs\<rparr>)) \<noteq> Looping"
          using "1.IH"(1) [OF step Cons Usb_data False] "1.prems"(2,3) Cons by simp
        then show ?thesis
          using step Cons Usb_data False by (simp add: relay_rest.simps [of _ n])
      qed
    qed (use "1.IH"(2) [OF step Cons] "1.prems" step Cons in \<open>simp_all add: relay_rest.simps [of ok n]\<close>)
  qed
qed

section \<open>Properties\<close>

text \<open>C38: a frame of the emulator is relayed: after a command to read or while it polls, the daemon passes on exactly the
  bytes of the frame, however they are split into transfers, and stops polling; provided that the pipe takes them,
  that the first transfer holds at least the seven bytes up to the length field (of a shorter one the code takes
  the length from bytes it has not received), and that no transfer fails or goes beyond the frame.\<close>

theorem usb_frame_relayed:
  assumes "\<not> usb_exiting d" "\<not> sigterm r" "fd_read r = None" "pipe_write_ok r"
    and "cfd_read r = Some (Got [0x72]) \<or> cfd_read r = None \<and> usb_polling d"
    and "bulk_reads r = Usb_data bs # reads" "7 \<le> length bs" "length bs \<le> JTAGICE_MAX_XFER" "usb_transfer reads"
    and "bs @ usb_bytes reads = frame q m" "length m + 10 < 2 ^ 32"
  shows "\<exists>d'. usb_round r d = (Looping, d') \<and> to_avarice d' = to_avarice d @ frame q m \<and> to_usb d' = to_usb d \<and>
     \<not> usb_polling d' \<and> \<not> usb_exiting d'"
proof -
  have len: "length bs + length (usb_bytes reads) = length m + 10"
    using arg_cong [OF assms(10), of length] by simp
  have "packet_length (stack_bytes r) bs + (8 + 2) - of_nat (length bs) = of_nat (length (usb_bytes reads))"
    unfolding packet_length_frame [OF assms(10,7)] using arg_cong [OF len, of "of_nat :: nat \<Rightarrow> u32"] by (simp add: algebra_simps)
  then have rest: "relay_rest True (packet_length (stack_bytes r) bs + (8 + 2) - of_nat (length bs)) reads e =
      (Looping, e\<lparr>to_avarice := to_avarice e @ usb_bytes reads\<rparr>)" if "\<not> usb_exiting e" for e
    using relay_rest_exact [OF assms(9) that] len assms(11) by simp
  have "bs \<noteq> []" using assms(7) by auto
  then show ?thesis
    using assms rest
    by (auto simp: usb_round_def usb_control_def usb_command_def usb_relay_def Let_def assms(10) [symmetric])
qed

text \<open>C39: a transfer that holds more than one frame stops the daemon: the number of missing bytes wraps around, and
  whatever follows, short of four gigabytes and of a signal, the daemon stays in the loop that reads the
  device, where it no longer listens to the program, or exits.\<close>

theorem usb_overlong_read_hangs:
  assumes "\<not> usb_exiting d" "\<not> sigterm r" "fd_read r = None" "cfd_read r = Some (Got [0x72]) \<or> cfd_read r = None \<and> usb_polling d"
    and "bulk_reads r = Usb_data (frame q m @ extra) # reads" "extra \<noteq> []" "Usb_term \<notin> set reads"
    and "length extra + length (usb_bytes reads) < 2 ^ 32"
  shows "fst (usb_round r d) \<in> {Waiting, Exit_1}"
proof -
  have pl: "packet_length (stack_bytes r) (frame q m @ extra) = of_nat (length m)"
  proof -
    have "packet_length (stack_bytes r) (frame q m @ extra) = packet_length (stack_bytes r) (frame q m)"
      by (simp add: packet_length_def buf_byte_def nth_append)
    then show ?thesis
      using packet_length_frame [of "frame q m" "[]" q m] by simp
  qed
  have "(of_nat (length m) + (8 + 2) - of_nat (length (frame q m @ extra)) :: u32) = - of_nat (length extra)"
    by simp
  moreover have "unat (- of_nat (length extra) :: u32) = 2 ^ 32 - length extra"
  proof -
    have "(- of_nat (length extra) :: u32) = of_nat (2 ^ 32 - length extra)"
      using assms(8) by (simp add: of_nat_diff)
    then show ?thesis
      using assms(6) by (simp only: unat_of_nat) (simp add: take_bit_nat_eq_self)
  qed
  ultimately have short: "length (usb_bytes reads) <
      unat (packet_length (stack_bytes r) (frame q m @ extra) + (8 + 2) - of_nat (length (frame q m @ extra)) :: u32)"
    using assms(8) pl by simp
  have "fst (usb_relay r b e) \<noteq> Looping" if "b \<or> usb_polling e" "\<not> usb_exiting e" for b e
    using that relay_rest_short [OF short assms(7)] assms(5,6)
    by (simp add: usb_relay_def)
  then have "fst (usb_round r d) \<noteq> Looping"
    using assms(1-4) by (auto simp: usb_round_def usb_control_def usb_command_def Let_def)
  then show ?thesis
    by (cases "fst (usb_round r d)") auto
qed

text \<open>The bytes of the program reach the device unchanged and in order, until the daemon ends.\<close>

definition sent_by_avarice :: "usb_input \<Rightarrow> u8 list list" where
  "sent_by_avarice r = (case fd_read r of Some (Got (b # bs)) \<Rightarrow> [b # bs] | _ \<Rightarrow> [])"

lemma relay_rest_to_usb: "to_usb (snd (relay_rest ok n reads d)) = to_usb d"
proof (induction ok n reads d rule: relay_rest.induct)
  case (1 ok n reads d)
  then show ?case
    by (subst relay_rest.simps) (auto split: list.splits bulk_read.splits)
qed

lemma usb_round_to_usb: "\<exists>xs. to_usb (snd (usb_round r d)) = to_usb d @ xs \<and> (xs = [] \<or> xs = sent_by_avarice r)"
  by (auto simp: usb_round_def usb_control_def usb_command_def usb_relay_def Let_def sent_by_avarice_def relay_rest_to_usb
      split: option.splits pipe_read.splits list.splits bulk_read.splits)

section \<open>The choice of the device\<close>

lemma drop_colons_filter: "drop_colons s = filter (\<lambda>c. c \<noteq> CHR '':'') s"
  by (induction s) simp_all

text \<open>A device that is opened is one of Atmel's with the product of the emulator; with a serial number in the name it
  ends in that number, without regard to case.\<close>

lemma opendev_result:
  assumes "opendev name emu busses = Inr (Some dev)"
  shows "dev \<in> set (concat busses) \<and> opens dev \<and> idVendor dev = USB_VENDOR_ATMEL \<and> idProduct dev = usb_pid emu \<and>
     has_config dev \<and> config_set dev \<and> claimed dev \<and>
     (\<forall>sn. requested_serial name = Some sn \<longrightarrow> (\<exists>str. serial dev = Some str \<and> serial_matches str sn = Some True))"
proof -
  have find: "find_usb pid serno devs = Inr (Some dev) \<Longrightarrow> dev \<in> set devs \<and> opens dev \<and> idVendor dev = USB_VENDOR_ATMEL \<and>
     idProduct dev = pid \<and> (\<forall>sn. serno = Some sn \<longrightarrow> (\<exists>str. serial dev = Some str \<and> serial_matches str sn = Some True))"
    for pid serno devs
    by (induction devs) (auto split: if_splits option.splits bind_splits)
  have run: "find_usb (usb_pid emu) (requested_serial name) (concat busses) = Inr (Some dev)" "has_config dev" "config_set dev" "claimed dev"
    using assms by (auto simp: opendev_def split: sum.splits option.splits if_splits)
  show ?thesis
    using find [OF run(1)] run(2-) by blast
qed

section \<open>Examples\<close>

definition example_usb :: usb_state where
  "example_usb = \<lparr>usb_polling = False, usb_exiting = False, usb_signalled = False, to_usb = [], to_avarice = [], ep_resets = 0\<rparr>"

definition example_input :: "bulk_read list \<Rightarrow> usb_input" where
  "example_input reads = \<lparr>sigterm = False, sigalrm = False, fd_read = None, cfd_read = Some (Got [0x72]), bulk_write_ok = True,
     pipe_write_ok = True, bulk_reads = reads, stack_bytes = (\<lambda>_. 0)\<rparr>"

lemma usb_frame_relayed_witness:
  "\<exists>d'. usb_round (example_input [Usb_data (take 8 (frame 5 [0x80, 7])), Usb_again, Usb_data (drop 8 (frame 5 [0x80, 7]))]) example_usb =
     (Looping, d') \<and> to_avarice d' = frame 5 [0x80, 7]"
  using usb_frame_relayed [of example_usb "example_input [Usb_data (take 8 (frame 5 [0x80, 7])), Usb_again, Usb_data (drop 8 (frame 5 [0x80, 7]))]"
      "take 8 (frame 5 [0x80, 7])" "[Usb_again, Usb_data (drop 8 (frame 5 [0x80, 7]))]" 5 "[0x80, 7]"]
  by (auto simp: example_usb_def example_input_def usb_transfer_def JTAGICE_MAX_XFER_def)

lemma usb_overlong_read_hangs_witness:
  "fst (usb_round (example_input [Usb_data (frame 5 [0x80] @ frame 0xffff [0xe0]), Usb_again]) example_usb) \<in> {Waiting, Exit_1}"
  by (rule usb_overlong_read_hangs [where q = 5 and m = "[0x80]" and extra = "frame 0xffff [0xe0]" and reads = "[Usb_again]"])
    (simp_all add: example_usb_def example_input_def flip: length_0_conv)

end
