(* ===== verification/Program.thy ===== *)
theory Program
  imports Session Usb_Daemon
begin

text \<open>
  The program from its command line to its end: the constructors of \<open>class jtag\<close> (\<^verbatim>\<open>src/src/jtaggeneric.cc\<close>,
  \<^verbatim>\<open>src/src/jtagserial.cc\<close> and \<^verbatim>\<open>src/src/jtag2usb.cc\<close>), the choice of the driver in \<open>main\<close>, and the session.
\<close>

section \<open>The world\<close>

text \<open>What the program meets: the line to the box and what the memory holds where the emulator object is allocated
  (\<open>programmingEnabled\<close> and the breakpoints of the mkI driver are not initialised), the results of opening the serial
  port and of its five terminal calls, the USB devices and the results of forking the daemon, the file, what
  becomes of the server socket for a host and a port, and GDB.\<close>

record world =
  box_rx :: "rxev list"
  box_wq :: "wrev list"
  box_flq :: "nat list"
  box_memory :: "nat \<Rightarrow> u8"
  box_tty :: bool
  box_programming :: bool
  box_bps :: bp1_table
  port_open :: int
  port_calls :: "int list"
  usb_busses :: "usb_device list list"
  usb_fork :: int
  usb_pipe :: int
  image_file :: host
  server :: "string \<Rightarrow> int \<Rightarrow> err + int \<times> int"
  gdb_input :: "gdbin list"
  gdb_writes :: "gdbwr list"

section \<open>Opening the emulator\<close>

text \<open>The calls of \<open>tcgetattr\<close>, \<open>cfsetospeed\<close>, \<open>cfsetispeed\<close>, \<open>tcflush\<close> and \<open>tcsetattr\<close>, checked one by one.\<close>

definition openSerialPort :: "world \<Rightarrow> err + unit" where
  "openSerialPort w =
     (if port_open w < 0 then Inl (Thrown ''Failed to open %s'')
      else if \<exists>status \<in> set (port_calls w). status < 0 then Inl (Thrown JTAG_CAUSE)
      else Inr ())"

text \<open>The side of the parent: it goes on when the child has reported itself ready. When the child finds no device it
  ends, and the handler of \<open>SIGCHLD\<close> ends the program. The result is the control pipe.\<close>

definition openUSB :: "world \<Rightarrow> string \<Rightarrow> emulator \<Rightarrow> err + int" where
  "openUSB w portName emu =
     (if usb_fork w < 0 then Inl (Thrown ''Cannot fork'')
      else case opendev portName emu (usb_busses w) of
        Inl e \<Rightarrow> Inl e
      | Inr None \<Rightarrow> Inl (Exited 1)
      | Inr (Some _) \<Rightarrow> Inr (usb_pipe w))"

definition jtag_new :: "world \<Rightarrow> string \<Rightarrow> string option \<Rightarrow> emulator \<Rightarrow> err + jtag" where
  "jtag_new w portName name type =
     (let j = \<lparr>rx = box_rx w, wq = box_wq w, flq = box_flq w, tx = [], ctrl_log = [], fresh = box_memory w, tty_ok = box_tty w,
        local_rate = 19200, is_usb = False, ctrlPipe = -1, emu_type = type, apply_nSRST = False,
        programmingEnabled = box_programming w, device_name = name, units_before = 0, units_after = 0,
        bits_before = 0, bits_after = 0, p_device_def = None\<rparr> in
      if take 3 portName = ''usb'' then
        (case openUSB w portName type of Inl e \<Rightarrow> Inl e | Inr pype \<Rightarrow> Inr (j\<lparr>is_usb := True, ctrlPipe := pype\<rparr>))
      else (case openSerialPort w of Inl e \<Rightarrow> Inl e | Inr _ \<Rightarrow> Inr j))"

section \<open>The program\<close>

text \<open>The global \<open>gdbRemote\<close>, and the \<open>static\<close> variables.\<close>

definition gdb_new :: "world \<Rightarrow> 'j \<Rightarrow> 'j gdb" where
  "gdb_new w j = \<lparr>ice = j, gdb_in = gdb_input w, gdb_wr = gdb_writes w, gdb_out = [], gdbFileDescriptor = -1,
     remcomInBuffer = replicate BUFMAX 0, remcomOutBuffer = replicate BUFMAX 0, reentered = False, last_cmd = 0,
     last_orphan_pending = False, last_orphan = 0xff, ignoreInterrupts = False\<rparr>"

text \<open>How the program ends: before there is an emulator object, or in the session with one. An exception of the
  constructors is caught, and \<open>main\<close> returns 1.\<close>

datatype program_end = Stopped err | Mk1_ended "err + int" "jtag1 gdb" | Mk2_ended "err + int" "jtag2 gdb"

definition caught :: "err \<Rightarrow> err" where
  "caught e = (case e of Thrown _ \<Rightarrow> Exited 1 | e \<Rightarrow> e)"

definition run_mk1 :: "world \<Rightarrow> options \<Rightarrow> (err + int \<times> int) option \<Rightarrow> jtag \<Rightarrow> program_end option" where
  "run_mk1 w opts connection j =
     map_option (\<lambda>(r, g). Mk1_ended r g)
       (main_session mk1_main opts (image_file w) connection (gdb_new w (jtag1_new j (apply_nsrst opts) (box_bps w))))"

definition run_mk2 :: "world \<Rightarrow> options \<Rightarrow> (err + int \<times> int) option \<Rightarrow> bool \<Rightarrow> bool \<Rightarrow> jtag \<Rightarrow> program_end option" where
  "run_mk2 w opts connection useDW xmega j =
     map_option (\<lambda>(r, g). Mk2_ended r g)
       (main_session mk2_main opts (image_file w) connection (gdb_new w (jtag2_new j useDW (is_dragon opts) (apply_nsrst opts) xmega)))"

text \<open>The \<open>switch\<close> over the protocol.\<close>

definition run_emulator :: "world \<Rightarrow> options \<Rightarrow> (err + int \<times> int) option \<Rightarrow> program_end option" where
  "run_emulator w opts connection =
     (case jtagDeviceName opts of
        None \<Rightarrow> Some (Stopped Undef)
      | Some dev \<Rightarrow>
          (case jtag_new w dev (opt_part opts)
              (if opt_protocol opts \<noteq> MKI \<and> is_dragon opts then EMULATOR_DRAGON else EMULATOR_JTAGICE) of
             Inl e \<Rightarrow> Some (Stopped (caught e))
           | Inr j \<Rightarrow>
               (case opt_protocol opts of
                  MKI \<Rightarrow> run_mk1 w opts connection j
                | MKII \<Rightarrow> run_mk2 w opts connection False (opt_xmega opts) j
                | MKII_DW \<Rightarrow> run_mk2 w opts connection True False j)))"

definition avarice :: "world \<Rightarrow> (char \<times> string) list \<Rightarrow> string list \<Rightarrow> string option \<Rightarrow> program_end option" where
  "avarice w getopts args jtag_dev =
     (case parse_command_line getopts args jtag_dev of
        Inl e \<Rightarrow> Some (Stopped e)
      | Inr (opts, host_port) \<Rightarrow> run_emulator w opts (map_option (\<lambda>(host, port). server w host port) host_port))"

section \<open>The greeting\<close>

text \<open>Whatever comes of the greeting, what the constructor has established still holds.\<close>

lemma hello_preserves:
  assumes "preserves I (op_dchain ops (chain opts))" "preserves I (op_parseEvents ops (eventlist opts))" "preserves I (op_initJtagBox ops)"
  shows "preserves I (hello ops opts)"
proof -
  have "preserves I (io_then (op_dchain ops (chain opts)) (io_then (op_parseEvents ops (eventlist opts)) (op_initJtagBox ops)))"
    by (intro preserve assms)
  from preservesD [OF this] show ?thesis
    by (auto simp: preserves_def hello_def split: option.splits sum.splits err.splits)
qed

lemma mk1_sized_hello: "preserves mk1_sized (hello mk1_main opts)"
proof (rule hello_preserves)
  show "preserves mk1_sized (op_dchain mk1_main (chain opts))"
    unfolding mk1_main_def main_ops.simps set_dchain_def by (rule preserves_put) (simp add: mk1_sized_def)
  show "preserves mk1_sized (op_parseEvents mk1_main (eventlist opts))"
    by (simp add: mk1_main_def jtag1_parseEvents_def preserve)
  have "preserves mk1_sized jtag1_deleteAllBreakpoints"
    by (auto simp: preserves_def jtag1_deleteAllBreakpoints_def on_table1_def deleteAllBreakpoints1_def mk1_sized_def)
  then show "preserves mk1_sized (op_initJtagBox mk1_main)"
    unfolding mk1_main_def jtag1_initJtagBox_def main_ops.simps
    by (intro preserve link1_preserves_startJtagLink link1_preserves_changeBitRate link1_preserves_deviceAutoConfig
        link_closed1_sized link_closed1_line)
qed

lemma mk2_made_hello: "preserves mk2_made (hello mk2_main opts)"
proof (rule hello_preserves)
  show "preserves mk2_made (op_dchain mk2_main (chain opts))"
    unfolding mk2_main_def main_ops.simps set_dchain_def
    by (rule preserves_put) (simp add: mk2_made_def jtag2_inv_def arrays_ok_def seq_ok_def)
  show "preserves mk2_made (op_parseEvents mk2_main (eventlist opts))"
    by (simp add: mk2_main_def mk2_made_parseEvents)
  have "preserves mk2_made jtag2_deleteAllBreakpoints"
    unfolding preserves_def using mk2_made_deleteAll by blast
  then show "preserves mk2_made (op_initJtagBox mk2_main)"
    unfolding mk2_main_def main_ops.simps by (intro link_preserves_initJtagBox link_closed_made)
qed

lemma mk1_ok_sized: "mk1_ok s \<Longrightarrow> mk1_sized s"
  by (simp add: mk1_ok_def mk1_sized_def bp1_ok_def)

lemma mk2_ok_made: "mk2_ok s \<Longrightarrow> mk2_made s"
  by (simp add: mk2_ok_def mk2_made_def)

text \<open>A session from the beginning: \<open>pre\<close> always holds at its end, and \<open>inv\<close> after a normal end.\<close>

context main_target
begin

lemma session_from_start:
  assumes "pre (ice g)" "buffers_ok g" "main_session ops opts h connection g = Some (r, g')"
    and "preserves pre (hello ops opts)" "\<And>s. inv s \<Longrightarrow> pre s"
  shows "buffers_ok g' \<and> pre (ice g') \<and> (\<forall>n. r = Inr n \<longrightarrow> n = 1 \<or> n = 0 \<and> connection = None \<and> inv (ice g'))"
  using assms(3)
proof (cases rule: main_session_cases)
  case (ready t)
  have "gdb_inv inv g'"
    by (rule session_keeps [OF assms(1-3) ready(1)])
  then show ?thesis
    using main_session_status [of ops opts h connection g _ g'] assms(3,5) ready(1) by (auto simp: gdb_inv_def)
next
  case (failed t)
  then show ?thesis
    using preservesD [OF assms(4) failed(1) assms(1)] assms(2) by (simp add: buffers_ok_def)
next
  case (error e t)
  then show ?thesis
    using preservesD [OF assms(4) error(1) assms(1)] assms(2) by (simp add: buffers_ok_def)
qed

end

section \<open>Properties\<close>

text \<open>What holds when the program ends.\<close>

definition ends_well :: "('j \<Rightarrow> bool) \<Rightarrow> ('j \<Rightarrow> bool) \<Rightarrow> bool \<Rightarrow> err + int \<Rightarrow> 'j gdb \<Rightarrow> bool" where
  "ends_well made ok serving r g \<longleftrightarrow> buffers_ok g \<and> made (ice g) \<and>
     (\<forall>n. r = Inr n \<longrightarrow> n = 1 \<or> n = 0 \<and> \<not> serving \<and> ok (ice g))"

lemma gdb_new_ok: "buffers_ok (gdb_new w j)" "ice (gdb_new w j) = j"
  by (simp_all add: gdb_new_def buffers_ok_def)

lemma jtag1_new_sized:
  "length (bpCode t) = MAX_BREAKPOINTS_CODE \<Longrightarrow> length (bpData t) = MAX_BREAKPOINTS_DATA \<Longrightarrow> mk1_sized (jtag1_new j nsrst t)"
  by (simp add: mk1_sized_def jtag1_new_def jtag.extend_def jtag1.fields_def)

lemma jtag2_new_made: "mk2_made (jtag2_new j dw dragon nsrst xmega)"
proof -
  have "bps (jtag2_new j dw dragon nsrst xmega) = fresh_table"
    by (simp add: jtag2_new_def jtag.extend_def jtag2.fields_def fresh_table_def)
  then show ?thesis
    using code_table_ok(1) [OF fresh_code_table] by (simp add: mk2_made_def jtag2_inv_new)
qed

text \<open>C40: from its command line to its end, whatever the user, the file system, the box, the USB devices and GDB do,
  the program leaves its arrays, tables and packet buffers well-formed: the buffers of the packets and the
  arrays of the driver keep their sizes, the command numbers and the table of breakpoints of the mkII driver
  stay valid; it returns the status 1 after a failed greeting or 0, without having served GDB and then with
  the full invariant of its driver. Only the sizes of the arrays in the memory of the mkI object are assumed.\<close>

theorem avarice_ends_well:
  assumes "length (bpCode (box_bps w)) = MAX_BREAKPOINTS_CODE" "length (bpData (box_bps w)) = MAX_BREAKPOINTS_DATA"
    and "avarice w getopts args jtag_dev = Some res"
  shows "case res of
     Stopped e \<Rightarrow> True
   | Mk1_ended r g \<Rightarrow> ends_well mk1_sized mk1_ok (args \<noteq> []) r g
   | Mk2_ended r g \<Rightarrow> ends_well mk2_made mk2_ok (args \<noteq> []) r g"
proof (cases "parse_command_line getopts args jtag_dev")
  case (Inl e)
  then show ?thesis using assms(3) by (auto simp: avarice_def)
next
  case (Inr x)
  obtain opts host_port where x: "x = (opts, host_port)" by (cases x)
  define connection where "connection = map_option (\<lambda>(host, port). server w host port) host_port"
  have serving: "connection = None \<longleftrightarrow> args = []"
    using Inr x by (auto simp: parse_command_line_def connection_def Let_def split: sum.splits list.splits)
  have run: "run_emulator w opts connection = Some res"
    using assms(3) Inr x by (simp add: avarice_def connection_def)
  have mk1: "ends_well mk1_sized mk1_ok (args \<noteq> []) r g"
    if "main_session mk1_main opts h connection (gdb_new w (jtag1_new j (apply_nsrst opts) (box_bps w))) = Some (r, g)" for h r g j
    using mk1_driver.session_from_start [OF _ _ that mk1_sized_hello mk1_ok_sized] jtag1_new_sized [OF assms(1,2)] serving
    by (simp add: gdb_new_ok ends_well_def)
  have mk2: "ends_well mk2_made mk2_ok (args \<noteq> []) r g"
    if "main_session mk2_main opts h connection (gdb_new w (jtag2_new j dw dragon nsrst xmega)) = Some (r, g)" for h r g j dw dragon nsrst xmega
    using mk2_driver.session_from_start [OF _ _ that mk2_made_hello mk2_ok_made] jtag2_new_made serving
    by (simp add: gdb_new_ok ends_well_def)
  show ?thesis
    using run mk1 mk2
    by (auto simp: run_emulator_def run_mk1_def run_mk2_def split: option.splits sum.splits protocol.splits)
qed

section \<open>Examples\<close>

definition example_world :: world where
  "example_world = \<lparr>box_rx = [Chunk (greeting1 0 1 2 example_ids)], box_wq = [], box_flq = [], box_memory = (\<lambda>_. 0), box_tty = True,
     box_programming = False, box_bps = \<lparr>bpCode = replicate 4 \<lparr>bp1_address = 0, bp1_type = NONE\<rparr>,
       bpData = replicate 2 \<lparr>bp1_address = 0, bp1_type = NONE\<rparr>, numBreakpointsCode = 77, numBreakpointsData = -1\<rparr>,
     port_open = 3, port_calls = [0, 0, 0, 0, 0], usb_busses = [], usb_fork = 0, usb_pipe = 0, image_file = no_file,
     server = (\<lambda>_ _. Inl (Exited 1)), gdb_input = [], gdb_writes = []\<rparr>"

lemma avarice_ends_well_witness:
  "\<exists>g. avarice example_world [(CHR ''C'', [])] [''localhost:4242''] None = Some (Mk1_ended (Inl (Exited 1)) g) \<and>
     ends_well mk1_sized mk1_ok True (Inl (Exited 1)) g"
proof -
  define opts where "opts = no_options\<lparr>opt_capture := True, jtagBitrate := 250000, jtagDeviceName := Some ''/dev/avrjtag''\<rparr>"
  have parse: "parse_command_line [(CHR ''C'', [])] [''localhost:4242''] None = Inr (opts, Some (''localhost'', 4242))"
    by (simp add: parse_command_line_def set_option_def scan_sign_def scan_number_def number_def
        digit_value_def is_space_char_def parse_server_def strtol0_def Let_def no_options_def opts_def)
  obtain j where j: "jtag_new example_world ''/dev/avrjtag'' None EMULATOR_JTAGICE = Inr j" "wq j = []" "flq j = []" "tty_ok j"
      "device_name j = None" "rx j = [Chunk (greeting1 0 1 2 example_ids)]"
    by (simp add: jtag_new_def openSerialPort_def example_world_def)
  let ?s = "jtag1_new j False (box_bps example_world)"
  have s: "wq ?s = []" "flq ?s = []" "tty_ok ?s" "device_name ?s = None" "avail (rx ?s) = greeting1 0 1 2 example_ids"
    using j(2-6) by (simp_all add: jtag1_new_def jtag.extend_def greeting1_def)
  have "chain opts = [0, 0, 0, 0]"
    by (simp add: opts_def no_options_def)
  then obtain t where "hello mk1_main opts ?s = Some (Inr True, t)"
    using hello1_answer [of ?s opts 0 example_ids 1 2 "[]" dev_atmega16] s example_device by (auto simp: dev_atmega16_def code_defs)
  then obtain g where g: "main_session mk1_main opts no_file (Some (Inl (Exited 1))) (gdb_new example_world ?s) = Some (Inl (Exited 1), g)"
    using idle_session [of mk1_main opts "gdb_new example_world ?s" t no_file "Exited 1"]
    by (auto simp: gdb_new_ok opts_def no_options_def)
  have "opt_protocol opts = MKI" "jtagDeviceName opts = Some ''/dev/avrjtag''" "opt_part opts = None" "apply_nsrst opts = False"
      "image_file example_world = no_file" "server example_world ''localhost'' 4242 = Inl (Exited 1)"
    by (simp_all add: opts_def no_options_def example_world_def)
  then have run: "avarice example_world [(CHR ''C'', [])] [''localhost:4242''] None = Some (Mk1_ended (Inl (Exited 1)) g)"
    using parse j(1) g by (simp add: avarice_def run_emulator_def run_mk1_def)
  have "length (bpCode (box_bps example_world)) = MAX_BREAKPOINTS_CODE" "length (bpData (box_bps example_world)) = MAX_BREAKPOINTS_DATA"
    by (simp_all add: example_world_def bp1_consts)
  from avarice_ends_well [OF this run] run show ?thesis
    by simp
qed

end
