(* ===== verification/Spec2Isabelle.thy ===== *)
theory Spec2Isabelle
  imports Program
begin

text \<open>
  AVaRICE: the bridge between GDB and the Atmel JTAG ICE emulators.

  \<^bold>\<open>The program.\<close> \<^verbatim>\<open>avarice\<close> opens the connection to an emulator (JTAG ICE mkI, JTAG ICE mkII or
  AVR Dragon; a serial port, or USB through a child process), greets it and finds out which device
  the target is, carries out what the command line asks for (erase, fuses, lock bits, programming,
  verifying), and then listens for GDB on a socket and serves the GDB remote protocol: each packet is
  translated into calls of the virtual methods of \<^verbatim>\<open>class jtag\<close>, which the drivers \<^verbatim>\<open>jtag1\<close> and
  \<^verbatim>\<open>jtag2\<close> implement with the command set of their box.

  This theory only imports the development. Names of theories and definitions follow the source; a
  suffix \<open>1\<close> or a prefix \<open>jtag1_\<close> tells a method of the mkI driver from that of the mkII driver.

  \<^bold>\<open>How the model reads.\<close>

  \<^item> A function of the program that has effects is an \<open>('s, 'a) io\<close> (Prelude): from the state to
    \<open>None\<close>, when the call does not return, or to \<open>Some (r, s')\<close> with the state reached and an outcome
    that is a value (\<open>Inr\<close>) or one of \<open>Thrown\<close> (an exception of \<^verbatim>\<open>jtagCheck\<close> and its kin), \<open>Exited\<close>
    (\<^verbatim>\<open>exit\<close>) and \<open>Undef\<close> (an access outside an array, a null pointer: the C++ defines nothing).
    A statement that a call ends is therefore always explicit, and a statement that it never
    returns is one that its value is \<open>None\<close>.
  \<^item> The state of a driver is the record of the members of its class: \<open>jtag\<close> (Channel), extended
    by \<open>jtag1\<close> and \<open>jtag2\<close> as the classes extend each other. The GDB server has the record
    \<open>gdb\<close> of the static variables of \<^verbatim>\<open>remote.cc\<close> around the state of the driver.
  \<^item> What lies outside the program is a script in the state: what the coming calls of \<^verbatim>\<open>select\<close>,
    \<^verbatim>\<open>read\<close>, \<^verbatim>\<open>write\<close> and \<^verbatim>\<open>tcflush\<close> on the line to the box find, what GDB sends, what
    libusb, the pipes and the signals do to the USB daemon. What the program writes is a log. A theorem over
    all states is a theorem over all behaviours of the box, of the line and of GDB.
  \<^item> Integers of the source have their width: \<open>u8\<close>, \<open>u16\<close>, \<open>u32\<close>, \<open>u64\<close> are words, with their wrap-around;
    \<^verbatim>\<open>int\<close> is \<open>int\<close> where its values stay small.
\<close>

section \<open>The parts\<close>

text \<open>
  \<^bold>\<open>Common ground.\<close>
  \<^item> Prelude: computations, their evaluation rules (\<open>io_simps\<close>), the logic of invariants
    (\<open>preserves\<close>, rules in \<open>preserve\<close>).
  \<^item> Crc16 (\<^verbatim>\<open>crc16.c\<close>): the table, the sum, appending and verifying.
  \<^item> Utils (\<^verbatim>\<open>utils.cc\<close>): little-endian and hexadecimal conversions, the checks that throw. Locale
    \<open>faithful_codec\<close>, interpreted on the conversions of 16 and of 32 bits; locale \<open>codec\<close>, also on
    hexadecimal bytes.
  \<^item> Constants (\<^verbatim>\<open>jtag_constants.h\<close>, \<^verbatim>\<open>jtag_constants.cc\<close>), Io_Registers (\<^verbatim>\<open>ioreg.h\<close>, \<^verbatim>\<open>ioreg.cc\<close>),
    Device_Desc (\<^verbatim>\<open>jtag_device_desc.h\<close>), Device_Table (\<^verbatim>\<open>devdescr.cc\<close>, all devices in full),
    Device_Lookup (the searches of the table that the drivers share).
  \<^item> Channel (\<^verbatim>\<open>jtag.h\<close>, \<^verbatim>\<open>jtaggeneric.cc\<close>, \<^verbatim>\<open>jtagserial.cc\<close>, \<^verbatim>\<open>select.cc\<close>): the descriptor of the box,
    reading with a time limit, writing, bit rate.

  \<^bold>\<open>The mkII driver\<close> (\<^verbatim>\<open>jtag2.h\<close> and the files \<^verbatim>\<open>jtag2*.cc\<close>).
  \<^item> Mk2_State: the class and its constructor. Mk2_Frame: \<open>sendFrame\<close>, \<open>recvFrame\<close>. Mk2_Command:
    sequence numbers, retries, events, parameters (\<^verbatim>\<open>jtag2io.cc\<close>, \<^verbatim>\<open>jtag2misc.cc\<close>).
  \<^item> Mk2_Memory: programming mode, memory spaces, reading through the page caches and writing
    (\<^verbatim>\<open>jtag2prog.cc\<close>, \<^verbatim>\<open>jtag2rw.cc\<close>).
  \<^item> Mk2_Breakpoints and Mk2_Download (\<^verbatim>\<open>jtag2bp.cc\<close>): the table of 32 entries, the layout on the
    hardware slots, and what the box is told.
  \<^item> Mk2_Run (\<^verbatim>\<open>jtag2run.cc\<close>): program counter, reset, stepping, the event loop, the option
    \<^verbatim>\<open>--event\<close>. Mk2_Init (\<^verbatim>\<open>jtag2io.cc\<close>): synchronisation, device selection, sign-on and sign-off.

  \<^bold>\<open>The mkI driver\<close> (\<^verbatim>\<open>jtag1.h\<close> and the files \<^verbatim>\<open>jtag*.cc\<close> without the digit).
  \<^item> Mk1_Command (\<^verbatim>\<open>jtagio.cc\<close>, \<^verbatim>\<open>jtagmisc.cc\<close>), Mk1_Memory (\<^verbatim>\<open>jtagprog.cc\<close>, \<^verbatim>\<open>jtagrw.cc\<close>),
    Mk1_Breakpoints (\<^verbatim>\<open>jtagbp.cc\<close>), Mk1_Target (\<^verbatim>\<open>jtagrun.cc\<close> and the connection of \<^verbatim>\<open>jtagio.cc\<close>).

  \<^bold>\<open>Above the drivers.\<close>
  \<^item> Debug_Target: the virtual methods of \<^verbatim>\<open>class jtag\<close> as a record of methods; \<open>mk1_ops\<close> and \<open>mk2_ops\<close> are
    those of the drivers.
  \<^item> Gdb_Packet, Gdb_Command, Gdb_Session (\<^verbatim>\<open>remote.h\<close>, \<^verbatim>\<open>remote.cc\<close>): characters and packets; every
    case of the command interpreter \<open>talkToGdb\<close>; what GDB gets for its packets.
  \<^item> Mem_Image, Flash_Download, Fuse_Bits (\<^verbatim>\<open>jtag.h\<close>, \<^verbatim>\<open>jtaggeneric.cc\<close>, \<^verbatim>\<open>jtagprog.cc\<close>,
    \<^verbatim>\<open>jtag2prog.cc\<close>): the memory images of a file, programming and verifying page by page, fuses
    and lock bits.
  \<^item> Command_Line, Avarice_Main, Session, Program (\<^verbatim>\<open>main.cc\<close>, with the constructors of
    \<^verbatim>\<open>jtaggeneric.cc\<close>, \<^verbatim>\<open>jtagserial.cc\<close>, \<^verbatim>\<open>jtag2usb.cc\<close>): the options and their checks; greeting,
    requests and the serving of GDB over any driver; the composition of it all, \<open>avarice\<close>.
  \<^item> Usb_Daemon (\<^verbatim>\<open>jtag2usb.cc\<close>): the choice of a USB device and the process that passes bytes between
    the program and the emulator.
\<close>

section \<open>Interfaces\<close>

text \<open>
  \<^item> \<open>code_breakpoints\<close> and \<open>code_breakpoint_set\<close> (Breakpoint_Contract): what a user of a
    breakpoint table relies on; interpreted on the mkI arrays and on the mkII table.
  \<^item> \<open>debug_target\<close> (Debug_Target): every method of a driver keeps its invariant, on normal and on exceptional
    return. The GDB server, the fuses and the session are proved once against it. \<open>code_target\<close>
    adds what the answers to breakpoint packets say; \<open>main_target\<close> (Avarice_Main) extends
    \<open>debug_target\<close> by what \<open>main\<close> needs: that the greeting establishes the invariant, and that
    erasing, programming and the debugging set-up keep it. Each has an interpretation on either driver.
\<close>

section \<open>What the lemmas show\<close>

text \<open>
  \<^item> \<^bold>\<open>Transport.\<close> The table-driven CRC is polynomial division and detects every change in two
    adjacent bytes. A frame sent is the payload received, whatever the chunking and the noise before
    it, as long as that has no start byte; no input makes \<open>recvFrame\<close> leave its buffers; changed frames are
    refused. The packets of GDB arrive in the same way after noise without a dollar; a wrong checksum ends in an
    access outside an object. The USB daemon passes on exactly one frame per read when the first transfer
    reaches its length field, and hangs on a transfer that is longer than its frame.
  \<^item> \<^bold>\<open>Commands.\<close> How often a command is sent, how sequence numbers advance, which answers are accepted, that
    stale frames and events are skipped, that a silent box leads to an exception after ten frames;
    for the mkI that wrong answers are survived and that a command that returns has its own response.
  \<^item> \<^bold>\<open>Memory.\<close> A read of mkII flash in programming mode that starts on a page boundary and misses the cache asks
    for the pages it covers, in order and by their addresses, and returns their bytes; a read of mkI program memory
    asks for the words it covers, in either mode; two faults of the mkII driver are theorems (the second page of an unaligned read, the stale cache).
  \<^item> \<^bold>\<open>Breakpoints.\<close> The tables are never left and stay well-formed. The mkI arrays refine a bounded multiset. The
    mkII table refines a set as long as it holds code breakpoints only and the device has software
    breakpoints; without range breakpoints a layout that reports room gives no hardware slot to two
    breakpoints, and after a download the box holds exactly the enabled ones. Outside these
    conditions the code goes wrong: range breakpoints get the wrong mask, and on a device without software breakpoints
    an addition without room is reported as a success.
  \<^item> \<^bold>\<open>Running.\<close> The mkII event loop has no exit. So a continue is never answered, and a
    server for a JTAG target on a mkII that prepares the target itself never reads from GDB.
  \<^item> \<^bold>\<open>Programming.\<close> The images hold what the sections of the file say, and span them exactly; exactly the needed
    pages are written, in order; verifying flash with the mkI asks for the pages of the image by their
    addresses and returns normally exactly if the target agrees.
  \<^item> \<^bold>\<open>The whole.\<close> Which options \<open>main\<close> goes on with; that a greeted box makes the device known;
    that every run of the program, from any command line and against any box, file and GDB,
    keeps the sizes of its buffers and the validity of its tables, and how it ends.
\<close>

section \<open>Loops and bounds\<close>

text \<open>
  There is no fuel. A loop that counts (the ten tries of a command, the tries of a
  synchronisation, the cells of a page) is a \<open>function\<close> with a measure on its counter, and a
  loop that reads until something comes is a \<open>function\<close> whose measure is the script that
  remains, since a script that is over stands for a silent line or a closed connection and the code then returns. A loop that the
  code may leave never (\<open>event_loop\<close>, reading at end of file, page loops whose address may wrap,
  the loop of \<open>qRavr.io_reg\<close>, the search for a file format, the serving of GDB) is a
  \<open>partial_function (option)\<close>, and the theorems say which calls have a value.
  Sizes are those of the source: messages of at most 100000 bytes, 32 breakpoint entries, 1000000 bytes of an image,
  400 bytes of a GDB buffer.
\<close>

section \<open>Not modelled\<close>

text \<open>
  \<^item> Texts for the console (\<open>debugOut\<close>, \<open>statusOut\<close>, usage, list of parts, the display of fuses), but for those that
    are sent to GDB; formatting of the message of an exception.
  \<^item> System calls have the result that the state or a parameter gives: terminal settings, sockets,
    \<^verbatim>\<open>fork\<close>, \<^verbatim>\<open>accept\<close>, \<^verbatim>\<open>getopt_long\<close>, libbfd, libusb. In \<^verbatim>\<open>jtag2usb.cc\<close> the signal
    handlers that stop the child process are left out.
  \<^item> \<^verbatim>\<open>gnu_getopt.c\<close>, \<^verbatim>\<open>gnu_getopt1.c\<close>: a copy of the GNU library. \<^verbatim>\<open>dwarf.cc\<close>, \<^verbatim>\<open>dwarfnaming.cc\<close>:
    calls of libdwarf that print what they get. \<^verbatim>\<open>js.cc\<close>, \<^verbatim>\<open>jsjtag.cc\<close>, \<^verbatim>\<open>jsbreakpoint.cc\<close>:
    bindings that convert arguments for the SpiderMonkey interpreter and call the methods above.
    \<^verbatim>\<open>tcp.cc\<close>, \<^verbatim>\<open>tcp2.cc\<close>, \<^verbatim>\<open>thread.cc\<close>, \<^verbatim>\<open>console.cc\<close>, \<^verbatim>\<open>terminal-io.cc\<close>, \<^verbatim>\<open>main2.cc\<close>:
    wrappers of sockets, threads and the terminal, and a \<^verbatim>\<open>main\<close> that sets the interpreter up.
  \<^item> Code that is never compiled (\<^verbatim>\<open>#ifdef notyet\<close>, \<^verbatim>\<open>#ifdef GDB_FUNCTIONALITY_XXX\<close>) and
    \<^verbatim>\<open>softBPcache\<close>, which is written and never read.
\<close>

end
